(* ===== verification/Rust_Base.thy ===== *)
theory Rust_Base
  imports Main "HOL-Library.Word" "HOL-Library.FSet"
begin

text \<open>
  The prelude: the machine integers, byte strings, panics and results that every Rust
  module of the repository uses, together with the parts of the Rust standard library that
  the sources call (checked arithmetic, slice indexing, \<^verbatim>\<open>collect\<close> into a
  \<^verbatim>\<open>Result\<close>, big-endian bytes, \<^verbatim>\<open>format!\<close> of integers,
  \<^verbatim>\<open>from_str_radix\<close>, \<^verbatim>\<open>split\<close>, \<^verbatim>\<open>String::from_utf8\<close>),
  the lemmas about them, and the two interface locales for encodings.

  Conventions.  A function that may panic returns \<open>panic + 'a\<close>, one that returns
  \<^verbatim>\<open>Result\<close> returns \<open>error + 'a\<close>, one that may do both nests them with the
  panic outside.  Integer arithmetic panics on overflow, as Rust's overflow checks do;
  \<^verbatim>\<open>as\<close> casts truncate (\<open>ucast\<close>).  A \<^verbatim>\<open>usize\<close> is a \<open>nat\<close>: it only
  counts elements of vectors held in memory, and the subtractions on it that could go
  below zero are checked explicitly.
\<close>

section \<open>Types\<close>

type_synonym byte = "8 word"
type_synonym u16 = "16 word"
type_synonym u32 = "32 word"
type_synonym u64 = "64 word"
type_synonym u128 = "128 word"
type_synonym u256 = "256 word"
type_synonym address = "160 word"
type_synonym hash = "256 word"
type_synonym bytes = "byte list"

text \<open>Why a thread panics.\<close>

datatype (plugins only: code) panic =
    IndexOutOfBounds
  | ArithmeticOverflow
  | UnwrapNone
  | UnwrapErr
  | AssertFailed
  | Unimplemented
  | PolledAfterCompletion
  | EmptyRange

type_synonym 'a run = "panic + 'a"

named_theorems run_simps \<open>evaluation of the panic and result plumbing\<close>

section \<open>Results\<close>

definition and_then :: "'e + 'a \<Rightarrow> ('a \<Rightarrow> 'e + 'b) \<Rightarrow> 'e + 'b" where
  "and_then r f = (case r of Inl e \<Rightarrow> Inl e | Inr x \<Rightarrow> f x)"

lemma and_then_simps [simp, run_simps]:
  "and_then (Inl e) f = Inl e"
  "and_then (Inr x) f = f x"
  by (simp_all add: and_then_def)

lemma and_then_Inr_iff: "and_then r f = Inr y \<longleftrightarrow> (\<exists>x. r = Inr x \<and> f x = Inr y)"
  by (cases r) auto

lemma and_then_Inl_iff:
  "and_then r f = Inl e \<longleftrightarrow> r = Inl e \<or> (\<exists>x. r = Inr x \<and> f x = Inl e)"
  by (cases r) auto

lemma and_then_assoc: "and_then (and_then r f) g = and_then r (\<lambda>x. and_then (f x) g)"
  by (cases r) auto

lemma and_then_cong [fundef_cong]:
  "r = r' \<Longrightarrow> (\<And>x. r' = Inr x \<Longrightarrow> f x = g x) \<Longrightarrow> and_then r f = and_then r' g"
  by (cases r') auto

definition map_ok :: "('a \<Rightarrow> 'b) \<Rightarrow> 'e + 'a \<Rightarrow> 'e + 'b" where
  "map_ok f r = and_then r (\<lambda>x. Inr (f x))"

lemma map_ok_simps [simp, run_simps]:
  "map_ok f (Inl e) = Inl e"
  "map_ok f (Inr x) = Inr (f x)"
  by (simp_all add: map_ok_def)

definition ok_or :: "'e \<Rightarrow> 'a option \<Rightarrow> 'e + 'a" where
  "ok_or e v = (case v of None \<Rightarrow> Inl e | Some x \<Rightarrow> Inr x)"

lemma ok_or_simps [simp, run_simps]:
  "ok_or e None = Inl e"
  "ok_or e (Some x) = Inr x"
  by (simp_all add: ok_or_def)

text \<open>\<^verbatim>\<open>iter.map(f).collect::<Result<Vec<_>, _>>()\<close>: the first error, or all values.\<close>

fun traverse :: "('a \<Rightarrow> 'e + 'b) \<Rightarrow> 'a list \<Rightarrow> 'e + 'b list" where
  "traverse f [] = Inr []"
| "traverse f (x # xs) = and_then (f x) (\<lambda>y. and_then (traverse f xs) (\<lambda>ys. Inr (y # ys)))"

lemma traverse_Inr: "(\<And>x. x \<in> set xs \<Longrightarrow> f x = Inr (g x)) \<Longrightarrow> traverse f xs = Inr (map g xs)"
  by (induction xs) auto

lemma traverse_length: "traverse f xs = Inr ys \<Longrightarrow> length ys = length xs"
  by (induction xs arbitrary: ys) (auto simp: and_then_Inr_iff)

lemma traverse_Inl_ex: "traverse f xs = Inl e \<Longrightarrow> \<exists>x \<in> set xs. f x = Inl e"
  by (induction xs) (auto simp: and_then_Inl_iff)

section \<open>Indexing and checked arithmetic\<close>

definition index_at :: "'a list \<Rightarrow> nat \<Rightarrow> 'a run" where
  "index_at xs i = (if i < length xs then Inr (xs ! i) else Inl IndexOutOfBounds)"

lemma index_at_ok [simp, run_simps]: "i < length xs \<Longrightarrow> index_at xs i = Inr (xs ! i)"
  by (simp add: index_at_def)

lemma index_at_panic [simp, run_simps]: "length xs \<le> i \<Longrightarrow> index_at xs i = Inl IndexOutOfBounds"
  by (simp add: index_at_def)

text \<open>\<^verbatim>\<open>xs[i] = x\<close>, \<^verbatim>\<open>Vec::remove(0)\<close>.\<close>

definition set_at :: "nat \<Rightarrow> 'a \<Rightarrow> 'a list \<Rightarrow> 'a list run" where
  "set_at i x xs = (if i < length xs then Inr (xs[i := x]) else Inl IndexOutOfBounds)"

lemma set_at_ok [simp, run_simps]: "i < length xs \<Longrightarrow> set_at i x xs = Inr (xs[i := x])"
  by (simp add: set_at_def)

definition remove_front :: "'a list \<Rightarrow> ('a \<times> 'a list) run" where
  "remove_front xs = (case xs of [] \<Rightarrow> Inl IndexOutOfBounds | x # ys \<Rightarrow> Inr (x, ys))"

lemma remove_front_simps [simp, run_simps]:
  "remove_front [] = Inl IndexOutOfBounds"
  "remove_front (x # xs) = Inr (x, xs)"
  by (simp_all add: remove_front_def)

definition sub_usize :: "nat \<Rightarrow> nat \<Rightarrow> nat run" where
  "sub_usize a b = (if b \<le> a then Inr (a - b) else Inl ArithmeticOverflow)"

lemma sub_usize_simps [simp, run_simps]:
  "b \<le> a \<Longrightarrow> sub_usize a b = Inr (a - b)"
  "a < b \<Longrightarrow> sub_usize a b = Inl ArithmeticOverflow"
  by (simp_all add: sub_usize_def)

lemma unat_ucast: "unat (ucast (w :: 'a::len word) :: 'b::len word) = unat w mod 2 ^ LENGTH('b)"
  by (simp add: unsigned_ucast_eq take_bit_eq_mod)

lemma unat_ucast_widen:
  assumes "LENGTH('a) \<le> LENGTH('b)"
  shows "unat (ucast (w :: 'a::len word) :: 'b::len word) = unat w"
proof -
  have "unat w < 2 ^ LENGTH('a)" by (rule unsigned_less)
  also have "\<dots> \<le> 2 ^ LENGTH('b)" using assms by (rule power_increasing) simp
  finally show ?thesis by (simp add: unat_ucast)
qed

definition checked_add :: "'a::len word \<Rightarrow> 'a word \<Rightarrow> 'a word run" where
  "checked_add a b =
     (if unat a + unat b < 2 ^ LENGTH('a) then Inr (a + b) else Inl ArithmeticOverflow)"

definition checked_sub :: "'a::len word \<Rightarrow> 'a word \<Rightarrow> 'a word run" where
  "checked_sub a b = (if b \<le> a then Inr (a - b) else Inl ArithmeticOverflow)"

lemma checked_add_unat:
  "checked_add a b = Inr (c :: 'a::len word) \<Longrightarrow> unat c = unat a + unat b"
  by (auto simp: checked_add_def unat_word_ariths split: if_splits)

lemma checked_sub_unat:
  "checked_sub a b = Inr (c :: 'a::len word) \<Longrightarrow> unat c = unat a - unat b \<and> unat b \<le> unat a"
  by (auto simp: checked_sub_def unat_sub word_le_nat_alt split: if_splits)

lemma checked_add_sub:
  "checked_add a b = Inr (c :: 'a::len word) \<Longrightarrow> checked_sub c b = Inr a"
proof -
  assume c: "checked_add a b = Inr c"
  then have "unat c = unat a + unat b" by (rule checked_add_unat)
  moreover have "c - b = a" using c by (auto simp: checked_add_def split: if_splits)
  ultimately show ?thesis by (simp add: checked_sub_def word_le_nat_alt)
qed

section \<open>Big-endian bytes\<close>

definition be_bytes :: "nat \<Rightarrow> 'a::len word \<Rightarrow> bytes" where
  "be_bytes n w = map (\<lambda>i. ucast (drop_bit (8 * (n - 1 - i)) w)) [0..<n]"

lemma length_be_bytes [simp]: "length (be_bytes n w) = n"
  by (simp add: be_bytes_def)

lemma be_bytes_inj:
  fixes v w :: "'a::len word"
  assumes n: "LENGTH('a) \<le> 8 * n" and eq: "be_bytes n v = be_bytes n w"
  shows "v = w"
proof (rule bit_word_eqI)
  fix k assume k: "k < LENGTH('a)"
  define i where "i = n - 1 - k div 8"
  have kn: "k div 8 < n" using k n by auto
  have i: "i < n" and bk: "n - 1 - i = k div 8" using kn by (auto simp: i_def)
  have "be_bytes n v ! i = be_bytes n w ! i" using eq by simp
  then have "ucast (drop_bit (8 * (k div 8)) v) = (ucast (drop_bit (8 * (k div 8)) w) :: byte)"
    using i bk by (simp add: be_bytes_def)
  then have "bit (ucast (drop_bit (8 * (k div 8)) v) :: byte) (k mod 8)
           = bit (ucast (drop_bit (8 * (k div 8)) w) :: byte) (k mod 8)"
    by simp
  then show "bit v k = bit w k"
    by (simp add: bit_ucast_iff bit_drop_bit_eq)
qed

lemma be_bytes_surj:
  assumes "LENGTH('a::len) = 8 * n" "length bs = n"
  shows "\<exists>w :: 'a word. be_bytes n w = bs"
proof -
  let ?L = "{xs :: bytes. set xs \<subseteq> UNIV \<and> length xs = n}"
  have "card ?L = card (UNIV :: byte set) ^ n" by (rule card_lists_length_eq) simp
  also have "\<dots> = 2 ^ LENGTH('a)" by (simp add: card_word assms(1) power_mult)
  also have "\<dots> = card (range (be_bytes n :: 'a word \<Rightarrow> bytes))"
  proof -
    have "inj (be_bytes n :: 'a word \<Rightarrow> bytes)" by (rule injI, rule be_bytes_inj) (simp_all add: assms(1))
    then show ?thesis by (simp add: card_image card_word)
  qed
  finally have "range (be_bytes n :: 'a word \<Rightarrow> bytes) = ?L"
    by (intro card_subset_eq finite_lists_length_eq) auto
  then have "bs \<in> range (be_bytes n :: 'a word \<Rightarrow> bytes)" using assms(2) by simp
  then show ?thesis by auto
qed

text \<open>
  The interface of a fixed-width encoding: every value becomes exactly \<open>width\<close> bytes and
  none is lost.  Such encodings can be concatenated in front of or behind other bytes and
  still be read off, which is what makes the preimages of the hashes in the repository
  unambiguous.
\<close>

locale fixed_width =
  fixes enc :: "'a \<Rightarrow> bytes"
    and width :: nat
  assumes length_enc: "length (enc x) = width"
    and enc_inj: "enc x = enc y \<Longrightarrow> x = y"
begin

lemma prefix_inj: "enc x @ xs = enc y @ ys \<Longrightarrow> x = y \<and> xs = ys"
  using append_eq_append_conv [of "enc x" "enc y" xs ys] by (auto simp: length_enc dest: enc_inj)

lemma suffix_inj: "xs @ enc x = ys @ enc y \<Longrightarrow> x = y \<and> xs = ys"
  using append_eq_append_conv [of xs ys "enc x" "enc y"] by (auto simp: length_enc dest: enc_inj)

lemma enc_eq_iff: "enc x = enc y \<longleftrightarrow> x = y"
  by (auto dest: enc_inj)

end

interpretation be_u64: fixed_width "be_bytes 8 :: u64 \<Rightarrow> bytes" 8
  by unfold_locales (auto intro: be_bytes_inj)

interpretation be_u128: fixed_width "be_bytes 16 :: u128 \<Rightarrow> bytes" 16
  by unfold_locales (auto intro: be_bytes_inj)

interpretation be_address: fixed_width "be_bytes 20 :: address \<Rightarrow> bytes" 20
  by unfold_locales (auto intro: be_bytes_inj)

interpretation be_hash: fixed_width "be_bytes 32 :: hash \<Rightarrow> bytes" 32
  by unfold_locales (auto intro: be_bytes_inj)

section \<open>Round trips\<close>

text \<open>
  The interface of a serialiser and its parser: what is written from a valid value is read
  back as that value.
\<close>

locale round_trip =
  fixes valid :: "'a \<Rightarrow> bool"
    and encode :: "'a \<Rightarrow> 'b"
    and decode :: "'b \<Rightarrow> 'e + 'a"
  assumes decode_encode: "valid x \<Longrightarrow> decode (encode x) = Inr x"
begin

lemma encode_inj: "valid x \<Longrightarrow> valid y \<Longrightarrow> encode x = encode y \<Longrightarrow> x = y"
proof -
  assume x: "valid x" and y: "valid y" and eq: "encode x = encode y"
  have "Inr x = (Inr y :: 'e + 'a)"
    unfolding decode_encode [OF x, symmetric] decode_encode [OF y, symmetric] eq ..
  then show "x = y" by simp
qed

lemma decode_encode_list: "list_all valid xs \<Longrightarrow> traverse decode (map encode xs) = Inr xs"
  by (induction xs) (auto simp: decode_encode)

end

end
