(* ===== verification/Rust_Text.thy ===== *)
theory Rust_Text
  imports Rust_Base
begin

text \<open>
  The string functions of the Rust standard library that the sources use: \<^verbatim>\<open>format!\<close>
  of integers in decimal and lower-case hexadecimal, \<^verbatim>\<open>from_str_radix\<close> and
  \<^verbatim>\<open>parse\<close>, \<^verbatim>\<open>strip_prefix\<close>, \<^verbatim>\<open>split\<close> at a character,
  \<^verbatim>\<open>join\<close>, \<^verbatim>\<open>into_bytes\<close> and \<^verbatim>\<open>String::from_utf8\<close>.
  A Rust string is its UTF-8 bytes, one \<open>char\<close> per byte.
\<close>

section \<open>Digits\<close>

definition digit_char :: "nat \<Rightarrow> char" where
  "digit_char d = (if d < 10 then char_of (48 + d) else char_of (87 + d))"

definition digit_val :: "nat \<Rightarrow> char \<Rightarrow> nat option" where
  "digit_val radix c =
     (let k = (of_char c :: nat);
          d = (if 48 \<le> k \<and> k \<le> 57 then k - 48
               else if 97 \<le> k \<and> k \<le> 122 then k - 87
               else if 65 \<le> k \<and> k \<le> 90 then k - 55
               else radix)
      in if d < radix then Some d else None)"

lemma of_char_digit_char:
  "d < 36 \<Longrightarrow> (of_char (digit_char d) :: nat) = (if d < 10 then 48 + d else 87 + d)"
  by (simp add: digit_char_def)

lemma digit_val_digit_char [simp]:
  "d < radix \<Longrightarrow> radix \<le> 36 \<Longrightarrow> digit_val radix (digit_char d) = Some d"
  by (simp add: digit_val_def of_char_digit_char Let_def)

lemma digit_char_sep:
  assumes "d < 36"
  shows "digit_char d \<noteq> CHR ''+''" "digit_char d \<noteq> CHR ''-''" "digit_char d \<noteq> CHR '']''"
    "digit_char d \<noteq> CHR ''|''" "digit_char d \<noteq> CHR ''[''" "digit_char d \<noteq> CHR ''.''"
proof -
  have ne: "digit_char d \<noteq> c" if "(of_char c :: nat) < 48 \<or> 90 < (of_char c :: nat) \<and> (of_char c :: nat) < 97 \<or> 122 < (of_char c :: nat)" for c
    using that of_char_digit_char [OF assms] assms by (auto split: if_splits)
  show "digit_char d \<noteq> CHR ''+''" "digit_char d \<noteq> CHR ''-''" "digit_char d \<noteq> CHR '']''"
    "digit_char d \<noteq> CHR ''|''" "digit_char d \<noteq> CHR ''[''" "digit_char d \<noteq> CHR ''.''"
    by (rule ne; simp)+
qed

lemma digit_char_not_x: "d < 33 \<Longrightarrow> digit_char d \<noteq> CHR ''x''"
  using of_char_digit_char [of d] by (auto split: if_splits)

section \<open>Printing and parsing unsigned integers\<close>

text \<open>\<^verbatim>\<open>{}\<close> is radix 10 and \<^verbatim>\<open>{:x}\<close> radix 16: no leading zeros.\<close>

function show_radix :: "nat \<Rightarrow> nat \<Rightarrow> string" where
  "show_radix radix n =
     (if radix < 2 \<or> n < radix then [digit_char n]
      else show_radix radix (n div radix) @ [digit_char (n mod radix)])"
  by pat_completeness auto
termination
  by (relation "measure snd") auto

declare show_radix.simps [simp del]

abbreviation show_nat :: "nat \<Rightarrow> string" where
  "show_nat \<equiv> show_radix 10"

abbreviation show_hex :: "nat \<Rightarrow> string" where
  "show_hex \<equiv> show_radix 16"

text \<open>
  \<^verbatim>\<open>from_str_radix\<close> of an unsigned type with largest value \<open>max_val\<close>: an optional plus
  sign, at least one digit, and no step beyond \<open>max_val\<close>.
\<close>

fun parse_digits :: "nat \<Rightarrow> nat \<Rightarrow> nat \<Rightarrow> string \<Rightarrow> nat option" where
  "parse_digits max_val radix acc [] = Some acc"
| "parse_digits max_val radix acc (c # cs) =
     (case digit_val radix c of
        None \<Rightarrow> None
      | Some d \<Rightarrow>
          if acc * radix + d \<le> max_val then parse_digits max_val radix (acc * radix + d) cs
          else None)"

definition from_str_radix :: "nat \<Rightarrow> nat \<Rightarrow> string \<Rightarrow> nat option" where
  "from_str_radix max_val radix s =
     (let body = (case s of c # cs \<Rightarrow> if c = CHR ''+'' then cs else s | [] \<Rightarrow> [])
      in if body = [] then None else parse_digits max_val radix 0 body)"

lemma parse_digits_append:
  "parse_digits m r acc (xs @ ys) =
     (case parse_digits m r acc xs of None \<Rightarrow> None | Some a \<Rightarrow> parse_digits m r a ys)"
  by (induction xs arbitrary: acc) (auto split: option.splits)

lemma parse_digits_show_radix:
  "2 \<le> radix \<Longrightarrow> radix \<le> 36 \<Longrightarrow> n \<le> m \<Longrightarrow> parse_digits m radix 0 (show_radix radix n) = Some n"
proof (induction radix n rule: show_radix.induct)
  case (1 radix n)
  show ?case
  proof (cases "n < radix")
    case True
    with 1 show ?thesis by (simp add: show_radix.simps [of radix n])
  next
    case False
    have "n div radix \<le> m" using 1 by (meson div_le_dividend le_trans)
    with 1 False have "parse_digits m radix 0 (show_radix radix (n div radix)) = Some (n div radix)"
      by simp
    moreover have "n div radix * radix + n mod radix = n" by simp
    ultimately show ?thesis
      using 1 False by (simp add: show_radix.simps [of radix n] parse_digits_append)
  qed
qed

lemma show_radix_chars:
  "2 \<le> radix \<Longrightarrow> c \<in> set (show_radix radix n) \<Longrightarrow> \<exists>d < radix. c = digit_char d"
proof (induction radix n rule: show_radix.induct)
  case (1 radix n)
  show ?case
  proof (cases "n < radix")
    case True
    with 1 show ?thesis by (auto simp: show_radix.simps [of radix n])
  next
    case False
    with 1 have "c \<in> set (show_radix radix (n div radix)) \<or> c = digit_char (n mod radix)"
      by (auto simp: show_radix.simps [of radix n])
    then show ?thesis
    proof
      assume "c \<in> set (show_radix radix (n div radix))"
      with 1 False show ?thesis by simp
    next
      assume "c = digit_char (n mod radix)"
      moreover have "n mod radix < radix" using 1(2) by simp
      ultimately show ?thesis by metis
    qed
  qed
qed

lemma show_radix_nonempty [simp]: "show_radix radix n \<noteq> []"
  by (subst show_radix.simps) auto

lemma show_radix_head:
  assumes "2 \<le> radix" "show_radix radix n = c # cs"
  shows "\<exists>d < radix. c = digit_char d"
  using show_radix_chars [OF assms(1), of c n] assms(2) by simp

lemma from_str_radix_show:
  assumes "2 \<le> radix" "radix \<le> 36" "n \<le> m"
  shows "from_str_radix m radix (show_radix radix n) = Some n"
proof -
  obtain c cs where s: "show_radix radix n = c # cs"
    using show_radix_nonempty [of radix n] by (cases "show_radix radix n") auto
  obtain d where "d < radix" "c = digit_char d" using show_radix_head [OF assms(1) s] by auto
  then have "c \<noteq> CHR ''+''" using digit_char_sep(1) [of d] assms(2) by simp
  with s parse_digits_show_radix [OF assms] show ?thesis
    by (simp add: from_str_radix_def)
qed

lemma parse_digits_bound: "acc \<le> m \<Longrightarrow> parse_digits m r acc s = Some v \<Longrightarrow> v \<le> m"
  by (induction s arbitrary: acc) (auto split: option.splits if_splits)

lemma from_str_radix_bound: "from_str_radix m r s = Some v \<Longrightarrow> v \<le> m"
  by (auto simp: from_str_radix_def Let_def split: if_splits dest: parse_digits_bound [rotated])

text \<open>Decimal and hexadecimal printing are read back by the parser of the same radix.\<close>

interpretation decimal: round_trip "\<lambda>n. n \<le> max_val" show_nat
    "\<lambda>s. ok_or () (from_str_radix max_val 10 s)" for max_val
  by unfold_locales (simp add: from_str_radix_show)

interpretation hexadecimal: round_trip "\<lambda>n. n \<le> max_val" show_hex
    "\<lambda>s. ok_or () (from_str_radix max_val 16 s)" for max_val
  by unfold_locales (simp add: from_str_radix_show)

lemma show_nat_inj: "show_nat m = show_nat n \<Longrightarrow> m = n"
  using decimal.encode_inj [of m "max m n" n] by simp

lemma show_nat_sep:
  "CHR '']'' \<notin> set (show_nat n)" "CHR ''['' \<notin> set (show_nat n)"
  "CHR ''.'' \<notin> set (show_nat n)" "CHR ''|'' \<notin> set (show_nat n)"
proof -
  have "c \<notin> set (show_nat n)" if "\<And>d. d < 36 \<Longrightarrow> digit_char d \<noteq> c" for c
  proof
    assume "c \<in> set (show_nat n)"
    then obtain d where "d < 10" "c = digit_char d" using show_radix_chars [of 10 c n] by auto
    with that [of d] show False by simp
  qed
  then show "CHR '']'' \<notin> set (show_nat n)" "CHR ''['' \<notin> set (show_nat n)"
    "CHR ''.'' \<notin> set (show_nat n)" "CHR ''|'' \<notin> set (show_nat n)"
    using digit_char_sep by blast+
qed

section \<open>Prefixes, splitting and joining\<close>

definition strip_prefix :: "string \<Rightarrow> string \<Rightarrow> string option" where
  "strip_prefix p s = (if take (length p) s = p then Some (drop (length p) s) else None)"

text \<open>\<^verbatim>\<open>trim_start_matches\<close> removes the prefix as often as it is there.\<close>

function trim_start_matches :: "string \<Rightarrow> string \<Rightarrow> string" where
  "trim_start_matches p s =
     (if p \<noteq> [] \<and> take (length p) s = p then trim_start_matches p (drop (length p) s) else s)"
  by pat_completeness auto
termination
proof (relation "measure (\<lambda>(p, s). length s)", simp, clarify)
  fix p s :: string
  assume "p \<noteq> []" "take (length p) s = p"
  then have "s \<noteq> []" by auto
  with \<open>p \<noteq> []\<close> show "((p, drop (length p) s), p, s) \<in> measure (\<lambda>(p, s). length s)" by simp
qed

declare trim_start_matches.simps [simp del]

fun split_on :: "char \<Rightarrow> string \<Rightarrow> string list" where
  "split_on c [] = [[]]"
| "split_on c (x # xs) =
     (if x = c then [] # split_on c xs
      else case split_on c xs of [] \<Rightarrow> [[x]] | y # ys \<Rightarrow> (x # y) # ys)"

lemma split_on_nonempty [simp]: "split_on c s \<noteq> []"
  by (induction s) (auto split: list.splits)

lemma split_on_no_sep: "c \<notin> set s \<Longrightarrow> split_on c s = [s]"
  by (induction s) auto

lemma split_on_sep: "c \<notin> set s \<Longrightarrow> split_on c (s @ c # t) = s # split_on c t"
  by (induction s) auto

lemma split_on_length: "length (split_on c s) = Suc (count_list s c)"
  by (induction s) (auto split: list.splits)

fun join_with :: "string \<Rightarrow> string list \<Rightarrow> string" where
  "join_with sep [] = []"
| "join_with sep [s] = s"
| "join_with sep (s # t # ts) = s @ sep @ join_with sep (t # ts)"

section \<open>Strings as bytes\<close>

definition str_bytes :: "string \<Rightarrow> bytes" where
  "str_bytes s = map of_char s"

definition bytes_str :: "bytes \<Rightarrow> string" where
  "bytes_str bs = map (\<lambda>b. char_of (unat b)) bs"

lemma unat_of_char [simp]: "unat (of_char c :: byte) = of_char c"
proof -
  have "(of_char c :: byte) = of_nat (of_char c)" by (simp only: of_nat_of_char)
  then show ?thesis by (simp add: unat_of_nat)
qed

lemma bytes_str_str_bytes [simp]: "bytes_str (str_bytes s) = s"
  by (simp add: bytes_str_def str_bytes_def comp_def)

lemma str_bytes_inj: "str_bytes s = str_bytes t \<Longrightarrow> s = t"
  by (metis bytes_str_str_bytes)

lemma length_str_bytes [simp]: "length (str_bytes s) = length s"
  by (simp add: str_bytes_def)

lemma str_bytes_empty [simp]: "str_bytes s = [] \<longleftrightarrow> s = []"
  by (simp add: str_bytes_def)

text \<open>Well-formed UTF-8, as the standard's table of byte sequences has it.\<close>

definition utf8_cont :: "byte \<Rightarrow> bool" where
  "utf8_cont b \<longleftrightarrow> 0x80 \<le> b \<and> b \<le> 0xBF"

definition utf8_second :: "byte \<Rightarrow> byte \<Rightarrow> bool" where
  "utf8_second b1 b2 \<longleftrightarrow>
     (if b1 = 0xE0 then 0xA0 \<le> b2 \<and> b2 \<le> 0xBF
      else if b1 = 0xED then 0x80 \<le> b2 \<and> b2 \<le> 0x9F
      else if b1 = 0xF0 then 0x90 \<le> b2 \<and> b2 \<le> 0xBF
      else if b1 = 0xF4 then 0x80 \<le> b2 \<and> b2 \<le> 0x8F
      else utf8_cont b2)"

fun utf8_valid :: "bytes \<Rightarrow> bool" where
  "utf8_valid [] = True"
| "utf8_valid (b1 # r) =
     (if b1 \<le> 0x7F then utf8_valid r
      else if 0xC2 \<le> b1 \<and> b1 \<le> 0xDF then
        (case r of b2 # r' \<Rightarrow> utf8_cont b2 \<and> utf8_valid r' | _ \<Rightarrow> False)
      else if 0xE0 \<le> b1 \<and> b1 \<le> 0xEF then
        (case r of b2 # b3 # r' \<Rightarrow> utf8_second b1 b2 \<and> utf8_cont b3 \<and> utf8_valid r' | _ \<Rightarrow> False)
      else if 0xF0 \<le> b1 \<and> b1 \<le> 0xF4 then
        (case r of b2 # b3 # b4 # r' \<Rightarrow>
           utf8_second b1 b2 \<and> utf8_cont b3 \<and> utf8_cont b4 \<and> utf8_valid r' | _ \<Rightarrow> False)
      else False)"

text \<open>Every Rust \<^verbatim>\<open>String\<close> satisfies this.\<close>

definition rust_string :: "string \<Rightarrow> bool" where
  "rust_string s \<longleftrightarrow> utf8_valid (str_bytes s)"

datatype (plugins only: code) utf8_error = FromUtf8Error bytes

definition from_utf8 :: "bytes \<Rightarrow> utf8_error + string" where
  "from_utf8 bs = (if utf8_valid bs then Inr (bytes_str bs) else Inl (FromUtf8Error bs))"

interpretation utf8: round_trip rust_string str_bytes from_utf8
  by unfold_locales (simp add: from_utf8_def rust_string_def)

lemma of_char_char_of_unat [simp]: "(of_char (char_of (unat b)) :: byte) = b"
proof -
  have "(of_char (char_of (unat b)) :: byte) = of_nat (of_char (char_of (unat b)))"
    by (simp only: of_nat_of_char)
  also have "\<dots> = of_nat (unat b mod 256)" by (simp only: of_char_of)
  also have "unat b mod 256 = unat b" using unsigned_less [of b, where ?'a = nat] by simp
  finally show ?thesis by simp
qed

lemma str_bytes_bytes_str [simp]: "str_bytes (bytes_str bs) = bs"
  by (simp add: str_bytes_def bytes_str_def comp_def)

lemma from_utf8_rust_string: "from_utf8 bs = Inr s \<Longrightarrow> rust_string s \<and> str_bytes s = bs"
  by (auto simp: from_utf8_def rust_string_def split: if_splits)

end
