(* ===== verification/Time_Model.thy ===== *)
theory Time_Model
  imports Rust_Text
begin

text \<open>
  \<^verbatim>\<open>types/src/time.rs\<close>: timestamps in microseconds held in a \<^verbatim>\<open>u128\<close>, their
  conversions to seconds, to \<^verbatim>\<open>SystemTime\<close> and from the block tags and hexadecimal
  seconds of the RPC interface, their arithmetic, and the mock clock.  The standard library's
  \<^verbatim>\<open>Duration\<close> is a record of seconds and nanoseconds, its \<^verbatim>\<open>SystemTime\<close> the
  number of nanoseconds since the epoch (negative before it); the reading of the system
  clock is an argument.
\<close>

section \<open>Timestamps\<close>

datatype (plugins only: code) timestamp = Timestamp (timestamp_0: u128)

text \<open>\<^verbatim>\<open>derive(PartialOrd, Ord)\<close>: ordered by the only field.\<close>

instantiation timestamp :: linorder
begin

definition less_eq_timestamp :: "timestamp \<Rightarrow> timestamp \<Rightarrow> bool" where
  "less_eq_timestamp s t \<longleftrightarrow> timestamp_0 s \<le> timestamp_0 t"

definition less_timestamp :: "timestamp \<Rightarrow> timestamp \<Rightarrow> bool" where
  "less_timestamp s t \<longleftrightarrow> timestamp_0 s < timestamp_0 t"

instance
  by standard (auto simp: less_eq_timestamp_def less_timestamp_def intro: timestamp.expand)

end

definition timestamp_max :: timestamp where
  "timestamp_max = Timestamp (- 1)"

definition timestamp_zero :: timestamp where
  "timestamp_zero = Timestamp 0"

definition as_micros :: "timestamp \<Rightarrow> u128" where
  "as_micros t = timestamp_0 t"

definition as_seconds :: "timestamp \<Rightarrow> u128" where
  "as_seconds t = timestamp_0 t div 1000000"

definition from_micros :: "u128 \<Rightarrow> timestamp" where
  "from_micros micros = Timestamp micros"

definition from_micros_u64 :: "u64 \<Rightarrow> timestamp" where
  "from_micros_u64 micros = Timestamp (ucast micros)"

definition from_seconds :: "u64 \<Rightarrow> timestamp" where
  "from_seconds seconds = Timestamp (ucast seconds * 1000000)"

definition timestamp_display :: "timestamp \<Rightarrow> string" where
  "timestamp_display t = show_nat (unat (timestamp_0 t))"

lemma unat_from_seconds: "unat (timestamp_0 (from_seconds s)) = unat s * 1000000"
proof -
  have "unat s * 1000000 < 2 ^ 64 * (1000000 :: nat)"
    using unsigned_less [of s, where ?'a = nat] by simp
  also have "\<dots> < 2 ^ 128" by simp
  finally have "unat s * 1000000 < 2 ^ 128" .
  then show ?thesis
    by (simp add: from_seconds_def unat_word_ariths unat_ucast_widen)
qed

lemma as_seconds_from_seconds: "as_seconds (from_seconds s) = ucast s"
proof -
  have "unat (as_seconds (from_seconds s)) = unat s"
    by (simp add: as_seconds_def unat_div unat_from_seconds)
  then show ?thesis
    by (simp add: word_unat_eq_iff unat_ucast_widen)
qed

section \<open>The clock and \<^verbatim>\<open>SystemTime\<close>\<close>

type_synonym system_time = int

text \<open>\<^verbatim>\<open>impl From<SystemTime> for Timestamp\<close>; panics before the epoch.\<close>

definition timestamp_from_system_time :: "system_time \<Rightarrow> timestamp run" where
  "timestamp_from_system_time value =
     (if value < 0 then Inl UnwrapErr
      else Inr (from_micros (of_int (value div 1000))))"

text \<open>\<^verbatim>\<open>impl From<Timestamp> for SystemTime\<close>; the cast to \<^verbatim>\<open>u64\<close> truncates.\<close>

definition system_time_from_timestamp :: "timestamp \<Rightarrow> system_time" where
  "system_time_from_timestamp value = uint (ucast (as_micros value) :: u64) * 1000"

text \<open>\<^verbatim>\<open>Timestamp::now\<close> and \<^verbatim>\<open>SystemClock::now\<close>, on the clock's reading.\<close>

definition timestamp_now :: "system_time \<Rightarrow> timestamp run" where
  "timestamp_now clock = timestamp_from_system_time clock"

section \<open>Durations and arithmetic\<close>

record duration =
  dur_secs :: u64
  dur_nanos :: u32

definition dur_from_secs :: "u64 \<Rightarrow> duration" where
  "dur_from_secs s = \<lparr>dur_secs = s, dur_nanos = 0\<rparr>"

definition dur_as_micros :: "duration \<Rightarrow> u128" where
  "dur_as_micros d = ucast (dur_secs d) * 1000000 + ucast (dur_nanos d div 1000)"

definition timestamp_sub_duration :: "timestamp \<Rightarrow> duration \<Rightarrow> timestamp run" where
  "timestamp_sub_duration t rhs = map_ok Timestamp (checked_sub (timestamp_0 t) (dur_as_micros rhs))"

definition timestamp_sub :: "timestamp \<Rightarrow> timestamp \<Rightarrow> timestamp run" where
  "timestamp_sub t rhs = map_ok from_micros (checked_sub (timestamp_0 t) (timestamp_0 rhs))"

definition timestamp_add_duration :: "timestamp \<Rightarrow> duration \<Rightarrow> timestamp run" where
  "timestamp_add_duration t rhs = map_ok Timestamp (checked_add (timestamp_0 t) (dur_as_micros rhs))"

lemma add_duration_then_sub:
  "timestamp_add_duration t d = Inr t' \<Longrightarrow> timestamp_sub_duration t' d = Inr t"
  by (auto simp: timestamp_add_duration_def timestamp_sub_duration_def map_ok_def and_then_Inr_iff
      dest: checked_add_sub)

lemma sub_duration_panics_iff:
  "timestamp_sub_duration t d = Inl e \<longleftrightarrow> e = ArithmeticOverflow \<and> timestamp_0 t < dur_as_micros d"
  by (auto simp: timestamp_sub_duration_def checked_sub_def not_le)

lemma add_duration_mono:
  "timestamp_add_duration t d = Inr t' \<Longrightarrow> t \<le> t'"
  by (auto simp: timestamp_add_duration_def map_ok_def and_then_Inr_iff less_eq_timestamp_def
      word_le_nat_alt dest: checked_add_unat)

section \<open>Parsing block tags and hexadecimal seconds\<close>

datatype (plugins only: code) timestamp_error = InvalidHexString string

definition u64_max :: nat where
  "u64_max = 2 ^ 64 - 1"

definition strip_0x :: "string \<Rightarrow> string" where
  "strip_0x s = (case strip_prefix ''0x'' s of Some r \<Rightarrow> r | None \<Rightarrow> s)"

definition from_hex_seconds_str ::
    "system_time \<Rightarrow> string \<Rightarrow> (timestamp_error + timestamp) run" where
  "from_hex_seconds_str clock s =
     (if s = ''earliest'' then Inr (Inr timestamp_zero)
      else if s = ''latest'' \<or> s = ''finalized'' then map_ok Inr (timestamp_now clock)
      else if s = ''pending'' then map_ok Inr (timestamp_now clock)
      else Inr
        (case from_str_radix u64_max 16 (strip_0x s) of
           Some n \<Rightarrow> Inr (from_seconds (of_nat n))
         | None \<Rightarrow> Inl (InvalidHexString s)))"

text \<open>A printed hexadecimal number is none of the tags and has no prefix to strip.\<close>

lemma show_hex_head_digit: "show_hex n = c # cs \<Longrightarrow> \<exists>d < 16. c = digit_char d"
  by (rule show_radix_head) simp_all

lemma show_hex_no_char:
  "c \<in> set (show_hex n) \<Longrightarrow> (of_char c :: nat) < 103"
  using show_radix_chars [of 16 c n] by (auto simp: of_char_digit_char)

lemma show_hex_not_tag:
  "show_hex n \<noteq> ''earliest''" "show_hex n \<noteq> ''latest''" "show_hex n \<noteq> ''finalized''"
  "show_hex n \<noteq> ''pending''" "show_hex n \<noteq> ''''"
proof -
  have "show_hex n \<noteq> s" if "\<exists>c \<in> set s. \<not> (of_char c :: nat) < 103" for s
    using that show_hex_no_char [of _ n] by auto
  then show "show_hex n \<noteq> ''earliest''" "show_hex n \<noteq> ''latest''" "show_hex n \<noteq> ''finalized''"
    "show_hex n \<noteq> ''pending''" "show_hex n \<noteq> ''''"
    by simp_all
qed

lemma show_hex_strip_0x [simp]: "strip_0x (show_hex n) = show_hex n"
proof (cases "strip_prefix ''0x'' (show_hex n)")
  case (Some r)
  then have "take 2 (show_hex n) = ''0x''" by (simp add: strip_prefix_def numeral_2_eq_2 split: if_splits)
  then have "CHR ''x'' \<in> set (show_hex n)" by (metis in_set_takeD list.set_intros)
  then have "(of_char CHR ''x'' :: nat) < 103" by (rule show_hex_no_char)
  then show ?thesis by simp
qed (simp add: strip_0x_def)

lemma strip_0x_prefixed [simp]: "strip_0x (''0x'' @ s) = s"
  by (simp add: strip_0x_def strip_prefix_def)

lemma from_hex_seconds_str_hex:
  assumes "n \<le> u64_max"
  shows "from_hex_seconds_str clock (show_hex n) = Inr (Inr (from_seconds (of_nat n)))"
    and "from_hex_seconds_str clock (''0x'' @ show_hex n) = Inr (Inr (from_seconds (of_nat n)))"
  using assms strip_0x_prefixed [of "show_hex n"]
  by (simp_all add: from_hex_seconds_str_def show_hex_not_tag from_str_radix_show)

section \<open>The mock clock\<close>

record mock_clock =
  mock_time :: timestamp

definition mock_new :: "timestamp \<Rightarrow> mock_clock" where
  "mock_new time = \<lparr>mock_time = time\<rparr>"

definition mock_set_time :: "timestamp \<Rightarrow> mock_clock \<Rightarrow> mock_clock" where
  "mock_set_time time c = c\<lparr>mock_time := time\<rparr>"

definition mock_advance :: "duration \<Rightarrow> mock_clock \<Rightarrow> mock_clock run" where
  "mock_advance d c = map_ok (\<lambda>t. c\<lparr>mock_time := t\<rparr>) (timestamp_add_duration (mock_time c) d)"

definition mock_now :: "mock_clock \<Rightarrow> timestamp" where
  "mock_now c = mock_time c"

fun mock_advance_all :: "duration list \<Rightarrow> mock_clock \<Rightarrow> mock_clock run" where
  "mock_advance_all [] c = Inr c"
| "mock_advance_all (d # ds) c = and_then (mock_advance d c) (mock_advance_all ds)"

lemma mock_advance_mono: "mock_advance d c = Inr c' \<Longrightarrow> mock_now c \<le> mock_now c'"
  by (auto simp: mock_advance_def mock_now_def map_ok_def and_then_Inr_iff dest: add_duration_mono)

section \<open>Properties\<close>

text \<open>
  A timestamp converted to \<^verbatim>\<open>SystemTime\<close> and back is reduced modulo 2^64
  microseconds, because of the cast in \<^verbatim>\<open>From<Timestamp> for SystemTime\<close>: below 2^64
  it comes back unchanged, above it silently becomes another instant.
\<close>

theorem system_time_round_trip:
  "timestamp_from_system_time (system_time_from_timestamp t) =
     Inr (Timestamp (of_nat (unat (timestamp_0 t) mod 2 ^ 64)))"
proof -
  have "uint (ucast (timestamp_0 t) :: u64) = int (unat (timestamp_0 t) mod 2 ^ 64)"
    by (simp add: unsigned_ucast_eq take_bit_eq_mod zmod_int)
  then show ?thesis
    by (simp add: timestamp_from_system_time_def system_time_from_timestamp_def as_micros_def
        from_micros_def)
qed

end
