(* ===== verification/Hashing.thy ===== *)
theory Hashing
  imports Time_Model
begin

text \<open>
  \<^verbatim>\<open>types/src/cryptography/hash.rs\<close>: the trait \<^verbatim>\<open>Hashable\<close> on the basic types.
  A \<^verbatim>\<open>B256\<close> is a 256-bit word; comparing two of them byte by byte, as Rust does, is
  comparing the words.

  The hash function and the Solidity ABI encoders come from the alloy crates, so they are
  the fields of the record \<open>crates\<close> that every definition takes as an argument.  What the
  code relies on is stated where it is needed: \<open>packed_law\<close>, the documented behaviour of
  packed encoding, and the absence of collisions among the inputs that are actually hashed.
\<close>

section \<open>What comes from the crates\<close>

record crates =
  keccak256 :: "bytes \<Rightarrow> hash"
  abi_bool :: "bool \<Rightarrow> bytes"
  abi_u64 :: "u64 \<Rightarrow> bytes"
  abi_u128 :: "u128 \<Rightarrow> bytes"
  abi_u256 :: "u256 \<Rightarrow> bytes"
  abi_address :: "address \<Rightarrow> bytes"
  abi_hash :: "hash \<Rightarrow> bytes"
  abi_log :: "address \<Rightarrow> hash list \<Rightarrow> bytes \<Rightarrow> bytes"
  packed_leaf :: "string \<Rightarrow> hash \<Rightarrow> bytes"

text \<open>Packed encoding of a string and a \<^verbatim>\<open>bytes32\<close> concatenates them without padding.\<close>

definition packed_law :: "crates \<Rightarrow> bool" where
  "packed_law K \<longleftrightarrow> (\<forall>p h. packed_leaf K p h = str_bytes p @ be_bytes 32 h)"

section \<open>\<^verbatim>\<open>Hashable\<close> for the basic types\<close>

definition hash_bytes :: "crates \<Rightarrow> bytes \<Rightarrow> hash" where
  "hash_bytes K bs = keccak256 K bs"

definition hash_address :: "crates \<Rightarrow> address \<Rightarrow> hash" where
  "hash_address K a = keccak256 K (be_bytes 20 a)"

definition hash_u128 :: "crates \<Rightarrow> u128 \<Rightarrow> hash" where
  "hash_u128 K n = keccak256 K (be_bytes 16 n)"

definition hash_timestamp :: "crates \<Rightarrow> timestamp \<Rightarrow> hash" where
  "hash_timestamp K t = keccak256 K (be_bytes 16 (as_micros t))"

definition u64_u128_bytes :: "u64 \<times> u128 \<Rightarrow> bytes" where
  "u64_u128_bytes p = be_bytes 8 (fst p) @ be_bytes 16 (snd p)"

definition hash_u64_u128 :: "crates \<Rightarrow> u64 \<times> u128 \<Rightarrow> hash" where
  "hash_u64_u128 K p = keccak256 K (u64_u128_bytes p)"

definition hash_hash :: "hash \<Rightarrow> hash" where
  "hash_hash h = h"

text \<open>The pair is hashed from 24 bytes that determine it.\<close>

interpretation pair_bytes: fixed_width u64_u128_bytes 24
proof
  show "length (u64_u128_bytes p) = 24" for p by (simp add: u64_u128_bytes_def)
  show "p = q" if "u64_u128_bytes p = u64_u128_bytes q" for p q
    using that be_u64.prefix_inj [of "fst p" "be_bytes 16 (snd p)" "fst q" "be_bytes 16 (snd q)"]
    by (auto simp: u64_u128_bytes_def be_u128.enc_eq_iff prod_eq_iff)
qed

lemma packed_leaf_inj:
  assumes "packed_law K" "packed_leaf K p g = packed_leaf K q h"
  shows "p = q \<and> g = h"
  using assms be_hash.suffix_inj [of "str_bytes p" g "str_bytes q" h]
  by (auto simp: packed_law_def dest: str_bytes_inj)

end
