(* ===== verification/Merkle_Tree.thy ===== *)
theory Merkle_Tree
  imports Hashing
begin

text \<open>
  \<^verbatim>\<open>types/src/cryptography/merkle_tree.rs\<close>: the array-backed Merkle tree with sorted
  pair hashing, its single proofs and multiproofs and their verification.  The tree of
  \<open>n\<close> leaves is an array of \<open>2 * n - 1\<close> hashes; node \<open>i\<close> has the children
  \<open>2 * i + 1\<close> and \<open>2 * i + 2\<close>, and the leaves fill the array from its end.

  The loops are recursive functions over the variables they update.  Every subtraction and
  every array access that could fail does so in the model, and the lemmas show which can.
\<close>

section \<open>Types\<close>

datatype (plugins only: code) merkle_error = InvalidIndex nat

record merkle_tree =
  tree :: "hash list"

definition merkle_default :: merkle_tree where
  "merkle_default = \<lparr>tree = []\<rparr>"

record standard_merkle_tree =
  smt_tree :: merkle_tree
  smt_indices :: "hash \<rightharpoonup> nat"

record merkle_proof =
  path :: "hash list"

record merkle_multi_proof =
  mpath :: "hash list"
  mflags :: "bool list"

section \<open>Hashing pairs, and index arithmetic\<close>

definition hash_pair :: "crates \<Rightarrow> hash \<Rightarrow> hash \<Rightarrow> hash" where
  "hash_pair K left right = keccak256 K (be_bytes 32 left @ be_bytes 32 right)"

definition commutative_hash_pair :: "crates \<Rightarrow> hash \<Rightarrow> hash \<Rightarrow> hash" where
  "commutative_hash_pair K left right =
     (if left < right then hash_pair K left right else hash_pair K right left)"

definition left_child_index :: "nat \<Rightarrow> nat" where
  "left_child_index i = 2 * i + 1"

definition right_child_index :: "nat \<Rightarrow> nat" where
  "right_child_index i = 2 * i + 2"

definition parent_index :: "nat \<Rightarrow> nat run" where
  "parent_index i = map_ok (\<lambda>k. k div 2) (sub_usize i 1)"

definition sibling_index :: "nat \<Rightarrow> nat run" where
  "sibling_index i = (if i mod 2 = 0 then sub_usize i 1 else Inr (i + 1))"

definition is_leaf_index :: "nat \<Rightarrow> nat \<Rightarrow> bool" where
  "is_leaf_index tree_len i \<longleftrightarrow> i < tree_len \<and> left_child_index i \<ge> tree_len"

text \<open>The values these take below the root.\<close>

definition parent :: "nat \<Rightarrow> nat" where
  "parent i = (i - 1) div 2"

definition sibling :: "nat \<Rightarrow> nat" where
  "sibling i = (if even i then i - 1 else i + 1)"

lemma index_arith [simp, run_simps]:
  "0 < i \<Longrightarrow> parent_index i = Inr (parent i)"
  "0 < i \<Longrightarrow> sibling_index i = Inr (sibling i)"
  "parent_index 0 = Inl ArithmeticOverflow"
  "sibling_index 0 = Inl ArithmeticOverflow"
  by (auto simp: parent_index_def sibling_index_def parent_def sibling_def sub_usize_def
      even_iff_mod_2_eq_zero)

lemma parent_index_less: "parent_index i = Inr p \<Longrightarrow> p < i"
  by (cases i) (auto simp: parent_def)

lemma parent_less: "0 < i \<Longrightarrow> parent i < i"
  by (auto simp: parent_def)

lemma children_of_parent:
  "0 < i \<Longrightarrow> (i = 2 * parent i + 1 \<and> sibling i = 2 * parent i + 2)
           \<or> (i = 2 * parent i + 2 \<and> sibling i = 2 * parent i + 1)"
  unfolding parent_def sibling_def by presburger

section \<open>Building the tree\<close>

text \<open>
  \<^verbatim>\<open>MerkleTree::new\<close>: \<open>place_leaves\<close> is the loop that writes the leaves from the end,
  \<open>fill_nodes\<close> the one that hashes the inner nodes from the last to the root.
\<close>

fun place_leaves :: "nat \<Rightarrow> nat \<Rightarrow> hash list \<Rightarrow> hash list \<Rightarrow> hash list run" where
  "place_leaves tree_len i [] t = Inr t"
| "place_leaves tree_len i (leaf # leaves) t =
     and_then (sub_usize (tree_len - 1) i) (\<lambda>k.
     and_then (set_at k leaf t) (\<lambda>t'.
     place_leaves tree_len (Suc i) leaves t'))"

fun fill_nodes :: "(hash \<Rightarrow> hash \<Rightarrow> hash) \<Rightarrow> nat \<Rightarrow> hash list \<Rightarrow> hash list run" where
  "fill_nodes node 0 t = Inr t"
| "fill_nodes node (Suc i) t =
     and_then (index_at t (left_child_index i)) (\<lambda>left_leaf.
     and_then (index_at t (right_child_index i)) (\<lambda>right_leaf.
     and_then (set_at i (node left_leaf right_leaf) t) (\<lambda>t'.
     fill_nodes node i t')))"

definition merkle_new :: "crates \<Rightarrow> hash list \<Rightarrow> merkle_tree run" where
  "merkle_new K leaves =
     (if leaves = [] then Inr \<lparr>tree = [0]\<rparr>
      else
        let leaves_len = length leaves;
            tree_len = 2 * leaves_len - 1
        in and_then (place_leaves tree_len 0 leaves (replicate tree_len 0)) (\<lambda>t.
           and_then (fill_nodes (commutative_hash_pair K) (tree_len - leaves_len) t) (\<lambda>t'.
           Inr \<lparr>tree = t'\<rparr>)))"

definition merkle_root :: "merkle_tree \<Rightarrow> hash run" where
  "merkle_root m = index_at (tree m) 0"

definition merkle_length :: "merkle_tree \<Rightarrow> nat" where
  "merkle_length m = length (tree m)"

section \<open>Single proofs\<close>

function proof_loop :: "hash list \<Rightarrow> nat \<Rightarrow> hash list \<Rightarrow> hash list run" where
  "proof_loop t current acc =
     (if current > 0 then
        and_then (sibling_index current) (\<lambda>s.
        and_then (if s < length t then map_ok (\<lambda>h. acc @ [h]) (index_at t s) else Inr acc) (\<lambda>acc'.
        and_then (parent_index current) (\<lambda>p.
        proof_loop t p acc')))
      else Inr acc)"
  by pat_completeness auto
termination
  by (relation "measure (\<lambda>(t, current, acc). current)") (auto simp: parent_less)

declare proof_loop.simps [simp del]

definition merkle_generate_proof :: "merkle_tree \<Rightarrow> nat \<Rightarrow> (merkle_error + merkle_proof) run" where
  "merkle_generate_proof m i =
     (if \<not> is_leaf_index (length (tree m)) i then Inr (Inl (InvalidIndex i))
      else map_ok (\<lambda>p. Inr \<lparr>path = p\<rparr>) (proof_loop (tree m) i []))"

definition merkle_verify_proof :: "crates \<Rightarrow> hash \<Rightarrow> hash \<Rightarrow> merkle_proof \<Rightarrow> bool" where
  "merkle_verify_proof K root leaf prf \<longleftrightarrow> root = foldl (commutative_hash_pair K) leaf (path prf)"

section \<open>Multiproofs\<close>

definition front_is :: "nat list \<Rightarrow> nat \<Rightarrow> bool" where
  "front_is stack s = (case stack of next # _ \<Rightarrow> next = s | [] \<Rightarrow> False)"

function multi_proof_loop ::
    "hash list \<Rightarrow> nat list \<Rightarrow> hash list \<Rightarrow> bool list \<Rightarrow> (hash list \<times> bool list) run" where
  "multi_proof_loop t stack acc flags =
     (case stack of
        [] \<Rightarrow> Inr (acc, flags)
      | j # rest \<Rightarrow>
          if j = 0 then Inr (acc, flags)
          else
            and_then (sibling_index j) (\<lambda>s.
            and_then (parent_index j) (\<lambda>p.
            if front_is rest s
            then multi_proof_loop t (tl rest @ [p]) acc (flags @ [True])
            else and_then (index_at t s) (\<lambda>h.
                 multi_proof_loop t (rest @ [p]) (acc @ [h]) (flags @ [False])))))"
  by pat_completeness auto
termination
proof (relation "measure (\<lambda>(t, stack, acc, flags). sum_list stack)", goal_cases)
  case 1 show ?case by simp
next
  case (2 t stack acc flags j rest s p)
  then have "p < j" "sum_list (tl rest) \<le> sum_list rest"
    by (auto simp: parent_less front_is_def split: list.splits)
  with 2 show ?case by simp
next
  case (3 t stack acc flags j rest s p h)
  then have "p < j" by (auto simp: parent_less)
  with 3 show ?case by simp
qed

declare multi_proof_loop.simps [simp del]

definition merkle_generate_multi_proof :: "merkle_tree \<Rightarrow> nat list \<Rightarrow> merkle_multi_proof option run" where
  "merkle_generate_multi_proof m indices =
     (let tree_len = length (tree m)
      in if \<exists>i \<in> set indices. \<not> is_leaf_index tree_len i then Inr None
         else and_then (multi_proof_loop (tree m) indices [] []) (\<lambda>(p, flags).
              and_then (if indices = [] then map_ok (\<lambda>h. p @ [h]) (index_at (tree m) 0) else Inr p)
                (\<lambda>p'. Inr (Some \<lparr>mpath = p', mflags = flags\<rparr>))))"

fun verify_multi_loop ::
    "(hash \<Rightarrow> hash \<Rightarrow> hash) \<Rightarrow> hash list \<Rightarrow> bool list \<Rightarrow> hash list \<Rightarrow> nat \<Rightarrow> (hash list \<times> nat) run" where
  "verify_multi_loop node p [] stack cursor = Inr (stack, cursor)"
| "verify_multi_loop node p (flag # flags) stack cursor =
     and_then (remove_front stack) (\<lambda>(a, stack').
     if flag
     then and_then (remove_front stack') (\<lambda>(b, stack'').
          verify_multi_loop node p flags (stack'' @ [node a b]) cursor)
     else and_then (index_at p cursor) (\<lambda>b.
          verify_multi_loop node p flags (stack' @ [node a b]) (Suc cursor)))"

definition merkle_verify_multi_proof ::
    "crates \<Rightarrow> hash \<Rightarrow> hash list \<Rightarrow> merkle_multi_proof \<Rightarrow> bool run" where
  "merkle_verify_multi_proof K root leaves prf =
     (let path_len = length (mpath prf)
      in if path_len < length (filter (\<lambda>f. \<not> f) (mflags prf)) then Inr False
         else if length leaves + path_len \<noteq> length (mflags prf) + 1 then Inr False
         else
           and_then (verify_multi_loop (commutative_hash_pair K) (mpath prf) (mflags prf) leaves 0)
             (\<lambda>(stack, cursor).
           and_then (sub_usize path_len cursor) (\<lambda>left.
           if length stack = 1 \<and> left = 0
           then map_ok (\<lambda>(r, _). root = r) (remove_front stack)
           else if length stack = 0 \<and> left = 1
           then map_ok (\<lambda>r. root = r) (index_at (mpath prf) cursor)
           else Inr False)))"

section \<open>The standard tree: leaves looked up by their hash\<close>

definition hash_leaf :: "crates \<Rightarrow> string \<Rightarrow> hash \<Rightarrow> hash" where
  "hash_leaf K prefix leaf = hash_bytes K (packed_leaf K prefix leaf)"

text \<open>The indices are collected into a hash map in order, so a later equal leaf wins.\<close>

fun collect_indices ::
    "nat \<Rightarrow> nat \<Rightarrow> hash list \<Rightarrow> (hash \<rightharpoonup> nat) \<Rightarrow> (hash \<rightharpoonup> nat) run" where
  "collect_indices tree_len i [] m = Inr m"
| "collect_indices tree_len i (leaf # leaves) m =
     and_then (sub_usize tree_len i) (\<lambda>k.
     and_then (sub_usize k 1) (\<lambda>k'.
     collect_indices tree_len (Suc i) leaves (m(leaf \<mapsto> k'))))"

definition standard_new :: "crates \<Rightarrow> hash list \<Rightarrow> standard_merkle_tree run" where
  "standard_new K leaves =
     and_then (merkle_new K leaves) (\<lambda>t.
     and_then (collect_indices (merkle_length t) 0 leaves Map.empty) (\<lambda>ix.
     Inr \<lparr>smt_tree = t, smt_indices = ix\<rparr>))"

definition standard_root :: "standard_merkle_tree \<Rightarrow> hash run" where
  "standard_root s = merkle_root (smt_tree s)"

definition standard_generate_proof :: "standard_merkle_tree \<Rightarrow> hash \<Rightarrow> merkle_proof option run" where
  "standard_generate_proof s leaf =
     (case smt_indices s leaf of
        None \<Rightarrow> Inr None
      | Some tree_index \<Rightarrow>
          and_then (merkle_generate_proof (smt_tree s) tree_index) (\<lambda>r.
          case r of Inl e \<Rightarrow> Inl UnwrapErr | Inr p \<Rightarrow> Inr (Some p)))"

fun lookup_all :: "(hash \<rightharpoonup> nat) \<Rightarrow> hash list \<Rightarrow> nat list option" where
  "lookup_all m [] = Some []"
| "lookup_all m (leaf # leaves) =
     (case m leaf of
        None \<Rightarrow> None
      | Some i \<Rightarrow> map_option (\<lambda>is. i # is) (lookup_all m leaves))"

definition standard_generate_multi_proof ::
    "standard_merkle_tree \<Rightarrow> hash list \<Rightarrow> merkle_multi_proof option run" where
  "standard_generate_multi_proof s leaves =
     (case lookup_all (smt_indices s) leaves of
        None \<Rightarrow> Inr None
      | Some indices \<Rightarrow> merkle_generate_multi_proof (smt_tree s) indices)"

definition standard_verify_proof :: "crates \<Rightarrow> hash \<Rightarrow> hash \<Rightarrow> merkle_proof \<Rightarrow> bool" where
  "standard_verify_proof = merkle_verify_proof"

definition standard_verify_multi_proof ::
    "crates \<Rightarrow> hash \<Rightarrow> hash list \<Rightarrow> merkle_multi_proof \<Rightarrow> bool run" where
  "standard_verify_multi_proof = merkle_verify_multi_proof"

end
