(* ===== verification/Merkle_Correct.thy ===== *)
theory Merkle_Correct
  imports Merkle_Tree
begin

text \<open>
  What the Merkle tree promises.  \<open>heap_tree\<close> is the shape invariant of the array,
  \<open>node_value\<close> the abstract tree that \<^verbatim>\<open>MerkleTree::new\<close> computes.  The locale
  \<open>commutative_node\<close> is the interface between the array code and the pair hash: all that
  proofs and their verification need is that the pair hash is symmetric.  It is interpreted
  on \<open>commutative_hash_pair\<close>.
\<close>

section \<open>The shape of the tree\<close>

definition heap_tree :: "(hash \<Rightarrow> hash \<Rightarrow> hash) \<Rightarrow> hash list \<Rightarrow> bool" where
  "heap_tree node t \<longleftrightarrow>
     odd (length t) \<and> (\<forall>i. 2 * i + 2 < length t \<longrightarrow> t ! i = node (t ! (2 * i + 1)) (t ! (2 * i + 2)))"

function node_value :: "(hash \<Rightarrow> hash \<Rightarrow> hash) \<Rightarrow> hash list \<Rightarrow> nat \<Rightarrow> hash" where
  "node_value node ls i =
     (if i < length ls - 1
      then node (node_value node ls (2 * i + 1)) (node_value node ls (2 * i + 2))
      else ls ! (2 * length ls - 2 - i))"
  by pat_completeness auto
termination
  by (relation "measure (\<lambda>(node, ls, i). 2 * length ls - i)") auto

declare node_value.simps [simp del]

definition spec_tree :: "(hash \<Rightarrow> hash \<Rightarrow> hash) \<Rightarrow> hash list \<Rightarrow> hash list" where
  "spec_tree node ls =
     (if ls = [] then [0] else map (node_value node ls) [0..<2 * length ls - 1])"

lemma length_spec_tree: "length (spec_tree node ls) = (if ls = [] then 1 else 2 * length ls - 1)"
  by (simp add: spec_tree_def)

lemma spec_tree_nonempty [simp]: "spec_tree node ls \<noteq> []" "0 < length (spec_tree node ls)"
proof -
  show "0 < length (spec_tree node ls)" by (cases ls) (simp_all add: length_spec_tree)
  then show "spec_tree node ls \<noteq> []" by auto
qed

lemma heap_spec_tree: "heap_tree node (spec_tree node ls)"
proof (cases "ls = []")
  case True
  then show ?thesis by (simp add: heap_tree_def spec_tree_def)
next
  case False
  then have n: "0 < length ls" by simp
  have "spec_tree node ls ! i = node (spec_tree node ls ! (2 * i + 1)) (spec_tree node ls ! (2 * i + 2))"
    if i: "2 * i + 2 < length (spec_tree node ls)" for i
  proof -
    have i': "2 * i + 2 < 2 * length ls - 1" using i False by (simp add: length_spec_tree)
    then have "i < length ls - 1" "i < 2 * length ls - 1" by arith+
    with i' False show ?thesis by (simp add: spec_tree_def node_value.simps [of node ls i])
  qed
  with n False show ?thesis by (simp add: heap_tree_def length_spec_tree)
qed

lemma spec_tree_leaf:
  "i < length ls \<Longrightarrow> spec_tree node ls ! (2 * length ls - 2 - i) = ls ! i"
proof -
  assume i: "i < length ls"
  let ?k = "2 * length ls - 2 - i"
  have k: "\<not> ?k < length ls - 1" "2 * length ls - 2 - ?k = i" "?k < 2 * length ls - 1" "ls \<noteq> []"
    using i by auto
  have "spec_tree node ls ! ?k = node_value node ls ?k" using k(3,4) by (simp add: spec_tree_def)
  also have "\<dots> = ls ! i" using k(1,2) by (subst node_value.simps) simp
  finally show ?thesis .
qed

section \<open>\<^verbatim>\<open>MerkleTree::new\<close> builds it\<close>

lemma place_leaves_ok:
  "length t = L \<Longrightarrow> i + length ls \<le> L \<Longrightarrow>
   \<exists>t'. place_leaves L i ls t = Inr t' \<and> length t' = L
     \<and> (\<forall>j < L. t' ! j = (if L - i - length ls \<le> j \<and> j < L - i then ls ! (L - 1 - i - j) else t ! j))"
proof (induction ls arbitrary: i t)
  case Nil
  then show ?case by auto
next
  case (Cons l ls)
  then have k: "L - 1 - i < length t" "i \<le> L - 1" by auto
  from Cons.IH [of "t[L - 1 - i := l]" "Suc i"] Cons.prems
  obtain t' where t': "place_leaves L (Suc i) ls (t[L - 1 - i := l]) = Inr t'" "length t' = L"
    and vals: "\<forall>j < L. t' ! j = (if L - Suc i - length ls \<le> j \<and> j < L - Suc i
        then ls ! (L - 1 - Suc i - j) else t[L - 1 - i := l] ! j)"
    by auto
  have "t' ! j = (if L - i - length (l # ls) \<le> j \<and> j < L - i
      then (l # ls) ! (L - 1 - i - j) else t ! j)" if j: "j < L" for j
  proof (cases "j = L - 1 - i")
    case True
    with vals j k Cons.prems show ?thesis by auto
  next
    case False
    then have "L - 1 - i - j = Suc (L - 1 - Suc i - j) \<or> L - i \<le> j" by arith
    with vals j False Cons.prems show ?thesis by (auto simp: nth_list_update)
  qed
  with t' k show ?case by auto
qed

lemma fill_nodes_ok:
  assumes "ls \<noteq> []"
  shows "length t = 2 * length ls - 1 \<Longrightarrow> k \<le> length ls - 1 \<Longrightarrow>
     (\<forall>j. k \<le> j \<and> j < 2 * length ls - 1 \<longrightarrow> t ! j = node_value node ls j) \<Longrightarrow>
     fill_nodes node k t = Inr (spec_tree node ls)"
proof (induction k arbitrary: t)
  case 0
  then show ?case using assms by (auto simp: spec_tree_def intro: nth_equalityI)
next
  case (Suc k)
  then have k: "k < length ls - 1" and c: "2 * k + 2 < length t" by auto
  have v: "t ! (2 * k + 1) = node_value node ls (2 * k + 1)"
    "t ! (2 * k + 2) = node_value node ls (2 * k + 2)"
    using Suc.prems c by auto
  have "fill_nodes node k (t[k := node (t ! (2 * k + 1)) (t ! (2 * k + 2))]) = Inr (spec_tree node ls)"
  proof (rule Suc.IH)
    show "\<forall>j. k \<le> j \<and> j < 2 * length ls - 1 \<longrightarrow>
        t[k := node (t ! (2 * k + 1)) (t ! (2 * k + 2))] ! j = node_value node ls j"
      using Suc.prems k v by (auto simp: nth_list_update node_value.simps [of node ls k])
  qed (use Suc.prems in auto)
  with c show ?case by (simp add: left_child_index_def right_child_index_def)
qed

lemma merkle_new_eq: "merkle_new K ls = Inr \<lparr>tree = spec_tree (commutative_hash_pair K) ls\<rparr>"
proof (cases "ls = []")
  case True
  then show ?thesis by (simp add: merkle_new_def spec_tree_def)
next
  case False
  let ?L = "2 * length ls - 1"
  have n: "0 < length ls" using False by simp
  obtain t where t: "place_leaves ?L 0 ls (replicate ?L 0) = Inr t" "length t = ?L"
    and v: "\<forall>j < ?L. t ! j = (if ?L - 0 - length ls \<le> j \<and> j < ?L - 0 then ls ! (?L - 1 - 0 - j)
        else replicate ?L 0 ! j)"
    using place_leaves_ok [of "replicate ?L 0" ?L 0 ls] n by fastforce
  have "fill_nodes (commutative_hash_pair K) (?L - length ls) t
      = Inr (spec_tree (commutative_hash_pair K) ls)"
  proof (rule fill_nodes_ok [OF False t(2)])
    show "?L - length ls \<le> length ls - 1" by simp
    show "\<forall>j. ?L - length ls \<le> j \<and> j < ?L \<longrightarrow> t ! j = node_value (commutative_hash_pair K) ls j"
      using v n by (auto simp: node_value.simps [of _ ls])
  qed
  with t False show ?thesis by (simp add: merkle_new_def Let_def)
qed

section \<open>Proofs over a symmetric pair hash\<close>

lemma heap_children:
  assumes "heap_tree node t" "0 < i" "i < length t"
  shows "sibling i < length t"
    and "t ! parent i = node (t ! i) (t ! sibling i) \<or> t ! parent i = node (t ! sibling i) (t ! i)"
proof -
  have "odd (length t)" using assms(1) by (simp add: heap_tree_def)
  with assms(2,3) show s: "sibling i < length t"
    by (auto simp: sibling_def elim!: oddE evenE)
  have "2 * parent i + 2 < length t" using children_of_parent [OF assms(2)] assms(3) s by auto
  then have "t ! parent i = node (t ! (2 * parent i + 1)) (t ! (2 * parent i + 2))"
    using assms(1) by (simp add: heap_tree_def)
  then show "t ! parent i = node (t ! i) (t ! sibling i) \<or> t ! parent i = node (t ! sibling i) (t ! i)"
    using children_of_parent [OF assms(2)] by auto
qed

text \<open>How many steps separate a node from the root.\<close>

function depth :: "nat \<Rightarrow> nat" where
  "depth i = (if i = 0 then 0 else Suc (depth (parent i)))"
  by pat_completeness auto
termination
  by (relation "measure id") (auto simp: parent_less)

declare depth.simps [simp del]

lemma depth_simps [simp]: "depth 0 = 0" "0 < i \<Longrightarrow> depth i = Suc (depth (parent i))"
  by (simp_all add: depth.simps)

text \<open>
  The queue of node indices that \<^verbatim>\<open>generate_multi_proof\<close> works on: strictly descending,
  and spanning less than one level, until only the root is left.
\<close>

definition level_queue :: "nat \<Rightarrow> nat list \<Rightarrow> bool" where
  "level_queue n q \<longleftrightarrow>
     q \<noteq> [] \<and> sorted_wrt (>) q \<and> hd q < n \<and> (q = [0] \<or> (0 < last q \<and> parent (hd q) < last q))"

lemma level_queue_snoc:
  assumes "sorted_wrt (>) r" "\<forall>x \<in> set r. x < n \<and> p < x" "r \<noteq> [] \<longrightarrow> hd r \<le> 2 * p" "p < n"
  shows "level_queue n (r @ [p])"
proof (cases "r = []")
  case True
  then show ?thesis using assms(4) parent_less [of p] by (auto simp: level_queue_def)
next
  case False
  then have "hd r \<in> set r" by simp
  with assms(2,3) False have "p < hd r" "hd r \<le> 2 * p" "hd r < n" by auto
  then have "0 < p" "parent (hd r) < p" by (auto simp: parent_def)
  with assms False \<open>hd r < n\<close> show ?thesis
    by (auto simp: level_queue_def sorted_wrt_append hd_append)
qed

lemma level_queue_above:
  assumes "level_queue n (j # rest)" "0 < j"
  shows "\<forall>x \<in> set (j # rest). x < n \<and> parent j < x"
proof -
  have srt: "sorted_wrt (>) (j # rest)" and "j < n" and last: "parent j < last (j # rest)"
    using assms by (auto simp: level_queue_def)
  have "last xs \<le> x" if "sorted_wrt (>) xs" "x \<in> set xs" for xs :: "nat list" and x
    using that by (induction xs) (auto intro: less_imp_le)
  with srt last have "\<forall>x \<in> set (j # rest). parent j < x" by (meson less_le_trans)
  with srt \<open>j < n\<close> show ?thesis by auto
qed

lemma level_queue_step:
  assumes "level_queue n (j # rest)" "0 < j"
  shows "front_is rest (sibling j) \<Longrightarrow> level_queue n (tl rest @ [parent j])"
    and "\<not> front_is rest (sibling j) \<Longrightarrow> level_queue n (rest @ [parent j])"
proof -
  note above = level_queue_above [OF assms]
  have srt: "sorted_wrt (>) (j # rest)" using assms(1) by (simp add: level_queue_def)
  have p: "parent j < n" using above by force
  show "level_queue n (tl rest @ [parent j])" if fr: "front_is rest (sibling j)"
  proof -
    obtain r where r: "rest = sibling j # r"
      using fr by (cases rest) (auto simp: front_is_def)
    with srt have "sibling j < j" by simp
    then have "sibling j = 2 * parent j + 1" using children_of_parent [OF assms(2)] by auto
    with r srt have "r \<noteq> [] \<longrightarrow> hd r \<le> 2 * parent j" by (cases r) auto
    with r srt above p show ?thesis by (auto intro!: level_queue_snoc)
  qed
  show "level_queue n (rest @ [parent j])" if "\<not> front_is rest (sibling j)"
  proof -
    have "rest \<noteq> [] \<longrightarrow> hd rest < j \<and> hd rest \<noteq> sibling j"
      using that srt by (cases rest) (auto simp: front_is_def)
    then have "rest \<noteq> [] \<longrightarrow> hd rest \<le> 2 * parent j"
      using children_of_parent [OF assms(2)] by auto
    with srt above p show ?thesis by (auto intro!: level_queue_snoc)
  qed
qed

locale commutative_node =
  fixes node :: "hash \<Rightarrow> hash \<Rightarrow> hash"
  assumes node_comm: "node a b = node b a"
begin

lemma parent_step:
  assumes "heap_tree node t" "0 < i" "i < length t"
  shows "node (t ! i) (t ! sibling i) = t ! parent i"
  using heap_children(2) [OF assms] node_comm by auto

lemma proof_loop_ok:
  assumes "heap_tree node t"
  shows "i < length t \<Longrightarrow>
     \<exists>p. proof_loop t i acc = Inr (acc @ p) \<and> length p = depth i \<and> foldl node (t ! i) p = t ! 0"
proof (induction i arbitrary: acc rule: less_induct)
  case (less i)
  show ?case
  proof (cases "i = 0")
    case True
    then show ?thesis by (simp add: proof_loop.simps [of t 0])
  next
    case False
    then have i: "0 < i" "parent i < i" "sibling i < length t"
      using heap_children(1) [OF assms _ less.prems] by (auto simp: parent_less)
    obtain p where "proof_loop t (parent i) (acc @ [t ! sibling i]) = Inr ((acc @ [t ! sibling i]) @ p)"
      "length p = depth (parent i)" "foldl node (t ! parent i) p = t ! 0"
      using less.IH [of "parent i" "acc @ [t ! sibling i]"] i less.prems by auto
    then show ?thesis
      using i parent_step [OF assms i(1) less.prems]
      by (intro exI [of _ "t ! sibling i # p"]) (simp add: proof_loop.simps [of t i])
  qed
qed

lemma multi_proof_loop_ok:
  assumes "heap_tree node t"
  shows "level_queue (length t) q \<Longrightarrow>
     \<exists>p fs. multi_proof_loop t q acc flags = Inr (acc @ p, flags @ fs)
       \<and> length p = length (filter (\<lambda>f. \<not> f) fs) \<and> length q + length p = length fs + 1
       \<and> (\<forall>before. verify_multi_loop node (before @ p) fs (map ((!) t) q) (length before)
             = Inr ([t ! 0], length before + length p))"
proof (induction "sum_list q" arbitrary: q acc flags rule: less_induct)
  case less
  from less.prems obtain j rest where q: "q = j # rest" by (cases q) (auto simp: level_queue_def)
  show ?case
  proof (cases "j = 0")
    case True
    with less.prems q have "q = [0]" by (cases rest) (auto simp: level_queue_def)
    then show ?thesis
      by (intro exI [of _ "[]"]) (simp add: multi_proof_loop.simps [of t "[0]"])
  next
    case False
    then have j: "0 < j" "j < length t" "parent j < j"
      using less.prems q by (auto simp: level_queue_def parent_less)
    note s = heap_children(1) [OF assms j(1,2)] and up = parent_step [OF assms j(1,2)]
    note next_queue = level_queue_step [OF less.prems [unfolded q] j(1)]
    show ?thesis
    proof (cases "front_is rest (sibling j)")
      case True
      then obtain rest' where rest: "rest = sibling j # rest'" by (cases rest) (auto simp: front_is_def)
      have "sum_list (rest' @ [parent j]) < sum_list q" using q rest j by simp
      from less.hyps [OF this, of acc "flags @ [True]"] next_queue(1) [OF True] rest
      obtain p fs where "multi_proof_loop t (rest' @ [parent j]) acc (flags @ [True])
            = Inr (acc @ p, (flags @ [True]) @ fs)"
        and "length p = length (filter (\<lambda>f. \<not> f) fs)" "length rest' + 1 + length p = length fs + 1"
        and "\<And>before. verify_multi_loop node (before @ p) fs (map ((!) t) (rest' @ [parent j])) (length before)
             = Inr ([t ! 0], length before + length p)"
        by auto
      moreover have "multi_proof_loop t q acc flags = multi_proof_loop t (rest' @ [parent j]) acc (flags @ [True])"
        using True rest q j(1) by (subst multi_proof_loop.simps) simp
      ultimately show ?thesis
        using rest q up by (intro exI [of _ p] exI [of _ "True # fs"]) simp
    next
      case False
      have "sum_list (rest @ [parent j]) < sum_list q" using q j by simp
      from less.hyps [OF this, of "acc @ [t ! sibling j]" "flags @ [False]"] next_queue(2) [OF False]
      obtain p fs where gen: "multi_proof_loop t (rest @ [parent j]) (acc @ [t ! sibling j]) (flags @ [False])
            = Inr ((acc @ [t ! sibling j]) @ p, (flags @ [False]) @ fs)"
        and len: "length p = length (filter (\<lambda>f. \<not> f) fs)" "length rest + 1 + length p = length fs + 1"
        and ver: "\<And>before. verify_multi_loop node (before @ p) fs (map ((!) t) (rest @ [parent j])) (length before)
             = Inr ([t ! 0], length before + length p)"
        by auto
      have "verify_multi_loop node (before @ t ! sibling j # p) (False # fs) (map ((!) t) q) (length before)
             = Inr ([t ! 0], length before + length (t ! sibling j # p))" for before
        using ver [of "before @ [t ! sibling j]"] q up by simp
      moreover have "multi_proof_loop t q acc flags
          = multi_proof_loop t (rest @ [parent j]) (acc @ [t ! sibling j]) (flags @ [False])"
        using False q j(1) s by (subst multi_proof_loop.simps) simp
      ultimately show ?thesis
        using q gen len by (intro exI [of _ "t ! sibling j # p"] exI [of _ "False # fs"]) simp
    qed
  qed
qed

end

text \<open>The code's pair hash sorts its arguments, so it is symmetric.\<close>

interpretation pair_hash: commutative_node "commutative_hash_pair K" for K
  by unfold_locales (auto simp: commutative_hash_pair_def)

section \<open>Generation never panics\<close>

lemma multi_proof_loop_total:
  assumes "heap_tree node t"
  shows "\<forall>j \<in> set q. j < length t \<Longrightarrow> \<exists>p fs. multi_proof_loop t q acc flags = Inr (p, fs)"
proof (induction "sum_list q" arbitrary: q acc flags rule: less_induct)
  case less
  show ?case
  proof (cases "q = [] \<or> hd q = 0")
    case True
    then show ?thesis by (subst multi_proof_loop.simps) (auto split: list.splits)
  next
    case False
    then obtain j rest where q: "q = j # rest" and j: "0 < j" by (cases q) auto
    with less.prems have "j < length t" "parent j < length t"
      using parent_less [OF j] by auto
    note s = heap_children(1) [OF assms j this(1)]
    have "sum_list (tl rest @ [parent j]) < sum_list q" "sum_list (rest @ [parent j]) < sum_list q"
      using q parent_less [OF j] by (cases rest; simp)+
    note IH = less.hyps [OF this(1)] less.hyps [OF this(2)]
    have "\<forall>k \<in> set (tl rest @ [parent j]). k < length t" "\<forall>k \<in> set (rest @ [parent j]). k < length t"
      using less.prems q \<open>parent j < length t\<close> by (cases rest; auto)+
    note IH' = IH(1) [OF this(1), of acc "flags @ [True]"]
      IH(2) [OF this(2), of "acc @ [t ! sibling j]" "flags @ [False]"]
    with q j s show ?thesis by (subst multi_proof_loop.simps) simp
  qed
qed

lemma multi_proof_total:
  assumes "heap_tree node (tree m)"
  shows "\<exists>r. merkle_generate_multi_proof m is = Inr r"
proof (cases "\<exists>i \<in> set is. \<not> is_leaf_index (length (tree m)) i")
  case True
  then show ?thesis by (simp add: merkle_generate_multi_proof_def)
next
  case False
  then have "\<forall>j \<in> set is. j < length (tree m)" by (auto simp: is_leaf_index_def)
  from multi_proof_loop_total [OF assms this, of "[]" "[]"]
  obtain p fs where "multi_proof_loop (tree m) is [] [] = Inr (p, fs)" by blast
  moreover have "0 < length (tree m)" using assms by (auto simp: heap_tree_def intro: Nat.gr0I)
  ultimately show ?thesis using False by (auto simp: merkle_generate_multi_proof_def Let_def)
qed

section \<open>When verification panics\<close>

text \<open>
  The stack loses one hash for every true flag, and the loop fails as soon as it runs out.
\<close>

lemma verify_multi_loop_ok:
  "length (filter Not fs) + cursor \<le> length p \<Longrightarrow>
   (fs = [] \<or> length (filter id fs) < length stack) \<Longrightarrow>
   \<exists>stack'. verify_multi_loop node p fs stack cursor = Inr (stack', cursor + length (filter Not fs))
     \<and> length stack' + length (filter id fs) = length stack"
proof (induction fs arbitrary: stack cursor)
  case Nil
  then show ?case by simp
next
  case (Cons f fs)
  then obtain a s where s: "stack = a # s" by (cases stack) auto
  show ?case
  proof (cases f)
    case True
    with Cons.prems s obtain b s' where s': "s = b # s'" by (cases s) auto
    with Cons.IH [of cursor "s' @ [node a b]"] Cons.prems s True show ?thesis by auto
  next
    case False
    with Cons.IH [of "Suc cursor" "s @ [node a (p ! cursor)]"] Cons.prems s show ?thesis by auto
  qed
qed

lemma verify_multi_loop_panic:
  "length (filter Not fs) + cursor \<le> length p \<Longrightarrow> fs \<noteq> [] \<Longrightarrow>
   length stack \<le> length (filter id fs) \<Longrightarrow>
   verify_multi_loop node p fs stack cursor = Inl IndexOutOfBounds"
proof (induction fs arbitrary: stack cursor)
  case Nil
  then show ?case by simp
next
  case (Cons f fs)
  show ?case
  proof (cases "stack = [] \<or> f \<and> tl stack = []")
    case True
    then show ?thesis by (cases stack) auto
  next
    case False
    then obtain a s where s: "stack = a # s" and s': "f \<longrightarrow> s \<noteq> []" by (cases stack) auto
    have fs: "fs \<noteq> []" using Cons.prems(3) s s' by (cases f) (auto simp: Suc_le_eq)
    show ?thesis
    proof (cases f)
      case True
      with s' obtain b r where r: "s = b # r" by (cases s) auto
      with Cons.IH [of cursor "r @ [node a b]"] Cons.prems s True fs show ?thesis by auto
    next
      case False
      with Cons.IH [of "Suc cursor" "s @ [node a (p ! cursor)]"] Cons.prems s fs show ?thesis by auto
    qed
  qed
qed

lemma length_filter_id_not: "length (filter id fs) + length (filter Not fs) = length fs"
  using sum_length_filter_compl [of id fs] by (simp add: id_def)

end
