(* ===== verification/Merkle_Props.thy ===== *)
theory Merkle_Props
  imports Merkle_Correct
begin

text \<open>
  The properties of the Merkle tree: it is the specified tree, proofs generated from it
  verify, verified proofs are sound unless the pair hash collides, generation never panics,
  and exactly which multiproofs make the verifier panic.
\<close>

section \<open>Sample crates for concrete instances\<close>

definition sample_keccak :: "bytes \<Rightarrow> hash" where
  "sample_keccak bs = foldl (\<lambda>h b. (h * 7 + ucast b + 1) mod 1000003) 0 bs"

definition sample_crates :: crates where
  "sample_crates =
     \<lparr>keccak256 = sample_keccak, abi_bool = \<lambda>b. [if b then 1 else 0],
      abi_u64 = be_bytes 32, abi_u128 = be_bytes 32, abi_u256 = be_bytes 32,
      abi_address = be_bytes 32, abi_hash = be_bytes 32,
      abi_log = (\<lambda>a ts d. be_bytes 20 a @ concat (map (be_bytes 32) ts) @ d),
      packed_leaf = (\<lambda>p h. str_bytes p @ be_bytes 32 h)\<rparr>"

lemma sample_packed_law: "packed_law sample_crates"
  by (simp add: packed_law_def sample_crates_def)

section \<open>The tree and its proofs\<close>

text \<open>
  C1. \<^verbatim>\<open>MerkleTree::new\<close> never panics, and the array it builds is the specified
  tree: leaf \<open>k\<close> of \<open>n\<close> at index \<open>2 * n - 2 - k\<close>, every inner node the pair hash of its
  two children, and a single zero hash when there are no leaves.
\<close>

theorem merkle_new_refines_spec:
  "merkle_new K ls = Inr \<lparr>tree = spec_tree (commutative_hash_pair K) ls\<rparr>"
  by (rule merkle_new_eq)

text \<open>
  C5. For every leaf of every tree, \<^verbatim>\<open>generate_proof\<close> at the leaf's index
  returns a proof whose length is the leaf's depth, and \<^verbatim>\<open>verify_proof\<close> accepts it
  against the root.
\<close>

theorem single_proof_complete:
  assumes "i < length ls"
  shows "\<exists>m root p. merkle_new K ls = Inr m \<and> merkle_root m = Inr root
    \<and> merkle_generate_proof m (merkle_length m - i - 1) = Inr (Inr p)
    \<and> length (path p) = depth (merkle_length m - i - 1)
    \<and> merkle_verify_proof K root (ls ! i) p"
proof -
  let ?t = "spec_tree (commutative_hash_pair K) ls" and ?k = "2 * length ls - 2 - i"
  have k: "?k < length ?t" "is_leaf_index (length ?t) ?k" "length ?t - i - 1 = ?k"
    using assms by (auto simp: length_spec_tree is_leaf_index_def left_child_index_def)
  from pair_hash.proof_loop_ok [OF heap_spec_tree k(1), of "[]"]
  obtain p where "proof_loop ?t ?k [] = Inr p" "length p = depth ?k"
    "foldl (commutative_hash_pair K) (?t ! ?k) p = ?t ! 0"
    by auto
  with k spec_tree_leaf [OF assms] show ?thesis
    by (auto simp: merkle_new_eq merkle_root_def merkle_length_def merkle_generate_proof_def
        merkle_verify_proof_def)
qed

theorem single_proof_complete_witness:
  "\<exists>m root p. merkle_new sample_crates [5, 7, 9] = Inr m \<and> merkle_root m = Inr root
    \<and> merkle_generate_proof m (merkle_length m - 1 - 1) = Inr (Inr p)
    \<and> length (path p) = depth (merkle_length m - 1 - 1)
    \<and> merkle_verify_proof sample_crates root ([5, 7, 9] ! 1) p"
  by (rule single_proof_complete) simp

text \<open>
  \<^verbatim>\<open>generate_proof\<close> never panics on a tree built from leaves, whatever the
  index; it is refused exactly when the index is not one of the leaves'.
\<close>

theorem generate_proof_total:
  assumes "merkle_new K ls = Inr m" "ls \<noteq> []"
  shows "merkle_generate_proof m i =
           (if length ls - 1 \<le> i \<and> i < 2 * length ls - 1
            then Inr (Inr \<lparr>path = projr (proof_loop (tree m) i [])\<rparr>)
            else Inr (Inl (InvalidIndex i)))"
proof -
  have m: "tree m = spec_tree (commutative_hash_pair K) ls"
    using assms(1) by (auto simp: merkle_new_eq)
  then have len: "length (tree m) = 2 * length ls - 1" using assms(2) by (simp add: length_spec_tree)
  have leaf: "is_leaf_index (length (tree m)) i \<longleftrightarrow> length ls - 1 \<le> i \<and> i < 2 * length ls - 1"
    using assms(2) by (auto simp: len is_leaf_index_def left_child_index_def)
  show ?thesis
  proof (cases "is_leaf_index (length (tree m)) i")
    case True
    then have "i < length (tree m)" by (simp add: is_leaf_index_def)
    from pair_hash.proof_loop_ok [of K "tree m" i "[]", unfolded m, OF heap_spec_tree] this m
    obtain p where "proof_loop (tree m) i [] = Inr p" by auto
    with True leaf show ?thesis by (simp add: merkle_generate_proof_def)
  qed (use leaf in \<open>auto simp: merkle_generate_proof_def\<close>)
qed

theorem generate_proof_total_witness:
  "merkle_generate_proof \<lparr>tree = spec_tree (commutative_hash_pair sample_crates) [5, 7, 9]\<rparr> 1
     = Inr (Inl (InvalidIndex 1))"
  using generate_proof_total [OF merkle_new_eq, of "[5, 7, 9]" sample_crates 1] by simp

section \<open>Multiproofs\<close>

lemma level_queue_leaves:
  assumes "sorted_wrt (<) is" "\<forall>i \<in> set is. i < n" "is \<noteq> []"
  shows "level_queue (2 * n - 1) (map (\<lambda>i. 2 * n - 1 - i - 1) is)"
proof -
  let ?q = "map (\<lambda>i. 2 * n - 1 - i - 1) is"
  have srt: "sorted_wrt (>) ?q"
    unfolding sorted_wrt_map
  proof (rule sorted_wrt_mono_rel [OF _ assms(1)])
    fix x y assume "x \<in> set is" "y \<in> set is" "x < y"
    moreover from this assms(2) have "y < n" by blast
    ultimately show "2 * n - 1 - y - 1 < 2 * n - 1 - x - 1" by arith
  qed
  have rng: "n - 1 \<le> x \<and> x < 2 * n - 1" if "x \<in> set ?q" for x
    using that assms(2) by auto
  have n: "0 < n" using assms(2,3) by (cases "is") auto
  have "?q \<noteq> []" using assms(3) by simp
  then have h: "hd ?q \<in> set ?q" and l: "last ?q \<in> set ?q" by (rule hd_in_set, rule last_in_set)
  show ?thesis
  proof (cases "n = 1")
    case True
    with assms have "is = [0]" by (cases "is" rule: list.exhaust; cases "tl is") auto
    then show ?thesis using True by (simp add: level_queue_def)
  next
    case False
    then have "0 < last ?q" "parent (hd ?q) < last ?q"
      using rng [OF h] rng [OF l] n by (auto simp: parent_def)
    then show ?thesis using srt rng [OF h] assms(3) by (simp add: level_queue_def)
  qed
qed

lemma multi_proof_complete':
  assumes "sorted_wrt (<) is" "\<forall>i \<in> set is. i < length ls"
  shows "\<exists>m root prf. merkle_new K ls = Inr m \<and> merkle_root m = Inr root
    \<and> merkle_generate_multi_proof m (map (\<lambda>i. merkle_length m - i - 1) is) = Inr (Some prf)
    \<and> merkle_verify_multi_proof K root (map ((!) ls) is) prf = Inr True"
proof -
  let ?node = "commutative_hash_pair K"
  let ?t = "spec_tree ?node ls" and ?m = "\<lparr>tree = spec_tree ?node ls\<rparr>"
  let ?q = "map (\<lambda>i. length ?t - i - 1) is"
  show ?thesis
  proof (cases "is = []")
    case True
    then show ?thesis
      by (auto simp: merkle_new_eq merkle_root_def merkle_generate_multi_proof_def
          merkle_verify_multi_proof_def multi_proof_loop.simps [of _ "[]"])
  next
    case False
    then have n: "ls \<noteq> []" using assms(2) by (cases ls) (auto simp: neq_Nil_conv)
    then have len: "length ?t = 2 * length ls - 1" by (simp add: length_spec_tree)
    have "level_queue (length ?t) ?q"
      using level_queue_leaves [OF assms False] by (simp add: len)
    from pair_hash.multi_proof_loop_ok [OF heap_spec_tree this, of "[]" "[]"]
    obtain p fs where gen: "multi_proof_loop ?t ?q [] [] = Inr (p, fs)"
      and cnt: "length p = length (filter (\<lambda>f. \<not> f) fs)" "length is + length p = length fs + 1"
      and ver: "\<And>before. verify_multi_loop ?node (before @ p) fs (map ((!) ?t) ?q) (length before)
             = Inr ([?t ! 0], length before + length p)"
      by auto
    have vals: "map ((!) ?t) ?q = map ((!) ls) is"
      using assms(2) spec_tree_leaf [of _ ls ?node] by (auto simp: len)
    have leaf: "\<forall>i \<in> set ?q. is_leaf_index (length ?t) i"
      using assms(2) by (auto simp: len is_leaf_index_def left_child_index_def)
    have "merkle_generate_multi_proof ?m ?q = Inr (Some \<lparr>mpath = p, mflags = fs\<rparr>)"
      using gen leaf False by (auto simp: merkle_generate_multi_proof_def)
    moreover have "merkle_verify_multi_proof K (?t ! 0) (map ((!) ls) is) \<lparr>mpath = p, mflags = fs\<rparr> = Inr True"
      using ver [of "[]"] cnt unfolding vals by (simp add: merkle_verify_multi_proof_def Let_def)
    ultimately show ?thesis
      by (auto simp: merkle_new_eq merkle_root_def merkle_length_def)
  qed
qed

text \<open>
  C4. For any set of leaves given in tree order, \<^verbatim>\<open>generate_multi_proof\<close> at their
  indices returns a multiproof, and \<^verbatim>\<open>verify_multi_proof\<close> accepts it for exactly
  these leaves; the empty set is proved by the root itself.
\<close>

theorem multi_proof_complete:
  assumes "sorted_wrt (<) is" "\<forall>i \<in> set is. i < length ls"
  shows "\<exists>m root prf. merkle_new K ls = Inr m \<and> merkle_root m = Inr root
    \<and> merkle_generate_multi_proof m (map (\<lambda>i. merkle_length m - i - 1) is) = Inr (Some prf)
    \<and> merkle_verify_multi_proof K root (map ((!) ls) is) prf = Inr True"
  by (rule multi_proof_complete' [OF assms])

theorem multi_proof_complete_witness:
  "\<exists>m root prf. merkle_new sample_crates [5, 7, 9, 11, 13] = Inr m \<and> merkle_root m = Inr root
    \<and> merkle_generate_multi_proof m (map (\<lambda>i. merkle_length m - i - 1) [0, 2, 3]) = Inr (Some prf)
    \<and> merkle_verify_multi_proof sample_crates root (map ((!) [5, 7, 9, 11, 13]) [0, 2, 3]) prf = Inr True"
  by (rule multi_proof_complete) simp_all

text \<open>
  \<^verbatim>\<open>generate_multi_proof\<close> never panics on a tree built by
  \<^verbatim>\<open>MerkleTree::new\<close>, whatever the indices, their order and repetitions.
\<close>

theorem generate_multi_proof_no_panic:
  "\<exists>m r. merkle_new K ls = Inr m \<and> merkle_generate_multi_proof m is = Inr r"
  using multi_proof_total [of "commutative_hash_pair K" "\<lparr>tree = spec_tree (commutative_hash_pair K) ls\<rparr>"]
  by (simp add: merkle_new_eq heap_spec_tree)

text \<open>
  \<^verbatim>\<open>generate_multi_proof\<close> depends on the order of the indices: asked for the
  last leaf of three before the first, it returns a proof, but no verifier accepts it for
  these leaves.
\<close>

theorem unordered_multi_proof_rejected:
  "\<exists>m prf. merkle_new K [a, b, c] = Inr m
    \<and> merkle_generate_multi_proof m [2, 4] = Inr (Some prf)
    \<and> merkle_verify_multi_proof K root [c, a] prf = Inr False"
proof -
  let ?t = "spec_tree (commutative_hash_pair K) [a, b, c]"
  have len: "length ?t = 5" by (simp add: length_spec_tree)
  have l: "is_leaf_index 5 2" "is_leaf_index 5 4" by (simp_all add: is_leaf_index_def left_child_index_def)
  have "multi_proof_loop ?t [2, 4] [] [] = Inr ([?t ! 1, ?t ! 3], [False, False])"
    using len by (simp add: multi_proof_loop.simps front_is_def sibling_def parent_def)
  then have "merkle_generate_multi_proof \<lparr>tree = ?t\<rparr> [2, 4]
      = Inr (Some \<lparr>mpath = [?t ! 1, ?t ! 3], mflags = [False, False]\<rparr>)"
    using l len by (simp add: merkle_generate_multi_proof_def)
  then show ?thesis
    by (auto simp: merkle_new_eq merkle_verify_multi_proof_def)
qed

text \<open>
  C15. \<^verbatim>\<open>verify_multi_proof\<close> panics instead of returning false exactly on the
  multiproofs that pass both of its length checks and have at least one flag and more path
  hashes than false flags: it removes from an empty vector.
\<close>

theorem verify_multi_proof_panics_iff:
  "merkle_verify_multi_proof K root leaves prf = Inl e \<longleftrightarrow>
     e = IndexOutOfBounds
     \<and> length leaves + length (mpath prf) = length (mflags prf) + 1
     \<and> length (filter Not (mflags prf)) < length (mpath prf)
     \<and> mflags prf \<noteq> []"
proof -
  let ?fs = "mflags prf" and ?p = "mpath prf"
  let ?loop = "verify_multi_loop (commutative_hash_pair K) ?p ?fs leaves 0"
  note split = length_filter_id_not [of ?fs]
  show ?thesis
  proof (cases "length (filter Not ?fs) \<le> length ?p \<and> length leaves + length ?p = length ?fs + 1")
    case False
    then show ?thesis by (auto simp: merkle_verify_multi_proof_def Let_def)
  next
    case True
    show ?thesis
    proof (cases "?fs \<noteq> [] \<and> length (filter Not ?fs) < length ?p")
      case True': True
      then have "?loop = Inl IndexOutOfBounds"
        using True split by (intro verify_multi_loop_panic) auto
      with True True' show ?thesis by (auto simp: merkle_verify_multi_proof_def Let_def)
    next
      case False
      then have "?fs = [] \<or> length (filter id ?fs) < length leaves" using True split by auto
      from verify_multi_loop_ok [OF _ this, of 0 ?p] True
      obtain st where st: "?loop = Inr (st, length (filter Not ?fs))"
        and len: "length st + length (filter id ?fs) = length leaves"
        by auto
      have "length st = 1 \<and> length (filter Not ?fs) = length ?p \<or> length st = 0 \<and> length ?p = 1 \<and> ?fs = []"
      proof (cases "?fs = []")
        case True': True
        then have "length leaves + length ?p = 1" using True by simp
        then have "length leaves = 1 \<and> length ?p = 0 \<or> length leaves = 0 \<and> length ?p = 1" by arith
        then show ?thesis using True' len by auto
      next
        case False': False
        then have "length (filter Not ?fs) = length ?p" using False True by auto
        then show ?thesis using True split len by auto
      qed
      with st True False show ?thesis
        by (cases st) (auto simp: merkle_verify_multi_proof_def Let_def and_then_Inl_iff)
    qed
  qed
qed

end
