(* ===== verification/Merkle_Sound.thy ===== *)
theory Merkle_Sound
  imports Merkle_Props
begin

text \<open>
  The standard tree, whose leaves are hashes of a path and a value, and the soundness of
  its proofs.  Soundness needs that the hash function does not collide on the inputs that
  were actually hashed: those of the tree and those of the verification run, which the
  functions of this theory collect.  It also needs that no path is 32 bytes long: the input
  of such a leaf has the 64 bytes of the input of an inner node.
\<close>

section \<open>The inputs of a verification run\<close>

definition pair_bytes :: "hash \<times> hash \<Rightarrow> bytes" where
  "pair_bytes p =
     (if fst p < snd p then be_bytes 32 (fst p) @ be_bytes 32 (snd p)
      else be_bytes 32 (snd p) @ be_bytes 32 (fst p))"

lemma commutative_hash_pair_bytes: "commutative_hash_pair K a b = keccak256 K (pair_bytes (a, b))"
  by (simp add: commutative_hash_pair_def hash_pair_def pair_bytes_def)

lemma length_pair_bytes [simp]: "length (pair_bytes p) = 64"
  by (simp add: pair_bytes_def)

lemma pair_bytes_inj: "pair_bytes (a, b) = pair_bytes (c, d) \<Longrightarrow> {a, b} = {c, d}"
  by (auto simp: pair_bytes_def split: if_splits dest!: be_hash.prefix_inj be_hash.enc_inj)

fun fold_pairs :: "(hash \<Rightarrow> hash \<Rightarrow> hash) \<Rightarrow> hash \<Rightarrow> hash list \<Rightarrow> (hash \<times> hash) list" where
  "fold_pairs node x [] = []"
| "fold_pairs node x (s # p) = (x, s) # fold_pairs node (node x s) p"

fun multi_pairs ::
    "(hash \<Rightarrow> hash \<Rightarrow> hash) \<Rightarrow> hash list \<Rightarrow> bool list \<Rightarrow> hash list \<Rightarrow> nat \<Rightarrow> (hash \<times> hash) list" where
  "multi_pairs node p [] stack cursor = []"
| "multi_pairs node p (f # fs) [] cursor = []"
| "multi_pairs node p (f # fs) (a # s) cursor =
     (if f then (case s of [] \<Rightarrow> [] | b # s' \<Rightarrow> (a, b) # multi_pairs node p fs (s' @ [node a b]) cursor)
      else if cursor < length p
      then (a, p ! cursor) # multi_pairs node p fs (s @ [node a (p ! cursor)]) (Suc cursor)
      else [])"

definition tree_pairs :: "hash list \<Rightarrow> (hash \<times> hash) list" where
  "tree_pairs t = map (\<lambda>i. (t ! (2 * i + 1), t ! (2 * i + 2))) [0..<length t div 2]"

lemma tree_node_cases:
  assumes "ls \<noteq> []" "x \<in> set (spec_tree node ls)"
  shows "x \<in> set ls \<or> (\<exists>(a, b) \<in> set (tree_pairs (spec_tree node ls)). x = node a b)"
proof -
  let ?t = "spec_tree node ls"
  obtain i where i: "i < length ?t" "x = ?t ! i" using assms(2) by (auto simp: in_set_conv_nth)
  have len: "length ?t = 2 * length ls - 1" using assms(1) by (simp add: length_spec_tree)
  show ?thesis
  proof (cases "2 * i + 2 < length ?t")
    case True
    then have "x = node (?t ! (2 * i + 1)) (?t ! (2 * i + 2))"
      using heap_spec_tree [of node ls] i by (simp add: heap_tree_def)
    moreover have "i < length ?t div 2" using True by arith
    ultimately show ?thesis by (fastforce simp: tree_pairs_def)
  next
    case False
    then have "2 * length ls - 2 - i < length ls" using len i assms(1) by arith
    moreover have "2 * length ls - 2 - (2 * length ls - 2 - i) = i" using len i by arith
    ultimately have "x = ls ! (2 * length ls - 2 - i)"
      using spec_tree_leaf [of "2 * length ls - 2 - i" ls node] i by simp
    then show ?thesis using \<open>2 * length ls - 2 - i < length ls\<close> by auto
  qed
qed

lemma tree_pairs_in_tree:
  "(a, b) \<in> set (tree_pairs t) \<Longrightarrow> odd (length t) \<Longrightarrow> a \<in> set t \<and> b \<in> set t"
  by (auto simp: tree_pairs_def elim!: oddE)

section \<open>From the root back to the leaves\<close>

text \<open>A set of hashes is opened by the pairs when a hash in it comes only from hashes in it.\<close>

definition opened_by :: "(hash \<Rightarrow> hash \<Rightarrow> hash) \<Rightarrow> hash set \<Rightarrow> (hash \<times> hash) set \<Rightarrow> bool" where
  "opened_by node G P \<longleftrightarrow> (\<forall>(a, b) \<in> P. node a b \<in> G \<longrightarrow> a \<in> G \<and> b \<in> G)"

lemma fold_opened:
  "foldl node x p \<in> G \<Longrightarrow> opened_by node G (set (fold_pairs node x p)) \<Longrightarrow> x \<in> G"
  by (induction p arbitrary: x) (auto simp: opened_by_def)

lemma multi_loop_opened:
  "verify_multi_loop node p fs stack cursor = Inr (stack', cursor') \<Longrightarrow> set stack' \<subseteq> G \<Longrightarrow>
   opened_by node G (set (multi_pairs node p fs stack cursor)) \<Longrightarrow> set stack \<subseteq> G"
proof (induction node p fs stack cursor rule: multi_pairs.induct)
  case (3 node p f fs a s cursor)
  show ?case
  proof (cases f)
    case True
    then obtain b s' where s: "s = b # s'" using 3 by (cases s) auto
    then have "set (s' @ [node a b]) \<subseteq> G" using 3 True by (auto simp: opened_by_def)
    then show ?thesis using 3 True s by (auto simp: opened_by_def)
  next
    case False
    have c: "cursor < length p" using 3 False by (auto simp: index_at_def split: if_splits)
    then have "set (s @ [node a (p ! cursor)]) \<subseteq> G" using 3 False by (auto simp: opened_by_def)
    then show ?thesis using 3 False c by (auto simp: opened_by_def)
  qed
qed auto

section \<open>The leaves of a standard tree\<close>

definition leaf_bytes :: "crates \<Rightarrow> string \<times> hash \<Rightarrow> bytes" where
  "leaf_bytes K l = packed_leaf K (fst l) (snd l)"

definition leaf_hashes :: "crates \<Rightarrow> (string \<times> hash) list \<Rightarrow> hash list" where
  "leaf_hashes K l = map (\<lambda>(p, h). hash_leaf K p h) l"

lemma leaf_hashes_bytes: "leaf_hashes K ps = map (\<lambda>l. keccak256 K (leaf_bytes K l)) ps"
  by (auto simp: leaf_hashes_def leaf_bytes_def hash_leaf_def hash_bytes_def)

lemma leaf_bytes_inj: "packed_law K \<Longrightarrow> inj (leaf_bytes K)"
  by (rule injI) (auto simp: leaf_bytes_def dest: packed_leaf_inj)

lemma length_leaf_bytes: "packed_law K \<Longrightarrow> length (leaf_bytes K l) = length (fst l) + 32"
  by (simp add: leaf_bytes_def packed_law_def)

text \<open>
  No collisions among the leaves \<open>ps\<close> and inner nodes of a tree, the leaves \<open>xs\<close> claimed in
  a proof, and the pairs \<open>prs\<close> hashed while verifying it.
\<close>

definition no_collisions ::
    "crates \<Rightarrow> (string \<times> hash) list \<Rightarrow> (string \<times> hash) list \<Rightarrow> (hash \<times> hash) list \<Rightarrow> bool" where
  "no_collisions K ps xs prs \<longleftrightarrow>
     inj_on (keccak256 K)
       (set (map (leaf_bytes K) (ps @ xs)
          @ map pair_bytes (tree_pairs (spec_tree (commutative_hash_pair K) (leaf_hashes K ps)) @ prs)))"

definition separated_paths :: "(string \<times> hash) list \<Rightarrow> bool" where
  "separated_paths ps \<longleftrightarrow> (\<forall>l \<in> set ps. length (fst l) \<noteq> 32)"

lemma leaf_not_pair:
  assumes "packed_law K" "no_collisions K ps xs prs" "separated_paths (ps @ xs)"
    and "l \<in> set (ps @ xs)"
    and "(a, b) \<in> set (tree_pairs (spec_tree (commutative_hash_pair K) (leaf_hashes K ps)) @ prs)"
  shows "keccak256 K (leaf_bytes K l) \<noteq> commutative_hash_pair K a b"
proof
  assume "keccak256 K (leaf_bytes K l) = commutative_hash_pair K a b"
  then have "keccak256 K (leaf_bytes K l) = keccak256 K (pair_bytes (a, b))"
    by (simp add: commutative_hash_pair_bytes)
  then have "leaf_bytes K l = pair_bytes (a, b)"
    by (rule inj_onD [OF assms(2) [unfolded no_collisions_def]]) (use assms(4,5) in force)+
  then have "length (fst l) = 32"
    using length_leaf_bytes [OF assms(1), of l] by simp
  with assms(3,4) show False by (auto simp: separated_paths_def)
qed

lemma tree_opened:
  assumes "packed_law K" "no_collisions K ps xs prs" "separated_paths (ps @ xs)" "ps \<noteq> []"
  shows "opened_by (commutative_hash_pair K)
           (set (spec_tree (commutative_hash_pair K) (leaf_hashes K ps))) (set prs)"
  unfolding opened_by_def
proof (intro ballI, unfold split_paired_all case_prod_conv, intro impI)
  let ?t = "spec_tree (commutative_hash_pair K) (leaf_hashes K ps)"
  fix a b assume ab: "(a, b) \<in> set prs" and node: "commutative_hash_pair K a b \<in> set ?t"
  have ne: "leaf_hashes K ps \<noteq> []" using assms(4) by (simp add: leaf_hashes_def)
  have "commutative_hash_pair K a b \<notin> set (leaf_hashes K ps)"
  proof
    assume "commutative_hash_pair K a b \<in> set (leaf_hashes K ps)"
    then obtain l where "l \<in> set ps" "commutative_hash_pair K a b = keccak256 K (leaf_bytes K l)"
      by (auto simp: leaf_hashes_bytes)
    with leaf_not_pair [OF assms(1-3), of l a b] ab show False by simp
  qed
  then obtain c d where cd: "(c, d) \<in> set (tree_pairs ?t)"
    "commutative_hash_pair K a b = commutative_hash_pair K c d"
    using tree_node_cases [OF ne node] by blast
  then have "keccak256 K (pair_bytes (a, b)) = keccak256 K (pair_bytes (c, d))"
    by (simp add: commutative_hash_pair_bytes)
  then have "pair_bytes (a, b) = pair_bytes (c, d)"
    by (rule inj_onD [OF assms(2) [unfolded no_collisions_def]]) (use ab cd in force)+
  then have "{a, b} = {c, d}" by (rule pair_bytes_inj)
  moreover have "odd (length ?t)" using heap_spec_tree by (simp add: heap_tree_def)
  ultimately show "a \<in> set ?t \<and> b \<in> set ?t"
    using tree_pairs_in_tree [OF cd(1)] by (auto simp: doubleton_eq_iff)
qed

lemma tree_leaf_member:
  assumes "packed_law K" "no_collisions K ps xs prs" "separated_paths (ps @ xs)" "ps \<noteq> []"
    and "l \<in> set xs" "keccak256 K (leaf_bytes K l) \<in> set (spec_tree (commutative_hash_pair K) (leaf_hashes K ps))"
  shows "l \<in> set ps"
proof -
  have ne: "leaf_hashes K ps \<noteq> []" using assms(4) by (simp add: leaf_hashes_def)
  have "keccak256 K (leaf_bytes K l) \<in> set (leaf_hashes K ps)"
    using tree_node_cases [OF ne assms(6)] leaf_not_pair [OF assms(1-3), of l] assms(5) by auto
  then obtain l' where l': "l' \<in> set ps" "keccak256 K (leaf_bytes K l) = keccak256 K (leaf_bytes K l')"
    by (auto simp: leaf_hashes_bytes)
  have "leaf_bytes K l = leaf_bytes K l'"
    by (rule inj_onD [OF assms(2) [unfolded no_collisions_def] l'(2)]) (use assms(5) l' in force)+
  with l'(1) show ?thesis using leaf_bytes_inj [OF assms(1)] by (auto dest: injD)
qed

section \<open>Soundness\<close>

lemma standard_proof_sound':
  assumes "packed_law K" "separated_paths (ps @ [(q, h)])" "ps \<noteq> []"
    and "no_collisions K ps [(q, h)]
           (fold_pairs (commutative_hash_pair K) (hash_leaf K q h) (path pf))"
    and "merkle_new K (leaf_hashes K ps) = Inr m" "merkle_root m = Inr root"
    and "standard_verify_proof K root (hash_leaf K q h) pf"
  shows "(q, h) \<in> set ps"
proof -
  let ?t = "spec_tree (commutative_hash_pair K) (leaf_hashes K ps)"
  have "root = ?t ! 0" using assms(5,6) by (auto simp: merkle_new_eq merkle_root_def)
  then have "root \<in> set ?t" by simp
  then have "foldl (commutative_hash_pair K) (hash_leaf K q h) (path pf) \<in> set ?t"
    using assms(7) by (simp add: standard_verify_proof_def merkle_verify_proof_def)
  then have "hash_leaf K q h \<in> set ?t"
    using tree_opened [OF assms(1,4,2,3)] by (rule fold_opened)
  then show ?thesis
    using tree_leaf_member [OF assms(1,4,2,3), of "(q, h)"]
    by (simp add: leaf_bytes_def hash_leaf_def hash_bytes_def)
qed

text \<open>
  C3. When a proof verifies for a leaf path and value against the root of a non-empty standard
  tree, that leaf is one of the tree's, provided the hash function does not collide on the
  inputs hashed by the tree and by this verification and no path is 32 bytes long.
\<close>

theorem standard_proof_sound:
  assumes "packed_law K" "separated_paths (ps @ [(q, h)])" "ps \<noteq> []"
    and "no_collisions K ps [(q, h)]
           (fold_pairs (commutative_hash_pair K) (hash_leaf K q h) (path pf))"
    and "merkle_new K (leaf_hashes K ps) = Inr m" "merkle_root m = Inr root"
    and "standard_verify_proof K root (hash_leaf K q h) pf"
  shows "(q, h) \<in> set ps"
  by (rule standard_proof_sound' [OF assms])

text \<open>
  C2. The same for multiproofs, under the same conditions: when \<^verbatim>\<open>verify_multi_proof\<close>
  accepts a list of leaves against the root of a non-empty standard tree, none of the paths is
  32 bytes long and the inputs hashed do not collide, every one of them is a leaf of the tree.
\<close>

theorem standard_multi_proof_sound:
  assumes "packed_law K" "separated_paths (ps @ xs)" "ps \<noteq> []"
    and "no_collisions K ps xs
           (multi_pairs (commutative_hash_pair K) (mpath pf) (mflags pf) (leaf_hashes K xs) 0)"
    and "merkle_new K (leaf_hashes K ps) = Inr m" "merkle_root m = Inr root"
    and "standard_verify_multi_proof K root (leaf_hashes K xs) pf = Inr True"
  shows "set xs \<subseteq> set ps"
proof -
  let ?node = "commutative_hash_pair K"
  let ?t = "spec_tree ?node (leaf_hashes K ps)"
  have root: "root \<in> set ?t" using assms(5,6) by (auto simp: merkle_new_eq merkle_root_def)
  from assms(7) obtain st c where loop:
      "verify_multi_loop ?node (mpath pf) (mflags pf) (leaf_hashes K xs) 0 = Inr (st, c)"
    and st: "st = [root] \<or> st = []"
    by (auto simp: standard_verify_multi_proof_def merkle_verify_multi_proof_def Let_def and_then_Inr_iff
        map_ok_def length_Suc_conv split: if_splits)
  have "set (leaf_hashes K xs) \<subseteq> set ?t"
    using multi_loop_opened [OF loop _ tree_opened [OF assms(1,4,2,3)]] st root by auto
  then have "l \<in> set ps" if "l \<in> set xs" for l
    using tree_leaf_member [OF assms(1,4,2,3) that] that by (auto simp: leaf_hashes_bytes)
  then show ?thesis by blast
qed

section \<open>Completeness for the standard tree\<close>

lemma collect_indices_ok:
  "i + length ls \<le> L \<Longrightarrow> \<exists>m'. collect_indices L i ls m = Inr m'
     \<and> (\<forall>x. x \<notin> set ls \<longrightarrow> m' x = m x)
     \<and> (\<forall>x \<in> set ls. \<exists>k < length ls. ls ! k = x \<and> m' x = Some (L - (i + k) - 1))"
proof (induction ls arbitrary: i m)
  case Nil
  then show ?case by simp
next
  case (Cons l ls)
  from Cons.IH [of "Suc i" "m(l \<mapsto> L - i - 1)"] Cons.prems
  obtain m' where m': "collect_indices L (Suc i) ls (m(l \<mapsto> L - i - 1)) = Inr m'"
    and out: "\<forall>x. x \<notin> set ls \<longrightarrow> m' x = (m(l \<mapsto> L - i - 1)) x"
    and ins: "\<forall>x \<in> set ls. \<exists>k < length ls. ls ! k = x \<and> m' x = Some (L - (Suc i + k) - 1)"
    by (auto simp del: fun_upd_apply)
  have "\<exists>k < length (l # ls). (l # ls) ! k = x \<and> m' x = Some (L - (i + k) - 1)"
    if x: "x \<in> set (l # ls)" for x
  proof (cases "x \<in> set ls")
    case True
    with ins obtain k where "k < length ls" "ls ! k = x" "m' x = Some (L - (Suc i + k) - 1)" by blast
    then show ?thesis by (intro exI [of _ "Suc k"]) simp
  next
    case False
    with x out show ?thesis by (intro exI [of _ 0]) auto
  qed
  with m' out Cons.prems show ?case by auto
qed

lemma standard_new_ok:
  assumes "ls \<noteq> []"
  obtains ix where "standard_new K ls
      = Inr \<lparr>smt_tree = \<lparr>tree = spec_tree (commutative_hash_pair K) ls\<rparr>, smt_indices = ix\<rparr>"
    and "\<And>x. x \<notin> set ls \<Longrightarrow> ix x = None"
    and "\<And>x. x \<in> set ls \<Longrightarrow> \<exists>k < length ls. ls ! k = x \<and> ix x = Some (2 * length ls - 2 - k)"
proof -
  have "length ls \<le> 2 * length ls - 1" using assms by (cases ls) auto
  with collect_indices_ok [of 0 ls "2 * length ls - 1" Map.empty]
  obtain ix where "collect_indices (2 * length ls - 1) 0 ls Map.empty = Inr ix"
    "\<forall>x. x \<notin> set ls \<longrightarrow> ix x = None"
    "\<forall>x \<in> set ls. \<exists>k < length ls. ls ! k = x \<and> ix x = Some (2 * length ls - 1 - (0 + k) - 1)"
    by auto
  with assms that show thesis
    by (auto simp: standard_new_def merkle_new_eq merkle_length_def length_spec_tree)
qed

lemma standard_new_total: "\<exists>s. standard_new K ls = Inr s \<and>
    smt_tree s = \<lparr>tree = spec_tree (commutative_hash_pair K) ls\<rparr>"
proof (cases "ls = []")
  case True
  then show ?thesis by (simp add: standard_new_def merkle_new_eq)
next
  case False
  then show ?thesis by (metis standard_new_ok standard_merkle_tree.select_convs(1))
qed

lemma standard_proof_complete':
  assumes "ls \<noteq> []"
  shows "\<exists>s root. standard_new K ls = Inr s \<and> standard_root s = Inr root \<and>
    (if x \<in> set ls
     then \<exists>p. standard_generate_proof s x = Inr (Some p) \<and> standard_verify_proof K root x p
     else standard_generate_proof s x = Inr None)"
proof -
  obtain ix where s: "standard_new K ls
      = Inr \<lparr>smt_tree = \<lparr>tree = spec_tree (commutative_hash_pair K) ls\<rparr>, smt_indices = ix\<rparr>"
    and out: "x \<notin> set ls \<Longrightarrow> ix x = None"
    and ins: "x \<in> set ls \<Longrightarrow> \<exists>k < length ls. ls ! k = x \<and> ix x = Some (2 * length ls - 2 - k)"
    using standard_new_ok [OF assms, of K] by metis
  show ?thesis
  proof (cases "x \<in> set ls")
    case True
    then obtain k where k: "k < length ls" "ls ! k = x" "ix x = Some (2 * length ls - 2 - k)"
      using ins by blast
    let ?t = "spec_tree (commutative_hash_pair K) ls" and ?k = "2 * length ls - 2 - k"
    have kt: "?k < length ?t" "is_leaf_index (length ?t) ?k"
      using k(1) by (auto simp: length_spec_tree is_leaf_index_def left_child_index_def)
    from pair_hash.proof_loop_ok [OF heap_spec_tree kt(1), of "[]"]
    obtain p where "proof_loop ?t ?k [] = Inr p" "foldl (commutative_hash_pair K) (?t ! ?k) p = ?t ! 0"
      by auto
    then show ?thesis
      using True s k kt(2) spec_tree_leaf [OF k(1)]
      by (auto simp: standard_root_def merkle_root_def standard_generate_proof_def
          merkle_generate_proof_def standard_verify_proof_def merkle_verify_proof_def)
  next
    case False
    then show ?thesis
      using s out by (simp add: standard_root_def merkle_root_def standard_generate_proof_def)
  qed
qed

text \<open>
  \<^verbatim>\<open>StandardMerkleTree::generate_proof\<close> never panics (its \<^verbatim>\<open>expect\<close>
  cannot fail): it returns a proof that verifies for every leaf of the tree, repeated ones
  included, and \<^verbatim>\<open>None\<close> for everything else.
\<close>

theorem standard_proof_complete:
  assumes "ls \<noteq> []"
  shows "\<exists>s root. standard_new K ls = Inr s \<and> standard_root s = Inr root \<and>
    (if x \<in> set ls
     then \<exists>p. standard_generate_proof s x = Inr (Some p) \<and> standard_verify_proof K root x p
     else standard_generate_proof s x = Inr None)"
  by (rule standard_proof_complete' [OF assms])

section \<open>Why the paths must be separated\<close>

text \<open>
  The leaves carry no domain separation: under a path of exactly 32 bytes, a leaf
  hashes like an inner node whose left child is the path's bytes.  This is what the
  hypothesis on the paths in the soundness theorems excludes.
\<close>

theorem hash_leaf_is_hash_pair:
  assumes "packed_law K" "length q = 32"
  shows "\<exists>a. \<forall>h. hash_leaf K q h = hash_pair K a h"
proof -
  obtain a :: hash where "be_bytes 32 a = str_bytes q"
    using be_bytes_surj [of 32 "str_bytes q", where ?'a = 256] assms(2) by auto
  then show ?thesis
    using assms(1)
    by (intro exI [of _ a]) (simp add: hash_leaf_def hash_bytes_def hash_pair_def packed_law_def)
qed

theorem hash_leaf_is_hash_pair_witness:
  "\<exists>a. \<forall>h. hash_leaf sample_crates ''abcdefghijklmnopqrstuvwxyz012345'' h = hash_pair sample_crates a h"
  by (rule hash_leaf_is_hash_pair [OF sample_packed_law]) simp

section \<open>Concrete instances\<close>

lemma inj_on_distinct: "distinct (map f xs) \<Longrightarrow> B \<subseteq> set xs \<Longrightarrow> inj_on f B"
  by (auto simp: distinct_map intro: inj_on_subset)

lemma sample_leaf_a: "keccak256 sample_crates (leaf_bytes sample_crates (''a'', 1)) = 603128"
  by code_simp

lemma sample_leaf_b: "keccak256 sample_crates (leaf_bytes sample_crates (''b'', 2)) = 700954"
  by code_simp

lemma sample_pair: "keccak256 sample_crates (pair_bytes (700954, 603128)) = 276725"
  by code_simp

lemma pair_bytes_commute: "pair_bytes (a, b) = pair_bytes (b, a)"
  by (auto simp: pair_bytes_def)

lemma sample_leaf_hashes:
  "leaf_hashes sample_crates [(''a'', 1), (''b'', 2)] = [603128, 700954]"
  by (simp add: leaf_hashes_bytes sample_leaf_a sample_leaf_b)

lemma sample_hash_leaf: "hash_leaf sample_crates ''a'' 1 = 603128"
   "hash_leaf sample_crates ''b'' 2 = 700954"
  using sample_leaf_a sample_leaf_b by (simp_all add: hash_leaf_def hash_bytes_def leaf_bytes_def)

lemma sample_tree: "spec_tree (commutative_hash_pair sample_crates) [603128, 700954] = [276725, 700954, 603128]"
  by (simp add: spec_tree_def node_value.simps upt_rec commutative_hash_pair_bytes sample_pair)

lemma sample_no_collisions:
  assumes "set xs \<subseteq> {(''a'', 1), (''b'', 2)}" "set prs \<subseteq> {(603128, 700954), (700954, 603128)}"
  shows "no_collisions sample_crates [(''a'', 1), (''b'', 2)] xs prs"
  unfolding no_collisions_def sample_leaf_hashes sample_tree
proof (rule inj_on_distinct)
  let ?l = "leaf_bytes sample_crates"
  show "distinct (map (keccak256 sample_crates) [?l (''a'', 1), ?l (''b'', 2), pair_bytes (700954, 603128)])"
    by (simp add: sample_leaf_a sample_leaf_b sample_pair)
  have "pair_bytes (603128, 700954) = pair_bytes (700954, 603128)" by (rule pair_bytes_commute)
  with assms show "set (map ?l ([(''a'', 1), (''b'', 2)] @ xs) @
        map pair_bytes (tree_pairs [276725, 700954, 603128] @ prs))
      \<subseteq> set [?l (''a'', 1), ?l (''b'', 2), pair_bytes (700954, 603128)]"
    by (auto simp: tree_pairs_def upt_rec)
qed

theorem standard_proof_sound_witness:
  "(''a'', 1) \<in> set [(''a'', 1 :: hash), (''b'', 2)]"
proof (rule standard_proof_sound [OF sample_packed_law])
  let ?K = sample_crates
  let ?pf = "\<lparr>path = [700954]\<rparr>"
  show "separated_paths ([(''a'', 1), (''b'', 2)] @ [(''a'', 1)])" by (simp add: separated_paths_def)
  show "no_collisions ?K [(''a'', 1), (''b'', 2)] [(''a'', 1)]
      (fold_pairs (commutative_hash_pair ?K) (hash_leaf ?K ''a'' 1) (path ?pf))"
    by (rule sample_no_collisions) (simp_all add: sample_hash_leaf)
  show "merkle_new ?K (leaf_hashes ?K [(''a'', 1), (''b'', 2)]) = Inr \<lparr>tree = [276725, 700954, 603128]\<rparr>"
    by (simp add: merkle_new_eq sample_leaf_hashes sample_tree)
  show "merkle_root \<lparr>tree = [276725, 700954, 603128]\<rparr> = Inr 276725" by (simp add: merkle_root_def)
  show "standard_verify_proof ?K 276725 (hash_leaf ?K ''a'' 1) ?pf"
    using sample_pair pair_bytes_commute [of 700954 603128]
    by (simp add: standard_verify_proof_def merkle_verify_proof_def sample_hash_leaf commutative_hash_pair_bytes)
qed simp

theorem standard_multi_proof_sound_witness:
  "set [(''a'', 1), (''b'', 2)] \<subseteq> set [(''a'', 1 :: hash), (''b'', 2)]"
proof (rule standard_multi_proof_sound [OF sample_packed_law])
  let ?K = sample_crates and ?pf = "\<lparr>mpath = [], mflags = [True]\<rparr>"
  show "separated_paths ([(''a'', 1), (''b'', 2)] @ [(''a'', 1), (''b'', 2)])"
    by (simp add: separated_paths_def)
  show "no_collisions ?K [(''a'', 1), (''b'', 2)] [(''a'', 1), (''b'', 2)]
      (multi_pairs (commutative_hash_pair ?K) (mpath ?pf) (mflags ?pf)
        (leaf_hashes ?K [(''a'', 1), (''b'', 2)]) 0)"
    by (rule sample_no_collisions) (simp_all add: sample_leaf_hashes)
  show "merkle_new ?K (leaf_hashes ?K [(''a'', 1), (''b'', 2)]) = Inr \<lparr>tree = [276725, 700954, 603128]\<rparr>"
    by (simp add: merkle_new_eq sample_leaf_hashes sample_tree)
  show "merkle_root \<lparr>tree = [276725, 700954, 603128]\<rparr> = Inr 276725" by (simp add: merkle_root_def)
  show "standard_verify_multi_proof ?K 276725 (leaf_hashes ?K [(''a'', 1), (''b'', 2)]) ?pf = Inr True"
    using sample_pair pair_bytes_commute [of 700954 603128]
    by (simp add: standard_verify_multi_proof_def merkle_verify_multi_proof_def sample_leaf_hashes
        commutative_hash_pair_bytes)
qed simp

theorem standard_proof_complete_witness:
  "\<exists>s root. standard_new sample_crates [4, 6, 4] = Inr s \<and> standard_root s = Inr root \<and>
    (if 4 \<in> set [4 :: hash, 6, 4]
     then \<exists>p. standard_generate_proof s 4 = Inr (Some p) \<and> standard_verify_proof sample_crates root 4 p
     else standard_generate_proof s 4 = Inr None)"
  by (rule standard_proof_complete) simp

end
