(* ===== verification/Merkle_Leaves.thy ===== *)
theory Merkle_Leaves
  imports Merkle_Sound
begin

text \<open>
  The second half of \<^verbatim>\<open>types/src/cryptography/merkle_tree.rs\<close>: leaf paths, the
  \<^verbatim>\<open>MerkleBuilder\<close>, and the trait \<^verbatim>\<open>Merkleizable\<close> with its default methods.
  A \<^verbatim>\<open>Merkleizable\<close> type is represented by its \<^verbatim>\<open>append_leaves\<close>, which the
  default methods take as an argument.  The locale \<open>merkle_paths\<close> is the contract of the
  trait, that no two leaves of a value share a path; what the proofs of its leaves need
  follows from it once, for every type that is merkleized.
\<close>

section \<open>Paths\<close>

definition join_prefix :: "string \<Rightarrow> string \<Rightarrow> string" where
  "join_prefix prefix sub =
     (if prefix = [] \<and> sub = [] then []
      else if prefix = [] then sub
      else if sub = [] then prefix
      else prefix @ ''.'' @ sub)"

definition index_prefix :: "string \<Rightarrow> nat \<Rightarrow> string" where
  "index_prefix prefix i =
     (if prefix = [] then ''['' @ show_nat i @ '']''
      else prefix @ ''['' @ show_nat i @ '']'')"

lemma index_prefix_eq: "index_prefix prefix i = prefix @ ''['' @ show_nat i @ '']''"
  by (simp add: index_prefix_def)

lemma join_prefix_simps [simp]:
  "join_prefix [] sub = sub"
  "join_prefix prefix [] = prefix"
  by (simp_all add: join_prefix_def)

lemma join_prefix_inj: "join_prefix p s = join_prefix p t \<Longrightarrow> s = t"
  by (auto simp: join_prefix_def split: if_splits)

text \<open>The bracketed index can be read off the front of what follows a common prefix.\<close>

lemma append_sep_inj:
  "c \<notin> set xs \<Longrightarrow> c \<notin> set ys \<Longrightarrow> xs @ c # r = ys @ c # s \<Longrightarrow> xs = ys"
proof (induction xs arbitrary: ys)
  case Nil
  then show ?case by (cases ys) auto
next
  case (Cons x xs)
  then show ?case by (cases ys) auto
qed

lemma join_index_form:
  "\<exists>r. join_prefix (index_prefix prefix i) s = prefix @ CHR ''['' # show_nat i @ CHR '']'' # r"
  by (cases "s = []") (auto simp: join_prefix_def index_prefix_def)

lemma join_index_inj:
  assumes "join_prefix (index_prefix prefix i) s = join_prefix (index_prefix prefix j) t"
  shows "i = j"
proof -
  obtain r r' where "prefix @ CHR ''['' # show_nat i @ CHR '']'' # r
      = prefix @ CHR ''['' # show_nat j @ CHR '']'' # r'"
    using join_index_form [of prefix i s] join_index_form [of prefix j t] assms by metis
  then have "show_nat i @ CHR '']'' # r = show_nat j @ CHR '']'' # r'" by simp
  then have "show_nat i = show_nat j" by (rule append_sep_inj [rotated 2]) (rule show_nat_sep)+
  then show "i = j" by (rule show_nat_inj)
qed

text \<open>The field a path starts with.\<close>

definition path_head :: "string \<Rightarrow> string" where
  "path_head p = takeWhile (\<lambda>c. c \<noteq> CHR ''['' \<and> c \<noteq> CHR ''.'') p"

definition field_name :: "string \<Rightarrow> bool" where
  "field_name p \<longleftrightarrow> p \<noteq> [] \<and> CHR ''['' \<notin> set p \<and> CHR ''.'' \<notin> set p"

lemma path_head_field [simp]:
  assumes "field_name f"
  shows "path_head f = f" "path_head (join_prefix f s) = f"
    "path_head (join_prefix (index_prefix f i) s) = f"
proof -
  have all: "\<And>c. c \<in> set f \<Longrightarrow> c \<noteq> CHR ''['' \<and> c \<noteq> CHR ''.''" and ne: "f \<noteq> []"
    using assms by (auto simp: field_name_def)
  then show "path_head f = f" by (simp add: path_head_def takeWhile_eq_all_conv)
  show "path_head (join_prefix f s) = f"
    using all ne by (cases "s = []") (auto simp: path_head_def join_prefix_def takeWhile_append takeWhile_eq_all_conv)
  show "path_head (join_prefix (index_prefix f i) s) = f"
    using all ne join_index_form [of f i s] by (auto simp: path_head_def takeWhile_append)
qed

section \<open>\<^verbatim>\<open>MerkleBuilder\<close>\<close>

record merkle_builder =
  mb_leaves :: "(string \<times> hash) list"

type_synonym 'a appender = "'a \<Rightarrow> merkle_builder \<Rightarrow> merkle_builder"

definition builder_new :: merkle_builder where
  "builder_new = \<lparr>mb_leaves = []\<rparr>"

definition builder_build :: "merkle_builder \<Rightarrow> (string \<times> hash) list" where
  "builder_build b = mb_leaves b"

definition add_field :: "string \<Rightarrow> hash \<Rightarrow> merkle_builder \<Rightarrow> merkle_builder" where
  "add_field name h b = b\<lparr>mb_leaves := mb_leaves b @ [(name, h)]\<rparr>"

text \<open>\<^verbatim>\<open>Merkleizable::leaves\<close>.\<close>

definition leaves_of :: "'a appender \<Rightarrow> 'a \<Rightarrow> (string \<times> hash) list" where
  "leaves_of append_leaves x = builder_build (append_leaves x builder_new)"

definition add_merkleizable ::
    "'a appender \<Rightarrow> string \<Rightarrow> 'a \<Rightarrow> merkle_builder \<Rightarrow> merkle_builder" where
  "add_merkleizable append_leaves prefix item b =
     fold (\<lambda>(sub_field, h) b. b\<lparr>mb_leaves := mb_leaves b @ [(join_prefix prefix sub_field, h)]\<rparr>)
       (leaves_of append_leaves item) b"

fun add_slice_from ::
    "'a appender \<Rightarrow> string \<Rightarrow> nat \<Rightarrow> 'a list \<Rightarrow> merkle_builder \<Rightarrow> merkle_builder" where
  "add_slice_from append_leaves prefix i [] b = b"
| "add_slice_from append_leaves prefix i (item # items) b =
     add_slice_from append_leaves prefix (Suc i) items
       (add_merkleizable append_leaves (index_prefix prefix i) item b)"

definition add_slice :: "'a appender \<Rightarrow> string \<Rightarrow> 'a list \<Rightarrow> merkle_builder \<Rightarrow> merkle_builder" where
  "add_slice append_leaves prefix items b = add_slice_from append_leaves prefix 0 items b"

text \<open>What the builder's operations add, as lists.\<close>

definition prefixed :: "string \<Rightarrow> (string \<times> hash) list \<Rightarrow> (string \<times> hash) list" where
  "prefixed prefix ps = map (\<lambda>(s, h). (join_prefix prefix s, h)) ps"

fun slice_leaves :: "'a appender \<Rightarrow> string \<Rightarrow> nat \<Rightarrow> 'a list \<Rightarrow> (string \<times> hash) list" where
  "slice_leaves append_leaves prefix i [] = []"
| "slice_leaves append_leaves prefix i (x # xs) =
     prefixed (index_prefix prefix i) (leaves_of append_leaves x)
       @ slice_leaves append_leaves prefix (Suc i) xs"

lemma builder_leaves [simp]:
  "mb_leaves (add_field name h b) = mb_leaves b @ [(name, h)]"
  "mb_leaves (add_merkleizable app prefix item b) = mb_leaves b @ prefixed prefix (leaves_of app item)"
proof -
  show "mb_leaves (add_field name h b) = mb_leaves b @ [(name, h)]" by (simp add: add_field_def)
  have "mb_leaves (fold (\<lambda>(s, h) b. b\<lparr>mb_leaves := mb_leaves b @ [(join_prefix prefix s, h)]\<rparr>) ps b)
      = mb_leaves b @ prefixed prefix ps" for ps
    by (induction ps arbitrary: b) (auto simp: prefixed_def)
  then show "mb_leaves (add_merkleizable app prefix item b) = mb_leaves b @ prefixed prefix (leaves_of app item)"
    by (simp add: add_merkleizable_def)
qed

lemma add_slice_leaves [simp]:
  "mb_leaves (add_slice app prefix items b) = mb_leaves b @ slice_leaves app prefix 0 items"
proof -
  have "mb_leaves (add_slice_from app prefix i items b) = mb_leaves b @ slice_leaves app prefix i items" for i
    by (induction items arbitrary: i b) auto
  then show ?thesis by (simp add: add_slice_def)
qed

lemma builder_new_leaves [simp]: "mb_leaves builder_new = []"
  by (simp add: builder_new_def)

lemma leaves_of_build: "leaves_of app x = mb_leaves (app x builder_new)"
  by (simp add: leaves_of_def builder_build_def)

lemma prefixed_simps [simp]:
  "prefixed prefix [] = []"
  "prefixed prefix ((s, h) # ps) = (join_prefix prefix s, h) # prefixed prefix ps"
  "prefixed prefix (ps @ qs) = prefixed prefix ps @ prefixed prefix qs"
  "prefixed [] ps = ps"
  by (simp_all add: prefixed_def case_prod_beta)

section \<open>The default methods of \<^verbatim>\<open>Merkleizable\<close>\<close>

definition to_merkle_tree :: "crates \<Rightarrow> 'a appender \<Rightarrow> 'a \<Rightarrow> standard_merkle_tree run" where
  "to_merkle_tree K append_leaves x =
     standard_new K (map (\<lambda>(p, leaf). hash_leaf K p leaf) (leaves_of append_leaves x))"

text \<open>\<^verbatim>\<open>to_merkle_tree().hash_custom()\<close>.\<close>

definition merkle_hash :: "crates \<Rightarrow> 'a appender \<Rightarrow> 'a \<Rightarrow> hash run" where
  "merkle_hash K append_leaves x = and_then (to_merkle_tree K append_leaves x) standard_root"

definition apply_prefix_to_leaf :: "crates \<Rightarrow> string \<Rightarrow> string \<times> hash \<Rightarrow> hash" where
  "apply_prefix_to_leaf K prefix l = hash_leaf K (join_prefix prefix (fst l)) (snd l)"

definition apply_prefix_to_leaves :: "crates \<Rightarrow> string \<Rightarrow> (string \<times> hash) list \<Rightarrow> hash list" where
  "apply_prefix_to_leaves K prefix ls = map (apply_prefix_to_leaf K prefix) ls"

text \<open>\<^verbatim>\<open>generate_proof\<close> takes an item through its \<^verbatim>\<open>to_leaf\<close>.\<close>

definition generate_proof ::
    "crates \<Rightarrow> 'a appender \<Rightarrow> 'a \<Rightarrow> string \<Rightarrow> string \<times> hash \<Rightarrow> merkle_proof option run" where
  "generate_proof K append_leaves x prefix item =
     and_then (to_merkle_tree K append_leaves x) (\<lambda>t.
     standard_generate_proof t (apply_prefix_to_leaf K prefix item))"

section \<open>The implementations for hashes and sequences\<close>

definition append_hash :: "hash appender" where
  "append_hash h b = add_field '''' h b"

definition to_leaf_hash :: "hash \<Rightarrow> string \<times> hash" where
  "to_leaf_hash h = ('''', h)"

definition append_slice :: "'a appender \<Rightarrow> 'a list appender" where
  "append_slice append_leaves items b = add_slice append_leaves '''' items b"

definition append_vec :: "'a appender \<Rightarrow> 'a list appender" where
  "append_vec append_leaves items b = append_slice append_leaves items b"

definition generate_proofs ::
    "crates \<Rightarrow> 'a appender \<Rightarrow> 'a \<Rightarrow> string \<Rightarrow> 'b appender \<Rightarrow> 'b list \<Rightarrow> merkle_proof option list run" where
  "generate_proofs K append_leaves x prefix append_item items =
     (let ls = apply_prefix_to_leaves K prefix (leaves_of (append_slice append_item) items)
      in and_then (to_merkle_tree K append_leaves x) (\<lambda>t.
         traverse (standard_generate_proof t) ls))"

definition generate_multi_proof ::
    "crates \<Rightarrow> 'a appender \<Rightarrow> 'a \<Rightarrow> string \<Rightarrow> 'b appender \<Rightarrow> 'b
      \<Rightarrow> (hash list \<times> merkle_multi_proof) option run" where
  "generate_multi_proof K append_leaves x prefix append_item item =
     (let ls = apply_prefix_to_leaves K prefix (leaves_of append_item item)
      in and_then (to_merkle_tree K append_leaves x) (\<lambda>t.
         map_ok (map_option (\<lambda>prf. (ls, prf))) (standard_generate_multi_proof t ls)))"

fun prefixed_item_leaves :: "crates \<Rightarrow> string \<Rightarrow> 'b appender \<Rightarrow> nat \<Rightarrow> 'b list \<Rightarrow> hash list" where
  "prefixed_item_leaves K prefix append_item i [] = []"
| "prefixed_item_leaves K prefix append_item i (item # items) =
     apply_prefix_to_leaves K (index_prefix prefix i) (leaves_of append_item item)
       @ prefixed_item_leaves K prefix append_item (Suc i) items"

definition generate_multi_proofs ::
    "crates \<Rightarrow> 'a appender \<Rightarrow> 'a \<Rightarrow> string \<Rightarrow> 'b appender \<Rightarrow> 'b list
      \<Rightarrow> (hash list \<times> merkle_multi_proof) option run" where
  "generate_multi_proofs K append_leaves x prefix append_item items =
     (let ls = prefixed_item_leaves K prefix append_item 0 items
      in and_then (to_merkle_tree K append_leaves x) (\<lambda>t.
         map_ok (map_option (\<lambda>prf. (ls, prf))) (standard_generate_multi_proof t ls)))"

lemma apply_prefix_leaf_hashes: "apply_prefix_to_leaves K prefix ls = leaf_hashes K (prefixed prefix ls)"
  by (auto simp: apply_prefix_to_leaves_def apply_prefix_to_leaf_def leaf_hashes_def prefixed_def)

lemma prefixed_item_leaf_hashes:
  "prefixed_item_leaves K prefix app i items = leaf_hashes K (slice_leaves app prefix i items)"
  by (induction items arbitrary: i) (auto simp: apply_prefix_leaf_hashes leaf_hashes_def)

lemma to_merkle_tree_leaf_hashes: "to_merkle_tree K app x = standard_new K (leaf_hashes K (leaves_of app x))"
  by (simp add: to_merkle_tree_def leaf_hashes_def)

lemma merkle_hash_eq:
  "merkle_hash K app x = Inr (spec_tree (commutative_hash_pair K) (leaf_hashes K (leaves_of app x)) ! 0)"
  using standard_new_total [of K "leaf_hashes K (leaves_of app x)"]
  by (auto simp: merkle_hash_def to_merkle_tree_leaf_hashes standard_root_def merkle_root_def)

section \<open>The contract of \<^verbatim>\<open>Merkleizable\<close>\<close>

lemma lookup_all_map:
  "(\<And>x. x \<in> set xs \<Longrightarrow> m (f x) = Some (g x)) \<Longrightarrow> lookup_all m (map f xs) = Some (map g xs)"
  by (induction xs) auto

lemma standard_multi_complete:
  assumes "distinct ls" "sorted_wrt (<) is" "\<forall>i \<in> set is. i < length ls"
  shows "\<exists>s prf. standard_new K ls = Inr s
    \<and> smt_tree s = \<lparr>tree = spec_tree (commutative_hash_pair K) ls\<rparr>
    \<and> standard_generate_multi_proof s (map ((!) ls) is) = Inr (Some prf)
    \<and> standard_verify_multi_proof K (spec_tree (commutative_hash_pair K) ls ! 0) (map ((!) ls) is) prf
        = Inr True"
proof -
  let ?m = "\<lparr>tree = spec_tree (commutative_hash_pair K) ls\<rparr>"
  from multi_proof_complete' [OF assms(2,3), of K] obtain mp where
    gen: "merkle_generate_multi_proof ?m (map (\<lambda>i. merkle_length ?m - i - 1) is) = Inr (Some mp)"
    and ver: "merkle_verify_multi_proof K (tree ?m ! 0) (map ((!) ls) is) mp = Inr True"
    by (auto simp: merkle_new_eq merkle_root_def)
  show ?thesis
  proof (cases "ls = []")
    case True
    then have "is = []" using assms(3) by (cases "is") auto
    with True gen ver show ?thesis
      by (auto simp: standard_new_def merkle_new_eq standard_generate_multi_proof_def
          standard_verify_multi_proof_def)
  next
    case False
    obtain ix where s: "standard_new K ls = Inr \<lparr>smt_tree = ?m, smt_indices = ix\<rparr>"
      and ins: "\<And>x. x \<in> set ls \<Longrightarrow> \<exists>k < length ls. ls ! k = x \<and> ix x = Some (2 * length ls - 2 - k)"
      using standard_new_ok [OF False, of K] by metis
    have "ix (ls ! i) = Some (merkle_length ?m - i - 1)" if "i \<in> set is" for i
    proof -
      have i: "i < length ls" using that assms(3) by blast
      then obtain k where "k < length ls" "ls ! k = ls ! i" "ix (ls ! i) = Some (2 * length ls - 2 - k)"
        using ins [of "ls ! i"] by auto
      then show ?thesis
        using assms(1) i False by (auto simp: nth_eq_iff_index_eq merkle_length_def length_spec_tree)
    qed
    then have "lookup_all ix (map ((!) ls) is) = Some (map (\<lambda>i. merkle_length ?m - i - 1) is)"
      by (rule lookup_all_map)
    with s gen ver show ?thesis
      by (simp add: standard_generate_multi_proof_def standard_verify_multi_proof_def)
  qed
qed

text \<open>No collisions among the leaves of a value; enough for completeness.\<close>

definition leaves_collision_free :: "crates \<Rightarrow> (string \<times> hash) list \<Rightarrow> bool" where
  "leaves_collision_free K ps \<longleftrightarrow> inj_on (keccak256 K) (set (map (leaf_bytes K) ps))"

lemma distinct_leaf_hashes:
  assumes "packed_law K" "leaves_collision_free K ps" "distinct (map fst ps)"
  shows "distinct (leaf_hashes K ps)"
proof -
  have "distinct ps" using assms(3) by (simp add: distinct_map)
  then have "distinct (map (leaf_bytes K) ps)"
    using leaf_bytes_inj [OF assms(1)] by (simp add: distinct_map inj_on_subset [OF _ subset_UNIV])
  then have "distinct (map (keccak256 K) (map (leaf_bytes K) ps))"
    using assms(2) by (simp only: distinct_map leaves_collision_free_def)
  then show ?thesis by (simp add: leaf_hashes_bytes comp_def)
qed

lemma distinct_prefixed: "distinct (map fst ps) \<Longrightarrow> distinct (map fst (prefixed prefix ps))"
proof -
  assume "distinct (map fst ps)"
  then have "distinct (map (join_prefix prefix) (map fst ps))"
    by (simp only: distinct_map inj_on_def) (auto dest: join_prefix_inj)
  moreover have "map fst (prefixed prefix ps) = map (join_prefix prefix) (map fst ps)"
    by (simp add: prefixed_def case_prod_beta comp_def)
  ultimately show ?thesis by (simp only:)
qed

lemma slice_leaves_paths:
  "(p, h) \<in> set (slice_leaves app prefix i xs) \<Longrightarrow>
   \<exists>j s. i \<le> j \<and> p = join_prefix (index_prefix prefix j) s"
proof (induction xs arbitrary: i)
  case Nil
  then show ?case by simp
next
  case (Cons x xs)
  then consider "(p, h) \<in> set (prefixed (index_prefix prefix i) (leaves_of app x))"
    | "(p, h) \<in> set (slice_leaves app prefix (Suc i) xs)"
    by auto
  then show ?case
  proof cases
    case 1
    then show ?thesis by (auto simp: prefixed_def)
  next
    case 2
    then show ?thesis using Cons.IH by (meson Suc_leD)
  qed
qed

lemma slice_leaves_append:
  "slice_leaves app prefix i (xs @ ys)
     = slice_leaves app prefix i xs @ slice_leaves app prefix (i + length xs) ys"
  by (induction xs arbitrary: i) auto

lemma slice_leaves_nth:
  assumes "k < length xs"
  shows "slice_leaves app prefix i xs =
    slice_leaves app prefix i (take k xs)
      @ prefixed (index_prefix prefix (i + k)) (leaves_of app (xs ! k))
      @ slice_leaves app prefix (i + k + 1) (drop (Suc k) xs)"
proof -
  have "slice_leaves app prefix i xs = slice_leaves app prefix i (take k xs @ xs ! k # drop (Suc k) xs)"
    using id_take_nth_drop [OF assms] by simp
  then show ?thesis using assms by (simp add: slice_leaves_append)
qed

locale merkle_paths =
  fixes append_leaves :: "'a appender"
  assumes distinct_paths: "distinct (map fst (leaves_of append_leaves x))"
begin

lemma prefixed_distinct: "distinct (map fst (prefixed prefix (leaves_of append_leaves x)))"
  by (rule distinct_prefixed [OF distinct_paths])

lemma slice_distinct: "distinct (map fst (slice_leaves append_leaves prefix i xs))"
proof (induction xs arbitrary: i)
  case Nil
  then show ?case by simp
next
  case (Cons x xs)
  have "fst a \<noteq> fst b"
    if a: "a \<in> set (prefixed (index_prefix prefix i) (leaves_of append_leaves x))"
      and b: "b \<in> set (slice_leaves append_leaves prefix (Suc i) xs)" for a b
  proof
    assume eq: "fst a = fst b"
    obtain s where "fst a = join_prefix (index_prefix prefix i) s"
      using a by (auto simp: prefixed_def)
    moreover obtain j t where "Suc i \<le> j" "fst b = join_prefix (index_prefix prefix j) t"
      using b slice_leaves_paths [of "fst b" "snd b" append_leaves prefix "Suc i" xs] by auto
    ultimately show False using eq join_index_inj [of prefix i s j t] by simp
  qed
  then show ?case using Cons.IH [of "Suc i"] prefixed_distinct by fastforce
qed

text \<open>A proof of any leaf of a value verifies against the value's hash.\<close>

lemma leaf_proof:
  assumes "(join_prefix prefix sub, h) \<in> set (leaves_of append_leaves x)"
  shows "\<exists>root prf. merkle_hash K append_leaves x = Inr root
    \<and> generate_proof K append_leaves x prefix (sub, h) = Inr (Some prf)
    \<and> standard_verify_proof K root (hash_leaf K (join_prefix prefix sub) h) prf"
proof -
  let ?ls = "leaf_hashes K (leaves_of append_leaves x)"
  have x: "hash_leaf K (join_prefix prefix sub) h \<in> set ?ls"
    using assms by (force simp: leaf_hashes_def)
  then have "?ls \<noteq> []" by auto
  from standard_proof_complete' [OF this, of K "hash_leaf K (join_prefix prefix sub) h"] x show ?thesis
    by (auto simp: merkle_hash_def generate_proof_def to_merkle_tree_leaf_hashes apply_prefix_to_leaf_def)
qed

text \<open>So does a multiproof of any leaves in order, in particular of a run of leaves.\<close>

lemma sublist_multi_proof:
  assumes "packed_law K" "leaves_collision_free K (leaves_of append_leaves x)"
    and "sorted_wrt (<) is" "\<forall>i \<in> set is. i < length (leaves_of append_leaves x)"
    and "block = map ((!) (leaves_of append_leaves x)) is"
  shows "\<exists>t root prf. to_merkle_tree K append_leaves x = Inr t
    \<and> merkle_hash K append_leaves x = Inr root
    \<and> standard_generate_multi_proof t (leaf_hashes K block) = Inr (Some prf)
    \<and> standard_verify_multi_proof K root (leaf_hashes K block) prf = Inr True"
proof -
  let ?ps = "leaves_of append_leaves x"
  have "map ((!) (leaf_hashes K ?ps)) is = leaf_hashes K block"
    using assms(4,5) by (auto simp: leaf_hashes_def)
  with standard_multi_complete [OF distinct_leaf_hashes [OF assms(1,2) distinct_paths] assms(3), of K]
  show ?thesis
    using assms(4) by (auto simp: merkle_hash_eq to_merkle_tree_leaf_hashes leaf_hashes_def)
qed

lemma block_multi_proof:
  assumes "packed_law K" "leaves_collision_free K (leaves_of append_leaves x)"
    and "leaves_of append_leaves x = before @ block @ after"
  shows "\<exists>t root prf. to_merkle_tree K append_leaves x = Inr t
    \<and> merkle_hash K append_leaves x = Inr root
    \<and> standard_generate_multi_proof t (leaf_hashes K block) = Inr (Some prf)
    \<and> standard_verify_multi_proof K root (leaf_hashes K block) prf = Inr True"
proof (rule sublist_multi_proof [OF assms(1,2), of "[length before..<length before + length block]"])
  show "block = map ((!) (leaves_of append_leaves x)) [length before..<length before + length block]"
    by (auto simp: assms(3) nth_append intro!: nth_equalityI)
qed (auto simp: assms(3) simp del: upt_Suc)

end

text \<open>The contract holds for hashes, for sequences of them, and for sequences of these.\<close>

lemma leaves_of_hash [simp]: "leaves_of append_hash h = [('''', h)]"
  by (simp add: leaves_of_build append_hash_def)

interpretation hash_paths: merkle_paths append_hash
  by unfold_locales simp

lemma leaves_of_slice [simp]: "leaves_of (append_slice app) xs = slice_leaves app '''' 0 xs"
  by (simp add: leaves_of_build append_slice_def)

lemma leaves_of_vec [simp]: "leaves_of (append_vec app) xs = slice_leaves app '''' 0 xs"
  by (simp add: leaves_of_build append_vec_def append_slice_def)

interpretation hash_vec_paths: merkle_paths "append_vec append_hash"
  by unfold_locales (simp add: hash_paths.slice_distinct)

end
