(* ===== verification/Committee.thy ===== *)
theory Committee
  imports Merkle_Leaves
begin

text \<open>
  \<^verbatim>\<open>types/src/consensus/committee.rs\<close> and \<^verbatim>\<open>certificate.rs\<close>: a committee of
  validators with a quorum size, and the verification of single attestations, of aggregates
  of signatures and of certificates.

  Recovering the signer of a signature is alloy's: it is the argument \<open>recover\<close> of the
  definitions that verify, and \<open>'sig\<close> and \<open>'se\<close> are alloy's types of signatures and of
  recovery errors.  A \<^verbatim>\<open>BTreeSet\<close> of addresses is a finite set.  The locale
  \<open>threshold_acceptance\<close> is the contract of certificate verification on which the safety of
  the protocol rests; it is interpreted on the code's function.
\<close>

section \<open>Types\<close>

datatype (plugins only: code) 'se committee_error =
    InsufficientQuorum nat nat
  | ValidatorNotInCommittee address
  | SignatureError 'se

record committee =
  validators :: "address fset"
  quorum_size :: nat

record ('sig, 't) certificate =
  signatures :: "'sig list"
  certified :: 't

record ('sig, 't) attestation =
  public_key :: address
  signature :: 'sig
  attested :: 't

definition certificate_new :: "'sig list \<Rightarrow> 't \<Rightarrow> ('sig, 't) certificate" where
  "certificate_new sigs c = \<lparr>signatures = sigs, certified = c\<rparr>"

definition committee_new :: "address list \<Rightarrow> nat \<Rightarrow> committee" where
  "committee_new vs q = \<lparr>validators = fset_of_list vs, quorum_size = q\<rparr>"

definition committee_size :: "committee \<Rightarrow> nat" where
  "committee_size c = fcard (validators c)"

definition fault_tolerance :: "committee \<Rightarrow> nat run" where
  "fault_tolerance c = sub_usize (committee_size c) (quorum_size c)"

definition f_plus_one :: "committee \<Rightarrow> nat run" where
  "f_plus_one c = map_ok (\<lambda>f. f + 1) (fault_tolerance c)"

definition is_in_committee :: "committee \<Rightarrow> address \<Rightarrow> bool" where
  "is_in_committee c a \<longleftrightarrow> a |\<in>| validators c"

section \<open>Verification\<close>

definition verify_attestation ::
    "('sig \<Rightarrow> hash \<Rightarrow> 'se + address) \<Rightarrow> ('t \<Rightarrow> hash run) \<Rightarrow> committee \<Rightarrow> ('sig, 't) attestation
      \<Rightarrow> ('se committee_error + bool) run" where
  "verify_attestation recover hash_custom c att =
     (if \<not> is_in_committee c (public_key att) then Inr (Inl (ValidatorNotInCommittee (public_key att)))
      else
        and_then (hash_custom (attested att)) (\<lambda>digest.
        case recover (signature att) digest of
          Inl e \<Rightarrow> Inr (Inl (SignatureError e))
        | Inr signer \<Rightarrow> Inr (Inr (signer = public_key att))))"

text \<open>The loop that recovers the signers, keeping those in the committee.\<close>

fun recover_signers ::
    "('sig \<Rightarrow> hash \<Rightarrow> 'se + address) \<Rightarrow> committee \<Rightarrow> hash \<Rightarrow> 'sig list \<Rightarrow> address fset \<Rightarrow> address fset" where
  "recover_signers recover c digest [] signers = signers"
| "recover_signers recover c digest (sig # sigs) signers =
     (case recover sig digest of
        Inl e \<Rightarrow> recover_signers recover c digest sigs signers
      | Inr recovered_address \<Rightarrow>
          if \<not> is_in_committee c recovered_address
          then recover_signers recover c digest sigs signers
          else recover_signers recover c digest sigs (finsert recovered_address signers))"

definition verify_aggregate_attestation ::
    "('sig \<Rightarrow> hash \<Rightarrow> 'se + address) \<Rightarrow> committee \<Rightarrow> hash \<Rightarrow> 'sig list \<Rightarrow> 'se committee_error + unit" where
  "verify_aggregate_attestation recover c digest sigs =
     (if length sigs < quorum_size c then Inl (InsufficientQuorum (length sigs) (quorum_size c))
      else
        let recovered_signers = recover_signers recover c digest sigs {||}
        in if fcard recovered_signers < quorum_size c
           then Inl (InsufficientQuorum (fcard recovered_signers) (quorum_size c))
           else Inr ())"

text \<open>The hash of what is certified is computed first, and may panic.\<close>

definition verify_certificate ::
    "('sig \<Rightarrow> hash \<Rightarrow> 'se + address) \<Rightarrow> ('t \<Rightarrow> hash run) \<Rightarrow> committee \<Rightarrow> ('sig, 't) certificate
      \<Rightarrow> ('se committee_error + unit) run" where
  "verify_certificate recover hash_custom c cert =
     map_ok (\<lambda>digest. verify_aggregate_attestation recover c digest (signatures cert))
       (hash_custom (certified cert))"

section \<open>The signers of an aggregate\<close>

text \<open>The abstract view: the committee members who signed the digest.\<close>

definition signers_of ::
    "('sig \<Rightarrow> hash \<Rightarrow> 'se + address) \<Rightarrow> committee \<Rightarrow> hash \<Rightarrow> 'sig list \<Rightarrow> address set" where
  "signers_of recover c digest sigs =
     {a. a |\<in>| validators c \<and> (\<exists>sig \<in> set sigs. recover sig digest = Inr a)}"

lemma fset_recover_signers:
  "fset (recover_signers recover c digest sigs acc) = fset acc \<union> signers_of recover c digest sigs"
proof (induction sigs arbitrary: acc)
  case Nil
  then show ?case by (simp add: signers_of_def)
next
  case (Cons s sigs)
  then show ?case
    by (cases "recover s digest") (auto simp: signers_of_def is_in_committee_def)
qed

lemma fcard_recover_signers:
  "fcard (recover_signers recover c digest sigs {||}) = card (signers_of recover c digest sigs)"
  by (simp add: fcard.rep_eq fset_recover_signers)

lemma finite_signers_of: "finite (signers_of recover c digest sigs)"
  by (rule finite_subset [of _ "fset (validators c)"]) (auto simp: signers_of_def)

lemma card_signers_le: "card (signers_of recover c digest sigs) \<le> length sigs"
proof -
  let ?f = "\<lambda>sig. projr (recover sig digest)"
  have "signers_of recover c digest sigs \<subseteq> ?f ` set sigs" by (force simp: signers_of_def)
  then have "card (signers_of recover c digest sigs) \<le> card (?f ` set sigs)"
    by (intro card_mono) auto
  also have "\<dots> \<le> length sigs" by (meson card_image_le card_length finite_set le_trans)
  finally show ?thesis .
qed

lemma verify_aggregate_ok_iff:
  "verify_aggregate_attestation recover c digest sigs = Inr ()
     \<longleftrightarrow> quorum_size c \<le> card (signers_of recover c digest sigs)"
  using card_signers_le [of recover c digest sigs]
  by (auto simp: verify_aggregate_attestation_def fcard_recover_signers)

text \<open>
  The contract of an acceptance test by a threshold of signers out of a finite set of members.
\<close>

locale threshold_acceptance =
  fixes accepts :: "'d \<Rightarrow> 's list \<Rightarrow> bool"
    and signers :: "'d \<Rightarrow> 's list \<Rightarrow> 'v set"
    and members :: "'v set"
    and threshold :: nat
  assumes accepts_iff: "accepts d sigs \<longleftrightarrow> threshold \<le> card (signers d sigs)"
    and signers_members: "signers d sigs \<subseteq> members"
    and signers_mono: "set sigs \<subseteq> set sigs' \<Longrightarrow> signers d sigs \<subseteq> signers d sigs'"
    and finite_members: "finite members"
begin

lemma finite_signers: "finite (signers d sigs)"
  by (rule finite_subset [OF signers_members finite_members])

lemma accepts_mono:
  assumes "accepts d sigs" "set sigs \<subseteq> set sigs'"
  shows "accepts d sigs'"
proof -
  have "card (signers d sigs) \<le> card (signers d sigs')"
    by (rule card_mono [OF finite_signers signers_mono [OF assms(2)]])
  with assms(1) show ?thesis by (simp add: accepts_iff)
qed

lemma accepts_set_eq: "set sigs = set sigs' \<Longrightarrow> accepts d sigs \<longleftrightarrow> accepts d sigs'"
  using accepts_mono by blast

text \<open>Two accepted lists share at least twice the threshold less the members.\<close>

lemma intersection_card:
  assumes "accepts d sigs" "accepts d' sigs'"
  shows "2 * threshold \<le> card members + card (signers d sigs \<inter> signers d' sigs')"
proof -
  let ?A = "signers d sigs" and ?B = "signers d' sigs'"
  have "card ?A + card ?B = card (?A \<union> ?B) + card (?A \<inter> ?B)"
    by (rule card_Un_Int) (rule finite_signers)+
  moreover have "card (?A \<union> ?B) \<le> card members"
    by (rule card_mono [OF finite_members]) (simp add: signers_members)
  ultimately show ?thesis using assms by (simp add: accepts_iff)
qed

text \<open>With fewer faulty members than that, some member in both is not faulty.\<close>

lemma correct_common_signer:
  assumes "accepts d sigs" "accepts d' sigs'"
    and "finite faulty" "card members + card faulty < 2 * threshold"
  shows "\<exists>v \<in> signers d sigs \<inter> signers d' sigs'. v \<notin> faulty"
proof (rule ccontr)
  assume "\<not> ?thesis"
  then have "signers d sigs \<inter> signers d' sigs' \<subseteq> faulty" by blast
  then have "card (signers d sigs \<inter> signers d' sigs') \<le> card faulty"
    by (rule card_mono [OF assms(3)])
  with intersection_card [OF assms(1,2)] assms(4) show False by simp
qed

end

interpretation aggregate: threshold_acceptance
  "\<lambda>digest sigs. verify_aggregate_attestation recover c digest sigs = Inr ()"
  "signers_of recover c" "fset (validators c)" "quorum_size c" for recover c
  by unfold_locales (auto simp: verify_aggregate_ok_iff signers_of_def)

section \<open>Properties\<close>

text \<open>
  C7. What aggregate verification returns in every case: it accepts exactly when the
  distinct committee members who signed the digest reach the quorum; otherwise the error
  reports the number of signatures if there are too few of them, and the number of distinct
  valid signers if not.  Unrecoverable signatures, outsiders and duplicates never count.
\<close>

theorem verify_aggregate_attestation_spec:
  "verify_aggregate_attestation recover c digest sigs =
     (if quorum_size c \<le> card (signers_of recover c digest sigs) then Inr ()
      else if length sigs < quorum_size c then Inl (InsufficientQuorum (length sigs) (quorum_size c))
      else Inl (InsufficientQuorum (card (signers_of recover c digest sigs)) (quorum_size c)))"
  using card_signers_le [of recover c digest sigs]
  by (auto simp: verify_aggregate_attestation_def fcard_recover_signers Let_def)

text \<open>
  C6. Agreement: if two certificates are both accepted, the committee and its faulty
  members together are fewer than two quorums, and no validator outside the faulty ones
  signed two different hashes in them, then both certify the same hash.
\<close>

theorem certificates_agree:
  assumes "hc (certified cert) = Inr d" "hc (certified cert') = Inr d'"
    and "verify_certificate recover hc c cert = Inr (Inr ())"
    and "verify_certificate recover hc c cert' = Inr (Inr ())"
    and "finite faulty" "committee_size c + card faulty < 2 * quorum_size c"
    and "\<And>v sig sig'. v |\<in>| validators c \<Longrightarrow> v \<notin> faulty \<Longrightarrow>
      sig \<in> set (signatures cert) \<Longrightarrow> recover sig d = Inr v \<Longrightarrow>
      sig' \<in> set (signatures cert') \<Longrightarrow> recover sig' d' = Inr v \<Longrightarrow> d = d'"
  shows "d = d'"
proof -
  have acc: "verify_aggregate_attestation recover c d (signatures cert) = Inr ()"
    "verify_aggregate_attestation recover c d' (signatures cert') = Inr ()"
    using assms(1-4) by (auto simp: verify_certificate_def)
  obtain v where "v \<in> signers_of recover c d (signatures cert)"
    "v \<in> signers_of recover c d' (signatures cert')" "v \<notin> faulty"
    using aggregate.correct_common_signer [OF acc assms(5)] assms(6)
    by (auto simp: committee_size_def fcard.rep_eq)
  then show ?thesis using assms(7) by (auto simp: signers_of_def)
qed

text \<open>A sample: every signature names its signer; signer 4 also signs other hashes than 7.\<close>

definition sample_recover :: "address \<Rightarrow> hash \<Rightarrow> unit + address" where
  "sample_recover sig d = (if d = 7 \<or> sig = 4 then Inr sig else Inl ())"

theorem certificates_agree_witness:
  "verify_certificate sample_recover Inr (committee_new [1, 2, 3, 4] 3) (certificate_new [1, 2, 4] 7) = Inr (Inr ())
   \<and> verify_certificate sample_recover Inr (committee_new [1, 2, 3, 4] 3) (certificate_new [2, 2, 3, 4] 7)
       = Inr (Inr ())
   \<and> certified (certificate_new [1, 2, 4 :: address] (7 :: hash)) = certified (certificate_new [2, 2, 3, 4 :: address] 7)"
proof -
  let ?c = "committee_new [1, 2, 3, 4] 3"
  let ?cert = "certificate_new [1, 2, 4 :: address] (7 :: hash)" and ?cert' = "certificate_new [2, 2, 3, 4 :: address] (7 :: hash)"
  have ok: "verify_certificate sample_recover Inr ?c ?cert = Inr (Inr ())"
    "verify_certificate sample_recover Inr ?c ?cert' = Inr (Inr ())"
    by (simp_all add: verify_certificate_def certificate_new_def verify_aggregate_attestation_def
        committee_new_def sample_recover_def is_in_committee_def fcard_finsert_if)
  have "certified ?cert = certified ?cert'"
    by (rule certificates_agree [OF refl refl ok, of "{4}"])
       (auto simp: committee_new_def committee_size_def sample_recover_def fcard_finsert_if
          certificate_new_def split: if_splits)
  with ok show ?thesis by simp
qed

text \<open>
  Whether an aggregate is accepted depends only on the set of its signatures, and
  adding signatures never makes an accepted one rejected.
\<close>

theorem verify_aggregate_monotone:
  assumes "set sigs \<subseteq> set sigs'"
    and "verify_aggregate_attestation recover c digest sigs = Inr ()"
  shows "verify_aggregate_attestation recover c digest sigs' = Inr ()"
  using aggregate.accepts_mono [OF assms(2,1)] .

theorem verify_aggregate_monotone_witness:
  "verify_aggregate_attestation (\<lambda>sig d. Inr sig :: unit + address) (committee_new [1, 2, 3] 2) 7 [9, 2, 1]
     = Inr ()"
  by (rule verify_aggregate_monotone [of "[1, 2]"])
     (auto simp: verify_aggregate_attestation_def committee_new_def is_in_committee_def fcard_finsert_if)

text \<open>
  \<^verbatim>\<open>fault_tolerance\<close> and \<^verbatim>\<open>f_plus_one\<close> subtract without a check: they
  panic exactly when the quorum is larger than the committee, which the constructor does not
  exclude, and otherwise the two add up to the size of the committee plus one.
\<close>

theorem f_plus_one_spec:
  "f_plus_one c =
     (if committee_size c < quorum_size c then Inl ArithmeticOverflow
      else Inr (committee_size c - quorum_size c + 1))"
  by (simp add: f_plus_one_def fault_tolerance_def)

end
