(* ===== verification/Transaction.thy ===== *)
theory Transaction
  imports Merkle_Leaves
begin

text \<open>
  \<^verbatim>\<open>types/src/ledger/transaction.rs\<close>: the transactions pod accepts, legacy and
  EIP-1559.  The two variants are alloy's types: their public fields are records here, and
  the methods alloy implements for them are the dictionaries \<open>alloy_tx\<close>, \<open>signable_tx\<close> and
  \<open>rlp_tx\<close>, one field per method of the trait.  An \<^verbatim>\<open>impl\<close> of such a trait for
  \<^verbatim>\<open>Transaction\<close> is the dictionary it builds from those of the variants.  A method
  that writes to \<^verbatim>\<open>out\<close> takes and returns the buffer.
\<close>

section \<open>Types\<close>

datatype (plugins only: code) tx_kind = Create | Call address

record tx_legacy =
  l_chain_id :: "u64 option"
  l_nonce :: u64
  l_gas_price :: u128
  l_gas_limit :: u64
  l_to :: tx_kind
  l_value :: u256
  l_input :: bytes

record 'al tx_eip1559 =
  e_chain_id :: u64
  e_nonce :: u64
  e_gas_limit :: u64
  e_max_fee_per_gas :: u128
  e_max_priority_fee_per_gas :: u128
  e_to :: tx_kind
  e_value :: u256
  e_access_list :: 'al
  e_input :: bytes

datatype (plugins only: code) ('l, 'e) transaction = Legacy 'l | Eip1559 'e

definition transaction_default :: "'e \<Rightarrow> ('l, 'e) transaction" where
  "transaction_default eip1559_default = Eip1559 eip1559_default"

definition transaction_from_legacy :: "'l \<Rightarrow> ('l, 'e) transaction" where
  "transaction_from_legacy tx = Legacy tx"

definition transaction_from_eip1559 :: "'e \<Rightarrow> ('l, 'e) transaction" where
  "transaction_from_eip1559 tx = Eip1559 tx"

datatype (plugins only: code) ('l, 'e) tx_envelope = EnvelopeLegacy 'l | EnvelopeEip1559 'e

text \<open>\<^verbatim>\<open>into_envelope\<close>; \<^verbatim>\<open>into_signed\<close> of the variants is alloy's.\<close>

definition into_envelope ::
    "('l \<Rightarrow> 'sig \<Rightarrow> 'sl) \<Rightarrow> ('e \<Rightarrow> 'sig \<Rightarrow> 'se) \<Rightarrow> ('l, 'e) transaction \<Rightarrow> 'sig \<Rightarrow> ('sl, 'se) tx_envelope" where
  "into_envelope into_signed_l into_signed_e tx sig =
     (case tx of
        Legacy t \<Rightarrow> EnvelopeLegacy (into_signed_l t sig)
      | Eip1559 t \<Rightarrow> EnvelopeEip1559 (into_signed_e t sig))"

section \<open>Decoding the stored form\<close>

datatype (plugins only: code) 'x rlp_error = InputTooShort | RlpCustom string | RlpOther 'x

type_synonym ('t, 'x) rlp_decoder = "bytes \<Rightarrow> ('x rlp_error + 't) \<times> bytes"

definition unsupported_tx_type :: string where
  "unsupported_tx_type = ''unsupported tx type: pod accepts legacy + EIP-1559 only''"

text \<open>
  \<^verbatim>\<open>decode_unsigned\<close> advances the slice it is given; the result has what is left of it,
  also when decoding fails.  (The dash of the message is a colon here.)
\<close>

definition decode_unsigned ::
    "('l, 'x) rlp_decoder \<Rightarrow> ('e, 'x) rlp_decoder \<Rightarrow> (('l, 'e) transaction, 'x) rlp_decoder" where
  "decode_unsigned decode_l decode_e buf =
     (case buf of
        [] \<Rightarrow> (Inl InputTooShort, buf)
      | first # rest \<Rightarrow>
          if first \<ge> 0xc0 then apfst (map_ok Legacy) (decode_l buf)
          else if first = 0 then apfst (map_ok Legacy) (decode_l rest)
          else if first = 2 then apfst (map_ok Eip1559) (decode_e rest)
          else (Inl (RlpCustom unsupported_tx_type), rest))"

section \<open>The traits\<close>

text \<open>\<^verbatim>\<open>alloy_consensus::Transaction\<close> (and \<^verbatim>\<open>Typed2718\<close>).\<close>

record ('t, 'al, 'auth) alloy_tx =
  m_ty :: "'t \<Rightarrow> byte"
  m_chain_id :: "'t \<Rightarrow> u64 option"
  m_nonce :: "'t \<Rightarrow> u64"
  m_gas_limit :: "'t \<Rightarrow> u64"
  m_gas_price :: "'t \<Rightarrow> u128 option"
  m_max_fee_per_gas :: "'t \<Rightarrow> u128"
  m_max_priority_fee_per_gas :: "'t \<Rightarrow> u128 option"
  m_max_fee_per_blob_gas :: "'t \<Rightarrow> u128 option"
  m_priority_fee_or_price :: "'t \<Rightarrow> u128"
  m_effective_gas_price :: "'t \<Rightarrow> u64 option \<Rightarrow> u128"
  m_is_dynamic_fee :: "'t \<Rightarrow> bool"
  m_kind :: "'t \<Rightarrow> tx_kind"
  m_is_create :: "'t \<Rightarrow> bool"
  m_value :: "'t \<Rightarrow> u256"
  m_input :: "'t \<Rightarrow> bytes"
  m_access_list :: "'t \<Rightarrow> 'al option"
  m_blob_versioned_hashes :: "'t \<Rightarrow> hash list option"
  m_authorization_list :: "'t \<Rightarrow> 'auth list option"

fun on_variant :: "('l \<Rightarrow> 'r) \<Rightarrow> ('e \<Rightarrow> 'r) \<Rightarrow> ('l, 'e) transaction \<Rightarrow> 'r" where
  "on_variant f g (Legacy t) = f t"
| "on_variant f g (Eip1559 t) = g t"

definition transaction_ty ::
    "('l, 'al, 'auth) alloy_tx \<Rightarrow> ('e, 'al, 'auth) alloy_tx \<Rightarrow> ('l, 'e) transaction \<Rightarrow> byte" where
  "transaction_ty L E = on_variant (m_ty L) (m_ty E)"

definition transaction_alloy ::
    "('l, 'al, 'auth) alloy_tx \<Rightarrow> ('e, 'al, 'auth) alloy_tx \<Rightarrow> (('l, 'e) transaction, 'al, 'auth) alloy_tx" where
  "transaction_alloy L E =
     \<lparr>m_ty = transaction_ty L E,
      m_chain_id = on_variant (m_chain_id L) (m_chain_id E),
      m_nonce = on_variant (m_nonce L) (m_nonce E),
      m_gas_limit = on_variant (m_gas_limit L) (m_gas_limit E),
      m_gas_price = on_variant (m_gas_price L) (m_gas_price E),
      m_max_fee_per_gas = on_variant (m_max_fee_per_gas L) (m_max_fee_per_gas E),
      m_max_priority_fee_per_gas =
        on_variant (m_max_priority_fee_per_gas L) (m_max_priority_fee_per_gas E),
      m_max_fee_per_blob_gas = on_variant (m_max_fee_per_blob_gas L) (m_max_fee_per_blob_gas E),
      m_priority_fee_or_price = on_variant (m_priority_fee_or_price L) (m_priority_fee_or_price E),
      m_effective_gas_price =
        (\<lambda>tx base_fee. on_variant (\<lambda>t. m_effective_gas_price L t base_fee)
           (\<lambda>t. m_effective_gas_price E t base_fee) tx),
      m_is_dynamic_fee = on_variant (m_is_dynamic_fee L) (m_is_dynamic_fee E),
      m_kind = on_variant (m_kind L) (m_kind E),
      m_is_create = on_variant (m_is_create L) (m_is_create E),
      m_value = on_variant (m_value L) (m_value E),
      m_input = on_variant (m_input L) (m_input E),
      m_access_list = on_variant (m_access_list L) (m_access_list E),
      m_blob_versioned_hashes = on_variant (m_blob_versioned_hashes L) (m_blob_versioned_hashes E),
      m_authorization_list = on_variant (m_authorization_list L) (m_authorization_list E)\<rparr>"

text \<open>\<^verbatim>\<open>SignableTransaction\<close>.\<close>

record 't signable_tx =
  m_set_chain_id :: "'t \<Rightarrow> u64 \<Rightarrow> 't"
  m_encode_for_signing :: "'t \<Rightarrow> bytes \<Rightarrow> bytes"
  m_payload_len_for_signature :: "'t \<Rightarrow> nat"

definition transaction_signable ::
    "'l signable_tx \<Rightarrow> 'e signable_tx \<Rightarrow> ('l, 'e) transaction signable_tx" where
  "transaction_signable L E =
     \<lparr>m_set_chain_id = (\<lambda>tx chain_id.
        on_variant (\<lambda>t. Legacy (m_set_chain_id L t chain_id)) (\<lambda>t. Eip1559 (m_set_chain_id E t chain_id)) tx),
      m_encode_for_signing = on_variant (m_encode_for_signing L) (m_encode_for_signing E),
      m_payload_len_for_signature = on_variant (m_payload_len_for_signature L) (m_payload_len_for_signature E)\<rparr>"

text \<open>\<^verbatim>\<open>RlpEcdsaEncodableTx\<close>.\<close>

record ('t, 'sig, 'hdr) rlp_tx =
  m_rlp_encoded_fields_length :: "'t \<Rightarrow> nat"
  m_rlp_encode_fields :: "'t \<Rightarrow> bytes \<Rightarrow> bytes"
  m_rlp_header_signed :: "'t \<Rightarrow> 'sig \<Rightarrow> 'hdr"
  m_rlp_encoded_length_with_signature :: "'t \<Rightarrow> 'sig \<Rightarrow> nat"
  m_rlp_encode_signed :: "'t \<Rightarrow> 'sig \<Rightarrow> bytes \<Rightarrow> bytes"
  m_eip2718_encoded_length :: "'t \<Rightarrow> 'sig \<Rightarrow> nat"
  m_eip2718_encode_with_type :: "'t \<Rightarrow> 'sig \<Rightarrow> byte \<Rightarrow> bytes \<Rightarrow> bytes"
  m_eip2718_encode :: "'t \<Rightarrow> 'sig \<Rightarrow> bytes \<Rightarrow> bytes"
  m_network_header :: "'t \<Rightarrow> 'sig \<Rightarrow> 'hdr"
  m_network_encoded_length :: "'t \<Rightarrow> 'sig \<Rightarrow> nat"
  m_network_encode_with_type :: "'t \<Rightarrow> 'sig \<Rightarrow> byte \<Rightarrow> bytes \<Rightarrow> bytes"
  m_network_encode :: "'t \<Rightarrow> 'sig \<Rightarrow> bytes \<Rightarrow> bytes"
  m_tx_hash_with_type :: "'t \<Rightarrow> 'sig \<Rightarrow> byte \<Rightarrow> hash"
  m_tx_hash :: "'t \<Rightarrow> 'sig \<Rightarrow> hash"

definition transaction_rlp ::
    "('l, 'sig, 'hdr) rlp_tx \<Rightarrow> ('e, 'sig, 'hdr) rlp_tx \<Rightarrow> (('l, 'e) transaction, 'sig, 'hdr) rlp_tx" where
  "transaction_rlp L E =
     \<lparr>m_rlp_encoded_fields_length = on_variant (m_rlp_encoded_fields_length L) (m_rlp_encoded_fields_length E),
      m_rlp_encode_fields = on_variant (m_rlp_encode_fields L) (m_rlp_encode_fields E),
      m_rlp_header_signed = on_variant (m_rlp_header_signed L) (m_rlp_header_signed E),
      m_rlp_encoded_length_with_signature =
        on_variant (m_rlp_encoded_length_with_signature L) (m_rlp_encoded_length_with_signature E),
      m_rlp_encode_signed = on_variant (m_rlp_encode_signed L) (m_rlp_encode_signed E),
      m_eip2718_encoded_length = on_variant (m_eip2718_encoded_length L) (m_eip2718_encoded_length E),
      m_eip2718_encode_with_type = on_variant (m_eip2718_encode_with_type L) (m_eip2718_encode_with_type E),
      m_eip2718_encode = on_variant (m_eip2718_encode L) (m_eip2718_encode E),
      m_network_header = on_variant (m_network_header L) (m_network_header E),
      m_network_encoded_length = on_variant (m_network_encoded_length L) (m_network_encoded_length E),
      m_network_encode_with_type = on_variant (m_network_encode_with_type L) (m_network_encode_with_type E),
      m_network_encode = on_variant (m_network_encode L) (m_network_encode E),
      m_tx_hash_with_type = on_variant (m_tx_hash_with_type L) (m_tx_hash_with_type E),
      m_tx_hash = on_variant (m_tx_hash L) (m_tx_hash E)\<rparr>"

section \<open>Merkle leaves\<close>

definition kind_address :: "tx_kind \<Rightarrow> address" where
  "kind_address k = (case k of Create \<Rightarrow> 0 | Call a \<Rightarrow> a)"

text \<open>\<^verbatim>\<open>impl Merkleizable for Transaction\<close>.\<close>

definition append_transaction :: "crates \<Rightarrow> (tx_legacy, 'al tx_eip1559) transaction appender" where
  "append_transaction K tx b =
     (case tx of
        Legacy t \<Rightarrow>
          (let b = add_field ''to'' (hash_address K (kind_address (l_to t))) b;
               b = add_field ''nonce'' (hash_bytes K (abi_u64 K (l_nonce t))) b;
               b = add_field ''value'' (hash_bytes K (abi_u256 K (l_value t))) b;
               b = add_field ''gas_limit'' (hash_bytes K (abi_u64 K (l_gas_limit t))) b;
               b = add_field ''max_fee_per_gas'' (hash_bytes K (abi_u128 K (l_gas_price t))) b;
               b = add_field ''max_priority_fee_per_gas'' (hash_bytes K (abi_u128 K (l_gas_price t))) b
           in add_field ''call_data'' (hash_bytes K (l_input t)) b)
      | Eip1559 t \<Rightarrow>
          (let b = add_field ''to'' (hash_address K (kind_address (e_to t))) b;
               b = add_field ''nonce'' (hash_bytes K (abi_u64 K (e_nonce t))) b;
               b = add_field ''value'' (hash_bytes K (abi_u256 K (e_value t))) b;
               b = add_field ''gas_limit'' (hash_bytes K (abi_u64 K (e_gas_limit t))) b;
               b = add_field ''max_fee_per_gas'' (hash_bytes K (abi_u128 K (e_max_fee_per_gas t))) b;
               b = add_field ''max_priority_fee_per_gas''
                     (hash_bytes K (abi_u128 K (e_max_priority_fee_per_gas t))) b
           in add_field ''call_data'' (hash_bytes K (e_input t)) b))"

lemma leaves_of_transaction_paths:
  "map fst (leaves_of (append_transaction K) tx) =
     [''to'', ''nonce'', ''value'', ''gas_limit'', ''max_fee_per_gas'', ''max_priority_fee_per_gas'', ''call_data'']"
  by (cases tx) (simp_all add: leaves_of_build append_transaction_def)

interpretation transaction_paths: merkle_paths "append_transaction K" for K
  by unfold_locales (simp add: leaves_of_transaction_paths)

section \<open>The bincode adapter\<close>

datatype (plugins only: code) ('cl, 'ce) compat_transaction = CompatLegacy 'cl | CompatEip1559 'ce

definition compat_from :: "('l \<Rightarrow> 'cl) \<Rightarrow> ('e \<Rightarrow> 'ce) \<Rightarrow> ('l, 'e) transaction \<Rightarrow> ('cl, 'ce) compat_transaction" where
  "compat_from into_l into_e tx =
     (case tx of Legacy t \<Rightarrow> CompatLegacy (into_l t) | Eip1559 t \<Rightarrow> CompatEip1559 (into_e t))"

definition compat_into :: "('cl \<Rightarrow> 'l) \<Rightarrow> ('ce \<Rightarrow> 'e) \<Rightarrow> ('cl, 'ce) compat_transaction \<Rightarrow> ('l, 'e) transaction" where
  "compat_into from_l from_e c =
     (case c of CompatLegacy t \<Rightarrow> Legacy (from_l t) | CompatEip1559 t \<Rightarrow> Eip1559 (from_e t))"

definition serialize_as ::
    "('l \<Rightarrow> 'cl) \<Rightarrow> ('e \<Rightarrow> 'ce) \<Rightarrow> (('cl, 'ce) compat_transaction \<Rightarrow> 'd) \<Rightarrow> ('l, 'e) transaction \<Rightarrow> 'd" where
  "serialize_as into_l into_e serialize source = serialize (compat_from into_l into_e source)"

definition deserialize_as ::
    "('cl \<Rightarrow> 'l) \<Rightarrow> ('ce \<Rightarrow> 'e) \<Rightarrow> ('d \<Rightarrow> 'err + ('cl, 'ce) compat_transaction) \<Rightarrow> 'd \<Rightarrow> 'err + ('l, 'e) transaction" where
  "deserialize_as from_l from_e deserialize d = map_ok (compat_into from_l from_e) (deserialize d)"

section \<open>Properties\<close>

text \<open>
  C16. The decoder reads what the append log holds: the type byte followed by the variant's
  RLP list, and also a bare legacy list, is read back as the transaction, and exactly what
  follows is left in the buffer.  No other first byte ever yields a transaction, so in
  particular EIP-2930, 4844 and 7702 are refused.
\<close>

theorem decode_unsigned_round_trip:
  assumes "\<And>t r. dl (el t @ r) = (Inr t, r)" "\<And>t r. de (ee t @ r) = (Inr t, r)"
    and "\<And>t. \<exists>b bs. el t = b # bs \<and> 0xc0 \<le> b"
    and "\<And>t. m_ty L t = 0" "\<And>t. m_ty E t = 2"
  shows "decode_unsigned dl de (transaction_ty L E tx # on_variant el ee tx @ r) = (Inr tx, r)
    \<and> decode_unsigned dl de (el t @ r) = (Inr (Legacy t), r)
    \<and> (fst (decode_unsigned dl de (b # r)) = Inr tx' \<longrightarrow> b = 0 \<or> b = 2 \<or> 0xc0 \<le> b)"
proof (intro conjI)
  show "decode_unsigned dl de (transaction_ty L E tx # on_variant el ee tx @ r) = (Inr tx, r)"
    using assms(1,2,4,5) by (cases tx) (simp_all add: decode_unsigned_def transaction_ty_def)
  obtain b' bs where "el t = b' # bs" "0xc0 \<le> b'" using assms(3) by blast
  then show "decode_unsigned dl de (el t @ r) = (Inr (Legacy t), r)"
    using assms(1) [of t r] by (simp add: decode_unsigned_def)
  show "fst (decode_unsigned dl de (b # r)) = Inr tx' \<longrightarrow> b = 0 \<or> b = 2 \<or> 0xc0 \<le> b"
    by (simp add: decode_unsigned_def)
qed

text \<open>A sample: a transaction is one byte, in a list of one item.\<close>

definition sample_rlp_decode :: "(byte, unit) rlp_decoder" where
  "sample_rlp_decode buf =
     (case buf of b # t # r \<Rightarrow> if b = 0xc1 then (Inr t, r) else (Inl (RlpOther ()), buf)
      | _ \<Rightarrow> (Inl InputTooShort, buf))"

definition sample_alloy_tx :: "byte \<Rightarrow> (byte, unit, unit) alloy_tx" where
  "sample_alloy_tx ty =
     \<lparr>m_ty = (\<lambda>t. ty), m_chain_id = (\<lambda>t. None), m_nonce = (\<lambda>t. 0), m_gas_limit = (\<lambda>t. 0),
      m_gas_price = (\<lambda>t. None), m_max_fee_per_gas = (\<lambda>t. 0), m_max_priority_fee_per_gas = (\<lambda>t. None),
      m_max_fee_per_blob_gas = (\<lambda>t. None), m_priority_fee_or_price = (\<lambda>t. 0),
      m_effective_gas_price = (\<lambda>t b. 0), m_is_dynamic_fee = (\<lambda>t. False), m_kind = (\<lambda>t. Create),
      m_is_create = (\<lambda>t. True), m_value = (\<lambda>t. 0), m_input = (\<lambda>t. []), m_access_list = (\<lambda>t. None),
      m_blob_versioned_hashes = (\<lambda>t. None), m_authorization_list = (\<lambda>t. None)\<rparr>"

theorem decode_unsigned_round_trip_witness:
  "decode_unsigned sample_rlp_decode sample_rlp_decode [2, 0xc1, 7, 5] = (Inr (Eip1559 7), [5])
   \<and> decode_unsigned sample_rlp_decode sample_rlp_decode [0xc1, 9, 5] = (Inr (Legacy 9), [5])"
  using decode_unsigned_round_trip [of sample_rlp_decode "\<lambda>t. [0xc1, t]" sample_rlp_decode "\<lambda>t. [0xc1, t]"
      "sample_alloy_tx 0" "sample_alloy_tx 2" "Eip1559 7" "[5]" 9]
  by (simp add: sample_rlp_decode_def sample_alloy_tx_def transaction_ty_def)

text \<open>
  A legacy transaction and an EIP-1559 transaction with both fees equal to its gas
  price, and otherwise the same recipient, nonce, value, gas limit and call data, have the
  same Merkle leaves: the tree commits neither to the type nor to the chain id nor to the
  access list, and contract creation is not told apart from a call to the zero address.
\<close>

theorem transaction_leaves_do_not_commit_to_type:
  "leaves_of (append_transaction K) (Legacy \<lparr>l_chain_id = c, l_nonce = n, l_gas_price = g,
       l_gas_limit = lim, l_to = Create, l_value = v, l_input = i\<rparr>)
   = leaves_of (append_transaction K) (Eip1559 \<lparr>e_chain_id = c', e_nonce = n, e_gas_limit = lim,
       e_max_fee_per_gas = g, e_max_priority_fee_per_gas = g, e_to = Call 0, e_value = v,
       e_access_list = al, e_input = i\<rparr>)"
  by (simp add: leaves_of_build append_transaction_def kind_address_def)

text \<open>
  The bincode adapter is lossless: if alloy's helpers for the two variants and the
  serialiser of the adapter's enum are, so is the transaction.
\<close>

theorem bincode_round_trip:
  assumes "\<And>t. from_l (into_l t) = t" "\<And>t. from_e (into_e t) = t"
    and "\<And>c. deserialize (serialize c) = Inr c"
  shows "deserialize_as from_l from_e deserialize (serialize_as into_l into_e serialize tx) = Inr tx"
  by (cases tx) (simp_all add: deserialize_as_def serialize_as_def compat_from_def compat_into_def assms)

theorem bincode_round_trip_witness:
  "deserialize_as id id (Inr :: (nat, nat) compat_transaction \<Rightarrow> unit + (nat, nat) compat_transaction)
     (serialize_as id id id (Legacy 3)) = Inr (Legacy 3)"
  by (rule bincode_round_trip) simp_all

end
