(* ===== verification/Signing.thy ===== *)
theory Signing
  imports Committee Transaction "HOL-Library.Finite_Map"
begin

text \<open>
  \<^verbatim>\<open>types/src/cryptography/signer.rs\<close>, \<^verbatim>\<open>types/src/consensus/attestation.rs\<close>
  and \<^verbatim>\<open>attestation_metadata.rs\<close>: signed values and where they come from,
  attestations and the forms they are stripped to, and the metadata validators sign.

  Signing, recovery, transaction hashes, EIP-712 and serde's formats are third-party code
  and arguments of the definitions.  A \<^verbatim>\<open>Signed\<close> caches its hash in a
  \<^verbatim>\<open>OnceLock\<close>, here an option; the method that fills it also returns the value it
  leaves behind.  How values of the type come to be is the inductive predicate \<open>obtained\<close>, for a
  build with or without debug assertions and the arguments its callers give \<^verbatim>\<open>new_unchecked\<close>.
\<close>

section \<open>Signed values\<close>

record ('sig, 't) signed =
  sd_signed :: 't
  sd_signature :: 'sig
  sd_signer :: address
  sd_hash :: "hash option"

record ('sig, 'err) alloy_signer =
  sign_hash_sync :: "hash \<Rightarrow> 'err + 'sig"
  signer_address :: address

definition signer_sign ::
    "('sig, 'err) alloy_signer \<Rightarrow> ('t \<Rightarrow> hash run) \<Rightarrow> 't \<Rightarrow> ('err + ('sig, 't) signed) run" where
  "signer_sign S hash_custom msg =
     map_ok (\<lambda>digest.
       map_ok (\<lambda>sig. \<lparr>sd_signed = msg, sd_signature = sig, sd_signer = signer_address S, sd_hash = None\<rparr>)
         (sign_hash_sync S digest))
       (hash_custom msg)"

text \<open>\<^verbatim>\<open>Hashable for Transaction\<close> is its signature hash.\<close>

definition hash_transaction :: "('t \<Rightarrow> hash) \<Rightarrow> 't \<Rightarrow> hash run" where
  "hash_transaction signature_hash tx = Inr (signature_hash tx)"

definition sign_tx ::
    "('sig, 'err) alloy_signer \<Rightarrow> (('l, 'e) transaction \<Rightarrow> hash) \<Rightarrow> ('l, 'e) transaction
      \<Rightarrow> ('err + ('sig, ('l, 'e) transaction) signed) run" where
  "sign_tx S signature_hash tx = signer_sign S (hash_transaction signature_hash) tx"

text \<open>
  \<^verbatim>\<open>new_unchecked\<close>: the check of the signer is a \<^verbatim>\<open>debug_assert\<close>, so it is there
  only in builds with debug assertions.
\<close>

definition new_unchecked ::
    "bool \<Rightarrow> ('sig \<Rightarrow> hash \<Rightarrow> 'se + address) \<Rightarrow> ('t \<Rightarrow> hash) \<Rightarrow> 't \<Rightarrow> 'sig \<Rightarrow> address
      \<Rightarrow> ('sig, 't) signed run" where
  "new_unchecked debug_assertions recover signature_hash tx sig signer =
     (let built = \<lparr>sd_signed = tx, sd_signature = sig, sd_signer = signer, sd_hash = None\<rparr>
      in if debug_assertions
         then (case recover sig (signature_hash tx) of
                 Inl e \<Rightarrow> Inl UnwrapErr
               | Inr a \<Rightarrow> if signer = a then Inr built else Inl AssertFailed)
         else Inr built)"

definition signed_serialize ::
    "('l \<Rightarrow> 'cl) \<Rightarrow> ('e \<Rightarrow> 'ce) \<Rightarrow> (('cl, 'ce) compat_transaction \<times> 'sig \<Rightarrow> 'd)
      \<Rightarrow> ('sig, ('l, 'e) transaction) signed \<Rightarrow> 'd" where
  "signed_serialize into_l into_e serialize s =
     serialize (compat_from into_l into_e (sd_signed s), sd_signature s)"

datatype (plugins only: code) ('de, 'se) deserialize_error = FormatError 'de | RecoveryError 'se

text \<open>Deserialisation reads the transaction and the signature and recovers the signer.\<close>

definition signed_from_helper ::
    "('t \<Rightarrow> hash) \<Rightarrow> ('t \<Rightarrow> 'sig \<Rightarrow> hash \<Rightarrow> 'se + address) \<Rightarrow> 't \<Rightarrow> 'sig \<Rightarrow> 'se + ('sig, 't) signed" where
  "signed_from_helper signature_hash recover_signer tx sig =
     map_ok (\<lambda>signer. \<lparr>sd_signed = tx, sd_signature = sig, sd_signer = signer, sd_hash = None\<rparr>)
       (recover_signer tx sig (signature_hash tx))"

definition signed_deserialize ::
    "('cl \<Rightarrow> 'l) \<Rightarrow> ('ce \<Rightarrow> 'e) \<Rightarrow> ('d \<Rightarrow> 'de + (('cl, 'ce) compat_transaction \<times> 'sig))
      \<Rightarrow> (('l, 'e) transaction \<Rightarrow> hash) \<Rightarrow> (('l, 'e) transaction \<Rightarrow> 'sig \<Rightarrow> hash \<Rightarrow> 'se + address)
      \<Rightarrow> 'd \<Rightarrow> ('de, 'se) deserialize_error + ('sig, ('l, 'e) transaction) signed" where
  "signed_deserialize from_l from_e deserialize signature_hash recover_signer d =
     (case deserialize d of
        Inl e \<Rightarrow> Inl (FormatError e)
      | Inr (c, sig) \<Rightarrow>
          (case signed_from_helper signature_hash recover_signer (compat_into from_l from_e c) sig of
             Inl e \<Rightarrow> Inl (RecoveryError e)
           | Inr s \<Rightarrow> Inr s))"

definition signed_deref :: "('sig, 't) signed \<Rightarrow> 't" where
  "signed_deref s = sd_signed s"

text \<open>\<^verbatim>\<open>Hashable for Signed\<close>: \<^verbatim>\<open>get_or_init\<close> of the cache.\<close>

definition signed_hash_custom ::
    "('t \<Rightarrow> 'sig \<Rightarrow> hash) \<Rightarrow> ('sig, 't) signed \<Rightarrow> hash \<times> ('sig, 't) signed" where
  "signed_hash_custom tx_hash s =
     (case sd_hash s of
        Some h \<Rightarrow> (h, s)
      | None \<Rightarrow> (let h = tx_hash (sd_signed s) (sd_signature s) in (h, s\<lparr>sd_hash := Some h\<rparr>)))"

text \<open>Alloy's own signed transactions, and the conversion from them.\<close>

record ('sig, 't) alloy_signed =
  al_tx :: 't
  al_signature :: 'sig
  al_hash :: hash

definition signed_try_from ::
    "('e \<Rightarrow> 'sig \<Rightarrow> hash \<Rightarrow> 'se + address) \<Rightarrow> ('sig, 'e) alloy_signed
      \<Rightarrow> 'se + ('sig, ('l, 'e) transaction) signed" where
  "signed_try_from recover_signer v =
     map_ok (\<lambda>signer. \<lparr>sd_signed = Eip1559 (al_tx v), sd_signature = al_signature v,
                        sd_signer = signer, sd_hash = None\<rparr>)
       (recover_signer (al_tx v) (al_signature v) (al_hash v))"

text \<open>The derived \<^verbatim>\<open>PartialEq\<close> compares every field, the cache included.\<close>

definition signed_eq :: "('sig, 't) signed \<Rightarrow> ('sig, 't) signed \<Rightarrow> bool" where
  "signed_eq s s' \<longleftrightarrow> sd_signed s = sd_signed s' \<and> sd_signature s = sd_signature s'
     \<and> sd_signer s = sd_signer s' \<and> sd_hash s = sd_hash s'"

definition append_signed :: "crates \<Rightarrow> 't appender \<Rightarrow> ('sig, 't) signed appender" where
  "append_signed K append_leaves s b =
     add_field ''signer'' (hash_bytes K (abi_address K (sd_signer s)))
       (add_merkleizable append_leaves ''signed'' (sd_signed s) b)"

lemma leaves_of_signed:
  "leaves_of (append_signed K app) s =
     prefixed ''signed'' (leaves_of app (sd_signed s))
       @ [(''signer'', hash_bytes K (abi_address K (sd_signer s)))]"
  by (simp add: leaves_of_build append_signed_def)

lemma prefixed_not_field:
  assumes "field_name f" "field_name g" "f \<noteq> g" "(g, h) \<in> set (prefixed f ps)"
  shows False
proof -
  obtain s where "g = join_prefix f s" using assms(4) by (auto simp: prefixed_def)
  then have "path_head g = f" using assms(1) by simp
  with assms(2,3) show False by simp
qed

lemma distinct_signed_paths:
  "distinct (map fst (leaves_of app (sd_signed s))) \<Longrightarrow> distinct (map fst (leaves_of (append_signed K app) s))"
  using prefixed_not_field [of "''signed''" "''signer''" _ "leaves_of app (sd_signed s)"]
  by (auto simp: leaves_of_signed field_name_def intro: distinct_prefixed)

interpretation signed_transaction_paths:
  merkle_paths "append_signed K (append_transaction K)" for K
  by unfold_locales (rule distinct_signed_paths [OF transaction_paths.distinct_paths])

section \<open>Attestations\<close>

record 'v indexed =
  ix_index :: timestamp
  ix_value :: 'v

record 'sig headless_attestation =
  ha_public_key :: address
  ha_signature :: 'sig

record 'sig timestamped_headless_attestation =
  ta_timestamp :: timestamp
  ta_public_key :: address
  ta_signature :: 'sig

definition indexed_new :: "timestamp \<Rightarrow> 'v \<Rightarrow> 'v indexed" where
  "indexed_new i v = \<lparr>ix_index = i, ix_value = v\<rparr>"

definition attestation_from_signed :: "('sig, 't) signed \<Rightarrow> ('sig, 't) attestation" where
  "attestation_from_signed s =
     \<lparr>public_key = sd_signer s, signature = sd_signature s, attested = sd_signed s\<rparr>"

definition headless_from :: "('sig, 't) attestation \<Rightarrow> 'sig headless_attestation" where
  "headless_from a = \<lparr>ha_public_key = public_key a, ha_signature = signature a\<rparr>"

definition indexed_headless_from ::
    "('sig, 't) attestation indexed \<Rightarrow> 'sig headless_attestation indexed" where
  "indexed_headless_from i = \<lparr>ix_index = ix_index i, ix_value = headless_from (ix_value i)\<rparr>"

definition timestamped_from_headless ::
    "'sig headless_attestation indexed \<Rightarrow> 'sig timestamped_headless_attestation" where
  "timestamped_from_headless i =
     \<lparr>ta_timestamp = ix_index i, ta_public_key = ha_public_key (ix_value i),
      ta_signature = ha_signature (ix_value i)\<rparr>"

definition timestamped_from_attestation ::
    "('sig, 't) attestation indexed \<Rightarrow> 'sig timestamped_headless_attestation" where
  "timestamped_from_attestation i =
     \<lparr>ta_timestamp = ix_index i, ta_public_key = public_key (ix_value i),
      ta_signature = signature (ix_value i)\<rparr>"

definition hash_indexed :: "crates \<Rightarrow> ('v \<Rightarrow> hash run) \<Rightarrow> 'v indexed \<Rightarrow> hash run" where
  "hash_indexed K hash_custom i =
     map_ok (\<lambda>h. keccak256 K (abi_u128 K (as_micros (ix_index i)) @ be_bytes 32 h))
       (hash_custom (ix_value i))"

text \<open>The bytes of an attestation that are hashed; \<open>sig_bytes\<close> is alloy's \<^verbatim>\<open>as_bytes\<close>.\<close>

definition attestation_bytes ::
    "('sig \<Rightarrow> bytes) \<Rightarrow> address \<Rightarrow> 'sig \<Rightarrow> hash \<Rightarrow> bytes" where
  "attestation_bytes sig_bytes pk sig h = be_bytes 20 pk @ sig_bytes sig @ be_bytes 32 h"

definition hash_attestation ::
    "crates \<Rightarrow> ('sig \<Rightarrow> bytes) \<Rightarrow> ('t \<Rightarrow> hash run) \<Rightarrow> ('sig, 't) attestation \<Rightarrow> hash run" where
  "hash_attestation K sig_bytes hash_custom a =
     map_ok (\<lambda>h. keccak256 K (attestation_bytes sig_bytes (public_key a) (signature a) h))
       (hash_custom (attested a))"

record attested_tx =
  atx_hash :: hash
  committee_epoch :: u64

definition attested_tx_new :: "hash \<Rightarrow> u64 \<Rightarrow> attested_tx" where
  "attested_tx_new h e = \<lparr>atx_hash = h, committee_epoch = e\<rparr>"

definition append_attested_tx :: "crates \<Rightarrow> attested_tx appender" where
  "append_attested_tx K a b =
     add_field ''committee_epoch'' (hash_bytes K (abi_u64 K (committee_epoch a)))
       (add_field ''hash'' (atx_hash a) b)"

lemma leaves_of_attested_tx:
  "leaves_of (append_attested_tx K) a =
     [(''hash'', atx_hash a), (''committee_epoch'', hash_bytes K (abi_u64 K (committee_epoch a)))]"
  by (simp add: leaves_of_build append_attested_tx_def)

interpretation attested_tx_paths: merkle_paths "append_attested_tx K" for K
  by unfold_locales (simp add: leaves_of_attested_tx)

section \<open>Attestation metadata\<close>

record attestation_metadata =
  am_timestamp :: timestamp
  am_global_sequence :: u64
  am_contract_sequences :: "(address, u64) fmap"

record contract_seq =
  cs_addr :: address
  cs_seq :: u64

record attestation_metadata712 =
  timestamp_micros :: u128
  global_sequence :: u64
  contract_sequences :: "contract_seq list"

text \<open>A \<^verbatim>\<open>BTreeMap\<close> iterates in the order of its keys.\<close>

definition metadata_typed :: "attestation_metadata \<Rightarrow> attestation_metadata712" where
  "metadata_typed m =
     \<lparr>timestamp_micros = as_micros (am_timestamp m),
      global_sequence = am_global_sequence m,
      contract_sequences =
        map (\<lambda>(addr, s). \<lparr>cs_addr = addr, cs_seq = s\<rparr>) (sorted_list_of_fmap (am_contract_sequences m))\<rparr>"

definition metadata_domain :: "string \<times> string \<times> u64" where
  "metadata_domain = (''attestation_metadata'', ''1'', 0x50d)"

definition hash_attestation_metadata ::
    "(attestation_metadata712 \<Rightarrow> string \<times> string \<times> u64 \<Rightarrow> hash) \<Rightarrow> attestation_metadata \<Rightarrow> hash" where
  "hash_attestation_metadata eip712_signing_hash m = eip712_signing_hash (metadata_typed m) metadata_domain"

section \<open>Where signed transactions come from\<close>

text \<open>The signing machinery of the crates, and what the code relies on of it.\<close>

record ('sig, 'err, 'se, 'l, 'e) ecdsa =
  ec_signer :: "('sig, 'err) alloy_signer"
  ec_recover :: "'sig \<Rightarrow> hash \<Rightarrow> 'se + address"
  ec_signature_hash :: "('l, 'e) transaction \<Rightarrow> hash"
  ec_recover_signer :: "('l, 'e) transaction \<Rightarrow> 'sig \<Rightarrow> hash \<Rightarrow> 'se + address"
  ec_recover_signer_eip1559 :: "'e \<Rightarrow> 'sig \<Rightarrow> hash \<Rightarrow> 'se + address"
  ec_tx_hash :: "('l, 'e) transaction \<Rightarrow> 'sig \<Rightarrow> hash"

text \<open>
  A signature the signer makes recovers to its address, and \<^verbatim>\<open>recover_signer\<close> of a
  signed transaction recovers from the signature hash of the transaction, whatever hash was
  stored with it.
\<close>

definition ecdsa_law :: "('sig, 'err, 'se, 'l, 'e) ecdsa \<Rightarrow> bool" where
  "ecdsa_law E \<longleftrightarrow>
     (\<forall>d sig. sign_hash_sync (ec_signer E) d = Inr sig \<longrightarrow>
        ec_recover E sig d = Inr (signer_address (ec_signer E)))
     \<and> (\<forall>tx sig h. ec_recover_signer E tx sig h = ec_recover E sig (ec_signature_hash E tx))
     \<and> (\<forall>t sig h. ec_recover_signer_eip1559 E t sig h = ec_recover E sig (ec_signature_hash E (Eip1559 t)))"

text \<open>
  The signed transactions a program can hold: those it signed, built unchecked (in a debug
  build, or with the signer the caller owes), read back or converted, and those it hashed
  since.
\<close>

inductive obtained ::
    "bool \<Rightarrow> (('l, 'e) transaction \<times> 'sig \<times> address) set \<Rightarrow> ('sig, 'err, 'se, 'l, 'e) ecdsa
      \<Rightarrow> ('sig, ('l, 'e) transaction) signed \<Rightarrow> bool" for dbg U E where
  from_sign: "sign_tx (ec_signer E) (ec_signature_hash E) tx = Inr (Inr s) \<Longrightarrow> obtained dbg U E s"
| from_unchecked:
    "(tx, sig, signer) \<in> U \<Longrightarrow>
     new_unchecked dbg (ec_recover E) (ec_signature_hash E) tx sig signer = Inr s \<Longrightarrow> obtained dbg U E s"
| from_helper:
    "signed_from_helper (ec_signature_hash E) (ec_recover_signer E) tx sig = Inr s \<Longrightarrow> obtained dbg U E s"
| from_alloy: "signed_try_from (ec_recover_signer_eip1559 E) v = Inr s \<Longrightarrow> obtained dbg U E s"
| hashed: "obtained dbg U E s \<Longrightarrow> obtained dbg U E (snd (signed_hash_custom (ec_tx_hash E) s))"

text \<open>What \<^verbatim>\<open>new_unchecked\<close> asks of its callers: the signer is the one the signature recovers to.\<close>

definition callers_careful ::
    "(('l, 'e) transaction \<times> 'sig \<times> address) set \<Rightarrow> ('sig, 'err, 'se, 'l, 'e) ecdsa \<Rightarrow> bool" where
  "callers_careful U E \<longleftrightarrow> (\<forall>(tx, sig, signer) \<in> U. ec_recover E sig (ec_signature_hash E tx) = Inr signer)"

definition signed_valid :: "('sig, 'err, 'se, 'l, 'e) ecdsa \<Rightarrow> ('sig, ('l, 'e) transaction) signed \<Rightarrow> bool" where
  "signed_valid E s \<longleftrightarrow>
     ec_recover E (sd_signature s) (ec_signature_hash E (sd_signed s)) = Inr (sd_signer s)
     \<and> (case sd_hash s of None \<Rightarrow> True | Some h \<Rightarrow> h = ec_tx_hash E (sd_signed s) (sd_signature s))"

lemmas signed_constructors =
  sign_tx_def signer_sign_def hash_transaction_def new_unchecked_def signed_from_helper_def
  signed_try_from_def signed_hash_custom_def

lemma obtained_cases:
  assumes "ecdsa_law E" "obtained dbg U E s"
  shows "(case sd_hash s of None \<Rightarrow> True | Some h \<Rightarrow> h = ec_tx_hash E (sd_signed s) (sd_signature s))
    \<and> (ec_recover E (sd_signature s) (ec_signature_hash E (sd_signed s)) = Inr (sd_signer s)
       \<or> \<not> dbg \<and> (sd_signed s, sd_signature s, sd_signer s) \<in> U)"
  using assms(2)
proof induction
  case (from_sign tx s)
  then show ?case
    using assms(1) by (auto simp: signed_constructors ecdsa_law_def map_ok_def and_then_Inr_iff)
next
  case (from_unchecked tx sig signer s)
  then show ?case
    by (auto simp: signed_constructors Let_def split: if_splits sum.splits)
next
  case (from_helper tx sig s)
  then show ?case
    using assms(1) by (auto simp: signed_constructors ecdsa_law_def map_ok_def and_then_Inr_iff)
next
  case (from_alloy v s)
  then show ?case
    using assms(1) by (auto simp: signed_constructors ecdsa_law_def map_ok_def and_then_Inr_iff)
next
  case (hashed s)
  then show ?case
    by (auto simp: signed_constructors Let_def split: option.splits)
qed

lemma obtained_imp_valid:
  assumes "ecdsa_law E" "obtained dbg U E s" "dbg \<or> callers_careful U E"
  shows "signed_valid E s"
  using obtained_cases [OF assms(1,2)] assms(3) by (auto simp: signed_valid_def callers_careful_def)

lemma obtained_unchecked:
  assumes "(tx, sig, signer) \<in> U" "h = None \<or> h = Some (ec_tx_hash E tx sig)"
  shows "obtained False U E \<lparr>sd_signed = tx, sd_signature = sig, sd_signer = signer, sd_hash = h\<rparr>"
proof -
  let ?s = "\<lparr>sd_signed = tx, sd_signature = sig, sd_signer = signer, sd_hash = None\<rparr>"
  have "obtained False U E ?s" using assms(1) by (rule from_unchecked) (simp add: new_unchecked_def)
  moreover from hashed [OF this]
  have "obtained False U E (?s\<lparr>sd_hash := Some (ec_tx_hash E tx sig)\<rparr>)"
    by (simp add: signed_hash_custom_def Let_def)
  ultimately show ?thesis using assms(2) by auto
qed

lemma sorted_list_of_fmap_inj:
  assumes "sorted_list_of_fmap f = sorted_list_of_fmap g"
  shows "f = g"
proof -
  have entries: "(k, v) \<in> set (sorted_list_of_fmap m) \<longleftrightarrow> fmlookup m k = Some v" for m :: "('k :: linorder, 'v) fmap" and k v
    by (auto simp: sorted_list_of_fmap_def image_iff intro: fmdomI)
  have "fmlookup f k = Some v \<longleftrightarrow> fmlookup g k = Some v" for k v
    using entries [of k v f] entries [of k v g] assms by simp
  then have "fmlookup f k = fmlookup g k" for k by (metis not_Some_eq)
  then show ?thesis by (rule fmap_ext)
qed

lemma metadata_typed_eq_iff: "metadata_typed m = metadata_typed m' \<longleftrightarrow> m = m'"
proof
  assume eq: "metadata_typed m = metadata_typed m'"
  let ?f = "\<lambda>(addr, s). \<lparr>cs_addr = addr, cs_seq = s\<rparr>"
  have "inj ?f" by (auto simp: inj_on_def)
  then have "sorted_list_of_fmap (am_contract_sequences m) = sorted_list_of_fmap (am_contract_sequences m')"
    using eq by (simp add: metadata_typed_def map_injective)
  then have "am_contract_sequences m = am_contract_sequences m'"
    by (rule sorted_list_of_fmap_inj)
  then show "m = m'"
    using eq by (simp add: metadata_typed_def as_micros_def timestamp.expand)
qed simp

section \<open>Properties\<close>

text \<open>
  C8. Whatever a program does with the constructors, hashing and conversions, a cached hash is
  the hash of the transaction and signature, and the signer is the one the signature recovers
  to, with one exception: in a build without debug assertions a value with another signer can
  be had by handing exactly its transaction, signature and signer to \<^verbatim>\<open>new_unchecked\<close>.
\<close>

theorem obtained_signer_recovers:
  assumes "ecdsa_law E"
  shows "(obtained dbg U E s \<longrightarrow> fst (signed_hash_custom (ec_tx_hash E) s) = ec_tx_hash E (sd_signed s) (sd_signature s))
    \<and> (ec_recover E (sd_signature s) (ec_signature_hash E (sd_signed s)) \<noteq> Inr (sd_signer s) \<longrightarrow>
       (obtained dbg U E s \<longleftrightarrow> \<not> dbg \<and> (sd_signed s, sd_signature s, sd_signer s) \<in> U
          \<and> (sd_hash s = None \<or> sd_hash s = Some (ec_tx_hash E (sd_signed s) (sd_signature s)))))"
proof (intro conjI impI iffI)
  assume "obtained dbg U E s"
  note cases = obtained_cases [OF assms this]
  then show "fst (signed_hash_custom (ec_tx_hash E) s) = ec_tx_hash E (sd_signed s) (sd_signature s)"
    by (auto simp: signed_hash_custom_def Let_def split: option.splits)
  from cases show "sd_hash s = None \<or> sd_hash s = Some (ec_tx_hash E (sd_signed s) (sd_signature s))"
    by (auto split: option.splits)
  assume "ec_recover E (sd_signature s) (ec_signature_hash E (sd_signed s)) \<noteq> Inr (sd_signer s)"
  with cases show "\<not> dbg" "(sd_signed s, sd_signature s, sd_signer s) \<in> U" by auto
next
  assume "\<not> dbg \<and> (sd_signed s, sd_signature s, sd_signer s) \<in> U
    \<and> (sd_hash s = None \<or> sd_hash s = Some (ec_tx_hash E (sd_signed s) (sd_signature s)))"
  then show "obtained dbg U E s"
    using obtained_unchecked [of "sd_signed s" "sd_signature s" "sd_signer s" U "sd_hash s" E] by (cases s) auto
qed

text \<open>A sample: signatures are pairs of a key and the signed hash.\<close>

definition sample_ecdsa :: "(address \<times> hash, unit, unit, u64, u64) ecdsa" where
  "sample_ecdsa =
     \<lparr>ec_signer = \<lparr>sign_hash_sync = (\<lambda>d. Inr (17, d)), signer_address = 17\<rparr>,
      ec_recover = (\<lambda>sig d. if snd sig = d then Inr (fst sig) else Inl ()),
      ec_signature_hash = on_variant ucast (\<lambda>t. ucast t + 2 ^ 64),
      ec_recover_signer = (\<lambda>tx sig h.
        if snd sig = on_variant ucast (\<lambda>t. ucast t + 2 ^ 64) tx then Inr (fst sig) else Inl ()),
      ec_recover_signer_eip1559 = (\<lambda>t sig h. if snd sig = ucast t + 2 ^ 64 then Inr (fst sig) else Inl ()),
      ec_tx_hash = (\<lambda>tx sig. snd sig + 1)\<rparr>"

lemma sample_ecdsa_law: "ecdsa_law sample_ecdsa"
  by (simp add: ecdsa_law_def sample_ecdsa_def)

lemma sample_obtained:
  "obtained dbg U sample_ecdsa \<lparr>sd_signed = Legacy 5, sd_signature = (17, 5), sd_signer = 17, sd_hash = None\<rparr>"
  by (rule from_sign [of _ "Legacy 5"]) (simp add: signed_constructors sample_ecdsa_def)

theorem obtained_signer_recovers_witness:
  "let forged = \<lparr>sd_signed = Legacy 5, sd_signature = (17, 5), sd_signer = 18, sd_hash = None\<rparr>;
       E = sample_ecdsa
   in obtained False {(Legacy 5, (17, 5), 18)} E forged \<and> \<not> obtained True UNIV E forged
      \<and> \<not> obtained False {} E forged"
proof -
  let ?forged = "\<lparr>sd_signed = Legacy 5, sd_signature = (17, 5), sd_signer = 18, sd_hash = None\<rparr>"
  have "ec_recover sample_ecdsa (17, 5) (ec_signature_hash sample_ecdsa (Legacy 5)) \<noteq> Inr 18"
    by (simp add: sample_ecdsa_def)
  then have "obtained dbg U sample_ecdsa ?forged \<longleftrightarrow> \<not> dbg \<and> (Legacy 5, (17, 5), 18) \<in> U" for dbg U
    using obtained_signer_recovers [OF sample_ecdsa_law, of dbg U ?forged] by simp
  then show ?thesis by simp
qed

text \<open>
  An attestation made from a signed transaction is accepted by every committee its
  signer belongs to, and refused, for not being a member, by every other.
\<close>

theorem signed_attestation_verifies:
  assumes "ecdsa_law E" "obtained dbg U E s" "dbg \<or> callers_careful U E"
  shows "verify_attestation (ec_recover E) (hash_transaction (ec_signature_hash E)) c (attestation_from_signed s)
    = Inr (if sd_signer s |\<in>| validators c then Inr True else Inl (ValidatorNotInCommittee (sd_signer s)))"
  using obtained_imp_valid [OF assms]
  by (simp add: verify_attestation_def attestation_from_signed_def hash_transaction_def
      is_in_committee_def signed_valid_def)

theorem signed_attestation_verifies_witness:
  "verify_attestation (ec_recover sample_ecdsa) (hash_transaction (ec_signature_hash sample_ecdsa))
     (committee_new [3, 17] 2)
     (attestation_from_signed \<lparr>sd_signed = Legacy 5, sd_signature = (17, 5), sd_signer = 17, sd_hash = None\<rparr>)
   = Inr (Inr True)"
  using signed_attestation_verifies [OF sample_ecdsa_law sample_obtained [of True "{}"] disjI1 [OF TrueI], of "committee_new [3, 17] 2"]
  by (simp add: committee_new_def)

text \<open>
  C17. Serialisation drops the signer and the cached hash, and deserialisation recovers the
  signer: what comes back is the value with an empty cache, for every value a program can obtain
  in a build with debug assertions, or whose callers of \<^verbatim>\<open>new_unchecked\<close> keep its contract.
\<close>

theorem signed_serde_round_trip:
  assumes "ecdsa_law E" "obtained dbg U E s" "dbg \<or> callers_careful U E"
    and "\<And>t. from_l (into_l t) = t" "\<And>t. from_e (into_e t) = t"
    and "\<And>c. deserialize (serialize c) = Inr c"
  shows "signed_deserialize from_l from_e deserialize (ec_signature_hash E) (ec_recover_signer E)
      (signed_serialize into_l into_e serialize s) = Inr (s\<lparr>sd_hash := None\<rparr>)"
proof -
  have "compat_into from_l from_e (compat_from into_l into_e tx) = tx" for tx
    by (cases tx) (simp_all add: compat_into_def compat_from_def assms(4,5))
  moreover have "ec_recover_signer E (sd_signed s) (sd_signature s) (ec_signature_hash E (sd_signed s))
      = Inr (sd_signer s)"
    using obtained_imp_valid [OF assms(1-3)] assms(1) by (simp add: signed_valid_def ecdsa_law_def)
  ultimately show ?thesis
    by (simp add: signed_deserialize_def signed_serialize_def signed_from_helper_def assms(6))
qed

theorem signed_serde_round_trip_witness:
  "signed_deserialize id id (Inr :: _ \<Rightarrow> unit + _) (ec_signature_hash sample_ecdsa) (ec_recover_signer sample_ecdsa)
     (signed_serialize id id id
        \<lparr>sd_signed = Legacy 5, sd_signature = (17, 5), sd_signer = 17, sd_hash = None\<rparr>)
   = Inr \<lparr>sd_signed = Legacy 5, sd_signature = (17, 5), sd_signer = 17, sd_hash = None\<rparr>"
  using signed_serde_round_trip [OF sample_ecdsa_law sample_obtained [of True "{}"] disjI1 [OF TrueI], of id id id id Inr id] by simp

text \<open>
  The derived equality sees the cache: hashing a signed value that was not hashed
  before makes it unequal to its own copy, although the hash it returns never changes.
\<close>

theorem hashing_changes_equality:
  "(signed_eq s (snd (signed_hash_custom tx_hash s)) \<longleftrightarrow> sd_hash s \<noteq> None)
   \<and> fst (signed_hash_custom tx_hash (snd (signed_hash_custom tx_hash s))) = fst (signed_hash_custom tx_hash s)"
  by (auto simp: signed_eq_def signed_hash_custom_def Let_def split: option.splits)

text \<open>
  The hash of an attestation binds the validator, the signature and the hash of what is
  attested: without a collision of the two preimages, equal hashes come from equal parts.
\<close>

theorem attestation_hash_binds:
  assumes "\<And>sig. length (sig_bytes sig) = 65" "inj sig_bytes"
    and "hash_custom (attested a) = Inr h" "hash_custom (attested a') = Inr h'"
    and "hash_attestation K sig_bytes hash_custom a = hash_attestation K sig_bytes hash_custom a'"
    and "inj_on (keccak256 K)
      {attestation_bytes sig_bytes (public_key a) (signature a) h,
       attestation_bytes sig_bytes (public_key a') (signature a') h'}"
  shows "public_key a = public_key a' \<and> signature a = signature a' \<and> h = h'"
proof -
  have eq: "attestation_bytes sig_bytes (public_key a) (signature a) h
      = attestation_bytes sig_bytes (public_key a') (signature a') h'"
    using assms(3-6) by (auto simp: hash_attestation_def dest: inj_onD)
  have sigs: "fixed_width sig_bytes 65"
    by (rule fixed_width.intro) (use assms(1,2) in \<open>auto dest: injD\<close>)
  have "public_key a = public_key a'
      \<and> sig_bytes (signature a) @ be_bytes 32 h = sig_bytes (signature a') @ be_bytes 32 h'"
    by (rule be_address.prefix_inj) (use eq in \<open>simp only: attestation_bytes_def\<close>)
  then show ?thesis
    using fixed_width.prefix_inj [OF sigs] be_hash.enc_eq_iff by metis
qed

theorem attestation_hash_binds_witness:
  "let sig_bytes = be_bytes 65 :: 520 word \<Rightarrow> bytes; hc = (\<lambda>x. Inr (fst x));
       a = \<lparr>public_key = 3, signature = 5, attested = (7 :: hash, True)\<rparr>;
       a' = \<lparr>public_key = 3, signature = 5, attested = (7 :: hash, False)\<rparr>
   in hash_attestation K sig_bytes hc a = hash_attestation K sig_bytes hc a'
      \<and> public_key a = public_key a' \<and> signature a = signature a'"
proof -
  let ?a = "\<lparr>public_key = 3, signature = 5 :: 520 word, attested = (7 :: hash, True)\<rparr>"
  let ?a' = "\<lparr>public_key = 3, signature = 5 :: 520 word, attested = (7 :: hash, False)\<rparr>"
  have inj: "inj (be_bytes 65 :: 520 word \<Rightarrow> bytes)"
    by (rule injI, rule be_bytes_inj) simp_all
  have same: "hash_attestation K (be_bytes 65) (\<lambda>x. Inr (fst x)) ?a
      = hash_attestation K (be_bytes 65) (\<lambda>x. Inr (fst x)) ?a'"
    by (simp add: hash_attestation_def)
  have "public_key ?a = public_key ?a' \<and> signature ?a = signature ?a' \<and> (7 :: hash) = 7"
    by (rule attestation_hash_binds [OF _ inj _ _ same]) simp_all
  with same show ?thesis by (simp add: Let_def)
qed

text \<open>
  What validators sign of their metadata determines it, and lists the contracts in
  strictly increasing order of their addresses, whatever the order in which they were added.
\<close>

theorem metadata_typed_injective:
  "(metadata_typed m = metadata_typed m' \<longleftrightarrow> m = m')
   \<and> sorted_wrt (<) (map cs_addr (contract_sequences (metadata_typed m)))"
proof -
  have "map cs_addr (contract_sequences (metadata_typed m)) = sorted_list_of_fset (fmdom (am_contract_sequences m))"
    by (simp add: metadata_typed_def sorted_list_of_fmap_def comp_def case_prod_beta)
  then show ?thesis
    by (simp add: metadata_typed_eq_iff strict_sorted_iff sorted_list_of_fset.rep_eq)
qed

end
