(* ===== verification/Calldata.thy ===== *)
theory Calldata
  imports Merkle_Leaves
begin

text \<open>
  \<^verbatim>\<open>types/src/ledger/calldata.rs\<close>: call data, its accessors and its two wire forms.
  The crate \<^verbatim>\<open>hex\<close> and serde's formats are arguments: a format is the record
  \<open>serde_format\<close> of what the repository's hand-written serialisers call.
\<close>

section \<open>Formats\<close>

record ('d, 'e) serde_format =
  sf_human_readable :: bool
  sf_serialize_str :: "string \<Rightarrow> 'd"
  sf_serialize_bytes :: "bytes \<Rightarrow> 'd"
  sf_serialize_none :: 'd
  sf_read_string :: "'d \<Rightarrow> 'e + string"
  sf_read_bytes :: "'d \<Rightarrow> 'e + bytes"
  sf_custom_error :: "string \<Rightarrow> 'e"

text \<open>A format reads back the strings and the bytes it wrote.\<close>

definition format_law :: "('d, 'e) serde_format \<Rightarrow> bool" where
  "format_law F \<longleftrightarrow>
     (\<forall>s. sf_read_string F (sf_serialize_str F s) = Inr s)
     \<and> (\<forall>bs. sf_read_bytes F (sf_serialize_bytes F bs) = Inr bs)"

section \<open>Call data\<close>

datatype (plugins only: code) calldata = CallData (calldata_0: bytes)

definition calldata_new :: "bytes \<Rightarrow> calldata run" where
  "calldata_new data = (if length data \<ge> 4 then Inr (CallData data) else Inl AssertFailed)"

definition calldata_as_slice :: "calldata \<Rightarrow> bytes" where
  "calldata_as_slice c = calldata_0 c"

definition calldata_as_bytes :: "calldata \<Rightarrow> bytes" where
  "calldata_as_bytes c = calldata_0 c"

definition calldata_empty :: calldata where
  "calldata_empty = CallData []"

text \<open>\<^verbatim>\<open>{byte:02x}\<close>.\<close>

definition hex_byte :: "byte \<Rightarrow> string" where
  "hex_byte b = (if unat b < 16 then ''0'' @ show_hex (unat b) else show_hex (unat b))"

fun to_hex_loop :: "bytes \<Rightarrow> string \<Rightarrow> string" where
  "to_hex_loop [] result = result"
| "to_hex_loop (b # bs) result = to_hex_loop bs (result @ hex_byte b)"

definition to_hex_string :: "calldata \<Rightarrow> string" where
  "to_hex_string c = to_hex_loop (calldata_0 c) []"

definition get_function_bytes :: "calldata \<Rightarrow> bytes run" where
  "get_function_bytes c =
     (let d = calldata_0 c
      in and_then (index_at d 0) (\<lambda>b0.
         and_then (index_at d 1) (\<lambda>b1.
         and_then (index_at d 2) (\<lambda>b2.
         and_then (index_at d 3) (\<lambda>b3. Inr [b0, b1, b2, b3])))))"

definition get_body :: "calldata \<Rightarrow> bytes run" where
  "get_body c =
     (if 4 \<le> length (calldata_0 c) then Inr (drop 4 (calldata_0 c)) else Inl IndexOutOfBounds)"

definition append_calldata :: "crates \<Rightarrow> calldata appender" where
  "append_calldata K c b = add_field ''calldata'' (hash_bytes K (calldata_0 c)) b"

lemma leaves_of_calldata:
  "leaves_of (append_calldata K) c = [(''calldata'', hash_bytes K (calldata_0 c))]"
  by (simp add: leaves_of_build append_calldata_def)

interpretation calldata_paths: merkle_paths "append_calldata K" for K
  by unfold_locales (simp add: leaves_of_calldata)

definition serialize_bytes_as_hex ::
    "(bytes \<Rightarrow> string) \<Rightarrow> ('d, 'e) serde_format \<Rightarrow> bytes \<Rightarrow> 'd" where
  "serialize_bytes_as_hex hex_encode F data =
     (if sf_human_readable F then sf_serialize_str F (hex_encode data) else sf_serialize_bytes F data)"

definition deserialize_bytes_as_hex ::
    "(string \<Rightarrow> string + bytes) \<Rightarrow> ('d, 'e) serde_format \<Rightarrow> 'd \<Rightarrow> 'e + bytes" where
  "deserialize_bytes_as_hex hex_decode F d =
     (if sf_human_readable F
      then and_then (sf_read_string F d) (\<lambda>s.
        case hex_decode s of Inl msg \<Rightarrow> Inl (sf_custom_error F msg) | Inr data \<Rightarrow> Inr data)
      else sf_read_bytes F d)"

text \<open>The derived implementations for \<^verbatim>\<open>CallData\<close> use them for its only field.\<close>

definition calldata_serialize where
  "calldata_serialize hex_encode F c = serialize_bytes_as_hex hex_encode F (calldata_0 c)"

definition calldata_deserialize where
  "calldata_deserialize hex_decode F d = map_ok CallData (deserialize_bytes_as_hex hex_decode F d)"

section \<open>The hexadecimal string\<close>

lemma show_hex_byte: "n < 256 \<Longrightarrow> show_hex n = (if n < 16 then [digit_char n] else [digit_char (n div 16), digit_char (n mod 16)])"
proof -
  assume "n < 256"
  then have "n div 16 < 16" by (simp add: less_mult_imp_div_less)
  then show ?thesis by (simp add: show_radix.simps)
qed

lemma hex_byte_digits: "hex_byte b = [digit_char (unat b div 16), digit_char (unat b mod 16)]"
proof -
  have "unat b < 256" using unsigned_less [of b] by simp
  moreover have "digit_char 0 = CHR ''0''" by code_simp
  ultimately show ?thesis by (simp add: hex_byte_def show_hex_byte)
qed

lemma to_hex_loop_eq: "to_hex_loop bs result = result @ concat (map hex_byte bs)"
  by (induction bs arbitrary: result) auto

text \<open>Reading the digits two by two, as the other end of the format does.\<close>

fun hex_pairs :: "string \<Rightarrow> bytes option" where
  "hex_pairs [] = Some []"
| "hex_pairs [c] = None"
| "hex_pairs (c # d # s) =
     (case (digit_val 16 c, digit_val 16 d, hex_pairs s) of
        (Some h, Some l, Some bs) \<Rightarrow> Some (word_of_nat (16 * h + l) # bs)
      | _ \<Rightarrow> None)"

lemma hex_pairs_hex_bytes: "hex_pairs (concat (map hex_byte bs)) = Some bs"
proof (induction bs)
  case Nil
  then show ?case by simp
next
  case (Cons b bs)
  have "unat b < 16 * 16" using unsigned_less [of b, where ?'a = nat] by simp
  then have b: "unat b div 16 < 16" by (rule less_mult_imp_div_less)
  then have "digit_val 16 (digit_char (unat b div 16)) = Some (unat b div 16)"
    "digit_val 16 (digit_char (unat b mod 16)) = Some (unat b mod 16)" by simp_all
  moreover have "16 * (unat b div 16) + unat b mod 16 = unat b" by simp
  ultimately show ?case using Cons.IH by (simp add: hex_byte_digits del: digit_val_digit_char)
qed

section \<open>Properties\<close>

text \<open>
  Call data made by \<^verbatim>\<open>new\<close> always splits into its selector and its body,
  without a panic, and \<^verbatim>\<open>new\<close> panics exactly on fewer than four bytes.
  \<^verbatim>\<open>empty\<close> makes call data on which both accessors panic.
\<close>

theorem calldata_accessors:
  "(case calldata_new data of
      Inl p \<Rightarrow> p = AssertFailed \<and> length data < 4
    | Inr c \<Rightarrow> \<exists>f. get_function_bytes c = Inr f \<and> length f = 4 \<and> map_ok ((@) f) (get_body c) = Inr data)
   \<and> get_function_bytes calldata_empty = Inl IndexOutOfBounds \<and> get_body calldata_empty = Inl IndexOutOfBounds"
proof (cases "4 \<le> length data")
  case True
  then obtain a b c d r where "data = a # b # c # d # r"
    by (auto simp: numeral_eq_Suc Suc_le_length_iff)
  then show ?thesis
    by (simp add: calldata_new_def get_function_bytes_def get_body_def calldata_empty_def)
next
  case False
  then show ?thesis
    by (simp add: calldata_new_def get_function_bytes_def get_body_def calldata_empty_def)
qed

text \<open>
  The hexadecimal string has two digits per byte and reads back, pair by pair, as the
  bytes of the call data.
\<close>

theorem to_hex_string_round_trip:
  "hex_pairs (to_hex_string c) = Some (calldata_0 c)
   \<and> length (to_hex_string c) = 2 * length (calldata_0 c)"
proof -
  have "length (concat (map hex_byte bs)) = 2 * length bs" for bs
    by (induction bs) (simp_all add: hex_byte_digits)
  then show ?thesis by (simp add: to_hex_string_def to_hex_loop_eq hex_pairs_hex_bytes)
qed

text \<open>
  Both wire forms of call data, the hexadecimal string and the raw bytes, are read back,
  provided the crate's decoder inverts its encoder.  The check of \<^verbatim>\<open>new\<close> is not
  made again: call data shorter than four bytes passes.
\<close>

theorem calldata_serde_round_trip:
  assumes "format_law F" "\<And>bs. hex_decode (hex_encode bs) = Inr bs"
  shows "calldata_deserialize hex_decode F (calldata_serialize hex_encode F c) = Inr c"
  using assms
  by (simp add: calldata_deserialize_def calldata_serialize_def deserialize_bytes_as_hex_def
      serialize_bytes_as_hex_def format_law_def)

definition sample_format :: "bool \<Rightarrow> (string + bytes, string) serde_format" where
  "sample_format human =
     \<lparr>sf_human_readable = human, sf_serialize_str = Inl, sf_serialize_bytes = Inr,
      sf_serialize_none = Inl ''null'',
      sf_read_string = (\<lambda>d. case d of Inl s \<Rightarrow> Inr s | Inr bs \<Rightarrow> Inl ''expected a string''),
      sf_read_bytes = (\<lambda>d. case d of Inl s \<Rightarrow> Inl ''expected bytes'' | Inr bs \<Rightarrow> Inr bs),
      sf_custom_error = id\<rparr>"

lemma sample_format_law: "format_law (sample_format human)"
  by (simp add: format_law_def sample_format_def)

theorem calldata_serde_round_trip_witness:
  "calldata_deserialize (\<lambda>s. ok_or ''odd length'' (hex_pairs s)) (sample_format True)
     (calldata_serialize (\<lambda>bs. concat (map hex_byte bs)) (sample_format True) (CallData [0x12, 0xab]))
   = Inr (CallData [0x12, 0xab])"
  by (rule calldata_serde_round_trip [OF sample_format_law]) (simp add: hex_pairs_hex_bytes)

end
