(* ===== verification/Receipt.thy ===== *)
theory Receipt
  imports Signing
begin

text \<open>
  \<^verbatim>\<open>types/src/ledger/receipt.rs\<close> and the first part of
  \<^verbatim>\<open>types/src/ledger/log.rs\<close>: logs, receipts, their Merkle leaves, and the proofs a
  receipt generates for its logs.  Receipts are hashed by their Merkle tree.  The contract
  \<open>merkle_paths\<close> is discharged for log data, logs and receipts, and gives that the proofs
  verify.
\<close>

section \<open>Logs\<close>

record log_data =
  ld_topics :: "hash list"
  ld_data :: bytes

record eth_log =
  lg_address :: address
  lg_data :: log_data

record rpc_log =
  rl_inner :: eth_log
  rl_block_hash :: "hash option"
  rl_block_number :: "u64 option"
  rl_block_timestamp :: "u64 option"
  rl_transaction_hash :: "hash option"
  rl_transaction_index :: "u64 option"
  rl_log_index :: "u64 option"
  rl_removed :: bool

definition to_rpc_format :: "eth_log \<Rightarrow> hash \<Rightarrow> rpc_log" where
  "to_rpc_format inner_log tx_hash =
     \<lparr>rl_inner = inner_log, rl_block_hash = Some 0, rl_block_number = Some 1,
      rl_block_timestamp = None, rl_transaction_hash = Some tx_hash,
      rl_transaction_index = Some 0, rl_log_index = Some 0, rl_removed = False\<rparr>"

definition append_log_data :: "crates \<Rightarrow> log_data appender" where
  "append_log_data K d b =
     add_field ''data'' (hash_bytes K (ld_data d)) (add_slice append_hash ''topics'' (ld_topics d) b)"

definition append_log :: "crates \<Rightarrow> eth_log appender" where
  "append_log K l b =
     add_merkleizable (append_log_data K) ''data'' (lg_data l)
       (add_field ''address'' (hash_address K (lg_address l)) b)"

definition hash_log :: "crates \<Rightarrow> eth_log \<Rightarrow> hash" where
  "hash_log K l = hash_bytes K (abi_log K (lg_address l) (ld_topics (lg_data l)) (ld_data (lg_data l)))"

section \<open>Receipts\<close>

record receipt =
  status :: bool
  actual_gas_used :: u64
  max_fee_per_gas :: u128
  logs :: "eth_log list"
  logs_root :: hash
  rc_tx_hash :: hash
  rc_attested_tx :: attested_tx
  rc_signer :: address
  rc_to :: "address option"
  contract_address :: "address option"

definition receipt_tx_hash :: "receipt \<Rightarrow> hash" where
  "receipt_tx_hash r = rc_tx_hash r"

definition log_hashes :: "crates \<Rightarrow> receipt \<Rightarrow> hash list" where
  "log_hashes K r = map (hash_log K) (logs r)"

definition append_receipt :: "crates \<Rightarrow> receipt appender" where
  "append_receipt K r b =
     (let b = add_field ''status'' (hash_bytes K (abi_bool K (status r))) b;
          b = add_field ''actual_gas_used'' (hash_bytes K (abi_u64 K (actual_gas_used r))) b;
          b = add_slice (append_log K) ''logs'' (logs r) b;
          b = add_slice append_hash ''log_hashes'' (log_hashes K r) b;
          b = add_field ''logs_root'' (hash_bytes K (abi_hash K (logs_root r))) b;
          b = add_field ''tx_hash'' (rc_tx_hash r) b
      in add_merkleizable (append_attested_tx K) ''attested_tx'' (rc_attested_tx r) b)"

definition hash_receipt :: "crates \<Rightarrow> receipt \<Rightarrow> hash run" where
  "hash_receipt K r = merkle_hash K (append_receipt K) r"

definition generate_proof_for_log_hash :: "crates \<Rightarrow> receipt \<Rightarrow> nat \<Rightarrow> merkle_proof option run" where
  "generate_proof_for_log_hash K r log_index =
     (if log_index < length (logs r)
      then generate_proof K (append_receipt K) r (index_prefix ''log_hashes'' log_index)
             (to_leaf_hash (hash_log K (logs r ! log_index)))
      else Inr None)"

definition generate_proofs_for_log_hashes ::
    "crates \<Rightarrow> receipt \<Rightarrow> nat list \<Rightarrow> merkle_proof option list run" where
  "generate_proofs_for_log_hashes K r log_indices =
     traverse (generate_proof_for_log_hash K r) log_indices"

text \<open>\<^verbatim>\<open>expect\<close> on an option.\<close>

definition expect :: "'a option \<Rightarrow> 'a run" where
  "expect v = (case v of None \<Rightarrow> Inl UnwrapNone | Some x \<Rightarrow> Inr x)"

definition generate_multi_proof_for_log_hashes ::
    "crates \<Rightarrow> receipt \<Rightarrow> (hash list \<times> merkle_multi_proof) run" where
  "generate_multi_proof_for_log_hashes K r =
     and_then (generate_multi_proof K (append_receipt K) r ''log_hashes'' (append_vec append_hash) (log_hashes K r))
       expect"

definition generate_multi_proof_for_log ::
    "crates \<Rightarrow> receipt \<Rightarrow> nat \<Rightarrow> (hash list \<times> merkle_multi_proof) option run" where
  "generate_multi_proof_for_log K r log_index =
     and_then (index_at (logs r) log_index) (\<lambda>l.
     generate_multi_proof K (append_receipt K) r (index_prefix ''logs'' log_index) (append_log K) l)"

definition generate_multi_proof_for_logs ::
    "crates \<Rightarrow> receipt \<Rightarrow> (hash list \<times> merkle_multi_proof) run" where
  "generate_multi_proof_for_logs K r =
     and_then (generate_multi_proofs K (append_receipt K) r ''logs'' (append_log K) (logs r)) expect"

text \<open>The conversion to alloy's receipt; the bloom filter of the logs is alloy's.\<close>

record 'bloom rpc_receipt =
  rr_logs_bloom :: 'bloom
  rr_status :: bool
  rr_cumulative_gas_used :: u64
  rr_logs :: "rpc_log list"
  rr_transaction_hash :: hash
  rr_transaction_index :: "u64 option"
  rr_block_hash :: "hash option"
  rr_block_number :: "u64 option"
  rr_gas_used :: u64
  rr_effective_gas_price :: u128
  rr_blob_gas_used :: "u64 option"
  rr_blob_gas_price :: "u128 option"
  rr_from :: address
  rr_to :: "address option"
  rr_contract_address :: "address option"

definition rpc_receipt_from :: "(eth_log list \<Rightarrow> 'bloom) \<Rightarrow> receipt \<Rightarrow> 'bloom rpc_receipt" where
  "rpc_receipt_from bloom_from_logs val =
     \<lparr>rr_logs_bloom = bloom_from_logs (logs val),
      rr_status = status val,
      rr_cumulative_gas_used = actual_gas_used val,
      rr_logs = map (\<lambda>l. to_rpc_format l (rc_tx_hash val)) (logs val),
      rr_transaction_hash = rc_tx_hash val,
      rr_transaction_index = Some 0,
      rr_block_hash = Some 0,
      rr_block_number = Some 1,
      rr_gas_used = actual_gas_used val,
      rr_effective_gas_price = max_fee_per_gas val,
      rr_blob_gas_used = None,
      rr_blob_gas_price = None,
      rr_from = rc_signer val,
      rr_to = rc_to val,
      rr_contract_address = contract_address val\<rparr>"

section \<open>The leaves\<close>

lemma leaves_of_log_data:
  "leaves_of (append_log_data K) d =
     slice_leaves append_hash ''topics'' 0 (ld_topics d) @ [(''data'', hash_bytes K (ld_data d))]"
  by (simp add: leaves_of_build append_log_data_def)

lemma leaves_of_log:
  "leaves_of (append_log K) l =
     (''address'', hash_address K (lg_address l)) # prefixed ''data'' (leaves_of (append_log_data K) (lg_data l))"
  by (simp add: leaves_of_build [of "append_log K"] append_log_def)

lemma leaves_of_receipt:
  "leaves_of (append_receipt K) r =
     [(''status'', hash_bytes K (abi_bool K (status r))),
      (''actual_gas_used'', hash_bytes K (abi_u64 K (actual_gas_used r)))]
     @ slice_leaves (append_log K) ''logs'' 0 (logs r)
     @ slice_leaves append_hash ''log_hashes'' 0 (log_hashes K r)
     @ [(''logs_root'', hash_bytes K (abi_hash K (logs_root r))),
        (''tx_hash'', rc_tx_hash r)]
     @ prefixed ''attested_tx'' (leaves_of (append_attested_tx K) (rc_attested_tx r))"
  by (simp add: leaves_of_build [of "append_receipt K"] append_receipt_def Let_def)

text \<open>Leaves under different fields have different paths: their heads differ.\<close>

lemma slice_leaves_head:
  assumes "field_name f" "x \<in> set (slice_leaves app f i xs)"
  shows "path_head (fst x) = f"
  using slice_leaves_paths [of "fst x" "snd x" app f i xs] assms by auto

lemma prefixed_head:
  assumes "field_name f" "x \<in> set (prefixed f ps)"
  shows "path_head (fst x) = f"
  using assms by (auto simp: prefixed_def)

definition headed :: "string \<Rightarrow> (string \<times> hash) list \<Rightarrow> bool" where
  "headed f ps \<longleftrightarrow> distinct (map fst ps) \<and> (\<forall>x \<in> set ps. path_head (fst x) = f)"

lemma distinct_groups:
  "list_all2 headed fs pss \<Longrightarrow> distinct fs \<Longrightarrow> distinct (map fst (concat pss))"
proof (induction rule: list_all2_induct)
  case Nil
  then show ?case by simp
next
  case (Cons f fs ps pss)
  have "path_head (fst x) \<in> set fs" if "x \<in> set (concat pss)" for x
    using Cons.hyps(2) that
  proof (induction rule: list_all2_induct)
    case Nil
    then show ?case by simp
  next
    case (Cons g gs qs qss)
    then show ?case by (auto simp: headed_def)
  qed
  moreover have "path_head (fst x) = f" if "x \<in> set ps" for x
    using Cons.hyps(1) that by (simp add: headed_def)
  moreover have "f \<notin> set fs" using Cons.prems by simp
  ultimately have "fst x \<noteq> fst y" if "x \<in> set ps" "y \<in> set (concat pss)" for x y
    using that by metis
  then have "fst ` set ps \<inter> fst ` set (concat pss) = {}" by blast
  then show ?case using Cons.hyps(1) Cons.IH Cons.prems by (simp add: headed_def)
qed

lemma headed_field: "field_name f \<Longrightarrow> headed f [(f, h)]"
  by (simp add: headed_def)

lemma headed_prefixed: "field_name f \<Longrightarrow> distinct (map fst ps) \<Longrightarrow> headed f (prefixed f ps)"
  using prefixed_head distinct_prefixed by (auto simp: headed_def)

context merkle_paths
begin

lemma headed_slice: "field_name f \<Longrightarrow> headed f (slice_leaves append_leaves f i xs)"
  using slice_leaves_head slice_distinct by (auto simp: headed_def)

end

lemma receipt_fields [simp]:
  "field_name ''status''" "field_name ''actual_gas_used''" "field_name ''logs''"
  "field_name ''log_hashes''" "field_name ''logs_root''" "field_name ''tx_hash''"
  "field_name ''attested_tx''" "field_name ''data''" "field_name ''topics''" "field_name ''address''"
  by (simp_all add: field_name_def)

lemma distinct_two_groups:
  "headed f ps \<Longrightarrow> headed g qs \<Longrightarrow> f \<noteq> g \<Longrightarrow> distinct (map fst (ps @ qs))"
  using distinct_groups [of "[f, g]" "[ps, qs]"] by simp

interpretation log_data_paths: merkle_paths "append_log_data K" for K
  by unfold_locales
     (unfold leaves_of_log_data,
      rule distinct_two_groups [OF hash_paths.headed_slice headed_field], simp_all)

interpretation log_paths: merkle_paths "append_log K" for K
proof
  fix l :: eth_log
  have "distinct (map fst ([(''address'', hash_address K (lg_address l))]
      @ prefixed ''data'' (leaves_of (append_log_data K) (lg_data l))))"
    by (rule distinct_two_groups [OF headed_field headed_prefixed])
       (simp_all add: log_data_paths.distinct_paths)
  then show "distinct (map fst (leaves_of (append_log K) l))" by (simp add: leaves_of_log)
qed

interpretation receipt_paths: merkle_paths "append_receipt K" for K
proof
  fix r :: receipt
  let ?groups = "[[(''status'', hash_bytes K (abi_bool K (status r)))],
     [(''actual_gas_used'', hash_bytes K (abi_u64 K (actual_gas_used r)))],
     slice_leaves (append_log K) ''logs'' 0 (logs r),
     slice_leaves append_hash ''log_hashes'' 0 (log_hashes K r),
     [(''logs_root'', hash_bytes K (abi_hash K (logs_root r)))], [(''tx_hash'', rc_tx_hash r)],
     prefixed ''attested_tx'' (leaves_of (append_attested_tx K) (rc_attested_tx r))]"
  have "distinct (map fst (concat ?groups))"
    by (rule distinct_groups [of "[''status'', ''actual_gas_used'', ''logs'', ''log_hashes'',
          ''logs_root'', ''tx_hash'', ''attested_tx'']"])
       (simp_all add: headed_field headed_prefixed log_paths.headed_slice hash_paths.headed_slice
          attested_tx_paths.distinct_paths)
  then show "distinct (map fst (leaves_of (append_receipt K) r))"
    by (simp add: leaves_of_receipt)
qed

section \<open>The lengths of the paths\<close>

lemma length_show_nat: "n < 10 ^ Suc k \<Longrightarrow> length (show_nat n) \<le> Suc k"
proof (induction k arbitrary: n)
  case 0
  then show ?case by (simp add: show_radix.simps)
next
  case (Suc k)
  then have "n div 10 < 10 ^ Suc k" by (simp add: less_mult_imp_div_less)
  then have "length (show_nat (n div 10)) \<le> Suc k" by (rule Suc.IH)
  then show ?case by (subst show_radix.simps) simp
qed

lemma slice_leaves_member:
  "(p, h) \<in> set (slice_leaves app f i xs) \<Longrightarrow>
   \<exists>k s. k < length xs \<and> p = join_prefix (index_prefix f (i + k)) s \<and> (s, h) \<in> set (leaves_of app (xs ! k))"
proof (induction xs arbitrary: i)
  case Nil
  then show ?case by simp
next
  case (Cons x xs)
  then consider "(p, h) \<in> set (prefixed (index_prefix f i) (leaves_of app x))"
    | "(p, h) \<in> set (slice_leaves app f (Suc i) xs)" by auto
  then show ?case
  proof cases
    case 1
    then show ?thesis by (intro exI [of _ 0]) (auto simp: prefixed_def)
  next
    case 2
    then show ?thesis using Cons.IH [of "Suc i"] by (metis add_Suc_shift length_Cons not_less_eq nth_Cons_Suc)
  qed
qed

lemma length_join_index:
  assumes "k < 10 ^ Suc d"
  shows "length (join_prefix (index_prefix f k) s) \<le> length f + d + 4 + length s"
  using length_show_nat [OF assms] by (auto simp: join_prefix_def index_prefix_def)

text \<open>Logs have at most four topics; the number of logs is bounded far above any block.\<close>

definition receipt_bounded :: "receipt \<Rightarrow> bool" where
  "receipt_bounded r \<longleftrightarrow>
     length (logs r) < 10 ^ 9 \<and> (\<forall>l \<in> set (logs r). length (ld_topics (lg_data l)) \<le> 4)"

lemma log_path_length:
  assumes "length (ld_topics (lg_data l)) \<le> 4" "(s, h) \<in> set (leaves_of (append_log K) l)"
  shows "length s \<le> 15"
proof -
  from assms(2) consider "s = ''address''" | "s = ''data.data''"
    | t where "s = join_prefix ''data'' t" "(t, h) \<in> set (slice_leaves append_hash ''topics'' 0 (ld_topics (lg_data l)))"
    by (auto simp: leaves_of_log leaves_of_log_data prefixed_def join_prefix_def)
  then show ?thesis
  proof cases
    case 3
    then obtain k where "k < length (ld_topics (lg_data l))" "t = index_prefix ''topics'' k"
      using slice_leaves_member [OF 3(2)] by auto
    then have "length t \<le> 10"
      using assms(1) length_join_index [of k 0 "''topics''" "''''"] by simp
    then show ?thesis using 3(1) by (auto simp: join_prefix_def)
  qed simp_all
qed

lemma receipt_paths_separated:
  assumes "receipt_bounded r"
  shows "separated_paths (leaves_of (append_receipt K) r)"
  unfolding separated_paths_def
proof
  fix x assume x: "x \<in> set (leaves_of (append_receipt K) r)"
  obtain p h where xp: "x = (p, h)" by (cases x)
  from x consider "length p \<le> 27"
    | "(p, h) \<in> set (slice_leaves (append_log K) ''logs'' 0 (logs r))"
    | "(p, h) \<in> set (slice_leaves append_hash ''log_hashes'' 0 (log_hashes K r))"
    by (auto simp: xp leaves_of_receipt leaves_of_attested_tx join_prefix_def)
  then have "length p < 32"
  proof cases
    case 2
    then obtain k s where k: "k < length (logs r)" "p = join_prefix (index_prefix ''logs'' k) s"
      "(s, h) \<in> set (leaves_of (append_log K) (logs r ! k))"
      using slice_leaves_member [OF 2] by auto
    then have "length s \<le> 15" using assms log_path_length [of "logs r ! k" s h K] by (simp add: receipt_bounded_def)
    moreover have "k < 10 ^ Suc 8" using k(1) assms by (simp add: receipt_bounded_def)
    ultimately show ?thesis using k(2) length_join_index [of k 8 "''logs''" s] by simp
  next
    case 3
    then obtain k s where k: "k < length (log_hashes K r)" "p = join_prefix (index_prefix ''log_hashes'' k) s"
      "(s, h) \<in> set (leaves_of append_hash (log_hashes K r ! k))"
      using slice_leaves_member [OF 3] by auto
    then have "k < 10 ^ Suc 8" "s = ''''" using assms by (simp_all add: receipt_bounded_def log_hashes_def)
    then show ?thesis using k(2) length_join_index [of k 8 "''log_hashes''" s] by simp
  qed simp
  then show "length (fst x) \<noteq> 32" by (simp add: xp)
qed

section \<open>Proofs of the logs of a receipt\<close>

lemma receipt_leaf_log_hash:
  assumes "i < length (logs r)"
  shows "(index_prefix ''log_hashes'' i, hash_log K (logs r ! i)) \<in> set (leaves_of (append_receipt K) r)"
proof -
  have "(index_prefix ''log_hashes'' i, hash_log K (logs r ! i))
      \<in> set (slice_leaves append_hash ''log_hashes'' 0 (log_hashes K r))"
    using assms by (subst slice_leaves_nth [of i]) (simp_all add: log_hashes_def)
  then show ?thesis by (simp add: leaves_of_receipt)
qed

lemma receipt_leaf_log_hash_iff:
  "(index_prefix ''log_hashes'' i, h) \<in> set (leaves_of (append_receipt K) r)
     \<longleftrightarrow> i < length (logs r) \<and> h = hash_log K (logs r ! i)"
proof
  let ?p = "index_prefix ''log_hashes'' i"
  assume h: "(?p, h) \<in> set (leaves_of (append_receipt K) r)"
  have head: "path_head ?p = ''log_hashes''" using path_head_field(3) [of "''log_hashes''" i "''''"] by simp
  have "x \<in> set (slice_leaves append_hash ''log_hashes'' 0 (log_hashes K r))"
    if "x \<in> set (leaves_of (append_receipt K) r)" "path_head (fst x) = ''log_hashes''" for x
    using that slice_leaves_head [of "''logs''" x "append_log K" 0 "logs r"]
      prefixed_head [of "''attested_tx''" x "leaves_of (append_attested_tx K) (rc_attested_tx r)"]
    by (auto simp: leaves_of_receipt)
  from this [OF h] head have "(?p, h) \<in> set (slice_leaves append_hash ''log_hashes'' 0 (log_hashes K r))"
    by simp
  from slice_leaves_member [OF this] obtain k s where
    k: "k < length (log_hashes K r)" "?p = join_prefix (index_prefix ''log_hashes'' (0 + k)) s" by blast
  then have "k = i" using join_index_inj [of "''log_hashes''" i "''''" k s] by simp
  then have i: "i < length (logs r)" using k(1) by (simp add: log_hashes_def)
  moreover have "h = hash_log K (logs r ! i)"
    using receipt_paths.distinct_paths h receipt_leaf_log_hash [OF i] by (rule eq_key_imp_eq_value)
  ultimately show "i < length (logs r) \<and> h = hash_log K (logs r ! i)" by blast
qed (simp add: receipt_leaf_log_hash)

lemma log_hash_proof:
  assumes "i < length (logs r)"
  shows "\<exists>root prf. hash_receipt K r = Inr root
    \<and> generate_proof_for_log_hash K r i = Inr (Some prf)
    \<and> standard_verify_proof K root (hash_leaf K (index_prefix ''log_hashes'' i) (hash_log K (logs r ! i))) prf"
  using receipt_paths.leaf_proof [of "index_prefix ''log_hashes'' i" "''''" "hash_log K (logs r ! i)" K r]
    receipt_leaf_log_hash [OF assms, of K] assms
  by (simp add: hash_receipt_def generate_proof_for_log_hash_def to_leaf_hash_def)

lemma log_hash_proof_sound:
  assumes "packed_law K" "receipt_bounded r" "hash_receipt K r = Inr root"
    and "no_collisions K (leaves_of (append_receipt K) r) [(index_prefix ''log_hashes'' i, h)]
           (fold_pairs (commutative_hash_pair K) (hash_leaf K (index_prefix ''log_hashes'' i) h) (path prf))"
    and "i < 10 ^ 9"
    and "standard_verify_proof K root (hash_leaf K (index_prefix ''log_hashes'' i) h) prf"
  shows "i < length (logs r) \<and> h = hash_log K (logs r ! i)"
proof -
  let ?ps = "leaves_of (append_receipt K) r"
  have "length (index_prefix ''log_hashes'' i) < 32"
    using length_join_index [of i 8 "''log_hashes''" "''''"] assms(5) by simp
  then have sep: "separated_paths (?ps @ [(index_prefix ''log_hashes'' i, h)])"
    using receipt_paths_separated [OF assms(2)] by (auto simp: separated_paths_def)
  have ne: "?ps \<noteq> []" by (simp add: leaves_of_receipt)
  have root: "merkle_new K (leaf_hashes K ?ps)
      = Inr \<lparr>tree = spec_tree (commutative_hash_pair K) (leaf_hashes K ?ps)\<rparr>"
    by (simp add: merkle_new_eq)
  have "merkle_root \<lparr>tree = spec_tree (commutative_hash_pair K) (leaf_hashes K ?ps)\<rparr> = Inr root"
    using assms(3) ne by (simp add: hash_receipt_def merkle_hash_eq merkle_root_def)
  from standard_proof_sound' [OF assms(1) sep ne assms(4) root this assms(6)]
  show ?thesis by (simp add: receipt_leaf_log_hash_iff)
qed

text \<open>Multiproofs of the children of one log, and of all logs, are runs of leaves.\<close>

lemma receipt_block:
  assumes "packed_law K" "leaves_collision_free K (leaves_of (append_receipt K) r)"
    and "leaves_of (append_receipt K) r = before @ block @ after"
  obtains t root pf where "to_merkle_tree K (append_receipt K) r = Inr t" "hash_receipt K r = Inr root"
    "standard_generate_multi_proof t (leaf_hashes K block) = Inr (Some pf)"
    "standard_verify_multi_proof K root (leaf_hashes K block) pf = Inr True"
  using receipt_paths.block_multi_proof [OF assms] by (auto simp: hash_receipt_def)

lemma receipt_log_block:
  assumes "i < length (logs r)"
  obtains before after where "leaves_of (append_receipt K) r =
    before @ prefixed (index_prefix ''logs'' i) (leaves_of (append_log K) (logs r ! i)) @ after"
  using slice_leaves_nth [OF assms, of "append_log K" "''logs''" 0] that
  by (simp add: leaves_of_receipt) (metis append_Cons append_assoc)

section \<open>A concrete receipt\<close>

text \<open>
  With one log, and a hash function with one byte of output: it reads the length and the
  first byte of a leaf, and the last bytes of the two halves of an inner node.
\<close>

definition tiny_keccak :: "bytes \<Rightarrow> hash" where
  "tiny_keccak bs =
     (if length bs = 64 then ucast (bs ! 31 * 2 + bs ! 63)
      else word_of_nat (length bs) + (if bs \<noteq> [] \<and> hd bs = of_char (CHR ''a'') then 50 else 0))"

definition tiny_crates :: crates where
  "tiny_crates =
     \<lparr>keccak256 = tiny_keccak, abi_bool = (\<lambda>b. []), abi_u64 = (\<lambda>n. []), abi_u128 = (\<lambda>n. []),
      abi_u256 = (\<lambda>n. []), abi_address = (\<lambda>a. []), abi_hash = (\<lambda>h. []), abi_log = (\<lambda>a ts d. d),
      packed_leaf = (\<lambda>p h. str_bytes p @ be_bytes 32 h)\<rparr>"

definition sample_log :: eth_log where
  "sample_log = \<lparr>lg_address = 5, lg_data = \<lparr>ld_topics = [], ld_data = [1, 2]\<rparr>\<rparr>"

definition sample_receipt :: receipt where
  "sample_receipt =
     \<lparr>status = True, actual_gas_used = 21000, max_fee_per_gas = 1, logs = [sample_log],
      logs_root = 9, rc_tx_hash = 11, rc_attested_tx = \<lparr>atx_hash = 11, committee_epoch = 0\<rparr>,
      rc_signer = 3, rc_to = None, contract_address = None\<rparr>"

lemma tiny_packed_law: "packed_law tiny_crates"
  by (simp add: packed_law_def tiny_crates_def)

lemma show_zero: "show_nat 0 = ''0''"
  by code_simp

lemma sample_receipt_leaves:
  "leaves_of (append_receipt tiny_crates) sample_receipt =
     [(''status'', 0), (''actual_gas_used'', 0), (''logs[0].address'', hash_address tiny_crates 5),
      (''logs[0].data.data'', 2), (''log_hashes[0]'', 2), (''logs_root'', 0), (''tx_hash'', 11),
      (''attested_tx.hash'', 11), (''attested_tx.committee_epoch'', 0)]"
  by (simp add: leaves_of_receipt sample_receipt_def leaves_of_log leaves_of_log_data leaves_of_attested_tx
      log_hashes_def hash_log_def hash_bytes_def tiny_crates_def tiny_keccak_def
      index_prefix_def join_prefix_def sample_log_def show_zero)

lemma tiny_leaf:
  "keccak256 tiny_crates (leaf_bytes tiny_crates (c # p, h)) =
     (if length p = 31 then ucast (be_bytes 32 h ! 31 + 2 * str_bytes (c # p) ! 31)
      else word_of_nat (33 + length p) + (if c = CHR ''a'' then 50 else 0))"
proof -
  have "(of_char c :: byte) = of_char (CHR ''a'') \<longleftrightarrow> c = CHR ''a''"
    using str_bytes_inj [of "[c]" "''a''"] by (auto simp: str_bytes_def)
  then show ?thesis
    by (simp add: tiny_crates_def tiny_keccak_def leaf_bytes_def nth_append str_bytes_def ac_simps
        flip: of_nat_Suc)
qed

lemma sample_receipt_inj:
  "inj_on (keccak256 tiny_crates) (leaf_bytes tiny_crates ` set
     ((''log_hashes.[0]'', hash_log tiny_crates (hd (logs sample_receipt)))
       # leaves_of (append_receipt tiny_crates) sample_receipt))"
proof -
  let ?ls = "(''log_hashes.[0]'', hash_log tiny_crates (hd (logs sample_receipt)))
       # leaves_of (append_receipt tiny_crates) sample_receipt"
  have "distinct (map (keccak256 tiny_crates) (map (leaf_bytes tiny_crates) ?ls))"
    by (simp add: sample_receipt_leaves tiny_leaf)
  then show ?thesis unfolding distinct_map [of "keccak256 tiny_crates"] by (simp only: set_map)
qed

lemma be_bytes_small: "unat (w :: hash) < 256 \<Longrightarrow> be_bytes 32 w = replicate 31 0 @ [ucast w]"
proof (rule nth_equalityI)
  fix i assume w: "unat w < 256" and i: "i < length (be_bytes 32 w)"
  show "be_bytes 32 w ! i = (replicate 31 0 @ [ucast w]) ! i"
  proof (cases "i = 31")
    case True
    then show ?thesis by (simp add: be_bytes_def nth_append)
  next
    case False
    then have "8 * (31 - i) = 8 + 8 * (30 - i)" using i by simp
    then have "drop_bit (8 * (31 - i)) w = drop_bit (8 * (30 - i)) (drop_bit 8 w)"
      by (simp only: drop_bit_drop_bit add.commute)
    moreover have "drop_bit 8 w = 0"
    proof -
      have "unat (drop_bit 8 w) = unat w div 256"
        by (simp add: drop_bit_eq_div unat_div)
      then show ?thesis using w by (simp add: unat_eq_zero)
    qed
    ultimately show ?thesis using False i by (simp add: be_bytes_def nth_append)
  qed
qed simp

lemma tiny_pair:
  assumes "unat a < 256" "unat b < 256"
  shows "keccak256 tiny_crates (pair_bytes (a, b)) = ucast (ucast (min a b) * 2 + ucast (max a b) :: byte)"
  using assms less_imp_le [of a b] less_asym [of a b]
  by (cases a b rule: linorder_cases)
     (simp_all add: tiny_crates_def tiny_keccak_def pair_bytes_def be_bytes_small nth_append min_def max_def)

lemma sample_receipt_collision_free:
  "leaves_collision_free tiny_crates (leaves_of (append_receipt tiny_crates) sample_receipt)"
  unfolding leaves_collision_free_def by (rule inj_on_subset [OF sample_receipt_inj]) auto

lemma sample_receipt_leaf_hashes:
  "leaf_hashes tiny_crates (leaves_of (append_receipt tiny_crates) sample_receipt)
     = [38, 97, 47, 49, 45, 41, 39, 98, 109]"
  by (simp add: leaf_hashes_bytes sample_receipt_leaves tiny_leaf)

lemma sample_receipt_tree:
  "spec_tree (commutative_hash_pair tiny_crates) [38, 97, 47, 49, 45, 41, 39, 98, 109]
     = [216, 190, 141, 135, 176, 127, 143, 173, 109, 98, 39, 41, 45, 49, 47, 97, 38]"
  by (simp add: spec_tree_def node_value.simps upt_rec commutative_hash_pair_bytes tiny_pair)

lemma sample_receipt_hash: "hash_receipt tiny_crates sample_receipt = Inr 216"
  by (simp add: hash_receipt_def merkle_hash_eq sample_receipt_leaf_hashes sample_receipt_tree)

lemma sample_receipt_no_collisions:
  "no_collisions tiny_crates (leaves_of (append_receipt tiny_crates) sample_receipt)
     [(''log_hashes[0]'', 2)]
     (fold_pairs (commutative_hash_pair tiny_crates) 45 [41, 143, 190])"
proof -
  let ?ls = "map (leaf_bytes tiny_crates) (leaves_of (append_receipt tiny_crates) sample_receipt)"
  let ?prs = "[(190, 141), (135, 176), (127, 143), (173, 109), (98, 39), (41, 45), (49, 47), (97, 38)]"
  have d: "distinct (map (keccak256 tiny_crates) (?ls @ map pair_bytes ?prs))"
    by (simp add: sample_receipt_leaves tiny_leaf tiny_pair)
  have t: "tree_pairs (spec_tree (commutative_hash_pair tiny_crates) [38, 97, 47, 49, 45, 41, 39, 98, 109]) = ?prs"
    by (simp add: tree_pairs_def sample_receipt_tree upt_rec)
  have f: "fold_pairs (commutative_hash_pair tiny_crates) 45 [41, 143, 190] = [(45, 41), (127, 143), (141, 190)]"
    by (simp add: commutative_hash_pair_bytes tiny_pair)
  have "pair_bytes (45, 41) = pair_bytes (41, 45)" "pair_bytes (141, 190) = pair_bytes (190, 141)"
    by (rule pair_bytes_commute)+
  then show ?thesis
    unfolding no_collisions_def sample_receipt_leaf_hashes t f
    by (intro inj_on_distinct [OF d]) (auto simp: sample_receipt_leaves)
qed

lemma sample_receipt_log [simp]: "logs sample_receipt = [sample_log]"
  by (simp add: sample_receipt_def)

section \<open>Properties\<close>

text \<open>
  For every log of a receipt, and for no other index, a proof of the log's hash is
  generated, and it verifies against the receipt's hash.  Nothing is assumed of the hash
  function.
\<close>

theorem log_hash_proof_verifies:
  "if i < length (logs r)
   then \<exists>root prf. hash_receipt K r = Inr root
     \<and> generate_proof_for_log_hash K r i = Inr (Some prf)
     \<and> standard_verify_proof K root (hash_leaf K (index_prefix ''log_hashes'' i) (hash_log K (logs r ! i))) prf
   else generate_proof_for_log_hash K r i = Inr None"
proof (cases "i < length (logs r)")
  case True
  then show ?thesis using log_hash_proof [OF True, of K] by simp
next
  case False
  then show ?thesis by (simp add: generate_proof_for_log_hash_def)
qed

text \<open>
  The multiproof a receipt generates for the children of one of its logs holds the
  leaves of that log and verifies against the receipt's hash, if the leaves of the receipt
  do not collide.
\<close>

theorem log_multi_proof_verifies:
  assumes "packed_law K" "leaves_collision_free K (leaves_of (append_receipt K) r)"
    and "i < length (logs r)"
  shows "\<exists>root prf. hash_receipt K r = Inr root
    \<and> generate_multi_proof_for_log K r i =
        Inr (Some (leaf_hashes K (prefixed (index_prefix ''logs'' i) (leaves_of (append_log K) (logs r ! i))), prf))
    \<and> standard_verify_multi_proof K root
        (leaf_hashes K (prefixed (index_prefix ''logs'' i) (leaves_of (append_log K) (logs r ! i)))) prf = Inr True"
proof -
  obtain before after where "leaves_of (append_receipt K) r =
      before @ prefixed (index_prefix ''logs'' i) (leaves_of (append_log K) (logs r ! i)) @ after"
    by (rule receipt_log_block [OF assms(3)])
  then obtain t root pf where "to_merkle_tree K (append_receipt K) r = Inr t" "hash_receipt K r = Inr root"
    "standard_generate_multi_proof t (leaf_hashes K
       (prefixed (index_prefix ''logs'' i) (leaves_of (append_log K) (logs r ! i)))) = Inr (Some pf)"
    "standard_verify_multi_proof K root (leaf_hashes K
       (prefixed (index_prefix ''logs'' i) (leaves_of (append_log K) (logs r ! i)))) pf = Inr True"
    by (rule receipt_block [OF assms(1,2)])
  then show ?thesis
    using assms(3)
    by (simp add: generate_multi_proof_for_log_def generate_multi_proof_def apply_prefix_leaf_hashes)
qed

theorem log_multi_proof_verifies_witness:
  "\<exists>root ls prf. hash_receipt tiny_crates sample_receipt = Inr root
     \<and> generate_multi_proof_for_log tiny_crates sample_receipt 0 = Inr (Some (ls, prf))
     \<and> standard_verify_multi_proof tiny_crates root ls prf = Inr True"
  using log_multi_proof_verifies [OF tiny_packed_law sample_receipt_collision_free, of 0] by auto

text \<open>So does the multiproof for the children of all logs; generating it never panics.\<close>

theorem logs_multi_proof_verifies:
  assumes "packed_law K" "leaves_collision_free K (leaves_of (append_receipt K) r)"
  shows "\<exists>root prf. hash_receipt K r = Inr root
    \<and> generate_multi_proof_for_logs K r =
        Inr (leaf_hashes K (slice_leaves (append_log K) ''logs'' 0 (logs r)), prf)
    \<and> standard_verify_multi_proof K root
        (leaf_hashes K (slice_leaves (append_log K) ''logs'' 0 (logs r))) prf = Inr True"
proof -
  have "leaves_of (append_receipt K) r =
      take 2 (leaves_of (append_receipt K) r) @ slice_leaves (append_log K) ''logs'' 0 (logs r)
      @ drop (2 + length (slice_leaves (append_log K) ''logs'' 0 (logs r))) (leaves_of (append_receipt K) r)"
    by (simp add: leaves_of_receipt)
  then obtain t root pf where "to_merkle_tree K (append_receipt K) r = Inr t" "hash_receipt K r = Inr root"
    "standard_generate_multi_proof t (leaf_hashes K (slice_leaves (append_log K) ''logs'' 0 (logs r))) = Inr (Some pf)"
    "standard_verify_multi_proof K root (leaf_hashes K (slice_leaves (append_log K) ''logs'' 0 (logs r))) pf = Inr True"
    by (rule receipt_block [OF assms])
  then show ?thesis
    by (simp add: generate_multi_proof_for_logs_def generate_multi_proofs_def prefixed_item_leaf_hashes expect_def)
qed

theorem logs_multi_proof_verifies_witness:
  "\<exists>root ls prf. hash_receipt tiny_crates sample_receipt = Inr root
     \<and> generate_multi_proof_for_logs tiny_crates sample_receipt = Inr (ls, prf)
     \<and> standard_verify_multi_proof tiny_crates root ls prf = Inr True"
  using logs_multi_proof_verifies [OF tiny_packed_law sample_receipt_collision_free] by blast

text \<open>A leaf that a value does not have is not among its leaf hashes, short of a collision.\<close>

lemma absent_leaf_hash:
  assumes "packed_law K" "x \<notin> set ps" "inj_on (keccak256 K) (leaf_bytes K ` set (x # ps))"
  shows "hash_leaf K (fst x) (snd x) \<notin> set (leaf_hashes K ps)"
proof -
  have "keccak256 K (leaf_bytes K x) \<noteq> keccak256 K (leaf_bytes K y)" if "y \<in> set ps" for y
  proof
    assume "keccak256 K (leaf_bytes K x) = keccak256 K (leaf_bytes K y)"
    then have "leaf_bytes K x = leaf_bytes K y"
      by (rule inj_onD [OF assms(3)]) (use that in auto)
    then show False using leaf_bytes_inj [OF assms(1)] assms(2) that by (auto dest: injD)
  qed
  then show ?thesis by (cases x) (auto simp: leaf_hashes_bytes hash_leaf_def hash_bytes_def leaf_bytes_def)
qed

text \<open>No leaf of a receipt has the path \<^verbatim>\<open>log_hashes.[0]\<close>.\<close>

lemma dotted_path_absent: "(''log_hashes.[0]'', h) \<notin> set (leaves_of (append_receipt K) r)"
proof
  let ?bad = "(''log_hashes.[0]'', h)"
  assume bad: "?bad \<in> set (leaves_of (append_receipt K) r)"
  have head: "path_head ''log_hashes.[0]'' = ''log_hashes''" by (simp add: path_head_def)
  have "?bad \<in> set (slice_leaves append_hash ''log_hashes'' 0 (log_hashes K r))"
    using bad head slice_leaves_head [of "''logs''" ?bad "append_log K" 0 "logs r"]
      prefixed_head [of "''attested_tx''" ?bad "leaves_of (append_attested_tx K) (rc_attested_tx r)"]
    by (auto simp: leaves_of_receipt)
  then obtain k s where "''log_hashes.[0]'' = join_prefix (index_prefix ''log_hashes'' k) s"
    using slice_leaves_member [of "''log_hashes.[0]''"] by blast
  then show False using join_index_form [of "''log_hashes''" k s] by auto
qed

text \<open>
  C32. The multiproof for the hashes of all logs can never be generated once there is a log:
  the leaves are looked up under \<^verbatim>\<open>log_hashes.[0]\<close>, the tree has them under
  \<^verbatim>\<open>log_hashes[0]\<close>, and the missing result is unwrapped.
\<close>

theorem log_hashes_multi_proof_panics:
  assumes "packed_law K" "logs r \<noteq> []"
    and "inj_on (keccak256 K) (leaf_bytes K ` set
      ((''log_hashes.[0]'', hash_log K (hd (logs r))) # leaves_of (append_receipt K) r))"
  shows "generate_multi_proof_for_log_hashes K r = Inl UnwrapNone"
proof -
  let ?ps = "leaves_of (append_receipt K) r" and ?bad = "(''log_hashes.[0]'', hash_log K (hd (logs r)))"
  have zero: "index_prefix '''' 0 = ''[0]''" by code_simp
  obtain l ls where l: "logs r = l # ls" using assms(2) by (cases "logs r") auto
  then have first: "apply_prefix_to_leaves K ''log_hashes'' (leaves_of (append_vec append_hash) (log_hashes K r))
      = hash_leaf K (fst ?bad) (snd ?bad) # leaf_hashes K (prefixed ''log_hashes''
          (slice_leaves append_hash '''' 1 (log_hashes K (r\<lparr>logs := ls\<rparr>))))"
    by (simp add: apply_prefix_leaf_hashes log_hashes_def leaf_hashes_def zero join_prefix_def)
  have "hash_leaf K (fst ?bad) (snd ?bad) \<notin> set (leaf_hashes K ?ps)"
    by (rule absent_leaf_hash [OF assms(1) dotted_path_absent assms(3)])
  moreover have "leaf_hashes K ?ps \<noteq> []" by (simp add: leaf_hashes_def leaves_of_receipt)
  then obtain ix where new: "standard_new K (leaf_hashes K ?ps) =
      Inr \<lparr>smt_tree = \<lparr>tree = spec_tree (commutative_hash_pair K) (leaf_hashes K ?ps)\<rparr>, smt_indices = ix\<rparr>"
    and out: "\<And>x. x \<notin> set (leaf_hashes K ?ps) \<Longrightarrow> ix x = None"
    by (rule standard_new_ok) blast
  ultimately have "ix (hash_leaf K (fst ?bad) (snd ?bad)) = None" by (intro out)
  then have "standard_generate_multi_proof
      \<lparr>smt_tree = \<lparr>tree = spec_tree (commutative_hash_pair K) (leaf_hashes K ?ps)\<rparr>, smt_indices = ix\<rparr>
      (hash_leaf K (fst ?bad) (snd ?bad) # xs) = Inr None" for xs
    by (simp add: standard_generate_multi_proof_def)
  then show ?thesis
    by (simp add: generate_multi_proof_for_log_hashes_def generate_multi_proof_def first
        to_merkle_tree_leaf_hashes new expect_def Let_def del: leaves_of_vec)
qed

theorem log_hashes_multi_proof_panics_witness:
  "generate_multi_proof_for_log_hashes tiny_crates sample_receipt = Inl UnwrapNone"
  by (rule log_hashes_multi_proof_panics [OF tiny_packed_law _ sample_receipt_inj]) simp

text \<open>
  The hash of a receipt does not commit to its signer, recipient, created contract or
  fee: all four can be changed without changing the hash.
\<close>

theorem receipt_hash_ignores:
  "hash_receipt K (r\<lparr>max_fee_per_gas := f, rc_signer := s, rc_to := t, contract_address := c\<rparr>) = hash_receipt K r"
  by (simp add: hash_receipt_def merkle_hash_eq leaves_of_receipt log_hashes_def)

end
