(* ===== verification/Verifiable_Log.thy ===== *)
theory Verifiable_Log
  imports Receipt "HOL-Library.Multiset"
begin

text \<open>
  The second part of \<^verbatim>\<open>types/src/ledger/log.rs\<close>, the \<^verbatim>\<open>VerifiableLog\<close>
  with its checks and proofs, \<^verbatim>\<open>types/src/metadata.rs\<close>, and
  \<^verbatim>\<open>types/src/rpc/receipt.rs\<close>.  A \<^verbatim>\<open>usize\<close> has 64 bits, so the
  conversions of a log index do not fail.  Sorting by key is stable, as \<open>sort_key\<close> is.
\<close>

section \<open>Metadata\<close>

record ('t, 'm) metadata_wrapped_item =
  inner :: 't
  pod_metadata :: 'm

record ('sig, 'tx) detailed_receipt_metadata =
  dr_committee_epoch :: u64
  dr_attestations :: "'sig timestamped_headless_attestation list"
  dr_transaction :: "('sig, 'tx) signed"
  dr_receipt_attestations :: "'sig timestamped_headless_attestation list"

record 'sig regular_receipt_metadata =
  rm_attestations :: "'sig timestamped_headless_attestation list"

record 'sig transaction_metadata =
  tm_attestations :: "'sig timestamped_headless_attestation list"

record 'sig pod_log_metadata =
  attestations :: "'sig timestamped_headless_attestation list"
  vl_receipt :: receipt

record ('sig, 'tx) event =
  ev_log :: eth_log
  ev_log_index :: u64
  ev_tx :: "('sig, 'tx) signed"
  ev_attestations :: "'sig timestamped_headless_attestation list"
  ev_receipt :: receipt

section \<open>Verifiable logs\<close>

type_synonym 'sig verifiable_log = "(rpc_log, 'sig pod_log_metadata) metadata_wrapped_item"

definition vl_generate_multi_proof ::
    "crates \<Rightarrow> 'sig verifiable_log \<Rightarrow> (hash list \<times> merkle_multi_proof) option run" where
  "vl_generate_multi_proof K v =
     (case rl_log_index (inner v) of
        None \<Rightarrow> Inr None
      | Some i \<Rightarrow> generate_multi_proof_for_log K (vl_receipt (pod_metadata v)) (unat i))"

definition vl_verify ::
    "crates \<Rightarrow> ('sig \<Rightarrow> hash \<Rightarrow> 'se + address) \<Rightarrow> 'sig verifiable_log \<Rightarrow> committee
      \<Rightarrow> ('se committee_error + unit) run" where
  "vl_verify K recover v c =
     verify_certificate recover (hash_receipt K) c
       \<lparr>signatures = map ta_signature (attestations (pod_metadata v)),
        certified = vl_receipt (pod_metadata v)\<rparr>"

definition confirmation_time :: "'sig verifiable_log \<Rightarrow> timestamp run" where
  "confirmation_time v =
     (let num_attestations = length (attestations (pod_metadata v))
      in map_ok ta_timestamp (index_at (attestations (pod_metadata v)) (num_attestations div 2)))"

definition vl_generate_proof :: "crates \<Rightarrow> 'sig verifiable_log \<Rightarrow> merkle_proof option run" where
  "vl_generate_proof K v =
     (case rl_log_index (inner v) of
        None \<Rightarrow> Inr None
      | Some i \<Rightarrow> generate_proof_for_log_hash K (vl_receipt (pod_metadata v)) (unat i))"

definition get_leaf :: "crates \<Rightarrow> 'sig verifiable_log \<Rightarrow> hash" where
  "get_leaf K v =
     (let log_index = unat (case rl_log_index (inner v) of None \<Rightarrow> 0 | Some i \<Rightarrow> i)
      in hash_leaf K (index_prefix ''log_hashes'' log_index) (hash_log K (rl_inner (inner v))))"

definition aggregate_signatures :: "('sig \<Rightarrow> bytes) \<Rightarrow> 'sig verifiable_log \<Rightarrow> bytes" where
  "aggregate_signatures as_bytes v =
     foldl (@) [] (map (\<lambda>a. as_bytes (ta_signature a)) (attestations (pod_metadata v)))"

definition sort_attestations_by_timestamp ::
    "'sig verifiable_log \<Rightarrow> 'sig timestamped_headless_attestation list" where
  "sort_attestations_by_timestamp v = sort_key ta_timestamp (attestations (pod_metadata v))"

definition sorted_timestamps_in_seconds :: "'sig verifiable_log \<Rightarrow> u256 list" where
  "sorted_timestamps_in_seconds v =
     map (\<lambda>a. ucast (as_seconds (ta_timestamp a))) (sort_attestations_by_timestamp v)"

definition sorted_signatures :: "('sig \<Rightarrow> bytes) \<Rightarrow> 'sig verifiable_log \<Rightarrow> bytes list" where
  "sorted_signatures as_bytes v = map (\<lambda>a. as_bytes (ta_signature a)) (sort_attestations_by_timestamp v)"

definition vl_verify_proof :: "crates \<Rightarrow> 'sig verifiable_log \<Rightarrow> hash \<Rightarrow> merkle_proof \<Rightarrow> bool" where
  "vl_verify_proof K v receipt_root pf =
     (let leaf = get_leaf K v in standard_verify_proof K receipt_root leaf pf)"

definition vl_deref :: "'sig verifiable_log \<Rightarrow> rpc_log" where
  "vl_deref v = inner v"

section \<open>Receipts over RPC\<close>

record 'sig pod_attestation =
  pa_validator_address :: address
  pa_sequence_number :: u64
  pa_batch_index :: u16
  pa_timestamp :: timestamp
  pa_signature :: 'sig

record 'sig pod_receipt_metadata =
  pm_attestations :: "'sig pod_attestation list"
  pm_committee_epoch :: u64

record ('r, 'sig) pod_receipt_response =
  pr_receipt :: 'r
  pr_pod_metadata :: "'sig pod_receipt_metadata"

text \<open>Alloy's trait \<^verbatim>\<open>ReceiptResponse\<close>, and its implementation for the pod's receipt.\<close>

record 'r receipt_response =
  rs_contract_address :: "'r \<Rightarrow> address option"
  rs_status :: "'r \<Rightarrow> bool"
  rs_block_hash :: "'r \<Rightarrow> hash option"
  rs_block_number :: "'r \<Rightarrow> u64 option"
  rs_transaction_hash :: "'r \<Rightarrow> hash"
  rs_transaction_index :: "'r \<Rightarrow> u64 option"
  rs_gas_used :: "'r \<Rightarrow> u64"
  rs_effective_gas_price :: "'r \<Rightarrow> u128"
  rs_blob_gas_used :: "'r \<Rightarrow> u64 option"
  rs_blob_gas_price :: "'r \<Rightarrow> u128 option"
  rs_from :: "'r \<Rightarrow> address"
  rs_to :: "'r \<Rightarrow> address option"
  rs_cumulative_gas_used :: "'r \<Rightarrow> u64"
  rs_state_root :: "'r \<Rightarrow> hash option"

definition pod_receipt_deref :: "('r, 'sig) pod_receipt_response \<Rightarrow> 'r" where
  "pod_receipt_deref p = pr_receipt p"

definition pod_receipt_response_impl ::
    "'r receipt_response \<Rightarrow> ('r, 'sig) pod_receipt_response receipt_response" where
  "pod_receipt_response_impl R =
     \<lparr>rs_contract_address = (\<lambda>p. None),
      rs_status = (\<lambda>p. rs_status R (pr_receipt p)),
      rs_block_hash = (\<lambda>p. Some 0),
      rs_block_number = (\<lambda>p. None),
      rs_transaction_hash = (\<lambda>p. rs_transaction_hash R (pr_receipt p)),
      rs_transaction_index = (\<lambda>p. None),
      rs_gas_used = (\<lambda>p. rs_gas_used R (pr_receipt p)),
      rs_effective_gas_price = (\<lambda>p. rs_effective_gas_price R (pr_receipt p)),
      rs_blob_gas_used = (\<lambda>p. None),
      rs_blob_gas_price = (\<lambda>p. None),
      rs_from = (\<lambda>p. rs_from R (pr_receipt p)),
      rs_to = (\<lambda>p. rs_to R (pr_receipt p)),
      rs_cumulative_gas_used = (\<lambda>p. rs_cumulative_gas_used R (pr_receipt p)),
      rs_state_root = (\<lambda>p. None)\<rparr>"

section \<open>Properties\<close>

text \<open>
  A verifiable log that its receipt really has at its index generates a proof, and the
  proof passes the log's own check against the hash of the receipt.
\<close>

theorem verifiable_log_proof_round_trip:
  assumes "rl_log_index (inner v) = Some i"
    and "unat i < length (logs (vl_receipt (pod_metadata v)))"
    and "rl_inner (inner v) = logs (vl_receipt (pod_metadata v)) ! unat i"
  shows "\<exists>root pf. hash_receipt K (vl_receipt (pod_metadata v)) = Inr root
    \<and> vl_generate_proof K v = Inr (Some pf) \<and> vl_verify_proof K v root pf"
  using log_hash_proof [OF assms(2), of K] assms
  by (simp add: vl_generate_proof_def vl_verify_proof_def get_leaf_def)

definition sample_verifiable_log :: "address verifiable_log" where
  "sample_verifiable_log =
     \<lparr>inner = to_rpc_format sample_log 11,
      pod_metadata =
        \<lparr>attestations =
           [\<lparr>ta_timestamp = Timestamp 3000000, ta_public_key = 1, ta_signature = 1\<rparr>,
            \<lparr>ta_timestamp = Timestamp 7000000, ta_public_key = 2, ta_signature = 2\<rparr>],
         vl_receipt = sample_receipt\<rparr>\<rparr>"

lemma sample_verifiable_log_simps [simp]:
  "rl_log_index (inner sample_verifiable_log) = Some 0"
  "rl_inner (inner sample_verifiable_log) = sample_log"
  "vl_receipt (pod_metadata sample_verifiable_log) = sample_receipt"
  by (simp_all add: sample_verifiable_log_def to_rpc_format_def)

theorem verifiable_log_proof_round_trip_witness:
  "\<exists>root pf. hash_receipt tiny_crates sample_receipt = Inr root
    \<and> vl_generate_proof tiny_crates sample_verifiable_log = Inr (Some pf)
    \<and> vl_verify_proof tiny_crates sample_verifiable_log root pf"
  using verifiable_log_proof_round_trip [of sample_verifiable_log 0 tiny_crates] by simp

text \<open>
  C10. Authenticity: when the check of a proof passes against the hash of a receipt, that
  receipt has the log at the index the log claims, up to its hash, whoever made the proof.  The
  log claims an index, below 10^9; receipts are bounded far above any block, which keeps all
  leaf paths shorter than 32 bytes, and the inputs hashed by the receipt's tree and by this
  check do not collide.
\<close>

theorem verifiable_log_proof_sound:
  assumes "packed_law K" "receipt_bounded r" "hash_receipt K r = Inr root"
    and "rl_log_index (inner v) = Some i" "unat i < 10 ^ 9"
    and "no_collisions K (leaves_of (append_receipt K) r)
           [(index_prefix ''log_hashes'' (unat i), hash_log K (rl_inner (inner v)))]
           (fold_pairs (commutative_hash_pair K) (get_leaf K v) (path pf))"
    and "vl_verify_proof K v root pf"
  shows "unat i < length (logs r) \<and> hash_log K (rl_inner (inner v)) = hash_log K (logs r ! unat i)"
  by (rule log_hash_proof_sound [OF assms(1-3)])
     (use assms(4-7) in \<open>simp_all add: get_leaf_def vl_verify_proof_def\<close>)

lemma sample_log_hash: "hash_log tiny_crates sample_log = 2"
  by (simp add: sample_log_def hash_log_def hash_bytes_def tiny_crates_def tiny_keccak_def)

lemma sample_log_leaf: "get_leaf tiny_crates sample_verifiable_log = 45"
  by (simp add: get_leaf_def hash_leaf_def hash_bytes_def index_prefix_def show_zero sample_log_hash
      tiny_leaf [unfolded leaf_bytes_def, simplified])

theorem verifiable_log_proof_sound_witness:
  "hash_log tiny_crates sample_log = hash_log tiny_crates (logs sample_receipt ! 0)"
proof -
  have "unat (0 :: u64) < length (logs sample_receipt)
      \<and> hash_log tiny_crates (rl_inner (inner sample_verifiable_log)) = hash_log tiny_crates (logs sample_receipt ! unat (0 :: u64))"
  proof (rule verifiable_log_proof_sound [OF tiny_packed_law])
    let ?pf = "\<lparr>path = [41, 143, 190]\<rparr>"
    show "receipt_bounded sample_receipt" by (simp add: receipt_bounded_def sample_log_def)
    show "hash_receipt tiny_crates sample_receipt = Inr 216" by (rule sample_receipt_hash)
    show "no_collisions tiny_crates (leaves_of (append_receipt tiny_crates) sample_receipt)
        [(index_prefix ''log_hashes'' (unat (0 :: u64)), hash_log tiny_crates (rl_inner (inner sample_verifiable_log)))]
        (fold_pairs (commutative_hash_pair tiny_crates) (get_leaf tiny_crates sample_verifiable_log) (path ?pf))"
      using sample_receipt_no_collisions
      by (simp add: sample_log_leaf sample_log_hash index_prefix_def show_zero)
    show "vl_verify_proof tiny_crates sample_verifiable_log 216 ?pf"
      by (simp add: vl_verify_proof_def sample_log_leaf standard_verify_proof_def merkle_verify_proof_def
          commutative_hash_pair_bytes tiny_pair)
  qed simp_all
  then show ?thesis by simp
qed

text \<open>
  \<^verbatim>\<open>verify\<close> accepts exactly when the distinct committee members whose
  signatures the log carries, over the hash of its receipt, reach the quorum.  It never
  panics, and it says nothing of the log itself: any log can be put in its place.
\<close>

theorem verifiable_log_verify_spec:
  "\<exists>root. hash_receipt K (vl_receipt (pod_metadata v)) = Inr root
    \<and> (vl_verify K recover v c = Inr (Inr ()) \<longleftrightarrow>
        quorum_size c \<le> card {a. a |\<in>| validators c
          \<and> (\<exists>att \<in> set (attestations (pod_metadata v)). recover (ta_signature att) root = Inr a)})
    \<and> vl_verify K recover (v\<lparr>inner := l\<rparr>) c = vl_verify K recover v c"
  by (auto simp: vl_verify_def verify_certificate_def hash_receipt_def merkle_hash_eq
      verify_aggregate_ok_iff signers_of_def)

lemma seconds_mono:
  assumes "s \<le> t"
  shows "(ucast (as_seconds s) :: u256) \<le> ucast (as_seconds t)"
proof -
  have "unat (as_seconds s) \<le> unat (as_seconds t)"
    using assms by (simp add: as_seconds_def less_eq_timestamp_def word_le_nat_alt unat_div div_le_mono)
  then show ?thesis by (simp add: word_le_nat_alt unat_ucast_widen)
qed

lemma sorted_median:
  assumes "sorted xs" "xs \<noteq> ([] :: 'a :: linorder list)"
  shows "length xs < 2 * length (filter (\<lambda>x. x \<le> xs ! (length xs div 2)) xs)
    \<and> length xs \<le> 2 * length (filter (\<lambda>x. xs ! (length xs div 2) \<le> x) xs)"
proof -
  let ?m = "length xs div 2" and ?t = "xs ! (length xs div 2)"
  have m: "?m < length xs" using assms(2) by (simp add: div_less_dividend)
  have "set (take (Suc ?m) xs) \<subseteq> {x. x \<le> ?t}" "set (drop ?m xs) \<subseteq> {x. ?t \<le> x}"
    using assms(1) m by (auto simp: in_set_conv_nth sorted_nth_mono)
  then have "filter (\<lambda>x. x \<le> ?t) (take (Suc ?m) xs) = take (Suc ?m) xs"
    "filter (\<lambda>x. ?t \<le> x) (drop ?m xs) = drop ?m xs"
    by (auto simp: filter_id_conv)
  then have "Suc ?m \<le> length (filter (\<lambda>x. x \<le> ?t) xs)"
    "length xs - ?m \<le> length (filter (\<lambda>x. ?t \<le> x) xs)"
    using m filter_append [of "\<lambda>x. x \<le> ?t" "take (Suc ?m) xs" "drop (Suc ?m) xs"]
      filter_append [of "\<lambda>x. ?t \<le> x" "take ?m xs" "drop ?m xs"]
    by (simp_all only: append_take_drop_id length_append length_take length_drop)
  then show ?thesis by auto
qed

text \<open>
  C31. \<^verbatim>\<open>confirmation_time\<close> panics exactly without attestations.  If the
  attestations come in the order of their timestamps it is the upper median: more than half of
  them are not later, and at least half are not earlier.
\<close>

theorem confirmation_time_median:
  assumes "sorted (map ta_timestamp (attestations (pod_metadata v)))"
  shows "if attestations (pod_metadata v) = [] then confirmation_time v = Inl IndexOutOfBounds
    else \<exists>t. confirmation_time v = Inr t
      \<and> length (attestations (pod_metadata v))
          < 2 * length (filter (\<lambda>a. ta_timestamp a \<le> t) (attestations (pod_metadata v)))
      \<and> length (attestations (pod_metadata v))
          \<le> 2 * length (filter (\<lambda>a. t \<le> ta_timestamp a) (attestations (pod_metadata v)))"
proof (cases "attestations (pod_metadata v) = []")
  case True
  then show ?thesis by (simp add: confirmation_time_def)
next
  case False
  then have "length (attestations (pod_metadata v)) div 2 < length (attestations (pod_metadata v))"
    by (simp add: div_less_dividend)
  then show ?thesis
    using False sorted_median [OF assms] by (simp add: confirmation_time_def Let_def length_filter_map comp_def)
qed

theorem confirmation_time_median_witness:
  "confirmation_time sample_verifiable_log = Inr (Timestamp 7000000)
   \<and> (\<exists>t. confirmation_time sample_verifiable_log = Inr t \<and>
        length (filter (\<lambda>a. ta_timestamp a \<le> t) (attestations (pod_metadata sample_verifiable_log))) \<ge> 1)"
proof -
  have "sorted (map ta_timestamp (attestations (pod_metadata sample_verifiable_log)))"
    by (simp add: sample_verifiable_log_def less_eq_timestamp_def)
  from confirmation_time_median [OF this]
  show ?thesis by (auto simp: sample_verifiable_log_def confirmation_time_def)
qed

text \<open>
  The sorted timestamps and the sorted signatures list the same rearrangement of the
  attestations, one by their seconds and one by their signatures, and the seconds ascend.
\<close>

theorem sorted_outputs_agree:
  "\<exists>atts. mset atts = mset (attestations (pod_metadata v))
     \<and> sorted (map ta_timestamp atts)
     \<and> sorted_timestamps_in_seconds v = map (\<lambda>a. ucast (as_seconds (ta_timestamp a))) atts
     \<and> sorted_signatures as_bytes v = map (\<lambda>a. as_bytes (ta_signature a)) atts
     \<and> sorted (sorted_timestamps_in_seconds v)"
proof (intro exI conjI)
  let ?atts = "sort_attestations_by_timestamp v"
  show "mset ?atts = mset (attestations (pod_metadata v))"
    by (simp add: sort_attestations_by_timestamp_def)
  show sorted: "sorted (map ta_timestamp ?atts)"
    by (simp add: sort_attestations_by_timestamp_def)
  show "sorted (sorted_timestamps_in_seconds v)"
    using sorted unfolding sorted_timestamps_in_seconds_def sorted_map
    by (rule sorted_wrt_mono_rel [rotated]) (rule seconds_mono)
qed (simp_all add: sorted_timestamps_in_seconds_def sorted_signatures_def)

end
