(* ===== verification/Pagination.thy ===== *)
theory Pagination
  imports Calldata
begin

text \<open>
  \<^verbatim>\<open>types/src/pagination.rs\<close>: the cursors of paginated queries.  Base64 is a crate and
  an argument; the bytes in between are UTF-8 and split at a vertical bar.
\<close>

section \<open>Requests\<close>

definition default_query_limit :: nat where
  "default_query_limit = 100"

record cursor_pagination_request =
  cp_cursor :: "string option"
  cp_limit :: "nat option"
  cp_newest_first :: "bool option"

record cursor_pagination =
  cursor_start :: "string option"
  cursor_end :: "string option"
  page_limit :: nat
  page_newest_first :: "bool option"

record 't api_paginated_result =
  items :: "'t list"
  result_cursor :: "(string \<times> string) option"

definition serialize_cursor ::
    "(bytes \<Rightarrow> string) \<Rightarrow> ('d, 'e) serde_format \<Rightarrow> (string \<times> string) option \<Rightarrow> 'd" where
  "serialize_cursor base64_encode F cursor =
     (case cursor of
        Some (cstart, cend) \<Rightarrow>
          (let cursor_str = cstart @ ''|'' @ cend
           in sf_serialize_str F (base64_encode (str_bytes cursor_str)))
      | None \<Rightarrow> sf_serialize_none F)"

definition default_limit :: "nat option" where
  "default_limit = Some default_query_limit"

definition request_new :: "string option \<Rightarrow> nat option \<Rightarrow> bool option \<Rightarrow> cursor_pagination_request" where
  "request_new cursor limit newest_first =
     \<lparr>cp_cursor = cursor, cp_limit = limit, cp_newest_first = newest_first\<rparr>"

definition request_default :: cursor_pagination_request where
  "request_default =
     \<lparr>cp_cursor = None, cp_limit = Some default_query_limit, cp_newest_first = Some True\<rparr>"

datatype (plugins only: code) 'b pagination_error =
    CursorNotBase64 'b
  | CursorNotUtf8 utf8_error
  | OrderAndCursor

text \<open>The cursor is decoded before the check that excludes an order beside it.\<close>

definition decode_cursor ::
    "(string \<Rightarrow> 'b + bytes) \<Rightarrow> string option \<Rightarrow> 'b pagination_error + (string option \<times> string option)" where
  "decode_cursor base64_decode cursor =
     (case cursor of
        Some c \<Rightarrow>
          (case base64_decode c of
             Inl e \<Rightarrow> Inl (CursorNotBase64 e)
           | Inr decoded \<Rightarrow>
               (case from_utf8 decoded of
                  Inl e \<Rightarrow> Inl (CursorNotUtf8 e)
                | Inr decoded_str \<Rightarrow>
                    (let parts = split_on (CHR ''|'') decoded_str
                     in if length parts \<noteq> 2 then Inr (None, None)
                        else Inr (Some (parts ! 0), Some (parts ! 1)))))
      | None \<Rightarrow> Inr (None, None))"

definition pagination_try_from ::
    "(string \<Rightarrow> 'b + bytes) \<Rightarrow> cursor_pagination_request \<Rightarrow> 'b pagination_error + cursor_pagination" where
  "pagination_try_from base64_decode request =
     and_then (decode_cursor base64_decode (cp_cursor request)) (\<lambda>(s, e).
       if cp_newest_first request \<noteq> None \<and> cp_cursor request \<noteq> None then Inl OrderAndCursor
       else Inr \<lparr>cursor_start = s, cursor_end = e,
                 page_limit = (case cp_limit request of None \<Rightarrow> default_query_limit | Some l \<Rightarrow> l),
                 page_newest_first = cp_newest_first request\<rparr>)"

section \<open>What a cursor holds\<close>

lemma utf8_sequences:
  "b1 \<le> 0x7F \<Longrightarrow> utf8_valid (b1 # r) = utf8_valid r"
  "\<not> b1 \<le> 0x7F \<Longrightarrow> 0xC2 \<le> b1 \<and> b1 \<le> 0xDF \<Longrightarrow>
     utf8_valid (b1 # b2 # r) = (utf8_cont b2 \<and> utf8_valid r)"
  "\<not> b1 \<le> 0x7F \<Longrightarrow> \<not> (0xC2 \<le> b1 \<and> b1 \<le> 0xDF) \<Longrightarrow> 0xE0 \<le> b1 \<and> b1 \<le> 0xEF \<Longrightarrow>
     utf8_valid (b1 # b2 # b3 # r) = (utf8_second b1 b2 \<and> utf8_cont b3 \<and> utf8_valid r)"
  "\<not> b1 \<le> 0x7F \<Longrightarrow> \<not> (0xC2 \<le> b1 \<and> b1 \<le> 0xDF) \<Longrightarrow> \<not> (0xE0 \<le> b1 \<and> b1 \<le> 0xEF) \<Longrightarrow>
     0xF0 \<le> b1 \<and> b1 \<le> 0xF4 \<Longrightarrow>
     utf8_valid (b1 # b2 # b3 # b4 # r)
       = (utf8_second b1 b2 \<and> utf8_cont b3 \<and> utf8_cont b4 \<and> utf8_valid r)"
  by (simp_all only: utf8_valid.simps(2) if_False if_True list.case simp_thms)

lemma utf8_valid_append: "utf8_valid a \<Longrightarrow> utf8_valid (a @ b) = utf8_valid b"
proof (induction a rule: length_induct)
  case (1 a)
  then have IH: "\<And>r. length r < length a \<Longrightarrow> utf8_valid r \<Longrightarrow> utf8_valid (r @ b) = utf8_valid b" by blast
  show ?case
  proof (cases a)
    case (Cons b1 r)
    consider "b1 \<le> 0x7F" | "\<not> b1 \<le> 0x7F" "0xC2 \<le> b1 \<and> b1 \<le> 0xDF"
      | "\<not> b1 \<le> 0x7F" "\<not> (0xC2 \<le> b1 \<and> b1 \<le> 0xDF)" "0xE0 \<le> b1 \<and> b1 \<le> 0xEF"
      | "\<not> b1 \<le> 0x7F" "\<not> (0xC2 \<le> b1 \<and> b1 \<le> 0xDF)" "\<not> (0xE0 \<le> b1 \<and> b1 \<le> 0xEF)"
        "0xF0 \<le> b1 \<and> b1 \<le> 0xF4"
      using "1.prems" Cons by (auto split: if_splits)
    then show ?thesis
    proof cases
      case 1
      then show ?thesis
        using IH [of r] "1.prems" Cons by (simp add: utf8_sequences del: utf8_valid.simps)
    next
      case 2
      then obtain b2 r' where "r = b2 # r'" using "1.prems" Cons by (auto split: list.splits)
      with 2 show ?thesis
        using IH [of r'] "1.prems" Cons by (simp add: utf8_sequences del: utf8_valid.simps)
    next
      case 3
      then obtain b2 b3 r' where "r = b2 # b3 # r'" using "1.prems" Cons by (auto split: list.splits)
      with 3 show ?thesis
        using IH [of r'] "1.prems" Cons by (simp add: utf8_sequences del: utf8_valid.simps)
    next
      case 4
      then obtain b2 b3 b4 r' where "r = b2 # b3 # b4 # r'" using "1.prems" Cons by (auto split: list.splits)
      with 4 show ?thesis
        using IH [of r'] "1.prems" Cons by (simp add: utf8_sequences del: utf8_valid.simps)
    qed
  qed simp
qed

lemma rust_string_append: "rust_string s \<Longrightarrow> rust_string t \<Longrightarrow> rust_string (s @ t)"
  by (simp add: rust_string_def str_bytes_def utf8_valid_append)

lemma rust_string_bar: "rust_string ''|''"
  by code_simp

text \<open>The abstract reading of a decoded cursor: the two halves, if there are exactly two.\<close>

definition cursor_parts :: "string \<Rightarrow> string option \<times> string option" where
  "cursor_parts s =
     (if count_list s (CHR ''|'') = 1
      then (Some (takeWhile (\<lambda>c. c \<noteq> CHR ''|'') s), Some (tl (dropWhile (\<lambda>c. c \<noteq> CHR ''|'') s)))
      else (None, None))"

lemma before_sep:
  "c \<notin> set a \<Longrightarrow> takeWhile (\<lambda>x. x \<noteq> c) (a @ c # b) = a"
  "c \<notin> set a \<Longrightarrow> tl (dropWhile (\<lambda>x. x \<noteq> c) (a @ c # b)) = b"
  by (induction a) auto

lemma split_on_two:
  assumes "count_list s c = 1"
  shows "split_on c s = [takeWhile (\<lambda>x. x \<noteq> c) s, tl (dropWhile (\<lambda>x. x \<noteq> c) s)]"
proof -
  have "c \<in> set s" using assms by (metis count_notin zero_neq_one)
  then obtain a b where s: "s = a @ c # b" "c \<notin> set a" by (metis split_list_first)
  then have "c \<notin> set b" using assms by (simp add: count_list_0_iff)
  moreover have "takeWhile (\<lambda>x. x \<noteq> c) s = a" "tl (dropWhile (\<lambda>x. x \<noteq> c) s) = b"
    using s before_sep [of c a b] by simp_all
  ultimately show ?thesis using s by (simp add: split_on_sep split_on_no_sep)
qed

lemma decode_cursor_encoded:
  assumes "base64_decode (base64_encode (str_bytes s)) = Inr (str_bytes s)" "rust_string s"
  shows "decode_cursor base64_decode (Some (base64_encode (str_bytes s))) = Inr (cursor_parts s)"
  using assms by (auto simp: decode_cursor_def utf8.decode_encode split_on_length split_on_two cursor_parts_def Let_def)

section \<open>Properties\<close>

text \<open>
  The cursor of a page, sent back without an order, selects the same range: both ends
  are recovered, if neither contains the separator.  If one does, the request is not
  refused but reads as having no cursor at all, so the pages start over.
\<close>

theorem cursor_round_trip:
  assumes "\<And>bs. base64_decode (base64_encode bs) = Inr bs"
    and "rust_string cstart" "rust_string cend"
    and "serialize_cursor base64_encode F (Some (cstart, cend)) = sf_serialize_str F c"
    and "inj (sf_serialize_str F)"
  shows "pagination_try_from base64_decode (request_new (Some c) limit None) =
    Inr \<lparr>cursor_start = (if CHR ''|'' \<in> set cstart \<union> set cend then None else Some cstart),
         cursor_end = (if CHR ''|'' \<in> set cstart \<union> set cend then None else Some cend),
         page_limit = (case limit of None \<Rightarrow> 100 | Some l \<Rightarrow> l), page_newest_first = None\<rparr>"
proof -
  let ?s = "cstart @ ''|'' @ cend"
  have c: "c = base64_encode (str_bytes ?s)"
    using assms(4,5) by (simp add: serialize_cursor_def inj_eq)
  have "rust_string ?s" by (intro rust_string_append assms(2,3) rust_string_bar)
  then have "decode_cursor base64_decode (Some c) = Inr (cursor_parts ?s)"
    unfolding c by (intro decode_cursor_encoded assms(1))
  moreover have "count_list ?s (CHR ''|'') = 1 \<longleftrightarrow> CHR ''|'' \<notin> set cstart \<union> set cend"
    by (auto simp: count_list_0_iff)
  moreover have "takeWhile (\<lambda>c. c \<noteq> CHR ''|'') ?s = cstart" "tl (dropWhile (\<lambda>c. c \<noteq> CHR ''|'') ?s) = cend"
    if "CHR ''|'' \<notin> set cstart"
    using before_sep [OF that, of cend] by simp_all
  ultimately show ?thesis
    by (auto simp: pagination_try_from_def [unfolded default_query_limit_def] request_new_def cursor_parts_def)
qed

definition sample_base64 :: "bytes \<Rightarrow> string" where
  "sample_base64 bs = concat (map hex_byte bs)"

definition sample_base64_decode :: "string \<Rightarrow> unit + bytes" where
  "sample_base64_decode s = ok_or () (hex_pairs s)"

lemma sample_base64_law: "sample_base64_decode (sample_base64 bs) = Inr bs"
  by (simp add: sample_base64_decode_def sample_base64_def hex_pairs_hex_bytes)

theorem cursor_round_trip_witness:
  "pagination_try_from sample_base64_decode
     (request_new (Some (sample_base64 (str_bytes ''17|40''))) (Some 5) None) =
   Inr \<lparr>cursor_start = Some ''17'', cursor_end = Some ''40'', page_limit = 5, page_newest_first = None\<rparr>"
proof -
  have "rust_string ''17''" "rust_string ''40''" by code_simp+
  from cursor_round_trip [OF sample_base64_law this, of "sample_format True" _ "Some 5"]
  show ?thesis by (simp add: serialize_cursor_def sample_format_def)
qed

text \<open>
  A request with both a cursor and an order is never accepted; since the default
  request asks for the newest first, adding a cursor to it always fails.  Without a cursor,
  every request is accepted, with the limit defaulting to 100.
\<close>

theorem order_excludes_cursor:
  "(\<exists>e. pagination_try_from base64_decode (request_default\<lparr>cp_cursor := Some c\<rparr>) = Inl e)
   \<and> pagination_try_from base64_decode (request_new None limit order) =
       Inr \<lparr>cursor_start = None, cursor_end = None,
            page_limit = (case limit of None \<Rightarrow> 100 | Some l \<Rightarrow> l), page_newest_first = order\<rparr>"
proof
  show "\<exists>e. pagination_try_from base64_decode (request_default\<lparr>cp_cursor := Some c\<rparr>) = Inl e"
    by (cases "decode_cursor base64_decode (Some c)")
       (auto simp: pagination_try_from_def request_default_def)
qed (simp add: pagination_try_from_def [unfolded default_query_limit_def] request_new_def decode_cursor_def)

end
