(* ===== verification/Log_Filter.thy ===== *)
theory Log_Filter
  imports Calldata
begin

text \<open>
  \<^verbatim>\<open>types/src/rpc/filter.rs\<close>: the filter of log queries, its hand-written
  serialisers, and its builder.  A set of addresses is alloy's \<^verbatim>\<open>FilterSet\<close>, a type
  parameter here with its conversions as arguments.  The four topics are a list of length
  four.  The end of the range is read against a clock, because block tags may name the
  present.
\<close>

section \<open>The filter\<close>

record 'fs log_filter =
  lf_address :: 'fs
  lf_topics :: "hash option list"
  lf_from :: timestamp
  lf_to :: "timestamp option"
  lf_min_attestations :: u32
  lf_limit :: nat

definition log_filter_default :: "'fs \<Rightarrow> 'fs log_filter" where
  "log_filter_default no_address =
     \<lparr>lf_address = no_address, lf_topics = [None, None, None, None], lf_from = timestamp_zero,
      lf_to = None, lf_min_attestations = 0, lf_limit = 0\<rparr>"

section \<open>Serialisers\<close>

datatype (plugins only: code) 'a value_or_array = Value 'a | Array "'a list"

definition deserialize_address ::
    "('d, 'e) serde_format \<Rightarrow> ('d \<Rightarrow> 'e + address value_or_array) \<Rightarrow> (address value_or_array \<Rightarrow> 'fs)
      \<Rightarrow> 'd \<Rightarrow> 'e + 'fs" where
  "deserialize_address F read_addresses into_filter_set d =
     and_then (read_addresses d) (\<lambda>input.
       case input of
         Value a \<Rightarrow> Inr (into_filter_set input)
       | Array addrs \<Rightarrow>
           if length addrs > 4
           then Inl (sf_custom_error F
             (''max 4 addresses is supported (provided '' @ show_nat (length addrs) @ '')''))
           else Inr (into_filter_set input))"

definition serialize_address ::
    "('d, 'e) serde_format \<Rightarrow> (address value_or_array \<Rightarrow> 'd) \<Rightarrow> ('fs \<Rightarrow> address value_or_array option)
      \<Rightarrow> 'fs \<Rightarrow> 'd" where
  "serialize_address F write_addresses to_value_or_array v =
     (case to_value_or_array v of Some x \<Rightarrow> write_addresses x | None \<Rightarrow> sf_serialize_none F)"

fun store_topics :: "nat \<Rightarrow> hash option list \<Rightarrow> hash option list \<Rightarrow> hash option list run" where
  "store_topics i [] result = Inr result"
| "store_topics i (topic # topics) result =
     and_then (set_at i topic result) (store_topics (Suc i) topics)"

definition deserialize_topics ::
    "('d \<Rightarrow> 'e + hash option list option) \<Rightarrow> 'd \<Rightarrow> ('e + hash option list) run" where
  "deserialize_topics read_topics d =
     (case read_topics d of
        Inl e \<Rightarrow> Inr (Inl e)
      | Inr None \<Rightarrow> Inr (Inr [None, None, None, None])
      | Inr (Some vec) \<Rightarrow> map_ok Inr (store_topics 0 (take 4 vec) [None, None, None, None]))"

text \<open>The message of a \<^verbatim>\<open>TimestampError\<close>.\<close>

fun timestamp_error_display :: "timestamp_error \<Rightarrow> string" where
  "timestamp_error_display (InvalidHexString s) =
     ''invalid hex string \"'' @ s @ ''\": can't convert to Timestamp''"

definition map_err :: "('e \<Rightarrow> 'f) \<Rightarrow> 'e + 'a \<Rightarrow> 'f + 'a" where
  "map_err f r = (case r of Inl e \<Rightarrow> Inl (f e) | Inr x \<Rightarrow> Inr x)"

definition deserialize_block_timestamp ::
    "('d, 'e) serde_format \<Rightarrow> system_time \<Rightarrow> 'd \<Rightarrow> ('e + timestamp) run" where
  "deserialize_block_timestamp F clock d =
     (case sf_read_string F d of
        Inl e \<Rightarrow> Inr (Inl e)
      | Inr s \<Rightarrow>
          map_ok (map_err (\<lambda>e. sf_custom_error F (timestamp_error_display e)))
            (from_hex_seconds_str clock s))"

definition serialize_block_timestamp :: "('d, 'e) serde_format \<Rightarrow> timestamp \<Rightarrow> 'd" where
  "serialize_block_timestamp F t = sf_serialize_str F (show_hex (unat (as_seconds t)))"

definition deserialize_block_timestamp_end ::
    "('d, 'e) serde_format \<Rightarrow> system_time \<Rightarrow> 'd \<Rightarrow> ('e + timestamp option) run" where
  "deserialize_block_timestamp_end F clock d =
     (case sf_read_string F d of
        Inl e \<Rightarrow> Inr (Inl e)
      | Inr s \<Rightarrow>
          if s = [] \<or> s = ''latest'' then Inr (Inr None)
          else map_ok (\<lambda>r. map_ok Some (map_err (\<lambda>e. sf_custom_error F (timestamp_error_display e)) r))
                 (from_hex_seconds_str clock s))"

definition serialize_block_timestamp_end :: "('d, 'e) serde_format \<Rightarrow> timestamp option \<Rightarrow> 'd" where
  "serialize_block_timestamp_end F v =
     (case v of Some t \<Rightarrow> serialize_block_timestamp F t | None \<Rightarrow> sf_serialize_str F '''')"

section \<open>The builder\<close>

datatype (plugins only: code) 'fs log_filter_builder = LogFilterBuilder (builder_0: "'fs log_filter")

definition lfb_new :: "'fs \<Rightarrow> 'fs log_filter_builder" where
  "lfb_new no_address = LogFilterBuilder (log_filter_default no_address)"

definition lfb_address :: "'fs \<Rightarrow> 'fs log_filter_builder \<Rightarrow> 'fs log_filter_builder" where
  "lfb_address a b = LogFilterBuilder ((builder_0 b)\<lparr>lf_address := a\<rparr>)"

definition lfb_build :: "'fs log_filter_builder \<Rightarrow> 'fs log_filter" where
  "lfb_build b = builder_0 b"

definition lfb_from :: "timestamp \<Rightarrow> 'fs log_filter_builder \<Rightarrow> 'fs log_filter_builder" where
  "lfb_from t b = LogFilterBuilder ((builder_0 b)\<lparr>lf_from := t\<rparr>)"

definition lfb_to :: "timestamp \<Rightarrow> 'fs log_filter_builder \<Rightarrow> 'fs log_filter_builder" where
  "lfb_to t b = LogFilterBuilder ((builder_0 b)\<lparr>lf_to := Some t\<rparr>)"

definition lfb_topic :: "nat \<Rightarrow> hash \<Rightarrow> 'fs log_filter_builder \<Rightarrow> 'fs log_filter_builder run" where
  "lfb_topic n topic b =
     (if n < 4
      then map_ok (\<lambda>topics. LogFilterBuilder ((builder_0 b)\<lparr>lf_topics := topics\<rparr>))
             (set_at n (Some topic) (lf_topics (builder_0 b)))
      else Inl AssertFailed)"

definition lfb_event_signature :: "hash \<Rightarrow> 'fs log_filter_builder \<Rightarrow> 'fs log_filter_builder run" where
  "lfb_event_signature h b = lfb_topic 0 h b"

definition lfb_topic1 :: "hash \<Rightarrow> 'fs log_filter_builder \<Rightarrow> 'fs log_filter_builder run" where
  "lfb_topic1 h b = lfb_topic 1 h b"

definition lfb_topic2 :: "hash \<Rightarrow> 'fs log_filter_builder \<Rightarrow> 'fs log_filter_builder run" where
  "lfb_topic2 h b = lfb_topic 2 h b"

definition lfb_topic3 :: "hash \<Rightarrow> 'fs log_filter_builder \<Rightarrow> 'fs log_filter_builder run" where
  "lfb_topic3 h b = lfb_topic 3 h b"

definition lfb_min_attestations :: "u32 \<Rightarrow> 'fs log_filter_builder \<Rightarrow> 'fs log_filter_builder" where
  "lfb_min_attestations n b = LogFilterBuilder ((builder_0 b)\<lparr>lf_min_attestations := n\<rparr>)"

definition lfb_limit :: "nat \<Rightarrow> 'fs log_filter_builder \<Rightarrow> 'fs log_filter_builder" where
  "lfb_limit n b = LogFilterBuilder ((builder_0 b)\<lparr>lf_limit := n\<rparr>)"

definition log_filter_from_builder :: "'fs log_filter_builder \<Rightarrow> 'fs log_filter" where
  "log_filter_from_builder b = builder_0 b"

section \<open>The builder keeps four topics\<close>

text \<open>The builders a program can make.\<close>

inductive built :: "'fs \<Rightarrow> 'fs log_filter_builder \<Rightarrow> bool" for no_address where
  built_new: "built no_address (lfb_new no_address)"
| built_address: "built no_address b \<Longrightarrow> built no_address (lfb_address a b)"
| built_from: "built no_address b \<Longrightarrow> built no_address (lfb_from t b)"
| built_to: "built no_address b \<Longrightarrow> built no_address (lfb_to t b)"
| built_topic: "built no_address b \<Longrightarrow> lfb_topic n h b = Inr b' \<Longrightarrow> built no_address b'"
| built_min: "built no_address b \<Longrightarrow> built no_address (lfb_min_attestations m b)"
| built_limit: "built no_address b \<Longrightarrow> built no_address (lfb_limit l b)"

lemma built_topics: "built no_address b \<Longrightarrow> length (lf_topics (builder_0 b)) = 4"
  by (induction rule: built.induct)
     (auto simp: lfb_new_def log_filter_default_def lfb_address_def lfb_from_def lfb_to_def lfb_topic_def
        lfb_min_attestations_def lfb_limit_def map_ok_def and_then_Inr_iff set_at_def split: if_splits)

lemma store_topics_eq:
  "i + length topics \<le> length result \<Longrightarrow>
   store_topics i topics result = Inr (take i result @ topics @ drop (i + length topics) result)"
proof (induction topics arbitrary: i result)
  case Nil
  then show ?case by simp
next
  case (Cons t ts)
  then have "store_topics (Suc i) ts (result[i := t])
      = Inr (take (Suc i) (result[i := t]) @ ts @ drop (Suc i + length ts) (result[i := t]))"
    by (intro Cons.IH) simp
  then show ?case using Cons.prems by (simp add: take_Suc_conv_app_nth)
qed

text \<open>A number above the limit is refused.\<close>

lemma parse_digits_unique:
  "parse_digits m r acc s = Some v \<Longrightarrow> parse_digits m' r acc s = Some v' \<Longrightarrow> v = v'"
  by (induction s arbitrary: acc) (auto split: option.splits if_splits)

lemma from_str_radix_overflow:
  assumes "2 \<le> radix" "radix \<le> 36" "m < n"
  shows "from_str_radix m radix (show_radix radix n) = None"
proof (rule ccontr)
  assume "from_str_radix m radix (show_radix radix n) \<noteq> None"
  then obtain v where v: "from_str_radix m radix (show_radix radix n) = Some v" by auto
  have "from_str_radix n radix (show_radix radix n) = Some n"
    by (rule from_str_radix_show [OF assms(1,2)]) simp
  with v have "v = n"
    by (auto simp: from_str_radix_def Let_def split: if_splits dest: parse_digits_unique)
  moreover have "v \<le> m"
    using v parse_digits_bound [of 0 m radix] by (auto simp: from_str_radix_def Let_def split: if_splits)
  ultimately show False using assms(3) by simp
qed

lemma from_seconds_of_seconds:
  assumes "unat (as_seconds t) < 2 ^ 64"
  shows "from_seconds (ucast (as_seconds t)) = Timestamp (timestamp_0 t div 1000000 * 1000000)"
proof -
  have "unat (ucast (as_seconds t) :: u64) = unat (as_seconds t)"
    using assms by (simp add: unat_ucast)
  then have "unat (ucast (ucast (as_seconds t) :: u64) :: u128) = unat (as_seconds t)"
    by (subst unat_ucast_widen) simp_all
  then have "(ucast (ucast (as_seconds t) :: u64) :: u128) = as_seconds t"
    by (simp only: word_unat_eq_iff)
  then show ?thesis by (simp only: from_seconds_def) (simp add: as_seconds_def)
qed

lemma from_hex_seconds_of_seconds:
  "from_hex_seconds_str clock (show_hex (unat (as_seconds t))) =
     Inr (if unat (as_seconds t) < 2 ^ 64 then Inr (Timestamp (timestamp_0 t div 1000000 * 1000000))
          else Inl (InvalidHexString (show_hex (unat (as_seconds t)))))"
proof (cases "unat (as_seconds t) < 2 ^ 64")
  case True
  then show ?thesis
    using from_hex_seconds_str_hex(1) [of "unat (as_seconds t)" clock]
    by (simp add: from_seconds_of_seconds u64_max_def)
next
  case False
  then have "from_str_radix u64_max 16 (show_hex (unat (as_seconds t))) = None"
    by (intro from_str_radix_overflow) (simp_all add: u64_max_def)
  then show ?thesis using False by (simp add: from_hex_seconds_str_def show_hex_not_tag)
qed

section \<open>Properties\<close>

text \<open>
  The bounds of a filter survive the wire in whole seconds: what is read back is the
  bound with its fraction of a second cut off, or an error when the seconds exceed 64 bits;
  an absent end comes back absent.
\<close>

theorem block_range_round_trip:
  assumes "format_law F"
  shows "deserialize_block_timestamp F clock (serialize_block_timestamp F t) =
      Inr (if unat (as_seconds t) < 2 ^ 64 then Inr (Timestamp (timestamp_0 t div 1000000 * 1000000))
           else Inl (sf_custom_error F
             (timestamp_error_display (InvalidHexString (show_hex (unat (as_seconds t)))))))
    \<and> deserialize_block_timestamp_end F clock (serialize_block_timestamp_end F None) = Inr (Inr None)
    \<and> deserialize_block_timestamp_end F clock (serialize_block_timestamp_end F (Some t)) =
        map_ok (map_ok Some) (deserialize_block_timestamp F clock (serialize_block_timestamp F t))"
  using assms show_hex_not_tag [of "unat (as_seconds t)"]
  by (simp add: deserialize_block_timestamp_def serialize_block_timestamp_def
      deserialize_block_timestamp_end_def serialize_block_timestamp_end_def format_law_def
      from_hex_seconds_of_seconds map_err_def)

theorem block_range_round_trip_witness:
  "deserialize_block_timestamp (sample_format True) 0
     (serialize_block_timestamp (sample_format True) (Timestamp 1742493092123456))
   = Inr (Inr (Timestamp 1742493092000000))"
proof -
  have "unat (as_seconds (Timestamp 1742493092123456)) < 2 ^ 64"
    by (simp add: as_seconds_def)
  then show ?thesis
    using block_range_round_trip [OF sample_format_law, of True 0 "Timestamp 1742493092123456"] by simp
qed

text \<open>
  Topics are read as exactly four: missing ones are absent, surplus ones are dropped,
  and storing them never indexes out of bounds.
\<close>

theorem deserialize_topics_spec:
  "deserialize_topics read_topics d =
     Inr (map_ok (\<lambda>v. take 4 (case v of None \<Rightarrow> [None, None, None, None]
                                      | Some vec \<Rightarrow> vec @ [None, None, None, None])) (read_topics d))"
proof (cases "read_topics d")
  case (Inr v)
  have "take 4 vec @ drop (length (take 4 vec)) [None, None, None, None]
      = take 4 (vec @ [None, None, None, None])" for vec :: "hash option list"
  proof -
    have "[None, None, None, None] = replicate 4 (None :: hash option)" by (simp add: numeral_eq_Suc)
    then show ?thesis by (simp add: min_def)
  qed
  then show ?thesis
    using Inr store_topics_eq [of 0 "take 4 vec" "[None, None, None, None]" for vec]
    by (cases v) (simp_all add: deserialize_topics_def)
qed (simp add: deserialize_topics_def)

text \<open>
  Whatever calls built it, a filter has four topics, and the four public topic setters
  never panic on it: each sets its own topic and nothing else.
\<close>

theorem topic_setters_total:
  assumes "built no_address b" "n < 4"
  shows "lfb_topic n h b =
    Inr (LogFilterBuilder ((lfb_build b)\<lparr>lf_topics := (lf_topics (lfb_build b))[n := Some h]\<rparr>))"
  using built_topics [OF assms(1)] assms(2) by (simp add: lfb_topic_def lfb_build_def)

theorem topic_setters_total_witness:
  "lfb_topic3 7 (lfb_limit 5 (lfb_new ())) =
     Inr (LogFilterBuilder \<lparr>lf_address = (), lf_topics = [None, None, None, Some 7], lf_from = timestamp_zero,
       lf_to = None, lf_min_attestations = 0, lf_limit = 5\<rparr>)"
  using topic_setters_total [OF built_limit [OF built_new], of 3 7 5 "()"]
  by (simp add: lfb_topic3_def lfb_build_def lfb_limit_def lfb_new_def log_filter_default_def)

text \<open>
  The address set is limited to four entries on reading: larger arrays are refused, all
  other inputs become the set unchanged.
\<close>

theorem deserialize_address_limit:
  "deserialize_address F read_addresses into d = Inr fs \<longleftrightarrow>
     (\<exists>input. read_addresses d = Inr input \<and> fs = into input
        \<and> (case input of Value a \<Rightarrow> True | Array addrs \<Rightarrow> length addrs \<le> 4))"
proof (cases "read_addresses d")
  case (Inr input)
  then show ?thesis by (cases input) (auto simp: deserialize_address_def)
qed (simp add: deserialize_address_def)

end
