(* ===== verification/Network.thy ===== *)
theory Network
  imports Verifiable_Log
begin

text \<open>
  \<^verbatim>\<open>rust-sdk/src/network/mod.rs\<close>: the pod network's transaction request, a wrapper of
  alloy's with its own builder.  Alloy's request has public fields, which are the record
  \<open>tx_request\<close>; the alloy methods the wrapper calls on it are the fields of \<open>request_ops\<close>.
\<close>

section \<open>Alloy's request\<close>

record tx_input =
  ti_input :: "bytes option"
  ti_data :: "bytes option"

record ('al, 'x) tx_request =
  rq_from :: "address option"
  rq_to :: "tx_kind option"
  rq_gas_price :: "u128 option"
  rq_max_fee_per_gas :: "u128 option"
  rq_max_priority_fee_per_gas :: "u128 option"
  rq_gas :: "u64 option"
  rq_value :: "u256 option"
  rq_input :: tx_input
  rq_nonce :: "u64 option"
  rq_chain_id :: "u64 option"
  rq_access_list :: "'al option"
  rq_transaction_type :: "byte option"
  rq_rest :: 'x

datatype (plugins only: code) tx_type = TypeLegacy | TypeEip2930 | TypeEip1559 | TypeEip4844 | TypeEip7702

definition tx_type_u8 :: "tx_type \<Rightarrow> byte" where
  "tx_type_u8 ty =
     (case ty of TypeLegacy \<Rightarrow> 0 | TypeEip2930 \<Rightarrow> 1 | TypeEip1559 \<Rightarrow> 2 | TypeEip4844 \<Rightarrow> 3 | TypeEip7702 \<Rightarrow> 4)"

record ('al, 'x, 'tx) request_ops =
  ro_default :: "('al, 'x) tx_request"
  ro_set_max_fee_per_gas :: "u128 \<Rightarrow> ('al, 'x) tx_request \<Rightarrow> ('al, 'x) tx_request"
  ro_set_max_priority_fee_per_gas :: "u128 \<Rightarrow> ('al, 'x) tx_request \<Rightarrow> ('al, 'x) tx_request"
  ro_input :: "tx_input \<Rightarrow> bytes option"
  ro_complete_1559 :: "('al, 'x) tx_request \<Rightarrow> string list + unit"
  ro_buildable_type :: "('al, 'x) tx_request \<Rightarrow> tx_type option"
  ro_preferred_type :: "('al, 'x) tx_request \<Rightarrow> tx_type"
  ro_trim_conflicting_keys :: "('al, 'x) tx_request \<Rightarrow> ('al, 'x) tx_request"
  ro_populate_blob_hashes :: "('al, 'x) tx_request \<Rightarrow> ('al, 'x) tx_request"
  ro_missing_keys :: "('al, 'x) tx_request \<Rightarrow> (tx_type \<times> string list) + unit"
  ro_build_typed_tx :: "('al, 'x) tx_request \<Rightarrow> ('al, 'x) tx_request + 'tx"

text \<open>
  What the wrapper relies on: the default request is empty, the two setters set their
  field, the input is read from \<^verbatim>\<open>input\<close> if it is there, and a request without missing
  keys can be built.
\<close>

definition request_law :: "('al, 'x, 'tx) request_ops \<Rightarrow> bool" where
  "request_law R \<longleftrightarrow>
     (\<forall>v r. ro_set_max_fee_per_gas R v r = r\<lparr>rq_max_fee_per_gas := Some v\<rparr>)
     \<and> (\<forall>v r. ro_set_max_priority_fee_per_gas R v r = r\<lparr>rq_max_priority_fee_per_gas := Some v\<rparr>)
     \<and> rq_from (ro_default R) = None
     \<and> (\<forall>i bs. ti_input i = Some bs \<longrightarrow> ro_input R i = Some bs)
     \<and> (\<forall>r. ro_missing_keys R r = Inr () \<longrightarrow> (\<exists>tx. ro_build_typed_tx R r = Inr tx))"

section \<open>The pod's request\<close>

record ('al, 'x) pod_request =
  pq_inner :: "('al, 'x) tx_request"

definition pod_request_default :: "('al, 'x, 'tx) request_ops \<Rightarrow> ('al, 'x) pod_request" where
  "pod_request_default R =
     (let inner = ro_default R;
          inner = ro_set_max_fee_per_gas R 1000000000 inner;
          inner = ro_set_max_priority_fee_per_gas R 0 inner
      in \<lparr>pq_inner = inner\<rparr>)"

definition pq_deref :: "('al, 'x) pod_request \<Rightarrow> ('al, 'x) tx_request" where
  "pq_deref p = pq_inner p"

definition pq_deref_mut ::
    "(('al, 'x) tx_request \<Rightarrow> ('al, 'x) tx_request) \<Rightarrow> ('al, 'x) pod_request \<Rightarrow> ('al, 'x) pod_request" where
  "pq_deref_mut f p = p\<lparr>pq_inner := f (pq_inner p)\<rparr>"

definition request_from_pod :: "('al, 'x) pod_request \<Rightarrow> ('al, 'x) tx_request" where
  "request_from_pod p = pq_inner p"

text \<open>From alloy's typed transactions, envelopes and RPC transactions, by alloy's conversion.\<close>

definition pod_request_from :: "('t \<Rightarrow> ('al, 'x) tx_request) \<Rightarrow> 't \<Rightarrow> ('al, 'x) pod_request" where
  "pod_request_from into v = \<lparr>pq_inner = into v\<rparr>"

section \<open>\<^verbatim>\<open>TransactionBuilder\<close>\<close>

definition pq_chain_id where "pq_chain_id p = rq_chain_id (pq_deref p)"
definition pq_set_chain_id where "pq_set_chain_id v = pq_deref_mut (\<lambda>r. r\<lparr>rq_chain_id := Some v\<rparr>)"
definition pq_nonce where "pq_nonce p = rq_nonce (pq_deref p)"
definition pq_set_nonce where "pq_set_nonce v = pq_deref_mut (\<lambda>r. r\<lparr>rq_nonce := Some v\<rparr>)"
definition pq_take_nonce where
  "pq_take_nonce p = (rq_nonce (pq_deref p), pq_deref_mut (\<lambda>r. r\<lparr>rq_nonce := None\<rparr>) p)"
definition pq_input where "pq_input R p = ro_input R (rq_input (pq_deref p))"
definition pq_set_input where
  "pq_set_input v = pq_deref_mut (\<lambda>r. r\<lparr>rq_input := (rq_input r)\<lparr>ti_input := Some v\<rparr>\<rparr>)"
definition pq_from where "pq_from p = rq_from (pq_deref p)"
definition pq_set_from where "pq_set_from v = pq_deref_mut (\<lambda>r. r\<lparr>rq_from := Some v\<rparr>)"
definition pq_kind where "pq_kind p = rq_to (pq_deref p)"
definition pq_clear_kind where "pq_clear_kind = pq_deref_mut (\<lambda>r. r\<lparr>rq_to := None\<rparr>)"
definition pq_set_kind where "pq_set_kind v = pq_deref_mut (\<lambda>r. r\<lparr>rq_to := Some v\<rparr>)"
definition pq_value where "pq_value p = rq_value (pq_deref p)"
definition pq_set_value where "pq_set_value v = pq_deref_mut (\<lambda>r. r\<lparr>rq_value := Some v\<rparr>)"
definition pq_gas_price where "pq_gas_price p = rq_gas_price (pq_deref p)"
definition pq_set_gas_price where "pq_set_gas_price v = pq_deref_mut (\<lambda>r. r\<lparr>rq_gas_price := Some v\<rparr>)"
definition pq_max_fee_per_gas where "pq_max_fee_per_gas p = rq_max_fee_per_gas (pq_deref p)"
definition pq_set_max_fee_per_gas where
  "pq_set_max_fee_per_gas v = pq_deref_mut (\<lambda>r. r\<lparr>rq_max_fee_per_gas := Some v\<rparr>)"
definition pq_max_priority_fee_per_gas where
  "pq_max_priority_fee_per_gas p = rq_max_priority_fee_per_gas (pq_deref p)"
definition pq_set_max_priority_fee_per_gas where
  "pq_set_max_priority_fee_per_gas v = pq_deref_mut (\<lambda>r. r\<lparr>rq_max_priority_fee_per_gas := Some v\<rparr>)"
definition pq_gas_limit where "pq_gas_limit p = rq_gas (pq_deref p)"
definition pq_set_gas_limit where "pq_set_gas_limit v = pq_deref_mut (\<lambda>r. r\<lparr>rq_gas := Some v\<rparr>)"
definition pq_access_list where "pq_access_list p = rq_access_list (pq_deref p)"
definition pq_set_access_list where
  "pq_set_access_list v = pq_deref_mut (\<lambda>r. r\<lparr>rq_access_list := Some v\<rparr>)"

lemmas pq_simps =
  pq_deref_def pq_deref_mut_def pq_chain_id_def pq_set_chain_id_def pq_nonce_def pq_set_nonce_def
  pq_take_nonce_def pq_input_def pq_set_input_def pq_from_def pq_set_from_def pq_kind_def
  pq_clear_kind_def pq_set_kind_def pq_value_def pq_set_value_def pq_gas_price_def
  pq_set_gas_price_def pq_max_fee_per_gas_def pq_set_max_fee_per_gas_def
  pq_max_priority_fee_per_gas_def pq_set_max_priority_fee_per_gas_def pq_gas_limit_def
  pq_set_gas_limit_def pq_access_list_def pq_set_access_list_def

section \<open>\<^verbatim>\<open>NetworkTransactionBuilder\<close>\<close>

definition complete_type ::
    "('al, 'x, 'tx) request_ops \<Rightarrow> ('al, 'x) pod_request \<Rightarrow> tx_type \<Rightarrow> (string list + unit) run" where
  "complete_type R p ty =
     (case ty of TypeEip1559 \<Rightarrow> Inr (ro_complete_1559 R (pq_deref p)) | _ \<Rightarrow> Inl Unimplemented)"

definition can_submit :: "('al, 'x) pod_request \<Rightarrow> bool" where
  "can_submit p \<longleftrightarrow> rq_from (pq_deref p) \<noteq> None"

definition can_build :: "('al, 'x) pod_request \<Rightarrow> bool" where
  "can_build p \<longleftrightarrow> rq_max_fee_per_gas (pq_deref p) \<noteq> None \<and> rq_max_priority_fee_per_gas (pq_deref p) \<noteq> None"

definition output_tx_type :: "('al, 'x) pod_request \<Rightarrow> tx_type" where
  "output_tx_type p = TypeEip1559"

definition output_tx_type_checked ::
    "('al, 'x, 'tx) request_ops \<Rightarrow> ('al, 'x) pod_request \<Rightarrow> tx_type option" where
  "output_tx_type_checked R p = ro_buildable_type R (pq_deref p)"

definition prep_for_submission ::
    "('al, 'x, 'tx) request_ops \<Rightarrow> ('al, 'x) pod_request \<Rightarrow> ('al, 'x) pod_request" where
  "prep_for_submission R p =
     (let p = pq_deref_mut (\<lambda>r. r\<lparr>rq_transaction_type := Some (tx_type_u8 (ro_preferred_type R r))\<rparr>) p;
          p = pq_deref_mut (ro_trim_conflicting_keys R) p
      in pq_deref_mut (ro_populate_blob_hashes R) p)"

text \<open>The error hands the request back, as \<^verbatim>\<open>into_unbuilt\<close> does.\<close>

datatype (plugins only: code) builder_error = InvalidTransactionRequest tx_type "string list"

definition build_unsigned ::
    "('al, 'x, 'tx) request_ops \<Rightarrow> ('al, 'x) pod_request \<Rightarrow> (('al, 'x) pod_request \<times> builder_error + 'tx) run" where
  "build_unsigned R p =
     (case ro_missing_keys R (pq_deref p) of
        Inl (tx_type, missing) \<Rightarrow> Inr (Inl (p, InvalidTransactionRequest tx_type missing))
      | Inr u \<Rightarrow>
          (case ro_build_typed_tx R (pq_inner p) of
             Inl unbuilt \<Rightarrow> Inl UnwrapErr
           | Inr tx \<Rightarrow> Inr (Inr tx)))"

definition request_build :: "(('al, 'x) pod_request \<Rightarrow> 'se + 'env) \<Rightarrow> ('al, 'x) pod_request \<Rightarrow> 'se + 'env" where
  "request_build sign_request p = sign_request p"

section \<open>The network\<close>

record 'sig attestation_data =
  ad_public_key :: address
  ad_signature :: 'sig
  ad_timestamp :: timestamp

datatype 'w filler =
    IdentityFiller
  | GasFiller
  | NonceFiller
  | ChainIdFiller
  | WalletFiller 'w
  | JoinFill "'w filler" "'w filler"

definition recommended_fillers :: "'w filler" where
  "recommended_fillers = JoinFill GasFiller (JoinFill NonceFiller ChainIdFiller)"

section \<open>Properties\<close>

text \<open>
  Every setter of the request is read back by its getter, setting a second field does
  not disturb it, and taking the nonce returns it once.
\<close>

theorem request_setters_read_back:
  assumes "request_law R"
  shows "pq_chain_id (pq_set_chain_id n p) = Some n \<and> pq_nonce (pq_set_nonce n p) = Some n
    \<and> pq_input R (pq_set_input bs p) = Some bs \<and> pq_from (pq_set_from a p) = Some a
    \<and> pq_kind (pq_set_kind k p) = Some k \<and> pq_kind (pq_clear_kind p) = None
    \<and> pq_value (pq_set_value v p) = Some v \<and> pq_gas_price (pq_set_gas_price g p) = Some g
    \<and> pq_max_fee_per_gas (pq_set_max_fee_per_gas g p) = Some g
    \<and> pq_max_priority_fee_per_gas (pq_set_max_priority_fee_per_gas g p) = Some g
    \<and> pq_gas_limit (pq_set_gas_limit n p) = Some n
    \<and> pq_access_list (pq_set_access_list al p) = Some al
    \<and> pq_max_priority_fee_per_gas (pq_set_max_fee_per_gas g p) = pq_max_priority_fee_per_gas p
    \<and> fst (pq_take_nonce (pq_set_nonce n p)) = Some n
    \<and> fst (pq_take_nonce (snd (pq_take_nonce p))) = None"
  using assms by (simp add: pq_simps request_law_def)

text \<open>A sample of alloy's methods.\<close>

definition sample_request_ops :: "(unit, unit, nat) request_ops" where
  "sample_request_ops =
     \<lparr>ro_default =
        \<lparr>rq_from = None, rq_to = None, rq_gas_price = None, rq_max_fee_per_gas = None,
         rq_max_priority_fee_per_gas = None, rq_gas = None, rq_value = None,
         rq_input = \<lparr>ti_input = None, ti_data = None\<rparr>, rq_nonce = None, rq_chain_id = None,
         rq_access_list = None, rq_transaction_type = None, rq_rest = ()\<rparr>,
      ro_set_max_fee_per_gas = (\<lambda>v r. r\<lparr>rq_max_fee_per_gas := Some v\<rparr>),
      ro_set_max_priority_fee_per_gas = (\<lambda>v r. r\<lparr>rq_max_priority_fee_per_gas := Some v\<rparr>),
      ro_input = (\<lambda>i. case ti_input i of Some bs \<Rightarrow> Some bs | None \<Rightarrow> ti_data i),
      ro_complete_1559 = (\<lambda>r. if rq_nonce r = None then Inl [''nonce''] else Inr ()),
      ro_buildable_type = (\<lambda>r. Some TypeEip1559),
      ro_preferred_type = (\<lambda>r. TypeEip1559),
      ro_trim_conflicting_keys = (\<lambda>r. r\<lparr>rq_gas_price := None\<rparr>),
      ro_populate_blob_hashes = id,
      ro_missing_keys = (\<lambda>r. if rq_nonce r = None then Inl (TypeEip1559, [''nonce'']) else Inr ()),
      ro_build_typed_tx = (\<lambda>r. case rq_nonce r of None \<Rightarrow> Inl r | Some n \<Rightarrow> Inr (unat n))\<rparr>"

lemma sample_request_law: "request_law sample_request_ops"
  by (auto simp: request_law_def sample_request_ops_def)

theorem request_setters_read_back_witness:
  "pq_input sample_request_ops (pq_set_input [1, 2] (pod_request_default sample_request_ops)) = Some [1, 2]"
  by (simp add: request_setters_read_back [OF sample_request_law])

text \<open>
  The default request can be built but not submitted until a sender is set, and it
  carries a fee of one gwei and no tip.
\<close>

theorem default_request_ready:
  assumes "request_law R"
  shows "can_build (pod_request_default R) \<and> \<not> can_submit (pod_request_default R)
    \<and> can_submit (pq_set_from a (pod_request_default R))
    \<and> pq_max_fee_per_gas (pod_request_default R) = Some 1000000000
    \<and> pq_max_priority_fee_per_gas (pod_request_default R) = Some 0"
  using assms
  by (simp add: can_build_def can_submit_def pod_request_default_def pq_simps request_law_def)

theorem default_request_ready_witness:
  "can_submit (pq_set_from 7 (pod_request_default sample_request_ops))"
  using default_request_ready [OF sample_request_law] by blast

text \<open>
  Building never panics: a request with missing keys is handed back unchanged with the
  list of them, any other is built.  Completing the type panics for every type but the one
  the request itself reports.
\<close>

theorem build_unsigned_total:
  assumes "request_law R"
  shows "(case ro_missing_keys R (pq_inner p) of
      Inl (ty, missing) \<Rightarrow> build_unsigned R p = Inr (Inl (p, InvalidTransactionRequest ty missing))
    | Inr u \<Rightarrow> \<exists>tx. build_unsigned R p = Inr (Inr tx))
    \<and> (complete_type R p ty = Inl Unimplemented \<longleftrightarrow> ty \<noteq> output_tx_type p)"
proof
  show "case ro_missing_keys R (pq_inner p) of
      Inl (ty, missing) \<Rightarrow> build_unsigned R p = Inr (Inl (p, InvalidTransactionRequest ty missing))
    | Inr u \<Rightarrow> \<exists>tx. build_unsigned R p = Inr (Inr tx)"
    using assms by (auto simp: build_unsigned_def pq_deref_def request_law_def split: sum.splits)
  show "complete_type R p ty = Inl Unimplemented \<longleftrightarrow> ty \<noteq> output_tx_type p"
    by (cases ty) (simp_all add: complete_type_def output_tx_type_def)
qed

theorem build_unsigned_total_witness:
  "\<exists>tx. build_unsigned sample_request_ops (pq_set_nonce 3 (pod_request_default sample_request_ops)) = Inr (Inr tx)"
  using build_unsigned_total [OF sample_request_law, of "pq_set_nonce 3 (pod_request_default sample_request_ops)"]
  by (simp add: sample_request_ops_def pq_simps)

end
