(* ===== verification/Provider.thy ===== *)
theory Provider
  imports Network Pagination Log_Filter
begin

text \<open>
  \<^verbatim>\<open>rust-sdk/src/provider/mod.rs\<close>: the provider of the pod network, which talks
  JSON-RPC, and the classification of the errors of sending a transaction.

  The RPC client is an argument: a function from calls to answers.  Where an operation
  calls it repeatedly, the answers are indexed by the number of the call.  Reading typed
  data out of an error, hexadecimal decoding, keys, wallets and connections are arguments
  too.  Sleeping is counted in milliseconds.
\<close>

section \<open>Calls and errors\<close>

datatype (plugins only: code) 'fs rpc_params =
    NoParams
  | FilterParams "'fs log_filter"
  | TimestampParams u64
  | SubscribeParams string "'fs rpc_params"
  | AddressSinceParams "address option" timestamp
  | ReceiptsParams "address option" u64 "cursor_pagination_request option"
  | RawTransactionParams string "u16 option"
  | ContractParams address

record 'fs rpc_call =
  rpc_method :: string
  rpc_args :: "'fs rpc_params"

record 'data error_payload =
  ep_code :: int
  ep_message :: string
  ep_data :: "'data option"

datatype (plugins only: code) ('data, 'x) rpc_error =
    ErrorResp "'data error_payload"
  | LocalUsage string
  | OtherRpcError 'x

definition as_error_resp :: "('data, 'x) rpc_error \<Rightarrow> 'data error_payload option" where
  "as_error_resp e = (case e of ErrorResp p \<Rightarrow> Some p | _ \<Rightarrow> None)"

section \<open>The provider's builder\<close>

datatype (plugins only: code) 'w pod_provider_builder = PodProviderBuilder (builder_fillers: "'w filler")

definition provider_builder_default :: "'w pod_provider_builder" where
  "provider_builder_default = PodProviderBuilder IdentityFiller"

definition provider_builder_new :: "'w pod_provider_builder" where
  "provider_builder_new = provider_builder_default"

definition with_recommended_settings :: "'w pod_provider_builder" where
  "with_recommended_settings =
     PodProviderBuilder (JoinFill (builder_fillers provider_builder_default) recommended_fillers)"

definition builder_wallet :: "'w \<Rightarrow> 'w pod_provider_builder \<Rightarrow> 'w pod_provider_builder" where
  "builder_wallet w b = PodProviderBuilder (JoinFill (builder_fillers b) (WalletFiller w))"

definition with_private_key ::
    "('key \<Rightarrow> 'signer) \<Rightarrow> ('signer \<Rightarrow> 'w) \<Rightarrow> 'key \<Rightarrow> 'w pod_provider_builder \<Rightarrow> 'w pod_provider_builder" where
  "with_private_key from_signing_key wallet_new key b =
     (let signer = from_signing_key key in builder_wallet (wallet_new signer) b)"

record ('w, 'conn) pod_provider =
  pp_inner :: 'conn
  pp_fillers :: "'w filler"

definition on_url ::
    "(string \<Rightarrow> 'te + 'conn) \<Rightarrow> string \<Rightarrow> 'w pod_provider_builder \<Rightarrow> 'te + ('w, 'conn) pod_provider" where
  "on_url connect url b = map_ok (\<lambda>c. \<lparr>pp_inner = c, pp_fillers = builder_fillers b\<rparr>) (connect url)"

datatype (plugins only: code) ('he, 'ke, 'te) env_error =
    KeyMissing
  | KeyNotHex 'he
  | KeyInvalid 'ke
  | ConnectFailed string 'te

definition pk_env :: string where
  "pk_env = ''POD_PRIVATE_KEY''"

definition load_private_key ::
    "(string \<Rightarrow> string option) \<Rightarrow> (string \<Rightarrow> 'he + bytes) \<Rightarrow> (bytes \<Rightarrow> 'ke + 'key)
      \<Rightarrow> ('he, 'ke, 'te) env_error + 'key" where
  "load_private_key env hex_decode from_slice =
     and_then (ok_or KeyMissing (env pk_env)) (\<lambda>pk_string.
     and_then (case hex_decode pk_string of Inl e \<Rightarrow> Inl (KeyNotHex e) | Inr bs \<Rightarrow> Inr bs) (\<lambda>pk_bytes.
       case from_slice pk_bytes of Inl e \<Rightarrow> Inl (KeyInvalid e) | Inr k \<Rightarrow> Inr k))"

definition from_env ::
    "(string \<Rightarrow> string option) \<Rightarrow> (string \<Rightarrow> 'he + bytes) \<Rightarrow> (bytes \<Rightarrow> 'ke + 'key)
      \<Rightarrow> ('key \<Rightarrow> 'signer) \<Rightarrow> ('signer \<Rightarrow> 'w) \<Rightarrow> (string \<Rightarrow> 'te + 'conn)
      \<Rightarrow> 'w pod_provider_builder \<Rightarrow> ('he, 'ke, 'te) env_error + ('w, 'conn) pod_provider" where
  "from_env env hex_decode from_slice from_signing_key wallet_new connect b =
     and_then (load_private_key env hex_decode from_slice) (\<lambda>private_key.
     let rpc_url = (case env ''POD_RPC_URL'' of Some u \<Rightarrow> u | None \<Rightarrow> ''ws://127.0.0.1:8545'')
     in case on_url connect rpc_url (with_private_key from_signing_key wallet_new private_key b) of
          Inl e \<Rightarrow> Inl (ConnectFailed rpc_url e)
        | Inr p \<Rightarrow> Inr p)"

section \<open>Single calls\<close>

definition get_committee :: "('fs rpc_call \<Rightarrow> 'e + committee) \<Rightarrow> 'e + committee" where
  "get_committee request = request \<lparr>rpc_method = ''pod_getCommittee'', rpc_args = NoParams\<rparr>"

definition get_verifiable_logs ::
    "('fs rpc_call \<Rightarrow> 'e + 'sig verifiable_log list) \<Rightarrow> 'fs log_filter \<Rightarrow> 'e + 'sig verifiable_log list" where
  "get_verifiable_logs request flt = request \<lparr>rpc_method = ''eth_getLogs'', rpc_args = FilterParams flt\<rparr>"

definition websocket_subscribe ::
    "('fs rpc_call \<Rightarrow> 'e + 'id) \<Rightarrow> ('id \<Rightarrow> 'e + 'sub) \<Rightarrow> string \<Rightarrow> 'fs rpc_params \<Rightarrow> 'e + 'sub" where
  "websocket_subscribe request get_subscription method params =
     and_then (request \<lparr>rpc_method = ''eth_subscribe'', rpc_args = SubscribeParams method params\<rparr>)
       get_subscription"

definition subscribe_verifiable_logs ::
    "('fs rpc_call \<Rightarrow> 'e + 'id) \<Rightarrow> ('id \<Rightarrow> 'e + 'sub) \<Rightarrow> 'fs log_filter \<Rightarrow> 'e + 'sub" where
  "subscribe_verifiable_logs request get_subscription flt =
     websocket_subscribe request get_subscription ''logs'' (FilterParams flt)"

definition subscribe_receipts ::
    "('fs rpc_call \<Rightarrow> 'e + 'id) \<Rightarrow> ('id \<Rightarrow> 'e + 'sub) \<Rightarrow> address option \<Rightarrow> timestamp \<Rightarrow> 'e + 'sub" where
  "subscribe_receipts request get_subscription addr since =
     websocket_subscribe request get_subscription ''pod_receipts'' (AddressSinceParams addr since)"

definition get_receipts ::
    "('fs rpc_call \<Rightarrow> 'e + 'r api_paginated_result) \<Rightarrow> address option \<Rightarrow> u64
      \<Rightarrow> cursor_pagination_request option \<Rightarrow> 'e + 'r api_paginated_result" where
  "get_receipts request addr since_micros paginator =
     request \<lparr>rpc_method = ''pod_listReceipts'', rpc_args = ReceiptsParams addr since_micros paginator\<rparr>"

definition u128_max :: nat where
  "u128_max = 2 ^ 128 - 1"

definition past_perfect_time ::
    "('fs rpc_call \<Rightarrow> ('data, 'x) rpc_error + string) \<Rightarrow> address \<Rightarrow> ('data, 'x) rpc_error + timestamp" where
  "past_perfect_time request contract =
     and_then (request \<lparr>rpc_method = ''pod_pastPerfectTime'', rpc_args = ContractParams contract\<rparr>)
       (\<lambda>micros_str.
         case from_str_radix u128_max 10 micros_str of
           None \<Rightarrow> Inl (LocalUsage ''invalid micros from pod_pastPerfectTime'')
         | Some micros \<Rightarrow> Inr (from_micros (of_nat micros)))"

section \<open>Waiting for a past perfect time\<close>

definition invalid_params_code :: int where
  "invalid_params_code = -32602"

definition ppt_too_far_msg :: string where
  "ppt_too_far_msg = ''Requested PPT is too far in the future''"

definition max_retries :: nat where
  "max_retries = 100"

definition sleep_duration_millis :: nat where
  "sleep_duration_millis = 100"

definition is_ppt_too_far :: "('data, 'x) rpc_error + 'a \<Rightarrow> bool" where
  "is_ppt_too_far result =
     (case result of
        Inl e \<Rightarrow>
          (case as_error_resp e of
             Some r \<Rightarrow> ep_code r = invalid_params_code \<and> ep_message r = ppt_too_far_msg
           | None \<Rightarrow> False)
      | Inr x \<Rightarrow> False)"

record ('data, 'x) wait_outcome =
  wo_result :: "('data, 'x) rpc_error + unit"
  wo_requests :: nat
  wo_slept_millis :: nat

text \<open>The loop: \<open>answer n\<close> is the answer to request \<open>n\<close>, of which \<open>retries\<close> were made.\<close>

function wait_loop ::
    "(nat \<Rightarrow> ('data, 'x) rpc_error + string) \<Rightarrow> nat \<Rightarrow> nat \<Rightarrow> ('data, 'x) wait_outcome" where
  "wait_loop answer retries slept =
     (let result = answer retries
      in if retries < max_retries \<and> is_ppt_too_far result
         then wait_loop answer (retries + 1) (slept + sleep_duration_millis)
         else \<lparr>wo_result = Inr (), wo_requests = retries + 1, wo_slept_millis = slept\<rparr>)"
  by pat_completeness auto
termination
  by (relation "measure (\<lambda>(answer, retries, slept). max_retries - retries)") auto

declare wait_loop.simps [simp del]

definition wait_past_perfect_time ::
    "('fs rpc_call \<Rightarrow> nat \<Rightarrow> ('data, 'x) rpc_error + string) \<Rightarrow> timestamp \<Rightarrow> ('data, 'x) wait_outcome" where
  "wait_past_perfect_time request t =
     wait_loop (request \<lparr>rpc_method = ''pod_waitPastPerfectTime'',
                         rpc_args = TimestampParams (ucast (as_micros t))\<rparr>) 0 0"

section \<open>Sending\<close>

record pod_send_response =
  ps_tx_hash :: hash
  ps_successes :: nat
  ps_errors :: "string list"

record rejection =
  rej_error :: string

record account_locked_data =
  ald_recovery_target :: hash
  ald_recovery_target_nonce :: u64

record empty_tx_required_data =
  etd_nonce :: u64
  etd_errors :: "string list"

definition deserialize_rejections :: "('d \<Rightarrow> 'e + rejection list) \<Rightarrow> 'd \<Rightarrow> 'e + string list" where
  "deserialize_rejections read_rejections d = map_ok (map rej_error) (read_rejections d)"

definition account_locked_code :: int where
  "account_locked_code = 999"

definition empty_tx_required_code :: int where
  "empty_tx_required_code = 997"

definition rejected_code :: int where
  "rejected_code = -32003"

datatype (plugins only: code) ('data, 'x) pod_send_error =
    AccountLocked hash u64
  | Rejected "string list"
  | EmptyTxRequired u64 "string list"
  | Transport "('data, 'x) rpc_error"

definition is_terminal :: "('data, 'x) pod_send_error \<Rightarrow> bool" where
  "is_terminal e = (case e of Transport t \<Rightarrow> False | _ \<Rightarrow> True)"

definition pod_send_error_display ::
    "(hash \<Rightarrow> string) \<Rightarrow> (('data, 'x) rpc_error \<Rightarrow> string) \<Rightarrow> ('data, 'x) pod_send_error \<Rightarrow> string" where
  "pod_send_error_display display_hash display_error e =
     (case e of
        AccountLocked recovery_target recovery_target_nonce \<Rightarrow>
          ''account locked at nonce '' @ show_nat (unat recovery_target_nonce)
            @ ''; needs a recovery tx targeting '' @ display_hash recovery_target
      | Rejected errors \<Rightarrow> ''rejected by f+1 validators: '' @ join_with '', '' errors
      | EmptyTxRequired nonce errors \<Rightarrow>
          ''empty self-transfer required at nonce '' @ show_nat (unat nonce) @ '': '' @ join_with '', '' errors
      | Transport t \<Rightarrow> display_error t)"

definition pod_send_error_source :: "('data, 'x) pod_send_error \<Rightarrow> ('data, 'x) rpc_error option" where
  "pod_send_error_source e = (case e of Transport t \<Rightarrow> Some t | _ \<Rightarrow> None)"

text \<open>\<^verbatim>\<open>try_data_as\<close>: no data, data that does not parse, or the value.\<close>

definition try_data_as :: "('data \<Rightarrow> 'de + 'v) \<Rightarrow> 'data error_payload \<Rightarrow> ('de + 'v) option" where
  "try_data_as parse p = map_option parse (ep_data p)"

definition pod_send_error_from ::
    "('data \<Rightarrow> 'de + account_locked_data) \<Rightarrow> ('data \<Rightarrow> 'de + empty_tx_required_data)
      \<Rightarrow> ('data \<Rightarrow> 'de + rejection list) \<Rightarrow> ('data, 'x) rpc_error \<Rightarrow> ('data, 'x) pod_send_error" where
  "pod_send_error_from parse_locked parse_empty parse_rejections err =
     (case as_error_resp err of
        None \<Rightarrow> Transport err
      | Some payload \<Rightarrow>
          if ep_code payload = account_locked_code then
            (case try_data_as parse_locked payload of
               Some (Inr data) \<Rightarrow> AccountLocked (ald_recovery_target data) (ald_recovery_target_nonce data)
             | _ \<Rightarrow> Transport err)
          else if ep_code payload = empty_tx_required_code then
            (case try_data_as parse_empty payload of
               Some (Inr data) \<Rightarrow> EmptyTxRequired (etd_nonce data) (etd_errors data)
             | _ \<Rightarrow> Transport err)
          else if ep_code payload = rejected_code then
            Rejected
              (case try_data_as parse_rejections payload of
                 Some (Inr rejs) \<Rightarrow> map rej_error rejs
               | _ \<Rightarrow> [ep_message payload])
          else Transport err)"

text \<open>\<^verbatim>\<open>u16::try_from(t.as_secs().max(1)).unwrap_or(u16::MAX)\<close>.\<close>

definition timeout_secs :: "duration \<Rightarrow> u16" where
  "timeout_secs t =
     (let s = max (dur_secs t) 1 in if unat s < 2 ^ 16 then ucast s else 0xFFFF)"

definition pod_send_raw_transaction ::
    "('fs rpc_call \<Rightarrow> ('data, 'x) rpc_error + pod_send_response)
      \<Rightarrow> ('data \<Rightarrow> 'de + account_locked_data) \<Rightarrow> ('data \<Rightarrow> 'de + empty_tx_required_data)
      \<Rightarrow> ('data \<Rightarrow> 'de + rejection list) \<Rightarrow> (bytes \<Rightarrow> string)
      \<Rightarrow> bytes \<Rightarrow> duration option \<Rightarrow> ('data, 'x) pod_send_error + pod_send_response" where
  "pod_send_raw_transaction request parse_locked parse_empty parse_rejections hex_encode encoded_tx timeout =
     (let raw = ''0x'' @ hex_encode encoded_tx;
          secs = map_option timeout_secs timeout
      in case request \<lparr>rpc_method = ''pod_sendRawTransaction'', rpc_args = RawTransactionParams raw secs\<rparr> of
           Inl e \<Rightarrow> Inl (pod_send_error_from parse_locked parse_empty parse_rejections e)
         | Inr r \<Rightarrow> Inr r)"

text \<open>\<^verbatim>\<open>with_to\<close> and \<^verbatim>\<open>with_value\<close> are the setters of the request, chained.\<close>

datatype (plugins only: code) ('e1, 'e2) transfer_error = SendFailed 'e1 | ReceiptFailed 'e2

definition transfer ::
    "('al, 'y, 'tx) request_ops \<Rightarrow> (('al, 'y) pod_request \<Rightarrow> 'e1 + 'pending) \<Rightarrow> ('pending \<Rightarrow> 'e2 + 'receipt)
      \<Rightarrow> address \<Rightarrow> u256 \<Rightarrow> ('e1, 'e2) transfer_error + 'receipt" where
  "transfer R send_transaction get_receipt to amount =
     (let tx = pq_set_value amount (pq_set_kind (Call to) (pod_request_default R))
      in case send_transaction tx of
           Inl e \<Rightarrow> Inl (SendFailed e)
         | Inr pending \<Rightarrow>
             (case get_receipt pending of Inl e \<Rightarrow> Inl (ReceiptFailed e) | Inr r \<Rightarrow> Inr r))"

definition sign_transaction_bytes ::
    "('key \<Rightarrow> 'signer) \<Rightarrow> ('signer \<Rightarrow> 'w) \<Rightarrow> ('w \<Rightarrow> ('al, 'y) pod_request \<Rightarrow> 'se + 'env) \<Rightarrow> ('env \<Rightarrow> bytes)
      \<Rightarrow> ('al, 'y) pod_request \<Rightarrow> 'key \<Rightarrow> 'se + bytes" where
  "sign_transaction_bytes from_signing_key wallet_new sign_request encoded_2718 tx key =
     (let wallet = wallet_new (from_signing_key key)
      in map_ok encoded_2718 (sign_request wallet tx))"

section \<open>The loop\<close>

lemma wait_loop_stops:
  assumes "m + k \<le> max_retries"
    and "\<And>i. i < k \<Longrightarrow> is_ppt_too_far (answer (m + i))"
    and "m + k = max_retries \<or> \<not> is_ppt_too_far (answer (m + k))"
  shows "wait_loop answer m s =
    \<lparr>wo_result = Inr (), wo_requests = m + k + 1, wo_slept_millis = s + 100 * k\<rparr>"
  using assms
proof (induction k arbitrary: m s)
  case 0
  then show ?case by (subst wait_loop.simps) auto
next
  case (Suc k)
  have "wait_loop answer m s = wait_loop answer (m + 1) (s + sleep_duration_millis)"
    using Suc.prems(1) Suc.prems(2) [of 0] by (subst wait_loop.simps) simp
  also have "\<dots> = \<lparr>wo_result = Inr (), wo_requests = m + 1 + k + 1,
      wo_slept_millis = s + sleep_duration_millis + 100 * k\<rparr>"
  proof (rule Suc.IH)
    show "is_ppt_too_far (answer (m + 1 + i))" if "i < k" for i
      using Suc.prems(2) [of "Suc i"] that by simp
  qed (use Suc.prems(1,3) in simp_all)
  finally show ?case by (simp add: sleep_duration_millis_def)
qed

lemma wait_result_ok [simp]: "wo_result (wait_past_perfect_time request t) = Inr ()"
proof -
  have "wo_result (wait_loop answer m s) = Inr ()" for answer m s
    by (induction answer m s rule: wait_loop.induct) (subst wait_loop.simps, simp add: Let_def)
  then show ?thesis by (simp add: wait_past_perfect_time_def)
qed

lemma first_stop:
  fixes n :: nat
  shows "\<exists>k \<le> n. (\<forall>i < k. P i) \<and> (k = n \<or> \<not> P k)"
proof (induction n)
  case 0
  then show ?case by simp
next
  case (Suc n)
  then obtain k where k: "k \<le> n" "\<forall>i < k. P i" "k = n \<or> \<not> P k" by blast
  show ?case
  proof (cases "k = n \<and> P n")
    case True
    then show ?thesis using k by (intro exI [of _ "Suc n"]) (auto simp: less_Suc_eq)
  next
    case False
    then show ?thesis using k by (intro exI [of _ k]) auto
  qed
qed

section \<open>Properties\<close>

text \<open>
  C13. Waiting for a past perfect time always ends, after at most 101 requests and ten
  seconds of sleep: it asks again exactly as long as the node answers that the time is too
  far in the future.  Whatever the last answer is, an error of any other kind or still too
  far, the result is success.
\<close>

theorem wait_past_perfect_time_spec:
  "\<exists>k \<le> 100. wait_past_perfect_time request t =
      \<lparr>wo_result = Inr (), wo_requests = k + 1, wo_slept_millis = 100 * k\<rparr>
    \<and> (\<forall>i < k. is_ppt_too_far (request \<lparr>rpc_method = ''pod_waitPastPerfectTime'',
                 rpc_args = TimestampParams (ucast (as_micros t))\<rparr> i))
    \<and> (k = 100 \<or> \<not> is_ppt_too_far (request \<lparr>rpc_method = ''pod_waitPastPerfectTime'',
                 rpc_args = TimestampParams (ucast (as_micros t))\<rparr> k))"
proof -
  let ?answer = "request \<lparr>rpc_method = ''pod_waitPastPerfectTime'',
    rpc_args = TimestampParams (ucast (as_micros t))\<rparr>"
  obtain k where k: "k \<le> 100" "\<forall>i < k. is_ppt_too_far (?answer i)" "k = 100 \<or> \<not> is_ppt_too_far (?answer k)"
    using first_stop [of 100 "\<lambda>i. is_ppt_too_far (?answer i)"] by blast
  then have "wait_loop ?answer 0 0 = \<lparr>wo_result = Inr (), wo_requests = 0 + k + 1, wo_slept_millis = 0 + 100 * k\<rparr>"
    by (intro wait_loop_stops) (auto simp: max_retries_def)
  with k show ?thesis by (auto simp: wait_past_perfect_time_def)
qed

text \<open>A node that answers twice that the time is too far ahead.\<close>

definition sample_node :: "nat rpc_call \<Rightarrow> nat \<Rightarrow> (nat, string) rpc_error + string" where
  "sample_node call n =
     (if n < 2 then Inl (ErrorResp \<lparr>ep_code = invalid_params_code, ep_message = ppt_too_far_msg, ep_data = None\<rparr>)
      else Inr '''')"

theorem wait_past_perfect_time_spec_witness:
  "wait_past_perfect_time sample_node (Timestamp 5) =
     \<lparr>wo_result = Inr (), wo_requests = 3, wo_slept_millis = 200\<rparr>"
proof -
  have far: "is_ppt_too_far (sample_node call n) \<longleftrightarrow> n < 2" for call n
    by (simp add: is_ppt_too_far_def sample_node_def as_error_resp_def)
  from wait_past_perfect_time_spec [of sample_node "Timestamp 5"] obtain k where
    "wait_past_perfect_time sample_node (Timestamp 5) = \<lparr>wo_result = Inr (), wo_requests = k + 1, wo_slept_millis = 100 * k\<rparr>"
    "\<forall>i < k. i < 2" "k = 100 \<or> \<not> k < 2" unfolding far by blast
  moreover from this(2) have "k \<le> 2" by (metis leI less_irrefl)
  ultimately have "k = 2" by auto
  then show ?thesis using \<open>wait_past_perfect_time sample_node (Timestamp 5) = _\<close> by simp
qed

text \<open>
  Every failure to reach the node counts as having waited: if the first request fails
  for any reason but the one that is retried, the wait succeeds at once.  The time asked
  for is the timestamp modulo 2^64 microseconds.
\<close>

theorem wait_swallows_errors:
  assumes "\<And>call. request call 0 = Inl e" "\<not> is_ppt_too_far (Inl e :: ('data, 'x) rpc_error + unit)"
  shows "wait_past_perfect_time request t = \<lparr>wo_result = Inr (), wo_requests = 1, wo_slept_millis = 0\<rparr>"
  using assms by (simp add: wait_past_perfect_time_def wait_loop.simps [of _ 0] is_ppt_too_far_def)

theorem wait_swallows_errors_witness:
  "wait_past_perfect_time (\<lambda>call n. Inl (OtherRpcError ''connection refused'') :: (nat, string) rpc_error + string)
     (Timestamp 5) = \<lparr>wo_result = Inr (), wo_requests = 1, wo_slept_millis = 0\<rparr>"
  by (rule wait_swallows_errors [of _ "OtherRpcError ''connection refused''"])
     (simp_all add: is_ppt_too_far_def as_error_resp_def)

text \<open>
  C30. An outcome counts as terminal, so that a replacement is safe, exactly when the node
  itself answered with the rejection code, or with one of the other two codes and data that
  can be read.  The original error is kept exactly when the outcome is not terminal, and
  then it is what \<^verbatim>\<open>source\<close> returns.
\<close>

theorem terminal_only_by_code:
  "(is_terminal (pod_send_error_from pl pe pr err) \<longleftrightarrow>
      (\<exists>p. err = ErrorResp p
        \<and> (ep_code p = -32003
           \<or> (ep_code p = 999 \<and> (\<exists>d x. ep_data p = Some d \<and> pl d = Inr x))
           \<or> (ep_code p = 997 \<and> (\<exists>d x. ep_data p = Some d \<and> pe d = Inr x)))))
   \<and> pod_send_error_source (pod_send_error_from pl pe pr err) =
       (if is_terminal (pod_send_error_from pl pe pr err) then None else Some err)"
proof (cases err)
  case (ErrorResp p)
  show ?thesis
    by (cases "ep_data p"; cases "pl (the (ep_data p))"; cases "pe (the (ep_data p))")
      (auto simp: ErrorResp pod_send_error_from_def is_terminal_def pod_send_error_source_def as_error_resp_def
        account_locked_code_def empty_tx_required_code_def rejected_code_def try_data_as_def)
qed (simp_all add: pod_send_error_from_def is_terminal_def pod_send_error_source_def as_error_resp_def)

text \<open>
  The timeout sent to the node is the whole seconds of the caller's, but at least one
  and at most 65535.
\<close>

theorem timeout_secs_clamped:
  "unat (timeout_secs d) = min (max (unat (dur_secs d)) 1) 65535"
proof -
  define x where "x = max (dur_secs d) 1"
  have "unat x = max (unat (dur_secs d)) 1"
    by (simp add: x_def max_def word_le_nat_alt)
  moreover have "unat (timeout_secs d) = min (unat x) 65535"
    by (cases "unat x < 2 ^ 16") (simp_all add: timeout_secs_def x_def [symmetric] unat_ucast)
  ultimately show ?thesis by simp
qed

text \<open>
  Every time the node can print in decimal is read back as that number of microseconds,
  and a number above 128 bits is an error, not another time.
\<close>

theorem past_perfect_time_reads_back:
  assumes "\<And>call. request call = Inr (show_nat n)"
  shows "past_perfect_time request contract =
    (if n < 2 ^ 128 then Inr (Timestamp (of_nat n)) else Inl (LocalUsage ''invalid micros from pod_pastPerfectTime''))"
proof (cases "n < 2 ^ 128")
  case True
  then have "n \<le> u128_max" by (simp add: u128_max_def)
  then have "from_str_radix u128_max 10 (show_nat n) = Some n" by (simp add: from_str_radix_show)
  then show ?thesis using True assms by (simp add: past_perfect_time_def from_micros_def)
next
  case False
  then have "u128_max < n" by (simp add: u128_max_def)
  then have "from_str_radix u128_max 10 (show_nat n) = None" by (simp add: from_str_radix_overflow)
  then show ?thesis using False assms by (simp add: past_perfect_time_def)
qed

theorem past_perfect_time_reads_back_witness:
  "past_perfect_time (\<lambda>call. Inr (show_nat 1742493092123456) :: (nat, nat) rpc_error + string) 7
     = Inr (Timestamp 1742493092123456)"
  using past_perfect_time_reads_back
    [of "\<lambda>call. Inr (show_nat 1742493092123456) :: (nat, nat) rpc_error + string" 1742493092123456 7]
  by simp

end
