(* ===== verification/Auction.thy ===== *)
theory Auction
  imports Provider
begin

text \<open>
  \<^verbatim>\<open>rust-sdk/src/auctions/client.rs\<close>, \<^verbatim>\<open>rust-sdk/src/precompiles.rs\<close>, the
  auction example \<^verbatim>\<open>examples/auction/main.rs\<close> and the deadline arithmetic of
  \<^verbatim>\<open>examples/optimism-tx-auction/src/main.rs\<close>.  The generated bindings of the
  contract are arguments: a query of its events and a call that sends a bid.

  The watcher waits in \<^verbatim>\<open>select!\<close> for bids and for the deadline.  Which branch comes
  next is up to the runtime, so a run takes the sequence of what became ready.  A branch
  whose pattern does not match is disabled until that \<^verbatim>\<open>select!\<close> completes, which is
  the flag \<open>ws_receiving\<close>.
\<close>

section \<open>The client\<close>

definition register_timer_contract_address :: address where
  "register_timer_contract_address = 0x72a693a8644edf08e733d47bf26ab75ec399f640"

record bid =
  bid_amount :: u256
  bid_bidder :: address
  bid_data :: bytes

record bid_event =
  be_auction_id :: u256
  be_bidder :: address
  be_deadline :: u64
  be_value :: u256
  be_data :: bytes

record event_filter =
  ef_topic1 :: "u256 option"
  ef_topic3 :: "u256 option"
  ef_to_latest :: bool

record submit_call =
  sc_auction_id :: u256
  sc_deadline :: u64
  sc_value :: u256
  sc_data :: bytes
  sc_max_priority_fee_per_gas :: "u128 option"

datatype (plugins only: code) ('e1, 'e2) auction_error =
    DeadlineTooLarge
  | FetchingBids 'e1
  | SendingBid 'e1
  | AwaitingBid 'e2
  | BidFailed

definition micros_from_system_time :: "system_time \<Rightarrow> u128 run" where
  "micros_from_system_time deadline = map_ok as_micros (timestamp_from_system_time deadline)"

definition micros_u64_from_system_time :: "system_time \<Rightarrow> (('e1, 'e2) auction_error + u64) run" where
  "micros_u64_from_system_time deadline =
     map_ok (\<lambda>micros. if unat micros < 2 ^ 64 then Inr (ucast micros) else Inl DeadlineTooLarge)
       (micros_from_system_time deadline)"

definition micros_u256_from_system_time :: "system_time \<Rightarrow> u256 run" where
  "micros_u256_from_system_time deadline = map_ok ucast (micros_from_system_time deadline)"

definition wait_for_auction_end ::
    "('fs rpc_call \<Rightarrow> nat \<Rightarrow> ('data, 'x) rpc_error + string) \<Rightarrow> system_time \<Rightarrow> ('data, 'x) wait_outcome run" where
  "wait_for_auction_end request deadline =
     map_ok (wait_past_perfect_time request) (timestamp_from_system_time deadline)"

definition bid_of_event :: "bid_event \<times> 'log \<Rightarrow> bid" where
  "bid_of_event el =
     \<lparr>bid_amount = be_value (fst el), bid_bidder = be_bidder (fst el), bid_data = be_data (fst el)\<rparr>"

definition fetch_bids ::
    "(event_filter \<Rightarrow> 'e1 + (bid_event \<times> 'log) list) \<Rightarrow> u256 \<Rightarrow> ('e1, 'e2) auction_error + bid list" where
  "fetch_bids query auction_id =
     (case query \<lparr>ef_topic1 = Some auction_id, ef_topic3 = None, ef_to_latest = True\<rparr> of
        Inl e \<Rightarrow> Inl (FetchingBids e)
      | Inr found \<Rightarrow> traverse (\<lambda>el. Inr (bid_of_event el)) found)"

definition fetch_bids_for_deadline ::
    "(event_filter \<Rightarrow> 'e1 + (bid_event \<times> 'log) list) \<Rightarrow> system_time
      \<Rightarrow> (('e1, 'e2) auction_error + bid list) run" where
  "fetch_bids_for_deadline query deadline =
     map_ok (\<lambda>deadline_us.
       case query \<lparr>ef_topic1 = None, ef_topic3 = Some deadline_us, ef_to_latest = True\<rparr> of
         Inl e \<Rightarrow> Inl (FetchingBids e)
       | Inr found \<Rightarrow> traverse (\<lambda>el. Inr (bid_of_event el)) found)
       (micros_u256_from_system_time deadline)"

definition submit_bid ::
    "(submit_call \<Rightarrow> 'e1 + 'p) \<Rightarrow> ('p \<Rightarrow> 'e2 + 'r) \<Rightarrow> ('r \<Rightarrow> bool)
      \<Rightarrow> u256 \<Rightarrow> system_time \<Rightarrow> u256 \<Rightarrow> bytes \<Rightarrow> (('e1, 'e2) auction_error + 'r) run" where
  "submit_bid send get_receipt receipt_status auction_id deadline amount data =
     map_ok (\<lambda>d. and_then d (\<lambda>deadline_us.
       case send \<lparr>sc_auction_id = auction_id, sc_deadline = deadline_us, sc_value = amount,
                  sc_data = data, sc_max_priority_fee_per_gas = Some 0\<rparr> of
         Inl e \<Rightarrow> Inl (SendingBid e)
       | Inr pending_tx \<Rightarrow>
           (case get_receipt pending_tx of
              Inl e \<Rightarrow> Inl (AwaitingBid e)
            | Inr r \<Rightarrow> if receipt_status r then Inr r else Inl BidFailed)))
       (micros_u64_from_system_time deadline)"

section \<open>The watcher of an auction\<close>

datatype (plugins only: code) cli_error = DeadlineNotInFuture | ClockBeforeEpoch

text \<open>\<^verbatim>\<open>duration_since(UNIX_EPOCH)?.as_micros() as u64\<close>, and the check against it.\<close>

definition check_deadline :: "system_time \<Rightarrow> u64 \<Rightarrow> cli_error + unit" where
  "check_deadline clock deadline =
     (if clock < 0 then Inl ClockBeforeEpoch
      else if deadline \<le> ucast (word_of_int (clock div 1000) :: u128) then Inl DeadlineNotInFuture
      else Inr ())"

definition watch_filter :: "'fs \<Rightarrow> 'fs \<Rightarrow> hash \<Rightarrow> u256 \<Rightarrow> 'fs log_filter run" where
  "watch_filter no_address auction_address signature_hash auction_id =
     and_then (lfb_event_signature signature_hash (lfb_address auction_address (lfb_new no_address))) (\<lambda>b.
     map_ok lfb_build (lfb_topic1 auction_id b))"

text \<open>
  The log subscription task forwards what decodes, until the channel closes: the watcher
  takes \<open>taken\<close> messages before it drops its end.
\<close>

fun forward_logs ::
    "('log \<Rightarrow> bid_event option) \<Rightarrow> ('log \<Rightarrow> hash option) \<Rightarrow> nat \<Rightarrow> 'log list \<Rightarrow> (bid_event \<times> hash option) list" where
  "forward_logs decode tx_hash taken [] = []"
| "forward_logs decode tx_hash taken (l # ls) =
     (case decode l of
        None \<Rightarrow> forward_logs decode tx_hash taken ls
      | Some event \<Rightarrow>
          (case taken of
             0 \<Rightarrow> []
           | Suc t \<Rightarrow> (event, tx_hash l) # forward_logs decode tx_hash t ls))"

datatype (plugins only: code) 'e select_event =
    Received "(bid_event \<times> hash option) option"
  | DeadlineTask "('e + unit) option"

record watch_state =
  ws_highest_bid :: u256
  ws_highest_bidder :: address
  ws_processed :: "hash fset"
  ws_receiving :: bool

datatype (plugins only: code) watch_report = Winner address u256 | NoBids

datatype (plugins only: code) 'e watch_error = WaitFailed 'e | TaskFailed

definition watch_init :: watch_state where
  "watch_init = \<lparr>ws_highest_bid = 0, ws_highest_bidder = 0, ws_processed = {||}, ws_receiving = True\<rparr>"

definition handle_bid :: "bid_event \<Rightarrow> hash \<Rightarrow> watch_state \<Rightarrow> watch_state" where
  "handle_bid event tx_hash s =
     (if tx_hash |\<in>| ws_processed s then s
      else
        let s = s\<lparr>ws_processed := finsert tx_hash (ws_processed s)\<rparr>
        in if be_value event > ws_highest_bid s
           then s\<lparr>ws_highest_bid := be_value event, ws_highest_bidder := be_bidder event\<rparr>
           else s)"

definition report :: "watch_state \<Rightarrow> watch_report" where
  "report s = (if ws_highest_bid s > 0 then Winner (ws_highest_bidder s) (ws_highest_bid s) else NoBids)"

text \<open>\<open>None\<close>: the run ends while the watcher still waits.\<close>

fun watch_loop :: "'e select_event list \<Rightarrow> watch_state \<Rightarrow> ('e watch_error + watch_report) option" where
  "watch_loop [] s = None"
| "watch_loop (Received msg # evs) s =
     (if \<not> ws_receiving s then watch_loop evs s
      else case msg of
        Some (event, Some tx_hash) \<Rightarrow> watch_loop evs (handle_bid event tx_hash s)
      | _ \<Rightarrow> watch_loop evs (s\<lparr>ws_receiving := False\<rparr>))"
| "watch_loop (DeadlineTask result # evs) s =
     (case result of
        Some (Inr u) \<Rightarrow> Some (Inr (report s))
      | Some (Inl e) \<Rightarrow> Some (Inl (WaitFailed e))
      | None \<Rightarrow> Some (Inl TaskFailed))"

section \<open>The deadline of a block auction\<close>

text \<open>\<^verbatim>\<open>calculate_deadline_and_block_number\<close>, in seconds; \<open>None\<close> is its error.\<close>

definition calculate_deadline_and_block_number ::
    "system_time \<Rightarrow> u64 \<Rightarrow> u64 \<Rightarrow> (u64 \<times> u64) option run" where
  "calculate_deadline_and_block_number clock latest_timestamp latest_number =
     (let blocks_timestamp_even = (latest_timestamp mod 2 = 0);
          later = clock + 5 * 10 ^ 9
      in if later < 0 then Inr None
         else
           let secs = word_of_int (later div 10 ^ 9)
           in and_then (if blocks_timestamp_even then checked_add secs (secs mod 2)
                        else checked_add secs (1 - secs mod 2)) (\<lambda>deadline.
              and_then (checked_add deadline 2) (\<lambda>block_timestamp.
              and_then (checked_sub block_timestamp latest_timestamp) (\<lambda>ahead.
              and_then (checked_add latest_number (ahead div 2)) (\<lambda>block_number.
              Inr (Some (deadline, block_number)))))))"

text \<open>\<^verbatim>\<open>wait_for_block\<close>: the blocks the stream yields within the timeout.\<close>

fun wait_for_block :: "('e + u64) list \<Rightarrow> u64 \<Rightarrow> 'e option + unit" where
  "wait_for_block [] block_number = Inl None"
| "wait_for_block (block # blocks) block_number =
     (case block of
        Inl e \<Rightarrow> Inl (Some e)
      | Inr number \<Rightarrow> if number = block_number then Inr () else wait_for_block blocks block_number)"

section \<open>The bids that count\<close>

text \<open>The first bid of every transaction, and the abstract outcome over a list of bids.\<close>

fun first_bids :: "hash fset \<Rightarrow> (bid_event \<times> hash) list \<Rightarrow> bid_event list" where
  "first_bids seen [] = []"
| "first_bids seen ((b, h) # bs) =
     (if h |\<in>| seen then first_bids seen bs else b # first_bids (finsert h seen) bs)"

definition highest :: "bid_event list \<Rightarrow> u256" where
  "highest bs = Max (insert 0 (be_value ` set bs))"

definition best_bid :: "bid_event list \<Rightarrow> watch_report" where
  "best_bid bs =
     (if highest bs = 0 then NoBids
      else Winner (be_bidder (the (find (\<lambda>b. be_value b = highest bs) bs))) (highest bs))"

abbreviation received :: "bid_event \<times> hash \<Rightarrow> 'e select_event" where
  "received m \<equiv> Received (Some (fst m, Some (snd m)))"

definition take_bid :: "bid_event \<Rightarrow> u256 \<times> address \<Rightarrow> u256 \<times> address" where
  "take_bid b best = (if be_value b > fst best then (be_value b, be_bidder b) else best)"

lemma handle_bid_receiving [simp]: "ws_receiving (handle_bid b h s) = ws_receiving s"
  by (simp add: handle_bid_def Let_def)

lemma watch_loop_bids:
  "ws_receiving s \<Longrightarrow> watch_loop (map received ms @ rest) s
     = watch_loop rest (fold (\<lambda>m. handle_bid (fst m) (snd m)) ms s)"
  by (induction ms arbitrary: s) simp_all

lemma fold_handle_bid:
  "(ws_highest_bid (fold (\<lambda>m. handle_bid (fst m) (snd m)) ms s),
    ws_highest_bidder (fold (\<lambda>m. handle_bid (fst m) (snd m)) ms s))
   = fold take_bid (first_bids (ws_processed s) ms) (ws_highest_bid s, ws_highest_bidder s)"
proof (induction ms arbitrary: s)
  case Nil
  then show ?case by simp
next
  case (Cons m ms)
  then show ?case
    using Cons.IH [of "handle_bid (fst m) (snd m) s"]
    by (cases m) (auto simp: handle_bid_def take_bid_def Let_def)
qed

lemma highest_snoc: "highest (bs @ [b]) = max (highest bs) (be_value b)"
proof -
  have "insert 0 (be_value ` set (bs @ [b])) = insert (be_value b) (insert 0 (be_value ` set bs))"
    by auto
  then show ?thesis
    unfolding highest_def by (simp only: Max_insert finite_insert finite_imageI finite_set
        insert_not_empty max.commute simp_thms not_False_eq_True)
qed

lemma highest_in: "highest bs \<noteq> 0 \<Longrightarrow> \<exists>b \<in> set bs. be_value b = highest bs"
proof -
  assume "highest bs \<noteq> 0"
  moreover have "highest bs \<in> insert 0 (be_value ` set bs)" unfolding highest_def by (rule Max_in) auto
  ultimately show ?thesis by auto
qed

lemma find_append: "find P (xs @ ys) = (case find P xs of None \<Rightarrow> find P ys | Some x \<Rightarrow> Some x)"
  by (induction xs) auto

lemma value_le_highest: "b \<in> set bs \<Longrightarrow> be_value b \<le> highest bs"
  unfolding highest_def by (rule Max_ge) auto

lemma fold_take_bid:
  "fst (fold take_bid bs (0, 0)) = highest bs
   \<and> (highest bs \<noteq> 0 \<longrightarrow>
        snd (fold take_bid bs (0, 0)) = be_bidder (the (find (\<lambda>b. be_value b = highest bs) bs)))"
proof (induction bs rule: rev_induct)
  case Nil
  then show ?case by (simp add: highest_def)
next
  case (snoc b bs)
  show ?case
  proof (cases "be_value b > highest bs")
    case True
    have "find (\<lambda>x. be_value x = be_value b) bs = None"
      using True value_le_highest [of _ bs] by (fastforce simp: find_None_iff)
    moreover have h: "highest (bs @ [b]) = be_value b"
      using True by (simp add: highest_snoc max_def less_imp_le)
    ultimately show ?thesis unfolding h using snoc.IH True by (simp add: take_bid_def find_append)
  next
    case False
    then have h: "highest (bs @ [b]) = highest bs" by (simp add: highest_snoc max_def not_less)
    have "\<exists>x. find (\<lambda>b. be_value b = highest bs) bs = Some x" if "highest bs \<noteq> 0"
      using highest_in [OF that] by (auto simp: find_Some_iff2 find_None_iff not_None_eq [symmetric])
    then show ?thesis
      unfolding h using snoc.IH False by (auto simp: take_bid_def find_append)
  qed
qed

lemma report_fold:
  "report (fold (\<lambda>m. handle_bid (fst m) (snd m)) ms watch_init) = best_bid (first_bids {||} ms)"
  using fold_handle_bid [of ms watch_init] fold_take_bid [of "first_bids {||} ms"]
  by (auto simp: report_def best_bid_def watch_init_def word_gt_0 prod_eq_iff)

lemma watch_init_receiving [simp]: "ws_receiving watch_init"
  by (simp add: watch_init_def)

lemma fold_handle_receiving [simp]:
  "ws_receiving (fold (\<lambda>m. handle_bid (fst m) (snd m)) ms s) = ws_receiving s"
  by (induction ms arbitrary: s) simp_all

lemma watch_loop_not_receiving:
  "\<not> ws_receiving s \<Longrightarrow> watch_loop (map received ms @ rest) s = watch_loop rest s"
  by (induction ms) simp_all

section \<open>Properties\<close>

text \<open>
  C18. The watcher's result: when all messages carry their transaction's hash and the wait
  for the deadline succeeds, it reports the highest value among the first bids of each
  transaction, with the bidder who reached it first, or that there were no bids if no value
  is positive.
\<close>

theorem watch_reports_best:
  "watch_loop (map received ms @ [DeadlineTask (Some (Inr ()))]) watch_init
     = Some (Inr (best_bid (first_bids {||} ms)))"
  by (simp add: watch_loop_bids report_fold)

text \<open>
  Bids that the watcher misses: of two bids placed by one transaction the second never
  counts, however high; and once a message without a transaction hash was received, no
  later bid counts at all, because its branch stays disabled until the deadline.
\<close>

theorem watch_misses_bids:
  "watch_loop (map received [(b, h), (b', h)] @ [DeadlineTask (Some (Inr ()))]) watch_init
     = Some (Inr (best_bid [b]))"
  "watch_loop (map received ms @ Received (Some (b, None)) # map received late @ [DeadlineTask (Some (Inr ()))]) watch_init
     = Some (Inr (best_bid (first_bids {||} ms)))"
proof -
  show "watch_loop (map received [(b, h), (b', h)] @ [DeadlineTask (Some (Inr ()))]) watch_init
     = Some (Inr (best_bid [b]))"
    by (simp only: watch_loop_bids watch_init_receiving report_fold watch_loop.simps option.case sum.case)
       simp
  let ?s = "fold (\<lambda>m. handle_bid (fst m) (snd m)) ms watch_init"
  have "report (?s\<lparr>ws_receiving := False\<rparr>) = report ?s" by (simp add: report_def)
  then show "watch_loop (map received ms @ Received (Some (b, None)) # map received late
      @ [DeadlineTask (Some (Inr ()))]) watch_init = Some (Inr (best_bid (first_bids {||} ms)))"
    by (simp add: watch_loop_bids report_fold watch_loop_not_receiving)
qed

lemma ucast_through_u64:
  "unat (us :: u128) < 2 ^ 64 \<Longrightarrow> (ucast (ucast us :: u64) :: u256) = ucast us"
proof -
  assume "unat us < 2 ^ 64"
  then have "unat (ucast us :: u64) = unat us" by (simp add: unat_ucast)
  then have "unat (ucast (ucast us :: u64) :: u256) = unat (ucast us :: u256)"
    by (subst (1 2) unat_ucast_widen) simp_all
  then show ?thesis by (simp only: word_unat_eq_iff)
qed

text \<open>
  A bid is reported as submitted exactly when the deadline fits 64 bits of
  microseconds, the transaction with that deadline was sent without a tip, and its receipt
  arrived with a successful status.  The deadline sent is the one by which
  \<^verbatim>\<open>fetch_bids_for_deadline\<close> asks for bids.
\<close>

theorem submit_bid_spec:
  "submit_bid send get_receipt ok auction_id deadline amount data = Inr (Inr r) \<longleftrightarrow>
     (\<exists>us p. micros_from_system_time deadline = Inr us \<and> unat us < 2 ^ 64
        \<and> send \<lparr>sc_auction_id = auction_id, sc_deadline = ucast us, sc_value = amount, sc_data = data,
               sc_max_priority_fee_per_gas = Some 0\<rparr> = Inr p
        \<and> get_receipt p = Inr r \<and> ok r
        \<and> micros_u256_from_system_time deadline = Inr (ucast (ucast us :: u64)))"
proof (cases "micros_from_system_time deadline")
  case (Inr us)
  then show ?thesis
    by (auto simp: submit_bid_def micros_u64_from_system_time_def micros_u256_from_system_time_def
        ucast_through_u64 split: sum.splits if_splits)
qed (simp add: submit_bid_def micros_u64_from_system_time_def)

lemma checked_add_nat:
  "unat a + unat b < 2 ^ LENGTH('a) \<Longrightarrow>
   \<exists>c. checked_add a b = Inr (c :: 'a::len word) \<and> unat c = unat a + unat b"
  by (simp add: checked_add_def unat_word_ariths)

lemma deadline_parity:
  fixes secs :: u64
  assumes "unat secs < 2 ^ 62"
  shows "\<exists>d. (if ts mod 2 = (0 :: u64) then checked_add secs (secs mod 2)
              else checked_add secs (1 - secs mod 2)) = Inr d
    \<and> unat d mod 2 = unat ts mod 2 \<and> unat secs \<le> unat d \<and> unat d \<le> unat secs + 1"
proof -
  have r: "unat (secs mod 2) = unat secs mod 2" "unat (ts mod 2) = unat ts mod 2"
    by (simp_all add: unat_mod)
  have le: "secs mod 2 \<le> 1" by (simp add: word_le_nat_alt r)
  have m: "unat (1 - secs mod 2) = 1 - unat secs mod 2"
    using unat_sub [OF le] by (simp add: r)
  have even: "ts mod 2 = 0 \<longleftrightarrow> unat ts mod 2 = 0"
    using r(2) by (simp add: word_unat_eq_iff)
  obtain d0 where d0: "checked_add secs (secs mod 2) = Inr d0" "unat d0 = unat secs + unat secs mod 2"
    using checked_add_nat [of secs "secs mod 2"] assms r by force
  obtain d1 where d1: "checked_add secs (1 - secs mod 2) = Inr d1" "unat d1 = unat secs + (1 - unat secs mod 2)"
    using checked_add_nat [of secs "1 - secs mod 2"] assms m by force
  have bit: "n mod 2 = 0 \<or> n mod 2 = 1" for n :: nat by auto
  have p0: "(n + n mod 2) mod 2 = 0" and p1: "(n + (1 - n mod 2)) mod 2 = 1" for n :: nat
    using bit [of n] by presburger+
  show ?thesis
  proof (cases "ts mod 2 = 0")
    case True
    then show ?thesis using d0 even p0 [of "unat secs"] by simp
  next
    case False
    then have "unat ts mod 2 = 1" using even by auto
    then show ?thesis using False d1 p1 [of "unat secs"] by simp
  qed
qed

text \<open>The block built at \<open>bt\<close>, two seconds after the deadline, counted from the latest one.\<close>

lemma block_at_deadline:
  fixes bt ts n d :: u64
  assumes "unat bt = unat d + 2" "unat d mod 2 = unat ts mod 2" "unat d < 2 ^ 63" "unat n < 2 ^ 62"
  shows "if unat d + 2 < unat ts
    then and_then (checked_sub bt ts) (\<lambda>ahead. and_then (checked_add n (ahead div 2)) (\<lambda>b. Inr (Some (d, b))))
      = Inl ArithmeticOverflow
    else \<exists>b. and_then (checked_sub bt ts) (\<lambda>ahead. and_then (checked_add n (ahead div 2)) (\<lambda>b. Inr (Some (d, b))))
        = Inr (Some (d, b)) \<and> unat n \<le> unat b \<and> unat ts + 2 * (unat b - unat n) = unat d + 2"
proof (cases "unat d + 2 < unat ts")
  case True
  then have "\<not> ts \<le> bt" using assms(1) by (simp add: word_le_nat_alt)
  then show ?thesis using True by (simp add: checked_sub_def)
next
  case False
  then have le: "ts \<le> bt" using assms(1) by (simp add: word_le_nat_alt)
  have ahead: "unat (bt - ts) = unat d + 2 - unat ts" using unat_sub [OF le] assms(1) by simp
  have "unat (bt - ts) div 2 < 2 ^ 62 + 2" using ahead assms(3) by simp
  then obtain b where b: "checked_add n ((bt - ts) div 2) = Inr b" "unat b = unat n + (unat d + 2 - unat ts) div 2"
    using checked_add_nat [of n "(bt - ts) div 2"] assms(4) ahead by (force simp: unat_div)
  have "2 * ((unat d + 2 - unat ts) div 2) = unat d + 2 - unat ts"
    using assms(2) False by presburger
  then show ?thesis using False b le by (simp add: checked_sub_def)
qed

lemma deadline_ahead:
  fixes clock :: int and d :: nat
  assumes "0 \<le> clock" "nat (clock div 10 ^ 9) + 5 \<le> d" "d \<le> nat (clock div 10 ^ 9) + 6"
  shows "clock + 4 * 10 ^ 9 < int d * 10 ^ 9 \<and> int d * 10 ^ 9 \<le> clock + 6 * 10 ^ 9"
proof -
  obtain q r where "int q = clock div 10 ^ 9" "r = clock mod 10 ^ 9" 
    using assms(1) by (metis zero_le_imp_eq_int div_int_pos_iff zero_le_power zero_le_numeral)
  then have "clock = int q * 10 ^ 9 + r" "0 \<le> r" "r < 10 ^ 9" "int q + 5 \<le> int d" "int d \<le> int q + 6"
    using assms by simp_all
  then show ?thesis by simp
qed

text \<open>
  C33. The deadline of a block auction: it has the parity of the latest block's timestamp,
  lies five to six seconds after the second the clock is in, so more than four and at most six
  seconds ahead of the clock, and the block number is that of the block built exactly two seconds
  after it, counting two seconds per block.  It panics on a latest block from the future, later
  than two seconds past the deadline.
\<close>

theorem deadline_and_block_number:
  assumes "0 \<le> clock" "clock < 10 ^ 27" "unat n < 2 ^ 62"
  shows "\<exists>d. unat d mod 2 = unat ts mod 2
    \<and> nat (clock div 10 ^ 9) + 5 \<le> unat d \<and> unat d \<le> nat (clock div 10 ^ 9) + 6
    \<and> clock + 4 * 10 ^ 9 < int (unat d) * 10 ^ 9 \<and> int (unat d) * 10 ^ 9 \<le> clock + 6 * 10 ^ 9
    \<and> (if unat d + 2 < unat ts then calculate_deadline_and_block_number clock ts n = Inl ArithmeticOverflow
       else \<exists>b. calculate_deadline_and_block_number clock ts n = Inr (Some (d, b))
          \<and> unat n \<le> unat b \<and> unat ts + 2 * (unat b - unat n) = unat d + 2)"
proof -
  define secs :: u64 where "secs = word_of_int ((clock + 5 * 10 ^ 9) div 10 ^ 9)"
  have i: "(clock + 5 * 10 ^ 9) div 10 ^ 9 = clock div 10 ^ 9 + 5" by simp
  have c: "0 \<le> clock div 10 ^ 9" "clock div 10 ^ 9 < 10 ^ 18" using assms(1,2) by auto
  have "uint secs = clock div 10 ^ 9 + 5"
    using c unfolding secs_def i uint_word_of_int by simp
  then have secs: "unat secs = nat (clock div 10 ^ 9) + 5" using c(1) by (simp add: unat_eq_nat_uint nat_add_distrib)
  have "nat (clock div 10 ^ 9) < 10 ^ 18" using c by simp
  then have lt: "unat secs < 2 ^ 62" using secs by simp
  from deadline_parity [OF lt, of ts] obtain d where
    d: "(if ts mod 2 = 0 then checked_add secs (secs mod 2) else checked_add secs (1 - secs mod 2)) = Inr d"
    "unat d mod 2 = unat ts mod 2" "unat secs \<le> unat d" "unat d \<le> unat secs + 1" by blast
  obtain bt where bt: "checked_add d 2 = Inr bt" "unat bt = unat d + 2"
    using checked_add_nat [of d 2] d(4) lt by force
  have calc: "calculate_deadline_and_block_number clock ts n =
      and_then (checked_sub bt ts) (\<lambda>ahead. and_then (checked_add n (ahead div 2)) (\<lambda>b. Inr (Some (d, b))))"
    using assms(1) bt(1)
    unfolding calculate_deadline_and_block_number_def Let_def secs_def [symmetric] d(1) by simp
  show ?thesis
  proof (intro exI [of _ d] conjI d(2))
    show s: "nat (clock div 10 ^ 9) + 5 \<le> unat d" "unat d \<le> nat (clock div 10 ^ 9) + 6" using secs d(3,4) by simp_all
    show "clock + 4 * 10 ^ 9 < int (unat d) * 10 ^ 9" "int (unat d) * 10 ^ 9 \<le> clock + 6 * 10 ^ 9"
      using deadline_ahead [OF assms(1) s] by blast+
    show "if unat d + 2 < unat ts then calculate_deadline_and_block_number clock ts n = Inl ArithmeticOverflow
       else \<exists>b. calculate_deadline_and_block_number clock ts n = Inr (Some (d, b))
          \<and> unat n \<le> unat b \<and> unat ts + 2 * (unat b - unat n) = unat d + 2"
      unfolding calc by (rule block_at_deadline) (use bt d(2,4) lt assms(3) in simp_all)
  qed
qed

theorem deadline_and_block_number_witness:
  "\<exists>d b. calculate_deadline_and_block_number 1742493092123456789 1742493091 100 = Inr (Some (d, b))
     \<and> unat d = 1742493097 \<and> unat b = 104"
proof -
  have "\<exists>d :: u64. unat d mod 2 = unat (1742493091 :: u64) mod 2
      \<and> nat (1742493092123456789 div 10 ^ 9) + 5 \<le> unat d \<and> unat d \<le> nat (1742493092123456789 div 10 ^ 9) + 6
      \<and> (1742493092123456789 :: int) + 4 * 10 ^ 9 < int (unat d) * 10 ^ 9
      \<and> int (unat d) * 10 ^ 9 \<le> 1742493092123456789 + 6 * 10 ^ 9
      \<and> (if unat d + 2 < unat (1742493091 :: u64)
         then calculate_deadline_and_block_number 1742493092123456789 1742493091 100 = Inl ArithmeticOverflow
         else \<exists>b. calculate_deadline_and_block_number 1742493092123456789 1742493091 100 = Inr (Some (d, b))
           \<and> unat (100 :: u64) \<le> unat b
           \<and> unat (1742493091 :: u64) + 2 * (unat b - unat (100 :: u64)) = unat d + 2)"
    by (rule deadline_and_block_number) simp_all
  then obtain d :: u64 where d: "unat d mod 2 = 1" "1742493097 \<le> unat d" "unat d \<le> 1742493098"
    "\<exists>b. calculate_deadline_and_block_number 1742493092123456789 1742493091 100 = Inr (Some (d, b))
       \<and> 100 \<le> unat b \<and> 1742493091 + 2 * (unat b - 100) = unat d + 2"
    by (auto split: if_splits)
  then have "unat d = 1742493097" by presburger
  with d(4) show ?thesis by force
qed

end
