(* ===== verification/Auction_System.thy ===== *)
theory Auction_System
  imports Auction
begin

text \<open>
  The three concurrent tasks of \<^verbatim>\<open>watch\<close> in \<^verbatim>\<open>examples/auction/main.rs\<close> as
  a step relation: the task that forwards decoded logs into a bounded channel, the task that
  waits for the deadline, and the loop that receives bids until the deadline.  Any
  interleaving is possible; \<^verbatim>\<open>tokio::select!\<close> prefers no branch.  Every execution
  refines the sequential watcher \<open>watch_loop\<close> on what it happened to receive.
\<close>

section \<open>The system\<close>

definition channel_capacity :: nat where
  "channel_capacity = 100"

record ('log, 'e) auction_sys =
  as_stream :: "'log list"
  as_task_running :: bool
  as_channel :: "(bid_event \<times> hash option) list"
  as_watch :: watch_state
  as_result :: "('e watch_error + watch_report) option"

definition auction_init :: "'log list \<Rightarrow> ('log, 'e) auction_sys" where
  "auction_init stream =
     \<lparr>as_stream = stream, as_task_running = True, as_channel = [], as_watch = watch_init, as_result = None\<rparr>"

text \<open>
  What a receive does.  A message without a transaction hash, or a closed channel, does not
  match the branch's pattern and disables it until the deadline.
\<close>

definition watch_receive :: "(bid_event \<times> hash option) option \<Rightarrow> watch_state \<Rightarrow> watch_state" where
  "watch_receive msg s =
     (case msg of
        Some (event, Some tx_hash) \<Rightarrow> handle_bid event tx_hash s
      | _ \<Rightarrow> s\<lparr>ws_receiving := False\<rparr>)"

definition deadline_result :: "('e + unit) option \<Rightarrow> watch_state \<Rightarrow> 'e watch_error + watch_report" where
  "deadline_result result s =
     (case result of
        Some (Inr u) \<Rightarrow> Inr (report s)
      | Some (Inl e) \<Rightarrow> Inl (WaitFailed e)
      | None \<Rightarrow> Inl TaskFailed)"

text \<open>
  The forwarding task waits while the channel is full; it ends with the stream, and the
  channel closes.  When the loop has ended the task is aborted.
\<close>

inductive auction_step ::
    "('log \<Rightarrow> bid_event option) \<Rightarrow> ('log \<Rightarrow> hash option)
      \<Rightarrow> ('log, 'e) auction_sys \<Rightarrow> ('log, 'e) auction_sys \<Rightarrow> bool"
  for decode :: "'log \<Rightarrow> bid_event option" and tx_hash :: "'log \<Rightarrow> hash option" where
  skip_log: "\<lbrakk>as_result s = None; as_task_running s; as_stream s = l # ls; decode l = None\<rbrakk>
    \<Longrightarrow> auction_step decode tx_hash s (s\<lparr>as_stream := ls\<rparr>)"
| send_bid: "\<lbrakk>as_result s = None; as_task_running s; as_stream s = l # ls; decode l = Some event;
      length (as_channel s) < channel_capacity\<rbrakk>
    \<Longrightarrow> auction_step decode tx_hash s
          (s\<lparr>as_stream := ls, as_channel := as_channel s @ [(event, tx_hash l)]\<rparr>)"
| stream_ends: "\<lbrakk>as_result s = None; as_task_running s; as_stream s = []\<rbrakk>
    \<Longrightarrow> auction_step decode tx_hash s (s\<lparr>as_task_running := False\<rparr>)"
| receive_bid: "\<lbrakk>as_result s = None; ws_receiving (as_watch s); as_channel s = m # ms\<rbrakk>
    \<Longrightarrow> auction_step decode tx_hash s
          (s\<lparr>as_channel := ms, as_watch := watch_receive (Some m) (as_watch s)\<rparr>)"
| receive_closed: "\<lbrakk>as_result s = None; ws_receiving (as_watch s); as_channel s = []; \<not> as_task_running s\<rbrakk>
    \<Longrightarrow> auction_step decode tx_hash s (s\<lparr>as_watch := watch_receive None (as_watch s)\<rparr>)"
| deadline: "as_result s = None
    \<Longrightarrow> auction_step decode tx_hash s (s\<lparr>as_result := Some (deadline_result result (as_watch s))\<rparr>)"

inductive_cases auction_stepE: "auction_step decode tx_hash s s'"

inductive_simps auction_step_finished: "auction_step decode tx_hash (s\<lparr>as_result := Some r\<rparr>) s'"

section \<open>The messages of a stream\<close>

definition messages :: "('log \<Rightarrow> bid_event option) \<Rightarrow> ('log \<Rightarrow> hash option) \<Rightarrow> 'log list
      \<Rightarrow> (bid_event \<times> hash option) list" where
  "messages decode tx_hash ls =
     concat (map (\<lambda>l. case decode l of None \<Rightarrow> [] | Some event \<Rightarrow> [(event, tx_hash l)]) ls)"

lemma messages_simps [simp]:
  "messages decode tx_hash [] = []"
  "decode l = None \<Longrightarrow> messages decode tx_hash (l # ls) = messages decode tx_hash ls"
  "decode l = Some event \<Longrightarrow> messages decode tx_hash (l # ls) = (event, tx_hash l) # messages decode tx_hash ls"
  by (simp_all add: messages_def)

text \<open>The forwarding task of the sequential model forwards these messages.\<close>

lemma forward_logs_messages:
  "forward_logs decode tx_hash n ls = take n (messages decode tx_hash ls)"
proof (induction ls arbitrary: n)
  case (Cons l ls)
  then show ?case by (cases "decode l"; cases n) simp_all
qed simp

section \<open>The invariant\<close>

text \<open>
  Received, queued and still outstanding messages are those of the stream, in its order, and
  the watcher's state is what the received ones make of the initial one.
\<close>

definition flow :: "('log \<Rightarrow> bid_event option) \<Rightarrow> ('log \<Rightarrow> hash option) \<Rightarrow> 'log list
      \<Rightarrow> (bid_event \<times> hash option) option list \<Rightarrow> ('log, 'e) auction_sys \<Rightarrow> bool" where
  "flow decode tx_hash stream got s \<longleftrightarrow>
     messages decode tx_hash stream
       = map the (filter (\<lambda>m. m \<noteq> None) got) @ as_channel s @ messages decode tx_hash (as_stream s)
     \<and> length (as_channel s) \<le> channel_capacity
     \<and> as_watch s = fold watch_receive got watch_init
     \<and> (\<forall>k < length got. ws_receiving (fold watch_receive (take k got) watch_init))"

lemma flow_step:
  assumes "auction_step decode tx_hash s s'" "flow decode tx_hash stream got s"
  shows "\<exists>got'. flow decode tx_hash stream got' s'"
proof -
  have received: "flow decode tx_hash stream (got @ [m]) t"
    if "ws_receiving (as_watch s)" "as_watch t = watch_receive m (as_watch s)" "as_stream t = as_stream s"
      "length (as_channel t) \<le> channel_capacity"
      "messages decode tx_hash stream
        = map the (filter (\<lambda>m. m \<noteq> None) (got @ [m])) @ as_channel t @ messages decode tx_hash (as_stream s)" for m t
    using assms(2) that by (auto simp: flow_def less_Suc_eq)
  from assms(1) show ?thesis
  proof cases
    case (receive_bid m ms)
    then have "flow decode tx_hash stream (got @ [Some m]) s'"
      using assms(2) by (intro received) (auto simp: flow_def)
    then show ?thesis ..
  next
    case receive_closed
    then have "flow decode tx_hash stream (got @ [None]) s'"
      using assms(2) by (intro received) (auto simp: flow_def)
    then show ?thesis ..
  qed (use assms(2) in \<open>auto simp: flow_def\<close>)
qed

lemma flow_reachable:
  assumes "(auction_step decode tx_hash)\<^sup>*\<^sup>* (auction_init stream) s"
  shows "\<exists>got. flow decode tx_hash stream got s"
  using assms
proof (induction rule: rtranclp_induct)
  case base
  have "flow decode tx_hash stream [] (auction_init stream)"
    by (simp add: flow_def auction_init_def)
  then show ?case ..
next
  case (step s s')
  then show ?case using flow_step by blast
qed

lemma result_reachable:
  assumes "(auction_step decode tx_hash)\<^sup>*\<^sup>* (auction_init stream) s" "as_result s = Some r"
  shows "\<exists>result. r = deadline_result result (as_watch s)"
  using assms
proof (induction arbitrary: r rule: rtranclp_induct)
  case base
  then show ?case by (simp add: auction_init_def)
next
  case (step s s')
  from step.hyps(2) step.prems show ?case by (cases rule: auction_stepE) auto
qed

section \<open>Received messages and the sequential watcher\<close>

lemma watch_loop_receive:
  "ws_receiving w \<Longrightarrow> watch_loop (Received m # evs) w = watch_loop evs (watch_receive m w)"
  by (simp add: watch_receive_def split: option.split prod.split)

lemma watch_loop_received:
  "\<forall>k < length got. ws_receiving (fold watch_receive (take k got) w) \<Longrightarrow>
   watch_loop (map Received got @ evs) w = watch_loop evs (fold watch_receive got w)"
proof (induction got arbitrary: w)
  case (Cons m got)
  have w: "ws_receiving w" using Cons.prems by (auto dest: spec [of _ 0])
  have "\<forall>k < length got. ws_receiving (fold watch_receive (take k got) (watch_receive m w))"
    using Cons.prems by (auto dest: spec [of _ "Suc k" for k])
  from Cons.IH [OF this] show ?case by (simp add: watch_loop_receive [OF w] del: watch_loop.simps)
qed simp

lemma watch_loop_deadline: "watch_loop [DeadlineTask result] w = Some (deadline_result result w)"
  by (simp add: deadline_result_def split: option.split sum.split)

text \<open>The watcher's report counts the messages received before one without a hash.\<close>

definition with_hash :: "bid_event \<times> hash \<Rightarrow> bid_event \<times> hash option" where
  "with_hash m = (fst m, Some (snd m))"

lemma received_bids:
  "\<forall>k < length got. ws_receiving (fold watch_receive (take k got) w) \<Longrightarrow>
   \<exists>ms rest. map the (filter (\<lambda>m. m \<noteq> None) got) = map with_hash ms @ rest
     \<and> report (fold watch_receive got w) = report (fold (\<lambda>m. handle_bid (fst m) (snd m)) ms w)"
proof (induction got arbitrary: w)
  case (Cons m got)
  have later: "\<forall>k < length got. ws_receiving (fold watch_receive (take k got) (watch_receive m w))"
    using Cons.prems by (auto dest: spec [of _ "Suc k" for k])
  show ?case
  proof (cases "\<exists>event h. m = Some (event, Some h)")
    case True
    then obtain event h where m: "m = Some (event, Some h)" by blast
    from Cons.IH [OF later] obtain ms rest where
      "map the (filter (\<lambda>m. m \<noteq> None) got) = map with_hash ms @ rest"
      "report (fold watch_receive got (watch_receive m w))
        = report (fold (\<lambda>m. handle_bid (fst m) (snd m)) ms (watch_receive m w))" by blast
    moreover have "watch_receive m w = handle_bid event h w" by (simp add: m watch_receive_def)
    ultimately show ?thesis
      by (intro exI [of _ "(event, h) # ms"] exI [of _ rest]) (simp add: m with_hash_def)
  next
    case False
    then have stop: "watch_receive m w = w\<lparr>ws_receiving := False\<rparr>"
      by (auto simp: watch_receive_def split: option.split)
    have "got = []" using later by (cases got) (auto simp: stop dest: spec [of _ 0])
    then show ?thesis
      by (intro exI [of _ "[]"] exI [of _ "map the (filter (\<lambda>m. m \<noteq> None) [m])"]) (simp add: stop report_def)
  qed
qed simp

section \<open>A schedule for every prefix\<close>

lemma deliver_all:
  "\<lbrakk>as_result s = None; as_task_running s;
    length (as_channel s) + length (messages decode tx_hash (as_stream s)) \<le> channel_capacity\<rbrakk> \<Longrightarrow>
   (auction_step decode tx_hash)\<^sup>*\<^sup>* s
     (s\<lparr>as_stream := [], as_channel := as_channel s @ messages decode tx_hash (as_stream s)\<rparr>)"
proof (induction "as_stream s" arbitrary: s)
  case Nil
  then have "s\<lparr>as_stream := [], as_channel := as_channel s @ messages decode tx_hash (as_stream s)\<rparr> = s"
    by (cases s) simp
  then show ?case by simp
next
  case (Cons l ls)
  note stream = Cons.hyps(2) [symmetric]
  show ?case
  proof (cases "decode l")
    case None
    have "auction_step decode tx_hash s (s\<lparr>as_stream := ls\<rparr>)"
      using Cons.prems stream None by (intro skip_log)
    moreover have "(auction_step decode tx_hash)\<^sup>*\<^sup>* (s\<lparr>as_stream := ls\<rparr>)
        (s\<lparr>as_stream := [], as_channel := as_channel s @ messages decode tx_hash (as_stream s)\<rparr>)"
      using Cons.hyps(1) [of "s\<lparr>as_stream := ls\<rparr>"] Cons.prems stream None by simp
    ultimately show ?thesis by (rule converse_rtranclp_into_rtranclp)
  next
    case (Some event)
    let ?t = "s\<lparr>as_stream := ls, as_channel := as_channel s @ [(event, tx_hash l)]\<rparr>"
    have "auction_step decode tx_hash s ?t"
      using Cons.prems stream Some by (intro send_bid) simp_all
    moreover have "(auction_step decode tx_hash)\<^sup>*\<^sup>* ?t
        (s\<lparr>as_stream := [], as_channel := as_channel s @ messages decode tx_hash (as_stream s)\<rparr>)"
      using Cons.hyps(1) [of ?t] Cons.prems stream Some by simp
    ultimately show ?thesis by (rule converse_rtranclp_into_rtranclp)
  qed
qed

lemma serve_first:
  "\<lbrakk>as_result s = None; as_task_running s; ws_receiving (as_watch s); as_channel s = [];
    messages decode tx_hash (as_stream s) = map with_hash ms @ rest\<rbrakk> \<Longrightarrow>
   \<exists>ls. messages decode tx_hash ls = rest \<and> (auction_step decode tx_hash)\<^sup>*\<^sup>* s
     (s\<lparr>as_stream := ls, as_watch := fold (\<lambda>m. handle_bid (fst m) (snd m)) ms (as_watch s)\<rparr>)"
proof (induction "as_stream s" arbitrary: s ms)
  case Nil
  then have "ms = []" "rest = []" "s\<lparr>as_stream := []\<rparr> = s" by (cases s; simp)+
  then show ?case by (intro exI [of _ "[]"]) simp
next
  case (Cons l ls)
  note stream = Cons.hyps(2) [symmetric]
  show ?case
  proof (cases "decode l")
    case None
    let ?t = "s\<lparr>as_stream := ls\<rparr>"
    have "auction_step decode tx_hash s ?t" using Cons.prems stream None by (intro skip_log)
    with Cons.hyps(1) [of ?t ms] Cons.prems stream None show ?thesis
      by (auto intro: converse_rtranclp_into_rtranclp)
  next
    case (Some event)
    show ?thesis
    proof (cases ms)
      case Nil
      then show ?thesis using Cons.prems(5) by (intro exI [of _ "as_stream s"]) simp
    next
      case (Cons m ms')
      let ?t = "s\<lparr>as_stream := ls, as_channel := [with_hash m]\<rparr>"
      let ?u = "s\<lparr>as_stream := ls, as_watch := handle_bid (fst m) (snd m) (as_watch s)\<rparr>"
      have m: "(event, tx_hash l) = with_hash m" "messages decode tx_hash ls = map with_hash ms' @ rest"
        using Cons.prems(5) stream Some Cons by simp_all
      have "auction_step decode tx_hash s ?t"
        using send_bid [of s l ls decode event tx_hash] Cons.prems stream Some m(1) by (simp add: channel_capacity_def)
      moreover have "auction_step decode tx_hash ?t ?u"
        using receive_bid [of ?t "with_hash m" "[]" decode tx_hash] Cons.prems
        by (cases s) (simp add: watch_receive_def with_hash_def)
      moreover obtain ls' where "messages decode tx_hash ls' = rest" "(auction_step decode tx_hash)\<^sup>*\<^sup>* ?u
          (?u\<lparr>as_stream := ls', as_watch := fold (\<lambda>m. handle_bid (fst m) (snd m)) ms' (as_watch ?u)\<rparr>)"
        using Cons.hyps(1) [of ?u ms'] Cons.prems m(2) by auto
      ultimately show ?thesis
        using Cons by (intro exI [of _ ls']) (simp add: converse_rtranclp_into_rtranclp)
    qed
  qed
qed

section \<open>Properties\<close>

text \<open>The bids with a hash that come before the first message without one.\<close>

definition hashed_bids :: "(bid_event \<times> hash option) list \<Rightarrow> (bid_event \<times> hash) list" where
  "hashed_bids msgs = map (\<lambda>m. (fst m, the (snd m))) (takeWhile (\<lambda>m. snd m \<noteq> None) msgs)"

lemma hashed_bids_prefix: "take (length ms) (hashed_bids (map with_hash ms @ rest)) = ms"
proof -
  have "takeWhile (\<lambda>m. snd m \<noteq> None) (map with_hash ms @ rest)
      = map with_hash ms @ takeWhile (\<lambda>m. snd m \<noteq> None) rest"
    by (rule takeWhile_append2) (auto simp: with_hash_def)
  then show ?thesis by (simp add: hashed_bids_def with_hash_def comp_def)
qed

lemma with_hash_hashed_bids:
  "\<forall>m \<in> set msgs. snd m \<noteq> None \<Longrightarrow> map with_hash (hashed_bids msgs) = msgs"
  by (induction msgs) (auto simp: hashed_bids_def with_hash_def)

lemma hashed_bids_append:
  "\<forall>m \<in> set xs. snd m \<noteq> None \<Longrightarrow>
   hashed_bids (xs @ ys) = hashed_bids xs @ hashed_bids ys \<and> length (hashed_bids xs) = length xs"
  by (induction xs) (auto simp: hashed_bids_def)

lemma hashed_first:
  assumes "\<forall>m \<in> set (take n msgs). snd m \<noteq> None"
  shows "msgs = map with_hash (take n (hashed_bids msgs)) @ drop n msgs"
proof -
  have "take n (hashed_bids msgs) = hashed_bids (take n msgs)"
    using hashed_bids_append [OF assms, of "drop n msgs"]
    by (cases "n \<le> length msgs") (simp_all add: hashed_bids_def)
  then show ?thesis using with_hash_hashed_bids [OF assms] by simp
qed

lemma any_prefix_run:
  assumes "length (messages decode tx_hash stream) \<le> n + 100"
    and "\<forall>m \<in> set (take n (messages decode tx_hash stream)). snd m \<noteq> None"
  shows "\<exists>s :: ('log, 'e) auction_sys. (auction_step decode tx_hash)\<^sup>*\<^sup>* (auction_init stream) s \<and> as_stream s = []
    \<and> as_result s = Some (Inr (best_bid (first_bids {||} (take n (hashed_bids (messages decode tx_hash stream))))))"
proof -
  let ?msgs = "messages decode tx_hash stream"
  let ?got = "take n (hashed_bids ?msgs)" and ?init = "auction_init stream :: ('log, 'e) auction_sys"
  let ?w = "fold (\<lambda>m. handle_bid (fst m) (snd m)) ?got watch_init"
  obtain ls where ls: "messages decode tx_hash ls = drop n ?msgs"
      "(auction_step decode tx_hash)\<^sup>*\<^sup>* ?init (?init\<lparr>as_stream := ls, as_watch := ?w\<rparr>)"
    using serve_first [of ?init decode tx_hash ?got "drop n ?msgs"] hashed_first [OF assms(2)]
    by (auto simp: auction_init_def)
  let ?a = "?init\<lparr>as_stream := ls, as_watch := ?w\<rparr>" and ?b = "?init\<lparr>as_stream := [], as_watch := ?w, as_channel := drop n ?msgs\<rparr>"
  note ls(2)
  also have "(auction_step decode tx_hash)\<^sup>*\<^sup>* ?a ?b"
    using deliver_all [of ?a decode tx_hash] ls(1) assms(1) by (simp add: auction_init_def channel_capacity_def)
  also have "auction_step decode tx_hash ?b (?b\<lparr>as_result := Some (deadline_result (Some (Inr ())) (as_watch ?b))\<rparr>)"
    by (rule deadline) (simp add: auction_init_def)
  finally show ?thesis
    by (intro exI conjI, assumption) (simp_all add: deadline_result_def report_fold)
qed

text \<open>A sample: every log is a bid, with its transaction's hash.\<close>

definition sample_bid :: "u256 \<Rightarrow> address \<Rightarrow> bid_event" where
  "sample_bid v b = \<lparr>be_auction_id = 1, be_bidder = b, be_deadline = 0, be_value = v, be_data = []\<rparr>"

abbreviation sample_messages :: "(bid_event \<times> hash) list \<Rightarrow> (bid_event \<times> hash option) list" where
  "sample_messages \<equiv> messages (\<lambda>l. Some (fst l)) (\<lambda>l. Some (snd l))"

lemma sample_messages_hashed: "sample_messages ls = map with_hash ls"
  by (induction ls) (simp_all add: with_hash_def)

lemma sample_hashed: "hashed_bids (sample_messages ls) = ls"
  unfolding sample_messages_hashed by (induction ls) (simp_all add: hashed_bids_def with_hash_def)

lemma sample_run:
  assumes "length ls \<le> 100"
  shows "\<exists>s :: (bid_event \<times> hash, 'e) auction_sys.
    (auction_step (\<lambda>l. Some (fst l)) (\<lambda>l. Some (snd l)))\<^sup>*\<^sup>* (auction_init ls) s
    \<and> as_result s = Some (Inr (best_bid (first_bids {||} (take n ls))))"
proof -
  have "\<forall>m \<in> set (take n (sample_messages ls)). snd m \<noteq> None"
    by (auto simp: sample_messages_hashed with_hash_def dest!: in_set_takeD)
  moreover have "length (sample_messages ls) \<le> n + 100" using assms by (simp add: sample_messages_hashed)
  ultimately show ?thesis
    using any_prefix_run [of "\<lambda>l. Some (fst l)" "\<lambda>l. Some (snd l)" ls n] unfolding sample_hashed by blast
qed

lemma sample_best:
  "best_bid (first_bids {||} [(sample_bid 10 1, 100), (sample_bid 20 2, 200)]) = Winner 2 20"
  by (simp add: best_bid_def highest_def sample_bid_def)

text \<open>
  C14. The concurrent watcher refines the sequential one: whatever the interleaving of the
  forwarding task, the loop and the deadline, a finished run has the result of the
  sequential watcher on a first part of the stream's bids in their order, followed by the
  deadline; and never more than 100 bids are queued.
\<close>

theorem auction_system_refines:
  assumes "(auction_step decode tx_hash)\<^sup>*\<^sup>* (auction_init stream) s" "as_result s = Some r"
  shows "length (as_channel s) \<le> 100
    \<and> (\<exists>got result rest. watch_loop (map Received got @ [DeadlineTask result]) watch_init = Some r
        \<and> messages decode tx_hash stream = map the (filter (\<lambda>m. m \<noteq> None) got) @ rest)"
proof -
  from flow_reachable [OF assms(1)] obtain got where got: "flow decode tx_hash stream got s" by blast
  from result_reachable [OF assms] obtain result where
    "r = deadline_result result (fold watch_receive got watch_init)" using got by (auto simp: flow_def)
  moreover have "watch_loop (map Received got @ [DeadlineTask result]) watch_init
      = Some (deadline_result result (fold watch_receive got watch_init))"
    using got by (subst watch_loop_received) (simp_all add: flow_def watch_loop_deadline del: watch_loop.simps)
  ultimately show ?thesis using got by (auto simp: flow_def channel_capacity_def)
qed

theorem auction_system_refines_witness:
  "\<exists>got (result :: (unit + unit) option) rest.
     watch_loop (map Received got @ [DeadlineTask result]) watch_init = Some (Inr (Winner 2 20))
     \<and> sample_messages [(sample_bid 10 1, 100), (sample_bid 20 2, 200)]
         = map the (filter (\<lambda>m. m \<noteq> None) got) @ rest"
proof -
  obtain s :: "(bid_event \<times> hash, unit) auction_sys" where
    "(auction_step (\<lambda>l. Some (fst l)) (\<lambda>l. Some (snd l)))\<^sup>*\<^sup>*
       (auction_init [(sample_bid 10 1, 100), (sample_bid 20 2, 200)]) s"
    "as_result s = Some (Inr (Winner 2 20))"
    using sample_run [of "[(sample_bid 10 1, 100), (sample_bid 20 2, 200)]" 2] sample_best by auto
  from auction_system_refines [OF this] show ?thesis by blast
qed

text \<open>
  A report names the best of some first part of the bids up to the first message
  without a transaction hash, never anything else.
\<close>

theorem auction_reports_prefix:
  fixes s :: "('log, 'e) auction_sys"
  assumes "(auction_step decode tx_hash)\<^sup>*\<^sup>* (auction_init stream) s" "as_result s = Some (Inr rep)"
  shows "\<exists>n. rep = best_bid (first_bids {||} (take n (hashed_bids (messages decode tx_hash stream))))"
proof -
  from flow_reachable [OF assms(1)] obtain got where got: "flow decode tx_hash stream got s" by blast
  from result_reachable [OF assms] obtain result :: "('e + unit) option"
    where "Inr rep = deadline_result result (as_watch s)" by blast
  then have "rep = report (as_watch s)"
    by (cases result; cases "the result") (simp_all add: deadline_result_def)
  then have rep: "rep = report (fold watch_receive got watch_init)" using got by (simp add: flow_def)
  from received_bids [of got watch_init] got obtain ms rest where
    ms: "map the (filter (\<lambda>m. m \<noteq> None) got) = map with_hash ms @ rest"
    "report (fold watch_receive got watch_init) = report (fold (\<lambda>m. handle_bid (fst m) (snd m)) ms watch_init)"
    by (auto simp: flow_def)
  have "take (length ms) (hashed_bids (messages decode tx_hash stream)) = ms"
    using got ms(1) hashed_bids_prefix [of ms "rest @ as_channel s @ messages decode tx_hash (as_stream s)"]
    by (simp add: flow_def)
  then show ?thesis using rep ms(2) report_fold by metis
qed

theorem auction_reports_prefix_witness:
  "\<exists>n. Winner 2 20 = best_bid (first_bids {||} (take n (hashed_bids
     (sample_messages [(sample_bid 10 1, 100), (sample_bid 20 2, 200)]))))"
proof -
  obtain s :: "(bid_event \<times> hash, unit) auction_sys" where
    "(auction_step (\<lambda>l. Some (fst l)) (\<lambda>l. Some (snd l)))\<^sup>*\<^sup>*
       (auction_init [(sample_bid 10 1, 100), (sample_bid 20 2, 200)]) s"
    "as_result s = Some (Inr (Winner 2 20))"
    using sample_run [of "[(sample_bid 10 1, 100), (sample_bid 20 2, 200)]" 2] sample_best by auto
  from auction_reports_prefix [OF this] show ?thesis .
qed

text \<open>
  C20. The deadline decides nothing about the bids that count: even when every bid has been
  delivered before it, the watcher may report the best of any first part of them that carries
  transaction hashes and leaves out at most 100 messages, the capacity of the channel, because
  the loop may take the deadline while bids are still queued.
\<close>

theorem auction_any_prefix:
  assumes "length (messages decode tx_hash stream) \<le> n + 100"
    and "\<forall>m \<in> set (take n (messages decode tx_hash stream)). snd m \<noteq> None"
  shows "\<exists>s :: ('log, 'e) auction_sys. (auction_step decode tx_hash)\<^sup>*\<^sup>* (auction_init stream) s \<and> as_stream s = []
    \<and> as_result s = Some (Inr (best_bid (first_bids {||} (take n (hashed_bids (messages decode tx_hash stream))))))"
  by (rule any_prefix_run [OF assms])

theorem auction_any_prefix_witness:
  "\<exists>s :: (bid_event \<times> hash, unit) auction_sys.
     (auction_step (\<lambda>l. Some (fst l)) (\<lambda>l. Some (snd l)))\<^sup>*\<^sup>* (auction_init [(sample_bid 10 1, 100)]) s
     \<and> as_stream s = [] \<and> as_result s = Some (Inr NoBids)"
  using auction_any_prefix [of "\<lambda>l. Some (fst l)" "\<lambda>l. Some (snd l)" "[(sample_bid 10 1, 100)]" 0]
  by (simp add: best_bid_def highest_def)

end
