(* ===== verification/Plc.thy ===== *)
theory Plc
  imports Provider "HOL-Library.Finite_Map"
begin

text \<open>
  \<^verbatim>\<open>examples/bsky/plc/src\<close>: a server for a registry of DID operations kept by a
  contract (\<^verbatim>\<open>plc.rs\<close>, \<^verbatim>\<open>main.rs\<close>, \<^verbatim>\<open>config.rs\<close>).

  A \<^verbatim>\<open>HashMap\<close> is a finite map; the order of its iteration is unspecified, so it is
  the argument \<open>entries\<close> of what iterates.  The contract, DAG-CBOR, SHA-256, base 32, base
  58 and CIDs are arguments.  A handler returns its reply or a status with a message, and
  may panic.
\<close>

section \<open>Operations\<close>

datatype (plugins only: code) operation_type = PlcOperation | PlcTombstone

record service =
  sv_type :: string
  sv_endpoint :: string

record operation =
  pl_type :: operation_type
  pl_rotation_keys :: "string list"
  pl_verification_methods :: "(string, string) fmap"
  pl_also_known_as :: "string list"
  pl_services :: "(string, service) fmap"
  pl_prev :: "string option"

record signed_operation =
  so_op :: operation
  so_sig :: string

definition so_deref :: "signed_operation \<Rightarrow> operation" where
  "so_deref s = so_op s"

definition operation_cid ::
    "(signed_operation \<Rightarrow> 'ce + bytes) \<Rightarrow> (bytes \<Rightarrow> bytes) \<Rightarrow> (nat \<Rightarrow> bytes \<Rightarrow> string)
      \<Rightarrow> signed_operation \<Rightarrow> 'ce + string" where
  "operation_cid dagcbor sha2_256 cid_v1 s =
     map_ok (\<lambda>dag. let result = sha2_256 dag in cid_v1 0x71 result) (dagcbor s)"

definition operation_did ::
    "(signed_operation \<Rightarrow> 'ce + bytes) \<Rightarrow> (bytes \<Rightarrow> bytes) \<Rightarrow> (bytes \<Rightarrow> string)
      \<Rightarrow> signed_operation \<Rightarrow> ('ce + string) run" where
  "operation_did dagcbor sha2_256 base32_lower s =
     (case dagcbor s of
        Inl e \<Rightarrow> Inr (Inl e)
      | Inr dag \<Rightarrow>
          (let b32 = base32_lower (sha2_256 dag)
           in if 24 \<le> length b32 then Inr (Inr (''did:plc:'' @ take 24 b32)) else Inl IndexOutOfBounds))"

section \<open>The contract's form\<close>

datatype (plugins only: code) contract_operation_type = ContractOperation | ContractTombstone | ContractInvalid

record contract_verification_method =
  vm_name :: bytes
  vm_key :: bytes

record contract_service =
  cv_name :: bytes
  cv_type :: bytes
  cv_endpoint :: bytes

record contract_op =
  co_type :: contract_operation_type
  co_rotation_keys :: "bytes list"
  co_verification_methods :: "contract_verification_method list"
  co_also_known_as :: "bytes list"
  co_services :: "contract_service list"
  co_prev :: bytes

definition contract_op_from ::
    "((string, string) fmap \<Rightarrow> (string \<times> string) list) \<Rightarrow> ((string, service) fmap \<Rightarrow> (string \<times> service) list)
      \<Rightarrow> operation \<Rightarrow> contract_op" where
  "contract_op_from method_entries service_entries v =
     \<lparr>co_type = (case pl_type v of PlcOperation \<Rightarrow> ContractOperation | PlcTombstone \<Rightarrow> ContractTombstone),
      co_rotation_keys = map str_bytes (pl_rotation_keys v),
      co_verification_methods =
        map (\<lambda>(k, key). \<lparr>vm_name = str_bytes k, vm_key = str_bytes key\<rparr>) (method_entries (pl_verification_methods v)),
      co_also_known_as = map str_bytes (pl_also_known_as v),
      co_services =
        map (\<lambda>(k, s). \<lparr>cv_name = str_bytes k, cv_type = str_bytes (sv_type s), cv_endpoint = str_bytes (sv_endpoint s)\<rparr>)
          (service_entries (pl_services v)),
      co_prev = (case map_option str_bytes (pl_prev v) of None \<Rightarrow> [] | Some bs \<Rightarrow> bs)\<rparr>"

datatype (plugins only: code) op_error = UncheckedType | OpNotUtf8 utf8_error

definition op_utf8 :: "bytes \<Rightarrow> op_error + string" where
  "op_utf8 bs = (case from_utf8 bs of Inl e \<Rightarrow> Inl (OpNotUtf8 e) | Inr s \<Rightarrow> Inr s)"

text \<open>\<^verbatim>\<open>collect\<close> into a map inserts in order; a later entry replaces an earlier one.\<close>

definition collect_map :: "('k \<times> 'v) list \<Rightarrow> ('k, 'v) fmap" where
  "collect_map kvs = fold (\<lambda>(k, v) m. fmupd k v m) kvs fmempty"

definition method_try_from :: "contract_verification_method \<Rightarrow> op_error + (string \<times> string)" where
  "method_try_from m =
     and_then (op_utf8 (vm_name m)) (\<lambda>name. and_then (op_utf8 (vm_key m)) (\<lambda>key. Inr (name, key)))"

definition service_try_from :: "contract_service \<Rightarrow> op_error + (string \<times> service)" where
  "service_try_from s =
     and_then (op_utf8 (cv_name s)) (\<lambda>name.
     and_then (op_utf8 (cv_type s)) (\<lambda>ty.
     and_then (op_utf8 (cv_endpoint s)) (\<lambda>endpoint. Inr (name, \<lparr>sv_type = ty, sv_endpoint = endpoint\<rparr>))))"

definition operation_try_from :: "contract_op \<Rightarrow> op_error + operation" where
  "operation_try_from v =
     and_then (case co_type v of
                 ContractOperation \<Rightarrow> Inr PlcOperation
               | ContractTombstone \<Rightarrow> Inr PlcTombstone
               | ContractInvalid \<Rightarrow> Inl UncheckedType) (\<lambda>ty.
     and_then (traverse op_utf8 (co_rotation_keys v)) (\<lambda>rotation_keys.
     and_then (map_ok collect_map (traverse method_try_from (co_verification_methods v))) (\<lambda>methods.
     and_then (traverse op_utf8 (co_also_known_as v)) (\<lambda>also_known_as.
     and_then (map_ok collect_map (traverse service_try_from (co_services v))) (\<lambda>services.
     and_then (if co_prev v = [] then Inr None else map_ok Some (op_utf8 (co_prev v))) (\<lambda>prev.
     Inr \<lparr>pl_type = ty, pl_rotation_keys = rotation_keys, pl_verification_methods = methods,
          pl_also_known_as = also_known_as, pl_services = services, pl_prev = prev\<rparr>))))))"

section \<open>The server\<close>

datatype (plugins only: code) http_status = InternalServerError | NotFound | BadRequest

text \<open>A DID is 32 bytes.\<close>

datatype (plugins only: code) did = Did (did_0: bytes)

definition did_display :: "did \<Rightarrow> string run" where
  "did_display d = (case from_utf8 (did_0 d) of Inl e \<Rightarrow> Inl UnwrapErr | Inr s \<Rightarrow> Inr s)"

definition did_deserialize :: "string \<Rightarrow> string + did" where
  "did_deserialize s =
     (if length (str_bytes s) = 32 then Inr (Did (str_bytes s)) else Inl ''invalid DID format'')"

record last_operation =
  lo_operation :: contract_op
  lo_signature :: bytes

datatype (plugins only: code) 'c get_error = CallFailed 'c | BadOperation op_error

definition get_last_operation ::
    "(bytes \<Rightarrow> 'c + last_operation) \<Rightarrow> did \<Rightarrow> 'c get_error + signed_operation option" where
  "get_last_operation call d =
     (case call (did_0 d) of
        Inl e \<Rightarrow> Inl (CallFailed e)
      | Inr last_op \<Rightarrow>
          if lo_signature last_op = [] then Inr None
          else
            case and_then (operation_try_from (lo_operation last_op)) (\<lambda>op.
                 and_then (op_utf8 (lo_signature last_op)) (\<lambda>sig. Inr \<lparr>so_op = op, so_sig = sig\<rparr>)) of
              Inl e \<Rightarrow> Inl (BadOperation e)
            | Inr s \<Rightarrow> Inr (Some s))"

type_synonym 'r handler = "(http_status \<times> string + 'r) run"

text \<open>What every reading handler starts with; the DID is printed only for the error.\<close>

definition last_op_or_reply ::
    "('c get_error \<Rightarrow> string) \<Rightarrow> (bytes \<Rightarrow> 'c + last_operation) \<Rightarrow> did \<Rightarrow> signed_operation handler" where
  "last_op_or_reply display call d =
     (case get_last_operation call d of
        Inl e \<Rightarrow> Inr (Inl (InternalServerError, display e))
      | Inr last_op \<Rightarrow>
          and_then (did_display d) (\<lambda>id.
          Inr (ok_or (NotFound, ''No operations found for DID: '' @ id) last_op)))"

definition get_data ::
    "('c get_error \<Rightarrow> string) \<Rightarrow> (bytes \<Rightarrow> 'c + last_operation) \<Rightarrow> did \<Rightarrow> signed_operation handler" where
  "get_data display call d = last_op_or_reply display call d"

definition get_last ::
    "('c get_error \<Rightarrow> string) \<Rightarrow> (bytes \<Rightarrow> 'c + last_operation) \<Rightarrow> did \<Rightarrow> signed_operation handler" where
  "get_last display call d = last_op_or_reply display call d"

record verification_method =
  me_id :: string
  me_type :: string
  me_controller :: string
  me_public_key_multibase :: string

record did_document =
  dd_context :: "string list"
  dd_id :: string
  dd_also_known_as :: "string list"
  dd_verification_method :: "verification_method list"
  dd_service :: "(string \<times> string \<times> string) list"

text \<open>\<^verbatim>\<open>&s[1..]\<close> needs a first byte and a character boundary after it.\<close>

definition slice_from_1 :: "string \<Rightarrow> string run" where
  "slice_from_1 s =
     (case s of
        [] \<Rightarrow> Inl IndexOutOfBounds
      | c # r \<Rightarrow>
          if r \<noteq> [] \<and> utf8_cont (of_char (hd r)) then Inl IndexOutOfBounds else Inr r)"

text \<open>How a slice of bytes is printed with \<^verbatim>\<open>{:?}\<close>.\<close>

fun comma_separated :: "string list \<Rightarrow> string" where
  "comma_separated [] = ''''"
| "comma_separated [s] = s"
| "comma_separated (s # ss) = s @ '', '' @ comma_separated ss"

definition debug_bytes :: "bytes \<Rightarrow> string" where
  "debug_bytes bs = ''['' @ comma_separated (map (\<lambda>b. show_nat (unat b)) bs) @ '']''"

fun resolve_methods ::
    "(string \<Rightarrow> 'be + bytes) \<Rightarrow> string \<Rightarrow> (string \<times> string) list \<Rightarrow> string list \<Rightarrow> verification_method list
      \<Rightarrow> (string list \<times> verification_method list) handler" where
  "resolve_methods bs58 d [] contexts methods = Inr (Inr (contexts, methods))"
| "resolve_methods bs58 d ((mid, key) # entries) contexts methods =
     (let raw_key = trim_start_matches ''did:key:'' key;
          methods = methods @ [\<lparr>me_id = d @ ''#'' @ mid, me_type = ''Multikey'', me_controller = d,
                      me_public_key_multibase = raw_key\<rparr>]
      in and_then (slice_from_1 raw_key) (\<lambda>encoded.
         case bs58 encoded of
           Inl e \<Rightarrow> Inl UnwrapErr
         | Inr multikey_bytes \<Rightarrow>
             if length multikey_bytes < 2 then Inl IndexOutOfBounds
             else if take 2 multikey_bytes = [0x80, 0x24] then
               resolve_methods bs58 d entries (contexts @ [''https://w3id.org/security/suites/ecdsa-2019/v1'']) methods
             else if take 2 multikey_bytes = [0xE7, 0x01] then
               resolve_methods bs58 d entries (contexts @ [''https://w3id.org/security/suites/secp256k1-2019/v1'']) methods
             else Inr (Inl (BadRequest, ''Unsupported multikey type for key '' @ mid @ '': ''
                 @ debug_bytes (take 2 multikey_bytes)))))"

definition resolve ::
    "('c get_error \<Rightarrow> string) \<Rightarrow> (string \<Rightarrow> 'be + bytes)
      \<Rightarrow> ((string, string) fmap \<Rightarrow> (string \<times> string) list) \<Rightarrow> ((string, service) fmap \<Rightarrow> (string \<times> service) list)
      \<Rightarrow> (bytes \<Rightarrow> 'c + last_operation) \<Rightarrow> did \<Rightarrow> did_document handler" where
  "resolve display bs58 method_entries service_entries call d =
     and_then (last_op_or_reply display call d) (\<lambda>r.
     case r of
       Inl e \<Rightarrow> Inr (Inl e)
     | Inr last_op \<Rightarrow>
         and_then (did_display d) (\<lambda>id.
         map_ok (map_ok (\<lambda>(contexts, methods).
             \<lparr>dd_context = contexts, dd_id = id, dd_also_known_as = pl_also_known_as (so_op last_op),
              dd_verification_method = methods,
              dd_service = map (\<lambda>(sid, svc). (''#'' @ sid, sv_type svc, sv_endpoint svc))
                (service_entries (pl_services (so_op last_op)))\<rparr>))
           (resolve_methods bs58 id (method_entries (pl_verification_methods (so_op last_op)))
             [''https://www.w3.org/ns/did/v1'', ''https://w3id.org/security/suites/jws-2020/v1''] [])))"

text \<open>The calls of the contract that \<^verbatim>\<open>create_plc\<close> makes.\<close>

record add_call =
  ac_did :: bytes
  ac_cid :: bytes
  ac_operation :: contract_op
  ac_signature :: bytes

record ('p, 'r, 'se, 're, 'xe) registry =
  rg_send_add :: "add_call \<Rightarrow> 'se + 'p"
  rg_get_receipt :: "'p \<Rightarrow> 're + 'r"
  rg_status :: "'r \<Rightarrow> bool"
  rg_transaction_hash :: "'r \<Rightarrow> string"
  rg_call_add :: "add_call \<Rightarrow> 'xe + unit"
  rg_revert_data :: "'xe \<Rightarrow> bytes option"

record created =
  cr_did :: string
  cr_transaction_hash :: string

text \<open>The two halves of \<^verbatim>\<open>create_plc\<close>: the check of a first operation, and the submission.\<close>

definition check_did ::
    "(signed_operation \<Rightarrow> ('ce + string) run) \<Rightarrow> did \<Rightarrow> signed_operation \<Rightarrow> unit handler" where
  "check_did op_did d op =
     (if pl_prev (so_op op) = None
      then and_then (op_did op) (\<lambda>r.
        case r of
          Inl e \<Rightarrow> Inl UnwrapErr
        | Inr expected_did \<Rightarrow>
            and_then (did_display d) (\<lambda>shown.
            Inr (if expected_did \<noteq> shown
                 then Inl (BadRequest, ''DID mismatch: expected '' @ expected_did @ '', got '' @ shown)
                 else Inr ())))
      else Inr (Inr ()))"

definition add_operation ::
    "(signed_operation \<Rightarrow> 'ce + string) \<Rightarrow> ('ce \<Rightarrow> string) \<Rightarrow> ('se \<Rightarrow> string)
      \<Rightarrow> (operation \<Rightarrow> contract_op) \<Rightarrow> ('p, 'r, 'se, 're, 'xe) registry \<Rightarrow> did \<Rightarrow> signed_operation \<Rightarrow> created handler" where
  "add_operation op_cid display_cbor display_send into_op R d op =
     (case op_cid op of
        Inl e \<Rightarrow> Inr (Inl (BadRequest, display_cbor e))
      | Inr cid \<Rightarrow>
          (let c = \<lparr>ac_did = did_0 d, ac_cid = str_bytes cid, ac_operation = into_op (so_op op),
                    ac_signature = str_bytes (so_sig op)\<rparr>
           in case rg_send_add R c of
                Inl e \<Rightarrow> Inr (Inl (InternalServerError, ''Failed to send transaction: '' @ display_send e))
              | Inr pending_tx \<Rightarrow>
                  (case rg_get_receipt R pending_tx of
                     Inl e \<Rightarrow> Inl UnwrapErr
                   | Inr receipt \<Rightarrow>
                       if \<not> rg_status R receipt then
                         (case rg_call_add R c of
                            Inr ok \<Rightarrow> Inr (Inl (BadRequest, ''Transaction failed''))
                          | Inl e \<Rightarrow>
                              (case rg_revert_data R e of
                                 None \<Rightarrow> Inl UnwrapNone
                               | Some data \<Rightarrow> Inr (Inl (BadRequest, ''Transaction failed''))))
                       else
                         map_ok (\<lambda>shown. Inr \<lparr>cr_did = shown, cr_transaction_hash = rg_transaction_hash R receipt\<rparr>)
                           (did_display d))))"

definition create_plc ::
    "(signed_operation \<Rightarrow> ('ce + string) run) \<Rightarrow> (signed_operation \<Rightarrow> 'ce + string) \<Rightarrow> ('ce \<Rightarrow> string) \<Rightarrow> ('se \<Rightarrow> string)
      \<Rightarrow> (operation \<Rightarrow> contract_op) \<Rightarrow> ('p, 'r, 'se, 're, 'xe) registry \<Rightarrow> did \<Rightarrow> signed_operation \<Rightarrow> created handler" where
  "create_plc op_did op_cid display_cbor display_send into_op R d op =
     and_then (check_did op_did d op) (\<lambda>checked.
     case checked of
       Inl e \<Rightarrow> Inr (Inl e)
     | Inr u \<Rightarrow> add_operation op_cid display_cbor display_send into_op R d op)"

section \<open>Configuration\<close>

record 'key plc_config =
  pc_private_key :: 'key
  pc_rpc_url :: string
  pc_contract_address :: address

definition default_contract_address :: address where
  "default_contract_address = 0x12296f2D128530a834460DF6c36a2895B793F26d"

definition default_rpc_url :: string where
  "default_rpc_url = ''ws://localhost:8545''"

definition config_display :: "(address \<Rightarrow> string) \<Rightarrow> 'key plc_config \<Rightarrow> string" where
  "config_display display_address c =
     ''Config { private_key: <hidden>, rpc_url: '' @ pc_rpc_url c @ '', contract_address: ''
       @ display_address (pc_contract_address c) @ '' }''"

definition parse_signing_key ::
    "('d, 'e) serde_format \<Rightarrow> (string \<Rightarrow> string + bytes) \<Rightarrow> (bytes \<Rightarrow> string + 'key) \<Rightarrow> 'd \<Rightarrow> 'e + 'key" where
  "parse_signing_key F hex_decode from_slice d =
     and_then (sf_read_string F d) (\<lambda>hex_str.
     and_then (map_err (sf_custom_error F) (hex_decode hex_str)) (\<lambda>secret_key_bytes.
     map_err (sf_custom_error F) (from_slice secret_key_bytes)))"

text \<open>
  \<^verbatim>\<open>from_env\<close>: the crate \<^verbatim>\<open>config\<close> looks the fields up in the environment; only
  the private key has no default.
\<close>

definition config_from_env ::
    "(string \<Rightarrow> 'e + string option) \<Rightarrow> (string \<Rightarrow> 'e + 'key) \<Rightarrow> (string \<Rightarrow> 'e + address) \<Rightarrow> 'e
      \<Rightarrow> 'e + 'key plc_config" where
  "config_from_env lookup_env parse_key parse_address missing_field =
     and_then (lookup_env ''private_key'') (\<lambda>k.
     and_then (case k of None \<Rightarrow> Inl missing_field | Some v \<Rightarrow> parse_key v) (\<lambda>key.
     and_then (lookup_env ''rpc_url'') (\<lambda>u.
     and_then (lookup_env ''contract_address'') (\<lambda>a.
     and_then (case a of None \<Rightarrow> Inr default_contract_address | Some v \<Rightarrow> parse_address v) (\<lambda>addr.
     Inr \<lparr>pc_private_key = key,
          pc_rpc_url = (case u of None \<Rightarrow> default_rpc_url | Some v \<Rightarrow> v),
          pc_contract_address = addr\<rparr>)))))"

section \<open>Round trip\<close>

lemma op_utf8_str_bytes: "rust_string s \<Longrightarrow> op_utf8 (str_bytes s) = Inr s"
  by (simp add: op_utf8_def utf8.decode_encode)

lemma traverse_op_utf8: "list_all rust_string ss \<Longrightarrow> traverse op_utf8 (map str_bytes ss) = Inr ss"
  by (induction ss) (auto simp: op_utf8_str_bytes)

text \<open>Every string of an operation is one, and its map entries are what it iterates over.\<close>

definition service_strings :: "string \<times> service \<Rightarrow> bool" where
  "service_strings e \<longleftrightarrow> rust_string (fst e) \<and> rust_string (sv_type (snd e)) \<and> rust_string (sv_endpoint (snd e))"

definition operation_strings ::
    "((string, string) fmap \<Rightarrow> (string \<times> string) list) \<Rightarrow> ((string, service) fmap \<Rightarrow> (string \<times> service) list)
      \<Rightarrow> operation \<Rightarrow> bool" where
  "operation_strings method_entries service_entries v \<longleftrightarrow>
     list_all rust_string (pl_rotation_keys v)
     \<and> list_all (\<lambda>(k, key). rust_string k \<and> rust_string key) (method_entries (pl_verification_methods v))
     \<and> list_all rust_string (pl_also_known_as v)
     \<and> list_all service_strings (service_entries (pl_services v))
     \<and> (case pl_prev v of None \<Rightarrow> True | Some s \<Rightarrow> rust_string s)"

lemma traverse_methods:
  "list_all (\<lambda>(k, key). rust_string k \<and> rust_string key) ms \<Longrightarrow>
   traverse method_try_from (map (\<lambda>(k, key). \<lparr>vm_name = str_bytes k, vm_key = str_bytes key\<rparr>) ms) = Inr ms"
  by (induction ms) (auto simp: method_try_from_def op_utf8_str_bytes)

lemma traverse_services:
  "list_all service_strings ss \<Longrightarrow>
   traverse service_try_from (map (\<lambda>(k, s). \<lparr>cv_name = str_bytes k, cv_type = str_bytes (sv_type s),
     cv_endpoint = str_bytes (sv_endpoint s)\<rparr>) ss) = Inr ss"
  by (induction ss) (auto simp: service_try_from_def service_strings_def op_utf8_str_bytes)

lemma trim_did_key: "trim_start_matches ''did:key:'' ''did:key:'' = ''''"
  by (simp add: trim_start_matches.simps)

section \<open>Properties\<close>

text \<open>
  An operation stored in the contract reads back as the operation, whatever order its
  maps were iterated in, except that an empty previous CID comes back as none.
\<close>

theorem operation_round_trip:
  assumes "operation_strings method_entries service_entries v"
    and "collect_map (method_entries (pl_verification_methods v)) = pl_verification_methods v"
    and "collect_map (service_entries (pl_services v)) = pl_services v"
  shows "operation_try_from (contract_op_from method_entries service_entries v) =
    Inr (if pl_prev v = Some '''' then v\<lparr>pl_prev := None\<rparr> else v)"
proof -
  obtain ty ks ms as ss pr where v: "v = \<lparr>pl_type = ty, pl_rotation_keys = ks, pl_verification_methods = ms,
      pl_also_known_as = as, pl_services = ss, pl_prev = pr\<rparr>" by (cases v)
  show ?thesis
    using assms unfolding v
    by (cases pr; cases ty)
       (simp_all add: operation_try_from_def contract_op_from_def operation_strings_def traverse_op_utf8
          traverse_methods traverse_services op_utf8_str_bytes)
qed

definition sample_operation :: operation where
  "sample_operation =
     \<lparr>pl_type = PlcOperation, pl_rotation_keys = [''k1''], pl_verification_methods = fmupd ''atproto'' ''did:key:z1'' fmempty,
      pl_also_known_as = [''at://a''], pl_services = fmempty, pl_prev = None\<rparr>"

theorem operation_round_trip_witness:
  "operation_try_from (contract_op_from (\<lambda>m. [(''atproto'', ''did:key:z1'')]) (\<lambda>m. []) sample_operation)
     = Inr sample_operation"
proof -
  have "rust_string ''k1''" "rust_string ''atproto''" "rust_string ''did:key:z1''" "rust_string ''at://a''"
    by code_simp+
  then have "operation_strings (\<lambda>m. [(''atproto'', ''did:key:z1'')]) (\<lambda>m. []) sample_operation"
    by (simp add: operation_strings_def sample_operation_def)
  then have "operation_try_from (contract_op_from (\<lambda>m. [(''atproto'', ''did:key:z1'')]) (\<lambda>m. []) sample_operation)
      = Inr (if pl_prev sample_operation = Some '''' then sample_operation\<lparr>pl_prev := None\<rparr> else sample_operation)"
    by (rule operation_round_trip) (simp_all add: sample_operation_def collect_map_def)
  then show ?thesis by (simp add: sample_operation_def)
qed

text \<open>
  A verification method whose key is just its prefix makes \<^verbatim>\<open>resolve\<close> panic
  instead of answering, whatever was resolved before it and whatever follows.
\<close>

theorem resolve_panics_on_empty_key:
  assumes "resolve_methods bs58 d before contexts methods = Inr (Inr r)"
  shows "resolve_methods bs58 d (before @ (mid, ''did:key:'') # rest) contexts methods = Inl IndexOutOfBounds"
  using assms
proof (induction before arbitrary: contexts methods)
  case Nil
  then show ?case by (simp add: trim_did_key slice_from_1_def)
next
  case (Cons e before)
  obtain a b where e: "e = (a, b)" by (cases e)
  from Cons.prems obtain enc where enc: "slice_from_1 (trim_start_matches ''did:key:'' b) = Inr enc"
    by (auto simp: e Let_def and_then_Inr_iff)
  obtain bytes where bytes: "bs58 enc = Inr bytes"
    using Cons.prems by (cases "bs58 enc") (simp_all add: e enc)
  show ?case
    using Cons.prems Cons.IH by (simp add: e enc bytes Let_def split: if_splits)
qed

theorem resolve_panics_on_empty_key_witness:
  "resolve_methods (\<lambda>s. Inl () :: unit + bytes) ''did:plc:x'' [(''atproto'', ''did:key:'')] [] [] = Inl IndexOutOfBounds"
  using resolve_panics_on_empty_key [of "\<lambda>s. Inl ()" "''did:plc:x''" "[]" "[]" "[]" "([], [])" "''atproto''" "[]"]
  by simp

lemma check_did_ok:
  assumes "check_did op_did d op = Inr (Inr u)" "pl_prev (so_op op) = None"
  shows "\<exists>s. op_did op = Inr (Inr s) \<and> did_display d = Inr s"
proof (cases "op_did op")
  case (Inr x)
  then show ?thesis
    using assms by (cases x) (auto simp: check_did_def and_then_Inr_iff split: if_splits)
qed (use assms in \<open>simp add: check_did_def\<close>)

lemma create_plc_added:
  assumes "create_plc op_did op_cid dc ds into_op R d op = Inr (Inr r)"
  shows "\<exists>cid p receipt. op_cid op = Inr cid
    \<and> rg_send_add R \<lparr>ac_did = did_0 d, ac_cid = str_bytes cid, ac_operation = into_op (so_op op),
        ac_signature = str_bytes (so_sig op)\<rparr> = Inr p
    \<and> rg_get_receipt R p = Inr receipt \<and> rg_status R receipt
    \<and> cr_transaction_hash r = rg_transaction_hash R receipt
    \<and> did_display d = Inr (cr_did r)
    \<and> (pl_prev (so_op op) = None \<longrightarrow> op_did op = Inr (Inr (cr_did r)))"
proof -
  obtain checked where checked: "check_did op_did d op = Inr checked"
    using assms by (cases "check_did op_did d op") (simp_all add: create_plc_def)
  obtain u where "check_did op_did d op = Inr (Inr u)" and add: "add_operation op_cid dc ds into_op R d op = Inr (Inr r)"
    using assms checked by (cases checked) (simp_all add: create_plc_def)
  then have genesis: "pl_prev (so_op op) = None \<longrightarrow> (\<exists>s. op_did op = Inr (Inr s) \<and> did_display d = Inr s)"
    by (auto intro: check_did_ok)
  obtain cid where cid: "op_cid op = Inr cid"
    using add by (cases "op_cid op") (simp_all add: add_operation_def)
  let ?c = "\<lparr>ac_did = did_0 d, ac_cid = str_bytes cid, ac_operation = into_op (so_op op),
    ac_signature = str_bytes (so_sig op)\<rparr>"
  obtain p where p: "rg_send_add R ?c = Inr p"
    using add by (cases "rg_send_add R ?c") (simp_all add: add_operation_def cid)
  obtain receipt where receipt: "rg_get_receipt R p = Inr receipt"
    using add by (cases "rg_get_receipt R p") (simp_all add: add_operation_def cid p)
  have ok: "rg_status R receipt"
    using add by (cases "rg_status R receipt")
      (auto simp: add_operation_def cid p receipt split: sum.splits option.splits)
  then obtain s where "did_display d = Inr s" "r = \<lparr>cr_did = s, cr_transaction_hash = rg_transaction_hash R receipt\<rparr>"
    using add by (auto simp: add_operation_def cid p receipt map_ok_def and_then_Inr_iff)
  with cid p receipt ok genesis show ?thesis by auto
qed

text \<open>
  C25. A reply of success means that the transaction carrying the operation was sent and its
  receipt has a successful status, and that an operation without a predecessor is for the
  DID derived from it.
\<close>

theorem create_plc_sound:
  assumes "create_plc op_did op_cid dc ds into_op R d op = Inr (Inr r)"
  shows "\<exists>cid p receipt. op_cid op = Inr cid
    \<and> rg_send_add R \<lparr>ac_did = did_0 d, ac_cid = str_bytes cid, ac_operation = into_op (so_op op),
        ac_signature = str_bytes (so_sig op)\<rparr> = Inr p
    \<and> rg_get_receipt R p = Inr receipt \<and> rg_status R receipt
    \<and> cr_transaction_hash r = rg_transaction_hash R receipt
    \<and> did_display d = Inr (cr_did r)
    \<and> (pl_prev (so_op op) = None \<longrightarrow> op_did op = Inr (Inr (cr_did r)))"
  by (rule create_plc_added [OF assms])

definition sample_registry :: "(nat, bool, unit, unit, unit) registry" where
  "sample_registry =
     \<lparr>rg_send_add = (\<lambda>c. Inr (length (ac_cid c))), rg_get_receipt = (\<lambda>p. Inr (p > 0)), rg_status = id,
      rg_transaction_hash = (\<lambda>r. ''0x01''), rg_call_add = (\<lambda>c. Inr ()), rg_revert_data = (\<lambda>e. None)\<rparr>"

theorem create_plc_sound_witness:
  "let op = \<lparr>so_op = sample_operation, so_sig = ''sig''\<rparr>; d = Did (str_bytes ''did:plc:aaaa'')
   in create_plc (\<lambda>s. Inr (Inr ''did:plc:aaaa'')) (\<lambda>s. Inr ''cid'' :: unit + string) (\<lambda>e. '''') (\<lambda>e. '''')
        (contract_op_from (\<lambda>m. []) (\<lambda>m. [])) sample_registry d op
        = Inr (Inr \<lparr>cr_did = ''did:plc:aaaa'', cr_transaction_hash = ''0x01''\<rparr>)
      \<and> did_display d = Inr ''did:plc:aaaa''"
proof -
  let ?op = "\<lparr>so_op = sample_operation, so_sig = ''sig''\<rparr>" and ?d = "Did (str_bytes ''did:plc:aaaa'')"
  have "rust_string ''did:plc:aaaa''" by code_simp
  then have shown: "did_display ?d = Inr ''did:plc:aaaa''" by (simp add: did_display_def utf8.decode_encode)
  have run: "create_plc (\<lambda>s. Inr (Inr ''did:plc:aaaa'')) (\<lambda>s. Inr ''cid'' :: unit + string) (\<lambda>e. '''') (\<lambda>e. '''')
      (contract_op_from (\<lambda>m. []) (\<lambda>m. [])) sample_registry ?d ?op
      = Inr (Inr \<lparr>cr_did = ''did:plc:aaaa'', cr_transaction_hash = ''0x01''\<rparr>)"
    by (simp add: create_plc_def check_did_def add_operation_def shown sample_registry_def)
  from create_plc_sound [OF run] run show ?thesis by auto
qed

end
