(* ===== verification/Watch_Clients.thy ===== *)
theory Watch_Clients
  imports Verifiable_Log Log_Filter
begin

text \<open>
  The watchers of the example clients: \<^verbatim>\<open>watch\<close> in
  \<^verbatim>\<open>examples/notary/src/main.rs\<close>, \<^verbatim>\<open>examples/tokens/src/main.rs\<close>,
  \<^verbatim>\<open>examples/nfts/src/main.rs\<close> and \<^verbatim>\<open>examples/voting/client/src/main.rs\<close>.

  All subscribe to the verifiable logs of a contract, check each against the committee and
  decode the log inside it.  The stream is the list of logs it yields before it ends; the
  decoders of the generated bindings are arguments.  What a watcher shows is the decoded
  event; the text around it is left out.
\<close>

section \<open>The filters\<close>

definition watch_events_filter :: "'fs \<Rightarrow> 'fs \<Rightarrow> hash \<Rightarrow> address option \<Rightarrow> 'fs log_filter run" where
  "watch_events_filter no_address contract signature_hash submitter =
     and_then (lfb_event_signature signature_hash (lfb_address contract (lfb_new no_address))) (\<lambda>flt.
     map_ok lfb_build
       (case submitter of
          Some s \<Rightarrow> lfb_topic2 (ucast s) flt
        | None \<Rightarrow> Inr flt))"

definition votes_filter :: "'fs \<Rightarrow> 'fs \<Rightarrow> hash \<Rightarrow> hash \<Rightarrow> 'fs log_filter run" where
  "votes_filter no_address contract signature_hash proposal_id =
     and_then (lfb_event_signature signature_hash (lfb_address contract (lfb_new no_address))) (\<lambda>flt.
     map_ok lfb_build (lfb_topic1 proposal_id flt))"

text \<open>Which topics a filter lets through, as a node applies it, and the topics of a log.\<close>

definition filter_matches :: "'fs log_filter \<Rightarrow> hash list \<Rightarrow> bool" where
  "filter_matches flt topics \<longleftrightarrow>
     list_all (\<lambda>i. case lf_topics flt ! i of
         None \<Rightarrow> True
       | Some t \<Rightarrow> i < length topics \<and> topics ! i = t)
       [0..<length (lf_topics flt)]"

definition log_topics :: "'sig verifiable_log \<Rightarrow> hash list" where
  "log_topics log = ld_topics (lg_data (rl_inner (inner log)))"

section \<open>The loop\<close>

datatype (plugins only: code) 'o line = InvalidEvent | Shown 'o

record ('o, 'de) watched =
  wt_lines :: "'o line list"
  wt_end :: "('de + unit) run"

definition add_lines :: "'o line list \<Rightarrow> ('o, 'de) watched \<Rightarrow> ('o, 'de) watched" where
  "add_lines ls w = w\<lparr>wt_lines := ls @ wt_lines w\<rparr>"

definition add_line :: "'o line \<Rightarrow> ('o, 'de) watched \<Rightarrow> ('o, 'de) watched" where
  "add_line l w = w\<lparr>wt_lines := l # wt_lines w\<rparr>"

lemma add_line_simps [simp]:
  "wt_lines (add_line l w) = l # wt_lines w"
  "wt_end (add_line l w) = wt_end w"
  by (simp_all add: add_line_def)

text \<open>
  \<open>show_event\<close> is what follows the decoding: it may show nothing, fail, or panic.  The
  loop ends with the stream, with an error, or with a panic.
\<close>

fun watch_stream ::
    "('sig verifiable_log \<Rightarrow> ('ve + unit) run) \<Rightarrow> (eth_log \<Rightarrow> 'de + 'ev)
      \<Rightarrow> ('ev \<Rightarrow> 'sig verifiable_log \<Rightarrow> ('de + 'o option) run) \<Rightarrow> 'sig verifiable_log list \<Rightarrow> ('o, 'de) watched" where
  "watch_stream verify decode show_event [] = \<lparr>wt_lines = [], wt_end = Inr (Inr ())\<rparr>"
| "watch_stream verify decode show_event (log # stream) =
     (case verify log of
        Inl p \<Rightarrow> \<lparr>wt_lines = [], wt_end = Inl p\<rparr>
      | Inr (Inl e) \<Rightarrow> add_line InvalidEvent (watch_stream verify decode show_event stream)
      | Inr (Inr u) \<Rightarrow>
          (case decode (rl_inner (inner log)) of
             Inl e \<Rightarrow> \<lparr>wt_lines = [], wt_end = Inr (Inl e)\<rparr>
           | Inr event \<Rightarrow>
               (case show_event event log of
                  Inl p \<Rightarrow> \<lparr>wt_lines = [], wt_end = Inl p\<rparr>
                | Inr (Inl e) \<Rightarrow> \<lparr>wt_lines = [], wt_end = Inr (Inl e)\<rparr>
                | Inr (Inr None) \<Rightarrow> watch_stream verify decode show_event stream
                | Inr (Inr (Some x)) \<Rightarrow> add_line (Shown x) (watch_stream verify decode show_event stream))))"

section \<open>The four watchers\<close>

text \<open>The notary shows submitter, document hash and the decoded time.\<close>

record document_timestamped =
  dt_submitter :: address
  dt_document_hash :: hash
  dt_timestamp :: u64

definition decode_timestamp :: "u64 \<Rightarrow> 'e + system_time" where
  "decode_timestamp timestamp = Inr (uint timestamp * 1000)"

definition watch_documents where
  "watch_documents K recover c (decode :: eth_log \<Rightarrow> 'de + document_timestamped) =
     watch_stream (\<lambda>log. vl_verify K recover log c) decode
       (\<lambda>event log. Inr (map_ok (\<lambda>t. Some (dt_submitter event, dt_document_hash event, t))
          (decode_timestamp (dt_timestamp event))))"

text \<open>The token and NFT clients show the fields of the event; \<open>tr_value\<close> is an \<^verbatim>\<open>I256\<close>.\<close>

record transfer_event =
  tr_from :: address
  tr_to :: address
  tr_value :: "256 word"

record minted_event =
  mt_owner :: address
  mt_token_id :: u256
  mt_uri :: string

definition watch_transfers where
  "watch_transfers K recover c (decode :: eth_log \<Rightarrow> 'de + transfer_event) =
     watch_stream (\<lambda>log. vl_verify K recover log c) decode
       (\<lambda>event log. Inr (Inr (Some (tr_from event, tr_to event, tr_value event))))"

definition watch_minted where
  "watch_minted K recover c (decode :: eth_log \<Rightarrow> 'de + minted_event) =
     watch_stream (\<lambda>log. vl_verify K recover log c) decode
       (\<lambda>event log. Inr (Inr (Some (mt_owner event, mt_token_id event, mt_uri event))))"

text \<open>The voting client shows votes only, and needs the hash of the log's transaction.\<close>

record vote_cast =
  vc_proposal_id :: hash
  vc_voter :: address
  vc_choice :: byte

datatype (plugins only: code) ('pc, 'pe) voting_events = ProposalCreated 'pc | ProposalExecuted 'pe | VoteCast vote_cast

definition watch_votes where
  "watch_votes K recover c (decode :: eth_log \<Rightarrow> 'de + ('pc, 'pe) voting_events) =
     watch_stream (\<lambda>log. vl_verify K recover log c) decode
       (\<lambda>event log. case event of
          VoteCast vote \<Rightarrow>
            (case rl_transaction_hash (inner log) of
               None \<Rightarrow> Inl UnwrapNone
             | Some h \<Rightarrow> Inr (Inr (Some (vc_voter vote, vc_choice vote, h))))
        | _ \<Rightarrow> Inr (Inr None))"

section \<open>The contract of a checked stream\<close>

text \<open>
  What a watcher relies on: the check of a log never panics, and passes exactly for the
  accepted ones.
\<close>

locale checked_stream =
  fixes verify :: "'sig verifiable_log \<Rightarrow> ('ve + unit) run"
    and accepted :: "'sig verifiable_log \<Rightarrow> bool"
  assumes verify_total: "\<exists>r. verify log = Inr r"
    and verify_ok: "verify log = Inr (Inr ()) \<longleftrightarrow> accepted log"
begin

lemma verify_cases:
  obtains (ok) "accepted log" "verify log = Inr (Inr ())"
  | (refused) e where "\<not> accepted log" "verify log = Inr (Inl e)"
  using verify_total [of log] verify_ok [of log] by (metis old.unit.exhaust sum.exhaust)

text \<open>Every line shown comes from an accepted log of the stream.\<close>

lemma shown_accepted:
  "Shown x \<in> set (wt_lines (watch_stream verify decode show_event stream)) \<Longrightarrow>
   \<exists>log \<in> set stream. accepted log
     \<and> (\<exists>ev. decode (rl_inner (inner log)) = Inr ev \<and> show_event ev log = Inr (Inr (Some x)))"
proof (induction stream)
  case (Cons log stream)
  show ?case
  proof (cases log rule: verify_cases)
    case ok
    then show ?thesis using Cons by (fastforce split: sum.splits option.splits)
  next
    case refused
    then show ?thesis using Cons by auto
  qed
qed simp

text \<open>Refused logs cost one line each and never stop the stream.\<close>

lemma skips_refused:
  "(\<And>log. log \<in> set refused \<Longrightarrow> \<not> accepted log) \<Longrightarrow>
   watch_stream verify decode show_event (refused @ stream)
     = add_lines (replicate (length refused) InvalidEvent) (watch_stream verify decode show_event stream)"
proof (induction refused)
  case (Cons log refused)
  then show ?case by (cases log rule: verify_cases) (auto simp: add_lines_def add_line_def)
qed (simp add: add_lines_def)

lemma shows_accepted:
  "\<lbrakk>accepted log; decode (rl_inner (inner log)) = Inr ev; show_event ev log = Inr (Inr (Some x))\<rbrakk> \<Longrightarrow>
   watch_stream verify decode show_event (log # stream)
     = add_line (Shown x) (watch_stream verify decode show_event stream)"
  using verify_ok [of log] by simp

lemma passes_over:
  "\<lbrakk>accepted log; decode (rl_inner (inner log)) = Inr ev; show_event ev log = Inr (Inr None)\<rbrakk> \<Longrightarrow>
   watch_stream verify decode show_event (log # stream) = watch_stream verify decode show_event stream"
  using verify_ok [of log] by simp

lemma reports_refused:
  "\<not> accepted log \<Longrightarrow>
   watch_stream verify decode show_event (log # stream)
     = add_line InvalidEvent (watch_stream verify decode show_event stream)"
  by (cases log rule: verify_cases) simp_all

end

definition attested where
  "attested K recover c v \<longleftrightarrow>
     (\<exists>root. hash_receipt K (vl_receipt (pod_metadata v)) = Inr root
      \<and> quorum_size c \<le> card {a. a |\<in>| validators c
          \<and> (\<exists>att \<in> set (attestations (pod_metadata v)). recover (ta_signature att) root = Inr a)})"

text \<open>The signatures of the log's committee members over its receipt reach the quorum.\<close>

lemma vl_verify_attested:
  "\<exists>r. vl_verify K recover v c = Inr r"
  "vl_verify K recover v c = Inr (Inr ()) \<longleftrightarrow> attested K recover c v"
  by (auto simp: vl_verify_def verify_certificate_def hash_receipt_def merkle_hash_eq
      verify_aggregate_ok_iff signers_of_def attested_def)

interpretation log_stream: checked_stream "\<lambda>log. vl_verify K recover log c" "attested K recover c"
  for K recover c
  by unfold_locales (rule vl_verify_attested)+

lemma attested_ignores_log [simp]:
  "attested K recover c (v\<lparr>inner := l\<rparr>) \<longleftrightarrow> attested K recover c v"
  by (simp add: attested_def)

text \<open>A sample: signatures name their signer, and every log decodes to the same event.\<close>

definition sample_signer :: "address \<Rightarrow> hash \<Rightarrow> unit + address" where
  "sample_signer sig d = Inr sig"

definition sample_document :: document_timestamped where
  "sample_document = \<lparr>dt_submitter = 5, dt_document_hash = 9, dt_timestamp = 3000000\<rparr>"

definition sample_decode :: "eth_log \<Rightarrow> unit + document_timestamped" where
  "sample_decode l = (if lg_address l = 5 then Inr sample_document else Inl ())"

lemma sample_attested: "attested tiny_crates sample_signer (committee_new [1, 2, 3] 2) sample_verifiable_log"
proof -
  have "{a. a \<in> {1, 2, 3 :: address} \<and> (a = 1 \<or> a = 2)} = {1, 2}" by auto
  then show ?thesis
    by (simp add: attested_def sample_signer_def sample_receipt_hash committee_new_def
        sample_verifiable_log_def conj_disj_distribL cong: conj_cong)
qed

definition sample_unsigned_log :: "address verifiable_log" where
  "sample_unsigned_log =
     sample_verifiable_log\<lparr>pod_metadata := \<lparr>attestations = [], vl_receipt = sample_receipt\<rparr>\<rparr>"

lemma sample_not_attested: "\<not> attested tiny_crates sample_signer (committee_new [1, 2, 3] 2) sample_unsigned_log"
  by (simp add: attested_def sample_unsigned_log_def committee_new_def)

section \<open>Properties\<close>

text \<open>
  Every document the notary's watcher shows comes from a log of the stream whose
  receipt a quorum of the committee signed, and shows what that log decodes to, at the
  microsecond.
\<close>

theorem watched_documents_attested:
  assumes "Shown (s, h, t) \<in> set (wt_lines (watch_documents K recover c decode stream))"
  shows "\<exists>log \<in> set stream. attested K recover c log
    \<and> (\<exists>ev. decode (rl_inner (inner log)) = Inr ev \<and> dt_submitter ev = s \<and> dt_document_hash ev = h
        \<and> uint (dt_timestamp ev) * 1000 = t)"
  using log_stream.shown_accepted [OF assms [unfolded watch_documents_def]]
  by (auto simp: decode_timestamp_def)

theorem watched_documents_attested_witness:
  "\<exists>log \<in> {sample_verifiable_log}. attested tiny_crates sample_signer (committee_new [1, 2, 3] 2) log
    \<and> (\<exists>ev. sample_decode (rl_inner (inner log)) = Inr ev \<and> dt_submitter ev = 5 \<and> dt_document_hash ev = 9
        \<and> uint (dt_timestamp ev) * 1000 = 3000000000)"
proof -
  have "Shown (5, 9, 3000000000) \<in> set (wt_lines (watch_documents tiny_crates sample_signer
      (committee_new [1, 2, 3] 2) sample_decode [sample_verifiable_log]))"
    unfolding watch_documents_def
    by (subst log_stream.shows_accepted [OF sample_attested, where ev = sample_document and x = "(5, 9, 3000000000)"])
      (simp_all add: sample_decode_def sample_log_def sample_document_def decode_timestamp_def)
  from watched_documents_attested [OF this] show ?thesis by simp
qed

text \<open>
  C11. The check authenticates the receipt only: with the certificate of any attested
  receipt, a node can have the watcher show any log that decodes as its event, followed by
  whatever the rest of the stream shows; logs that fail the check cost a line each and are passed over.
\<close>

theorem watcher_shows_substituted_log:
  assumes "attested K recover c v" "decode l = Inr ev"
    and "\<And>log. log \<in> set refused \<Longrightarrow> \<not> attested K recover c log"
  shows "watch_documents K recover c decode
      (refused @ v\<lparr>inner := (inner v)\<lparr>rl_inner := l\<rparr>\<rparr> # stream)
    = add_lines (replicate (length refused) InvalidEvent)
        (add_line (Shown (dt_submitter ev, dt_document_hash ev, uint (dt_timestamp ev) * 1000))
          (watch_documents K recover c decode stream))"
  unfolding watch_documents_def
  by (subst log_stream.skips_refused [OF assms(3)], assumption, subst log_stream.shows_accepted)
    (simp_all add: assms decode_timestamp_def)

theorem watcher_shows_substituted_log_witness:
  "watch_documents tiny_crates sample_signer (committee_new [1, 2, 3] 2) sample_decode
     [sample_unsigned_log,
      sample_verifiable_log\<lparr>inner := (inner sample_verifiable_log)
        \<lparr>rl_inner := \<lparr>lg_address = 5, lg_data = \<lparr>ld_topics = [77], ld_data = []\<rparr>\<rparr>\<rparr>\<rparr>]
   = \<lparr>wt_lines = [InvalidEvent, Shown (5, 9, 3000000000)], wt_end = Inr (Inr ())\<rparr>"
proof -
  let ?l = "\<lparr>lg_address = 5, lg_data = \<lparr>ld_topics = [77], ld_data = []\<rparr>\<rparr>"
  have "sample_decode ?l = Inr sample_document" by (simp add: sample_decode_def)
  from watcher_shows_substituted_log [where decode = sample_decode and l = ?l, OF sample_attested this, of "[sample_unsigned_log]" "[]"]
    sample_not_attested
  show ?thesis by (simp add: sample_document_def add_line_def add_lines_def watch_documents_def)
qed

end
