(* ===== verification/Notary_Client.thy ===== *)
theory Notary_Client
  imports Watch_Clients Provider
begin

text \<open>
  The commands of \<^verbatim>\<open>examples/notary/src/main.rs\<close>: reading the timestamp of a
  document and timestamping one.  The contract, the connection, the wallet, hex decoding,
  \<^verbatim>\<open>U256::try_from_be_slice\<close> and the standard input are arguments, collected
  in a record; \<open>'x\<close> is their error.  A time is a \<^verbatim>\<open>SystemTime\<close>, in nanoseconds.
\<close>

section \<open>The surroundings of the client\<close>

record ('key, 'p, 'r, 'fs, 'data, 'x) notary_env =
  ne_hex_decode :: "string \<Rightarrow> 'x + bytes"
  ne_key_from_slice :: "bytes \<Rightarrow> 'x + 'key"
  ne_be_slice :: "bytes \<Rightarrow> u256 option"
  ne_connect :: "string \<Rightarrow> 'key option \<Rightarrow> 'x + unit"
  ne_stdin :: "'x + string"
  ne_send :: "'key \<Rightarrow> address \<Rightarrow> hash \<Rightarrow> u64 \<Rightarrow> 'x + 'p"
  ne_get_receipt :: "'p \<Rightarrow> 'x + 'r"
  ne_receipt_status :: "'r \<Rightarrow> bool"
  ne_request :: "'fs rpc_call \<Rightarrow> nat \<Rightarrow> ('data, 'x) rpc_error + string"
  ne_timestamps :: "address \<Rightarrow> hash \<Rightarrow> 'x + u64"

datatype (plugins only: code) ('data, 'x) notary_error =
    External 'x
  | TimestampingFailed
  | WaitingForSettlement "('data, 'x) rpc_error"
  | GettingTimestamp 'x
  | EarlierTimestamp system_time
  | FailedToSetTimestamp

definition external :: "'x + 'a \<Rightarrow> ('data, 'x) notary_error + 'a" where
  "external r = (case r of Inl e \<Rightarrow> Inl (External e) | Inr a \<Rightarrow> Inr a)"

section \<open>Reading a timestamp\<close>

text \<open>The contract answers zero for a document that was never timestamped.\<close>

definition get_timestamp ::
    "('key, 'p, 'r, 'fs, 'data, 'x) notary_env \<Rightarrow> string \<Rightarrow> address \<Rightarrow> hash \<Rightarrow> 'x + system_time option" where
  "get_timestamp N rpc_url contract h =
     and_then (ne_connect N rpc_url None) (\<lambda>_.
     and_then (ne_timestamps N contract h) (\<lambda>timestamp.
       if timestamp = 0 then Inr None
       else map_ok Some (decode_timestamp timestamp)))"

text \<open>The command line's hash; \<^verbatim>\<open>unwrap\<close> panics when it is too large.\<close>

definition document_hash_arg ::
    "('key, 'p, 'r, 'fs, 'data, 'x) notary_env \<Rightarrow> string \<Rightarrow> ('x + hash) run" where
  "document_hash_arg N arg =
     (case ne_hex_decode N (trim_start_matches ''0x'' arg) of
        Inl e \<Rightarrow> Inr (Inl e)
      | Inr bs \<Rightarrow>
          (case ne_be_slice N bs of
             None \<Rightarrow> Inl UnwrapNone
           | Some h \<Rightarrow> Inr (Inr h)))"

section \<open>Timestamping a document\<close>

definition timestamp_arg :: "system_time \<Rightarrow> system_time option \<Rightarrow> timestamp run" where
  "timestamp_arg clock ts =
     timestamp_from_system_time (case ts of Some t \<Rightarrow> t | None \<Rightarrow> clock + 10 * 10 ^ 9)"

definition timestamp_document ::
    "crates \<Rightarrow> ('key, 'p, 'r, 'fs, 'data, 'x) notary_env \<Rightarrow> string \<Rightarrow> address \<Rightarrow> string \<Rightarrow> string option
      \<Rightarrow> timestamp \<Rightarrow> ('data, 'x) notary_error + hash \<times> system_time" where
  "timestamp_document K N rpc_url contract private_key document ts =
     and_then (external (ne_hex_decode N private_key)) (\<lambda>pk_bytes.
     and_then (external (ne_key_from_slice N pk_bytes)) (\<lambda>pk.
     and_then (external (ne_connect N rpc_url (Some pk))) (\<lambda>_.
     and_then (case document of
         Some doc \<Rightarrow> Inr (keccak256 K (str_bytes doc))
       | None \<Rightarrow> map_ok (\<lambda>buffer. keccak256 K (str_bytes buffer)) (external (ne_stdin N))) (\<lambda>document_hash.
     and_then (external (ne_send N pk contract document_hash (ucast (as_micros ts)))) (\<lambda>pending_tx.
     and_then (external (ne_get_receipt N pending_tx)) (\<lambda>receipt.
     if \<not> ne_receipt_status N receipt then Inl TimestampingFailed
     else
       case wo_result (wait_past_perfect_time (ne_request N) ts) of
         Inl e \<Rightarrow> Inl (WaitingForSettlement e)
       | Inr _ \<Rightarrow>
           (case get_timestamp N rpc_url contract document_hash of
              Inl e \<Rightarrow> Inl (GettingTimestamp e)
            | Inr None \<Rightarrow> Inl FailedToSetTimestamp
            | Inr (Some got_ts) \<Rightarrow>
                if got_ts = system_time_from_timestamp ts then Inr (document_hash, got_ts)
                else Inl (EarlierTimestamp got_ts))))))))"

section \<open>The program\<close>

text \<open>The two commands besides the watcher, and what they show.\<close>

datatype (plugins only: code) notary_command =
    GetTimestampCommand string
  | TimestampCommand string "string option" "system_time option"

datatype (plugins only: code) notary_shown =
    NotTimestamped
  | TimestampIs system_time
  | TimestampedDocument hash system_time

definition notary_main ::
    "crates \<Rightarrow> ('key, 'p, 'r, 'fs, 'data, 'x) notary_env \<Rightarrow> string \<Rightarrow> address \<Rightarrow> system_time
      \<Rightarrow> notary_command \<Rightarrow> (('data, 'x) notary_error + notary_shown) run" where
  "notary_main K N rpc_url contract clock command =
     (case command of
        GetTimestampCommand h \<Rightarrow>
          map_ok (\<lambda>h. and_then (external h) (\<lambda>h.
              map_ok (\<lambda>t. case t of Some timestamp \<Rightarrow> TimestampIs timestamp | None \<Rightarrow> NotTimestamped)
                (external (get_timestamp N rpc_url contract h))))
            (document_hash_arg N h)
      | TimestampCommand private_key document ts \<Rightarrow>
          map_ok (\<lambda>ts. map_ok (\<lambda>(h, ts). TimestampedDocument h ts)
              (timestamp_document K N rpc_url contract private_key document ts))
            (timestamp_arg clock ts))"

section \<open>Properties\<close>

lemma notary_external_ok [simp]: "external r = Inr a \<longleftrightarrow> r = Inr a"
  by (cases r) (simp_all add: external_def)

lemma get_timestamp_some:
  "get_timestamp N url contract h = Inr (Some t) \<longleftrightarrow>
     ne_connect N url None = Inr ()
     \<and> (\<exists>us. ne_timestamps N contract h = Inr us \<and> us \<noteq> 0 \<and> t = uint us * 1000)"
  by (auto simp: get_timestamp_def and_then_Inr_iff decode_timestamp_def)

lemma micros_of_timestamp: "uint us * 1000 = system_time_from_timestamp ts \<longleftrightarrow> us = (ucast (as_micros ts) :: u64)"
  by (simp add: system_time_from_timestamp_def word_uint_eq_iff)

text \<open>
  What success of timestamping means: the transaction carrying the document's hash and
  the time, in 64 bits of microseconds, was sent and its receipt is successful; and the
  contract, asked again afterwards, answers that very time, which is not zero.  The time
  returned is the requested one reduced to 64 bits of microseconds.  Waiting for settlement
  adds nothing: its outcome is always success.
\<close>

theorem timestamp_document_spec:
  "timestamp_document K N url contract private_key (Some doc) ts = Inr (h, t) \<longleftrightarrow>
     h = keccak256 K (str_bytes doc) \<and> t = system_time_from_timestamp ts
     \<and> (ucast (as_micros ts) :: u64) \<noteq> 0
     \<and> ne_timestamps N contract h = Inr (ucast (as_micros ts))
     \<and> ne_connect N url None = Inr ()
     \<and> (\<exists>pk_bytes pk p r. ne_hex_decode N private_key = Inr pk_bytes \<and> ne_key_from_slice N pk_bytes = Inr pk
          \<and> ne_connect N url (Some pk) = Inr () \<and> ne_send N pk contract h (ucast (as_micros ts)) = Inr p
          \<and> ne_get_receipt N p = Inr r \<and> ne_receipt_status N r)"
proof -
  have final: "(case get_timestamp N url contract h' of
      Inl e \<Rightarrow> Inl (GettingTimestamp e)
    | Inr None \<Rightarrow> Inl FailedToSetTimestamp
    | Inr (Some got) \<Rightarrow> if got = system_time_from_timestamp ts then Inr (h', got) else Inl (EarlierTimestamp got))
    = Inr (h, t) \<longleftrightarrow> h = h' \<and> t = system_time_from_timestamp ts
        \<and> get_timestamp N url contract h' = Inr (Some (system_time_from_timestamp ts))" for h'
    by (auto split: sum.splits option.splits)
  have got: "get_timestamp N url contract h' = Inr (Some (system_time_from_timestamp ts)) \<longleftrightarrow>
      ne_connect N url None = Inr () \<and> ne_timestamps N contract h' = Inr (ucast (as_micros ts))
      \<and> (ucast (as_micros ts) :: u64) \<noteq> 0" for h'
    unfolding get_timestamp_some eq_commute [of "system_time_from_timestamp ts"] micros_of_timestamp by blast
  show ?thesis
    unfolding timestamp_document_def and_then_Inr_iff notary_external_ok option.case wait_result_ok sum.case
      if_distrib [of "\<lambda>r. r = Inr (h, t)"] sum.distinct if_bool_eq_conj final got
    by auto
qed

end
