(* ===== verification/Voting_Client.thy ===== *)
theory Voting_Client
  imports Watch_Clients Provider
begin

text \<open>
  The commands of \<^verbatim>\<open>examples/voting/client/src/main.rs\<close>: casting a vote, and
  creating a proposal, watching it until its deadline and executing it.  The contract, the
  node and the decoders are arguments, collected in a record; \<open>'x\<close> is their error.

  \<^verbatim>\<open>create_and_watch_proposal\<close> waits for two spawned tasks with
  \<^verbatim>\<open>tokio::select!\<close>.  Each time the macro polls, a round says which tasks have
  ended by then and which branch is polled first, which the macro draws at random.
\<close>

section \<open>Arguments of the command line\<close>

datatype (plugins only: code) voting_call =
    CastVote hash byte
  | CreateProposal u64 u256 "address list" bytes
  | Execute hash

record ('key, 'p, 'r, 'sig, 'fs, 'x) voting_env =
  ve_hex_decode :: "string \<Rightarrow> 'x + bytes"
  ve_key_from_slice :: "bytes \<Rightarrow> 'x + 'key"
  ve_be_slice :: "bytes \<Rightarrow> u256 option"
  ve_connect :: "'key option \<Rightarrow> 'x + unit"
  ve_send :: "'key \<Rightarrow> voting_call \<Rightarrow> 'x + 'p"
  ve_get_receipt :: "'p \<Rightarrow> 'x + 'r"
  ve_receipt_status :: "'r \<Rightarrow> bool"
  ve_receipt_tx :: "'r \<Rightarrow> hash"
  ve_receipt_logs :: "'r \<Rightarrow> eth_log list"
  ve_get_logs :: "'fs log_filter \<Rightarrow> 'x + 'sig verifiable_log list"
  ve_decode_created :: "log_data \<Rightarrow> 'x + hash"
  ve_decode_vote :: "log_data \<Rightarrow> 'x + vote_cast"

datatype (plugins only: code) 'x voting_error =
    External 'x
  | InvalidProposalId
  | VotingTxFailed hash
  | CreationTxFailed hash
  | MissingProposalCreated
  | ExecutionFailed hash

definition external :: "'x + 'a \<Rightarrow> 'x voting_error + 'a" where
  "external r = (case r of Inl e \<Rightarrow> Inl (External e) | Inr a \<Rightarrow> Inr a)"

lemma external_simps [simp]:
  "external (Inl e) = Inl (External e)"
  "external (Inr a) = Inr a"
  by (simp_all add: external_def)

lemma external_ok [simp]: "external r = Inr a \<longleftrightarrow> r = Inr a"
  by (cases r) simp_all

datatype (plugins only: code) proposal_id = ProposalId (pid_0: hash)

datatype (plugins only: code) 'key private_key = Privatekey (pk_0: 'key)

definition proposal_id_from_str ::
    "('key, 'p, 'r, 'sig, 'fs, 'x) voting_env \<Rightarrow> string \<Rightarrow> 'x voting_error + proposal_id" where
  "proposal_id_from_str V s =
     and_then (external (ve_hex_decode V (trim_start_matches ''0x'' s))) (\<lambda>bs.
     map_ok ProposalId (ok_or InvalidProposalId (ve_be_slice V bs)))"

definition private_key_from_str ::
    "('key, 'p, 'r, 'sig, 'fs, 'x) voting_env \<Rightarrow> string \<Rightarrow> 'x voting_error + 'key private_key" where
  "private_key_from_str V s =
     and_then (external (ve_hex_decode V (trim_start_matches ''0x'' s))) (\<lambda>pk_bytes.
     map_ok Privatekey (external (ve_key_from_slice V pk_bytes)))"

text \<open>Seconds on the command line, 64 bits of microseconds afterwards: the cast truncates.\<close>

definition proposal_deadline :: "system_time \<Rightarrow> u64 option \<Rightarrow> u64 run" where
  "proposal_deadline clock deadline =
     (case deadline of
        Some d \<Rightarrow> Inr (ucast (as_micros (from_seconds d)))
      | None \<Rightarrow>
          and_then (timestamp_now clock) (\<lambda>t.
          map_ok (\<lambda>t. ucast (as_micros t)) (timestamp_add_duration t (dur_from_secs 30))))"

section \<open>Transactions\<close>

definition cast_vote ::
    "('key, 'p, 'r, 'sig, 'fs, 'x) voting_env \<Rightarrow> 'key private_key \<Rightarrow> proposal_id \<Rightarrow> byte \<Rightarrow> 'x voting_error + hash" where
  "cast_vote V private_key proposal_id choice =
     and_then (external (ve_connect V (Some (pk_0 private_key)))) (\<lambda>_.
     and_then (external (ve_send V (pk_0 private_key) (CastVote (pid_0 proposal_id) choice))) (\<lambda>pending_tx.
     and_then (external (ve_get_receipt V pending_tx)) (\<lambda>receipt.
     if ve_receipt_status V receipt then Inr (ve_receipt_tx V receipt)
     else Inl (VotingTxFailed (ve_receipt_tx V receipt)))))"

definition create_proposal ::
    "('key, 'p, 'r, 'sig, 'fs, 'x) voting_env \<Rightarrow> 'key \<Rightarrow> address list \<Rightarrow> nat \<Rightarrow> u64 \<Rightarrow> string
      \<Rightarrow> 'x voting_error + proposal_id" where
  "create_proposal V private_key participants threshold deadline data =
     and_then (external (ve_connect V (Some private_key))) (\<lambda>_.
     and_then (external (ve_hex_decode V data)) (\<lambda>data_bytes.
     and_then (external (ve_send V private_key
       (CreateProposal deadline (of_nat threshold) participants data_bytes))) (\<lambda>pending_tx.
     and_then (external (ve_get_receipt V pending_tx)) (\<lambda>receipt.
     if \<not> ve_receipt_status V receipt then Inl (CreationTxFailed (ve_receipt_tx V receipt))
     else
       case ve_receipt_logs V receipt of
         [] \<Rightarrow> Inl MissingProposalCreated
       | event # _ \<Rightarrow> map_ok ProposalId (external (ve_decode_created V (lg_data event)))))))"

definition execute ::
    "('key, 'p, 'r, 'sig, 'fs, 'x) voting_env \<Rightarrow> 'key \<Rightarrow> proposal_id \<Rightarrow> 'x voting_error + hash" where
  "execute V private_key proposal_id =
     and_then (external (ve_connect V (Some private_key))) (\<lambda>_.
     and_then (external (ve_send V private_key (Execute (pid_0 proposal_id)))) (\<lambda>pending_tx.
     and_then (external (ve_get_receipt V pending_tx)) (\<lambda>receipt.
     if \<not> ve_receipt_status V receipt then Inl (ExecutionFailed (ve_receipt_tx V receipt))
     else Inr (ve_receipt_tx V receipt))))"

section \<open>Counting votes\<close>

text \<open>The logs are decoded as they come: they are neither verified nor made distinct.\<close>

definition get_votes ::
    "'fs \<Rightarrow> 'fs \<Rightarrow> hash \<Rightarrow> ('key, 'p, 'r, 'sig, 'fs, 'x) voting_env \<Rightarrow> proposal_id
      \<Rightarrow> ('x voting_error + vote_cast list) run" where
  "get_votes no_address contract vote_cast_hash V proposal_id =
     (case external (ve_connect V None) of
        Inl e \<Rightarrow> Inr (Inl e)
      | Inr _ \<Rightarrow>
          map_ok (\<lambda>flt.
            and_then (external (ve_get_logs V flt))
              (traverse (\<lambda>log. external (ve_decode_vote V (lg_data (rl_inner (inner log)))))))
            (votes_filter no_address contract vote_cast_hash (pid_0 proposal_id)))"

section \<open>Waiting for the watcher and the deadline\<close>

record select_round =
  watch_ended :: bool
  deadline_task_ended :: bool
  watch_polled_first :: bool

text \<open>
  \<open>watch_done\<close>: the watcher's handle has already given its result, so that polling it again
  panics.  \<open>None\<close>: the rounds end while the loop still waits.
\<close>

fun select_loop :: "bool \<Rightarrow> select_round list \<Rightarrow> unit run option" where
  "select_loop watch_done [] = None"
| "select_loop watch_done (r # rounds) =
     (if watch_polled_first r then
        (if watch_done then Some (Inl PolledAfterCompletion)
         else if watch_ended r then select_loop True rounds
         else if deadline_task_ended r then Some (Inr ())
         else select_loop watch_done rounds)
      else
        (if deadline_task_ended r then Some (Inr ())
         else if watch_done then Some (Inl PolledAfterCompletion)
         else if watch_ended r then select_loop True rounds
         else select_loop watch_done rounds))"

datatype (plugins only: code) proposal_outcome = Executed hash | NotExecuted nat

definition create_and_watch_proposal ::
    "'fs \<Rightarrow> 'fs \<Rightarrow> hash \<Rightarrow> ('key, 'p, 'r, 'sig, 'fs, 'x) voting_env \<Rightarrow> select_round list \<Rightarrow> 'key \<Rightarrow> address list
      \<Rightarrow> nat \<Rightarrow> u64 \<Rightarrow> string \<Rightarrow> ('x voting_error + proposal_outcome) run option" where
  "create_and_watch_proposal no_address contract vote_cast_hash V rounds private_key participants
       threshold deadline data =
     (case create_proposal V private_key participants threshold deadline data of
        Inl e \<Rightarrow> Some (Inr (Inl e))
      | Inr proposal_id \<Rightarrow>
          (case select_loop False rounds of
             None \<Rightarrow> None
           | Some (Inl p) \<Rightarrow> Some (Inl p)
           | Some (Inr _) \<Rightarrow>
               Some (map_ok (\<lambda>votes. and_then votes (\<lambda>votes.
                   if length votes \<ge> threshold
                   then map_ok Executed (execute V private_key proposal_id)
                   else Inr (NotExecuted (length votes))))
                 (get_votes no_address contract vote_cast_hash V proposal_id))))"

section \<open>The program\<close>

datatype (plugins only: code) 'key voting_command =
    VoteCommand "'key private_key" proposal_id byte
  | CreateCommand "'key private_key" "u64 option" nat "address list" string

datatype (plugins only: code) voting_shown = VoteSent hash | ProposalEnded proposal_outcome

definition voting_main ::
    "'fs \<Rightarrow> 'fs \<Rightarrow> hash \<Rightarrow> ('key, 'p, 'r, 'sig, 'fs, 'x) voting_env \<Rightarrow> select_round list \<Rightarrow> system_time
      \<Rightarrow> 'key voting_command \<Rightarrow> ('x voting_error + voting_shown) run option" where
  "voting_main no_address contract vote_cast_hash V rounds clock command =
     (case command of
        VoteCommand private_key proposal_id choice \<Rightarrow>
          Some (Inr (map_ok VoteSent (cast_vote V private_key proposal_id choice)))
      | CreateCommand private_key deadline threshold participants data \<Rightarrow>
          (case proposal_deadline clock deadline of
             Inl p \<Rightarrow> Some (Inl p)
           | Inr deadline \<Rightarrow>
               map_option (map_ok (map_ok ProposalEnded))
                 (create_and_watch_proposal no_address contract vote_cast_hash V rounds (pk_0 private_key)
                   participants threshold deadline data)))"

section \<open>Properties\<close>

lemma select_loop_quiet:
  "\<forall>r \<in> set quiet. \<not> watch_ended r \<and> \<not> deadline_task_ended r \<Longrightarrow>
   select_loop False (quiet @ rounds) = select_loop False rounds"
proof (induction quiet)
  case (Cons q quiet)
  have "\<not> watch_ended q" "\<not> deadline_task_ended q" using Cons.prems by simp_all
  moreover have "select_loop False (quiet @ rounds) = select_loop False rounds"
    by (rule Cons.IH) (use Cons.prems in simp)
  ultimately show ?case by (simp only: append_Cons select_loop.simps if_False if_cancel)
qed simp

text \<open>
  C21. When the vote watcher ends while the deadline is still being waited for, the next
  poll of its finished handle panics: the proposal is neither counted nor executed, unless
  the deadline task ends between the two polls and happens to be polled first.
\<close>

theorem watch_end_panics:
  assumes "create_proposal V private_key participants threshold deadline data = Inr pid"
    and "\<forall>r \<in> set quiet. \<not> watch_ended r \<and> \<not> deadline_task_ended r"
    and "watch_ended r" "\<not> deadline_task_ended r"
    and "watch_polled_first r' \<or> \<not> deadline_task_ended r'"
  shows "create_and_watch_proposal no_address contract vote_cast_hash V (quiet @ r # r' # rounds)
    private_key participants threshold deadline data = Some (Inl PolledAfterCompletion)"
proof -
  have "select_loop False (quiet @ r # r' # rounds) = Some (Inl PolledAfterCompletion)"
    using assms(3-5) by (subst select_loop_quiet [OF assms(2)]) auto
  then show ?thesis by (simp add: create_and_watch_proposal_def assms(1))
qed

text \<open>A sample: everything succeeds, and there is one log, decoded to the proposal's identity.\<close>

definition sample_voting :: "(nat, unit, unit, nat, unit, unit) voting_env" where
  "sample_voting =
     \<lparr>ve_hex_decode = (\<lambda>s. Inr []), ve_key_from_slice = (\<lambda>bs. Inr 1), ve_be_slice = (\<lambda>bs. Some 7),
      ve_connect = (\<lambda>k. Inr ()), ve_send = (\<lambda>k c. Inr ()), ve_get_receipt = (\<lambda>p. Inr ()),
      ve_receipt_status = (\<lambda>r. True), ve_receipt_tx = (\<lambda>r. 11), ve_receipt_logs = (\<lambda>r. [sample_log]),
      ve_get_logs = (\<lambda>flt. Inr []), ve_decode_created = (\<lambda>d. Inr 7),
      ve_decode_vote = (\<lambda>d. Inl ())\<rparr>"

theorem watch_end_panics_witness:
  "create_and_watch_proposal () () 5 sample_voting
     [\<lparr>watch_ended = False, deadline_task_ended = False, watch_polled_first = True\<rparr>,
      \<lparr>watch_ended = True, deadline_task_ended = False, watch_polled_first = False\<rparr>,
      \<lparr>watch_ended = True, deadline_task_ended = False, watch_polled_first = True\<rparr>]
     1 [3] 2 1000 ''00'' = Some (Inl PolledAfterCompletion)"
  using watch_end_panics [of sample_voting 1 "[3]" 2 1000 "''00''" "ProposalId 7"
      "[\<lparr>watch_ended = False, deadline_task_ended = False, watch_polled_first = True\<rparr>]"
      "\<lparr>watch_ended = True, deadline_task_ended = False, watch_polled_first = False\<rparr>"
      "\<lparr>watch_ended = True, deadline_task_ended = False, watch_polled_first = True\<rparr>" "()" "()" 5 "[]"]
  by (simp add: create_proposal_def sample_voting_def)

end
