(* ===== verification/Bridge_Client.thy ===== *)
theory Bridge_Client
  imports Receipt
begin

text \<open>
  \<^verbatim>\<open>examples/bridge-flow/src/main.rs\<close>: a deposit on the source chain and the wait
  for the balance on pod.  The chains are arguments, collected in a record; \<open>'x\<close> is their
  error.  A wait is given the answers it receives before its timeout; \<^verbatim>\<open>U256\<close>
  addition wraps around, as the library documents.
\<close>

section \<open>The deposit\<close>

record ('p, 'r, 'de, 'x) source_chain =
  sc_bridge_address :: address
  sc_token_address :: address
  sc_approve :: "address \<Rightarrow> u256 \<Rightarrow> 'x + 'p"
  sc_deposit :: "address \<Rightarrow> u256 \<Rightarrow> address \<Rightarrow> address \<Rightarrow> u256 \<Rightarrow> bytes \<Rightarrow> 'x + 'p"
  sc_get_receipt :: "'p \<Rightarrow> 'x + 'r"
  sc_status :: "'r \<Rightarrow> bool"
  sc_logs :: "'r \<Rightarrow> eth_log list"
  sc_block_number :: "'r \<Rightarrow> u64 option"
  sc_decode_deposit :: "eth_log \<Rightarrow> 'de + u256"

datatype (plugins only: code) 'x bridge_error =
    Connecting 'x
  | SendingApprove 'x
  | GettingApproveReceipt 'x
  | SendingDeposit 'x
  | GettingDepositReceipt 'x
  | RequestIdNotFound
  | BalanceCall 'x
  | WaitingForDeposited

text \<open>The loop over the logs of the deposit's receipt.\<close>

fun find_deposit :: "(eth_log \<Rightarrow> 'de + u256) \<Rightarrow> u64 option \<Rightarrow> eth_log list \<Rightarrow> (hash \<times> u64) option" where
  "find_deposit decode block_number [] = None"
| "find_deposit decode block_number (log # ls) =
     (case decode log of
        Inl e \<Rightarrow> find_deposit decode block_number ls
      | Inr deposit_id \<Rightarrow>
          (case block_number of
             Some n \<Rightarrow> Some (deposit_id, n)
           | None \<Rightarrow> find_deposit decode block_number ls))"

definition labelled :: "('x \<Rightarrow> 'e) \<Rightarrow> 'x + 'a \<Rightarrow> ('a \<Rightarrow> ('e + 'b) run) \<Rightarrow> ('e + 'b) run" where
  "labelled label r f = (case r of Inl e \<Rightarrow> Inr (Inl (label e)) | Inr a \<Rightarrow> f a)"

definition deposit_token ::
    "('p, 'r, 'de, 'x) source_chain \<Rightarrow> address \<Rightarrow> u256 \<Rightarrow> ('x bridge_error + hash \<times> u64) run" where
  "deposit_token S to amount =
     labelled SendingApprove (sc_approve S (sc_bridge_address S) amount) (\<lambda>approve_tx.
     labelled GettingApproveReceipt (sc_get_receipt S approve_tx) (\<lambda>approve_receipt.
     if \<not> sc_status S approve_receipt then Inl AssertFailed
     else
       labelled SendingDeposit (sc_deposit S (sc_token_address S) amount to 0 0 []) (\<lambda>deposit_tx.
       labelled GettingDepositReceipt (sc_get_receipt S deposit_tx) (\<lambda>receipt.
       if \<not> sc_status S receipt then Inl AssertFailed
       else Inr (ok_or RequestIdNotFound
         (find_deposit (sc_decode_deposit S) (sc_block_number S receipt) (sc_logs S receipt)))))))"

section \<open>Waiting\<close>

text \<open>The answers to the balance calls made before the timeout.\<close>

fun await_balance :: "(u256 \<Rightarrow> bool) \<Rightarrow> ('x + u256) list \<Rightarrow> 'x bridge_error + u256" where
  "await_balance enough [] = Inl WaitingForDeposited"
| "await_balance enough (answer # answers) =
     (case answer of
        Inl e \<Rightarrow> Inl (BalanceCall e)
      | Inr pod_balance \<Rightarrow>
          if enough pod_balance then Inr pod_balance else await_balance enough answers)"

definition bridge_native_from_source_chain_to_pod ::
    "('p, 'r, 'de, 'x) source_chain \<Rightarrow> 'x + u256 \<Rightarrow> ('x + u256) list \<Rightarrow> address \<Rightarrow> u256
      \<Rightarrow> ('x bridge_error + u256) run" where
  "bridge_native_from_source_chain_to_pod S balance_before answers to amount =
     labelled BalanceCall balance_before (\<lambda>prev_balance_pod.
     map_ok (\<lambda>d. and_then d (\<lambda>_. await_balance (\<lambda>b. b > prev_balance_pod) answers))
       (deposit_token S to amount))"

definition bridge_token_from_source_chain_to_pod ::
    "('p, 'r, 'de, 'x) source_chain \<Rightarrow> 'x + u256 \<Rightarrow> ('x + u256) list \<Rightarrow> address \<Rightarrow> u256
      \<Rightarrow> ('x bridge_error + u256) run" where
  "bridge_token_from_source_chain_to_pod S balance_before answers to amount =
     labelled BalanceCall balance_before (\<lambda>prev_balance_pod.
     map_ok (\<lambda>d. and_then d (\<lambda>_. await_balance (\<lambda>b. b \<ge> prev_balance_pod + amount) answers))
       (deposit_token S to amount))"

text \<open>
  The program connects to pod, then to the source chain with the token or wrapped native
  token of the command, and bridges to the account of its key.
\<close>

record 'x pod_client =
  pod_token_before :: "'x + u256"
  pod_token_answers :: "('x + u256) list"
  pod_native_before :: "'x + u256"
  pod_native_answers :: "('x + u256) list"

datatype (plugins only: code) bridge_command =
    DepositTokenToPod address u256
  | DepositNativeToPod address u256

definition bridge_main ::
    "'x + 'x pod_client \<Rightarrow> (address \<Rightarrow> 'x + ('p, 'r, 'de, 'x) source_chain) \<Rightarrow> address \<Rightarrow> bridge_command
      \<Rightarrow> ('x bridge_error + u256) run" where
  "bridge_main connect_pod connect_source to command =
     labelled Connecting connect_pod (\<lambda>pod.
     case command of
       DepositTokenToPod token amount \<Rightarrow>
         labelled Connecting (connect_source token) (\<lambda>S.
         bridge_token_from_source_chain_to_pod S (pod_token_before pod) (pod_token_answers pod) to amount)
     | DepositNativeToPod wrapped_native amount \<Rightarrow>
         labelled Connecting (connect_source wrapped_native) (\<lambda>S.
         bridge_native_from_source_chain_to_pod S (pod_native_before pod) (pod_native_answers pod) to amount))"

text \<open>The finalised blocks a node reports, every ten seconds; \<open>None\<close>: still waiting.\<close>

fun wait_for_finalized :: "('x + u64 option) list \<Rightarrow> u64 \<Rightarrow> ('x + unit) option" where
  "wait_for_finalized [] block_number = None"
| "wait_for_finalized (answer # answers) block_number =
     (case answer of
        Inl e \<Rightarrow> Some (Inl e)
      | Inr (Some number) \<Rightarrow>
          if number \<ge> block_number then Some (Inr ()) else wait_for_finalized answers block_number
      | Inr None \<Rightarrow> wait_for_finalized answers block_number)"

section \<open>Properties\<close>

lemma labelled_ok: "labelled label r f = Inr (Inr b) \<longleftrightarrow> (\<exists>a. r = Inr a \<and> f a = Inr (Inr b))"
  by (cases r) (simp_all add: labelled_def)

lemma await_balance_ok:
  "await_balance enough answers = Inr b \<longleftrightarrow>
     (\<exists>too_small rest. answers = map Inr too_small @ Inr b # rest
       \<and> (\<forall>c \<in> set too_small. \<not> enough c) \<and> enough b)"
proof (induction answers)
  case (Cons answer answers)
  show ?case
  proof (cases answer)
    case (Inl e)
    then show ?thesis by (auto simp: Cons_eq_append_conv Cons_eq_map_conv)
  next
    case (Inr c)
    show ?thesis
    proof (cases "enough c")
      case True
      then show ?thesis using Inr
        by (auto simp: Cons_eq_append_conv Cons_eq_map_conv map_eq_Cons_conv)
    next
      case False
      then have "await_balance enough (answer # answers) = await_balance enough answers" using Inr by simp
      also have "\<dots> = Inr b \<longleftrightarrow> (\<exists>too_small rest. answers = map Inr too_small @ Inr b # rest
         \<and> (\<forall>c \<in> set too_small. \<not> enough c) \<and> enough b)" by (rule Cons.IH)
      also have "\<dots> \<longleftrightarrow> (\<exists>too_small rest. answer # answers = map Inr too_small @ Inr b # rest
         \<and> (\<forall>c \<in> set too_small. \<not> enough c) \<and> enough b)"
        using False Inr by (auto simp: Cons_eq_append_conv Cons_eq_map_conv map_eq_Cons_conv) (metis list.simps(9) set_ConsD)
      finally show ?thesis .
    qed
  qed
qed simp

lemma find_deposit_ok:
  "(\<exists>d. find_deposit decode n ls = Some d) \<longleftrightarrow> n \<noteq> None \<and> (\<exists>l \<in> set ls. \<exists>i. decode l = Inr i)"
  by (induction ls) (auto split: sum.splits option.splits)

text \<open>The transactions behind a deposit that succeeded.\<close>

definition deposited :: "('p, 'r, 'de, 'x) source_chain \<Rightarrow> address \<Rightarrow> u256 \<Rightarrow> bool" where
  "deposited S to amount \<longleftrightarrow>
     (\<exists>p r p' r' n i. sc_approve S (sc_bridge_address S) amount = Inr p \<and> sc_get_receipt S p = Inr r \<and> sc_status S r
        \<and> sc_deposit S (sc_token_address S) amount to 0 0 [] = Inr p' \<and> sc_get_receipt S p' = Inr r' \<and> sc_status S r'
        \<and> sc_block_number S r' = Some n \<and> (\<exists>l \<in> set (sc_logs S r'). sc_decode_deposit S l = Inr i))"

lemma ok_or_ok: "ok_or e x = Inr d \<longleftrightarrow> x = Some d"
  by (cases x) (simp_all add: ok_or_def)

lemma deposit_token_ok: "(\<exists>d. deposit_token S to amount = Inr (Inr d)) \<longleftrightarrow> deposited S to amount"
proof -
  have "(\<exists>d. deposit_token S to amount = Inr (Inr d)) \<longleftrightarrow>
      (\<exists>p r p' r'. sc_approve S (sc_bridge_address S) amount = Inr p \<and> sc_get_receipt S p = Inr r \<and> sc_status S r
        \<and> sc_deposit S (sc_token_address S) amount to 0 0 [] = Inr p' \<and> sc_get_receipt S p' = Inr r' \<and> sc_status S r'
        \<and> (\<exists>d. find_deposit (sc_decode_deposit S) (sc_block_number S r') (sc_logs S r') = Some d))"
    by (simp add: deposit_token_def labelled_ok ok_or_ok cong: conj_cong split: if_split) blast
  then show ?thesis by (simp only: find_deposit_ok deposited_def) blast
qed

lemma bridge_ok:
  "labelled BalanceCall balance_before (\<lambda>prev.
     map_ok (\<lambda>d. and_then d (\<lambda>_. await_balance (enough prev) answers)) (deposit_token S to amount)) = Inr (Inr b)
   \<longleftrightarrow> (\<exists>prev. balance_before = Inr prev \<and> deposited S to amount \<and> await_balance (enough prev) answers = Inr b)"
proof -
  have "map_ok (\<lambda>d. and_then d (\<lambda>_. await_balance (enough prev) answers)) (deposit_token S to amount) = Inr (Inr b)
      \<longleftrightarrow> (\<exists>d. deposit_token S to amount = Inr (Inr d)) \<and> await_balance (enough prev) answers = Inr b" for prev
    by (auto simp: map_ok_def and_then_Inr_iff)
  then show ?thesis by (simp only: labelled_ok deposit_token_ok)
qed

lemma no_overflow_sum:
  fixes a b c :: u256
  assumes "uint a + uint b < 2 ^ 256" "a + b \<le> c"
  shows "uint a + uint b \<le> uint c"
  using assms by (simp add: word_le_def uint_word_ariths)

text \<open>
  C39. The token bridge reports a balance exactly after a deposit whose two transactions
  succeeded, were logged and have a block, and it is the first balance read that reaches
  the old one plus the amount.  As long as that sum fits 256 bits the account really has
  the amount more than before.
\<close>

theorem bridge_token_spec:
  "bridge_token_from_source_chain_to_pod S balance_before answers to amount = Inr (Inr b) \<longleftrightarrow>
     (\<exists>prev. balance_before = Inr prev \<and> deposited S to amount
        \<and> (\<exists>early rest. answers = map Inr early @ Inr b # rest
             \<and> (\<forall>c \<in> set early. c < prev + amount) \<and> prev + amount \<le> b)
        \<and> (uint prev + uint amount < 2 ^ 256 \<longrightarrow> uint prev + uint amount \<le> uint b))"
  unfolding bridge_token_from_source_chain_to_pod_def bridge_ok await_balance_ok not_le
  using no_overflow_sum by blast

text \<open>A sample: every transaction succeeds, with one log that decodes to the deposit 9.\<close>

definition sample_chain :: "(unit, unit, unit, unit) source_chain" where
  "sample_chain =
     \<lparr>sc_bridge_address = 1, sc_token_address = 2, sc_approve = (\<lambda>a n. Inr ()),
      sc_deposit = (\<lambda>token n a caller f data. Inr ()), sc_get_receipt = (\<lambda>p. Inr ()), sc_status = (\<lambda>r. True),
      sc_logs = (\<lambda>r. [sample_log]), sc_block_number = (\<lambda>r. Some 77),
      sc_decode_deposit = (\<lambda>l. Inr 9)\<rparr>"

lemma sample_deposited: "deposited sample_chain to amount"
  by (simp add: deposited_def sample_chain_def)

theorem bridge_token_spec_witness:
  "bridge_token_from_source_chain_to_pod sample_chain (Inr 100) [Inr 100, Inr 120, Inr 150] 3 50 = Inr (Inr 150)"
proof -
  have "(\<lambda>xs. [Inr 100, Inr 120, Inr 150] = xs @ Inr 150 # []) (map Inr [100, 120 :: u256] :: (unit + u256) list)"
    by simp
  moreover have "\<forall>c \<in> set [100, 120]. c < (100 :: u256) + 50" "(100 :: u256) + 50 \<le> 150" by simp_all
  ultimately show ?thesis
    unfolding bridge_token_spec
    by (intro exI [of _ 100] conjI exI [of _ "[100, 120]"] exI [of _ "[]"]) (simp_all add: sample_deposited)
qed

text \<open>
  The native bridge accepts any increase of the balance, from whatever source and however
  small: the amount deposited plays no part in the wait.
\<close>

theorem bridge_native_spec:
  "bridge_native_from_source_chain_to_pod S balance_before answers to amount = Inr (Inr b) \<longleftrightarrow>
     (\<exists>prev. balance_before = Inr prev \<and> deposited S to amount
        \<and> (\<exists>early rest. answers = map Inr early @ Inr b # rest \<and> (\<forall>c \<in> set early. c \<le> prev) \<and> prev < b))"
  unfolding bridge_native_from_source_chain_to_pod_def bridge_ok await_balance_ok not_less ..

end
