(* ===== verification/Sol_Interface.thy ===== *)
theory Sol_Interface
  imports Receipt "HOL-Library.List_Lexorder"
begin

text \<open>
  What the generated contract bindings share: a table of selectors in ascending order,
  searched with \<^verbatim>\<open>binary_search\<close>, beside tables in the same order (decoders,
  signatures, names).  A selector is its list of bytes, ordered lexicographically as a Rust
  array is.  The contract \<open>dispatch_table\<close> gives that a table is read at the right row.
\<close>

section \<open>\<^verbatim>\<open>slice::binary_search\<close>\<close>

text \<open>The standard library's loop halves \<open>sz\<close>; \<open>None\<close> is its \<^verbatim>\<open>Err\<close>.\<close>

function bs_loop :: "'k::linorder list \<Rightarrow> 'k \<Rightarrow> nat \<Rightarrow> nat \<Rightarrow> nat" where
  "bs_loop xs x base sz =
     (if sz > 1
      then bs_loop xs x (if xs ! (base + sz div 2) > x then base else base + sz div 2) (sz - sz div 2)
      else base)"
  by pat_completeness auto
termination
  by (relation "measure (\<lambda>(xs, x, base, sz). sz)") auto

declare bs_loop.simps [simp del]

definition binary_search :: "'k::linorder list \<Rightarrow> 'k \<Rightarrow> nat option" where
  "binary_search xs x =
     (if xs = [] then None
      else let base = bs_loop xs x 0 (length xs)
           in if xs ! base = x then Some base else None)"

lemma bs_loop_bound: "\<lbrakk>base + sz \<le> n; 0 < sz\<rbrakk> \<Longrightarrow> bs_loop xs x base sz < n"
proof (induction xs x base sz rule: bs_loop.induct)
  case (1 xs x base sz)
  then show ?case by (subst bs_loop.simps) (auto simp: Let_def)
qed

lemma bs_loop_found:
  assumes "sorted xs" "base + sz \<le> length xs" "\<exists>j. base \<le> j \<and> j < base + sz \<and> xs ! j = x"
  shows "xs ! bs_loop xs x base sz = x"
  using assms
proof (induction xs x base sz rule: bs_loop.induct)
  case (1 xs x base sz)
  obtain j where j: "base \<le> j" "j < base + sz" "xs ! j = x" using "1.prems"(3) by blast
  show ?case
  proof (cases "sz > 1")
    case False
    then have "bs_loop xs x base sz = base" "j = base" using j by (subst bs_loop.simps, simp_all)
    then show ?thesis using j(3) by simp
  next
    case True
    define mid where "mid = base + sz div 2"
    have mid: "mid < length xs" using True "1.prems"(2) by (simp add: mid_def)
    let ?base = "if xs ! mid > x then base else mid"
    have "\<exists>j. ?base \<le> j \<and> j < ?base + (sz - sz div 2) \<and> xs ! j = x"
    proof (cases "xs ! mid > x")
      case above: True
      have "\<not> mid \<le> j" using sorted_nth_mono [OF "1.prems"(1), of mid j] j above "1.prems"(2) by auto
      then show ?thesis using above j by (intro exI [of _ j]) (simp add: mid_def)
    next
      case below: False
      show ?thesis
      proof (cases "mid \<le> j")
        case True
        then show ?thesis using below j by (intro exI [of _ j]) (simp add: mid_def)
      next
        case False
        then have "xs ! mid = x" using sorted_nth_mono [OF "1.prems"(1), of j mid] j below mid by auto
        then show ?thesis using below True by (intro exI [of _ mid]) (auto simp: mid_def)
      qed
    qed
    moreover have "?base + (sz - sz div 2) \<le> length xs" using "1.prems"(2) by (auto simp: mid_def)
    ultimately have "xs ! bs_loop xs x ?base (sz - sz div 2) = x"
      using "1.IH" [OF True "1.prems"(1)] by (simp only: mid_def)
    moreover have "bs_loop xs x base sz = bs_loop xs x ?base (sz - sz div 2)"
      using True by (subst bs_loop.simps) (simp add: mid_def)
    ultimately show ?thesis by simp
  qed
qed

lemma binary_search_sound: "binary_search xs x = Some i \<Longrightarrow> i < length xs \<and> xs ! i = x"
  using bs_loop_bound [of 0 "length xs" "length xs" xs x]
  by (auto simp: binary_search_def Let_def split: if_splits)

lemma binary_search_complete:
  assumes "sorted xs" "x \<in> set xs"
  shows "\<exists>i. binary_search xs x = Some i"
proof -
  have "\<exists>j. 0 \<le> j \<and> j < 0 + length xs \<and> xs ! j = x" using assms(2) by (auto simp: in_set_conv_nth)
  from bs_loop_found [OF assms(1) _ this] assms(2) show ?thesis
    by (auto simp: binary_search_def Let_def)
qed

section \<open>Dispatch tables\<close>

text \<open>A row of a table beside the selectors; \<^verbatim>\<open>TABLE[idx]\<close> may panic.\<close>

definition table_row :: "'k::linorder list \<Rightarrow> 'v list \<Rightarrow> 'k \<Rightarrow> 'v option run" where
  "table_row selectors rows k =
     (case binary_search selectors k of
        None \<Rightarrow> Inr None
      | Some idx \<Rightarrow> map_ok Some (index_at rows idx))"

locale dispatch_table =
  fixes selectors :: "'k::linorder list"
  assumes sorted: "sorted selectors" and distinct: "distinct selectors"
begin

lemma search_nth: "i < length selectors \<Longrightarrow> binary_search selectors (selectors ! i) = Some i"
proof -
  assume i: "i < length selectors"
  then obtain j where "binary_search selectors (selectors ! i) = Some j"
    using binary_search_complete [OF sorted] nth_mem by blast
  moreover from binary_search_sound [OF this] have "j = i"
    using distinct i by (auto simp: nth_eq_iff_index_eq)
  ultimately show ?thesis by simp
qed

lemma search_None: "binary_search selectors k = None \<longleftrightarrow> k \<notin> set selectors"
proof
  show "k \<notin> set selectors" if "binary_search selectors k = None"
    using binary_search_complete [OF sorted, of k] that by auto
  show "binary_search selectors k = None" if k: "k \<notin> set selectors"
  proof (cases "binary_search selectors k")
    case (Some i)
    from binary_search_sound [OF this] k show ?thesis by auto
  qed
qed

lemma row_nth:
  "\<lbrakk>i < length selectors; length rows = length selectors\<rbrakk> \<Longrightarrow>
   table_row selectors rows (selectors ! i) = Inr (Some (rows ! i))"
  by (simp add: table_row_def search_nth)

lemma row_unknown: "k \<notin> set selectors \<Longrightarrow> table_row selectors rows k = Inr None"
  by (simp add: table_row_def search_None [symmetric])

text \<open>So the search of the table is a look-up in the list of its rows.\<close>

lemma row_map_of:
  assumes "length rows = length selectors"
  shows "table_row selectors rows k = Inr (map_of (zip selectors rows) k)"
proof (cases "k \<in> set selectors")
  case True
  then obtain i where "i < length selectors" "k = selectors ! i" by (auto simp: in_set_conv_nth)
  then show ?thesis using assms distinct by (simp add: row_nth map_of_zip_nth)
next
  case False
  then have "map_of (zip selectors rows) k = None" using assms by simp
  then show ?thesis by (simp only: row_unknown [OF False])
qed

end

text \<open>A table in ascending order; neighbours are enough to compare.\<close>

lemma ascending_table:
  fixes selectors :: "'k::linorder list"
  assumes "successively (<) selectors"
  shows "dispatch_table selectors"
proof
  have "sorted_wrt (<) selectors" using assms by (simp add: successively_conv_sorted_wrt)
  then show "sorted selectors" "distinct selectors" by (simp_all add: strict_sorted_iff)
qed

section \<open>Errors and \<^verbatim>\<open>split_once\<close>\<close>

text \<open>The errors the bindings make; \<open>Codec\<close> is one of the crate's decoders.\<close>

datatype (plugins only: code) 'x sol_error =
    UnknownSelector string bytes
  | InvalidLog string "hash list" bytes
  | InvalidSignatureHash string hash hash
  | Overrun
  | Codec 'x

definition codec :: "('a \<Rightarrow> 'b) \<Rightarrow> 'x + 'a \<Rightarrow> 'x sol_error + 'b" where
  "codec f r = (case r of Inl e \<Rightarrow> Inl (Codec e) | Inr a \<Rightarrow> Inr (f a))"

lemma codec_simps [simp]:
  "codec f (Inl e) = Inl (Codec e)"
  "codec f (Inr a) = Inr (f a)"
  by (simp_all add: codec_def)

definition split_once :: "char \<Rightarrow> string \<Rightarrow> (string \<times> string) option" where
  "split_once c s =
     (case dropWhile (\<lambda>x. x \<noteq> c) s of
        [] \<Rightarrow> None
      | _ # rest \<Rightarrow> Some (takeWhile (\<lambda>x. x \<noteq> c) s, rest))"

text \<open>A call's codec: \<^verbatim>\<open>abi_encode_raw\<close> appends to a vector.\<close>

record ('c, 'x) sol_call =
  sc_encode_raw :: "'c \<Rightarrow> bytes \<Rightarrow> bytes"
  sc_encoded_size :: "'c \<Rightarrow> nat"
  sc_decode_raw :: "bytes \<Rightarrow> 'x + 'c"
  sc_decode_raw_validate :: "bytes \<Rightarrow> 'x + 'c"

definition call_law :: "('c, 'x) sol_call \<Rightarrow> 'c \<Rightarrow> bool" where
  "call_law A c \<longleftrightarrow>
     (\<exists>body. (\<forall>out. sc_encode_raw A c out = out @ body)
       \<and> length body = sc_encoded_size A c
       \<and> sc_decode_raw A body = Inr c \<and> sc_decode_raw_validate A body = Inr c)"

text \<open>\<^verbatim>\<open>abi_decode_raw\<close> of an interface: the decoder beside the selector, or an error.\<close>

definition dispatch_call ::
    "string \<Rightarrow> bytes list \<Rightarrow> (bytes \<Rightarrow> 'x sol_error + 'c) list \<Rightarrow> bytes \<Rightarrow> bytes \<Rightarrow> ('x sol_error + 'c) run" where
  "dispatch_call name selectors decode_shims sel data =
     map_ok (\<lambda>row. case row of
         None \<Rightarrow> Inl (UnknownSelector name sel)
       | Some shim \<Rightarrow> shim data)
       (table_row selectors decode_shims sel)"

text \<open>An event's codec.\<close>

record ('e, 'x) sol_event =
  se_encode_log_data :: "'e \<Rightarrow> log_data"
  se_decode_raw_log :: "hash list \<Rightarrow> bytes \<Rightarrow> 'x + 'e"

text \<open>\<^verbatim>\<open>B256::new\<close> of an array of 32 bytes.\<close>

definition b256 :: "bytes \<Rightarrow> hash" where
  "b256 bs = foldl (\<lambda>w b. push_bit 8 w + ucast b) 0 bs"

text \<open>The crate's encoding of values as topic words.\<close>

record topic_words =
  tw_fixed :: "hash \<Rightarrow> hash"
  tw_u256 :: "u256 \<Rightarrow> hash"
  tw_address :: "address \<Rightarrow> hash"
  tw_u64 :: "u64 \<Rightarrow> hash"

lemma replicate_topics [simp]:
  "replicate 2 x = [x, x]" "replicate 3 x = [x, x, x]" "replicate 4 x = [x, x, x, x]"
  by (simp_all add: numeral_eq_Suc)

end
