(* ===== verification/Voting_Bindings.thy ===== *)
theory Voting_Bindings
  imports Sol_Interface Voting_Client
begin

text \<open>
  The contract bindings of \<^verbatim>\<open>examples/voting/bindings/src/voting.rs\<close>: the calls
  and events of the voting contract, the tables that dispatch on selectors, and the check
  and writing of event topics.  The encodings themselves are \<^verbatim>\<open>alloy\<close>'s: each call's
  and each event's codec is an argument, and \<open>voting_law\<close> and \<open>event_law\<close> say what is
  relied on: decoding reads back an encoded value.
\<close>

section \<open>Calls\<close>

record castVoteCall =
  cv_proposalId :: hash
  cv_choice :: byte

record createProposalCall =
  cp_deadline :: u64
  cp_threshold :: u256
  cp_voters :: "address list"
  cp_data :: bytes

record executeCall =
  ex_proposalId :: hash

record getProposalIdCall =
  gp_deadline :: u64
  gp_proposer :: address
  gp_voters :: "address list"

datatype (plugins only: code) VotingCalls =
    castVote_call castVoteCall
  | createProposal_call createProposalCall
  | execute_call executeCall
  | getProposalId_call getProposalIdCall

text \<open>\<^verbatim>\<open>SELECTOR\<close> and \<^verbatim>\<open>SIGNATURE\<close> of each call.\<close>

definition castVote_selector :: bytes where
  "castVote_selector = [180, 176, 113, 62]"

definition createProposal_selector :: bytes where
  "createProposal_selector = [207, 117, 238, 42]"

definition execute_selector :: bytes where
  "execute_selector = [231, 81, 242, 113]"

definition getProposalId_selector :: bytes where
  "getProposalId_selector = [184, 41, 150, 111]"

definition castVote_signature :: string where
  "castVote_signature = ''castVote(bytes32,uint8)''"

definition createProposal_signature :: string where
  "createProposal_signature = ''createProposal(uint64,uint256,address[],bytes)''"

definition execute_signature :: string where
  "execute_signature = ''execute(bytes32)''"

definition getProposalId_signature :: string where
  "getProposalId_signature = ''getProposalId(uint64,address,address[])''"

text \<open>\<^verbatim>\<open>VotingCalls::SELECTORS\<close> and the tables in its order.\<close>

definition voting_selectors :: "bytes list" where
  "voting_selectors =
     [[180, 176, 113, 62], [184, 41, 150, 111], [207, 117, 238, 42], [231, 81, 242, 113]]"

definition voting_variant_names :: "string list" where
  "voting_variant_names = [''castVote'', ''getProposalId'', ''createProposal'', ''execute'']"

definition voting_signatures :: "string list" where
  "voting_signatures =
     [castVote_signature, getProposalId_signature, createProposal_signature, execute_signature]"

definition voting_signature_by_selector :: "bytes \<Rightarrow> string option run" where
  "voting_signature_by_selector sel = table_row voting_selectors voting_signatures sel"

definition voting_name_by_selector :: "bytes \<Rightarrow> string option run" where
  "voting_name_by_selector sel =
     map_ok (\<lambda>sig. case sig of None \<Rightarrow> None | Some s \<Rightarrow> map_option fst (split_once CHR ''('' s))
       (voting_signature_by_selector sel)"

record 'x call_codecs =
  castVote_abi :: "(castVoteCall, 'x) sol_call"
  createProposal_abi :: "(createProposalCall, 'x) sol_call"
  execute_abi :: "(executeCall, 'x) sol_call"
  getProposalId_abi :: "(getProposalIdCall, 'x) sol_call"

fun voting_selector :: "VotingCalls \<Rightarrow> bytes" where
  "voting_selector (castVote_call c) = castVote_selector"
| "voting_selector (createProposal_call c) = createProposal_selector"
| "voting_selector (execute_call c) = execute_selector"
| "voting_selector (getProposalId_call c) = getProposalId_selector"

definition voting_selector_at :: "nat \<Rightarrow> bytes option" where
  "voting_selector_at i = (if i < length voting_selectors then Some (voting_selectors ! i) else None)"

definition voting_valid_selector :: "bytes \<Rightarrow> bool" where
  "voting_valid_selector sel \<longleftrightarrow> binary_search voting_selectors sel \<noteq> None"

definition voting_decode_shims :: "'x call_codecs \<Rightarrow> (bytes \<Rightarrow> 'x sol_error + VotingCalls) list" where
  "voting_decode_shims A =
     [\<lambda>data. codec castVote_call (sc_decode_raw (castVote_abi A) data),
      \<lambda>data. codec getProposalId_call (sc_decode_raw (getProposalId_abi A) data),
      \<lambda>data. codec createProposal_call (sc_decode_raw (createProposal_abi A) data),
      \<lambda>data. codec execute_call (sc_decode_raw (execute_abi A) data)]"

definition voting_decode_validate_shims :: "'x call_codecs \<Rightarrow> (bytes \<Rightarrow> 'x sol_error + VotingCalls) list" where
  "voting_decode_validate_shims A =
     [\<lambda>data. codec castVote_call (sc_decode_raw_validate (castVote_abi A) data),
      \<lambda>data. codec getProposalId_call (sc_decode_raw_validate (getProposalId_abi A) data),
      \<lambda>data. codec createProposal_call (sc_decode_raw_validate (createProposal_abi A) data),
      \<lambda>data. codec execute_call (sc_decode_raw_validate (execute_abi A) data)]"

definition voting_decode_raw :: "'x call_codecs \<Rightarrow> bytes \<Rightarrow> bytes \<Rightarrow> ('x sol_error + VotingCalls) run" where
  "voting_decode_raw A sel data =
     dispatch_call ''VotingCalls'' voting_selectors (voting_decode_shims A) sel data"

definition voting_decode_raw_validate ::
    "'x call_codecs \<Rightarrow> bytes \<Rightarrow> bytes \<Rightarrow> ('x sol_error + VotingCalls) run" where
  "voting_decode_raw_validate A sel data =
     dispatch_call ''VotingCalls'' voting_selectors (voting_decode_validate_shims A) sel data"

fun voting_encoded_size :: "'x call_codecs \<Rightarrow> VotingCalls \<Rightarrow> nat" where
  "voting_encoded_size A (castVote_call c) = sc_encoded_size (castVote_abi A) c"
| "voting_encoded_size A (createProposal_call c) = sc_encoded_size (createProposal_abi A) c"
| "voting_encoded_size A (execute_call c) = sc_encoded_size (execute_abi A) c"
| "voting_encoded_size A (getProposalId_call c) = sc_encoded_size (getProposalId_abi A) c"

fun voting_encode_raw :: "'x call_codecs \<Rightarrow> VotingCalls \<Rightarrow> bytes \<Rightarrow> bytes" where
  "voting_encode_raw A (castVote_call c) out = sc_encode_raw (castVote_abi A) c out"
| "voting_encode_raw A (createProposal_call c) out = sc_encode_raw (createProposal_abi A) c out"
| "voting_encode_raw A (execute_call c) out = sc_encode_raw (execute_abi A) c out"
| "voting_encode_raw A (getProposalId_call c) out = sc_encode_raw (getProposalId_abi A) c out"

text \<open>The builders of \<^verbatim>\<open>VotingInstance\<close>: the call a client's command sends.\<close>

fun call_of :: "voting_call \<Rightarrow> VotingCalls" where
  "call_of (CastVote proposalId choice) =
     castVote_call \<lparr>cv_proposalId = proposalId, cv_choice = choice\<rparr>"
| "call_of (CreateProposal deadline threshold voters data) =
     createProposal_call \<lparr>cp_deadline = deadline, cp_threshold = threshold, cp_voters = voters, cp_data = data\<rparr>"
| "call_of (Execute proposalId) = execute_call \<lparr>ex_proposalId = proposalId\<rparr>"

section \<open>Events\<close>

record ProposalCreated =
  pc_proposalId :: hash
  pc_deadline :: u64
  pc_data :: bytes

record ProposalExecuted =
  pe_proposalId :: hash

type_synonym VotingEvents = "(ProposalCreated, ProposalExecuted) voting_events"

definition proposal_created_bytes :: bytes where
  "proposal_created_bytes =
     [221, 29, 67, 164, 21, 230, 207, 80, 45, 205, 123, 51, 61, 50, 15, 65,
      104, 41, 192, 246, 164, 58, 169, 227, 45, 129, 205, 154, 58, 113, 71, 230]"

definition proposal_executed_bytes :: bytes where
  "proposal_executed_bytes =
     [123, 27, 207, 28, 207, 144, 26, 17, 88, 154, 255, 245, 80, 77, 89, 253,
      10, 83, 120, 14, 237, 42, 149, 42, 218, 222, 3, 72, 152, 81, 57, 224]"

definition vote_cast_bytes :: bytes where
  "vote_cast_bytes =
     [216, 169, 92, 160, 94, 154, 38, 86, 254, 33, 216, 54, 50, 157, 156, 215,
      120, 48, 231, 254, 247, 172, 183, 192, 253, 59, 245, 66, 30, 167, 173, 154]"

definition ProposalCreated_hash :: hash where
  "ProposalCreated_hash = b256 proposal_created_bytes"

definition ProposalExecuted_hash :: hash where
  "ProposalExecuted_hash = b256 proposal_executed_bytes"

definition VoteCast_hash :: hash where
  "VoteCast_hash = b256 vote_cast_bytes"

definition ProposalCreated_signature :: string where
  "ProposalCreated_signature = ''ProposalCreated(bytes32,uint64,bytes)''"

definition ProposalExecuted_signature :: string where
  "ProposalExecuted_signature = ''ProposalExecuted(bytes32)''"

definition VoteCast_signature :: string where
  "VoteCast_signature = ''VoteCast(bytes32,address,uint8)''"

definition voting_event_selectors :: "bytes list" where
  "voting_event_selectors = [proposal_executed_bytes, vote_cast_bytes, proposal_created_bytes]"

definition voting_event_names :: "string list" where
  "voting_event_names = [''ProposalExecuted'', ''VoteCast'', ''ProposalCreated'']"

definition voting_event_signatures :: "string list" where
  "voting_event_signatures = [ProposalExecuted_signature, VoteCast_signature, ProposalCreated_signature]"

definition event_signature_by_selector :: "bytes \<Rightarrow> string option run" where
  "event_signature_by_selector sel = table_row voting_event_selectors voting_event_signatures sel"

definition event_name_by_selector :: "bytes \<Rightarrow> string option run" where
  "event_name_by_selector sel =
     map_ok (\<lambda>sig. case sig of None \<Rightarrow> None | Some s \<Rightarrow> map_option fst (split_once CHR ''('' s))
       (event_signature_by_selector sel)"

text \<open>\<^verbatim>\<open>SolEvent\<close> of the three events: topics and data to an event, and back.\<close>

definition ProposalCreated_new :: "hash \<times> hash \<times> u64 \<Rightarrow> bytes \<Rightarrow> ProposalCreated" where
  "ProposalCreated_new topics data =
     \<lparr>pc_proposalId = fst (snd topics), pc_deadline = snd (snd topics), pc_data = data\<rparr>"

definition ProposalExecuted_new :: "hash \<times> hash \<Rightarrow> unit \<Rightarrow> ProposalExecuted" where
  "ProposalExecuted_new topics data = \<lparr>pe_proposalId = snd topics\<rparr>"

definition VoteCast_new :: "hash \<times> hash \<times> address \<Rightarrow> byte \<Rightarrow> vote_cast" where
  "VoteCast_new topics data =
     \<lparr>vc_proposal_id = fst (snd topics), vc_voter = snd (snd topics), vc_choice = data\<rparr>"

definition ProposalCreated_check_signature :: "hash \<times> hash \<times> u64 \<Rightarrow> 'x sol_error + unit" where
  "ProposalCreated_check_signature topics =
     (if fst topics \<noteq> ProposalCreated_hash
      then Inl (InvalidSignatureHash ProposalCreated_signature (fst topics) ProposalCreated_hash)
      else Inr ())"

definition ProposalExecuted_check_signature :: "hash \<times> hash \<Rightarrow> 'x sol_error + unit" where
  "ProposalExecuted_check_signature topics =
     (if fst topics \<noteq> ProposalExecuted_hash
      then Inl (InvalidSignatureHash ProposalExecuted_signature (fst topics) ProposalExecuted_hash)
      else Inr ())"

definition VoteCast_check_signature :: "hash \<times> hash \<times> address \<Rightarrow> 'x sol_error + unit" where
  "VoteCast_check_signature topics =
     (if fst topics \<noteq> VoteCast_hash
      then Inl (InvalidSignatureHash VoteCast_signature (fst topics) VoteCast_hash)
      else Inr ())"

definition ProposalCreated_topics :: "ProposalCreated \<Rightarrow> hash \<times> hash \<times> u64" where
  "ProposalCreated_topics e = (ProposalCreated_hash, pc_proposalId e, pc_deadline e)"

definition ProposalExecuted_topics :: "ProposalExecuted \<Rightarrow> hash \<times> hash" where
  "ProposalExecuted_topics e = (ProposalExecuted_hash, pe_proposalId e)"

definition VoteCast_topics :: "vote_cast \<Rightarrow> hash \<times> hash \<times> address" where
  "VoteCast_topics e = (VoteCast_hash, vc_proposal_id e, vc_voter e)"

text \<open>
  The crate's encoding of a value as a topic word, and its encoding and decoding of the
  events; the third topic of \<open>ProposalCreated\<close> is a \<^verbatim>\<open>Time::Timestamp\<close>, which
  \<^verbatim>\<open>EventTopic\<close> delegates to the underlying integer.
\<close>

record 'x event_codecs =
  topic_fixed :: "hash \<Rightarrow> hash"
  topic_u64 :: "u64 \<Rightarrow> hash"
  topic_address :: "address \<Rightarrow> hash"
  ProposalCreated_abi :: "(ProposalCreated, 'x) sol_event"
  ProposalExecuted_abi :: "(ProposalExecuted, 'x) sol_event"
  VoteCast_abi :: "(vote_cast, 'x) sol_event"

definition timestamp_encode_topic :: "'x event_codecs \<Rightarrow> u64 \<Rightarrow> hash" where
  "timestamp_encode_topic A t = topic_u64 A t"

definition ProposalCreated_encode_topics_raw ::
    "'x event_codecs \<Rightarrow> ProposalCreated \<Rightarrow> hash list \<Rightarrow> ('x sol_error + hash list) run" where
  "ProposalCreated_encode_topics_raw A e out =
     (if length out < 3 then Inr (Inl Overrun)
      else map_ok Inr
        (and_then (set_at 0 ProposalCreated_hash out) (\<lambda>out.
         and_then (set_at 1 (topic_fixed A (pc_proposalId e)) out) (\<lambda>out.
         set_at 2 (timestamp_encode_topic A (pc_deadline e)) out))))"

definition ProposalExecuted_encode_topics_raw ::
    "'x event_codecs \<Rightarrow> ProposalExecuted \<Rightarrow> hash list \<Rightarrow> ('x sol_error + hash list) run" where
  "ProposalExecuted_encode_topics_raw A e out =
     (if length out < 2 then Inr (Inl Overrun)
      else map_ok Inr
        (and_then (set_at 0 ProposalExecuted_hash out) (\<lambda>out.
         set_at 1 (topic_fixed A (pe_proposalId e)) out)))"

definition VoteCast_encode_topics_raw ::
    "'x event_codecs \<Rightarrow> vote_cast \<Rightarrow> hash list \<Rightarrow> ('x sol_error + hash list) run" where
  "VoteCast_encode_topics_raw A e out =
     (if length out < 3 then Inr (Inl Overrun)
      else map_ok Inr
        (and_then (set_at 0 VoteCast_hash out) (\<lambda>out.
         and_then (set_at 1 (topic_fixed A (vc_proposal_id e)) out) (\<lambda>out.
         set_at 2 (topic_address A (vc_voter e)) out))))"

text \<open>\<^verbatim>\<open>VotingEvents\<close>: dispatch on the first topic, and the log data of an event.\<close>

definition voting_decode_raw_log ::
    "'x event_codecs \<Rightarrow> hash list \<Rightarrow> bytes \<Rightarrow> 'x sol_error + VotingEvents" where
  "voting_decode_raw_log A topics data =
     (case topics of
        [] \<Rightarrow> Inl (InvalidLog ''VotingEvents'' topics data)
      | topic0 # _ \<Rightarrow>
          if topic0 = ProposalCreated_hash
          then codec ProposalCreated (se_decode_raw_log (ProposalCreated_abi A) topics data)
          else if topic0 = ProposalExecuted_hash
          then codec ProposalExecuted (se_decode_raw_log (ProposalExecuted_abi A) topics data)
          else if topic0 = VoteCast_hash
          then codec VoteCast (se_decode_raw_log (VoteCast_abi A) topics data)
          else Inl (InvalidLog ''VotingEvents'' topics data))"

fun voting_to_log_data :: "'x event_codecs \<Rightarrow> VotingEvents \<Rightarrow> log_data" where
  "voting_to_log_data A (ProposalCreated e) = se_encode_log_data (ProposalCreated_abi A) e"
| "voting_to_log_data A (ProposalExecuted e) = se_encode_log_data (ProposalExecuted_abi A) e"
| "voting_to_log_data A (VoteCast e) = se_encode_log_data (VoteCast_abi A) e"

text \<open>The crate's \<^verbatim>\<open>decode_log\<close> of an interface decodes the log's topics and data.\<close>

definition voting_decode_log :: "'x event_codecs \<Rightarrow> eth_log \<Rightarrow> 'x sol_error + VotingEvents" where
  "voting_decode_log A log = voting_decode_raw_log A (ld_topics (lg_data log)) (ld_data (lg_data log))"

section \<open>The tables\<close>

interpretation voting_calls: dispatch_table voting_selectors
  by unfold_locales (simp_all add: voting_selectors_def)

lemmas event_bytes = proposal_created_bytes_def proposal_executed_bytes_def vote_cast_bytes_def

interpretation voting_events: dispatch_table voting_event_selectors
  by unfold_locales (simp_all add: voting_event_selectors_def event_bytes)

lemma event_hashes_distinct [simp]:
  "ProposalExecuted_hash \<noteq> ProposalCreated_hash"
  "VoteCast_hash \<noteq> ProposalCreated_hash"
  "VoteCast_hash \<noteq> ProposalExecuted_hash"
  by (simp_all add: ProposalExecuted_hash_def ProposalCreated_hash_def VoteCast_hash_def event_bytes b256_def)

declare event_hashes_distinct [symmetric, simp]

lemma voting_selectors_differ [simp]:
  "castVote_selector \<noteq> getProposalId_selector" "castVote_selector \<noteq> createProposal_selector"
  "castVote_selector \<noteq> execute_selector" "getProposalId_selector \<noteq> createProposal_selector"
  "getProposalId_selector \<noteq> execute_selector" "createProposal_selector \<noteq> execute_selector"
  by (simp_all add: castVote_selector_def createProposal_selector_def execute_selector_def getProposalId_selector_def)

declare voting_selectors_differ [symmetric, simp]

text \<open>So a row is looked up by the selector its call or event has itself.\<close>

lemma voting_row:
  "table_row voting_selectors [a, b, c, d] sel = Inr
     (if sel = castVote_selector then Some a
      else if sel = getProposalId_selector then Some b
      else if sel = createProposal_selector then Some c
      else if sel = execute_selector then Some d
      else None)"
proof -
  have "table_row voting_selectors [a, b, c, d] sel = Inr (map_of (zip voting_selectors [a, b, c, d]) sel)"
    by (rule voting_calls.row_map_of) (simp add: voting_selectors_def)
  then show ?thesis
    by (simp add: voting_selectors_def castVote_selector_def createProposal_selector_def
        execute_selector_def getProposalId_selector_def)
qed

lemma voting_event_row:
  "table_row voting_event_selectors [a, b, c] sel = Inr
     (if sel = proposal_executed_bytes then Some a
      else if sel = vote_cast_bytes then Some b
      else if sel = proposal_created_bytes then Some c
      else None)"
proof -
  have "table_row voting_event_selectors [a, b, c] sel = Inr (map_of (zip voting_event_selectors [a, b, c]) sel)"
    by (rule voting_events.row_map_of) (simp add: voting_event_selectors_def)
  then show ?thesis by (simp add: voting_event_selectors_def)
qed

text \<open>The search is the look-up among the calls by each call's own selector.\<close>

lemma voting_dispatch:
  "voting_decode_raw A sel data = Inr
     (if sel = castVote_selector then codec castVote_call (sc_decode_raw (castVote_abi A) data)
      else if sel = getProposalId_selector then codec getProposalId_call (sc_decode_raw (getProposalId_abi A) data)
      else if sel = createProposal_selector then codec createProposal_call (sc_decode_raw (createProposal_abi A) data)
      else if sel = execute_selector then codec execute_call (sc_decode_raw (execute_abi A) data)
      else Inl (UnknownSelector ''VotingCalls'' sel))"
  by (simp add: voting_decode_raw_def dispatch_call_def voting_decode_shims_def voting_row)

lemma voting_dispatch_validate:
  "voting_decode_raw_validate A sel data = Inr
     (if sel = castVote_selector then codec castVote_call (sc_decode_raw_validate (castVote_abi A) data)
      else if sel = getProposalId_selector then codec getProposalId_call (sc_decode_raw_validate (getProposalId_abi A) data)
      else if sel = createProposal_selector then codec createProposal_call (sc_decode_raw_validate (createProposal_abi A) data)
      else if sel = execute_selector then codec execute_call (sc_decode_raw_validate (execute_abi A) data)
      else Inl (UnknownSelector ''VotingCalls'' sel))"
  by (simp add: voting_decode_raw_validate_def dispatch_call_def voting_decode_validate_shims_def voting_row)

text \<open>The name found for a call's selector is the variant's, though read off the signature.\<close>

fun variant_name :: "VotingCalls \<Rightarrow> string" where
  "variant_name (castVote_call c) = ''castVote''"
| "variant_name (createProposal_call c) = ''createProposal''"
| "variant_name (execute_call c) = ''execute''"
| "variant_name (getProposalId_call c) = ''getProposalId''"

lemma voting_name_of_call: "voting_name_by_selector (voting_selector c) = Inr (Some (variant_name c))"
  by (cases c)
    (simp_all add: voting_name_by_selector_def voting_signature_by_selector_def voting_signatures_def
      voting_row split_once_def castVote_signature_def createProposal_signature_def
      execute_signature_def getProposalId_signature_def)

text \<open>No table access of the two enums is out of bounds.\<close>

lemma event_name_by_selector_total: "\<exists>r. event_name_by_selector sel = Inr r"
  by (simp add: event_name_by_selector_def event_signature_by_selector_def voting_event_row
      voting_event_signatures_def)

section \<open>Laws of the codecs\<close>

fun voting_law :: "'x call_codecs \<Rightarrow> VotingCalls \<Rightarrow> bool" where
  "voting_law A (castVote_call c) \<longleftrightarrow> call_law (castVote_abi A) c"
| "voting_law A (createProposal_call c) \<longleftrightarrow> call_law (createProposal_abi A) c"
| "voting_law A (execute_call c) \<longleftrightarrow> call_law (execute_abi A) c"
| "voting_law A (getProposalId_call c) \<longleftrightarrow> call_law (getProposalId_abi A) c"

text \<open>
  The log data of an event carries the topics the event writes into an array of their
  number, and is read back.
\<close>

definition codec_law ::
    "('e, 'x) sol_event \<Rightarrow> nat \<Rightarrow> ('e \<Rightarrow> hash list \<Rightarrow> ('x sol_error + hash list) run) \<Rightarrow> 'e \<Rightarrow> bool" where
  "codec_law A n_topics write e \<longleftrightarrow>
     write e (replicate n_topics 0) = Inr (Inr (ld_topics (se_encode_log_data A e)))
     \<and> se_decode_raw_log A (ld_topics (se_encode_log_data A e)) (ld_data (se_encode_log_data A e)) = Inr e"

fun event_law :: "'x event_codecs \<Rightarrow> VotingEvents \<Rightarrow> bool" where
  "event_law A (ProposalCreated e) \<longleftrightarrow>
     codec_law (ProposalCreated_abi A) 3 (ProposalCreated_encode_topics_raw A) e"
| "event_law A (ProposalExecuted e) \<longleftrightarrow>
     codec_law (ProposalExecuted_abi A) 2 (ProposalExecuted_encode_topics_raw A) e"
| "event_law A (VoteCast e) \<longleftrightarrow> codec_law (VoteCast_abi A) 3 (VoteCast_encode_topics_raw A) e"

lemmas encode_topics_defs =
  ProposalCreated_encode_topics_raw_def ProposalExecuted_encode_topics_raw_def VoteCast_encode_topics_raw_def

lemma voting_events_round_trip:
  "event_law A e \<Longrightarrow> voting_decode_raw_log A (ld_topics (voting_to_log_data A e)) (ld_data (voting_to_log_data A e)) = Inr e"
  by (cases e) (auto simp: codec_law_def encode_topics_defs voting_decode_raw_log_def set_at_def
      split: list.splits)

text \<open>An event's own topics pass its signature check and, with its data, make it again.\<close>

lemma own_topics_accepted:
  "ProposalCreated_check_signature (ProposalCreated_topics e) = Inr ()"
  "ProposalExecuted_check_signature (ProposalExecuted_topics x) = Inr ()"
  "VoteCast_check_signature (VoteCast_topics v) = Inr ()"
  "ProposalCreated_new (ProposalCreated_topics e) (pc_data e) = e"
  "ProposalExecuted_new (ProposalExecuted_topics x) u = x"
  "VoteCast_new (VoteCast_topics v) (vc_choice v) = v"
  by (simp_all add: ProposalCreated_check_signature_def ProposalExecuted_check_signature_def
      VoteCast_check_signature_def ProposalCreated_topics_def ProposalExecuted_topics_def
      VoteCast_topics_def ProposalCreated_new_def ProposalExecuted_new_def VoteCast_new_def)

section \<open>Watching the votes\<close>

text \<open>
  What a stream of logs is about: a log with \<open>Some e\<close> is attested and carries the event
  \<open>e\<close>, one with \<open>None\<close> is refused.
\<close>

fun emitted where
  "emitted K recover c A (log, Some e) \<longleftrightarrow>
     attested K recover c log \<and> event_law A e
     \<and> lg_data (rl_inner (inner log)) = voting_to_log_data A e
     \<and> rl_transaction_hash (inner log) \<noteq> None"
| "emitted K recover c A (log, None) \<longleftrightarrow> \<not> attested K recover c log"

text \<open>The line the watcher owes for it.\<close>

fun vote_line :: "'sig verifiable_log \<times> VotingEvents option \<Rightarrow> (address \<times> byte \<times> hash) line list" where
  "vote_line (log, None) = [InvalidEvent]"
| "vote_line (log, Some (VoteCast v)) =
     [Shown (vc_voter v, vc_choice v, the (rl_transaction_hash (inner log)))]"
| "vote_line (log, Some e) = []"

lemma emitted_decodes:
  "emitted K recover c A (log, Some e) \<Longrightarrow> voting_decode_log A (rl_inner (inner log)) = Inr e"
  by (simp add: voting_decode_log_def voting_events_round_trip)

lemma add_line_record [simp]:
  "add_line l \<lparr>wt_lines = ls, wt_end = r\<rparr> = \<lparr>wt_lines = l # ls, wt_end = r\<rparr>"
  by (simp add: add_line_def)

lemma watch_votes_step:
  assumes "emitted K recover c A sent"
  shows "watch_votes K recover c (voting_decode_log A) (fst sent # stream)
    = add_lines (vote_line sent) (watch_votes K recover c (voting_decode_log A) stream)"
proof (cases sent)
  case (Pair log e)
  show ?thesis
  proof (cases e)
    case None
    then show ?thesis
      using assms Pair
      by (simp add: watch_votes_def log_stream.reports_refused add_lines_def add_line_def del: watch_stream.simps)
  next
    case (Some ev)
    have log: "attested K recover c log" "voting_decode_log A (rl_inner (inner log)) = Inr ev"
      "rl_transaction_hash (inner log) \<noteq> None"
      using assms emitted_decodes [of K recover c A log ev] unfolding Pair Some by simp_all
    show ?thesis
    proof (cases ev)
      case (VoteCast v)
      then show ?thesis
        using Pair Some log unfolding watch_votes_def
        by (auto simp: log_stream.shows_accepted [where decode = "voting_decode_log A", OF log(1,2)]
            add_lines_def add_line_def simp del: watch_stream.simps)
    qed (use Pair Some log in
        \<open>simp_all add: watch_votes_def log_stream.passes_over add_lines_def del: watch_stream.simps\<close>)
  qed
qed

section \<open>Properties\<close>

text \<open>
  Dispatching on a selector never panics and is right: an unknown selector is refused
  with an error naming it, and a call decoded for a selector is of the variant that has it.
\<close>

theorem voting_dispatch_typed:
  "case voting_decode_raw A sel data of
     Inl p \<Rightarrow> False
   | Inr (Inl (UnknownSelector name s)) \<Rightarrow> s = sel \<and> \<not> voting_valid_selector sel
   | Inr (Inl e) \<Rightarrow> voting_valid_selector sel
   | Inr (Inr call) \<Rightarrow> voting_selector call = sel \<and> voting_valid_selector sel"
proof -
  have "set voting_selectors = {castVote_selector, getProposalId_selector, createProposal_selector, execute_selector}"
    by (simp add: voting_selectors_def castVote_selector_def createProposal_selector_def
        execute_selector_def getProposalId_selector_def)
  then have "voting_valid_selector sel \<longleftrightarrow>
      sel \<in> {castVote_selector, getProposalId_selector, createProposal_selector, execute_selector}"
    using voting_calls.search_None [of sel] by (simp only: voting_valid_selector_def) blast
  then show ?thesis by (auto simp: voting_dispatch codec_def split: sum.split)
qed

text \<open>
  What is encoded for a call is appended to the output, has the announced size, and is
  decoded again as that call under the call's selector, by both decoders.
\<close>

theorem voting_calls_round_trip:
  assumes "voting_law A call"
  shows "\<exists>body. voting_encode_raw A call out = out @ body
    \<and> length body = voting_encoded_size A call
    \<and> voting_decode_raw A (voting_selector call) body = Inr (Inr call)
    \<and> voting_decode_raw_validate A (voting_selector call) body = Inr (Inr call)"
  using assms
  by (cases call) (auto simp: call_law_def voting_dispatch voting_dispatch_validate)

text \<open>
  The vote watcher decodes with the bindings' dispatch: from a stream of attested logs
  of the contract's events and of refused logs it shows, in order, each vote with its
  transaction and a line for each refused log, nothing for other events, and ends with the
  stream.
\<close>

lemma watch_votes_shows_votes:
  assumes "\<And>s. s \<in> set sent \<Longrightarrow> emitted K recover c A s"
  shows "watch_votes K recover c (voting_decode_log A) (map fst sent)
    = \<lparr>wt_lines = concat (map vote_line sent), wt_end = Inr (Inr ())\<rparr>"
  using assms
proof (induction sent)
  case (Cons s sent)
  then show ?case by (simp add: watch_votes_step) (simp add: add_lines_def)
qed (simp add: watch_votes_def)

lemma emitted_topics:
  assumes "emitted K recover c A (log, Some e)"
  shows "log_topics log =
    (case e of
       ProposalCreated p \<Rightarrow> [ProposalCreated_hash, topic_fixed A (pc_proposalId p), topic_u64 A (pc_deadline p)]
     | ProposalExecuted p \<Rightarrow> [ProposalExecuted_hash, topic_fixed A (pe_proposalId p)]
     | VoteCast v \<Rightarrow> [VoteCast_hash, topic_fixed A (vc_proposal_id v), topic_address A (vc_voter v)])"
  using assms
  by (cases e) (auto simp: log_topics_def codec_law_def encode_topics_defs set_at_def timestamp_encode_topic_def)

lemma votes_filter_matches:
  assumes "votes_filter no_address contract VoteCast_hash pid = Inr flt"
    and "emitted K recover c A (log, Some e)" "\<And>w. topic_fixed A w = w"
  shows "filter_matches flt (log_topics log) \<longleftrightarrow> (\<exists>v. e = VoteCast v \<and> vc_proposal_id v = pid)"
  unfolding emitted_topics [OF assms(2)]
  using assms(1,3)
  by (cases e)
    (auto simp: votes_filter_def lfb_event_signature_def lfb_topic_def lfb_topic1_def lfb_address_def lfb_new_def
      lfb_build_def log_filter_default_def set_at_def filter_matches_def numeral_eq_Suc)

text \<open>
  C23. Watching a proposal shows its votes: of the logs its filter lets through, the refused
  ones cost a line each, and of the contract's events the watcher shows exactly the votes
  on that proposal, in order and with their transactions.
\<close>

theorem watch_shows_proposal_votes:
  assumes "votes_filter no_address contract VoteCast_hash pid = Inr flt"
    and "\<And>s. s \<in> set sent \<Longrightarrow> emitted K recover c A s" "\<And>w. topic_fixed A w = w"
  shows "watch_votes K recover c (voting_decode_log A)
      (map fst (filter (\<lambda>s. filter_matches flt (log_topics (fst s))) sent))
    = \<lparr>wt_lines = concat (map vote_line (filter (\<lambda>(log, e). case e of
           None \<Rightarrow> filter_matches flt (log_topics log)
         | Some (VoteCast v) \<Rightarrow> vc_proposal_id v = pid
         | Some _ \<Rightarrow> False) sent)), wt_end = Inr (Inr ())\<rparr>"
proof -
  have "filter_matches flt (log_topics (fst s)) \<longleftrightarrow>
      (case s of (log, e) \<Rightarrow> case e of
           None \<Rightarrow> filter_matches flt (log_topics log)
         | Some (VoteCast v) \<Rightarrow> vc_proposal_id v = pid
         | Some _ \<Rightarrow> False)" if "s \<in> set sent" for s
    using votes_filter_matches [where K = K and recover = recover and c = c and A = A, OF assms(1) _ assms(3)] assms(2) [OF that]
    by (cases s) (auto split: option.split voting_events.split simp del: emitted.simps)
  then have lets: "filter (\<lambda>s. filter_matches flt (log_topics (fst s))) sent
      = filter (\<lambda>(log, e). case e of
           None \<Rightarrow> filter_matches flt (log_topics log)
         | Some (VoteCast v) \<Rightarrow> vc_proposal_id v = pid
         | Some _ \<Rightarrow> False) sent"
    by (rule filter_cong [OF refl])
  have "watch_votes K recover c (voting_decode_log A)
      (map fst (filter (\<lambda>s. filter_matches flt (log_topics (fst s))) sent))
    = \<lparr>wt_lines = concat (map vote_line (filter (\<lambda>s. filter_matches flt (log_topics (fst s))) sent)),
       wt_end = Inr (Inr ())\<rparr>"
    by (rule watch_votes_shows_votes) (use assms(2) in simp)
  then show ?thesis by (simp only: lets)
qed

section \<open>Samples\<close>

text \<open>
  A codec that encodes the calls with one word: \<open>execute\<close> and \<open>castVote\<close> are read back, the
  other calls are refused.
\<close>

definition word_at :: "bytes \<Rightarrow> unit + hash" where
  "word_at bs = (if length bs = 32 then Inr (b256 bs) else Inl ())"

definition sample_calls :: "unit call_codecs" where
  "sample_calls =
     \<lparr>castVote_abi =
        \<lparr>sc_encode_raw = (\<lambda>call out. out @ be_bytes 32 (cv_proposalId call) @ [cv_choice call]),
         sc_encoded_size = (\<lambda>call. 33),
         sc_decode_raw = (\<lambda>bs. map_ok (\<lambda>w. \<lparr>cv_proposalId = w, cv_choice = last bs\<rparr>) (word_at (butlast bs))),
         sc_decode_raw_validate = (\<lambda>bs. map_ok (\<lambda>w. \<lparr>cv_proposalId = w, cv_choice = last bs\<rparr>) (word_at (butlast bs)))\<rparr>,
      createProposal_abi =
        \<lparr>sc_encode_raw = (\<lambda>call out. out), sc_encoded_size = (\<lambda>call. 0),
         sc_decode_raw = (\<lambda>bs. Inl ()), sc_decode_raw_validate = (\<lambda>bs. Inl ())\<rparr>,
      execute_abi =
        \<lparr>sc_encode_raw = (\<lambda>call out. out @ be_bytes 32 (ex_proposalId call)),
         sc_encoded_size = (\<lambda>call. 32),
         sc_decode_raw = (\<lambda>bs. map_ok (\<lambda>w. \<lparr>ex_proposalId = w\<rparr>) (word_at bs)),
         sc_decode_raw_validate = (\<lambda>bs. map_ok (\<lambda>w. \<lparr>ex_proposalId = w\<rparr>) (word_at bs))\<rparr>,
      getProposalId_abi =
        \<lparr>sc_encode_raw = (\<lambda>call out. out), sc_encoded_size = (\<lambda>call. 0),
         sc_decode_raw = (\<lambda>bs. Inl ()), sc_decode_raw_validate = (\<lambda>bs. Inl ())\<rparr>\<rparr>"

lemma sample_execute_law: "voting_law sample_calls (execute_call \<lparr>ex_proposalId = 258\<rparr>)"
proof -
  have "b256 (be_bytes 32 (258 :: hash)) = 258" by (simp add: b256_def be_bytes_def upt_rec)
  then show ?thesis by (simp add: call_law_def sample_calls_def word_at_def)
qed

theorem voting_calls_round_trip_witness:
  "\<exists>body. voting_encode_raw sample_calls (execute_call \<lparr>ex_proposalId = 258\<rparr>) [1, 2] = [1, 2] @ body
    \<and> length body = 32
    \<and> voting_decode_raw sample_calls [231, 81, 242, 113] body = Inr (Inr (execute_call \<lparr>ex_proposalId = 258\<rparr>))
    \<and> voting_decode_raw_validate sample_calls [231, 81, 242, 113] body
        = Inr (Inr (execute_call \<lparr>ex_proposalId = 258\<rparr>))"
  using voting_calls_round_trip [OF sample_execute_law, of "[1, 2]"]
  by (simp add: execute_selector_def sample_calls_def)

text \<open>
  A codec of the events: topics are padded words, and the data of \<open>VoteCast\<close> is one word.
  \<open>vote_log\<close> is the sample log carrying an event, whose receipt validators signed.
\<close>

definition sample_events :: "unit event_codecs" where
  "sample_events =
     \<lparr>topic_fixed = (\<lambda>w. w), topic_u64 = ucast, topic_address = ucast,
      ProposalCreated_abi =
        \<lparr>se_encode_log_data = (\<lambda>e. \<lparr>ld_topics = [ProposalCreated_hash, pc_proposalId e, ucast (pc_deadline e)], ld_data = pc_data e\<rparr>),
         se_decode_raw_log = (\<lambda>topics bs. case topics of
            [t0, pid, d] \<Rightarrow> Inr \<lparr>pc_proposalId = pid, pc_deadline = ucast d, pc_data = bs\<rparr> | _ \<Rightarrow> Inl ())\<rparr>,
      ProposalExecuted_abi =
        \<lparr>se_encode_log_data = (\<lambda>e. \<lparr>ld_topics = [ProposalExecuted_hash, pe_proposalId e], ld_data = []\<rparr>),
         se_decode_raw_log = (\<lambda>topics bs. case topics of
            [t0, pid] \<Rightarrow> Inr \<lparr>pe_proposalId = pid\<rparr> | _ \<Rightarrow> Inl ())\<rparr>,
      VoteCast_abi =
        \<lparr>se_encode_log_data = (\<lambda>e. \<lparr>ld_topics = [VoteCast_hash, vc_proposal_id e, ucast (vc_voter e)],
            ld_data = replicate 31 0 @ [vc_choice e]\<rparr>),
         se_decode_raw_log = (\<lambda>topics bs. case topics of
            [t0, pid, v] \<Rightarrow> Inr \<lparr>vc_proposal_id = pid, vc_voter = ucast v, vc_choice = last bs\<rparr> | _ \<Rightarrow> Inl ())\<rparr>\<rparr>"

definition vote_log :: "VotingEvents \<Rightarrow> address verifiable_log" where
  "vote_log e = sample_verifiable_log
     \<lparr>inner := (inner sample_verifiable_log)
       \<lparr>rl_inner := \<lparr>lg_address = 5, lg_data = voting_to_log_data sample_events e\<rparr>,
        rl_transaction_hash := Some 11\<rparr>\<rparr>"

lemma topic_word_read_back [simp]:
  "ucast (ucast (a :: address) :: hash) = a" "ucast (ucast (t :: u64) :: hash) = t"
  by (simp_all add: ucast_up_ucast_id is_up)

lemma sample_event_law: "event_law sample_events e"
  by (cases e) (simp_all add: codec_law_def encode_topics_defs set_at_def sample_events_def
      timestamp_encode_topic_def)

lemma vote_log_emitted:
  "emitted tiny_crates sample_signer (committee_new [1, 2, 3] 2) sample_events (vote_log e, Some e)"
  by (simp add: vote_log_def sample_event_law sample_attested)

theorem watch_shows_proposal_votes_witness:
  "\<exists>flt. votes_filter () () VoteCast_hash 7 = Inr flt
    \<and> watch_votes tiny_crates sample_signer (committee_new [1, 2, 3] 2) (voting_decode_log sample_events)
        (map fst (filter (\<lambda>s. filter_matches flt (log_topics (fst s)))
          [(vote_log (ProposalExecuted \<lparr>pe_proposalId = 7\<rparr>), Some (ProposalExecuted \<lparr>pe_proposalId = 7\<rparr>)),
           (vote_log (VoteCast \<lparr>vc_proposal_id = 8, vc_voter = 2, vc_choice = 1\<rparr>),
             Some (VoteCast \<lparr>vc_proposal_id = 8, vc_voter = 2, vc_choice = 1\<rparr>)),
           (vote_log (VoteCast \<lparr>vc_proposal_id = 7, vc_voter = 3, vc_choice = 1\<rparr>),
             Some (VoteCast \<lparr>vc_proposal_id = 7, vc_voter = 3, vc_choice = 1\<rparr>))]))
      = \<lparr>wt_lines = [Shown (3, 1, 11)], wt_end = Inr (Inr ())\<rparr>"
proof -
  let ?x = "ProposalExecuted \<lparr>pe_proposalId = 7\<rparr> :: VotingEvents"
  let ?o = "VoteCast \<lparr>vc_proposal_id = 8, vc_voter = 2, vc_choice = 1\<rparr> :: VotingEvents"
  let ?v = "VoteCast \<lparr>vc_proposal_id = 7, vc_voter = 3, vc_choice = 1\<rparr> :: VotingEvents"
  let ?sent = "[(vote_log ?x, Some ?x), (vote_log ?o, Some ?o), (vote_log ?v, Some ?v)]"
  obtain flt where flt: "votes_filter () () VoteCast_hash 7 = Inr flt"
    by (simp add: votes_filter_def lfb_event_signature_def lfb_topic_def lfb_topic1_def lfb_address_def
        lfb_new_def log_filter_default_def set_at_def)
  have "emitted tiny_crates sample_signer (committee_new [1, 2, 3] 2) sample_events s" if "s \<in> set ?sent" for s
    using that by (auto simp: vote_log_emitted simp del: emitted.simps(1))
  from watch_shows_proposal_votes [of "()" "()" 7 flt ?sent, OF flt this] flt show ?thesis
    by (auto simp: sample_events_def vote_log_def)
qed

end
