(* ===== verification/Notary_Bindings.thy ===== *)
theory Notary_Bindings
  imports Sol_Interface Notary_Client
begin

text \<open>
  The contract bindings of \<^verbatim>\<open>examples/notary/bindings/src/notary.rs\<close>, and what the
  notary's watcher shows when its filter reaches a node.  The encodings of values are
  arguments; the event is the record \<open>document_timestamped\<close> of the watcher.
\<close>

section \<open>The event\<close>

definition DocumentTimestamped_bytes :: bytes where
  "DocumentTimestamped_bytes =
     [200, 80, 43, 128, 249, 164, 237, 219, 41, 148, 61, 70, 227, 111, 104, 144,
      85, 162, 89, 168, 190, 115, 123, 142, 61, 44, 144, 45, 164, 42, 110, 131]"

definition DocumentTimestamped_hash :: hash where
  "DocumentTimestamped_hash = b256 DocumentTimestamped_bytes"

definition DocumentTimestamped_signature :: string where
  "DocumentTimestamped_signature = ''DocumentTimestamped(bytes32,address,uint64)''"

definition DocumentTimestamped_new :: "hash \<times> hash \<times> address \<Rightarrow> u64 \<Rightarrow> document_timestamped" where
  "DocumentTimestamped_new topics data =
     \<lparr>dt_submitter = snd (snd topics), dt_document_hash = fst (snd topics), dt_timestamp = data\<rparr>"

definition DocumentTimestamped_check_signature :: "hash \<times> hash \<times> address \<Rightarrow> 'x sol_error + unit" where
  "DocumentTimestamped_check_signature topics =
     (if fst topics \<noteq> DocumentTimestamped_hash
      then Inl (InvalidSignatureHash DocumentTimestamped_signature (fst topics) DocumentTimestamped_hash)
      else Inr ())"

definition DocumentTimestamped_topics :: "document_timestamped \<Rightarrow> hash \<times> hash \<times> address" where
  "DocumentTimestamped_topics e = (DocumentTimestamped_hash, dt_document_hash e, dt_submitter e)"

definition DocumentTimestamped_encode_topics_raw ::
    "topic_words \<Rightarrow> document_timestamped \<Rightarrow> hash list \<Rightarrow> ('x sol_error + hash list) run" where
  "DocumentTimestamped_encode_topics_raw W e out =
     (if length out < 3 then Inr (Inl Overrun)
      else map_ok Inr
        (and_then (set_at 0 DocumentTimestamped_hash out) (\<lambda>out.
         and_then (set_at 1 (tw_fixed W (dt_document_hash e)) out) (\<lambda>out.
         set_at 2 (tw_address W (dt_submitter e)) out))))"

datatype (plugins only: code) NotaryEvents = DocumentTimestamped document_timestamped

definition notary_event_selectors :: "bytes list" where
  "notary_event_selectors = [DocumentTimestamped_bytes]"

definition notary_event_signatures :: "string list" where
  "notary_event_signatures = [DocumentTimestamped_signature]"

definition notary_event_signature_by_selector :: "bytes \<Rightarrow> string option run" where
  "notary_event_signature_by_selector sel = table_row notary_event_selectors notary_event_signatures sel"

definition notary_decode_raw_log ::
    "(document_timestamped, 'x) sol_event \<Rightarrow> hash list \<Rightarrow> bytes \<Rightarrow> 'x sol_error + NotaryEvents" where
  "notary_decode_raw_log A topics data =
     (case topics of
        [] \<Rightarrow> Inl (InvalidLog ''NotaryEvents'' topics data)
      | topic0 # _ \<Rightarrow>
          if topic0 = DocumentTimestamped_hash
          then codec DocumentTimestamped (se_decode_raw_log A topics data)
          else Inl (InvalidLog ''NotaryEvents'' topics data))"

section \<open>The calls\<close>

record timestampCall =
  tc_documentHash :: hash
  tc_ts :: u64

datatype (plugins only: code) timestampsCall = TimestampsCall (tsc_0: hash)

datatype (plugins only: code) NotaryCalls =
    timestamp_call timestampCall
  | timestamps_call timestampsCall

definition timestamp_selector :: bytes where
  "timestamp_selector = [232, 214, 0, 137]"

definition timestamps_selector :: bytes where
  "timestamps_selector = [181, 135, 41, 88]"

definition timestamp_signature :: string where
  "timestamp_signature = ''timestamp(bytes32,uint64)''"

definition timestamps_signature :: string where
  "timestamps_signature = ''timestamps(bytes32)''"

definition notary_selectors :: "bytes list" where
  "notary_selectors = [[181, 135, 41, 88], [232, 214, 0, 137]]"

definition notary_variant_names :: "string list" where
  "notary_variant_names = [''timestamps'', ''timestamp'']"

definition notary_signatures :: "string list" where
  "notary_signatures = [timestamps_signature, timestamp_signature]"

definition notary_signature_by_selector :: "bytes \<Rightarrow> string option run" where
  "notary_signature_by_selector sel = table_row notary_selectors notary_signatures sel"

fun notary_selector :: "NotaryCalls \<Rightarrow> bytes" where
  "notary_selector (timestamp_call c) = timestamp_selector"
| "notary_selector (timestamps_call c) = timestamps_selector"

definition notary_valid_selector :: "bytes \<Rightarrow> bool" where
  "notary_valid_selector sel \<longleftrightarrow> binary_search notary_selectors sel \<noteq> None"

record 'x notary_codecs =
  timestamp_abi :: "(timestampCall, 'x) sol_call"
  timestamps_abi :: "(timestampsCall, 'x) sol_call"

definition notary_decode_shims :: "'x notary_codecs \<Rightarrow> (bytes \<Rightarrow> 'x sol_error + NotaryCalls) list" where
  "notary_decode_shims A =
     [\<lambda>data. codec timestamps_call (sc_decode_raw (timestamps_abi A) data),
      \<lambda>data. codec timestamp_call (sc_decode_raw (timestamp_abi A) data)]"

definition notary_decode_validate_shims :: "'x notary_codecs \<Rightarrow> (bytes \<Rightarrow> 'x sol_error + NotaryCalls) list" where
  "notary_decode_validate_shims A =
     [\<lambda>data. codec timestamps_call (sc_decode_raw_validate (timestamps_abi A) data),
      \<lambda>data. codec timestamp_call (sc_decode_raw_validate (timestamp_abi A) data)]"

definition notary_decode_raw :: "'x notary_codecs \<Rightarrow> bytes \<Rightarrow> bytes \<Rightarrow> ('x sol_error + NotaryCalls) run" where
  "notary_decode_raw A sel data =
     dispatch_call ''NotaryCalls'' notary_selectors (notary_decode_shims A) sel data"

definition notary_decode_raw_validate :: "'x notary_codecs \<Rightarrow> bytes \<Rightarrow> bytes \<Rightarrow> ('x sol_error + NotaryCalls) run" where
  "notary_decode_raw_validate A sel data =
     dispatch_call ''NotaryCalls'' notary_selectors (notary_decode_validate_shims A) sel data"

fun notary_encoded_size :: "'x notary_codecs \<Rightarrow> NotaryCalls \<Rightarrow> nat" where
  "notary_encoded_size A (timestamp_call c) = sc_encoded_size (timestamp_abi A) c"
| "notary_encoded_size A (timestamps_call c) = sc_encoded_size (timestamps_abi A) c"

fun notary_encode_raw :: "'x notary_codecs \<Rightarrow> NotaryCalls \<Rightarrow> bytes \<Rightarrow> bytes" where
  "notary_encode_raw A (timestamp_call c) out = sc_encode_raw (timestamp_abi A) c out"
| "notary_encode_raw A (timestamps_call c) out = sc_encode_raw (timestamps_abi A) c out"

interpretation notary_calls: dispatch_table notary_selectors
  by unfold_locales (simp_all add: notary_selectors_def)

interpretation notary_events: dispatch_table notary_event_selectors
  by unfold_locales (simp_all add: notary_event_selectors_def)

lemma notary_row:
  "table_row notary_selectors [a, b] sel = Inr
     (if sel = timestamps_selector then Some a
      else if sel = timestamp_selector then Some b
      else None)"
proof -
  have "table_row notary_selectors [a, b] sel = Inr (map_of (zip notary_selectors [a, b]) sel)"
    by (rule notary_calls.row_map_of) (simp add: notary_selectors_def)
  then show ?thesis by (simp add: notary_selectors_def timestamp_selector_def timestamps_selector_def)
qed

lemma timestamp_selectors_differ [simp]: "timestamp_selector \<noteq> timestamps_selector"
  by (simp add: timestamp_selector_def timestamps_selector_def)

fun notary_law :: "'x notary_codecs \<Rightarrow> NotaryCalls \<Rightarrow> bool" where
  "notary_law A (timestamp_call c) \<longleftrightarrow> call_law (timestamp_abi A) c"
| "notary_law A (timestamps_call c) \<longleftrightarrow> call_law (timestamps_abi A) c"

text \<open>A call encoded is decoded again under its selector.\<close>

lemma notary_round_trip:
  "notary_law A call \<Longrightarrow>
   notary_decode_raw A (notary_selector call) (notary_encode_raw A call []) = Inr (Inr call)"
  by (cases call)
    (auto simp: notary_decode_raw_def dispatch_call_def notary_decode_shims_def notary_row call_law_def)

section \<open>Watching the documents of one submitter\<close>

text \<open>A log that is attested and carries the event of a document.\<close>

definition document_law ::
    "topic_words \<Rightarrow> (document_timestamped, 'x) sol_event \<Rightarrow> document_timestamped \<Rightarrow> bool" where
  "document_law W A e \<longleftrightarrow>
     DocumentTimestamped_encode_topics_raw W e (replicate 3 0)
       = (Inr (Inr (ld_topics (se_encode_log_data A e))) :: ('x sol_error + hash list) run)
     \<and> se_decode_raw_log A (ld_topics (se_encode_log_data A e)) (ld_data (se_encode_log_data A e)) = Inr e"

fun carries_document where
  "carries_document K recover c W A (log, e) \<longleftrightarrow>
     attested K recover c log \<and> document_law W A e \<and> lg_data (rl_inner (inner log)) = se_encode_log_data A e"

definition decode_document :: "(document_timestamped, 'x) sol_event \<Rightarrow> eth_log \<Rightarrow> 'x + document_timestamped" where
  "decode_document A log = se_decode_raw_log A (ld_topics (lg_data log)) (ld_data (lg_data log))"

definition by_submitter :: "address option \<Rightarrow> document_timestamped \<Rightarrow> bool" where
  "by_submitter from e \<longleftrightarrow> (case from of None \<Rightarrow> True | Some s \<Rightarrow> dt_submitter e = s)"

lemma document_topics:
  assumes "carries_document K recover c W A (log, e)"
  shows "log_topics log = [DocumentTimestamped_hash, tw_fixed W (dt_document_hash e), tw_address W (dt_submitter e)]"
  using assms
  by (simp add: log_topics_def document_law_def DocumentTimestamped_encode_topics_raw_def set_at_def numeral_eq_Suc)

lemma watch_filter_matches:
  assumes "watch_events_filter no_address contract DocumentTimestamped_hash from = Inr flt"
    and "carries_document K recover c W A (log, e)" "\<And>s. tw_address W s = ucast s"
  shows "filter_matches flt (log_topics log) \<longleftrightarrow> by_submitter from e"
proof -
  have inj: "(ucast (a :: address) :: hash) = ucast b \<longleftrightarrow> a = b" for a b
    by (simp add: word_unat_eq_iff [where 'a = 256] unat_ucast_widen) (simp add: word_unat_eq_iff)
  show ?thesis
    using assms(1) inj
    by (cases "from")
      (auto simp: watch_events_filter_def lfb_event_signature_def lfb_topic_def lfb_topic2_def lfb_address_def
        lfb_new_def lfb_build_def log_filter_default_def set_at_def filter_matches_def by_submitter_def
        document_topics [OF assms(2)] assms(3) numeral_eq_Suc)
qed

section \<open>Properties\<close>

text \<open>
  C29. The option \<^verbatim>\<open>--from\<close> of the notary's watcher does what it says: when the node sends the
  attested logs of the contract's events that the filter lets through, the watcher shows
  the documents of that submitter, or all without the option, in order, with their times.
\<close>

theorem watch_from_shows_documents:
  assumes "watch_events_filter no_address contract DocumentTimestamped_hash from = Inr flt"
    and "\<And>s. s \<in> set sent \<Longrightarrow> carries_document K recover c W A s" "\<And>s. tw_address W s = ucast s"
  shows "watch_documents K recover c (decode_document A)
      (filter (\<lambda>log. filter_matches flt (log_topics log)) (map fst sent))
    = \<lparr>wt_lines = map (\<lambda>(log, e). Shown (dt_submitter e, dt_document_hash e, uint (dt_timestamp e) * 1000))
         (filter (\<lambda>(log, e). by_submitter from e) sent), wt_end = Inr (Inr ())\<rparr>"
  using assms(2)
proof (induction sent)
  case (Cons s sent)
  obtain log e where s: "s = (log, e)" by (cases s)
  have carries: "carries_document K recover c W A (log, e)" using Cons.prems [of s] s by simp
  then have decoded: "attested K recover c log" "decode_document A (rl_inner (inner log)) = Inr e"
    by (simp_all add: decode_document_def document_law_def)
  have IH: "watch_documents K recover c (decode_document A)
      (filter (\<lambda>log. filter_matches flt (log_topics log)) (map fst sent))
    = \<lparr>wt_lines = map (\<lambda>(log, e). Shown (dt_submitter e, dt_document_hash e, uint (dt_timestamp e) * 1000))
         (filter (\<lambda>(log, e). by_submitter from e) sent), wt_end = Inr (Inr ())\<rparr>"
    by (rule Cons.IH) (use Cons.prems in simp)
  have "watch_documents K recover c (decode_document A) (log # stream)
      = add_line (Shown (dt_submitter e, dt_document_hash e, uint (dt_timestamp e) * 1000))
          (watch_documents K recover c (decode_document A) stream)" for stream
    unfolding watch_documents_def
    by (rule log_stream.shows_accepted [where decode = "decode_document A", OF decoded])
      (simp add: decode_timestamp_def)
  then show ?case
    by (simp add: s watch_filter_matches [OF assms(1) carries assms(3)] IH add_line_def)
qed (simp add: watch_documents_def)

section \<open>A sample\<close>

text \<open>Topics are padded words and the data is eight bytes; two documents of two submitters.\<close>

definition notary_words :: topic_words where
  "notary_words = \<lparr>tw_fixed = (\<lambda>w. w), tw_u256 = (\<lambda>n. n), tw_address = ucast, tw_u64 = ucast\<rparr>"

definition sample_document_abi :: "(document_timestamped, unit) sol_event" where
  "sample_document_abi =
     \<lparr>se_encode_log_data = (\<lambda>e. \<lparr>ld_topics = [DocumentTimestamped_hash, dt_document_hash e, ucast (dt_submitter e)],
        ld_data = be_bytes 8 (dt_timestamp e)\<rparr>),
      se_decode_raw_log = (\<lambda>topics bs. case topics of
         [t0, h, s] \<Rightarrow> Inr \<lparr>dt_submitter = ucast s, dt_document_hash = h, dt_timestamp = ucast (b256 bs)\<rparr>
       | _ \<Rightarrow> Inl ())\<rparr>"

definition later_document :: document_timestamped where
  "later_document = \<lparr>dt_submitter = 6, dt_document_hash = 8, dt_timestamp = 4000000\<rparr>"

definition document_log :: "document_timestamped \<Rightarrow> address verifiable_log" where
  "document_log e = sample_verifiable_log
     \<lparr>inner := (inner sample_verifiable_log)
       \<lparr>rl_inner := \<lparr>lg_address = 5, lg_data = se_encode_log_data sample_document_abi e\<rparr>\<rparr>\<rparr>"

lemma sample_document_law:
  "document_law notary_words sample_document_abi sample_document"
  "document_law notary_words sample_document_abi later_document"
proof -
  have "ucast (b256 (be_bytes 8 (3000000 :: u64))) = (3000000 :: u64)"
    "ucast (b256 (be_bytes 8 (4000000 :: u64))) = (4000000 :: u64)"
    by (simp_all add: b256_def be_bytes_def upt_rec)
  then show "document_law notary_words sample_document_abi sample_document"
    "document_law notary_words sample_document_abi later_document"
    by (simp_all add: document_law_def sample_document_abi_def notary_words_def sample_document_def
        later_document_def DocumentTimestamped_encode_topics_raw_def set_at_def)
qed

lemma document_log_carries:
  "document_law notary_words sample_document_abi e \<Longrightarrow>
   carries_document tiny_crates sample_signer (committee_new [1, 2, 3] 2) notary_words sample_document_abi (document_log e, e)"
  by (simp add: document_log_def sample_attested)

theorem watch_from_shows_documents_witness:
  "\<exists>flt. watch_events_filter () () DocumentTimestamped_hash (Some 6) = Inr flt
    \<and> watch_documents tiny_crates sample_signer (committee_new [1, 2, 3] 2) (decode_document sample_document_abi)
        (filter (\<lambda>log. filter_matches flt (log_topics log)) [document_log sample_document, document_log later_document])
      = \<lparr>wt_lines = [Shown (6, 8, 4000000000)], wt_end = Inr (Inr ())\<rparr>"
proof -
  let ?sent = "[(document_log sample_document, sample_document), (document_log later_document, later_document)]"
  obtain flt where flt: "watch_events_filter () () DocumentTimestamped_hash (Some 6) = Inr flt"
    by (simp add: watch_events_filter_def lfb_event_signature_def lfb_topic_def lfb_topic2_def lfb_address_def
        lfb_new_def log_filter_default_def set_at_def)
  have "carries_document tiny_crates sample_signer (committee_new [1, 2, 3] 2) notary_words sample_document_abi s"
    if "s \<in> set ?sent" for s
    using that sample_document_law by (auto intro: document_log_carries simp del: carries_document.simps)
  from watch_from_shows_documents [of "()" "()" "Some 6" flt ?sent, OF flt this] flt show ?thesis
    by (auto simp: notary_words_def by_submitter_def sample_document_def later_document_def)
qed

end
