(* ===== verification/Auction_Bindings.thy ===== *)
theory Auction_Bindings
  imports Auction Sol_Interface
begin

text \<open>
  The contract bindings of the auction, \<^verbatim>\<open>examples/solidity/bindings/src/i_auction.rs\<close>,
  which both \<^verbatim>\<open>rust-sdk/src/auctions/client.rs\<close> and the auction example use, and
  what the client's queries mean for the topics these bindings write.  The encodings of
  values are arguments.  A bid's event is the record \<open>bid_event\<close> of the client.
\<close>

section \<open>The event\<close>

definition BidSubmitted_bytes :: bytes where
  "BidSubmitted_bytes =
     [250, 149, 68, 202, 217, 74, 184, 80, 121, 70, 33, 80, 120, 175, 84, 190,
      62, 208, 161, 241, 153, 17, 213, 218, 178, 3, 123, 175, 142, 6, 79, 176]"

definition BidSubmitted_hash :: hash where
  "BidSubmitted_hash = b256 BidSubmitted_bytes"

definition BidSubmitted_signature :: string where
  "BidSubmitted_signature = ''BidSubmitted(uint256,address,uint64,uint256,bytes)''"

definition BidSubmitted_new :: "hash \<times> u256 \<times> address \<times> u64 \<Rightarrow> u256 \<times> bytes \<Rightarrow> bid_event" where
  "BidSubmitted_new topics data =
     (case (topics, data) of
        ((topic0, topic1, topic2, topic3), (data0, data1)) \<Rightarrow>
          \<lparr>be_auction_id = topic1, be_bidder = topic2, be_deadline = topic3, be_value = data0, be_data = data1\<rparr>)"

definition BidSubmitted_check_signature :: "hash \<times> u256 \<times> address \<times> u64 \<Rightarrow> 'x sol_error + unit" where
  "BidSubmitted_check_signature topics =
     (if fst topics \<noteq> BidSubmitted_hash
      then Inl (InvalidSignatureHash BidSubmitted_signature (fst topics) BidSubmitted_hash)
      else Inr ())"

definition BidSubmitted_topics :: "bid_event \<Rightarrow> hash \<times> u256 \<times> address \<times> u64" where
  "BidSubmitted_topics e = (BidSubmitted_hash, be_auction_id e, be_bidder e, be_deadline e)"

definition BidSubmitted_encode_topics_raw ::
    "topic_words \<Rightarrow> bid_event \<Rightarrow> hash list \<Rightarrow> ('x sol_error + hash list) run" where
  "BidSubmitted_encode_topics_raw W e out =
     (if length out < 4 then Inr (Inl Overrun)
      else map_ok Inr
        (and_then (set_at 0 BidSubmitted_hash out) (\<lambda>out.
         and_then (set_at 1 (tw_u256 W (be_auction_id e)) out) (\<lambda>out.
         and_then (set_at 2 (tw_address W (be_bidder e)) out) (\<lambda>out.
         set_at 3 (tw_u64 W (be_deadline e)) out)))))"

definition auction_event_selectors :: "bytes list" where
  "auction_event_selectors = [BidSubmitted_bytes]"

definition auction_event_signatures :: "string list" where
  "auction_event_signatures = [BidSubmitted_signature]"

definition auction_event_signature_by_selector :: "bytes \<Rightarrow> string option run" where
  "auction_event_signature_by_selector sel = table_row auction_event_selectors auction_event_signatures sel"

datatype (plugins only: code) IAuctionEvents = BidSubmitted bid_event

definition auction_decode_raw_log ::
    "(bid_event, 'x) sol_event \<Rightarrow> hash list \<Rightarrow> bytes \<Rightarrow> 'x sol_error + IAuctionEvents" where
  "auction_decode_raw_log A topics data =
     (case topics of
        [] \<Rightarrow> Inl (InvalidLog ''IAuctionEvents'' topics data)
      | topic0 # _ \<Rightarrow>
          if topic0 = BidSubmitted_hash
          then codec BidSubmitted (se_decode_raw_log A topics data)
          else Inl (InvalidLog ''IAuctionEvents'' topics data))"

section \<open>The call\<close>

record submitBidCall =
  sb_auction_id :: u256
  sb_deadline :: u64
  sb_value :: u256
  sb_data :: bytes

datatype (plugins only: code) IAuctionCalls = submitBid_call submitBidCall

definition submitBid_selector :: bytes where
  "submitBid_selector = [74, 25, 6, 126]"

definition submitBid_signature :: string where
  "submitBid_signature = ''submitBid(uint256,uint64,uint256,bytes)''"

definition auction_selectors :: "bytes list" where
  "auction_selectors = [[74, 25, 6, 126]]"

definition auction_signatures :: "string list" where
  "auction_signatures = [submitBid_signature]"

definition auction_signature_by_selector :: "bytes \<Rightarrow> string option run" where
  "auction_signature_by_selector sel = table_row auction_selectors auction_signatures sel"

fun auction_selector :: "IAuctionCalls \<Rightarrow> bytes" where
  "auction_selector (submitBid_call c) = submitBid_selector"

definition auction_valid_selector :: "bytes \<Rightarrow> bool" where
  "auction_valid_selector sel \<longleftrightarrow> binary_search auction_selectors sel \<noteq> None"

definition auction_decode_raw ::
    "(submitBidCall, 'x) sol_call \<Rightarrow> bytes \<Rightarrow> bytes \<Rightarrow> ('x sol_error + IAuctionCalls) run" where
  "auction_decode_raw A =
     dispatch_call ''IAuctionCalls'' auction_selectors [\<lambda>data. codec submitBid_call (sc_decode_raw A data)]"

definition auction_decode_raw_validate ::
    "(submitBidCall, 'x) sol_call \<Rightarrow> bytes \<Rightarrow> bytes \<Rightarrow> ('x sol_error + IAuctionCalls) run" where
  "auction_decode_raw_validate A =
     dispatch_call ''IAuctionCalls'' auction_selectors [\<lambda>data. codec submitBid_call (sc_decode_raw_validate A data)]"

fun auction_encoded_size :: "(submitBidCall, 'x) sol_call \<Rightarrow> IAuctionCalls \<Rightarrow> nat" where
  "auction_encoded_size A (submitBid_call c) = sc_encoded_size A c"

fun auction_encode_raw :: "(submitBidCall, 'x) sol_call \<Rightarrow> IAuctionCalls \<Rightarrow> bytes \<Rightarrow> bytes" where
  "auction_encode_raw A (submitBid_call c) out = sc_encode_raw A c out"

interpretation auction_calls: dispatch_table auction_selectors
  by unfold_locales (simp_all add: auction_selectors_def)

interpretation auction_events: dispatch_table auction_event_selectors
  by unfold_locales (simp_all add: auction_event_selectors_def)

lemma auction_round_trip:
  fixes A :: "(submitBidCall, 'x) sol_call"
  assumes "call_law A c"
  shows "auction_decode_raw A (auction_selector (submitBid_call c)) (auction_encode_raw A (submitBid_call c) [])
    = Inr (Inr (submitBid_call c))"
proof -
  have "table_row auction_selectors [d] submitBid_selector = Inr (Some d)" for d :: "bytes \<Rightarrow> 'x sol_error + IAuctionCalls"
    using auction_calls.row_nth [of 0 "[d]"] by (simp add: auction_selectors_def submitBid_selector_def)
  with assms show ?thesis by (auto simp: auction_decode_raw_def dispatch_call_def call_law_def)
qed

section \<open>What the client's queries ask for\<close>

text \<open>
  The topics of an event, as written to an array of their number, and the condition a
  filter of the client puts on them: the event's signature, and the words it sets at
  positions one and three.  A node that \<open>answers\<close> gives exactly the events it has that a
  filter asks for, in their order.
\<close>

definition topics_of :: "topic_words \<Rightarrow> bid_event \<Rightarrow> hash list" where
  "topics_of W e =
     (case BidSubmitted_encode_topics_raw W e (replicate 4 0) :: (unit sol_error + hash list) run of
        Inr (Inr topics) \<Rightarrow> topics
      | _ \<Rightarrow> [])"

definition asked :: "event_filter \<Rightarrow> hash list \<Rightarrow> bool" where
  "asked f topics \<longleftrightarrow>
     topics ! 0 = BidSubmitted_hash
     \<and> (case ef_topic1 f of None \<Rightarrow> True | Some w \<Rightarrow> topics ! 1 = w)
     \<and> (case ef_topic3 f of None \<Rightarrow> True | Some w \<Rightarrow> topics ! 3 = w)"

definition answers ::
    "(event_filter \<Rightarrow> 'e + (bid_event \<times> 'log) list) \<Rightarrow> topic_words \<Rightarrow> (bid_event \<times> 'log) list \<Rightarrow> bool" where
  "answers query W emitted \<longleftrightarrow> (\<forall>f. query f = Inr (filter (\<lambda>el. asked f (topics_of W (fst el))) emitted))"

text \<open>Integers are topics as words.\<close>

definition word_topics :: "topic_words \<Rightarrow> bool" where
  "word_topics W \<longleftrightarrow> (\<forall>n. tw_u256 W n = n) \<and> (\<forall>d. tw_u64 W d = ucast d)"

lemma topics_of_event:
  "topics_of W e =
     [BidSubmitted_hash, tw_u256 W (be_auction_id e), tw_address W (be_bidder e), tw_u64 W (be_deadline e)]"
  by (simp add: topics_of_def BidSubmitted_encode_topics_raw_def set_at_def numeral_eq_Suc)

lemma traverse_bids: "traverse (\<lambda>el. Inr (bid_of_event el)) found = Inr (map bid_of_event found)"
  by (rule traverse_Inr) simp

lemma fetch_bids_answered:
  assumes "answers query W emitted" "word_topics W"
  shows "fetch_bids query auction_id
    = Inr (map bid_of_event (filter (\<lambda>el. be_auction_id (fst el) = auction_id) emitted))"
  using assms
  by (simp add: fetch_bids_def answers_def asked_def topics_of_event word_topics_def traverse_bids)

lemma fetch_for_deadline_answered:
  assumes "answers query W emitted" "word_topics W" "micros_u256_from_system_time deadline = Inr us"
  shows "fetch_bids_for_deadline query deadline
    = Inr (Inr (map bid_of_event (filter (\<lambda>el. ucast (be_deadline (fst el)) = us) emitted)))"
  using assms
  by (simp add: fetch_bids_for_deadline_def answers_def asked_def topics_of_event word_topics_def traverse_bids)

section \<open>Properties\<close>

text \<open>The event the contract owes for a call: the call's arguments and the sender.\<close>

definition event_of_call :: "address \<Rightarrow> submit_call \<Rightarrow> bid_event" where
  "event_of_call bidder call =
     \<lparr>be_auction_id = sc_auction_id call, be_bidder = bidder, be_deadline = sc_deadline call,
      be_value = sc_value call, be_data = sc_data call\<rparr>"

text \<open>
  C19. A bid that was submitted successfully is found again, both by its auction and by its
  deadline, from a node that answers queries and has the event of every call that was sent;
  and everything found by the deadline was bid with that very deadline.
\<close>

theorem submitted_bid_fetched:
  assumes "answers query W emitted" "word_topics W"
    and "submit_bid send get_receipt ok auction_id deadline amount data = Inr (Inr r)"
    and emits: "\<And>call p. send call = Inr p \<Longrightarrow> \<exists>l. (event_of_call bidder call, l) \<in> set emitted"
  shows "\<exists>all timely us.
    fetch_bids query auction_id = Inr all \<and> \<lparr>bid_amount = amount, bid_bidder = bidder, bid_data = data\<rparr> \<in> set all
    \<and> fetch_bids_for_deadline query deadline = Inr (Inr timely)
    \<and> \<lparr>bid_amount = amount, bid_bidder = bidder, bid_data = data\<rparr> \<in> set timely
    \<and> micros_from_system_time deadline = Inr us
    \<and> timely = map bid_of_event (filter (\<lambda>el. unat (be_deadline (fst el)) = unat us) emitted)"
proof -
  obtain us p where sent: "micros_from_system_time deadline = Inr us" "unat us < 2 ^ 64"
    "send \<lparr>sc_auction_id = auction_id, sc_deadline = ucast us, sc_value = amount, sc_data = data,
       sc_max_priority_fee_per_gas = Some 0\<rparr> = Inr p"
    "micros_u256_from_system_time deadline = Inr (ucast (ucast us :: u64))"
    using assms(3) unfolding submit_bid_spec by blast
  obtain l where l: "(event_of_call bidder \<lparr>sc_auction_id = auction_id, sc_deadline = ucast us, sc_value = amount,
      sc_data = data, sc_max_priority_fee_per_gas = Some 0\<rparr>, l) \<in> set emitted"
    using emits [OF sent(3)] by blast
  have same: "(ucast d :: u256) = ucast (ucast us :: u64) \<longleftrightarrow> unat d = unat us" for d :: u64
  proof -
    have "unat d < 2 ^ LENGTH(64)" by (rule unsigned_less)
    then show ?thesis using sent(2) by (simp add: word_unat_eq_iff unat_ucast)
  qed
  have "unat (ucast us :: u64) = unat us" using sent(2) by (simp add: unat_ucast)
  then show ?thesis
    using l sent(1) fetch_bids_answered [OF assms(1,2)] fetch_for_deadline_answered [OF assms(1,2) sent(4)]
    by (force simp: bid_of_event_def event_of_call_def image_iff same)
qed

section \<open>A sample\<close>

text \<open>A node that has the event of one submitted bid, and one event of another auction.\<close>

definition sample_words :: topic_words where
  "sample_words = \<lparr>tw_fixed = (\<lambda>w. w), tw_u256 = (\<lambda>n. n), tw_address = ucast, tw_u64 = ucast\<rparr>"

definition sample_submit :: submit_call where
  "sample_submit = \<lparr>sc_auction_id = 77, sc_deadline = 1742493097000000, sc_value = 12, sc_data = [1],
     sc_max_priority_fee_per_gas = Some 0\<rparr>"

definition sample_emitted :: "(bid_event \<times> unit) list" where
  "sample_emitted =
     [(\<lparr>be_auction_id = 78, be_bidder = 4, be_deadline = 5, be_value = 6, be_data = []\<rparr>, ()),
      (event_of_call 9 sample_submit, ())]"

definition sample_query :: "event_filter \<Rightarrow> unit + (bid_event \<times> unit) list" where
  "sample_query f = Inr (filter (\<lambda>el. asked f (topics_of sample_words (fst el))) sample_emitted)"

definition sample_send :: "submit_call \<Rightarrow> unit + unit" where
  "sample_send call = (if call = sample_submit then Inr () else Inl ())"

lemma sample_submitted:
  "(submit_bid sample_send (\<lambda>p. Inr ()) (\<lambda>r. True) 77 (1742493097 * 10 ^ 9) 12 [1] :: ((unit, unit) auction_error + unit) run)
    = Inr (Inr ())"
  by (simp add: submit_bid_def micros_u64_from_system_time_def micros_from_system_time_def
      timestamp_from_system_time_def as_micros_def from_micros_def sample_send_def sample_submit_def)

theorem submitted_bid_fetched_witness:
  "\<exists>all timely.
    (fetch_bids sample_query 77 :: (unit, unit) auction_error + bid list) = Inr all
    \<and> \<lparr>bid_amount = 12, bid_bidder = 9, bid_data = [1]\<rparr> \<in> set all
    \<and> (fetch_bids_for_deadline sample_query (1742493097 * 10 ^ 9) :: ((unit, unit) auction_error + bid list) run)
        = Inr (Inr timely)
    \<and> \<lparr>bid_amount = 12, bid_bidder = 9, bid_data = [1]\<rparr> \<in> set timely"
proof -
  have answers: "answers sample_query sample_words sample_emitted"
    by (simp add: answers_def sample_query_def)
  have words: "word_topics sample_words" by (simp add: word_topics_def sample_words_def)
  have emits: "\<exists>l. (event_of_call 9 call, l) \<in> set sample_emitted" if "sample_send call = Inr p" for call p
    using that by (auto simp: sample_send_def sample_emitted_def split: if_splits)
  show ?thesis
    using submitted_bid_fetched [OF answers words sample_submitted, of 9] emits by blast
qed

end
