(* ===== verification/Optimism_Bids.thy ===== *)
theory Optimism_Bids
  imports Auction
begin

text \<open>
  The commands of \<^verbatim>\<open>examples/optimism-tx-auction/src/main.rs\<close>: a transfer on the
  Optimism chain is signed and its encoding is bid in the pod auction of the block it is to
  be in, once or for every key of a file.  The Optimism node, the builder, the signer and
  the pod node are arguments; \<open>'x\<close> is their error.

  In a batch every bid is a task of its own.  The \<open>i\<close>-th task sees the answers \<open>N i\<close>, so that
  tasks running side by side may be answered differently.  A panic in a task becomes the
  error of its join handle.
\<close>

section \<open>Transactions\<close>

record op_request =
  or_chain_id :: u64
  or_gas_limit :: u64
  or_max_fee_per_gas :: u128
  or_max_priority_fee_per_gas :: "u128 option"
  or_value :: "u256 option"
  or_to :: "address option"
  or_nonce :: "u64 option"

record ('key, 'tx, 'sig, 'r, 'x) op_crates =
  oc_build :: "op_request \<Rightarrow> 'x + 'tx"
  oc_sign :: "'key \<Rightarrow> 'tx \<Rightarrow> 'x + 'tx \<times> 'sig"
  oc_encode :: "'tx \<Rightarrow> 'sig \<Rightarrow> bytes"
  oc_address :: "'key \<Rightarrow> address"
  oc_parse_key :: "string \<Rightarrow> 'x + 'key"
  oc_receipt_status :: "'r \<Rightarrow> bool"

record ('key, 'p, 'r, 'x) op_node =
  on_transaction_count :: "address \<Rightarrow> 'x + u64"
  on_connect :: "'key \<Rightarrow> 'x + unit"
  on_send :: "'key \<Rightarrow> submit_call \<Rightarrow> 'x + 'p"
  on_get_receipt :: "'p \<Rightarrow> 'x + 'r"

datatype (plugins only: code) 'x op_error =
    Op 'x
  | Bidding "('x, 'x) auction_error"
  | NoLatestBlock
  | BeforeEpoch
  | TaskPanicked panic
  | NotBuilt "'x option"

definition op :: "'x + 'a \<Rightarrow> 'x op_error + 'a" where
  "op r = (case r of Inl e \<Rightarrow> Inl (Op e) | Inr a \<Rightarrow> Inr a)"

lemma op_simps [simp]:
  "op (Inl e) = Inl (Op e)"
  "op (Inr a) = Inr a"
  by (simp_all add: op_def)

lemma op_ok [simp]: "op r = Inr a \<longleftrightarrow> r = Inr a"
  by (cases r) simp_all

definition bidding :: "('x, 'x) auction_error + 'a \<Rightarrow> 'x op_error + 'a" where
  "bidding r = (case r of Inl e \<Rightarrow> Inl (Bidding e) | Inr a \<Rightarrow> Inr a)"

lemma bidding_ok [simp]: "bidding r = Inr a \<longleftrightarrow> r = Inr a"
  by (cases r) (simp_all add: bidding_def)

text \<open>\<^verbatim>\<open>rand::random_range(0..n)\<close> on what the generator draws; an empty range panics.\<close>

definition random_range :: "u128 \<Rightarrow> u128 \<Rightarrow> u128 run" where
  "random_range draw n = (if n = 0 then Inl EmptyRange else Inr (draw mod n))"

section \<open>One bid\<close>

definition sign_transfer ::
    "('key, 'tx, 'sig, 'r, 'x) op_crates \<Rightarrow> ('key, 'p, 'r, 'x) op_node \<Rightarrow> op_request \<Rightarrow> u128 \<Rightarrow> 'key
      \<Rightarrow> 'x op_error + bytes" where
  "sign_transfer C N tx max_priority_fee op_signer =
     and_then (op (on_transaction_count N (oc_address C op_signer))) (\<lambda>nonce.
     and_then (op (oc_build C (tx\<lparr>or_max_priority_fee_per_gas := Some max_priority_fee, or_nonce := Some nonce\<rparr>))) (\<lambda>t.
     map_ok (\<lambda>(signed, signature). oc_encode C signed signature) (op (oc_sign C op_signer t))))"

definition place_bid ::
    "('key, 'tx, 'sig, 'r, 'x) op_crates \<Rightarrow> ('key, 'p, 'r, 'x) op_node \<Rightarrow> u256 \<Rightarrow> system_time \<Rightarrow> op_request
      \<Rightarrow> u128 \<Rightarrow> 'key \<Rightarrow> 'key \<Rightarrow> ('x op_error + 'r) run" where
  "place_bid C N auction_id deadline tx max_priority_fee op_signer pod_signer =
     (case sign_transfer C N tx max_priority_fee op_signer of
        Inl e \<Rightarrow> Inr (Inl e)
      | Inr signed_tx \<Rightarrow>
          (case on_connect N pod_signer of
             Inl e \<Rightarrow> Inr (Inl (Op e))
           | Inr u \<Rightarrow>
               map_ok bidding
                 (submit_bid (on_send N pod_signer) (on_get_receipt N) (oc_receipt_status C)
                   auction_id deadline (ucast max_priority_fee) signed_tx)))"

section \<open>A batch of bids\<close>

text \<open>
  The loop over the keys parses each, draws its fee and spawns its task; \<open>i\<close> counts the
  tasks.  A panic here ends the program.
\<close>

fun spawn_bids ::
    "('key, 'tx, 'sig, 'r, 'x) op_crates \<Rightarrow> (nat \<Rightarrow> ('key, 'p, 'r, 'x) op_node) \<Rightarrow> u256 \<Rightarrow> system_time \<Rightarrow> op_request
      \<Rightarrow> u128 \<Rightarrow> (nat \<Rightarrow> u128) \<Rightarrow> nat \<Rightarrow> string list \<Rightarrow> (address \<times> ('x op_error + 'r) run) list run" where
  "spawn_bids C N auction_id deadline tx gas_price draws i [] = Inr []"
| "spawn_bids C N auction_id deadline tx gas_price draws i (private_key # private_keys) =
     (case oc_parse_key C private_key of
        Inl e \<Rightarrow> Inl UnwrapErr
      | Inr op_signer \<Rightarrow>
          and_then (random_range (draws i) (gas_price div 5)) (\<lambda>max_priority_fee.
          and_then (spawn_bids C N auction_id deadline tx gas_price draws (Suc i) private_keys) (\<lambda>pending_bid_txs.
          Inr ((oc_address C op_signer,
                place_bid C (N i) auction_id deadline tx max_priority_fee op_signer op_signer) # pending_bid_txs))))"

text \<open>Waiting for the tasks in turn: the failures shown, and how the wait ends.\<close>

fun await_bids :: "(address \<times> ('x op_error + 'r) run) list \<Rightarrow> (address \<times> 'x op_error) list \<times> ('x op_error + unit)" where
  "await_bids [] = ([], Inr ())"
| "await_bids ((a, handle) # pending_bid_txs) =
     (case handle of
        Inl p \<Rightarrow> ([], Inl (TaskPanicked p))
      | Inr (Inl e) \<Rightarrow> apfst (Cons (a, e)) (await_bids pending_bid_txs)
      | Inr (Inr r) \<Rightarrow> await_bids pending_bid_txs)"

section \<open>The program\<close>

datatype (plugins only: code) ('key, 'x) op_command =
    BidTransfer (bt_amount: u64) (bt_to: address) (bt_pod_key: "'key option") (bt_key: 'key)
  | BidBatch (bb_amount: u64) (bb_to: address) (bb_keys: "'x + string list")

definition run_command ::
    "('key, 'tx, 'sig, 'r, 'x) op_crates \<Rightarrow> (nat \<Rightarrow> ('key, 'p, 'r, 'x) op_node) \<Rightarrow> u256 \<Rightarrow> system_time \<Rightarrow> op_request
      \<Rightarrow> u128 \<Rightarrow> (nat \<Rightarrow> u128) \<Rightarrow> ('key, 'x) op_command
      \<Rightarrow> ((address \<times> 'x op_error) list \<times> ('x op_error + unit)) run" where
  "run_command C N auction_id deadline tx gas_price draws command =
     (case command of
        BidTransfer amount to pod_signer op_signer \<Rightarrow>
          and_then (random_range (draws 0) (gas_price div 5)) (\<lambda>max_priority_fee.
          map_ok (\<lambda>r. ([], map_ok (\<lambda>receipt. ()) r))
            (place_bid C (N 0) auction_id deadline (tx\<lparr>or_value := Some (ucast amount), or_to := Some to\<rparr>)
              max_priority_fee op_signer (case pod_signer of None \<Rightarrow> op_signer | Some s \<Rightarrow> s)))
      | BidBatch amount to keys \<Rightarrow>
          (case keys of
             Inl e \<Rightarrow> Inr ([], Inl (Op e))
           | Inr private_keys \<Rightarrow>
               map_ok await_bids
                 (spawn_bids C N auction_id deadline (tx\<lparr>or_value := Some (ucast amount), or_to := Some to\<rparr>)
                   gas_price draws 0 private_keys)))"

text \<open>
  \<open>queries\<close>: what \<^verbatim>\<open>try_join!\<close> gives, the chain's identity, the timestamp and number of
  its latest block, the gas price and the gas of a transfer.
\<close>

definition optimism_main ::
    "('key, 'tx, 'sig, 'r, 'x) op_crates \<Rightarrow> (nat \<Rightarrow> ('key, 'p, 'r, 'x) op_node)
      \<Rightarrow> 'x + u64 \<times> (u64 \<times> u64) option \<times> u128 \<times> u64 \<Rightarrow> system_time \<Rightarrow> (nat \<Rightarrow> u128)
      \<Rightarrow> ('key, 'x) op_command \<Rightarrow> ('x + u64) list \<Rightarrow> ((address \<times> 'x op_error) list \<times> ('x op_error + unit)) run" where
  "optimism_main C N queries clock draws command blocks =
     (case queries of
        Inl e \<Rightarrow> Inr ([], Inl (Op e))
      | Inr (chain_id, None, gas_price, estimated_gas) \<Rightarrow> Inr ([], Inl NoLatestBlock)
      | Inr (chain_id, Some (timestamp, number), gas_price, estimated_gas) \<Rightarrow>
          and_then (calculate_deadline_and_block_number clock timestamp number) (\<lambda>d.
          case d of
            None \<Rightarrow> Inr ([], Inl BeforeEpoch)
          | Some (secs, block_number) \<Rightarrow>
              let deadline = uint secs * 10 ^ 9;
                  tx = \<lparr>or_chain_id = chain_id, or_gas_limit = estimated_gas, or_max_fee_per_gas = gas_price,
                        or_max_priority_fee_per_gas = None, or_value = None, or_to = None, or_nonce = None\<rparr>
              in and_then (timestamp_from_system_time deadline) (\<lambda>t.
                 map_ok (\<lambda>(failures, ended).
                     (failures, and_then ended (\<lambda>u.
                        case wait_for_block blocks block_number of
                          Inl e \<Rightarrow> Inl (NotBuilt e)
                        | Inr u \<Rightarrow> Inr ())))
                   (run_command C N (ucast (as_micros t)) deadline tx gas_price draws command))))"

section \<open>Lemmas\<close>

lemma submit_bid_total: "0 \<le> deadline \<Longrightarrow> \<exists>r. submit_bid send get st i deadline a d = Inr r"
  by (simp add: submit_bid_def micros_u64_from_system_time_def micros_from_system_time_def
      timestamp_from_system_time_def)

lemma place_bid_total: "0 \<le> deadline \<Longrightarrow> \<exists>r. place_bid C N i deadline tx fee k pk = Inr r"
  using submit_bid_total [of deadline "on_send N pk" "on_get_receipt N" "oc_receipt_status C" i "ucast fee"]
  by (auto simp: place_bid_def split: sum.splits) (metis map_ok_simps(2))

lemma random_range_less: "random_range draw n = Inr v \<Longrightarrow> v < n"
  by (auto simp: random_range_def word_less_nat_alt unat_mod split: if_splits)
    (metis mod_less_divisor unat_gt_0)

text \<open>A deadline of whole seconds, in microseconds.\<close>

lemma timestamp_of_seconds:
  "\<exists>us. timestamp_from_system_time (uint (secs :: u64) * 10 ^ 9) = Inr (from_micros us) \<and> unat us = unat secs * 10 ^ 6"
proof -
  have d: "uint secs * 10 ^ 9 div 1000 = uint secs * 10 ^ 6" by simp
  define z where "z = uint secs * 10 ^ 6"
  have "uint secs < 2 ^ LENGTH(64)" by (rule unsigned_less)
  then have "uint secs < 18446744073709551616" by simp
  then have "uint secs * 10 ^ 6 < 2 ^ 128" by simp
  moreover have "0 \<le> uint secs * 10 ^ 6" by simp
  ultimately have z: "0 \<le> z" "z < 2 ^ 128" unfolding z_def by blast+
  then have "uint (of_int z :: u128) = z" by (simp add: uint_word_of_int_eq take_bit_int_eq_self)
  then have "unat (of_int z :: u128) = nat z" by (simp only: unat_eq_nat_uint)
  also have "nat z = unat secs * 10 ^ 6" by (simp add: z_def nat_mult_distrib)
  finally have us: "unat (of_int z :: u128) = unat secs * 10 ^ 6" .
  have "\<not> uint secs * 10 ^ 9 < 0" by simp
  then have "timestamp_from_system_time (uint secs * 10 ^ 9) = Inr (from_micros (of_int z))"
    by (simp only: timestamp_from_system_time_def d z_def if_False)
  with us show ?thesis by blast
qed

lemma wait_for_block_seen: "wait_for_block blocks b = Inr u \<Longrightarrow> Inr b \<in> set blocks"
  by (induction blocks) (auto split: sum.splits if_splits)

text \<open>What a bid that succeeds has done.\<close>

lemma place_bid_ok:
  assumes "timestamp_from_system_time deadline = Inr (from_micros us)"
    and "place_bid C N auction_id deadline tx fee op_signer pod_signer = Inr (Inr r)"
  obtains nonce t signed signature p where
    "on_transaction_count N (oc_address C op_signer) = Inr nonce"
    "oc_build C (tx\<lparr>or_max_priority_fee_per_gas := Some fee, or_nonce := Some nonce\<rparr>) = Inr t"
    "oc_sign C op_signer t = Inr (signed, signature)" "unat us < 2 ^ 64"
    "on_send N pod_signer \<lparr>sc_auction_id = auction_id, sc_deadline = ucast us, sc_value = ucast fee,
       sc_data = oc_encode C signed signature, sc_max_priority_fee_per_gas = Some 0\<rparr> = Inr p"
    "on_get_receipt N p = Inr r" "oc_receipt_status C r"
proof -
  obtain bs where bs: "sign_transfer C N tx fee op_signer = Inr bs"
    "submit_bid (on_send N pod_signer) (on_get_receipt N) (oc_receipt_status C) auction_id deadline (ucast fee) bs = Inr (Inr r)"
    using assms(2) by (auto simp: place_bid_def map_ok_def and_then_Inr_iff split: sum.splits)
  have us: "micros_from_system_time deadline = Inr us"
    using assms(1) by (simp add: micros_from_system_time_def as_micros_def from_micros_def)
  show thesis
    using bs(1) that bs(2) [unfolded submit_bid_spec us]
    by (auto simp: sign_transfer_def map_ok_def and_then_Inr_iff)
qed

text \<open>The tasks of a batch, when every key is one and the gas price leaves room for a fee.\<close>

lemma spawn_bids_ok:
  assumes "5 \<le> gas_price"
  shows "map (oc_parse_key C) private_keys = map Inr signers \<Longrightarrow>
    spawn_bids C N auction_id deadline tx gas_price draws i private_keys
      = Inr (map (\<lambda>(j, key). (oc_address C key,
          place_bid C (N j) auction_id deadline tx (draws j mod (gas_price div 5)) key key)) (enumerate i signers))"
proof (induction private_keys arbitrary: i signers)
  case (Cons k ks)
  have "gas_price div 5 \<noteq> 0"
    using assms by (simp add: word_le_nat_alt word_unat_eq_iff unat_div)
  with Cons show ?case by (cases signers) (auto simp: random_range_def)
qed simp

lemma await_bids_ok:
  "await_bids (map (\<lambda>(a, r). (a, Inr r)) hs)
    = (concat (map (\<lambda>(a, r). case r of Inl e \<Rightarrow> [(a, e)] | Inr x \<Rightarrow> []) hs), Inr ())"
  by (induction hs) (auto split: sum.split)

lemma spawn_bids_low_price:
  "\<lbrakk>gas_price < 5; oc_parse_key C k = Inr key\<rbrakk> \<Longrightarrow>
   spawn_bids C N auction_id deadline tx gas_price draws i (k # ks) = Inl EmptyRange"
  by (simp add: random_range_def word_less_nat_alt word_unat_eq_iff unat_div)

section \<open>Properties\<close>

text \<open>
  C27. When a single transfer is bid successfully, the transaction signed carries the account's
  nonce and a tip below a fifth of the gas price, the bid offers exactly that tip for the
  encoding of the signed transaction, the auction bid in is the one named by the deadline
  that is submitted with the bid, and the block counted from the deadline was seen.
\<close>

theorem bid_transfer_success:
  assumes "optimism_main C N (Inr (chain_id, Some (ts, n), gas_price, gas)) clock draws
      (BidTransfer amount to pod_key key) blocks = Inr (failures, Inr ())"
  shows "\<exists>secs b tip nonce t signed signature micros p r.
    calculate_deadline_and_block_number clock ts n = Inr (Some (secs, b)) \<and> Inr b \<in> set blocks
    \<and> tip < gas_price div 5 \<and> on_transaction_count (N 0) (oc_address C key) = Inr nonce
    \<and> oc_build C \<lparr>or_chain_id = chain_id, or_gas_limit = gas, or_max_fee_per_gas = gas_price,
        or_max_priority_fee_per_gas = Some tip, or_value = Some (ucast amount), or_to = Some to,
        or_nonce = Some nonce\<rparr> = Inr t
    \<and> oc_sign C key t = Inr (signed, signature) \<and> unat (micros :: u64) = unat secs * 10 ^ 6
    \<and> on_send (N 0) (case pod_key of None \<Rightarrow> key | Some k \<Rightarrow> k)
        \<lparr>sc_auction_id = ucast micros, sc_deadline = micros, sc_value = ucast tip,
         sc_data = oc_encode C signed signature, sc_max_priority_fee_per_gas = Some 0\<rparr> = Inr p
    \<and> on_get_receipt (N 0) p = Inr r \<and> oc_receipt_status C r"
proof -
  let ?tx = "\<lparr>or_chain_id = chain_id, or_gas_limit = gas, or_max_fee_per_gas = gas_price,
    or_max_priority_fee_per_gas = None, or_value = Some (ucast amount), or_to = Some to, or_nonce = None\<rparr>"
  obtain secs b where d: "calculate_deadline_and_block_number clock ts n = Inr (Some (secs, b))"
    using assms by (auto simp: optimism_main_def and_then_Inr_iff split: option.splits)
  obtain us where us: "timestamp_from_system_time (uint secs * 10 ^ 9) = Inr (from_micros us)"
    "unat us = unat secs * 10 ^ 6" using timestamp_of_seconds by blast
  obtain tip r where bid: "random_range (draws 0) (gas_price div 5) = Inr tip"
    "place_bid C (N 0) (ucast us) (uint secs * 10 ^ 9) ?tx tip key (case pod_key of None \<Rightarrow> key | Some k \<Rightarrow> k) = Inr (Inr r)"
    and block: "wait_for_block blocks b = Inr ()"
    using assms us(1)
    by (auto simp: optimism_main_def d run_command_def map_ok_def and_then_Inr_iff as_micros_def
        from_micros_def split: sum.splits)
  obtain nonce t signed signature p where ok:
    "on_transaction_count (N 0) (oc_address C key) = Inr nonce"
    "oc_build C (?tx\<lparr>or_max_priority_fee_per_gas := Some tip, or_nonce := Some nonce\<rparr>) = Inr t"
    "oc_sign C key t = Inr (signed, signature)" "unat us < 2 ^ 64"
    "on_send (N 0) (case pod_key of None \<Rightarrow> key | Some k \<Rightarrow> k)
       \<lparr>sc_auction_id = ucast us, sc_deadline = ucast us, sc_value = ucast tip,
        sc_data = oc_encode C signed signature, sc_max_priority_fee_per_gas = Some 0\<rparr> = Inr p"
    "on_get_receipt (N 0) p = Inr r" "oc_receipt_status C r"
    using place_bid_ok [OF us(1) bid(2)] .
  have m: "unat (ucast us :: u64) = unat us" using ok(4) by (simp add: unat_ucast)
  show ?thesis
    using d wait_for_block_seen [OF block] random_range_less [OF bid(1)] ok m us(2) ucast_through_u64 [OF ok(4), symmetric]
    by (intro exI conjI) (assumption | simp)+
qed

text \<open>
  C28. In a batch no bid stands in another's way: when every line of the file is a key and the
  gas price is at least five, each key's bid is placed, with a tip of its own, and the
  failures shown are exactly those of the bids that failed, in the order of the keys.
\<close>

theorem bid_batch_isolates:
  assumes "5 \<le> gas_price" "map (oc_parse_key C) private_keys = map Inr signers" "0 \<le> deadline"
  shows "run_command C N auction_id deadline tx gas_price draws (BidBatch amount to (Inr private_keys))
    = Inr (concat (map (\<lambda>(i, key).
        case place_bid C (N i) auction_id deadline (tx\<lparr>or_value := Some (ucast amount), or_to := Some to\<rparr>)
               (draws i mod (gas_price div 5)) key key of
          Inr (Inl e) \<Rightarrow> [(oc_address C key, e)] | _ \<Rightarrow> []) (enumerate 0 signers)), Inr ())"
proof -
  define result where "result x = projr (place_bid C (N (fst x)) auction_id deadline
      (tx\<lparr>or_value := Some (ucast amount), or_to := Some to\<rparr>) (draws (fst x) mod (gas_price div 5)) (snd x) (snd x))"
    for x
  have total: "place_bid C (N (fst x)) auction_id deadline
      (tx\<lparr>or_value := Some (ucast amount), or_to := Some to\<rparr>) (draws (fst x) mod (gas_price div 5)) (snd x) (snd x)
    = Inr (result x)" for x
    using place_bid_total [OF assms(3)] unfolding result_def by (metis sum.sel(2))
  have "spawn_bids C N auction_id deadline (tx\<lparr>or_value := Some (ucast amount), or_to := Some to\<rparr>) gas_price draws 0
      private_keys = Inr (map (\<lambda>(a, r). (a, Inr r)) (map (\<lambda>x. (oc_address C (snd x), result x)) (enumerate 0 signers)))"
    by (subst spawn_bids_ok [OF assms(1,2)]) (simp add: total split_def comp_def)
  moreover have "concat (map (\<lambda>(a, r). case r of Inl e \<Rightarrow> [(a, e)] | Inr x \<Rightarrow> [])
        (map (\<lambda>x. (oc_address C (snd x), result x)) (enumerate 0 signers)))
      = concat (map (\<lambda>x. case Inr (result x) of
          Inr (Inl e) \<Rightarrow> [(oc_address C (snd x), e)] | _ \<Rightarrow> []) (enumerate 0 signers))"
    by (simp add: comp_def)
  ultimately show ?thesis
    by (simp only: run_command_def op_command.case sum.case map_ok_simps await_bids_ok [unfolded split_def] split_def total)
qed

text \<open>
  The tip is drawn from the numbers below a fifth of the gas price: at a gas price below
  five wei that range is empty, and drawing from it panics before anything is sent.
\<close>

theorem low_gas_price_panics:
  assumes "calculate_deadline_and_block_number clock ts n = Inr (Some d)" "gas_price < 5"
  shows "optimism_main C N (Inr (chain_id, Some (ts, n), gas_price, gas)) clock draws
    (BidTransfer amount to pod_key key) blocks = Inl EmptyRange"
proof -
  have "random_range (draws 0) (gas_price div 5) = Inl EmptyRange"
    using assms(2) by (simp add: random_range_def word_less_nat_alt word_unat_eq_iff unat_div)
  then show ?thesis
    using timestamp_of_seconds [of "fst d"]
    by (cases d) (auto simp: optimism_main_def assms(1) run_command_def Let_def)
qed

section \<open>Samples\<close>

text \<open>Two keys; the account of the second has no nonce.\<close>

definition sample_op_crates :: "(address, op_request, address, unit, unit) op_crates" where
  "sample_op_crates =
     \<lparr>oc_build = Inr, oc_sign = (\<lambda>k t. Inr (t, k)),
      oc_encode = (\<lambda>t sig. [ucast (the (or_nonce t)), ucast sig]), oc_address = (\<lambda>k. k),
      oc_parse_key = (\<lambda>s. if s = ''k'' then Inr 5 else if s = ''m'' then Inr 6 else Inl ()),
      oc_receipt_status = (\<lambda>r. True)\<rparr>"

definition sample_op_node :: "(address, submit_call, unit, unit) op_node" where
  "sample_op_node =
     \<lparr>on_transaction_count = (\<lambda>a. if a = 6 then Inl () else Inr 3), on_connect = (\<lambda>k. Inr ()),
      on_send = (\<lambda>k call. Inr call), on_get_receipt = (\<lambda>p. Inr ())\<rparr>"

lemma sample_calculation:
  "calculate_deadline_and_block_number 1742493092123456789 1742493091 100 = Inr (Some (1742493097, 104))"
  by (simp add: calculate_deadline_and_block_number_def Let_def checked_add_def checked_sub_def)

lemmas sample_op_run =
  optimism_main_def run_command_def place_bid_def sign_transfer_def submit_bid_def
  micros_u64_from_system_time_def micros_from_system_time_def timestamp_from_system_time_def
  random_range_def sample_op_crates_def sample_op_node_def bidding_def as_micros_def from_micros_def

theorem bid_transfer_success_witness:
  "\<exists>secs b tip micros p.
    calculate_deadline_and_block_number 1742493092123456789 1742493091 100 = Inr (Some (secs, b))
    \<and> Inr b \<in> {Inr 103 :: unit + u64, Inr 104} \<and> tip < (100 :: u128) div 5 \<and> unat (micros :: u64) = unat secs * 10 ^ 6
    \<and> on_send sample_op_node 5
        \<lparr>sc_auction_id = ucast micros, sc_deadline = micros, sc_value = ucast tip,
         sc_data = [3, 5], sc_max_priority_fee_per_gas = Some 0\<rparr> = Inr p"
proof -
  have run: "optimism_main sample_op_crates (\<lambda>i. sample_op_node) (Inr (10, Some (1742493091, 100), 100, 21000))
      1742493092123456789 (\<lambda>i. 47) (BidTransfer 1 9 None 5) [Inr 103, Inr 104] = Inr ([], Inr ())"
    by (simp add: sample_op_run sample_calculation)
  from bid_transfer_success [OF run] show ?thesis
    by (simp add: sample_op_crates_def sample_op_node_def)
qed

theorem bid_batch_isolates_witness:
  "run_command sample_op_crates (\<lambda>i. sample_op_node) 1742493097000000 (1742493097 * 10 ^ 9)
     \<lparr>or_chain_id = 10, or_gas_limit = 21000, or_max_fee_per_gas = 100, or_max_priority_fee_per_gas = None,
      or_value = None, or_to = None, or_nonce = None\<rparr>
     100 (\<lambda>i. 47) (BidBatch 1 9 (Inr [''k'', ''m'', ''k'']))
   = Inr ([(6, Op ())], Inr ())"
  by (subst bid_batch_isolates [where signers = "[5, 6, 5]"])
    (simp_all add: sample_op_run)

theorem low_gas_price_panics_witness:
  "optimism_main sample_op_crates (\<lambda>i. sample_op_node) (Inr (10, Some (1742493091, 100), 4, 21000))
     1742493092123456789 (\<lambda>i. 47) (BidTransfer 1 9 None 5) [] = Inl EmptyRange"
  by (rule low_gas_price_panics [OF sample_calculation]) simp

end
