(* ===== verification/Contract_Commands.thy ===== *)
theory Contract_Commands
  imports Auction
begin

text \<open>
  The commands of the token, NFT and auction examples that make one call of a contract:
  \<^verbatim>\<open>examples/tokens/src/main.rs\<close>, \<^verbatim>\<open>examples/nfts/src/main.rs\<close> and the
  command \<^verbatim>\<open>vote\<close> of \<^verbatim>\<open>examples/auction/main.rs\<close>.  The node and the
  contract are arguments; \<open>'x\<close> is their error.
\<close>

section \<open>Sending a call\<close>

record ('call, 'p, 'r, 'x) contract_env =
  ce_connect :: "'x + unit"
  ce_send :: "'call \<Rightarrow> 'x + 'p"
  ce_get_receipt :: "'p \<Rightarrow> 'x + 'r"

definition send_and_confirm :: "('call, 'p, 'r, 'x) contract_env \<Rightarrow> 'call \<Rightarrow> 'x + 'r" where
  "send_and_confirm E call =
     and_then (ce_connect E) (\<lambda>_. and_then (ce_send E call) (ce_get_receipt E))"

lemma send_and_confirm_ok:
  "send_and_confirm E call = Inr r \<longleftrightarrow>
     ce_connect E = Inr () \<and> (\<exists>p. ce_send E call = Inr p \<and> ce_get_receipt E p = Inr r)"
  by (auto simp: send_and_confirm_def and_then_Inr_iff)

section \<open>Tokens\<close>

datatype (plugins only: code) token_call = Transfer address "256 word"

datatype (plugins only: code) tokens_command = GetBalance address | TransferToken "256 word" address

datatype (plugins only: code) tokens_line =
    TokensSent "256 word" address hash
  | BalanceOf address "256 word"

definition address_balance :: "'x + unit \<Rightarrow> (address \<Rightarrow> 'x + 256 word) \<Rightarrow> address \<Rightarrow> 'x + 256 word" where
  "address_balance connect balance_of a = and_then connect (\<lambda>_. balance_of a)"

definition transfer_token ::
    "(token_call, 'p, 'r, 'x) contract_env \<Rightarrow> 256 word \<Rightarrow> address \<Rightarrow> 'x + 'r" where
  "transfer_token E amount destination_address = send_and_confirm E (Transfer destination_address amount)"

definition tokens_main ::
    "(token_call, 'p, 'r, 'x) contract_env \<Rightarrow> (address \<Rightarrow> 'x + 256 word) \<Rightarrow> ('r \<Rightarrow> hash) \<Rightarrow> tokens_command
      \<Rightarrow> 'x + tokens_line" where
  "tokens_main E balance_of tx_hash command =
     (case command of
        TransferToken amount a \<Rightarrow>
          map_ok (\<lambda>receipt. TokensSent amount a (tx_hash receipt)) (transfer_token E amount a)
      | GetBalance a \<Rightarrow> map_ok (BalanceOf a) (address_balance (ce_connect E) balance_of a))"

section \<open>NFTs\<close>

datatype (plugins only: code) nft_call = Mint u256 string | TransferNft address u256

datatype (plugins only: code) nfts_command =
    MintToken u256 string
  | GetTokenURI u256
  | TransferNftToken u256 address

datatype (plugins only: code) nfts_line =
    NftMinted u256 hash
  | TokenURI u256 string
  | NftTransferred u256 address hash

definition mint :: "(nft_call, 'p, 'r, 'x) contract_env \<Rightarrow> u256 \<Rightarrow> string \<Rightarrow> 'x + 'r" where
  "mint E token_id uri = send_and_confirm E (Mint token_id uri)"

definition token_uri :: "'x + unit \<Rightarrow> (u256 \<Rightarrow> 'x + string) \<Rightarrow> u256 \<Rightarrow> 'x + string" where
  "token_uri connect uri_of token_id = and_then connect (\<lambda>_. uri_of token_id)"

definition transfer_nft :: "(nft_call, 'p, 'r, 'x) contract_env \<Rightarrow> u256 \<Rightarrow> address \<Rightarrow> 'x + 'r" where
  "transfer_nft E token_id destination_address = send_and_confirm E (TransferNft destination_address token_id)"

definition nfts_main ::
    "(nft_call, 'p, 'r, 'x) contract_env \<Rightarrow> (u256 \<Rightarrow> 'x + string) \<Rightarrow> ('r \<Rightarrow> hash) \<Rightarrow> nfts_command \<Rightarrow> 'x + nfts_line" where
  "nfts_main E uri_of tx_hash command =
     (case command of
        MintToken token_id uri \<Rightarrow> map_ok (\<lambda>receipt. NftMinted token_id (tx_hash receipt)) (mint E token_id uri)
      | TransferNftToken token_id a \<Rightarrow>
          map_ok (\<lambda>receipt. NftTransferred token_id a (tx_hash receipt)) (transfer_nft E token_id a)
      | GetTokenURI token_id \<Rightarrow> map_ok (TokenURI token_id) (token_uri (ce_connect E) uri_of token_id))"

section \<open>Voting in an auction\<close>

datatype (plugins only: code) 'x vote_error = Deadline cli_error | VoteFailed 'x

definition voting_step :: "'x + 'a \<Rightarrow> 'x vote_error + 'a" where
  "voting_step r = (case r of Inl e \<Rightarrow> Inl (VoteFailed e) | Inr a \<Rightarrow> Inr a)"

lemma voting_step_ok [simp]: "voting_step r = Inr a \<longleftrightarrow> r = Inr a"
  by (cases r) (simp_all add: voting_step_def)

text \<open>The node is the one connected to with the key; the status of the receipt is shown.\<close>

definition vote ::
    "system_time \<Rightarrow> (string \<Rightarrow> 'x + bytes) \<Rightarrow> (bytes \<Rightarrow> 'x + 'key)
      \<Rightarrow> ('key \<Rightarrow> (submit_call, 'p, 'r, 'x) contract_env) \<Rightarrow> ('r \<Rightarrow> bool)
      \<Rightarrow> u256 \<Rightarrow> u64 \<Rightarrow> u256 \<Rightarrow> bytes \<Rightarrow> string \<Rightarrow> 'x vote_error + bool" where
  "vote clock hex_decode from_slice E receipt_status auction_id deadline amount data private_key =
     (case check_deadline clock deadline of
        Inl e \<Rightarrow> Inl (Deadline e)
      | Inr u \<Rightarrow>
          voting_step
            (and_then (hex_decode private_key) (\<lambda>key_bytes.
             and_then (from_slice key_bytes) (\<lambda>signing_key.
             map_ok receipt_status
               (send_and_confirm (E signing_key)
                 \<lparr>sc_auction_id = auction_id, sc_deadline = deadline, sc_value = amount, sc_data = data,
                  sc_max_priority_fee_per_gas = None\<rparr>)))))"

section \<open>Properties\<close>

text \<open>
  A transfer of tokens is reported as sent exactly when its call was sent and a receipt
  came: the receipt's status is not asked for, so a transfer that failed is reported too.
\<close>

theorem transfer_reported_iff_received:
  "tokens_main E balance_of tx_hash (TransferToken amount a) = Inr line \<longleftrightarrow>
     ce_connect E = Inr ()
     \<and> (\<exists>p r. ce_send E (Transfer a amount) = Inr p \<and> ce_get_receipt E p = Inr r
         \<and> line = TokensSent amount a (tx_hash r))"
  by (auto simp: tokens_main_def transfer_token_def map_ok_def and_then_Inr_iff send_and_confirm_ok)

text \<open>
  A vote that ends without an error was sent before its deadline, with the arguments of the
  command, and shows the status of its receipt.
\<close>

theorem vote_ok_spec:
  "vote clock hex_decode from_slice E receipt_status auction_id deadline amount data private_key = Inr shown \<longleftrightarrow>
     check_deadline clock deadline = Inr ()
     \<and> (\<exists>bs key p r. hex_decode private_key = Inr bs \<and> from_slice bs = Inr key
         \<and> ce_connect (E key) = Inr ()
         \<and> ce_send (E key) \<lparr>sc_auction_id = auction_id, sc_deadline = deadline, sc_value = amount,
             sc_data = data, sc_max_priority_fee_per_gas = None\<rparr> = Inr p
         \<and> ce_get_receipt (E key) p = Inr r \<and> shown = receipt_status r)"
  by (auto simp: vote_def map_ok_def and_then_Inr_iff send_and_confirm_ok split: sum.splits)

end
