(* ===== verification/Sol_Traits.thy ===== *)
theory Sol_Traits
  imports Sol_Interface
begin

text \<open>
  The traits that generated bindings implement for the structs of a contract: a record of
  the methods a binding writes for each, and, as predicates, what the crate's provided
  methods and its encoding of tuples do with them.  The contract \<open>typed_dispatch\<close> is a
  selector table whose decoders yield variants of their own selector.
\<close>

type_synonym bytes4 = "32 word"
type_synonym bytes8 = "64 word"

section \<open>Calls and errors\<close>

text \<open>\<^verbatim>\<open>SolCall\<close> and \<^verbatim>\<open>SolError\<close>: a struct \<open>'c\<close> and the tuple \<open>'t\<close> of its fields.\<close>

record ('c, 't) sol_impl =
  si_signature :: string
  si_selector :: bytes
  si_new :: "'t \<Rightarrow> 'c"
  si_tokenize :: "'c \<Rightarrow> 't"

text \<open>The crate's encoding of the tuple as a sequence.\<close>

record ('t, 'x) sol_tuple =
  st_encode :: "'t \<Rightarrow> bytes"
  st_size :: "'t \<Rightarrow> nat"
  st_decode :: "bytes \<Rightarrow> 'x + 't"
  st_decode_validate :: "bytes \<Rightarrow> 'x + 't"

definition tuple_law :: "('t, 'x) sol_tuple \<Rightarrow> 't \<Rightarrow> bool" where
  "tuple_law S t \<longleftrightarrow>
     length (st_encode S t) = st_size S t
     \<and> st_decode S (st_encode S t) = Inr t \<and> st_decode_validate S (st_encode S t) = Inr t"

text \<open>
  The provided methods: a struct is encoded as the tuple of its tokens, appended to the
  output, and decoded by \<^verbatim>\<open>new\<close> from the decoded tuple.
\<close>

definition provided_methods :: "('c, 't) sol_impl \<Rightarrow> ('t, 'x) sol_tuple \<Rightarrow> ('c, 'x) sol_call" where
  "provided_methods I S =
     \<lparr>sc_encode_raw = (\<lambda>c out. out @ st_encode S (si_tokenize I c)),
      sc_encoded_size = (\<lambda>c. st_size S (si_tokenize I c)),
      sc_decode_raw = (\<lambda>data. map_sum id (si_new I) (st_decode S data)),
      sc_decode_raw_validate = (\<lambda>data. map_sum id (si_new I) (st_decode_validate S data))\<rparr>"

definition impl_law :: "('c, 't) sol_impl \<Rightarrow> ('c, 'x) sol_call \<Rightarrow> 'c \<Rightarrow> bool" where
  "impl_law I C c \<longleftrightarrow> (\<exists>S. C = provided_methods I S \<and> tuple_law S (si_tokenize I c))"

lemma impl_law_call:
  assumes "impl_law I C c" "si_new I (si_tokenize I c) = c"
  shows "call_law C c"
  using assms by (auto simp: impl_law_def call_law_def provided_methods_def tuple_law_def)

text \<open>A sample: a codec that encodes one tuple, as one byte.\<close>

definition sample_tuple :: "'t \<Rightarrow> ('t, 'x) sol_tuple" where
  "sample_tuple t =
     \<lparr>st_encode = (\<lambda>_. [7]), st_size = (\<lambda>_. 1), st_decode = (\<lambda>_. Inr t), st_decode_validate = (\<lambda>_. Inr t)\<rparr>"

lemma sample_tuple_law: "tuple_law (sample_tuple t) t"
  by (simp add: tuple_law_def sample_tuple_def)

lemma sample_impl_law: "impl_law I (provided_methods I (sample_tuple (si_tokenize I c))) c"
  unfolding impl_law_def by (rule exI [of _ "sample_tuple (si_tokenize I c)"]) (simp add: sample_tuple_law)

section \<open>Typed dispatch\<close>

definition decode_shim :: "('c \<Rightarrow> 'v) \<Rightarrow> ('c, 'x) sol_call \<Rightarrow> bytes \<Rightarrow> 'x sol_error + 'v" where
  "decode_shim variant C data = codec variant (sc_decode_raw C data)"

definition decode_validate_shim :: "('c \<Rightarrow> 'v) \<Rightarrow> ('c, 'x) sol_call \<Rightarrow> bytes \<Rightarrow> 'x sol_error + 'v" where
  "decode_validate_shim variant C data = codec variant (sc_decode_raw_validate C data)"

text \<open>
  An error's \<^verbatim>\<open>abi_decode_raw_validate\<close> is the binding's own, on the codec of its tuple;
  \<open>error_law\<close> is \<open>impl_law\<close> with that codec.
\<close>

definition error_decode_raw_validate :: "('c, 't) sol_impl \<Rightarrow> ('t, 'x) sol_tuple \<Rightarrow> bytes \<Rightarrow> 'x + 'c" where
  "error_decode_raw_validate I S data = map_sum id (si_new I) (st_decode_validate S data)"

definition error_validate_shim ::
    "('c \<Rightarrow> 'v) \<Rightarrow> ('c, 't) sol_impl \<Rightarrow> ('t, 'x) sol_tuple \<Rightarrow> bytes \<Rightarrow> 'x sol_error + 'v" where
  "error_validate_shim variant I S data = codec variant (error_decode_raw_validate I S data)"

lemmas shim_simps = decode_shim_def decode_validate_shim_def error_validate_shim_def

definition error_law :: "('c, 't) sol_impl \<Rightarrow> ('c, 'x) sol_call \<Rightarrow> ('t, 'x) sol_tuple \<Rightarrow> 'c \<Rightarrow> bool" where
  "error_law I C S c \<longleftrightarrow> C = provided_methods I S \<and> tuple_law S (si_tokenize I c)"

lemma error_law_call:
  assumes "error_law I C S c" "si_new I (si_tokenize I c) = c"
  shows "call_law C c \<and> error_decode_raw_validate I S = sc_decode_raw_validate C"
proof
  have C: "C = provided_methods I S" and S: "tuple_law S (si_tokenize I c)"
    using assms(1) by (simp_all add: error_law_def)
  then have "impl_law I C c" by (auto simp: impl_law_def)
  then show "call_law C c" by (rule impl_law_call) (rule assms(2))
  show "error_decode_raw_validate I S = sc_decode_raw_validate C"
    by (rule ext) (simp add: C provided_methods_def error_decode_raw_validate_def)
qed

text \<open>The name of a signature, up to its parenthesis.\<close>

definition name_of_signature :: "string option \<Rightarrow> string option" where
  "name_of_signature sig = Option.bind sig (\<lambda>s. map_option fst (split_once CHR ''('' s))"

text \<open>A row: what the decoder beside a selector makes has that selector.\<close>

definition typed_row :: "('v \<Rightarrow> bytes) \<Rightarrow> bytes \<Rightarrow> (bytes \<Rightarrow> 'x sol_error + 'v) \<Rightarrow> bool" where
  "typed_row sel_of sel shim \<longleftrightarrow>
     (\<forall>data. case shim data of Inl e \<Rightarrow> \<exists>x. e = Codec x | Inr c \<Rightarrow> sel_of c = sel)"

lemma typed_row_shims:
  "(\<And>c. sel_of (variant c) = sel) \<Longrightarrow> typed_row sel_of sel (decode_shim variant C)"
  "(\<And>c. sel_of (variant c) = sel) \<Longrightarrow> typed_row sel_of sel (decode_validate_shim variant C)"
  "(\<And>c. sel_of (variant c) = sel) \<Longrightarrow> typed_row sel_of sel (error_validate_shim variant I S)"
  by (auto simp: typed_row_def shim_simps codec_def split: sum.split)

locale typed_dispatch = dispatch_table selectors
  for selectors :: "bytes list" +
  fixes sel_of :: "'v \<Rightarrow> bytes" and shims :: "(bytes \<Rightarrow> 'x sol_error + 'v) list"
  assumes rows: "list_all2 (typed_row sel_of) selectors shims"
begin

lemma dispatch_at:
  assumes "i < length selectors" "selectors ! i = sel"
  shows "dispatch_call name selectors shims sel data = Inr ((shims ! i) data)"
  using assms row_nth [of i shims] rows
  by (auto simp: dispatch_call_def map_ok_def dest: list_all2_lengthD)

lemma dispatch_unknown:
  "sel \<notin> set selectors \<Longrightarrow> dispatch_call name selectors shims sel data = Inr (Inl (UnknownSelector name sel))"
  by (simp add: dispatch_call_def row_unknown map_ok_def)

lemma dispatch_typed:
  "case dispatch_call name selectors shims sel data of
     Inl p \<Rightarrow> False
   | Inr (Inl e) \<Rightarrow> if sel \<in> set selectors then \<exists>x. e = Codec x else e = UnknownSelector name sel
   | Inr (Inr c) \<Rightarrow> sel_of c = sel \<and> sel \<in> set selectors"
proof (cases "sel \<in> set selectors")
  case True
  then obtain i where i: "i < length selectors" "selectors ! i = sel" by (auto simp: in_set_conv_nth)
  then have "typed_row sel_of sel (shims ! i)" using rows by (auto dest: list_all2_nthD)
  then show ?thesis
    using True by (auto simp: dispatch_at [OF i] typed_row_def split: sum.splits elim!: allE [of _ data])
qed (simp add: dispatch_unknown)

end

section \<open>Events\<close>

text \<open>
  \<^verbatim>\<open>SolEvent\<close> of a struct \<open>'e\<close> whose indexed fields make the topics \<open>'p\<close>, the signature hash
  among them, and whose other fields make the tuple \<open>'d\<close>.  The types that the binding lists
  for its topics, its \<^verbatim>\<open>TopicList\<close>, are given by the words they write for a value of \<open>'p\<close>; the
  first is the hash itself.
\<close>

record ('e, 'p, 'd, 'x) event_impl =
  ei_signature :: string
  ei_signature_hash :: hash
  ei_count :: nat
  ei_new :: "'p \<Rightarrow> 'd \<Rightarrow> 'e"
  ei_check_signature :: "'p \<Rightarrow> 'x sol_error + unit"
  ei_tokenize_body :: "'e \<Rightarrow> 'd"
  ei_topics :: "'e \<Rightarrow> 'p"
  ei_topic_list :: "'p \<Rightarrow> hash list"
  ei_encode_topics_raw :: "'e \<Rightarrow> hash list \<Rightarrow> ('x sol_error + hash list) run"

text \<open>
  The provided methods: \<^verbatim>\<open>encode_log_data\<close> writes the topics into an array of their number
  and encodes the tokens of the body; \<^verbatim>\<open>decode_raw_log\<close> succeeds when both decode and the
  signature passes.  \<open>T\<close> is the crate's decoder for the listed types: it reads back the words
  that these types write for a value, and the first one as it is.  That the binding's own
  \<^verbatim>\<open>encode_topics_raw\<close> writes these words is not assumed; it is part of \<open>event_consistent\<close>.
\<close>

definition event_methods ::
    "('e, 'p, 'd, 'x) event_impl \<Rightarrow> ('p \<Rightarrow> hash) \<Rightarrow> (hash list \<Rightarrow> 'x + 'p) \<Rightarrow> ('d, 'x) sol_tuple
      \<Rightarrow> ('e, 'x) sol_event \<Rightarrow> bool" where
  "event_methods I first T B E \<longleftrightarrow>
     (\<forall>e. ei_encode_topics_raw I e (replicate (ei_count I) 0) = Inr (Inr (ld_topics (se_encode_log_data E e)))
        \<and> ld_data (se_encode_log_data E e) = st_encode B (ei_tokenize_body I e))
     \<and> (\<forall>topics data e. se_decode_raw_log E topics data = Inr e \<longleftrightarrow>
          (\<exists>p d. T topics = Inr p \<and> ei_check_signature I p = Inr () \<and> st_decode B data = Inr d \<and> e = ei_new I p d))
     \<and> (\<forall>topics p. T topics = Inr p \<longrightarrow> (\<exists>rest. topics = first p # rest))"

definition event_reads ::
    "('e, 'p, 'd, 'x) event_impl \<Rightarrow> (hash list \<Rightarrow> 'x + 'p) \<Rightarrow> ('d, 'x) sol_tuple \<Rightarrow> 'e \<Rightarrow> bool" where
  "event_reads I T B e \<longleftrightarrow> (\<forall>p. T (ei_topic_list I p) = Inr p) \<and> tuple_law B (ei_tokenize_body I e)"

definition impl_event_law ::
    "('e, 'p, 'd, 'x) event_impl \<Rightarrow> ('p \<Rightarrow> hash) \<Rightarrow> ('e, 'x) sol_event \<Rightarrow> 'e \<Rightarrow> bool" where
  "impl_event_law I first E e \<longleftrightarrow> (\<exists>T B. event_methods I first T B E \<and> event_reads I T B e)"

definition impl_event_provided ::
    "('e, 'p, 'd, 'x) event_impl \<Rightarrow> ('p \<Rightarrow> hash) \<Rightarrow> ('e, 'x) sol_event \<Rightarrow> bool" where
  "impl_event_provided I first E \<longleftrightarrow> (\<exists>T B. event_methods I first T B E)"

text \<open>
  What is written for an event's topics are the words of the listed types, in their order; its
  own topics pass its check and make it again with its body.
\<close>

definition event_consistent :: "('e, 'p, 'd, 'x) event_impl \<Rightarrow> bool" where
  "event_consistent I \<longleftrightarrow>
     (\<forall>e. ei_encode_topics_raw I e (replicate (ei_count I) 0) = Inr (Inr (ei_topic_list I (ei_topics I e)))
        \<and> ei_check_signature I (ei_topics I e) = Inr () \<and> ei_new I (ei_topics I e) (ei_tokenize_body I e) = e)"

lemma event_round_trip:
  assumes "impl_event_law I first E e" "event_consistent I"
  shows "se_decode_raw_log E (ld_topics (se_encode_log_data E e)) (ld_data (se_encode_log_data E e)) = Inr e"
proof -
  obtain T B where "event_methods I first T B E" "event_reads I T B e" using assms(1) by (auto simp: impl_event_law_def)
  moreover from this have "ld_topics (se_encode_log_data E e) = ei_topic_list I (ei_topics I e)"
    using assms(2) by (simp add: event_methods_def event_consistent_def)
  ultimately show ?thesis
    using assms(2) by (auto simp: event_methods_def event_reads_def event_consistent_def tuple_law_def)
qed

lemma event_topics_written:
  "impl_event_law I first E e \<Longrightarrow>
   ei_encode_topics_raw I e (replicate (ei_count I) 0) = Inr (Inr (ld_topics (se_encode_log_data E e)))"
  by (auto simp: impl_event_law_def event_methods_def)

lemma event_decoded_topic:
  assumes "impl_event_provided I first E" "se_decode_raw_log E topics data = Inr e"
  shows "\<exists>p rest. topics = first p # rest \<and> ei_check_signature I p = Inr ()"
proof -
  obtain T B where "event_methods I first T B E" using assms(1) by (auto simp: impl_event_provided_def)
  then show ?thesis using assms(2) unfolding event_methods_def by blast
qed

text \<open>A log whose first topic is not the event's signature hash is never decoded as it.\<close>

lemma event_other_topic:
  assumes "impl_event_provided I first E"
    and "\<And>p. ei_check_signature I p = Inr () \<Longrightarrow> first p = ei_signature_hash I"
    and "\<And>rest. topics \<noteq> ei_signature_hash I # rest"
  shows "\<exists>x. se_decode_raw_log E topics data = Inl x"
  using event_decoded_topic [OF assms(1), of topics data] assms(2,3)
  by (cases "se_decode_raw_log E topics data") auto

text \<open>The provided methods exist for any codec of the topics and of the body.\<close>

definition provided_event ::
    "'x \<Rightarrow> ('e, 'p, 'd, 'x) event_impl \<Rightarrow> (hash list \<Rightarrow> 'x + 'p) \<Rightarrow> ('d, 'x) sol_tuple \<Rightarrow> ('e, 'x) sol_event" where
  "provided_event x I T B =
     \<lparr>se_encode_log_data = (\<lambda>e.
        \<lparr>ld_topics = (case ei_encode_topics_raw I e (replicate (ei_count I) 0) of
             Inr (Inr ts) \<Rightarrow> ts
           | _ \<Rightarrow> []),
         ld_data = st_encode B (ei_tokenize_body I e)\<rparr>),
      se_decode_raw_log = (\<lambda>topics data. and_then (T topics) (\<lambda>p.
        case ei_check_signature I p of
          Inl _ \<Rightarrow> Inl x
        | Inr _ \<Rightarrow> map_sum id (ei_new I p) (st_decode B data)))\<rparr>"

lemma provided_event_methods:
  assumes "\<And>e. \<exists>ts. ei_encode_topics_raw I e (replicate (ei_count I) 0) = Inr (Inr ts)"
    and "\<And>topics p. T topics = Inr p \<Longrightarrow> \<exists>rest. topics = first p # rest"
  shows "event_methods I first T B (provided_event x I T B)"
  unfolding event_methods_def
proof (intro conjI allI impI)
  show "ei_encode_topics_raw I e (replicate (ei_count I) 0)
      = Inr (Inr (ld_topics (se_encode_log_data (provided_event x I T B) e)))" for e
    using assms(1) [of e] by (auto simp: provided_event_def)
  show "ld_data (se_encode_log_data (provided_event x I T B) e) = st_encode B (ei_tokenize_body I e)" for e
    by (simp add: provided_event_def)
  show "se_decode_raw_log (provided_event x I T B) topics data = Inr e \<longleftrightarrow>
      (\<exists>p d. T topics = Inr p \<and> ei_check_signature I p = Inr () \<and> st_decode B data = Inr d \<and> e = ei_new I p d)"
    for topics data e
    by (cases "T topics"; cases "st_decode B data")
      (auto simp: provided_event_def and_then_Inr_iff split: sum.split)
  show "\<exists>rest. topics = first p # rest" if "T topics = Inr p" for topics p
    using assms(2) [OF that] .
qed

end
