(* ===== verification/Bridge_Calls.thy ===== *)
theory Bridge_Calls
  imports Sol_Traits
begin

text \<open>
  The calls of \<^verbatim>\<open>protocol/bindings/src/bridge.rs\<close>: a record for each call's struct, its
  \<^verbatim>\<open>SolCall\<close> implementation, the enum \<open>BridgeCalls\<close> with its tables, and the builders of an
  instance.  Solidity's enum \<^verbatim>\<open>ContractState\<close> is the byte it wraps.
\<close>

section \<open>The calls\<close>

record ClaimParams =
  ClaimParams_amount :: u256
  ClaimParams_to :: address
  ClaimParams_proof :: bytes
  ClaimParams_auxTxSuffix :: bytes

record DepositParams =
  DepositParams_from :: address
  DepositParams_to :: address
  DepositParams_amount :: u256

record PermitParams =
  PermitParams_deadline :: u256
  PermitParams_v :: byte
  PermitParams_r :: hash
  PermitParams_s :: hash

definition BRIDGE_CONTRACTCall_impl :: "(unit, unit) sol_impl" where
  "BRIDGE_CONTRACTCall_impl =
     \<lparr>si_signature = ''BRIDGE_CONTRACT()'',
      si_selector = [143, 201, 178, 4],
      si_new = (\<lambda>_. ()),
      si_tokenize = (\<lambda>_. ())\<rparr>"

definition CHAIN_IDCall_impl :: "(unit, unit) sol_impl" where
  "CHAIN_IDCall_impl =
     \<lparr>si_signature = ''CHAIN_ID()'',
      si_selector = [133, 225, 244, 208],
      si_new = (\<lambda>_. ()),
      si_tokenize = (\<lambda>_. ())\<rparr>"

definition DEFAULT_ADMIN_ROLECall_impl :: "(unit, unit) sol_impl" where
  "DEFAULT_ADMIN_ROLECall_impl =
     \<lparr>si_signature = ''DEFAULT_ADMIN_ROLE()'',
      si_selector = [162, 23, 253, 223],
      si_new = (\<lambda>_. ()),
      si_tokenize = (\<lambda>_. ())\<rparr>"

definition PAUSER_ROLECall_impl :: "(unit, unit) sol_impl" where
  "PAUSER_ROLECall_impl =
     \<lparr>si_signature = ''PAUSER_ROLE()'',
      si_selector = [230, 58, 177, 233],
      si_new = (\<lambda>_. ()),
      si_tokenize = (\<lambda>_. ())\<rparr>"

definition RELAYER_ROLECall_impl :: "(unit, unit) sol_impl" where
  "RELAYER_ROLECall_impl =
     \<lparr>si_signature = ''RELAYER_ROLE()'',
      si_selector = [146, 109, 125, 127],
      si_new = (\<lambda>_. ()),
      si_tokenize = (\<lambda>_. ())\<rparr>"

record activeValidatorsCall =
  activeValidatorsCall_arg0 :: address

definition activeValidatorsCall_of_tuple :: "address \<Rightarrow> activeValidatorsCall" where
  "activeValidatorsCall_of_tuple = (\<lambda>t0.
     \<lparr>activeValidatorsCall_arg0 = t0\<rparr>)"

definition activeValidatorsCall_impl :: "(activeValidatorsCall, address) sol_impl" where
  "activeValidatorsCall_impl =
     \<lparr>si_signature = ''activeValidators(address)'',
      si_selector = [186, 38, 230, 18],
      si_new = activeValidatorsCall_of_tuple,
      si_tokenize = activeValidatorsCall_arg0\<rparr>"

definition adversarialResilienceCall_impl :: "(unit, unit) sol_impl" where
  "adversarialResilienceCall_impl =
     \<lparr>si_signature = ''adversarialResilience()'',
      si_selector = [112, 160, 247, 99],
      si_new = (\<lambda>_. ()),
      si_tokenize = (\<lambda>_. ())\<rparr>"

record batchClaimCall =
  batchClaimCall_token :: address
  batchClaimCall_claims :: "ClaimParams list"

definition batchClaimCall_of_tuple :: "address \<times> ClaimParams list \<Rightarrow> batchClaimCall" where
  "batchClaimCall_of_tuple = (\<lambda>(t0, t1).
     \<lparr>batchClaimCall_token = t0, batchClaimCall_claims = t1\<rparr>)"

definition batchClaimCall_impl :: "(batchClaimCall, address \<times> ClaimParams list) sol_impl" where
  "batchClaimCall_impl =
     \<lparr>si_signature = ''batchClaim(address,(uint256,address,bytes,bytes)[])'',
      si_selector = [35, 218, 118, 69],
      si_new = batchClaimCall_of_tuple,
      si_tokenize = (\<lambda>c. (batchClaimCall_token c, batchClaimCall_claims c))\<rparr>"

record batchDepositCall =
  batchDepositCall_token :: address
  batchDepositCall_deposits :: "DepositParams list"
  batchDepositCall_permits :: "PermitParams list"
  batchDepositCall_callContract :: address
  batchDepositCall_reserveBalance :: u256

definition batchDepositCall_of_tuple :: "address \<times> DepositParams list \<times> PermitParams list \<times> address \<times> u256 \<Rightarrow> batchDepositCall" where
  "batchDepositCall_of_tuple = (\<lambda>(t0, t1, t2, t3, t4).
     \<lparr>batchDepositCall_token = t0, batchDepositCall_deposits = t1, batchDepositCall_permits = t2,
      batchDepositCall_callContract = t3, batchDepositCall_reserveBalance = t4\<rparr>)"

definition batchDepositCall_impl :: "(batchDepositCall, address \<times> DepositParams list \<times> PermitParams list \<times> address \<times> u256) sol_impl" where
  "batchDepositCall_impl =
     \<lparr>si_signature = ''batchDeposit(address,(address,address,uint256)[],(uint256,uint8,bytes32,bytes32)[],address,uint256)'',
      si_selector = [62, 9, 225, 126],
      si_new = batchDepositCall_of_tuple,
      si_tokenize = (\<lambda>c. (batchDepositCall_token c, batchDepositCall_deposits c, batchDepositCall_permits c,
              batchDepositCall_callContract c, batchDepositCall_reserveBalance c))\<rparr>"

record claimCall =
  claimCall_token :: address
  claimCall_amount :: u256
  claimCall_to :: address
  claimCall_proof :: bytes
  claimCall_auxTxSuffix :: bytes

definition claimCall_of_tuple :: "address \<times> u256 \<times> address \<times> bytes \<times> bytes \<Rightarrow> claimCall" where
  "claimCall_of_tuple = (\<lambda>(t0, t1, t2, t3, t4).
     \<lparr>claimCall_token = t0, claimCall_amount = t1, claimCall_to = t2, claimCall_proof = t3,
      claimCall_auxTxSuffix = t4\<rparr>)"

definition claimCall_impl :: "(claimCall, address \<times> u256 \<times> address \<times> bytes \<times> bytes) sol_impl" where
  "claimCall_impl =
     \<lparr>si_signature = ''claim(address,uint256,address,bytes,bytes)'',
      si_selector = [142, 70, 180, 168],
      si_new = claimCall_of_tuple,
      si_tokenize = (\<lambda>c. (claimCall_token c, claimCall_amount c, claimCall_to c, claimCall_proof c,
              claimCall_auxTxSuffix c))\<rparr>"

record configureTokenCall =
  configureTokenCall_token :: address
  configureTokenCall_minAmount :: u256
  configureTokenCall_depositLimit :: u256
  configureTokenCall_claimLimit :: u256

definition configureTokenCall_of_tuple :: "address \<times> u256 \<times> u256 \<times> u256 \<Rightarrow> configureTokenCall" where
  "configureTokenCall_of_tuple = (\<lambda>(t0, t1, t2, t3).
     \<lparr>configureTokenCall_token = t0, configureTokenCall_minAmount = t1,
      configureTokenCall_depositLimit = t2, configureTokenCall_claimLimit = t3\<rparr>)"

definition configureTokenCall_impl :: "(configureTokenCall, address \<times> u256 \<times> u256 \<times> u256) sol_impl" where
  "configureTokenCall_impl =
     \<lparr>si_signature = ''configureToken(address,uint256,uint256,uint256)'',
      si_selector = [142, 94, 195, 153],
      si_new = configureTokenCall_of_tuple,
      si_tokenize = (\<lambda>c. (configureTokenCall_token c, configureTokenCall_minAmount c,
              configureTokenCall_depositLimit c, configureTokenCall_claimLimit c))\<rparr>"

definition contractStateCall_impl :: "(unit, unit) sol_impl" where
  "contractStateCall_impl =
     \<lparr>si_signature = ''contractState()'',
      si_selector = [133, 32, 158, 224],
      si_new = (\<lambda>_. ()),
      si_tokenize = (\<lambda>_. ())\<rparr>"

record depositCall =
  depositCall_token :: address
  depositCall_amount :: u256
  depositCall_to :: address
  depositCall_callContract :: address
  depositCall_reserveBalance :: u256
  depositCall_permit :: bytes

definition depositCall_of_tuple :: "address \<times> u256 \<times> address \<times> address \<times> u256 \<times> bytes \<Rightarrow> depositCall" where
  "depositCall_of_tuple = (\<lambda>(t0, t1, t2, t3, t4, t5).
     \<lparr>depositCall_token = t0, depositCall_amount = t1, depositCall_to = t2,
      depositCall_callContract = t3, depositCall_reserveBalance = t4, depositCall_permit = t5\<rparr>)"

definition depositCall_impl :: "(depositCall, address \<times> u256 \<times> address \<times> address \<times> u256 \<times> bytes) sol_impl" where
  "depositCall_impl =
     \<lparr>si_signature = ''deposit(address,uint256,address,address,uint256,bytes)'',
      si_selector = [26, 104, 80, 219],
      si_new = depositCall_of_tuple,
      si_tokenize = (\<lambda>c. (depositCall_token c, depositCall_amount c, depositCall_to c, depositCall_callContract c,
              depositCall_reserveBalance c, depositCall_permit c))\<rparr>"

definition depositIndexCall_impl :: "(unit, unit) sol_impl" where
  "depositIndexCall_impl =
     \<lparr>si_signature = ''depositIndex()'',
      si_selector = [123, 137, 137, 57],
      si_new = (\<lambda>_. ()),
      si_tokenize = (\<lambda>_. ())\<rparr>"

definition domainSeparatorCall_impl :: "(unit, unit) sol_impl" where
  "domainSeparatorCall_impl =
     \<lparr>si_signature = ''domainSeparator()'',
      si_selector = [246, 152, 218, 37],
      si_new = (\<lambda>_. ()),
      si_tokenize = (\<lambda>_. ())\<rparr>"

record getRoleAdminCall =
  getRoleAdminCall_role :: hash

definition getRoleAdminCall_of_tuple :: "hash \<Rightarrow> getRoleAdminCall" where
  "getRoleAdminCall_of_tuple = (\<lambda>t0.
     \<lparr>getRoleAdminCall_role = t0\<rparr>)"

definition getRoleAdminCall_impl :: "(getRoleAdminCall, hash) sol_impl" where
  "getRoleAdminCall_impl =
     \<lparr>si_signature = ''getRoleAdmin(bytes32)'',
      si_selector = [36, 138, 156, 163],
      si_new = getRoleAdminCall_of_tuple,
      si_tokenize = getRoleAdminCall_role\<rparr>"

record grantRoleCall =
  grantRoleCall_role :: hash
  grantRoleCall_account :: address

definition grantRoleCall_of_tuple :: "hash \<times> address \<Rightarrow> grantRoleCall" where
  "grantRoleCall_of_tuple = (\<lambda>(t0, t1).
     \<lparr>grantRoleCall_role = t0, grantRoleCall_account = t1\<rparr>)"

definition grantRoleCall_impl :: "(grantRoleCall, hash \<times> address) sol_impl" where
  "grantRoleCall_impl =
     \<lparr>si_signature = ''grantRole(bytes32,address)'',
      si_selector = [47, 47, 241, 93],
      si_new = grantRoleCall_of_tuple,
      si_tokenize = (\<lambda>c. (grantRoleCall_role c, grantRoleCall_account c))\<rparr>"

record hasRoleCall =
  hasRoleCall_role :: hash
  hasRoleCall_account :: address

definition hasRoleCall_of_tuple :: "hash \<times> address \<Rightarrow> hasRoleCall" where
  "hasRoleCall_of_tuple = (\<lambda>(t0, t1).
     \<lparr>hasRoleCall_role = t0, hasRoleCall_account = t1\<rparr>)"

definition hasRoleCall_impl :: "(hasRoleCall, hash \<times> address) sol_impl" where
  "hasRoleCall_impl =
     \<lparr>si_signature = ''hasRole(bytes32,address)'',
      si_selector = [145, 209, 72, 84],
      si_new = hasRoleCall_of_tuple,
      si_tokenize = (\<lambda>c. (hasRoleCall_role c, hasRoleCall_account c))\<rparr>"

record initializeCall =
  initializeCall_admin :: address
  initializeCall_validators :: "address list"
  initializeCall_adversarialResilience :: u64
  initializeCall_version :: u256
  initializeCall_merkleRoot :: hash

definition initializeCall_of_tuple :: "address \<times> address list \<times> u64 \<times> u256 \<times> hash \<Rightarrow> initializeCall" where
  "initializeCall_of_tuple = (\<lambda>(t0, t1, t2, t3, t4).
     \<lparr>initializeCall_admin = t0, initializeCall_validators = t1,
      initializeCall_adversarialResilience = t2, initializeCall_version = t3,
      initializeCall_merkleRoot = t4\<rparr>)"

definition initializeCall_impl :: "(initializeCall, address \<times> address list \<times> u64 \<times> u256 \<times> hash) sol_impl" where
  "initializeCall_impl =
     \<lparr>si_signature = ''initialize(address,address[],uint64,uint256,bytes32)'',
      si_selector = [139, 90, 161, 15],
      si_new = initializeCall_of_tuple,
      si_tokenize = (\<lambda>c. (initializeCall_admin c, initializeCall_validators c,
              initializeCall_adversarialResilience c, initializeCall_version c,
              initializeCall_merkleRoot c))\<rparr>"

definition merkleRootCall_impl :: "(unit, unit) sol_impl" where
  "merkleRootCall_impl =
     \<lparr>si_signature = ''merkleRoot()'',
      si_selector = [46, 180, 167, 171],
      si_new = (\<lambda>_. ()),
      si_tokenize = (\<lambda>_. ())\<rparr>"

record migrateCall =
  migrateCall_newContract :: address

definition migrateCall_of_tuple :: "address \<Rightarrow> migrateCall" where
  "migrateCall_of_tuple = (\<lambda>t0.
     \<lparr>migrateCall_newContract = t0\<rparr>)"

definition migrateCall_impl :: "(migrateCall, address) sol_impl" where
  "migrateCall_impl =
     \<lparr>si_signature = ''migrate(address)'',
      si_selector = [206, 84, 148, 187],
      si_new = migrateCall_of_tuple,
      si_tokenize = migrateCall_newContract\<rparr>"

definition migratedContractCall_impl :: "(unit, unit) sol_impl" where
  "migratedContractCall_impl =
     \<lparr>si_signature = ''migratedContract()'',
      si_selector = [116, 134, 250, 78],
      si_new = (\<lambda>_. ()),
      si_tokenize = (\<lambda>_. ())\<rparr>"

record processedRequestsCall =
  processedRequestsCall_arg0 :: hash

definition processedRequestsCall_of_tuple :: "hash \<Rightarrow> processedRequestsCall" where
  "processedRequestsCall_of_tuple = (\<lambda>t0.
     \<lparr>processedRequestsCall_arg0 = t0\<rparr>)"

definition processedRequestsCall_impl :: "(processedRequestsCall, hash) sol_impl" where
  "processedRequestsCall_impl =
     \<lparr>si_signature = ''processedRequests(bytes32)'',
      si_selector = [206, 15, 165, 169],
      si_new = processedRequestsCall_of_tuple,
      si_tokenize = processedRequestsCall_arg0\<rparr>"

record renounceRoleCall =
  renounceRoleCall_role :: hash
  renounceRoleCall_callerConfirmation :: address

definition renounceRoleCall_of_tuple :: "hash \<times> address \<Rightarrow> renounceRoleCall" where
  "renounceRoleCall_of_tuple = (\<lambda>(t0, t1).
     \<lparr>renounceRoleCall_role = t0, renounceRoleCall_callerConfirmation = t1\<rparr>)"

definition renounceRoleCall_impl :: "(renounceRoleCall, hash \<times> address) sol_impl" where
  "renounceRoleCall_impl =
     \<lparr>si_signature = ''renounceRole(bytes32,address)'',
      si_selector = [54, 86, 138, 190],
      si_new = renounceRoleCall_of_tuple,
      si_tokenize = (\<lambda>c. (renounceRoleCall_role c, renounceRoleCall_callerConfirmation c))\<rparr>"

record revokeRoleCall =
  revokeRoleCall_role :: hash
  revokeRoleCall_account :: address

definition revokeRoleCall_of_tuple :: "hash \<times> address \<Rightarrow> revokeRoleCall" where
  "revokeRoleCall_of_tuple = (\<lambda>(t0, t1).
     \<lparr>revokeRoleCall_role = t0, revokeRoleCall_account = t1\<rparr>)"

definition revokeRoleCall_impl :: "(revokeRoleCall, hash \<times> address) sol_impl" where
  "revokeRoleCall_impl =
     \<lparr>si_signature = ''revokeRole(bytes32,address)'',
      si_selector = [213, 71, 116, 31],
      si_new = revokeRoleCall_of_tuple,
      si_tokenize = (\<lambda>c. (revokeRoleCall_role c, revokeRoleCall_account c))\<rparr>"

record setCallContractWhitelistCall =
  setCallContractWhitelistCall_callContract :: address
  setCallContractWhitelistCall_whitelisted :: bool

definition setCallContractWhitelistCall_of_tuple :: "address \<times> bool \<Rightarrow> setCallContractWhitelistCall" where
  "setCallContractWhitelistCall_of_tuple = (\<lambda>(t0, t1).
     \<lparr>setCallContractWhitelistCall_callContract = t0, setCallContractWhitelistCall_whitelisted = t1\<rparr>)"

definition setCallContractWhitelistCall_impl :: "(setCallContractWhitelistCall, address \<times> bool) sol_impl" where
  "setCallContractWhitelistCall_impl =
     \<lparr>si_signature = ''setCallContractWhitelist(address,bool)'',
      si_selector = [5, 106, 208, 59],
      si_new = setCallContractWhitelistCall_of_tuple,
      si_tokenize = (\<lambda>c. (setCallContractWhitelistCall_callContract c, setCallContractWhitelistCall_whitelisted c))\<rparr>"

record setStateCall =
  setStateCall_newState :: byte

definition setStateCall_of_tuple :: "byte \<Rightarrow> setStateCall" where
  "setStateCall_of_tuple = (\<lambda>t0.
     \<lparr>setStateCall_newState = t0\<rparr>)"

definition setStateCall_impl :: "(setStateCall, byte) sol_impl" where
  "setStateCall_impl =
     \<lparr>si_signature = ''setState(uint8)'',
      si_selector = [86, 222, 150, 219],
      si_new = setStateCall_of_tuple,
      si_tokenize = setStateCall_newState\<rparr>"

record supportsInterfaceCall =
  supportsInterfaceCall_interfaceId :: bytes4

definition supportsInterfaceCall_of_tuple :: "bytes4 \<Rightarrow> supportsInterfaceCall" where
  "supportsInterfaceCall_of_tuple = (\<lambda>t0.
     \<lparr>supportsInterfaceCall_interfaceId = t0\<rparr>)"

definition supportsInterfaceCall_impl :: "(supportsInterfaceCall, bytes4) sol_impl" where
  "supportsInterfaceCall_impl =
     \<lparr>si_signature = ''supportsInterface(bytes4)'',
      si_selector = [1, 255, 201, 167],
      si_new = supportsInterfaceCall_of_tuple,
      si_tokenize = supportsInterfaceCall_interfaceId\<rparr>"

record tokenDataCall =
  tokenDataCall_arg0 :: address

definition tokenDataCall_of_tuple :: "address \<Rightarrow> tokenDataCall" where
  "tokenDataCall_of_tuple = (\<lambda>t0.
     \<lparr>tokenDataCall_arg0 = t0\<rparr>)"

definition tokenDataCall_impl :: "(tokenDataCall, address) sol_impl" where
  "tokenDataCall_impl =
     \<lparr>si_signature = ''tokenData(address)'',
      si_selector = [39, 228, 92, 44],
      si_new = tokenDataCall_of_tuple,
      si_tokenize = tokenDataCall_arg0\<rparr>"

record transferTokensToMigratedCall =
  transferTokensToMigratedCall_tokens :: "address list"

definition transferTokensToMigratedCall_of_tuple :: "address list \<Rightarrow> transferTokensToMigratedCall" where
  "transferTokensToMigratedCall_of_tuple = (\<lambda>t0.
     \<lparr>transferTokensToMigratedCall_tokens = t0\<rparr>)"

definition transferTokensToMigratedCall_impl :: "(transferTokensToMigratedCall, address list) sol_impl" where
  "transferTokensToMigratedCall_impl =
     \<lparr>si_signature = ''transferTokensToMigrated(address[])'',
      si_selector = [193, 218, 3, 89],
      si_new = transferTokensToMigratedCall_of_tuple,
      si_tokenize = transferTokensToMigratedCall_tokens\<rparr>"

record updateValidatorConfigCall =
  updateValidatorConfigCall_newResilience :: u64
  updateValidatorConfigCall_newVersion :: u256
  updateValidatorConfigCall_newMerkleRoot :: hash
  updateValidatorConfigCall_addValidators :: "address list"
  updateValidatorConfigCall_removeValidators :: "address list"

definition updateValidatorConfigCall_of_tuple :: "u64 \<times> u256 \<times> hash \<times> address list \<times> address list \<Rightarrow> updateValidatorConfigCall" where
  "updateValidatorConfigCall_of_tuple = (\<lambda>(t0, t1, t2, t3, t4).
     \<lparr>updateValidatorConfigCall_newResilience = t0, updateValidatorConfigCall_newVersion = t1,
      updateValidatorConfigCall_newMerkleRoot = t2, updateValidatorConfigCall_addValidators = t3,
      updateValidatorConfigCall_removeValidators = t4\<rparr>)"

definition updateValidatorConfigCall_impl :: "(updateValidatorConfigCall, u64 \<times> u256 \<times> hash \<times> address list \<times> address list) sol_impl" where
  "updateValidatorConfigCall_impl =
     \<lparr>si_signature = ''updateValidatorConfig(uint64,uint256,bytes32,address[],address[])'',
      si_selector = [201, 236, 93, 35],
      si_new = updateValidatorConfigCall_of_tuple,
      si_tokenize = (\<lambda>c. (updateValidatorConfigCall_newResilience c, updateValidatorConfigCall_newVersion c,
              updateValidatorConfigCall_newMerkleRoot c, updateValidatorConfigCall_addValidators c,
              updateValidatorConfigCall_removeValidators c))\<rparr>"

definition validatorCountCall_impl :: "(unit, unit) sol_impl" where
  "validatorCountCall_impl =
     \<lparr>si_signature = ''validatorCount()'',
      si_selector = [15, 67, 166, 119],
      si_new = (\<lambda>_. ()),
      si_tokenize = (\<lambda>_. ())\<rparr>"

definition versionCall_impl :: "(unit, unit) sol_impl" where
  "versionCall_impl =
     \<lparr>si_signature = ''version()'',
      si_selector = [84, 253, 77, 80],
      si_new = (\<lambda>_. ()),
      si_tokenize = (\<lambda>_. ())\<rparr>"

record whiteListTokenCall =
  whiteListTokenCall_token :: address
  whiteListTokenCall_mirrorToken :: address
  whiteListTokenCall_minAmount :: u256
  whiteListTokenCall_depositLimit :: u256
  whiteListTokenCall_claimLimit :: u256

definition whiteListTokenCall_of_tuple :: "address \<times> address \<times> u256 \<times> u256 \<times> u256 \<Rightarrow> whiteListTokenCall" where
  "whiteListTokenCall_of_tuple = (\<lambda>(t0, t1, t2, t3, t4).
     \<lparr>whiteListTokenCall_token = t0, whiteListTokenCall_mirrorToken = t1,
      whiteListTokenCall_minAmount = t2, whiteListTokenCall_depositLimit = t3,
      whiteListTokenCall_claimLimit = t4\<rparr>)"

definition whiteListTokenCall_impl :: "(whiteListTokenCall, address \<times> address \<times> u256 \<times> u256 \<times> u256) sol_impl" where
  "whiteListTokenCall_impl =
     \<lparr>si_signature = ''whiteListToken(address,address,uint256,uint256,uint256)'',
      si_selector = [185, 170, 124, 19],
      si_new = whiteListTokenCall_of_tuple,
      si_tokenize = (\<lambda>c. (whiteListTokenCall_token c, whiteListTokenCall_mirrorToken c,
              whiteListTokenCall_minAmount c, whiteListTokenCall_depositLimit c,
              whiteListTokenCall_claimLimit c))\<rparr>"

record whitelistedCallContractsCall =
  whitelistedCallContractsCall_arg0 :: address

definition whitelistedCallContractsCall_of_tuple :: "address \<Rightarrow> whitelistedCallContractsCall" where
  "whitelistedCallContractsCall_of_tuple = (\<lambda>t0.
     \<lparr>whitelistedCallContractsCall_arg0 = t0\<rparr>)"

definition whitelistedCallContractsCall_impl :: "(whitelistedCallContractsCall, address) sol_impl" where
  "whitelistedCallContractsCall_impl =
     \<lparr>si_signature = ''whitelistedCallContracts(address)'',
      si_selector = [91, 66, 224, 107],
      si_new = whitelistedCallContractsCall_of_tuple,
      si_tokenize = whitelistedCallContractsCall_arg0\<rparr>"

datatype (plugins only: code) BridgeCalls =
    BRIDGE_CONTRACT_call
  | CHAIN_ID_call
  | DEFAULT_ADMIN_ROLE_call
  | PAUSER_ROLE_call
  | RELAYER_ROLE_call
  | activeValidators_call activeValidatorsCall
  | adversarialResilience_call
  | batchClaim_call batchClaimCall
  | batchDeposit_call batchDepositCall
  | claim_call claimCall
  | configureToken_call configureTokenCall
  | contractState_call
  | deposit_call depositCall
  | depositIndex_call
  | domainSeparator_call
  | getRoleAdmin_call getRoleAdminCall
  | grantRole_call grantRoleCall
  | hasRole_call hasRoleCall
  | initialize_call initializeCall
  | merkleRoot_call
  | migrate_call migrateCall
  | migratedContract_call
  | processedRequests_call processedRequestsCall
  | renounceRole_call renounceRoleCall
  | revokeRole_call revokeRoleCall
  | setCallContractWhitelist_call setCallContractWhitelistCall
  | setState_call setStateCall
  | supportsInterface_call supportsInterfaceCall
  | tokenData_call tokenDataCall
  | transferTokensToMigrated_call transferTokensToMigratedCall
  | updateValidatorConfig_call updateValidatorConfigCall
  | validatorCount_call
  | version_call
  | whiteListToken_call whiteListTokenCall
  | whitelistedCallContracts_call whitelistedCallContractsCall

text \<open>The tables in the order of the selectors.\<close>

definition bridge_call_selectors :: "bytes list" where
  "bridge_call_selectors =
     [[1, 255, 201, 167], [5, 106, 208, 59], [15, 67, 166, 119], [26, 104, 80, 219], [35, 218, 118, 69],
      [36, 138, 156, 163], [39, 228, 92, 44], [46, 180, 167, 171], [47, 47, 241, 93],
      [54, 86, 138, 190], [62, 9, 225, 126], [84, 253, 77, 80], [86, 222, 150, 219], [91, 66, 224, 107],
      [112, 160, 247, 99], [116, 134, 250, 78], [123, 137, 137, 57], [133, 32, 158, 224],
      [133, 225, 244, 208], [139, 90, 161, 15], [142, 70, 180, 168], [142, 94, 195, 153],
      [143, 201, 178, 4], [145, 209, 72, 84], [146, 109, 125, 127], [162, 23, 253, 223],
      [185, 170, 124, 19], [186, 38, 230, 18], [193, 218, 3, 89], [201, 236, 93, 35],
      [206, 15, 165, 169], [206, 84, 148, 187], [213, 71, 116, 31], [230, 58, 177, 233],
      [246, 152, 218, 37]]"

definition bridge_call_variant_names :: "string list" where
  "bridge_call_variant_names =
     [''supportsInterface'', ''setCallContractWhitelist'', ''validatorCount'', ''deposit'',
      ''batchClaim'', ''getRoleAdmin'', ''tokenData'', ''merkleRoot'', ''grantRole'', ''renounceRole'',
      ''batchDeposit'', ''version'', ''setState'', ''whitelistedCallContracts'',
      ''adversarialResilience'', ''migratedContract'', ''depositIndex'', ''contractState'',
      ''CHAIN_ID'', ''initialize'', ''claim'', ''configureToken'', ''BRIDGE_CONTRACT'', ''hasRole'',
      ''RELAYER_ROLE'', ''DEFAULT_ADMIN_ROLE'', ''whiteListToken'', ''activeValidators'',
      ''transferTokensToMigrated'', ''updateValidatorConfig'', ''processedRequests'', ''migrate'',
      ''revokeRole'', ''PAUSER_ROLE'', ''domainSeparator'']"

definition bridge_call_signatures :: "string list" where
  "bridge_call_signatures =
     [si_signature supportsInterfaceCall_impl, si_signature setCallContractWhitelistCall_impl,
      si_signature validatorCountCall_impl, si_signature depositCall_impl,
      si_signature batchClaimCall_impl, si_signature getRoleAdminCall_impl,
      si_signature tokenDataCall_impl, si_signature merkleRootCall_impl,
      si_signature grantRoleCall_impl, si_signature renounceRoleCall_impl,
      si_signature batchDepositCall_impl, si_signature versionCall_impl, si_signature setStateCall_impl,
      si_signature whitelistedCallContractsCall_impl, si_signature adversarialResilienceCall_impl,
      si_signature migratedContractCall_impl, si_signature depositIndexCall_impl,
      si_signature contractStateCall_impl, si_signature CHAIN_IDCall_impl,
      si_signature initializeCall_impl, si_signature claimCall_impl,
      si_signature configureTokenCall_impl, si_signature BRIDGE_CONTRACTCall_impl,
      si_signature hasRoleCall_impl, si_signature RELAYER_ROLECall_impl,
      si_signature DEFAULT_ADMIN_ROLECall_impl, si_signature whiteListTokenCall_impl,
      si_signature activeValidatorsCall_impl, si_signature transferTokensToMigratedCall_impl,
      si_signature updateValidatorConfigCall_impl, si_signature processedRequestsCall_impl,
      si_signature migrateCall_impl, si_signature revokeRoleCall_impl,
      si_signature PAUSER_ROLECall_impl, si_signature domainSeparatorCall_impl]"

definition bridge_call_signature_by_selector :: "bytes \<Rightarrow> string option run" where
  "bridge_call_signature_by_selector sel = table_row bridge_call_selectors bridge_call_signatures sel"

definition bridge_call_name_by_selector :: "bytes \<Rightarrow> string option run" where
  "bridge_call_name_by_selector sel = map_ok name_of_signature (bridge_call_signature_by_selector sel)"

text \<open>The crate's codecs; the structs without fields share one.\<close>

record 'x bridge_call_codecs =
  unit_bridge_call_abi :: "(unit, 'x) sol_call"
  activeValidatorsCall_abi :: "(activeValidatorsCall, 'x) sol_call"
  batchClaimCall_abi :: "(batchClaimCall, 'x) sol_call"
  batchDepositCall_abi :: "(batchDepositCall, 'x) sol_call"
  claimCall_abi :: "(claimCall, 'x) sol_call"
  configureTokenCall_abi :: "(configureTokenCall, 'x) sol_call"
  depositCall_abi :: "(depositCall, 'x) sol_call"
  getRoleAdminCall_abi :: "(getRoleAdminCall, 'x) sol_call"
  grantRoleCall_abi :: "(grantRoleCall, 'x) sol_call"
  hasRoleCall_abi :: "(hasRoleCall, 'x) sol_call"
  initializeCall_abi :: "(initializeCall, 'x) sol_call"
  migrateCall_abi :: "(migrateCall, 'x) sol_call"
  processedRequestsCall_abi :: "(processedRequestsCall, 'x) sol_call"
  renounceRoleCall_abi :: "(renounceRoleCall, 'x) sol_call"
  revokeRoleCall_abi :: "(revokeRoleCall, 'x) sol_call"
  setCallContractWhitelistCall_abi :: "(setCallContractWhitelistCall, 'x) sol_call"
  setStateCall_abi :: "(setStateCall, 'x) sol_call"
  supportsInterfaceCall_abi :: "(supportsInterfaceCall, 'x) sol_call"
  tokenDataCall_abi :: "(tokenDataCall, 'x) sol_call"
  transferTokensToMigratedCall_abi :: "(transferTokensToMigratedCall, 'x) sol_call"
  updateValidatorConfigCall_abi :: "(updateValidatorConfigCall, 'x) sol_call"
  whiteListTokenCall_abi :: "(whiteListTokenCall, 'x) sol_call"
  whitelistedCallContractsCall_abi :: "(whitelistedCallContractsCall, 'x) sol_call"

primrec bridge_call_selector :: "BridgeCalls \<Rightarrow> bytes" where
  "bridge_call_selector BRIDGE_CONTRACT_call = si_selector BRIDGE_CONTRACTCall_impl"
| "bridge_call_selector CHAIN_ID_call = si_selector CHAIN_IDCall_impl"
| "bridge_call_selector DEFAULT_ADMIN_ROLE_call = si_selector DEFAULT_ADMIN_ROLECall_impl"
| "bridge_call_selector PAUSER_ROLE_call = si_selector PAUSER_ROLECall_impl"
| "bridge_call_selector RELAYER_ROLE_call = si_selector RELAYER_ROLECall_impl"
| "bridge_call_selector (activeValidators_call c) = si_selector activeValidatorsCall_impl"
| "bridge_call_selector adversarialResilience_call = si_selector adversarialResilienceCall_impl"
| "bridge_call_selector (batchClaim_call c) = si_selector batchClaimCall_impl"
| "bridge_call_selector (batchDeposit_call c) = si_selector batchDepositCall_impl"
| "bridge_call_selector (claim_call c) = si_selector claimCall_impl"
| "bridge_call_selector (configureToken_call c) = si_selector configureTokenCall_impl"
| "bridge_call_selector contractState_call = si_selector contractStateCall_impl"
| "bridge_call_selector (deposit_call c) = si_selector depositCall_impl"
| "bridge_call_selector depositIndex_call = si_selector depositIndexCall_impl"
| "bridge_call_selector domainSeparator_call = si_selector domainSeparatorCall_impl"
| "bridge_call_selector (getRoleAdmin_call c) = si_selector getRoleAdminCall_impl"
| "bridge_call_selector (grantRole_call c) = si_selector grantRoleCall_impl"
| "bridge_call_selector (hasRole_call c) = si_selector hasRoleCall_impl"
| "bridge_call_selector (initialize_call c) = si_selector initializeCall_impl"
| "bridge_call_selector merkleRoot_call = si_selector merkleRootCall_impl"
| "bridge_call_selector (migrate_call c) = si_selector migrateCall_impl"
| "bridge_call_selector migratedContract_call = si_selector migratedContractCall_impl"
| "bridge_call_selector (processedRequests_call c) = si_selector processedRequestsCall_impl"
| "bridge_call_selector (renounceRole_call c) = si_selector renounceRoleCall_impl"
| "bridge_call_selector (revokeRole_call c) = si_selector revokeRoleCall_impl"
| "bridge_call_selector (setCallContractWhitelist_call c) = si_selector setCallContractWhitelistCall_impl"
| "bridge_call_selector (setState_call c) = si_selector setStateCall_impl"
| "bridge_call_selector (supportsInterface_call c) = si_selector supportsInterfaceCall_impl"
| "bridge_call_selector (tokenData_call c) = si_selector tokenDataCall_impl"
| "bridge_call_selector (transferTokensToMigrated_call c) = si_selector transferTokensToMigratedCall_impl"
| "bridge_call_selector (updateValidatorConfig_call c) = si_selector updateValidatorConfigCall_impl"
| "bridge_call_selector validatorCount_call = si_selector validatorCountCall_impl"
| "bridge_call_selector version_call = si_selector versionCall_impl"
| "bridge_call_selector (whiteListToken_call c) = si_selector whiteListTokenCall_impl"
| "bridge_call_selector (whitelistedCallContracts_call c) = si_selector whitelistedCallContractsCall_impl"

definition bridge_call_selector_at :: "nat \<Rightarrow> bytes option" where
  "bridge_call_selector_at i = (if i < length bridge_call_selectors then Some (bridge_call_selectors ! i) else None)"

definition bridge_call_valid_selector :: "bytes \<Rightarrow> bool" where
  "bridge_call_valid_selector sel \<longleftrightarrow> binary_search bridge_call_selectors sel \<noteq> None"

definition bridge_call_decode_shims :: "'x bridge_call_codecs \<Rightarrow> (bytes \<Rightarrow> 'x sol_error + BridgeCalls) list" where
  "bridge_call_decode_shims A =
     [decode_shim supportsInterface_call (supportsInterfaceCall_abi A),
      decode_shim setCallContractWhitelist_call (setCallContractWhitelistCall_abi A),
      decode_shim (\<lambda>_. validatorCount_call) (unit_bridge_call_abi A),
      decode_shim deposit_call (depositCall_abi A), decode_shim batchClaim_call (batchClaimCall_abi A),
      decode_shim getRoleAdmin_call (getRoleAdminCall_abi A),
      decode_shim tokenData_call (tokenDataCall_abi A),
      decode_shim (\<lambda>_. merkleRoot_call) (unit_bridge_call_abi A),
      decode_shim grantRole_call (grantRoleCall_abi A),
      decode_shim renounceRole_call (renounceRoleCall_abi A),
      decode_shim batchDeposit_call (batchDepositCall_abi A),
      decode_shim (\<lambda>_. version_call) (unit_bridge_call_abi A),
      decode_shim setState_call (setStateCall_abi A),
      decode_shim whitelistedCallContracts_call (whitelistedCallContractsCall_abi A),
      decode_shim (\<lambda>_. adversarialResilience_call) (unit_bridge_call_abi A),
      decode_shim (\<lambda>_. migratedContract_call) (unit_bridge_call_abi A),
      decode_shim (\<lambda>_. depositIndex_call) (unit_bridge_call_abi A),
      decode_shim (\<lambda>_. contractState_call) (unit_bridge_call_abi A),
      decode_shim (\<lambda>_. CHAIN_ID_call) (unit_bridge_call_abi A),
      decode_shim initialize_call (initializeCall_abi A), decode_shim claim_call (claimCall_abi A),
      decode_shim configureToken_call (configureTokenCall_abi A),
      decode_shim (\<lambda>_. BRIDGE_CONTRACT_call) (unit_bridge_call_abi A),
      decode_shim hasRole_call (hasRoleCall_abi A),
      decode_shim (\<lambda>_. RELAYER_ROLE_call) (unit_bridge_call_abi A),
      decode_shim (\<lambda>_. DEFAULT_ADMIN_ROLE_call) (unit_bridge_call_abi A),
      decode_shim whiteListToken_call (whiteListTokenCall_abi A),
      decode_shim activeValidators_call (activeValidatorsCall_abi A),
      decode_shim transferTokensToMigrated_call (transferTokensToMigratedCall_abi A),
      decode_shim updateValidatorConfig_call (updateValidatorConfigCall_abi A),
      decode_shim processedRequests_call (processedRequestsCall_abi A),
      decode_shim migrate_call (migrateCall_abi A), decode_shim revokeRole_call (revokeRoleCall_abi A),
      decode_shim (\<lambda>_. PAUSER_ROLE_call) (unit_bridge_call_abi A),
      decode_shim (\<lambda>_. domainSeparator_call) (unit_bridge_call_abi A)]"

definition bridge_call_decode_raw :: "'x bridge_call_codecs \<Rightarrow> bytes \<Rightarrow> bytes \<Rightarrow> ('x sol_error + BridgeCalls) run" where
  "bridge_call_decode_raw A sel data =
     dispatch_call ''BridgeCalls'' bridge_call_selectors (bridge_call_decode_shims A) sel data"

definition bridge_call_decode_validate_shims :: "'x bridge_call_codecs \<Rightarrow> (bytes \<Rightarrow> 'x sol_error + BridgeCalls) list" where
  "bridge_call_decode_validate_shims A =
     [decode_validate_shim supportsInterface_call (supportsInterfaceCall_abi A),
      decode_validate_shim setCallContractWhitelist_call (setCallContractWhitelistCall_abi A),
      decode_validate_shim (\<lambda>_. validatorCount_call) (unit_bridge_call_abi A),
      decode_validate_shim deposit_call (depositCall_abi A),
      decode_validate_shim batchClaim_call (batchClaimCall_abi A),
      decode_validate_shim getRoleAdmin_call (getRoleAdminCall_abi A),
      decode_validate_shim tokenData_call (tokenDataCall_abi A),
      decode_validate_shim (\<lambda>_. merkleRoot_call) (unit_bridge_call_abi A),
      decode_validate_shim grantRole_call (grantRoleCall_abi A),
      decode_validate_shim renounceRole_call (renounceRoleCall_abi A),
      decode_validate_shim batchDeposit_call (batchDepositCall_abi A),
      decode_validate_shim (\<lambda>_. version_call) (unit_bridge_call_abi A),
      decode_validate_shim setState_call (setStateCall_abi A),
      decode_validate_shim whitelistedCallContracts_call (whitelistedCallContractsCall_abi A),
      decode_validate_shim (\<lambda>_. adversarialResilience_call) (unit_bridge_call_abi A),
      decode_validate_shim (\<lambda>_. migratedContract_call) (unit_bridge_call_abi A),
      decode_validate_shim (\<lambda>_. depositIndex_call) (unit_bridge_call_abi A),
      decode_validate_shim (\<lambda>_. contractState_call) (unit_bridge_call_abi A),
      decode_validate_shim (\<lambda>_. CHAIN_ID_call) (unit_bridge_call_abi A),
      decode_validate_shim initialize_call (initializeCall_abi A),
      decode_validate_shim claim_call (claimCall_abi A),
      decode_validate_shim configureToken_call (configureTokenCall_abi A),
      decode_validate_shim (\<lambda>_. BRIDGE_CONTRACT_call) (unit_bridge_call_abi A),
      decode_validate_shim hasRole_call (hasRoleCall_abi A),
      decode_validate_shim (\<lambda>_. RELAYER_ROLE_call) (unit_bridge_call_abi A),
      decode_validate_shim (\<lambda>_. DEFAULT_ADMIN_ROLE_call) (unit_bridge_call_abi A),
      decode_validate_shim whiteListToken_call (whiteListTokenCall_abi A),
      decode_validate_shim activeValidators_call (activeValidatorsCall_abi A),
      decode_validate_shim transferTokensToMigrated_call (transferTokensToMigratedCall_abi A),
      decode_validate_shim updateValidatorConfig_call (updateValidatorConfigCall_abi A),
      decode_validate_shim processedRequests_call (processedRequestsCall_abi A),
      decode_validate_shim migrate_call (migrateCall_abi A),
      decode_validate_shim revokeRole_call (revokeRoleCall_abi A),
      decode_validate_shim (\<lambda>_. PAUSER_ROLE_call) (unit_bridge_call_abi A),
      decode_validate_shim (\<lambda>_. domainSeparator_call) (unit_bridge_call_abi A)]"

definition bridge_call_decode_raw_validate :: "'x bridge_call_codecs \<Rightarrow> bytes \<Rightarrow> bytes \<Rightarrow> ('x sol_error + BridgeCalls) run" where
  "bridge_call_decode_raw_validate A sel data =
     dispatch_call ''BridgeCalls'' bridge_call_selectors (bridge_call_decode_validate_shims A) sel data"

primrec bridge_call_encoded_size :: "'x bridge_call_codecs \<Rightarrow> BridgeCalls \<Rightarrow> nat" where
  "bridge_call_encoded_size A BRIDGE_CONTRACT_call = sc_encoded_size (unit_bridge_call_abi A) ()"
| "bridge_call_encoded_size A CHAIN_ID_call = sc_encoded_size (unit_bridge_call_abi A) ()"
| "bridge_call_encoded_size A DEFAULT_ADMIN_ROLE_call = sc_encoded_size (unit_bridge_call_abi A) ()"
| "bridge_call_encoded_size A PAUSER_ROLE_call = sc_encoded_size (unit_bridge_call_abi A) ()"
| "bridge_call_encoded_size A RELAYER_ROLE_call = sc_encoded_size (unit_bridge_call_abi A) ()"
| "bridge_call_encoded_size A (activeValidators_call c) = sc_encoded_size (activeValidatorsCall_abi A) c"
| "bridge_call_encoded_size A adversarialResilience_call = sc_encoded_size (unit_bridge_call_abi A) ()"
| "bridge_call_encoded_size A (batchClaim_call c) = sc_encoded_size (batchClaimCall_abi A) c"
| "bridge_call_encoded_size A (batchDeposit_call c) = sc_encoded_size (batchDepositCall_abi A) c"
| "bridge_call_encoded_size A (claim_call c) = sc_encoded_size (claimCall_abi A) c"
| "bridge_call_encoded_size A (configureToken_call c) = sc_encoded_size (configureTokenCall_abi A) c"
| "bridge_call_encoded_size A contractState_call = sc_encoded_size (unit_bridge_call_abi A) ()"
| "bridge_call_encoded_size A (deposit_call c) = sc_encoded_size (depositCall_abi A) c"
| "bridge_call_encoded_size A depositIndex_call = sc_encoded_size (unit_bridge_call_abi A) ()"
| "bridge_call_encoded_size A domainSeparator_call = sc_encoded_size (unit_bridge_call_abi A) ()"
| "bridge_call_encoded_size A (getRoleAdmin_call c) = sc_encoded_size (getRoleAdminCall_abi A) c"
| "bridge_call_encoded_size A (grantRole_call c) = sc_encoded_size (grantRoleCall_abi A) c"
| "bridge_call_encoded_size A (hasRole_call c) = sc_encoded_size (hasRoleCall_abi A) c"
| "bridge_call_encoded_size A (initialize_call c) = sc_encoded_size (initializeCall_abi A) c"
| "bridge_call_encoded_size A merkleRoot_call = sc_encoded_size (unit_bridge_call_abi A) ()"
| "bridge_call_encoded_size A (migrate_call c) = sc_encoded_size (migrateCall_abi A) c"
| "bridge_call_encoded_size A migratedContract_call = sc_encoded_size (unit_bridge_call_abi A) ()"
| "bridge_call_encoded_size A (processedRequests_call c) = sc_encoded_size (processedRequestsCall_abi A) c"
| "bridge_call_encoded_size A (renounceRole_call c) = sc_encoded_size (renounceRoleCall_abi A) c"
| "bridge_call_encoded_size A (revokeRole_call c) = sc_encoded_size (revokeRoleCall_abi A) c"
| "bridge_call_encoded_size A (setCallContractWhitelist_call c) = sc_encoded_size (setCallContractWhitelistCall_abi A) c"
| "bridge_call_encoded_size A (setState_call c) = sc_encoded_size (setStateCall_abi A) c"
| "bridge_call_encoded_size A (supportsInterface_call c) = sc_encoded_size (supportsInterfaceCall_abi A) c"
| "bridge_call_encoded_size A (tokenData_call c) = sc_encoded_size (tokenDataCall_abi A) c"
| "bridge_call_encoded_size A (transferTokensToMigrated_call c) = sc_encoded_size (transferTokensToMigratedCall_abi A) c"
| "bridge_call_encoded_size A (updateValidatorConfig_call c) = sc_encoded_size (updateValidatorConfigCall_abi A) c"
| "bridge_call_encoded_size A validatorCount_call = sc_encoded_size (unit_bridge_call_abi A) ()"
| "bridge_call_encoded_size A version_call = sc_encoded_size (unit_bridge_call_abi A) ()"
| "bridge_call_encoded_size A (whiteListToken_call c) = sc_encoded_size (whiteListTokenCall_abi A) c"
| "bridge_call_encoded_size A (whitelistedCallContracts_call c) = sc_encoded_size (whitelistedCallContractsCall_abi A) c"

fun bridge_call_encode_raw :: "'x bridge_call_codecs \<Rightarrow> BridgeCalls \<Rightarrow> bytes \<Rightarrow> bytes" where
  "bridge_call_encode_raw A BRIDGE_CONTRACT_call out = sc_encode_raw (unit_bridge_call_abi A) () out"
| "bridge_call_encode_raw A CHAIN_ID_call out = sc_encode_raw (unit_bridge_call_abi A) () out"
| "bridge_call_encode_raw A DEFAULT_ADMIN_ROLE_call out = sc_encode_raw (unit_bridge_call_abi A) () out"
| "bridge_call_encode_raw A PAUSER_ROLE_call out = sc_encode_raw (unit_bridge_call_abi A) () out"
| "bridge_call_encode_raw A RELAYER_ROLE_call out = sc_encode_raw (unit_bridge_call_abi A) () out"
| "bridge_call_encode_raw A (activeValidators_call c) out = sc_encode_raw (activeValidatorsCall_abi A) c out"
| "bridge_call_encode_raw A adversarialResilience_call out = sc_encode_raw (unit_bridge_call_abi A) () out"
| "bridge_call_encode_raw A (batchClaim_call c) out = sc_encode_raw (batchClaimCall_abi A) c out"
| "bridge_call_encode_raw A (batchDeposit_call c) out = sc_encode_raw (batchDepositCall_abi A) c out"
| "bridge_call_encode_raw A (claim_call c) out = sc_encode_raw (claimCall_abi A) c out"
| "bridge_call_encode_raw A (configureToken_call c) out = sc_encode_raw (configureTokenCall_abi A) c out"
| "bridge_call_encode_raw A contractState_call out = sc_encode_raw (unit_bridge_call_abi A) () out"
| "bridge_call_encode_raw A (deposit_call c) out = sc_encode_raw (depositCall_abi A) c out"
| "bridge_call_encode_raw A depositIndex_call out = sc_encode_raw (unit_bridge_call_abi A) () out"
| "bridge_call_encode_raw A domainSeparator_call out = sc_encode_raw (unit_bridge_call_abi A) () out"
| "bridge_call_encode_raw A (getRoleAdmin_call c) out = sc_encode_raw (getRoleAdminCall_abi A) c out"
| "bridge_call_encode_raw A (grantRole_call c) out = sc_encode_raw (grantRoleCall_abi A) c out"
| "bridge_call_encode_raw A (hasRole_call c) out = sc_encode_raw (hasRoleCall_abi A) c out"
| "bridge_call_encode_raw A (initialize_call c) out = sc_encode_raw (initializeCall_abi A) c out"
| "bridge_call_encode_raw A merkleRoot_call out = sc_encode_raw (unit_bridge_call_abi A) () out"
| "bridge_call_encode_raw A (migrate_call c) out = sc_encode_raw (migrateCall_abi A) c out"
| "bridge_call_encode_raw A migratedContract_call out = sc_encode_raw (unit_bridge_call_abi A) () out"
| "bridge_call_encode_raw A (processedRequests_call c) out = sc_encode_raw (processedRequestsCall_abi A) c out"
| "bridge_call_encode_raw A (renounceRole_call c) out = sc_encode_raw (renounceRoleCall_abi A) c out"
| "bridge_call_encode_raw A (revokeRole_call c) out = sc_encode_raw (revokeRoleCall_abi A) c out"
| "bridge_call_encode_raw A (setCallContractWhitelist_call c) out = sc_encode_raw (setCallContractWhitelistCall_abi A) c out"
| "bridge_call_encode_raw A (setState_call c) out = sc_encode_raw (setStateCall_abi A) c out"
| "bridge_call_encode_raw A (supportsInterface_call c) out = sc_encode_raw (supportsInterfaceCall_abi A) c out"
| "bridge_call_encode_raw A (tokenData_call c) out = sc_encode_raw (tokenDataCall_abi A) c out"
| "bridge_call_encode_raw A (transferTokensToMigrated_call c) out = sc_encode_raw (transferTokensToMigratedCall_abi A) c out"
| "bridge_call_encode_raw A (updateValidatorConfig_call c) out = sc_encode_raw (updateValidatorConfigCall_abi A) c out"
| "bridge_call_encode_raw A validatorCount_call out = sc_encode_raw (unit_bridge_call_abi A) () out"
| "bridge_call_encode_raw A version_call out = sc_encode_raw (unit_bridge_call_abi A) () out"
| "bridge_call_encode_raw A (whiteListToken_call c) out = sc_encode_raw (whiteListTokenCall_abi A) c out"
| "bridge_call_encode_raw A (whitelistedCallContracts_call c) out = sc_encode_raw (whitelistedCallContractsCall_abi A) c out"

text \<open>The builders of \<^verbatim>\<open>BridgeInstance\<close>: the call of a method and its arguments.\<close>

definition bridge_activeValidators :: "address \<Rightarrow> BridgeCalls" where
  "bridge_activeValidators x0 =
     activeValidators_call \<lparr>activeValidatorsCall_arg0 = x0\<rparr>"

definition bridge_batchClaim :: "address \<Rightarrow> ClaimParams list \<Rightarrow> BridgeCalls" where
  "bridge_batchClaim token claims =
     batchClaim_call \<lparr>batchClaimCall_token = token, batchClaimCall_claims = claims\<rparr>"

definition bridge_batchDeposit :: "address \<Rightarrow> DepositParams list \<Rightarrow> PermitParams list \<Rightarrow> address \<Rightarrow> u256 \<Rightarrow> BridgeCalls" where
  "bridge_batchDeposit token deposits permits callContract reserveBalance =
     batchDeposit_call \<lparr>batchDepositCall_token = token, batchDepositCall_deposits = deposits,
        batchDepositCall_permits = permits, batchDepositCall_callContract = callContract,
        batchDepositCall_reserveBalance = reserveBalance\<rparr>"

definition bridge_claim :: "address \<Rightarrow> u256 \<Rightarrow> address \<Rightarrow> bytes \<Rightarrow> bytes \<Rightarrow> BridgeCalls" where
  "bridge_claim token amount to xproof auxTxSuffix =
     claim_call \<lparr>claimCall_token = token, claimCall_amount = amount, claimCall_to = to, claimCall_proof = xproof,
        claimCall_auxTxSuffix = auxTxSuffix\<rparr>"

definition bridge_configureToken :: "address \<Rightarrow> u256 \<Rightarrow> u256 \<Rightarrow> u256 \<Rightarrow> BridgeCalls" where
  "bridge_configureToken token minAmount depositLimit claimLimit =
     configureToken_call \<lparr>configureTokenCall_token = token, configureTokenCall_minAmount = minAmount,
        configureTokenCall_depositLimit = depositLimit, configureTokenCall_claimLimit = claimLimit\<rparr>"

definition bridge_deposit :: "address \<Rightarrow> u256 \<Rightarrow> address \<Rightarrow> address \<Rightarrow> u256 \<Rightarrow> bytes \<Rightarrow> BridgeCalls" where
  "bridge_deposit token amount to callContract reserveBalance permit =
     deposit_call \<lparr>depositCall_token = token, depositCall_amount = amount, depositCall_to = to,
        depositCall_callContract = callContract, depositCall_reserveBalance = reserveBalance,
        depositCall_permit = permit\<rparr>"

definition bridge_getRoleAdmin :: "hash \<Rightarrow> BridgeCalls" where
  "bridge_getRoleAdmin role =
     getRoleAdmin_call \<lparr>getRoleAdminCall_role = role\<rparr>"

definition bridge_grantRole :: "hash \<Rightarrow> address \<Rightarrow> BridgeCalls" where
  "bridge_grantRole role account =
     grantRole_call \<lparr>grantRoleCall_role = role, grantRoleCall_account = account\<rparr>"

definition bridge_hasRole :: "hash \<Rightarrow> address \<Rightarrow> BridgeCalls" where
  "bridge_hasRole role account =
     hasRole_call \<lparr>hasRoleCall_role = role, hasRoleCall_account = account\<rparr>"

definition bridge_initialize :: "address \<Rightarrow> address list \<Rightarrow> u64 \<Rightarrow> u256 \<Rightarrow> hash \<Rightarrow> BridgeCalls" where
  "bridge_initialize admin0 validators0 adversarialResilience0 version0 merkleRoot0 =
     initialize_call \<lparr>initializeCall_admin = admin0, initializeCall_validators = validators0,
        initializeCall_adversarialResilience = adversarialResilience0,
        initializeCall_version = version0, initializeCall_merkleRoot = merkleRoot0\<rparr>"

definition bridge_migrate :: "address \<Rightarrow> BridgeCalls" where
  "bridge_migrate newContract0 =
     migrate_call \<lparr>migrateCall_newContract = newContract0\<rparr>"

definition bridge_processedRequests :: "hash \<Rightarrow> BridgeCalls" where
  "bridge_processedRequests x0 =
     processedRequests_call \<lparr>processedRequestsCall_arg0 = x0\<rparr>"

definition bridge_renounceRole :: "hash \<Rightarrow> address \<Rightarrow> BridgeCalls" where
  "bridge_renounceRole role callerConfirmation =
     renounceRole_call \<lparr>renounceRoleCall_role = role, renounceRoleCall_callerConfirmation = callerConfirmation\<rparr>"

definition bridge_revokeRole :: "hash \<Rightarrow> address \<Rightarrow> BridgeCalls" where
  "bridge_revokeRole role account =
     revokeRole_call \<lparr>revokeRoleCall_role = role, revokeRoleCall_account = account\<rparr>"

definition bridge_setCallContractWhitelist :: "address \<Rightarrow> bool \<Rightarrow> BridgeCalls" where
  "bridge_setCallContractWhitelist callContract whitelisted =
     setCallContractWhitelist_call \<lparr>setCallContractWhitelistCall_callContract = callContract,
        setCallContractWhitelistCall_whitelisted = whitelisted\<rparr>"

definition bridge_setState :: "byte \<Rightarrow> BridgeCalls" where
  "bridge_setState newState =
     setState_call \<lparr>setStateCall_newState = newState\<rparr>"

definition bridge_supportsInterface :: "bytes4 \<Rightarrow> BridgeCalls" where
  "bridge_supportsInterface interfaceId =
     supportsInterface_call \<lparr>supportsInterfaceCall_interfaceId = interfaceId\<rparr>"

definition bridge_tokenData :: "address \<Rightarrow> BridgeCalls" where
  "bridge_tokenData x0 =
     tokenData_call \<lparr>tokenDataCall_arg0 = x0\<rparr>"

definition bridge_transferTokensToMigrated :: "address list \<Rightarrow> BridgeCalls" where
  "bridge_transferTokensToMigrated tokens =
     transferTokensToMigrated_call \<lparr>transferTokensToMigratedCall_tokens = tokens\<rparr>"

definition bridge_updateValidatorConfig :: "u64 \<Rightarrow> u256 \<Rightarrow> hash \<Rightarrow> address list \<Rightarrow> address list \<Rightarrow> BridgeCalls" where
  "bridge_updateValidatorConfig newResilience newVersion newMerkleRoot addValidators removeValidators =
     updateValidatorConfig_call \<lparr>updateValidatorConfigCall_newResilience = newResilience,
        updateValidatorConfigCall_newVersion = newVersion,
        updateValidatorConfigCall_newMerkleRoot = newMerkleRoot,
        updateValidatorConfigCall_addValidators = addValidators,
        updateValidatorConfigCall_removeValidators = removeValidators\<rparr>"

definition bridge_whiteListToken :: "address \<Rightarrow> address \<Rightarrow> u256 \<Rightarrow> u256 \<Rightarrow> u256 \<Rightarrow> BridgeCalls" where
  "bridge_whiteListToken token mirrorToken minAmount depositLimit claimLimit =
     whiteListToken_call \<lparr>whiteListTokenCall_token = token, whiteListTokenCall_mirrorToken = mirrorToken,
        whiteListTokenCall_minAmount = minAmount, whiteListTokenCall_depositLimit = depositLimit,
        whiteListTokenCall_claimLimit = claimLimit\<rparr>"

definition bridge_whitelistedCallContracts :: "address \<Rightarrow> BridgeCalls" where
  "bridge_whitelistedCallContracts x0 =
     whitelistedCallContracts_call \<lparr>whitelistedCallContractsCall_arg0 = x0\<rparr>"

section \<open>Dispatch\<close>

lemmas bridge_call_impls =
  BRIDGE_CONTRACTCall_impl_def CHAIN_IDCall_impl_def DEFAULT_ADMIN_ROLECall_impl_def
  PAUSER_ROLECall_impl_def RELAYER_ROLECall_impl_def activeValidatorsCall_impl_def
  adversarialResilienceCall_impl_def batchClaimCall_impl_def batchDepositCall_impl_def
  claimCall_impl_def configureTokenCall_impl_def contractStateCall_impl_def depositCall_impl_def
  depositIndexCall_impl_def domainSeparatorCall_impl_def getRoleAdminCall_impl_def
  grantRoleCall_impl_def hasRoleCall_impl_def initializeCall_impl_def merkleRootCall_impl_def
  migrateCall_impl_def migratedContractCall_impl_def processedRequestsCall_impl_def
  renounceRoleCall_impl_def revokeRoleCall_impl_def setCallContractWhitelistCall_impl_def
  setStateCall_impl_def supportsInterfaceCall_impl_def tokenDataCall_impl_def
  transferTokensToMigratedCall_impl_def updateValidatorConfigCall_impl_def validatorCountCall_impl_def
  versionCall_impl_def whiteListTokenCall_impl_def whitelistedCallContractsCall_impl_def

lemmas bridge_call_froms =
  activeValidatorsCall_of_tuple_def batchClaimCall_of_tuple_def batchDepositCall_of_tuple_def
  claimCall_of_tuple_def configureTokenCall_of_tuple_def depositCall_of_tuple_def
  getRoleAdminCall_of_tuple_def grantRoleCall_of_tuple_def hasRoleCall_of_tuple_def
  initializeCall_of_tuple_def migrateCall_of_tuple_def processedRequestsCall_of_tuple_def
  renounceRoleCall_of_tuple_def revokeRoleCall_of_tuple_def setCallContractWhitelistCall_of_tuple_def
  setStateCall_of_tuple_def supportsInterfaceCall_of_tuple_def tokenDataCall_of_tuple_def
  transferTokensToMigratedCall_of_tuple_def updateValidatorConfigCall_of_tuple_def
  whiteListTokenCall_of_tuple_def whitelistedCallContractsCall_of_tuple_def

lemma bridge_call_new_tokenize:
  "si_new activeValidatorsCall_impl (si_tokenize activeValidatorsCall_impl c0) = c0"
  "si_new batchClaimCall_impl (si_tokenize batchClaimCall_impl c1) = c1"
  "si_new batchDepositCall_impl (si_tokenize batchDepositCall_impl c2) = c2"
  "si_new claimCall_impl (si_tokenize claimCall_impl c3) = c3"
  "si_new configureTokenCall_impl (si_tokenize configureTokenCall_impl c4) = c4"
  "si_new depositCall_impl (si_tokenize depositCall_impl c5) = c5"
  "si_new getRoleAdminCall_impl (si_tokenize getRoleAdminCall_impl c6) = c6"
  "si_new grantRoleCall_impl (si_tokenize grantRoleCall_impl c7) = c7"
  "si_new hasRoleCall_impl (si_tokenize hasRoleCall_impl c8) = c8"
  "si_new initializeCall_impl (si_tokenize initializeCall_impl c9) = c9"
  "si_new migrateCall_impl (si_tokenize migrateCall_impl c10) = c10"
  "si_new processedRequestsCall_impl (si_tokenize processedRequestsCall_impl c11) = c11"
  "si_new renounceRoleCall_impl (si_tokenize renounceRoleCall_impl c12) = c12"
  "si_new revokeRoleCall_impl (si_tokenize revokeRoleCall_impl c13) = c13"
  "si_new setCallContractWhitelistCall_impl (si_tokenize setCallContractWhitelistCall_impl c14) = c14"
  "si_new setStateCall_impl (si_tokenize setStateCall_impl c15) = c15"
  "si_new supportsInterfaceCall_impl (si_tokenize supportsInterfaceCall_impl c16) = c16"
  "si_new tokenDataCall_impl (si_tokenize tokenDataCall_impl c17) = c17"
  "si_new transferTokensToMigratedCall_impl (si_tokenize transferTokensToMigratedCall_impl c18) = c18"
  "si_new updateValidatorConfigCall_impl (si_tokenize updateValidatorConfigCall_impl c19) = c19"
  "si_new whiteListTokenCall_impl (si_tokenize whiteListTokenCall_impl c20) = c20"
  "si_new whitelistedCallContractsCall_impl (si_tokenize whitelistedCallContractsCall_impl c21) = c21"
  by (simp_all add: bridge_call_impls bridge_call_froms)

text \<open>The row of the tables that a variant has.\<close>

primrec bridge_call_row :: "BridgeCalls \<Rightarrow> nat" where
  "bridge_call_row BRIDGE_CONTRACT_call = 22"
| "bridge_call_row CHAIN_ID_call = 18"
| "bridge_call_row DEFAULT_ADMIN_ROLE_call = 25"
| "bridge_call_row PAUSER_ROLE_call = 33"
| "bridge_call_row RELAYER_ROLE_call = 24"
| "bridge_call_row (activeValidators_call c) = 27"
| "bridge_call_row adversarialResilience_call = 14"
| "bridge_call_row (batchClaim_call c) = 4"
| "bridge_call_row (batchDeposit_call c) = 10"
| "bridge_call_row (claim_call c) = 20"
| "bridge_call_row (configureToken_call c) = 21"
| "bridge_call_row contractState_call = 17"
| "bridge_call_row (deposit_call c) = 3"
| "bridge_call_row depositIndex_call = 16"
| "bridge_call_row domainSeparator_call = 34"
| "bridge_call_row (getRoleAdmin_call c) = 5"
| "bridge_call_row (grantRole_call c) = 8"
| "bridge_call_row (hasRole_call c) = 23"
| "bridge_call_row (initialize_call c) = 19"
| "bridge_call_row merkleRoot_call = 7"
| "bridge_call_row (migrate_call c) = 31"
| "bridge_call_row migratedContract_call = 15"
| "bridge_call_row (processedRequests_call c) = 30"
| "bridge_call_row (renounceRole_call c) = 9"
| "bridge_call_row (revokeRole_call c) = 32"
| "bridge_call_row (setCallContractWhitelist_call c) = 1"
| "bridge_call_row (setState_call c) = 12"
| "bridge_call_row (supportsInterface_call c) = 0"
| "bridge_call_row (tokenData_call c) = 6"
| "bridge_call_row (transferTokensToMigrated_call c) = 28"
| "bridge_call_row (updateValidatorConfig_call c) = 29"
| "bridge_call_row validatorCount_call = 2"
| "bridge_call_row version_call = 11"
| "bridge_call_row (whiteListToken_call c) = 26"
| "bridge_call_row (whitelistedCallContracts_call c) = 13"

lemma bridge_call_ascending: "dispatch_table bridge_call_selectors"
  by (rule ascending_table) (simp add: bridge_call_selectors_def)

interpretation bridge_calls: typed_dispatch bridge_call_selectors bridge_call_selector "bridge_call_decode_shims A" for A
  by (intro typed_dispatch.intro typed_dispatch_axioms.intro bridge_call_ascending)
    (simp add: bridge_call_selectors_def bridge_call_decode_shims_def typed_row_shims bridge_call_impls)

interpretation bridge_calls_validate: typed_dispatch bridge_call_selectors bridge_call_selector "bridge_call_decode_validate_shims A" for A
  by (intro typed_dispatch.intro typed_dispatch_axioms.intro bridge_call_ascending)
    (simp add: bridge_call_selectors_def bridge_call_decode_validate_shims_def typed_row_shims bridge_call_impls)

lemma bridge_call_row_selector:
  "bridge_call_row c < length bridge_call_selectors \<and> bridge_call_selectors ! bridge_call_row c = bridge_call_selector c"
  by (cases c) (simp_all add: bridge_call_selectors_def bridge_call_impls)

lemma bridge_call_name:
  "bridge_call_name_by_selector (bridge_call_selector c) = Inr (Some (bridge_call_variant_names ! bridge_call_row c))"
proof -
  have "bridge_call_signature_by_selector (bridge_call_selector c) = Inr (Some (bridge_call_signatures ! bridge_call_row c))"
    using bridge_calls.row_nth [of "bridge_call_row c" bridge_call_signatures] bridge_call_row_selector [of c]
    by (simp add: bridge_call_signature_by_selector_def) (simp add: bridge_call_signatures_def bridge_call_selectors_def)
  moreover have "name_of_signature (Some (bridge_call_signatures ! bridge_call_row c)) = Some (bridge_call_variant_names ! bridge_call_row c)"
    by (cases c) (simp_all add: bridge_call_signatures_def bridge_call_variant_names_def name_of_signature_def split_once_def bridge_call_impls)
  ultimately show ?thesis by (simp add: bridge_call_name_by_selector_def map_ok_def)
qed

text \<open>What is relied on for a value of the enum.\<close>

primrec bridge_call_law :: "'x bridge_call_codecs \<Rightarrow> BridgeCalls \<Rightarrow> bool" where
  "bridge_call_law A BRIDGE_CONTRACT_call \<longleftrightarrow> impl_law BRIDGE_CONTRACTCall_impl (unit_bridge_call_abi A) ()"
| "bridge_call_law A CHAIN_ID_call \<longleftrightarrow> impl_law CHAIN_IDCall_impl (unit_bridge_call_abi A) ()"
| "bridge_call_law A DEFAULT_ADMIN_ROLE_call \<longleftrightarrow> impl_law DEFAULT_ADMIN_ROLECall_impl (unit_bridge_call_abi A) ()"
| "bridge_call_law A PAUSER_ROLE_call \<longleftrightarrow> impl_law PAUSER_ROLECall_impl (unit_bridge_call_abi A) ()"
| "bridge_call_law A RELAYER_ROLE_call \<longleftrightarrow> impl_law RELAYER_ROLECall_impl (unit_bridge_call_abi A) ()"
| "bridge_call_law A (activeValidators_call c) \<longleftrightarrow> impl_law activeValidatorsCall_impl (activeValidatorsCall_abi A) c"
| "bridge_call_law A adversarialResilience_call \<longleftrightarrow> impl_law adversarialResilienceCall_impl (unit_bridge_call_abi A) ()"
| "bridge_call_law A (batchClaim_call c) \<longleftrightarrow> impl_law batchClaimCall_impl (batchClaimCall_abi A) c"
| "bridge_call_law A (batchDeposit_call c) \<longleftrightarrow> impl_law batchDepositCall_impl (batchDepositCall_abi A) c"
| "bridge_call_law A (claim_call c) \<longleftrightarrow> impl_law claimCall_impl (claimCall_abi A) c"
| "bridge_call_law A (configureToken_call c) \<longleftrightarrow> impl_law configureTokenCall_impl (configureTokenCall_abi A) c"
| "bridge_call_law A contractState_call \<longleftrightarrow> impl_law contractStateCall_impl (unit_bridge_call_abi A) ()"
| "bridge_call_law A (deposit_call c) \<longleftrightarrow> impl_law depositCall_impl (depositCall_abi A) c"
| "bridge_call_law A depositIndex_call \<longleftrightarrow> impl_law depositIndexCall_impl (unit_bridge_call_abi A) ()"
| "bridge_call_law A domainSeparator_call \<longleftrightarrow> impl_law domainSeparatorCall_impl (unit_bridge_call_abi A) ()"
| "bridge_call_law A (getRoleAdmin_call c) \<longleftrightarrow> impl_law getRoleAdminCall_impl (getRoleAdminCall_abi A) c"
| "bridge_call_law A (grantRole_call c) \<longleftrightarrow> impl_law grantRoleCall_impl (grantRoleCall_abi A) c"
| "bridge_call_law A (hasRole_call c) \<longleftrightarrow> impl_law hasRoleCall_impl (hasRoleCall_abi A) c"
| "bridge_call_law A (initialize_call c) \<longleftrightarrow> impl_law initializeCall_impl (initializeCall_abi A) c"
| "bridge_call_law A merkleRoot_call \<longleftrightarrow> impl_law merkleRootCall_impl (unit_bridge_call_abi A) ()"
| "bridge_call_law A (migrate_call c) \<longleftrightarrow> impl_law migrateCall_impl (migrateCall_abi A) c"
| "bridge_call_law A migratedContract_call \<longleftrightarrow> impl_law migratedContractCall_impl (unit_bridge_call_abi A) ()"
| "bridge_call_law A (processedRequests_call c) \<longleftrightarrow> impl_law processedRequestsCall_impl (processedRequestsCall_abi A) c"
| "bridge_call_law A (renounceRole_call c) \<longleftrightarrow> impl_law renounceRoleCall_impl (renounceRoleCall_abi A) c"
| "bridge_call_law A (revokeRole_call c) \<longleftrightarrow> impl_law revokeRoleCall_impl (revokeRoleCall_abi A) c"
| "bridge_call_law A (setCallContractWhitelist_call c) \<longleftrightarrow> impl_law setCallContractWhitelistCall_impl (setCallContractWhitelistCall_abi A) c"
| "bridge_call_law A (setState_call c) \<longleftrightarrow> impl_law setStateCall_impl (setStateCall_abi A) c"
| "bridge_call_law A (supportsInterface_call c) \<longleftrightarrow> impl_law supportsInterfaceCall_impl (supportsInterfaceCall_abi A) c"
| "bridge_call_law A (tokenData_call c) \<longleftrightarrow> impl_law tokenDataCall_impl (tokenDataCall_abi A) c"
| "bridge_call_law A (transferTokensToMigrated_call c) \<longleftrightarrow> impl_law transferTokensToMigratedCall_impl (transferTokensToMigratedCall_abi A) c"
| "bridge_call_law A (updateValidatorConfig_call c) \<longleftrightarrow> impl_law updateValidatorConfigCall_impl (updateValidatorConfigCall_abi A) c"
| "bridge_call_law A validatorCount_call \<longleftrightarrow> impl_law validatorCountCall_impl (unit_bridge_call_abi A) ()"
| "bridge_call_law A version_call \<longleftrightarrow> impl_law versionCall_impl (unit_bridge_call_abi A) ()"
| "bridge_call_law A (whiteListToken_call c) \<longleftrightarrow> impl_law whiteListTokenCall_impl (whiteListTokenCall_abi A) c"
| "bridge_call_law A (whitelistedCallContracts_call c) \<longleftrightarrow> impl_law whitelistedCallContractsCall_impl (whitelistedCallContractsCall_abi A) c"

lemma bridge_call_own_shims:
  assumes "bridge_call_law A c"
  shows "\<exists>body. (\<forall>out. bridge_call_encode_raw A c out = out @ body) \<and> length body = bridge_call_encoded_size A c
    \<and> (bridge_call_decode_shims A ! bridge_call_row c) body = Inr c
    \<and> (bridge_call_decode_validate_shims A ! bridge_call_row c) body = Inr c"
  using assms
  by (cases c)
    (auto dest!: impl_law_call simp: bridge_call_new_tokenize call_law_def shim_simps bridge_call_decode_shims_def bridge_call_decode_validate_shims_def)

text \<open>
  C24. Dispatching a call to the bridge on its selector never panics and is right: an unknown
  selector is refused with an error naming it, and a decoded call is of the variant that has
  the selector, although the tables' and the enum's order differ.
\<close>

theorem bridge_call_typed:
  "case bridge_call_decode_raw A sel data of
     Inl p \<Rightarrow> False
   | Inr (Inl e) \<Rightarrow> if bridge_call_valid_selector sel then \<exists>x. e = Codec x else e = UnknownSelector ''BridgeCalls'' sel
   | Inr (Inr call) \<Rightarrow> bridge_call_selector call = sel \<and> bridge_call_valid_selector sel"
  using bridge_calls.dispatch_typed [where A = A and name = "''BridgeCalls''" and sel = sel and data = data] bridge_calls.search_None [of sel]
  by (auto simp: bridge_call_decode_raw_def bridge_call_valid_selector_def split: sum.splits if_splits)

lemma bridge_call_encodes:
  assumes "bridge_call_law A call"
  shows "\<exists>body. bridge_call_encode_raw A call out = out @ body \<and> length body = bridge_call_encoded_size A call
    \<and> bridge_call_decode_raw A (bridge_call_selector call) body = Inr (Inr call)
    \<and> bridge_call_decode_raw_validate A (bridge_call_selector call) body = Inr (Inr call)"
proof -
  have row: "bridge_call_row call < length bridge_call_selectors" "bridge_call_selectors ! bridge_call_row call = bridge_call_selector call"
    using bridge_call_row_selector by blast+
  from bridge_call_own_shims [OF assms] show ?thesis
    unfolding bridge_call_decode_raw_def bridge_call_decode_raw_validate_def
    by (auto simp: bridge_calls.dispatch_at [OF row] bridge_calls_validate.dispatch_at [OF row])
qed

text \<open>
  C35. What is encoded for a call is appended to the output, has the announced size and is
  decoded by both decoders, under the call's selector, as that call with each argument in
  its field; the tables list that selector beside the name its signature has.
\<close>

theorem bridge_call_round_trip:
  assumes "bridge_call_law A call"
  shows "(\<exists>body. bridge_call_encode_raw A call out = out @ body \<and> length body = bridge_call_encoded_size A call
      \<and> bridge_call_decode_raw A (bridge_call_selector call) body = Inr (Inr call)
      \<and> bridge_call_decode_raw_validate A (bridge_call_selector call) body = Inr (Inr call))
    \<and> (\<exists>i. bridge_call_selector_at i = Some (bridge_call_selector call)
      \<and> bridge_call_name_by_selector (bridge_call_selector call) = Inr (Some (bridge_call_variant_names ! i)))"
  using bridge_call_encodes [OF assms] bridge_call_row_selector [of call] bridge_call_name [of call]
  by (auto simp: bridge_call_selector_at_def)

theorem bridge_call_round_trip_witness:
  "\<forall>A. \<exists>body. let A' = A\<lparr>depositCall_abi := provided_methods depositCall_impl (sample_tuple (2, 100, 1, 0, 0, []))\<rparr>
     in bridge_call_encode_raw A' (bridge_deposit 2 100 1 0 0 []) [9] = [9] @ body
       \<and> length body = bridge_call_encoded_size A' (bridge_deposit 2 100 1 0 0 [])
       \<and> bridge_call_decode_raw A' [26, 104, 80, 219] body = Inr (Inr (bridge_deposit 2 100 1 0 0 []))"
proof
  fix A :: "'a bridge_call_codecs"
  let ?A = "A\<lparr>depositCall_abi := provided_methods depositCall_impl (sample_tuple (2, 100, 1, 0, 0, []))\<rparr>"
  have "bridge_call_law ?A (bridge_deposit 2 100 1 0 0 [])"
    using sample_impl_law [of depositCall_impl "\<lparr>depositCall_token = 2, depositCall_amount = 100,
      depositCall_to = 1, depositCall_callContract = 0, depositCall_reserveBalance = 0, depositCall_permit = []\<rparr>"]
    by (simp add: bridge_deposit_def depositCall_impl_def)
  from bridge_call_round_trip [OF this, of "[9]"]
  show "\<exists>body. let A' = ?A in bridge_call_encode_raw A' (bridge_deposit 2 100 1 0 0 []) [9] = [9] @ body
       \<and> length body = bridge_call_encoded_size A' (bridge_deposit 2 100 1 0 0 [])
       \<and> bridge_call_decode_raw A' [26, 104, 80, 219] body = Inr (Inr (bridge_deposit 2 100 1 0 0 []))"
    by (auto simp: bridge_deposit_def depositCall_impl_def Let_def)
qed

end
