(* ===== verification/Bridge_Errors.thy ===== *)
theory Bridge_Errors
  imports Sol_Traits
begin

text \<open>
  The custom errors of \<^verbatim>\<open>protocol/bindings/src/bridge.rs\<close>: what the data of a reverted call
  decodes to.
\<close>

section \<open>The errors\<close>

definition AccessControlBadConfirmation_impl :: "(unit, unit) sol_impl" where
  "AccessControlBadConfirmation_impl =
     \<lparr>si_signature = ''AccessControlBadConfirmation()'',
      si_selector = [102, 151, 178, 50],
      si_new = (\<lambda>_. ()),
      si_tokenize = (\<lambda>_. ())\<rparr>"

record AccessControlUnauthorizedAccount =
  AccessControlUnauthorizedAccount_account :: address
  AccessControlUnauthorizedAccount_neededRole :: hash

definition AccessControlUnauthorizedAccount_of_tuple :: "address \<times> hash \<Rightarrow> AccessControlUnauthorizedAccount" where
  "AccessControlUnauthorizedAccount_of_tuple = (\<lambda>(t0, t1).
     \<lparr>AccessControlUnauthorizedAccount_account = t0, AccessControlUnauthorizedAccount_neededRole = t1\<rparr>)"

definition AccessControlUnauthorizedAccount_impl :: "(AccessControlUnauthorizedAccount, address \<times> hash) sol_impl" where
  "AccessControlUnauthorizedAccount_impl =
     \<lparr>si_signature = ''AccessControlUnauthorizedAccount(address,bytes32)'',
      si_selector = [226, 81, 125, 63],
      si_new = AccessControlUnauthorizedAccount_of_tuple,
      si_tokenize = (\<lambda>c. (AccessControlUnauthorizedAccount_account c, AccessControlUnauthorizedAccount_neededRole c))\<rparr>"

definition AmountBelowReserve_impl :: "(unit, unit) sol_impl" where
  "AmountBelowReserve_impl =
     \<lparr>si_signature = ''AmountBelowReserve()'',
      si_selector = [32, 130, 98, 29],
      si_new = (\<lambda>_. ()),
      si_tokenize = (\<lambda>_. ())\<rparr>"

definition CallContractNotWhitelisted_impl :: "(unit, unit) sol_impl" where
  "CallContractNotWhitelisted_impl =
     \<lparr>si_signature = ''CallContractNotWhitelisted()'',
      si_selector = [102, 0, 86, 248],
      si_new = (\<lambda>_. ()),
      si_tokenize = (\<lambda>_. ())\<rparr>"

definition ContractMigrated_impl :: "(unit, unit) sol_impl" where
  "ContractMigrated_impl =
     \<lparr>si_signature = ''ContractMigrated()'',
      si_selector = [63, 79, 104, 150],
      si_new = (\<lambda>_. ()),
      si_tokenize = (\<lambda>_. ())\<rparr>"

definition ContractNotMigrated_impl :: "(unit, unit) sol_impl" where
  "ContractNotMigrated_impl =
     \<lparr>si_signature = ''ContractNotMigrated()'',
      si_selector = [15, 137, 156, 176],
      si_new = (\<lambda>_. ()),
      si_tokenize = (\<lambda>_. ())\<rparr>"

definition ContractNotPaused_impl :: "(unit, unit) sol_impl" where
  "ContractNotPaused_impl =
     \<lparr>si_signature = ''ContractNotPaused()'',
      si_selector = [220, 221, 233, 221],
      si_new = (\<lambda>_. ()),
      si_tokenize = (\<lambda>_. ())\<rparr>"

definition ContractPaused_impl :: "(unit, unit) sol_impl" where
  "ContractPaused_impl =
     \<lparr>si_signature = ''ContractPaused()'',
      si_selector = [171, 53, 105, 111],
      si_new = (\<lambda>_. ()),
      si_tokenize = (\<lambda>_. ())\<rparr>"

definition DailyLimitExhausted_impl :: "(unit, unit) sol_impl" where
  "DailyLimitExhausted_impl =
     \<lparr>si_signature = ''DailyLimitExhausted()'',
      si_selector = [189, 196, 223, 114],
      si_new = (\<lambda>_. ()),
      si_tokenize = (\<lambda>_. ())\<rparr>"

definition DuplicateValidator_impl :: "(unit, unit) sol_impl" where
  "DuplicateValidator_impl =
     \<lparr>si_signature = ''DuplicateValidator()'',
      si_selector = [161, 140, 92, 210],
      si_new = (\<lambda>_. ()),
      si_tokenize = (\<lambda>_. ())\<rparr>"

definition InsufficientValidatorWeight_impl :: "(unit, unit) sol_impl" where
  "InsufficientValidatorWeight_impl =
     \<lparr>si_signature = ''InsufficientValidatorWeight()'',
      si_selector = [187, 213, 225, 45],
      si_new = (\<lambda>_. ()),
      si_tokenize = (\<lambda>_. ())\<rparr>"

definition InvalidAdverserialResilience_impl :: "(unit, unit) sol_impl" where
  "InvalidAdverserialResilience_impl =
     \<lparr>si_signature = ''InvalidAdverserialResilience()'',
      si_selector = [65, 90, 30, 203],
      si_new = (\<lambda>_. ()),
      si_tokenize = (\<lambda>_. ())\<rparr>"

definition InvalidBridgeContract_impl :: "(unit, unit) sol_impl" where
  "InvalidBridgeContract_impl =
     \<lparr>si_signature = ''InvalidBridgeContract()'',
      si_selector = [102, 218, 128, 55],
      si_new = (\<lambda>_. ()),
      si_tokenize = (\<lambda>_. ())\<rparr>"

definition InvalidInitialization_impl :: "(unit, unit) sol_impl" where
  "InvalidInitialization_impl =
     \<lparr>si_signature = ''InvalidInitialization()'',
      si_selector = [249, 46, 232, 169],
      si_new = (\<lambda>_. ()),
      si_tokenize = (\<lambda>_. ())\<rparr>"

definition InvalidMerkleProof_impl :: "(unit, unit) sol_impl" where
  "InvalidMerkleProof_impl =
     \<lparr>si_signature = ''InvalidMerkleProof()'',
      si_selector = [176, 94, 146, 250],
      si_new = (\<lambda>_. ()),
      si_tokenize = (\<lambda>_. ())\<rparr>"

definition InvalidPermitLength_impl :: "(unit, unit) sol_impl" where
  "InvalidPermitLength_impl =
     \<lparr>si_signature = ''InvalidPermitLength()'',
      si_selector = [118, 16, 21, 174],
      si_new = (\<lambda>_. ()),
      si_tokenize = (\<lambda>_. ())\<rparr>"

definition InvalidProofType_impl :: "(unit, unit) sol_impl" where
  "InvalidProofType_impl =
     \<lparr>si_signature = ''InvalidProofType()'',
      si_selector = [105, 237, 112, 171],
      si_new = (\<lambda>_. ()),
      si_tokenize = (\<lambda>_. ())\<rparr>"

definition InvalidReserveBalance_impl :: "(unit, unit) sol_impl" where
  "InvalidReserveBalance_impl =
     \<lparr>si_signature = ''InvalidReserveBalance()'',
      si_selector = [114, 88, 197, 251],
      si_new = (\<lambda>_. ()),
      si_tokenize = (\<lambda>_. ())\<rparr>"

definition InvalidSignatureOrder_impl :: "(unit, unit) sol_impl" where
  "InvalidSignatureOrder_impl =
     \<lparr>si_signature = ''InvalidSignatureOrder()'',
      si_selector = [19, 159, 60, 146],
      si_new = (\<lambda>_. ()),
      si_tokenize = (\<lambda>_. ())\<rparr>"

definition InvalidToAddress_impl :: "(unit, unit) sol_impl" where
  "InvalidToAddress_impl =
     \<lparr>si_signature = ''InvalidToAddress()'',
      si_selector = [138, 163, 167, 47],
      si_new = (\<lambda>_. ()),
      si_tokenize = (\<lambda>_. ())\<rparr>"

definition InvalidTokenAmount_impl :: "(unit, unit) sol_impl" where
  "InvalidTokenAmount_impl =
     \<lparr>si_signature = ''InvalidTokenAmount()'',
      si_selector = [33, 96, 115, 57],
      si_new = (\<lambda>_. ()),
      si_tokenize = (\<lambda>_. ())\<rparr>"

definition InvalidTokenConfig_impl :: "(unit, unit) sol_impl" where
  "InvalidTokenConfig_impl =
     \<lparr>si_signature = ''InvalidTokenConfig()'',
      si_selector = [7, 254, 123, 174],
      si_new = (\<lambda>_. ()),
      si_tokenize = (\<lambda>_. ())\<rparr>"

definition NotInitializing_impl :: "(unit, unit) sol_impl" where
  "NotInitializing_impl =
     \<lparr>si_signature = ''NotInitializing()'',
      si_selector = [215, 230, 188, 248],
      si_new = (\<lambda>_. ()),
      si_tokenize = (\<lambda>_. ())\<rparr>"

definition RequestAlreadyProcessed_impl :: "(unit, unit) sol_impl" where
  "RequestAlreadyProcessed_impl =
     \<lparr>si_signature = ''RequestAlreadyProcessed()'',
      si_selector = [166, 188, 116, 196],
      si_new = (\<lambda>_. ()),
      si_tokenize = (\<lambda>_. ())\<rparr>"

record SafeERC20FailedOperation =
  SafeERC20FailedOperation_token :: address

definition SafeERC20FailedOperation_of_tuple :: "address \<Rightarrow> SafeERC20FailedOperation" where
  "SafeERC20FailedOperation_of_tuple = (\<lambda>t0.
     \<lparr>SafeERC20FailedOperation_token = t0\<rparr>)"

definition SafeERC20FailedOperation_impl :: "(SafeERC20FailedOperation, address) sol_impl" where
  "SafeERC20FailedOperation_impl =
     \<lparr>si_signature = ''SafeERC20FailedOperation(address)'',
      si_selector = [82, 116, 175, 231],
      si_new = SafeERC20FailedOperation_of_tuple,
      si_tokenize = SafeERC20FailedOperation_token\<rparr>"

definition SignerNotActiveValidator_impl :: "(unit, unit) sol_impl" where
  "SignerNotActiveValidator_impl =
     \<lparr>si_signature = ''SignerNotActiveValidator()'',
      si_selector = [90, 9, 90, 225],
      si_new = (\<lambda>_. ()),
      si_tokenize = (\<lambda>_. ())\<rparr>"

definition ValidatorDoesNotExist_impl :: "(unit, unit) sol_impl" where
  "ValidatorDoesNotExist_impl =
     \<lparr>si_signature = ''ValidatorDoesNotExist()'',
      si_selector = [229, 19, 21, 210],
      si_new = (\<lambda>_. ()),
      si_tokenize = (\<lambda>_. ())\<rparr>"

definition ValidatorIsZeroAddress_impl :: "(unit, unit) sol_impl" where
  "ValidatorIsZeroAddress_impl =
     \<lparr>si_signature = ''ValidatorIsZeroAddress()'',
      si_selector = [169, 165, 139, 137],
      si_new = (\<lambda>_. ()),
      si_tokenize = (\<lambda>_. ())\<rparr>"

datatype (plugins only: code) BridgeErrors =
    AccessControlBadConfirmation_error
  | AccessControlUnauthorizedAccount_error AccessControlUnauthorizedAccount
  | AmountBelowReserve_error
  | CallContractNotWhitelisted_error
  | ContractMigrated_error
  | ContractNotMigrated_error
  | ContractNotPaused_error
  | ContractPaused_error
  | DailyLimitExhausted_error
  | DuplicateValidator_error
  | InsufficientValidatorWeight_error
  | InvalidAdverserialResilience_error
  | InvalidBridgeContract_error
  | InvalidInitialization_error
  | InvalidMerkleProof_error
  | InvalidPermitLength_error
  | InvalidProofType_error
  | InvalidReserveBalance_error
  | InvalidSignatureOrder_error
  | InvalidToAddress_error
  | InvalidTokenAmount_error
  | InvalidTokenConfig_error
  | NotInitializing_error
  | RequestAlreadyProcessed_error
  | SafeERC20FailedOperation_error SafeERC20FailedOperation
  | SignerNotActiveValidator_error
  | ValidatorDoesNotExist_error
  | ValidatorIsZeroAddress_error

text \<open>The tables in the order of the selectors.\<close>

definition bridge_error_selectors :: "bytes list" where
  "bridge_error_selectors =
     [[7, 254, 123, 174], [15, 137, 156, 176], [19, 159, 60, 146], [32, 130, 98, 29], [33, 96, 115, 57],
      [63, 79, 104, 150], [65, 90, 30, 203], [82, 116, 175, 231], [90, 9, 90, 225], [102, 0, 86, 248],
      [102, 151, 178, 50], [102, 218, 128, 55], [105, 237, 112, 171], [114, 88, 197, 251],
      [118, 16, 21, 174], [138, 163, 167, 47], [161, 140, 92, 210], [166, 188, 116, 196],
      [169, 165, 139, 137], [171, 53, 105, 111], [176, 94, 146, 250], [187, 213, 225, 45],
      [189, 196, 223, 114], [215, 230, 188, 248], [220, 221, 233, 221], [226, 81, 125, 63],
      [229, 19, 21, 210], [249, 46, 232, 169]]"

definition bridge_error_variant_names :: "string list" where
  "bridge_error_variant_names =
     [''InvalidTokenConfig'', ''ContractNotMigrated'', ''InvalidSignatureOrder'',
      ''AmountBelowReserve'', ''InvalidTokenAmount'', ''ContractMigrated'',
      ''InvalidAdverserialResilience'', ''SafeERC20FailedOperation'', ''SignerNotActiveValidator'',
      ''CallContractNotWhitelisted'', ''AccessControlBadConfirmation'', ''InvalidBridgeContract'',
      ''InvalidProofType'', ''InvalidReserveBalance'', ''InvalidPermitLength'', ''InvalidToAddress'',
      ''DuplicateValidator'', ''RequestAlreadyProcessed'', ''ValidatorIsZeroAddress'',
      ''ContractPaused'', ''InvalidMerkleProof'', ''InsufficientValidatorWeight'',
      ''DailyLimitExhausted'', ''NotInitializing'', ''ContractNotPaused'',
      ''AccessControlUnauthorizedAccount'', ''ValidatorDoesNotExist'', ''InvalidInitialization'']"

definition bridge_error_signatures :: "string list" where
  "bridge_error_signatures =
     [si_signature InvalidTokenConfig_impl, si_signature ContractNotMigrated_impl,
      si_signature InvalidSignatureOrder_impl, si_signature AmountBelowReserve_impl,
      si_signature InvalidTokenAmount_impl, si_signature ContractMigrated_impl,
      si_signature InvalidAdverserialResilience_impl, si_signature SafeERC20FailedOperation_impl,
      si_signature SignerNotActiveValidator_impl, si_signature CallContractNotWhitelisted_impl,
      si_signature AccessControlBadConfirmation_impl, si_signature InvalidBridgeContract_impl,
      si_signature InvalidProofType_impl, si_signature InvalidReserveBalance_impl,
      si_signature InvalidPermitLength_impl, si_signature InvalidToAddress_impl,
      si_signature DuplicateValidator_impl, si_signature RequestAlreadyProcessed_impl,
      si_signature ValidatorIsZeroAddress_impl, si_signature ContractPaused_impl,
      si_signature InvalidMerkleProof_impl, si_signature InsufficientValidatorWeight_impl,
      si_signature DailyLimitExhausted_impl, si_signature NotInitializing_impl,
      si_signature ContractNotPaused_impl, si_signature AccessControlUnauthorizedAccount_impl,
      si_signature ValidatorDoesNotExist_impl, si_signature InvalidInitialization_impl]"

definition bridge_error_signature_by_selector :: "bytes \<Rightarrow> string option run" where
  "bridge_error_signature_by_selector sel = table_row bridge_error_selectors bridge_error_signatures sel"

definition bridge_error_name_by_selector :: "bytes \<Rightarrow> string option run" where
  "bridge_error_name_by_selector sel = map_ok name_of_signature (bridge_error_signature_by_selector sel)"

text \<open>The crate's codecs; the structs without fields share one.\<close>

record 'x bridge_error_codecs =
  unit_bridge_error_abi :: "(unit, 'x) sol_call"
  AccessControlUnauthorizedAccount_abi :: "(AccessControlUnauthorizedAccount, 'x) sol_call"
  SafeERC20FailedOperation_abi :: "(SafeERC20FailedOperation, 'x) sol_call"
  unit_bridge_error_tuple :: "(unit, 'x) sol_tuple"
  AccessControlUnauthorizedAccount_tuple :: "(address \<times> hash, 'x) sol_tuple"
  SafeERC20FailedOperation_tuple :: "(address, 'x) sol_tuple"

primrec bridge_error_selector :: "BridgeErrors \<Rightarrow> bytes" where
  "bridge_error_selector AccessControlBadConfirmation_error = si_selector AccessControlBadConfirmation_impl"
| "bridge_error_selector (AccessControlUnauthorizedAccount_error c) = si_selector AccessControlUnauthorizedAccount_impl"
| "bridge_error_selector AmountBelowReserve_error = si_selector AmountBelowReserve_impl"
| "bridge_error_selector CallContractNotWhitelisted_error = si_selector CallContractNotWhitelisted_impl"
| "bridge_error_selector ContractMigrated_error = si_selector ContractMigrated_impl"
| "bridge_error_selector ContractNotMigrated_error = si_selector ContractNotMigrated_impl"
| "bridge_error_selector ContractNotPaused_error = si_selector ContractNotPaused_impl"
| "bridge_error_selector ContractPaused_error = si_selector ContractPaused_impl"
| "bridge_error_selector DailyLimitExhausted_error = si_selector DailyLimitExhausted_impl"
| "bridge_error_selector DuplicateValidator_error = si_selector DuplicateValidator_impl"
| "bridge_error_selector InsufficientValidatorWeight_error = si_selector InsufficientValidatorWeight_impl"
| "bridge_error_selector InvalidAdverserialResilience_error = si_selector InvalidAdverserialResilience_impl"
| "bridge_error_selector InvalidBridgeContract_error = si_selector InvalidBridgeContract_impl"
| "bridge_error_selector InvalidInitialization_error = si_selector InvalidInitialization_impl"
| "bridge_error_selector InvalidMerkleProof_error = si_selector InvalidMerkleProof_impl"
| "bridge_error_selector InvalidPermitLength_error = si_selector InvalidPermitLength_impl"
| "bridge_error_selector InvalidProofType_error = si_selector InvalidProofType_impl"
| "bridge_error_selector InvalidReserveBalance_error = si_selector InvalidReserveBalance_impl"
| "bridge_error_selector InvalidSignatureOrder_error = si_selector InvalidSignatureOrder_impl"
| "bridge_error_selector InvalidToAddress_error = si_selector InvalidToAddress_impl"
| "bridge_error_selector InvalidTokenAmount_error = si_selector InvalidTokenAmount_impl"
| "bridge_error_selector InvalidTokenConfig_error = si_selector InvalidTokenConfig_impl"
| "bridge_error_selector NotInitializing_error = si_selector NotInitializing_impl"
| "bridge_error_selector RequestAlreadyProcessed_error = si_selector RequestAlreadyProcessed_impl"
| "bridge_error_selector (SafeERC20FailedOperation_error c) = si_selector SafeERC20FailedOperation_impl"
| "bridge_error_selector SignerNotActiveValidator_error = si_selector SignerNotActiveValidator_impl"
| "bridge_error_selector ValidatorDoesNotExist_error = si_selector ValidatorDoesNotExist_impl"
| "bridge_error_selector ValidatorIsZeroAddress_error = si_selector ValidatorIsZeroAddress_impl"

definition bridge_error_selector_at :: "nat \<Rightarrow> bytes option" where
  "bridge_error_selector_at i = (if i < length bridge_error_selectors then Some (bridge_error_selectors ! i) else None)"

definition bridge_error_valid_selector :: "bytes \<Rightarrow> bool" where
  "bridge_error_valid_selector sel \<longleftrightarrow> binary_search bridge_error_selectors sel \<noteq> None"

definition bridge_error_decode_shims :: "'x bridge_error_codecs \<Rightarrow> (bytes \<Rightarrow> 'x sol_error + BridgeErrors) list" where
  "bridge_error_decode_shims A =
     [decode_shim (\<lambda>_. InvalidTokenConfig_error) (unit_bridge_error_abi A),
      decode_shim (\<lambda>_. ContractNotMigrated_error) (unit_bridge_error_abi A),
      decode_shim (\<lambda>_. InvalidSignatureOrder_error) (unit_bridge_error_abi A),
      decode_shim (\<lambda>_. AmountBelowReserve_error) (unit_bridge_error_abi A),
      decode_shim (\<lambda>_. InvalidTokenAmount_error) (unit_bridge_error_abi A),
      decode_shim (\<lambda>_. ContractMigrated_error) (unit_bridge_error_abi A),
      decode_shim (\<lambda>_. InvalidAdverserialResilience_error) (unit_bridge_error_abi A),
      decode_shim SafeERC20FailedOperation_error (SafeERC20FailedOperation_abi A),
      decode_shim (\<lambda>_. SignerNotActiveValidator_error) (unit_bridge_error_abi A),
      decode_shim (\<lambda>_. CallContractNotWhitelisted_error) (unit_bridge_error_abi A),
      decode_shim (\<lambda>_. AccessControlBadConfirmation_error) (unit_bridge_error_abi A),
      decode_shim (\<lambda>_. InvalidBridgeContract_error) (unit_bridge_error_abi A),
      decode_shim (\<lambda>_. InvalidProofType_error) (unit_bridge_error_abi A),
      decode_shim (\<lambda>_. InvalidReserveBalance_error) (unit_bridge_error_abi A),
      decode_shim (\<lambda>_. InvalidPermitLength_error) (unit_bridge_error_abi A),
      decode_shim (\<lambda>_. InvalidToAddress_error) (unit_bridge_error_abi A),
      decode_shim (\<lambda>_. DuplicateValidator_error) (unit_bridge_error_abi A),
      decode_shim (\<lambda>_. RequestAlreadyProcessed_error) (unit_bridge_error_abi A),
      decode_shim (\<lambda>_. ValidatorIsZeroAddress_error) (unit_bridge_error_abi A),
      decode_shim (\<lambda>_. ContractPaused_error) (unit_bridge_error_abi A),
      decode_shim (\<lambda>_. InvalidMerkleProof_error) (unit_bridge_error_abi A),
      decode_shim (\<lambda>_. InsufficientValidatorWeight_error) (unit_bridge_error_abi A),
      decode_shim (\<lambda>_. DailyLimitExhausted_error) (unit_bridge_error_abi A),
      decode_shim (\<lambda>_. NotInitializing_error) (unit_bridge_error_abi A),
      decode_shim (\<lambda>_. ContractNotPaused_error) (unit_bridge_error_abi A),
      decode_shim AccessControlUnauthorizedAccount_error (AccessControlUnauthorizedAccount_abi A),
      decode_shim (\<lambda>_. ValidatorDoesNotExist_error) (unit_bridge_error_abi A),
      decode_shim (\<lambda>_. InvalidInitialization_error) (unit_bridge_error_abi A)]"

definition bridge_error_decode_raw :: "'x bridge_error_codecs \<Rightarrow> bytes \<Rightarrow> bytes \<Rightarrow> ('x sol_error + BridgeErrors) run" where
  "bridge_error_decode_raw A sel data =
     dispatch_call ''BridgeErrors'' bridge_error_selectors (bridge_error_decode_shims A) sel data"

definition bridge_error_decode_validate_shims :: "'x bridge_error_codecs \<Rightarrow> (bytes \<Rightarrow> 'x sol_error + BridgeErrors) list" where
  "bridge_error_decode_validate_shims A =
     [error_validate_shim (\<lambda>_. InvalidTokenConfig_error) InvalidTokenConfig_impl (unit_bridge_error_tuple A),
      error_validate_shim (\<lambda>_. ContractNotMigrated_error) ContractNotMigrated_impl (unit_bridge_error_tuple A),
      error_validate_shim (\<lambda>_. InvalidSignatureOrder_error) InvalidSignatureOrder_impl (unit_bridge_error_tuple A),
      error_validate_shim (\<lambda>_. AmountBelowReserve_error) AmountBelowReserve_impl (unit_bridge_error_tuple A),
      error_validate_shim (\<lambda>_. InvalidTokenAmount_error) InvalidTokenAmount_impl (unit_bridge_error_tuple A),
      error_validate_shim (\<lambda>_. ContractMigrated_error) ContractMigrated_impl (unit_bridge_error_tuple A),
      error_validate_shim (\<lambda>_. InvalidAdverserialResilience_error) InvalidAdverserialResilience_impl (unit_bridge_error_tuple A),
      error_validate_shim SafeERC20FailedOperation_error SafeERC20FailedOperation_impl (SafeERC20FailedOperation_tuple A),
      error_validate_shim (\<lambda>_. SignerNotActiveValidator_error) SignerNotActiveValidator_impl (unit_bridge_error_tuple A),
      error_validate_shim (\<lambda>_. CallContractNotWhitelisted_error) CallContractNotWhitelisted_impl (unit_bridge_error_tuple A),
      error_validate_shim (\<lambda>_. AccessControlBadConfirmation_error) AccessControlBadConfirmation_impl (unit_bridge_error_tuple A),
      error_validate_shim (\<lambda>_. InvalidBridgeContract_error) InvalidBridgeContract_impl (unit_bridge_error_tuple A),
      error_validate_shim (\<lambda>_. InvalidProofType_error) InvalidProofType_impl (unit_bridge_error_tuple A),
      error_validate_shim (\<lambda>_. InvalidReserveBalance_error) InvalidReserveBalance_impl (unit_bridge_error_tuple A),
      error_validate_shim (\<lambda>_. InvalidPermitLength_error) InvalidPermitLength_impl (unit_bridge_error_tuple A),
      error_validate_shim (\<lambda>_. InvalidToAddress_error) InvalidToAddress_impl (unit_bridge_error_tuple A),
      error_validate_shim (\<lambda>_. DuplicateValidator_error) DuplicateValidator_impl (unit_bridge_error_tuple A),
      error_validate_shim (\<lambda>_. RequestAlreadyProcessed_error) RequestAlreadyProcessed_impl (unit_bridge_error_tuple A),
      error_validate_shim (\<lambda>_. ValidatorIsZeroAddress_error) ValidatorIsZeroAddress_impl (unit_bridge_error_tuple A),
      error_validate_shim (\<lambda>_. ContractPaused_error) ContractPaused_impl (unit_bridge_error_tuple A),
      error_validate_shim (\<lambda>_. InvalidMerkleProof_error) InvalidMerkleProof_impl (unit_bridge_error_tuple A),
      error_validate_shim (\<lambda>_. InsufficientValidatorWeight_error) InsufficientValidatorWeight_impl (unit_bridge_error_tuple A),
      error_validate_shim (\<lambda>_. DailyLimitExhausted_error) DailyLimitExhausted_impl (unit_bridge_error_tuple A),
      error_validate_shim (\<lambda>_. NotInitializing_error) NotInitializing_impl (unit_bridge_error_tuple A),
      error_validate_shim (\<lambda>_. ContractNotPaused_error) ContractNotPaused_impl (unit_bridge_error_tuple A),
      error_validate_shim AccessControlUnauthorizedAccount_error AccessControlUnauthorizedAccount_impl (AccessControlUnauthorizedAccount_tuple A),
      error_validate_shim (\<lambda>_. ValidatorDoesNotExist_error) ValidatorDoesNotExist_impl (unit_bridge_error_tuple A),
      error_validate_shim (\<lambda>_. InvalidInitialization_error) InvalidInitialization_impl (unit_bridge_error_tuple A)]"

definition bridge_error_decode_raw_validate :: "'x bridge_error_codecs \<Rightarrow> bytes \<Rightarrow> bytes \<Rightarrow> ('x sol_error + BridgeErrors) run" where
  "bridge_error_decode_raw_validate A sel data =
     dispatch_call ''BridgeErrors'' bridge_error_selectors (bridge_error_decode_validate_shims A) sel data"

primrec bridge_error_encoded_size :: "'x bridge_error_codecs \<Rightarrow> BridgeErrors \<Rightarrow> nat" where
  "bridge_error_encoded_size A AccessControlBadConfirmation_error = sc_encoded_size (unit_bridge_error_abi A) ()"
| "bridge_error_encoded_size A (AccessControlUnauthorizedAccount_error c) = sc_encoded_size (AccessControlUnauthorizedAccount_abi A) c"
| "bridge_error_encoded_size A AmountBelowReserve_error = sc_encoded_size (unit_bridge_error_abi A) ()"
| "bridge_error_encoded_size A CallContractNotWhitelisted_error = sc_encoded_size (unit_bridge_error_abi A) ()"
| "bridge_error_encoded_size A ContractMigrated_error = sc_encoded_size (unit_bridge_error_abi A) ()"
| "bridge_error_encoded_size A ContractNotMigrated_error = sc_encoded_size (unit_bridge_error_abi A) ()"
| "bridge_error_encoded_size A ContractNotPaused_error = sc_encoded_size (unit_bridge_error_abi A) ()"
| "bridge_error_encoded_size A ContractPaused_error = sc_encoded_size (unit_bridge_error_abi A) ()"
| "bridge_error_encoded_size A DailyLimitExhausted_error = sc_encoded_size (unit_bridge_error_abi A) ()"
| "bridge_error_encoded_size A DuplicateValidator_error = sc_encoded_size (unit_bridge_error_abi A) ()"
| "bridge_error_encoded_size A InsufficientValidatorWeight_error = sc_encoded_size (unit_bridge_error_abi A) ()"
| "bridge_error_encoded_size A InvalidAdverserialResilience_error = sc_encoded_size (unit_bridge_error_abi A) ()"
| "bridge_error_encoded_size A InvalidBridgeContract_error = sc_encoded_size (unit_bridge_error_abi A) ()"
| "bridge_error_encoded_size A InvalidInitialization_error = sc_encoded_size (unit_bridge_error_abi A) ()"
| "bridge_error_encoded_size A InvalidMerkleProof_error = sc_encoded_size (unit_bridge_error_abi A) ()"
| "bridge_error_encoded_size A InvalidPermitLength_error = sc_encoded_size (unit_bridge_error_abi A) ()"
| "bridge_error_encoded_size A InvalidProofType_error = sc_encoded_size (unit_bridge_error_abi A) ()"
| "bridge_error_encoded_size A InvalidReserveBalance_error = sc_encoded_size (unit_bridge_error_abi A) ()"
| "bridge_error_encoded_size A InvalidSignatureOrder_error = sc_encoded_size (unit_bridge_error_abi A) ()"
| "bridge_error_encoded_size A InvalidToAddress_error = sc_encoded_size (unit_bridge_error_abi A) ()"
| "bridge_error_encoded_size A InvalidTokenAmount_error = sc_encoded_size (unit_bridge_error_abi A) ()"
| "bridge_error_encoded_size A InvalidTokenConfig_error = sc_encoded_size (unit_bridge_error_abi A) ()"
| "bridge_error_encoded_size A NotInitializing_error = sc_encoded_size (unit_bridge_error_abi A) ()"
| "bridge_error_encoded_size A RequestAlreadyProcessed_error = sc_encoded_size (unit_bridge_error_abi A) ()"
| "bridge_error_encoded_size A (SafeERC20FailedOperation_error c) = sc_encoded_size (SafeERC20FailedOperation_abi A) c"
| "bridge_error_encoded_size A SignerNotActiveValidator_error = sc_encoded_size (unit_bridge_error_abi A) ()"
| "bridge_error_encoded_size A ValidatorDoesNotExist_error = sc_encoded_size (unit_bridge_error_abi A) ()"
| "bridge_error_encoded_size A ValidatorIsZeroAddress_error = sc_encoded_size (unit_bridge_error_abi A) ()"

fun bridge_error_encode_raw :: "'x bridge_error_codecs \<Rightarrow> BridgeErrors \<Rightarrow> bytes \<Rightarrow> bytes" where
  "bridge_error_encode_raw A AccessControlBadConfirmation_error out = sc_encode_raw (unit_bridge_error_abi A) () out"
| "bridge_error_encode_raw A (AccessControlUnauthorizedAccount_error c) out = sc_encode_raw (AccessControlUnauthorizedAccount_abi A) c out"
| "bridge_error_encode_raw A AmountBelowReserve_error out = sc_encode_raw (unit_bridge_error_abi A) () out"
| "bridge_error_encode_raw A CallContractNotWhitelisted_error out = sc_encode_raw (unit_bridge_error_abi A) () out"
| "bridge_error_encode_raw A ContractMigrated_error out = sc_encode_raw (unit_bridge_error_abi A) () out"
| "bridge_error_encode_raw A ContractNotMigrated_error out = sc_encode_raw (unit_bridge_error_abi A) () out"
| "bridge_error_encode_raw A ContractNotPaused_error out = sc_encode_raw (unit_bridge_error_abi A) () out"
| "bridge_error_encode_raw A ContractPaused_error out = sc_encode_raw (unit_bridge_error_abi A) () out"
| "bridge_error_encode_raw A DailyLimitExhausted_error out = sc_encode_raw (unit_bridge_error_abi A) () out"
| "bridge_error_encode_raw A DuplicateValidator_error out = sc_encode_raw (unit_bridge_error_abi A) () out"
| "bridge_error_encode_raw A InsufficientValidatorWeight_error out = sc_encode_raw (unit_bridge_error_abi A) () out"
| "bridge_error_encode_raw A InvalidAdverserialResilience_error out = sc_encode_raw (unit_bridge_error_abi A) () out"
| "bridge_error_encode_raw A InvalidBridgeContract_error out = sc_encode_raw (unit_bridge_error_abi A) () out"
| "bridge_error_encode_raw A InvalidInitialization_error out = sc_encode_raw (unit_bridge_error_abi A) () out"
| "bridge_error_encode_raw A InvalidMerkleProof_error out = sc_encode_raw (unit_bridge_error_abi A) () out"
| "bridge_error_encode_raw A InvalidPermitLength_error out = sc_encode_raw (unit_bridge_error_abi A) () out"
| "bridge_error_encode_raw A InvalidProofType_error out = sc_encode_raw (unit_bridge_error_abi A) () out"
| "bridge_error_encode_raw A InvalidReserveBalance_error out = sc_encode_raw (unit_bridge_error_abi A) () out"
| "bridge_error_encode_raw A InvalidSignatureOrder_error out = sc_encode_raw (unit_bridge_error_abi A) () out"
| "bridge_error_encode_raw A InvalidToAddress_error out = sc_encode_raw (unit_bridge_error_abi A) () out"
| "bridge_error_encode_raw A InvalidTokenAmount_error out = sc_encode_raw (unit_bridge_error_abi A) () out"
| "bridge_error_encode_raw A InvalidTokenConfig_error out = sc_encode_raw (unit_bridge_error_abi A) () out"
| "bridge_error_encode_raw A NotInitializing_error out = sc_encode_raw (unit_bridge_error_abi A) () out"
| "bridge_error_encode_raw A RequestAlreadyProcessed_error out = sc_encode_raw (unit_bridge_error_abi A) () out"
| "bridge_error_encode_raw A (SafeERC20FailedOperation_error c) out = sc_encode_raw (SafeERC20FailedOperation_abi A) c out"
| "bridge_error_encode_raw A SignerNotActiveValidator_error out = sc_encode_raw (unit_bridge_error_abi A) () out"
| "bridge_error_encode_raw A ValidatorDoesNotExist_error out = sc_encode_raw (unit_bridge_error_abi A) () out"
| "bridge_error_encode_raw A ValidatorIsZeroAddress_error out = sc_encode_raw (unit_bridge_error_abi A) () out"

section \<open>Dispatch\<close>

lemmas bridge_error_impls =
  AccessControlBadConfirmation_impl_def AccessControlUnauthorizedAccount_impl_def
  AmountBelowReserve_impl_def CallContractNotWhitelisted_impl_def ContractMigrated_impl_def
  ContractNotMigrated_impl_def ContractNotPaused_impl_def ContractPaused_impl_def
  DailyLimitExhausted_impl_def DuplicateValidator_impl_def InsufficientValidatorWeight_impl_def
  InvalidAdverserialResilience_impl_def InvalidBridgeContract_impl_def InvalidInitialization_impl_def
  InvalidMerkleProof_impl_def InvalidPermitLength_impl_def InvalidProofType_impl_def
  InvalidReserveBalance_impl_def InvalidSignatureOrder_impl_def InvalidToAddress_impl_def
  InvalidTokenAmount_impl_def InvalidTokenConfig_impl_def NotInitializing_impl_def
  RequestAlreadyProcessed_impl_def SafeERC20FailedOperation_impl_def SignerNotActiveValidator_impl_def
  ValidatorDoesNotExist_impl_def ValidatorIsZeroAddress_impl_def

lemmas bridge_error_froms =
  AccessControlUnauthorizedAccount_of_tuple_def SafeERC20FailedOperation_of_tuple_def

lemma bridge_error_new_tokenize:
  "si_new AccessControlUnauthorizedAccount_impl (si_tokenize AccessControlUnauthorizedAccount_impl c0) = c0"
  "si_new SafeERC20FailedOperation_impl (si_tokenize SafeERC20FailedOperation_impl c1) = c1"
  by (simp_all add: bridge_error_impls bridge_error_froms)

text \<open>The row of the tables that a variant has.\<close>

primrec bridge_error_row :: "BridgeErrors \<Rightarrow> nat" where
  "bridge_error_row AccessControlBadConfirmation_error = 10"
| "bridge_error_row (AccessControlUnauthorizedAccount_error c) = 25"
| "bridge_error_row AmountBelowReserve_error = 3"
| "bridge_error_row CallContractNotWhitelisted_error = 9"
| "bridge_error_row ContractMigrated_error = 5"
| "bridge_error_row ContractNotMigrated_error = 1"
| "bridge_error_row ContractNotPaused_error = 24"
| "bridge_error_row ContractPaused_error = 19"
| "bridge_error_row DailyLimitExhausted_error = 22"
| "bridge_error_row DuplicateValidator_error = 16"
| "bridge_error_row InsufficientValidatorWeight_error = 21"
| "bridge_error_row InvalidAdverserialResilience_error = 6"
| "bridge_error_row InvalidBridgeContract_error = 11"
| "bridge_error_row InvalidInitialization_error = 27"
| "bridge_error_row InvalidMerkleProof_error = 20"
| "bridge_error_row InvalidPermitLength_error = 14"
| "bridge_error_row InvalidProofType_error = 12"
| "bridge_error_row InvalidReserveBalance_error = 13"
| "bridge_error_row InvalidSignatureOrder_error = 2"
| "bridge_error_row InvalidToAddress_error = 15"
| "bridge_error_row InvalidTokenAmount_error = 4"
| "bridge_error_row InvalidTokenConfig_error = 0"
| "bridge_error_row NotInitializing_error = 23"
| "bridge_error_row RequestAlreadyProcessed_error = 17"
| "bridge_error_row (SafeERC20FailedOperation_error c) = 7"
| "bridge_error_row SignerNotActiveValidator_error = 8"
| "bridge_error_row ValidatorDoesNotExist_error = 26"
| "bridge_error_row ValidatorIsZeroAddress_error = 18"

lemma bridge_error_ascending: "dispatch_table bridge_error_selectors"
  by (rule ascending_table) (simp add: bridge_error_selectors_def)

interpretation bridge_errors: typed_dispatch bridge_error_selectors bridge_error_selector "bridge_error_decode_shims A" for A
  by (intro typed_dispatch.intro typed_dispatch_axioms.intro bridge_error_ascending)
    (simp add: bridge_error_selectors_def bridge_error_decode_shims_def typed_row_shims bridge_error_impls)

interpretation bridge_errors_validate: typed_dispatch bridge_error_selectors bridge_error_selector "bridge_error_decode_validate_shims A" for A
  by (intro typed_dispatch.intro typed_dispatch_axioms.intro bridge_error_ascending)
    (simp add: bridge_error_selectors_def bridge_error_decode_validate_shims_def typed_row_shims bridge_error_impls)

lemma bridge_error_row_selector:
  "bridge_error_row c < length bridge_error_selectors \<and> bridge_error_selectors ! bridge_error_row c = bridge_error_selector c"
  by (cases c) (simp_all add: bridge_error_selectors_def bridge_error_impls)

lemma bridge_error_name:
  "bridge_error_name_by_selector (bridge_error_selector c) = Inr (Some (bridge_error_variant_names ! bridge_error_row c))"
proof -
  have "bridge_error_signature_by_selector (bridge_error_selector c) = Inr (Some (bridge_error_signatures ! bridge_error_row c))"
    using bridge_errors.row_nth [of "bridge_error_row c" bridge_error_signatures] bridge_error_row_selector [of c]
    by (simp add: bridge_error_signature_by_selector_def) (simp add: bridge_error_signatures_def bridge_error_selectors_def)
  moreover have "name_of_signature (Some (bridge_error_signatures ! bridge_error_row c)) = Some (bridge_error_variant_names ! bridge_error_row c)"
    by (cases c) (simp_all add: bridge_error_signatures_def bridge_error_variant_names_def name_of_signature_def split_once_def bridge_error_impls)
  ultimately show ?thesis by (simp add: bridge_error_name_by_selector_def map_ok_def)
qed

text \<open>What is relied on for a value of the enum.\<close>

primrec bridge_error_law :: "'x bridge_error_codecs \<Rightarrow> BridgeErrors \<Rightarrow> bool" where
  "bridge_error_law A AccessControlBadConfirmation_error \<longleftrightarrow> error_law AccessControlBadConfirmation_impl (unit_bridge_error_abi A) (unit_bridge_error_tuple A) ()"
| "bridge_error_law A (AccessControlUnauthorizedAccount_error c) \<longleftrightarrow> error_law AccessControlUnauthorizedAccount_impl (AccessControlUnauthorizedAccount_abi A) (AccessControlUnauthorizedAccount_tuple A) c"
| "bridge_error_law A AmountBelowReserve_error \<longleftrightarrow> error_law AmountBelowReserve_impl (unit_bridge_error_abi A) (unit_bridge_error_tuple A) ()"
| "bridge_error_law A CallContractNotWhitelisted_error \<longleftrightarrow> error_law CallContractNotWhitelisted_impl (unit_bridge_error_abi A) (unit_bridge_error_tuple A) ()"
| "bridge_error_law A ContractMigrated_error \<longleftrightarrow> error_law ContractMigrated_impl (unit_bridge_error_abi A) (unit_bridge_error_tuple A) ()"
| "bridge_error_law A ContractNotMigrated_error \<longleftrightarrow> error_law ContractNotMigrated_impl (unit_bridge_error_abi A) (unit_bridge_error_tuple A) ()"
| "bridge_error_law A ContractNotPaused_error \<longleftrightarrow> error_law ContractNotPaused_impl (unit_bridge_error_abi A) (unit_bridge_error_tuple A) ()"
| "bridge_error_law A ContractPaused_error \<longleftrightarrow> error_law ContractPaused_impl (unit_bridge_error_abi A) (unit_bridge_error_tuple A) ()"
| "bridge_error_law A DailyLimitExhausted_error \<longleftrightarrow> error_law DailyLimitExhausted_impl (unit_bridge_error_abi A) (unit_bridge_error_tuple A) ()"
| "bridge_error_law A DuplicateValidator_error \<longleftrightarrow> error_law DuplicateValidator_impl (unit_bridge_error_abi A) (unit_bridge_error_tuple A) ()"
| "bridge_error_law A InsufficientValidatorWeight_error \<longleftrightarrow> error_law InsufficientValidatorWeight_impl (unit_bridge_error_abi A) (unit_bridge_error_tuple A) ()"
| "bridge_error_law A InvalidAdverserialResilience_error \<longleftrightarrow> error_law InvalidAdverserialResilience_impl (unit_bridge_error_abi A) (unit_bridge_error_tuple A) ()"
| "bridge_error_law A InvalidBridgeContract_error \<longleftrightarrow> error_law InvalidBridgeContract_impl (unit_bridge_error_abi A) (unit_bridge_error_tuple A) ()"
| "bridge_error_law A InvalidInitialization_error \<longleftrightarrow> error_law InvalidInitialization_impl (unit_bridge_error_abi A) (unit_bridge_error_tuple A) ()"
| "bridge_error_law A InvalidMerkleProof_error \<longleftrightarrow> error_law InvalidMerkleProof_impl (unit_bridge_error_abi A) (unit_bridge_error_tuple A) ()"
| "bridge_error_law A InvalidPermitLength_error \<longleftrightarrow> error_law InvalidPermitLength_impl (unit_bridge_error_abi A) (unit_bridge_error_tuple A) ()"
| "bridge_error_law A InvalidProofType_error \<longleftrightarrow> error_law InvalidProofType_impl (unit_bridge_error_abi A) (unit_bridge_error_tuple A) ()"
| "bridge_error_law A InvalidReserveBalance_error \<longleftrightarrow> error_law InvalidReserveBalance_impl (unit_bridge_error_abi A) (unit_bridge_error_tuple A) ()"
| "bridge_error_law A InvalidSignatureOrder_error \<longleftrightarrow> error_law InvalidSignatureOrder_impl (unit_bridge_error_abi A) (unit_bridge_error_tuple A) ()"
| "bridge_error_law A InvalidToAddress_error \<longleftrightarrow> error_law InvalidToAddress_impl (unit_bridge_error_abi A) (unit_bridge_error_tuple A) ()"
| "bridge_error_law A InvalidTokenAmount_error \<longleftrightarrow> error_law InvalidTokenAmount_impl (unit_bridge_error_abi A) (unit_bridge_error_tuple A) ()"
| "bridge_error_law A InvalidTokenConfig_error \<longleftrightarrow> error_law InvalidTokenConfig_impl (unit_bridge_error_abi A) (unit_bridge_error_tuple A) ()"
| "bridge_error_law A NotInitializing_error \<longleftrightarrow> error_law NotInitializing_impl (unit_bridge_error_abi A) (unit_bridge_error_tuple A) ()"
| "bridge_error_law A RequestAlreadyProcessed_error \<longleftrightarrow> error_law RequestAlreadyProcessed_impl (unit_bridge_error_abi A) (unit_bridge_error_tuple A) ()"
| "bridge_error_law A (SafeERC20FailedOperation_error c) \<longleftrightarrow> error_law SafeERC20FailedOperation_impl (SafeERC20FailedOperation_abi A) (SafeERC20FailedOperation_tuple A) c"
| "bridge_error_law A SignerNotActiveValidator_error \<longleftrightarrow> error_law SignerNotActiveValidator_impl (unit_bridge_error_abi A) (unit_bridge_error_tuple A) ()"
| "bridge_error_law A ValidatorDoesNotExist_error \<longleftrightarrow> error_law ValidatorDoesNotExist_impl (unit_bridge_error_abi A) (unit_bridge_error_tuple A) ()"
| "bridge_error_law A ValidatorIsZeroAddress_error \<longleftrightarrow> error_law ValidatorIsZeroAddress_impl (unit_bridge_error_abi A) (unit_bridge_error_tuple A) ()"

lemma bridge_error_own_shims:
  assumes "bridge_error_law A c"
  shows "\<exists>body. (\<forall>out. bridge_error_encode_raw A c out = out @ body) \<and> length body = bridge_error_encoded_size A c
    \<and> (bridge_error_decode_shims A ! bridge_error_row c) body = Inr c
    \<and> (bridge_error_decode_validate_shims A ! bridge_error_row c) body = Inr c"
  using assms
  by (cases c)
    (auto dest!: error_law_call simp: bridge_error_new_tokenize call_law_def shim_simps bridge_error_decode_shims_def bridge_error_decode_validate_shims_def)

lemma bridge_error_typed:
  "case bridge_error_decode_raw A sel data of
     Inl p \<Rightarrow> False
   | Inr (Inl e) \<Rightarrow> if bridge_error_valid_selector sel then \<exists>x. e = Codec x else e = UnknownSelector ''BridgeErrors'' sel
   | Inr (Inr call) \<Rightarrow> bridge_error_selector call = sel \<and> bridge_error_valid_selector sel"
  using bridge_errors.dispatch_typed [where A = A and name = "''BridgeErrors''" and sel = sel and data = data] bridge_errors.search_None [of sel]
  by (auto simp: bridge_error_decode_raw_def bridge_error_valid_selector_def split: sum.splits if_splits)

lemma bridge_error_encodes:
  assumes "bridge_error_law A call"
  shows "\<exists>body. bridge_error_encode_raw A call out = out @ body \<and> length body = bridge_error_encoded_size A call
    \<and> bridge_error_decode_raw A (bridge_error_selector call) body = Inr (Inr call)
    \<and> bridge_error_decode_raw_validate A (bridge_error_selector call) body = Inr (Inr call)"
proof -
  have row: "bridge_error_row call < length bridge_error_selectors" "bridge_error_selectors ! bridge_error_row call = bridge_error_selector call"
    using bridge_error_row_selector by blast+
  from bridge_error_own_shims [OF assms] show ?thesis
    unfolding bridge_error_decode_raw_def bridge_error_decode_raw_validate_def
    by (auto simp: bridge_errors.dispatch_at [OF row] bridge_errors_validate.dispatch_at [OF row])
qed

end
