(* ===== verification/Bridge_Events.thy ===== *)
theory Bridge_Events
  imports Sol_Traits
begin

text \<open>
  The events of \<^verbatim>\<open>protocol/bindings/src/bridge.rs\<close>: each struct with the methods of its
  \<^verbatim>\<open>SolEvent\<close> implementation, the enum \<open>BridgeEvents\<close>, its tables and its dispatch on the first
  topic.
\<close>

section \<open>The events\<close>

record Claim =
  Claim_txHash :: hash
  Claim_token :: address
  Claim_mirrorToken :: address
  Claim_amount :: u256
  Claim_to :: address

definition Claim_signature :: string where
  "Claim_signature = ''Claim(bytes32,address,address,uint256,address)''"

definition Claim_hash :: hash where
  "Claim_hash = b256
     [160, 185, 156, 15, 223, 195, 149, 114, 77, 123, 129, 168, 138, 109, 116, 133, 36, 97, 247, 105,
      19, 113, 175, 226, 131, 155, 184, 104, 132, 117, 120, 140]"

definition Claim_new :: "(hash \<times> hash \<times> address) \<Rightarrow> (address \<times> address \<times> u256) \<Rightarrow> Claim" where
  "Claim_new = (\<lambda>(t0, t1, t2) (d0, d1, d2).
     \<lparr>Claim_txHash = t1, Claim_token = d0, Claim_mirrorToken = d1, Claim_amount = d2, Claim_to = t2\<rparr>)"

definition Claim_check_signature :: "hash \<times> hash \<times> address \<Rightarrow> 'x sol_error + unit" where
  "Claim_check_signature topics =
     (if fst topics \<noteq> Claim_hash then Inl (InvalidSignatureHash Claim_signature (fst topics) Claim_hash)
      else Inr ())"

definition Claim_tokenize_body :: "Claim \<Rightarrow> address \<times> address \<times> u256" where
  "Claim_tokenize_body e = (Claim_token e, Claim_mirrorToken e, Claim_amount e)"

definition Claim_topics :: "Claim \<Rightarrow> hash \<times> hash \<times> address" where
  "Claim_topics e = (Claim_hash, Claim_txHash e, Claim_to e)"

definition Claim_topic_list :: "topic_words \<Rightarrow> hash \<times> hash \<times> address \<Rightarrow> hash list" where
  "Claim_topic_list W = (\<lambda>(t0, t1, t2). [t0, tw_fixed W t1, tw_address W t2])"

definition Claim_encode_topics_raw ::
    "topic_words \<Rightarrow> Claim \<Rightarrow> hash list \<Rightarrow> ('x sol_error + hash list) run" where
  "Claim_encode_topics_raw W e out =
     (if length out < 3 then Inr (Inl Overrun)
      else map_ok Inr
        (and_then (set_at 0 Claim_hash out) (\<lambda>out.
         and_then (set_at 1 (tw_fixed W (Claim_txHash e)) out) (\<lambda>out.
         set_at 2 (tw_address W (Claim_to e)) out))))"

definition Claim_event_impl :: "topic_words \<Rightarrow> (Claim, hash \<times> hash \<times> address, address \<times> address \<times> u256, 'x) event_impl" where
  "Claim_event_impl W =
     \<lparr>ei_signature = Claim_signature, ei_signature_hash = Claim_hash, ei_count = 3,
      ei_new = Claim_new, ei_check_signature = Claim_check_signature,
      ei_tokenize_body = Claim_tokenize_body, ei_topics = Claim_topics, ei_topic_list = Claim_topic_list W,
      ei_encode_topics_raw = Claim_encode_topics_raw W\<rparr>"

record ContractStateChanged =
  ContractStateChanged_oldState :: byte
  ContractStateChanged_newState :: byte

definition ContractStateChanged_signature :: string where
  "ContractStateChanged_signature = ''ContractStateChanged(uint8,uint8)''"

definition ContractStateChanged_hash :: hash where
  "ContractStateChanged_hash = b256
     [114, 133, 82, 46, 201, 58, 32, 220, 239, 161, 161, 208, 87, 9, 74, 34, 112, 115, 165, 70, 59, 145,
      192, 193, 154, 35, 198, 239, 92, 156, 31, 228]"

definition ContractStateChanged_new :: "hash \<Rightarrow> (byte \<times> byte) \<Rightarrow> ContractStateChanged" where
  "ContractStateChanged_new = (\<lambda>t0 (d0, d1).
     \<lparr>ContractStateChanged_oldState = d0, ContractStateChanged_newState = d1\<rparr>)"

definition ContractStateChanged_check_signature :: "hash \<Rightarrow> 'x sol_error + unit" where
  "ContractStateChanged_check_signature t0 =
     (if t0 \<noteq> ContractStateChanged_hash then Inl (InvalidSignatureHash ContractStateChanged_signature t0 ContractStateChanged_hash)
      else Inr ())"

definition ContractStateChanged_tokenize_body :: "ContractStateChanged \<Rightarrow> byte \<times> byte" where
  "ContractStateChanged_tokenize_body e = (ContractStateChanged_oldState e, ContractStateChanged_newState e)"

definition ContractStateChanged_topics :: "ContractStateChanged \<Rightarrow> hash" where
  "ContractStateChanged_topics e = (ContractStateChanged_hash)"

definition ContractStateChanged_topic_list :: "topic_words \<Rightarrow> hash \<Rightarrow> hash list" where
  "ContractStateChanged_topic_list W p = [p]"

definition ContractStateChanged_encode_topics_raw ::
    "topic_words \<Rightarrow> ContractStateChanged \<Rightarrow> hash list \<Rightarrow> ('x sol_error + hash list) run" where
  "ContractStateChanged_encode_topics_raw W e out =
     (if length out < 1 then Inr (Inl Overrun)
      else map_ok Inr
        (set_at 0 ContractStateChanged_hash out))"

definition ContractStateChanged_event_impl :: "topic_words \<Rightarrow> (ContractStateChanged, hash, byte \<times> byte, 'x) event_impl" where
  "ContractStateChanged_event_impl W =
     \<lparr>ei_signature = ContractStateChanged_signature, ei_signature_hash = ContractStateChanged_hash, ei_count = 1,
      ei_new = ContractStateChanged_new, ei_check_signature = ContractStateChanged_check_signature,
      ei_tokenize_body = ContractStateChanged_tokenize_body, ei_topics = ContractStateChanged_topics, ei_topic_list = ContractStateChanged_topic_list W,
      ei_encode_topics_raw = ContractStateChanged_encode_topics_raw W\<rparr>"

record Deposit =
  Deposit_id :: u256
  Deposit_from :: address
  Deposit_to :: address
  Deposit_token :: address
  Deposit_amount :: u256
  Deposit_callContract :: address
  Deposit_reserveBalance :: u256

definition Deposit_signature :: string where
  "Deposit_signature = ''Deposit(uint256,address,address,address,uint256,address,uint256)''"

definition Deposit_hash :: hash where
  "Deposit_hash = b256
     [215, 91, 254, 173, 135, 147, 159, 166, 49, 132, 242, 2, 254, 63, 148, 109, 249, 50, 20, 189, 233,
      88, 136, 88, 152, 51, 211, 155, 75, 131, 250, 196]"

definition Deposit_new :: "(hash \<times> u256 \<times> address \<times> address) \<Rightarrow> (address \<times> u256 \<times> address \<times> u256) \<Rightarrow> Deposit" where
  "Deposit_new = (\<lambda>(t0, t1, t2, t3) (d0, d1, d2, d3).
     \<lparr>Deposit_id = t1, Deposit_from = t2, Deposit_to = t3, Deposit_token = d0, Deposit_amount = d1,
      Deposit_callContract = d2, Deposit_reserveBalance = d3\<rparr>)"

definition Deposit_check_signature :: "hash \<times> u256 \<times> address \<times> address \<Rightarrow> 'x sol_error + unit" where
  "Deposit_check_signature topics =
     (if fst topics \<noteq> Deposit_hash then Inl (InvalidSignatureHash Deposit_signature (fst topics) Deposit_hash)
      else Inr ())"

definition Deposit_tokenize_body :: "Deposit \<Rightarrow> address \<times> u256 \<times> address \<times> u256" where
  "Deposit_tokenize_body e = (Deposit_token e, Deposit_amount e, Deposit_callContract e, Deposit_reserveBalance e)"

definition Deposit_topics :: "Deposit \<Rightarrow> hash \<times> u256 \<times> address \<times> address" where
  "Deposit_topics e = (Deposit_hash, Deposit_id e, Deposit_from e, Deposit_to e)"

definition Deposit_topic_list :: "topic_words \<Rightarrow> hash \<times> u256 \<times> address \<times> address \<Rightarrow> hash list" where
  "Deposit_topic_list W = (\<lambda>(t0, t1, t2, t3). [t0, tw_u256 W t1, tw_address W t2, tw_address W t3])"

definition Deposit_encode_topics_raw ::
    "topic_words \<Rightarrow> Deposit \<Rightarrow> hash list \<Rightarrow> ('x sol_error + hash list) run" where
  "Deposit_encode_topics_raw W e out =
     (if length out < 4 then Inr (Inl Overrun)
      else map_ok Inr
        (and_then (set_at 0 Deposit_hash out) (\<lambda>out.
         and_then (set_at 1 (tw_u256 W (Deposit_id e)) out) (\<lambda>out.
         and_then (set_at 2 (tw_address W (Deposit_from e)) out) (\<lambda>out.
         set_at 3 (tw_address W (Deposit_to e)) out)))))"

definition Deposit_event_impl :: "topic_words \<Rightarrow> (Deposit, hash \<times> u256 \<times> address \<times> address, address \<times> u256 \<times> address \<times> u256, 'x) event_impl" where
  "Deposit_event_impl W =
     \<lparr>ei_signature = Deposit_signature, ei_signature_hash = Deposit_hash, ei_count = 4,
      ei_new = Deposit_new, ei_check_signature = Deposit_check_signature,
      ei_tokenize_body = Deposit_tokenize_body, ei_topics = Deposit_topics, ei_topic_list = Deposit_topic_list W,
      ei_encode_topics_raw = Deposit_encode_topics_raw W\<rparr>"

record Initialized =
  Initialized_version :: u64

definition Initialized_signature :: string where
  "Initialized_signature = ''Initialized(uint64)''"

definition Initialized_hash :: hash where
  "Initialized_hash = b256
     [199, 245, 5, 178, 243, 113, 174, 33, 117, 238, 73, 19, 244, 73, 158, 31, 38, 51, 167, 181, 147,
      99, 33, 238, 209, 205, 174, 182, 17, 81, 129, 210]"

definition Initialized_new :: "hash \<Rightarrow> u64 \<Rightarrow> Initialized" where
  "Initialized_new = (\<lambda>t0 d0.
     \<lparr>Initialized_version = d0\<rparr>)"

definition Initialized_check_signature :: "hash \<Rightarrow> 'x sol_error + unit" where
  "Initialized_check_signature t0 =
     (if t0 \<noteq> Initialized_hash then Inl (InvalidSignatureHash Initialized_signature t0 Initialized_hash)
      else Inr ())"

definition Initialized_tokenize_body :: "Initialized \<Rightarrow> u64" where
  "Initialized_tokenize_body e = (Initialized_version e)"

definition Initialized_topics :: "Initialized \<Rightarrow> hash" where
  "Initialized_topics e = (Initialized_hash)"

definition Initialized_topic_list :: "topic_words \<Rightarrow> hash \<Rightarrow> hash list" where
  "Initialized_topic_list W p = [p]"

definition Initialized_encode_topics_raw ::
    "topic_words \<Rightarrow> Initialized \<Rightarrow> hash list \<Rightarrow> ('x sol_error + hash list) run" where
  "Initialized_encode_topics_raw W e out =
     (if length out < 1 then Inr (Inl Overrun)
      else map_ok Inr
        (set_at 0 Initialized_hash out))"

definition Initialized_event_impl :: "topic_words \<Rightarrow> (Initialized, hash, u64, 'x) event_impl" where
  "Initialized_event_impl W =
     \<lparr>ei_signature = Initialized_signature, ei_signature_hash = Initialized_hash, ei_count = 1,
      ei_new = Initialized_new, ei_check_signature = Initialized_check_signature,
      ei_tokenize_body = Initialized_tokenize_body, ei_topics = Initialized_topics, ei_topic_list = Initialized_topic_list W,
      ei_encode_topics_raw = Initialized_encode_topics_raw W\<rparr>"

record RoleAdminChanged =
  RoleAdminChanged_role :: hash
  RoleAdminChanged_previousAdminRole :: hash
  RoleAdminChanged_newAdminRole :: hash

definition RoleAdminChanged_signature :: string where
  "RoleAdminChanged_signature = ''RoleAdminChanged(bytes32,bytes32,bytes32)''"

definition RoleAdminChanged_hash :: hash where
  "RoleAdminChanged_hash = b256
     [189, 121, 184, 111, 254, 10, 184, 232, 119, 97, 81, 81, 66, 23, 205, 124, 172, 213, 44, 144, 159,
      102, 71, 92, 58, 244, 78, 18, 159, 11, 0, 255]"

definition RoleAdminChanged_new :: "(hash \<times> hash \<times> hash \<times> hash) \<Rightarrow> unit \<Rightarrow> RoleAdminChanged" where
  "RoleAdminChanged_new = (\<lambda>(t0, t1, t2, t3) _.
     \<lparr>RoleAdminChanged_role = t1, RoleAdminChanged_previousAdminRole = t2,
      RoleAdminChanged_newAdminRole = t3\<rparr>)"

definition RoleAdminChanged_check_signature :: "hash \<times> hash \<times> hash \<times> hash \<Rightarrow> 'x sol_error + unit" where
  "RoleAdminChanged_check_signature topics =
     (if fst topics \<noteq> RoleAdminChanged_hash then Inl (InvalidSignatureHash RoleAdminChanged_signature (fst topics) RoleAdminChanged_hash)
      else Inr ())"

definition RoleAdminChanged_tokenize_body :: "RoleAdminChanged \<Rightarrow> unit" where
  "RoleAdminChanged_tokenize_body e = ()"

definition RoleAdminChanged_topics :: "RoleAdminChanged \<Rightarrow> hash \<times> hash \<times> hash \<times> hash" where
  "RoleAdminChanged_topics e = (RoleAdminChanged_hash, RoleAdminChanged_role e, RoleAdminChanged_previousAdminRole e, RoleAdminChanged_newAdminRole e)"

definition RoleAdminChanged_topic_list :: "topic_words \<Rightarrow> hash \<times> hash \<times> hash \<times> hash \<Rightarrow> hash list" where
  "RoleAdminChanged_topic_list W = (\<lambda>(t0, t1, t2, t3). [t0, tw_fixed W t1, tw_fixed W t2, tw_fixed W t3])"

definition RoleAdminChanged_encode_topics_raw ::
    "topic_words \<Rightarrow> RoleAdminChanged \<Rightarrow> hash list \<Rightarrow> ('x sol_error + hash list) run" where
  "RoleAdminChanged_encode_topics_raw W e out =
     (if length out < 4 then Inr (Inl Overrun)
      else map_ok Inr
        (and_then (set_at 0 RoleAdminChanged_hash out) (\<lambda>out.
         and_then (set_at 1 (tw_fixed W (RoleAdminChanged_role e)) out) (\<lambda>out.
         and_then (set_at 2 (tw_fixed W (RoleAdminChanged_previousAdminRole e)) out) (\<lambda>out.
         set_at 3 (tw_fixed W (RoleAdminChanged_newAdminRole e)) out)))))"

definition RoleAdminChanged_event_impl :: "topic_words \<Rightarrow> (RoleAdminChanged, hash \<times> hash \<times> hash \<times> hash, unit, 'x) event_impl" where
  "RoleAdminChanged_event_impl W =
     \<lparr>ei_signature = RoleAdminChanged_signature, ei_signature_hash = RoleAdminChanged_hash, ei_count = 4,
      ei_new = RoleAdminChanged_new, ei_check_signature = RoleAdminChanged_check_signature,
      ei_tokenize_body = RoleAdminChanged_tokenize_body, ei_topics = RoleAdminChanged_topics, ei_topic_list = RoleAdminChanged_topic_list W,
      ei_encode_topics_raw = RoleAdminChanged_encode_topics_raw W\<rparr>"

record RoleGranted =
  RoleGranted_role :: hash
  RoleGranted_account :: address
  RoleGranted_sender :: address

definition RoleGranted_signature :: string where
  "RoleGranted_signature = ''RoleGranted(bytes32,address,address)''"

definition RoleGranted_hash :: hash where
  "RoleGranted_hash = b256
     [47, 135, 136, 17, 126, 126, 255, 29, 130, 233, 38, 236, 121, 73, 1, 209, 124, 120, 2, 74, 80, 39,
      9, 64, 48, 69, 64, 167, 51, 101, 111, 13]"

definition RoleGranted_new :: "(hash \<times> hash \<times> address \<times> address) \<Rightarrow> unit \<Rightarrow> RoleGranted" where
  "RoleGranted_new = (\<lambda>(t0, t1, t2, t3) _.
     \<lparr>RoleGranted_role = t1, RoleGranted_account = t2, RoleGranted_sender = t3\<rparr>)"

definition RoleGranted_check_signature :: "hash \<times> hash \<times> address \<times> address \<Rightarrow> 'x sol_error + unit" where
  "RoleGranted_check_signature topics =
     (if fst topics \<noteq> RoleGranted_hash then Inl (InvalidSignatureHash RoleGranted_signature (fst topics) RoleGranted_hash)
      else Inr ())"

definition RoleGranted_tokenize_body :: "RoleGranted \<Rightarrow> unit" where
  "RoleGranted_tokenize_body e = ()"

definition RoleGranted_topics :: "RoleGranted \<Rightarrow> hash \<times> hash \<times> address \<times> address" where
  "RoleGranted_topics e = (RoleGranted_hash, RoleGranted_role e, RoleGranted_account e, RoleGranted_sender e)"

definition RoleGranted_topic_list :: "topic_words \<Rightarrow> hash \<times> hash \<times> address \<times> address \<Rightarrow> hash list" where
  "RoleGranted_topic_list W = (\<lambda>(t0, t1, t2, t3). [t0, tw_fixed W t1, tw_address W t2, tw_address W t3])"

definition RoleGranted_encode_topics_raw ::
    "topic_words \<Rightarrow> RoleGranted \<Rightarrow> hash list \<Rightarrow> ('x sol_error + hash list) run" where
  "RoleGranted_encode_topics_raw W e out =
     (if length out < 4 then Inr (Inl Overrun)
      else map_ok Inr
        (and_then (set_at 0 RoleGranted_hash out) (\<lambda>out.
         and_then (set_at 1 (tw_fixed W (RoleGranted_role e)) out) (\<lambda>out.
         and_then (set_at 2 (tw_address W (RoleGranted_account e)) out) (\<lambda>out.
         set_at 3 (tw_address W (RoleGranted_sender e)) out)))))"

definition RoleGranted_event_impl :: "topic_words \<Rightarrow> (RoleGranted, hash \<times> hash \<times> address \<times> address, unit, 'x) event_impl" where
  "RoleGranted_event_impl W =
     \<lparr>ei_signature = RoleGranted_signature, ei_signature_hash = RoleGranted_hash, ei_count = 4,
      ei_new = RoleGranted_new, ei_check_signature = RoleGranted_check_signature,
      ei_tokenize_body = RoleGranted_tokenize_body, ei_topics = RoleGranted_topics, ei_topic_list = RoleGranted_topic_list W,
      ei_encode_topics_raw = RoleGranted_encode_topics_raw W\<rparr>"

record RoleRevoked =
  RoleRevoked_role :: hash
  RoleRevoked_account :: address
  RoleRevoked_sender :: address

definition RoleRevoked_signature :: string where
  "RoleRevoked_signature = ''RoleRevoked(bytes32,address,address)''"

definition RoleRevoked_hash :: hash where
  "RoleRevoked_hash = b256
     [246, 57, 31, 92, 50, 217, 198, 157, 42, 71, 234, 103, 11, 68, 41, 116, 181, 57, 53, 209, 237, 199,
      253, 100, 235, 33, 224, 71, 168, 57, 23, 27]"

definition RoleRevoked_new :: "(hash \<times> hash \<times> address \<times> address) \<Rightarrow> unit \<Rightarrow> RoleRevoked" where
  "RoleRevoked_new = (\<lambda>(t0, t1, t2, t3) _.
     \<lparr>RoleRevoked_role = t1, RoleRevoked_account = t2, RoleRevoked_sender = t3\<rparr>)"

definition RoleRevoked_check_signature :: "hash \<times> hash \<times> address \<times> address \<Rightarrow> 'x sol_error + unit" where
  "RoleRevoked_check_signature topics =
     (if fst topics \<noteq> RoleRevoked_hash then Inl (InvalidSignatureHash RoleRevoked_signature (fst topics) RoleRevoked_hash)
      else Inr ())"

definition RoleRevoked_tokenize_body :: "RoleRevoked \<Rightarrow> unit" where
  "RoleRevoked_tokenize_body e = ()"

definition RoleRevoked_topics :: "RoleRevoked \<Rightarrow> hash \<times> hash \<times> address \<times> address" where
  "RoleRevoked_topics e = (RoleRevoked_hash, RoleRevoked_role e, RoleRevoked_account e, RoleRevoked_sender e)"

definition RoleRevoked_topic_list :: "topic_words \<Rightarrow> hash \<times> hash \<times> address \<times> address \<Rightarrow> hash list" where
  "RoleRevoked_topic_list W = (\<lambda>(t0, t1, t2, t3). [t0, tw_fixed W t1, tw_address W t2, tw_address W t3])"

definition RoleRevoked_encode_topics_raw ::
    "topic_words \<Rightarrow> RoleRevoked \<Rightarrow> hash list \<Rightarrow> ('x sol_error + hash list) run" where
  "RoleRevoked_encode_topics_raw W e out =
     (if length out < 4 then Inr (Inl Overrun)
      else map_ok Inr
        (and_then (set_at 0 RoleRevoked_hash out) (\<lambda>out.
         and_then (set_at 1 (tw_fixed W (RoleRevoked_role e)) out) (\<lambda>out.
         and_then (set_at 2 (tw_address W (RoleRevoked_account e)) out) (\<lambda>out.
         set_at 3 (tw_address W (RoleRevoked_sender e)) out)))))"

definition RoleRevoked_event_impl :: "topic_words \<Rightarrow> (RoleRevoked, hash \<times> hash \<times> address \<times> address, unit, 'x) event_impl" where
  "RoleRevoked_event_impl W =
     \<lparr>ei_signature = RoleRevoked_signature, ei_signature_hash = RoleRevoked_hash, ei_count = 4,
      ei_new = RoleRevoked_new, ei_check_signature = RoleRevoked_check_signature,
      ei_tokenize_body = RoleRevoked_tokenize_body, ei_topics = RoleRevoked_topics, ei_topic_list = RoleRevoked_topic_list W,
      ei_encode_topics_raw = RoleRevoked_encode_topics_raw W\<rparr>"

record ValidatorAdded =
  ValidatorAdded_validator :: address

definition ValidatorAdded_signature :: string where
  "ValidatorAdded_signature = ''ValidatorAdded(address)''"

definition ValidatorAdded_hash :: hash where
  "ValidatorAdded_hash = b256
     [227, 102, 193, 192, 69, 46, 216, 238, 201, 104, 97, 233, 229, 65, 65, 235, 255, 35, 201, 236, 137,
      254, 39, 185, 150, 180, 95, 94, 195, 136, 73, 135]"

definition ValidatorAdded_new :: "(hash \<times> address) \<Rightarrow> unit \<Rightarrow> ValidatorAdded" where
  "ValidatorAdded_new = (\<lambda>(t0, t1) _.
     \<lparr>ValidatorAdded_validator = t1\<rparr>)"

definition ValidatorAdded_check_signature :: "hash \<times> address \<Rightarrow> 'x sol_error + unit" where
  "ValidatorAdded_check_signature topics =
     (if fst topics \<noteq> ValidatorAdded_hash then Inl (InvalidSignatureHash ValidatorAdded_signature (fst topics) ValidatorAdded_hash)
      else Inr ())"

definition ValidatorAdded_tokenize_body :: "ValidatorAdded \<Rightarrow> unit" where
  "ValidatorAdded_tokenize_body e = ()"

definition ValidatorAdded_topics :: "ValidatorAdded \<Rightarrow> hash \<times> address" where
  "ValidatorAdded_topics e = (ValidatorAdded_hash, ValidatorAdded_validator e)"

definition ValidatorAdded_topic_list :: "topic_words \<Rightarrow> hash \<times> address \<Rightarrow> hash list" where
  "ValidatorAdded_topic_list W = (\<lambda>(t0, t1). [t0, tw_address W t1])"

definition ValidatorAdded_encode_topics_raw ::
    "topic_words \<Rightarrow> ValidatorAdded \<Rightarrow> hash list \<Rightarrow> ('x sol_error + hash list) run" where
  "ValidatorAdded_encode_topics_raw W e out =
     (if length out < 2 then Inr (Inl Overrun)
      else map_ok Inr
        (and_then (set_at 0 ValidatorAdded_hash out) (\<lambda>out.
         set_at 1 (tw_address W (ValidatorAdded_validator e)) out)))"

definition ValidatorAdded_event_impl :: "topic_words \<Rightarrow> (ValidatorAdded, hash \<times> address, unit, 'x) event_impl" where
  "ValidatorAdded_event_impl W =
     \<lparr>ei_signature = ValidatorAdded_signature, ei_signature_hash = ValidatorAdded_hash, ei_count = 2,
      ei_new = ValidatorAdded_new, ei_check_signature = ValidatorAdded_check_signature,
      ei_tokenize_body = ValidatorAdded_tokenize_body, ei_topics = ValidatorAdded_topics, ei_topic_list = ValidatorAdded_topic_list W,
      ei_encode_topics_raw = ValidatorAdded_encode_topics_raw W\<rparr>"

record ValidatorConfigUpdated =
  ValidatorConfigUpdated_oldVersion :: u256
  ValidatorConfigUpdated_newVersion :: u256

definition ValidatorConfigUpdated_signature :: string where
  "ValidatorConfigUpdated_signature = ''ValidatorConfigUpdated(uint256,uint256)''"

definition ValidatorConfigUpdated_hash :: hash where
  "ValidatorConfigUpdated_hash = b256
     [65, 82, 13, 118, 231, 95, 30, 117, 137, 109, 172, 147, 212, 247, 117, 137, 112, 8, 252, 123, 80,
      117, 220, 240, 207, 247, 188, 178, 250, 18, 158, 136]"

definition ValidatorConfigUpdated_new :: "hash \<Rightarrow> (u256 \<times> u256) \<Rightarrow> ValidatorConfigUpdated" where
  "ValidatorConfigUpdated_new = (\<lambda>t0 (d0, d1).
     \<lparr>ValidatorConfigUpdated_oldVersion = d0, ValidatorConfigUpdated_newVersion = d1\<rparr>)"

definition ValidatorConfigUpdated_check_signature :: "hash \<Rightarrow> 'x sol_error + unit" where
  "ValidatorConfigUpdated_check_signature t0 =
     (if t0 \<noteq> ValidatorConfigUpdated_hash then Inl (InvalidSignatureHash ValidatorConfigUpdated_signature t0 ValidatorConfigUpdated_hash)
      else Inr ())"

definition ValidatorConfigUpdated_tokenize_body :: "ValidatorConfigUpdated \<Rightarrow> u256 \<times> u256" where
  "ValidatorConfigUpdated_tokenize_body e = (ValidatorConfigUpdated_oldVersion e, ValidatorConfigUpdated_newVersion e)"

definition ValidatorConfigUpdated_topics :: "ValidatorConfigUpdated \<Rightarrow> hash" where
  "ValidatorConfigUpdated_topics e = (ValidatorConfigUpdated_hash)"

definition ValidatorConfigUpdated_topic_list :: "topic_words \<Rightarrow> hash \<Rightarrow> hash list" where
  "ValidatorConfigUpdated_topic_list W p = [p]"

definition ValidatorConfigUpdated_encode_topics_raw ::
    "topic_words \<Rightarrow> ValidatorConfigUpdated \<Rightarrow> hash list \<Rightarrow> ('x sol_error + hash list) run" where
  "ValidatorConfigUpdated_encode_topics_raw W e out =
     (if length out < 1 then Inr (Inl Overrun)
      else map_ok Inr
        (set_at 0 ValidatorConfigUpdated_hash out))"

definition ValidatorConfigUpdated_event_impl :: "topic_words \<Rightarrow> (ValidatorConfigUpdated, hash, u256 \<times> u256, 'x) event_impl" where
  "ValidatorConfigUpdated_event_impl W =
     \<lparr>ei_signature = ValidatorConfigUpdated_signature, ei_signature_hash = ValidatorConfigUpdated_hash, ei_count = 1,
      ei_new = ValidatorConfigUpdated_new, ei_check_signature = ValidatorConfigUpdated_check_signature,
      ei_tokenize_body = ValidatorConfigUpdated_tokenize_body, ei_topics = ValidatorConfigUpdated_topics, ei_topic_list = ValidatorConfigUpdated_topic_list W,
      ei_encode_topics_raw = ValidatorConfigUpdated_encode_topics_raw W\<rparr>"

record ValidatorRemoved =
  ValidatorRemoved_validator :: address

definition ValidatorRemoved_signature :: string where
  "ValidatorRemoved_signature = ''ValidatorRemoved(address)''"

definition ValidatorRemoved_hash :: hash where
  "ValidatorRemoved_hash = b256
     [225, 67, 78, 37, 214, 97, 30, 13, 185, 65, 150, 143, 220, 151, 129, 28, 152, 42, 193, 96, 46, 149,
      22, 55, 210, 6, 245, 253, 218, 157, 216, 241]"

definition ValidatorRemoved_new :: "(hash \<times> address) \<Rightarrow> unit \<Rightarrow> ValidatorRemoved" where
  "ValidatorRemoved_new = (\<lambda>(t0, t1) _.
     \<lparr>ValidatorRemoved_validator = t1\<rparr>)"

definition ValidatorRemoved_check_signature :: "hash \<times> address \<Rightarrow> 'x sol_error + unit" where
  "ValidatorRemoved_check_signature topics =
     (if fst topics \<noteq> ValidatorRemoved_hash then Inl (InvalidSignatureHash ValidatorRemoved_signature (fst topics) ValidatorRemoved_hash)
      else Inr ())"

definition ValidatorRemoved_tokenize_body :: "ValidatorRemoved \<Rightarrow> unit" where
  "ValidatorRemoved_tokenize_body e = ()"

definition ValidatorRemoved_topics :: "ValidatorRemoved \<Rightarrow> hash \<times> address" where
  "ValidatorRemoved_topics e = (ValidatorRemoved_hash, ValidatorRemoved_validator e)"

definition ValidatorRemoved_topic_list :: "topic_words \<Rightarrow> hash \<times> address \<Rightarrow> hash list" where
  "ValidatorRemoved_topic_list W = (\<lambda>(t0, t1). [t0, tw_address W t1])"

definition ValidatorRemoved_encode_topics_raw ::
    "topic_words \<Rightarrow> ValidatorRemoved \<Rightarrow> hash list \<Rightarrow> ('x sol_error + hash list) run" where
  "ValidatorRemoved_encode_topics_raw W e out =
     (if length out < 2 then Inr (Inl Overrun)
      else map_ok Inr
        (and_then (set_at 0 ValidatorRemoved_hash out) (\<lambda>out.
         set_at 1 (tw_address W (ValidatorRemoved_validator e)) out)))"

definition ValidatorRemoved_event_impl :: "topic_words \<Rightarrow> (ValidatorRemoved, hash \<times> address, unit, 'x) event_impl" where
  "ValidatorRemoved_event_impl W =
     \<lparr>ei_signature = ValidatorRemoved_signature, ei_signature_hash = ValidatorRemoved_hash, ei_count = 2,
      ei_new = ValidatorRemoved_new, ei_check_signature = ValidatorRemoved_check_signature,
      ei_tokenize_body = ValidatorRemoved_tokenize_body, ei_topics = ValidatorRemoved_topics, ei_topic_list = ValidatorRemoved_topic_list W,
      ei_encode_topics_raw = ValidatorRemoved_encode_topics_raw W\<rparr>"

datatype (plugins only: code) BridgeEvents =
    Claim_event Claim
  | ContractStateChanged_event ContractStateChanged
  | Deposit_event Deposit
  | Initialized_event Initialized
  | RoleAdminChanged_event RoleAdminChanged
  | RoleGranted_event RoleGranted
  | RoleRevoked_event RoleRevoked
  | ValidatorAdded_event ValidatorAdded
  | ValidatorConfigUpdated_event ValidatorConfigUpdated
  | ValidatorRemoved_event ValidatorRemoved

text \<open>The tables in the order of the selectors.\<close>

definition bridge_event_selectors :: "bytes list" where
  "bridge_event_selectors =
     [[47, 135, 136, 17, 126, 126, 255, 29, 130, 233, 38, 236, 121, 73, 1, 209, 124, 120, 2, 74, 80, 39, 9, 64, 48, 69, 64, 167, 51, 101, 111, 13],
      [65, 82, 13, 118, 231, 95, 30, 117, 137, 109, 172, 147, 212, 247, 117, 137, 112, 8, 252, 123, 80, 117, 220, 240, 207, 247, 188, 178, 250, 18, 158, 136],
      [114, 133, 82, 46, 201, 58, 32, 220, 239, 161, 161, 208, 87, 9, 74, 34, 112, 115, 165, 70, 59, 145, 192, 193, 154, 35, 198, 239, 92, 156, 31, 228],
      [160, 185, 156, 15, 223, 195, 149, 114, 77, 123, 129, 168, 138, 109, 116, 133, 36, 97, 247, 105, 19, 113, 175, 226, 131, 155, 184, 104, 132, 117, 120, 140],
      [189, 121, 184, 111, 254, 10, 184, 232, 119, 97, 81, 81, 66, 23, 205, 124, 172, 213, 44, 144, 159, 102, 71, 92, 58, 244, 78, 18, 159, 11, 0, 255],
      [199, 245, 5, 178, 243, 113, 174, 33, 117, 238, 73, 19, 244, 73, 158, 31, 38, 51, 167, 181, 147, 99, 33, 238, 209, 205, 174, 182, 17, 81, 129, 210],
      [215, 91, 254, 173, 135, 147, 159, 166, 49, 132, 242, 2, 254, 63, 148, 109, 249, 50, 20, 189, 233, 88, 136, 88, 152, 51, 211, 155, 75, 131, 250, 196],
      [225, 67, 78, 37, 214, 97, 30, 13, 185, 65, 150, 143, 220, 151, 129, 28, 152, 42, 193, 96, 46, 149, 22, 55, 210, 6, 245, 253, 218, 157, 216, 241],
      [227, 102, 193, 192, 69, 46, 216, 238, 201, 104, 97, 233, 229, 65, 65, 235, 255, 35, 201, 236, 137, 254, 39, 185, 150, 180, 95, 94, 195, 136, 73, 135],
      [246, 57, 31, 92, 50, 217, 198, 157, 42, 71, 234, 103, 11, 68, 41, 116, 181, 57, 53, 209, 237, 199, 253, 100, 235, 33, 224, 71, 168, 57, 23, 27]]"

definition bridge_event_variant_names :: "string list" where
  "bridge_event_variant_names =
     [''RoleGranted'', ''ValidatorConfigUpdated'', ''ContractStateChanged'', ''Claim'',
      ''RoleAdminChanged'', ''Initialized'', ''Deposit'', ''ValidatorRemoved'', ''ValidatorAdded'',
      ''RoleRevoked'']"

definition bridge_event_signatures :: "string list" where
  "bridge_event_signatures =
     [RoleGranted_signature, ValidatorConfigUpdated_signature, ContractStateChanged_signature,
      Claim_signature, RoleAdminChanged_signature, Initialized_signature, Deposit_signature,
      ValidatorRemoved_signature, ValidatorAdded_signature, RoleRevoked_signature]"

definition bridge_event_signature_by_selector :: "bytes \<Rightarrow> string option run" where
  "bridge_event_signature_by_selector sel = table_row bridge_event_selectors bridge_event_signatures sel"

definition bridge_event_name_by_selector :: "bytes \<Rightarrow> string option run" where
  "bridge_event_name_by_selector sel = map_ok name_of_signature (bridge_event_signature_by_selector sel)"

record 'x bridge_event_codecs =
  Claim_abi :: "(Claim, 'x) sol_event"
  ContractStateChanged_abi :: "(ContractStateChanged, 'x) sol_event"
  Deposit_abi :: "(Deposit, 'x) sol_event"
  Initialized_abi :: "(Initialized, 'x) sol_event"
  RoleAdminChanged_abi :: "(RoleAdminChanged, 'x) sol_event"
  RoleGranted_abi :: "(RoleGranted, 'x) sol_event"
  RoleRevoked_abi :: "(RoleRevoked, 'x) sol_event"
  ValidatorAdded_abi :: "(ValidatorAdded, 'x) sol_event"
  ValidatorConfigUpdated_abi :: "(ValidatorConfigUpdated, 'x) sol_event"
  ValidatorRemoved_abi :: "(ValidatorRemoved, 'x) sol_event"

definition bridge_decode_raw_log :: "'x bridge_event_codecs \<Rightarrow> hash list \<Rightarrow> bytes \<Rightarrow> 'x sol_error + BridgeEvents" where
  "bridge_decode_raw_log A topics data =
     (case topics of
        [] \<Rightarrow> Inl (InvalidLog ''BridgeEvents'' topics data)
      | topic0 # _ \<Rightarrow>
          if topic0 = Claim_hash
          then codec Claim_event (se_decode_raw_log (Claim_abi A) topics data)
          else if topic0 = ContractStateChanged_hash
          then codec ContractStateChanged_event (se_decode_raw_log (ContractStateChanged_abi A) topics data)
          else if topic0 = Deposit_hash
          then codec Deposit_event (se_decode_raw_log (Deposit_abi A) topics data)
          else if topic0 = Initialized_hash
          then codec Initialized_event (se_decode_raw_log (Initialized_abi A) topics data)
          else if topic0 = RoleAdminChanged_hash
          then codec RoleAdminChanged_event (se_decode_raw_log (RoleAdminChanged_abi A) topics data)
          else if topic0 = RoleGranted_hash
          then codec RoleGranted_event (se_decode_raw_log (RoleGranted_abi A) topics data)
          else if topic0 = RoleRevoked_hash
          then codec RoleRevoked_event (se_decode_raw_log (RoleRevoked_abi A) topics data)
          else if topic0 = ValidatorAdded_hash
          then codec ValidatorAdded_event (se_decode_raw_log (ValidatorAdded_abi A) topics data)
          else if topic0 = ValidatorConfigUpdated_hash
          then codec ValidatorConfigUpdated_event (se_decode_raw_log (ValidatorConfigUpdated_abi A) topics data)
          else if topic0 = ValidatorRemoved_hash
          then codec ValidatorRemoved_event (se_decode_raw_log (ValidatorRemoved_abi A) topics data)
          else Inl (InvalidLog ''BridgeEvents'' topics data))"

primrec bridge_to_log_data :: "'x bridge_event_codecs \<Rightarrow> BridgeEvents \<Rightarrow> log_data" where
  "bridge_to_log_data A (Claim_event e) = se_encode_log_data (Claim_abi A) e"
| "bridge_to_log_data A (ContractStateChanged_event e) = se_encode_log_data (ContractStateChanged_abi A) e"
| "bridge_to_log_data A (Deposit_event e) = se_encode_log_data (Deposit_abi A) e"
| "bridge_to_log_data A (Initialized_event e) = se_encode_log_data (Initialized_abi A) e"
| "bridge_to_log_data A (RoleAdminChanged_event e) = se_encode_log_data (RoleAdminChanged_abi A) e"
| "bridge_to_log_data A (RoleGranted_event e) = se_encode_log_data (RoleGranted_abi A) e"
| "bridge_to_log_data A (RoleRevoked_event e) = se_encode_log_data (RoleRevoked_abi A) e"
| "bridge_to_log_data A (ValidatorAdded_event e) = se_encode_log_data (ValidatorAdded_abi A) e"
| "bridge_to_log_data A (ValidatorConfigUpdated_event e) = se_encode_log_data (ValidatorConfigUpdated_abi A) e"
| "bridge_to_log_data A (ValidatorRemoved_event e) = se_encode_log_data (ValidatorRemoved_abi A) e"

text \<open>The crate's \<^verbatim>\<open>decode_log\<close> of an interface decodes the log's topics and data.\<close>

definition bridge_decode_log :: "'x bridge_event_codecs \<Rightarrow> eth_log \<Rightarrow> 'x sol_error + BridgeEvents" where
  "bridge_decode_log A log = bridge_decode_raw_log A (ld_topics (lg_data log)) (ld_data (lg_data log))"

section \<open>Laws and dispatch\<close>

interpretation bridge_events: dispatch_table bridge_event_selectors
  by (rule ascending_table) (simp add: bridge_event_selectors_def)

lemma bridge_event_hashes:
  "Claim_hash = 72697999580701022116430930338580371145083985540228504844435370722801642469516"
  "ContractStateChanged_hash = 51799222602657560155870227346986735009848651694096282074328877456444230475748"
  "Deposit_hash = 97409803250217852908618377338326357117985152524139837370286934389643683297988"
  "Initialized_hash = 90443173732180608349131670025767709961475889821310342433215831881459516408274"
  "RoleAdminChanged_hash = 85702189817711154404917517865431859990992624004107199619167714979671022698751"
  "RoleGranted_hash = 21498167346302451094516930465084812798900530214793017313261708129848854408973"
  "RoleRevoked_hash = 111369887473982945697897258602409287065386435722986207154590940387224246097691"
  "ValidatorAdded_hash = 102856572249649376059141812422054920289267120318000904660790522986941536291207"
  "ValidatorConfigUpdated_hash = 29545309545566626815001687730974071285691062532725874669712742692912886881928"
  "ValidatorRemoved_hash = 101889309040884947679501505714605292964185904248791330181233520893924499904753"
  by (simp_all add: b256_def Claim_hash_def ContractStateChanged_hash_def Deposit_hash_def Initialized_hash_def
    RoleAdminChanged_hash_def RoleGranted_hash_def RoleRevoked_hash_def ValidatorAdded_hash_def
    ValidatorConfigUpdated_hash_def ValidatorRemoved_hash_def)

lemmas bridge_event_impls =
  Claim_event_impl_def ContractStateChanged_event_impl_def Deposit_event_impl_def
  Initialized_event_impl_def RoleAdminChanged_event_impl_def RoleGranted_event_impl_def
  RoleRevoked_event_impl_def ValidatorAdded_event_impl_def ValidatorConfigUpdated_event_impl_def
  ValidatorRemoved_event_impl_def

lemmas bridge_event_parts =
  Claim_new_def Claim_check_signature_def Claim_tokenize_body_def Claim_topics_def
  ContractStateChanged_new_def ContractStateChanged_check_signature_def
  ContractStateChanged_tokenize_body_def ContractStateChanged_topics_def Deposit_new_def
  Deposit_check_signature_def Deposit_tokenize_body_def Deposit_topics_def Initialized_new_def
  Initialized_check_signature_def Initialized_tokenize_body_def Initialized_topics_def
  RoleAdminChanged_new_def RoleAdminChanged_check_signature_def RoleAdminChanged_tokenize_body_def
  RoleAdminChanged_topics_def RoleGranted_new_def RoleGranted_check_signature_def
  RoleGranted_tokenize_body_def RoleGranted_topics_def RoleRevoked_new_def
  RoleRevoked_check_signature_def RoleRevoked_tokenize_body_def RoleRevoked_topics_def
  ValidatorAdded_new_def ValidatorAdded_check_signature_def ValidatorAdded_tokenize_body_def
  ValidatorAdded_topics_def ValidatorConfigUpdated_new_def ValidatorConfigUpdated_check_signature_def
  ValidatorConfigUpdated_tokenize_body_def ValidatorConfigUpdated_topics_def ValidatorRemoved_new_def
  ValidatorRemoved_check_signature_def ValidatorRemoved_tokenize_body_def ValidatorRemoved_topics_def

lemmas bridge_event_encode_topics =
  Claim_encode_topics_raw_def ContractStateChanged_encode_topics_raw_def Deposit_encode_topics_raw_def
  Initialized_encode_topics_raw_def RoleAdminChanged_encode_topics_raw_def
  RoleGranted_encode_topics_raw_def RoleRevoked_encode_topics_raw_def
  ValidatorAdded_encode_topics_raw_def ValidatorConfigUpdated_encode_topics_raw_def
  ValidatorRemoved_encode_topics_raw_def

lemmas bridge_event_topic_lists =
  Claim_topic_list_def ContractStateChanged_topic_list_def Deposit_topic_list_def
  Initialized_topic_list_def RoleAdminChanged_topic_list_def RoleGranted_topic_list_def
  RoleRevoked_topic_list_def ValidatorAdded_topic_list_def ValidatorConfigUpdated_topic_list_def
  ValidatorRemoved_topic_list_def

lemma bridge_event_consistent:
  "event_consistent (Claim_event_impl W)"
  "event_consistent (ContractStateChanged_event_impl W)"
  "event_consistent (Deposit_event_impl W)"
  "event_consistent (Initialized_event_impl W)"
  "event_consistent (RoleAdminChanged_event_impl W)"
  "event_consistent (RoleGranted_event_impl W)"
  "event_consistent (RoleRevoked_event_impl W)"
  "event_consistent (ValidatorAdded_event_impl W)"
  "event_consistent (ValidatorConfigUpdated_event_impl W)"
  "event_consistent (ValidatorRemoved_event_impl W)"
  by (simp_all add: event_consistent_def bridge_event_impls bridge_event_parts bridge_event_topic_lists
    bridge_event_encode_topics set_at_def)

primrec bridge_event_law :: "topic_words \<Rightarrow> 'x bridge_event_codecs \<Rightarrow> BridgeEvents \<Rightarrow> bool" where
  "bridge_event_law W A (Claim_event e) \<longleftrightarrow> impl_event_law (Claim_event_impl W) fst (Claim_abi A) e"
| "bridge_event_law W A (ContractStateChanged_event e) \<longleftrightarrow> impl_event_law (ContractStateChanged_event_impl W) id (ContractStateChanged_abi A) e"
| "bridge_event_law W A (Deposit_event e) \<longleftrightarrow> impl_event_law (Deposit_event_impl W) fst (Deposit_abi A) e"
| "bridge_event_law W A (Initialized_event e) \<longleftrightarrow> impl_event_law (Initialized_event_impl W) id (Initialized_abi A) e"
| "bridge_event_law W A (RoleAdminChanged_event e) \<longleftrightarrow> impl_event_law (RoleAdminChanged_event_impl W) fst (RoleAdminChanged_abi A) e"
| "bridge_event_law W A (RoleGranted_event e) \<longleftrightarrow> impl_event_law (RoleGranted_event_impl W) fst (RoleGranted_abi A) e"
| "bridge_event_law W A (RoleRevoked_event e) \<longleftrightarrow> impl_event_law (RoleRevoked_event_impl W) fst (RoleRevoked_abi A) e"
| "bridge_event_law W A (ValidatorAdded_event e) \<longleftrightarrow> impl_event_law (ValidatorAdded_event_impl W) fst (ValidatorAdded_abi A) e"
| "bridge_event_law W A (ValidatorConfigUpdated_event e) \<longleftrightarrow> impl_event_law (ValidatorConfigUpdated_event_impl W) id (ValidatorConfigUpdated_abi A) e"
| "bridge_event_law W A (ValidatorRemoved_event e) \<longleftrightarrow> impl_event_law (ValidatorRemoved_event_impl W) fst (ValidatorRemoved_abi A) e"

text \<open>The first topic written is the signature hash.\<close>

primrec bridge_event_hash_of :: "BridgeEvents \<Rightarrow> hash" where
  "bridge_event_hash_of (Claim_event e) = Claim_hash"
| "bridge_event_hash_of (ContractStateChanged_event e) = ContractStateChanged_hash"
| "bridge_event_hash_of (Deposit_event e) = Deposit_hash"
| "bridge_event_hash_of (Initialized_event e) = Initialized_hash"
| "bridge_event_hash_of (RoleAdminChanged_event e) = RoleAdminChanged_hash"
| "bridge_event_hash_of (RoleGranted_event e) = RoleGranted_hash"
| "bridge_event_hash_of (RoleRevoked_event e) = RoleRevoked_hash"
| "bridge_event_hash_of (ValidatorAdded_event e) = ValidatorAdded_hash"
| "bridge_event_hash_of (ValidatorConfigUpdated_event e) = ValidatorConfigUpdated_hash"
| "bridge_event_hash_of (ValidatorRemoved_event e) = ValidatorRemoved_hash"

lemma bridge_event_first_topic:
  assumes "bridge_event_law W A e"
  shows "\<exists>rest. ld_topics (bridge_to_log_data A e) = bridge_event_hash_of e # rest"
  using assms
  by (cases e)
    (auto dest!: event_topics_written [THEN sym] simp: bridge_event_impls bridge_event_encode_topics set_at_def)

lemmas bridge_event_reads = bridge_event_consistent [THEN event_round_trip [rotated]]

text \<open>
  C40. Every event of the bridge is read back from its log data: the words written for its topics
  are those of its topic list for its topics, in their order and beginning with its signature
  hash, which the dispatch matches; read back by the crate they pass its signature check and,
  with the body, make the same event.
\<close>

theorem bridge_event_decodes:
  assumes "bridge_event_law W A e"
  shows "bridge_decode_raw_log A (ld_topics (bridge_to_log_data A e)) (ld_data (bridge_to_log_data A e)) = Inr e"
proof -
  have "ld_topics (bridge_to_log_data A e) \<noteq> []" "hd (ld_topics (bridge_to_log_data A e)) = bridge_event_hash_of e"
    using bridge_event_first_topic [OF assms] by auto
  then show ?thesis
    using assms
    by (cases e) (simp_all add: bridge_decode_raw_log_def list.case_eq_if bridge_event_hashes bridge_event_reads)
qed

lemma bridge_event_typed:
  assumes "bridge_decode_raw_log A topics data = Inr e"
  shows "\<exists>rest. topics = bridge_event_hash_of e # rest"
  using assms
  by (auto simp: bridge_decode_raw_log_def codec_def split: list.splits if_splits sum.splits)

text \<open>A sample: a deposit, with the topics as plain words.\<close>

definition plain_words :: topic_words where
  "plain_words = \<lparr>tw_fixed = id, tw_u256 = id, tw_address = ucast, tw_u64 = ucast\<rparr>"

fun deposit_topics :: "hash list \<Rightarrow> unit + hash \<times> u256 \<times> address \<times> address" where
  "deposit_topics [t0, t1, t2, t3] = Inr (t0, t1, ucast t2, ucast t3)"
| "deposit_topics _ = Inl ()"

definition sample_deposit :: Deposit where
  "sample_deposit =
     \<lparr>Deposit_id = 9, Deposit_from = 5, Deposit_to = 1, Deposit_token = 2, Deposit_amount = 100,
      Deposit_callContract = 0, Deposit_reserveBalance = 0\<rparr>"

definition sample_deposit_abi :: "(Deposit, unit) sol_event" where
  "sample_deposit_abi =
     provided_event () (Deposit_event_impl plain_words) deposit_topics (sample_tuple (2, 100, 0, 0))"

lemma sample_deposit_methods:
  "event_methods (Deposit_event_impl plain_words) fst deposit_topics (sample_tuple (2, 100, 0, 0)) sample_deposit_abi"
  unfolding sample_deposit_abi_def
proof (rule provided_event_methods)
  show "\<exists>ts. ei_encode_topics_raw (Deposit_event_impl plain_words) e
      (replicate (ei_count (Deposit_event_impl plain_words)) 0) = Inr (Inr ts)" for e
    by (simp add: Deposit_event_impl_def Deposit_encode_topics_raw_def set_at_def)
  show "\<exists>rest. topics = fst p # rest" if "deposit_topics topics = Inr p" for topics p
    using that by (cases topics rule: deposit_topics.cases) auto
qed

lemma sample_deposit_law: "impl_event_law (Deposit_event_impl plain_words) fst sample_deposit_abi sample_deposit"
proof -
  have "event_reads (Deposit_event_impl plain_words) deposit_topics (sample_tuple (2, 100, 0, 0)) sample_deposit"
    by (auto simp: event_reads_def Deposit_event_impl_def Deposit_topic_list_def plain_words_def ucast_up_ucast_id is_up
        Deposit_tokenize_body_def sample_deposit_def sample_tuple_law)
  with sample_deposit_methods show ?thesis by (auto simp: impl_event_law_def)
qed

theorem bridge_event_decodes_witness:
  "\<forall>A. bridge_decode_raw_log (A\<lparr>Deposit_abi := sample_deposit_abi\<rparr>) [Deposit_hash, 9, 5, 1] [7]
     = Inr (Deposit_event sample_deposit)"
proof
  fix A :: "unit bridge_event_codecs"
  let ?A = "A\<lparr>Deposit_abi := sample_deposit_abi\<rparr>"
  have "bridge_event_law plain_words ?A (Deposit_event sample_deposit)" using sample_deposit_law by simp
  from bridge_event_decodes [OF this]
  show "bridge_decode_raw_log ?A [Deposit_hash, 9, 5, 1] [7] = Inr (Deposit_event sample_deposit)"
    by (simp add: sample_deposit_abi_def provided_event_def Deposit_event_impl_def sample_tuple_def
        Deposit_encode_topics_raw_def set_at_def plain_words_def sample_deposit_def)
qed

end
