(* ===== verification/Wrapped_Calls.thy ===== *)
theory Wrapped_Calls
  imports Sol_Traits
begin

text \<open>
  The calls of \<^verbatim>\<open>protocol/bindings/src/wrapped_token.rs\<close>, the bridged token: structs, implementations, tables and the
  builders of an instance, as in \<open>Bridge_Calls\<close>.
\<close>

section \<open>The calls\<close>

definition DEFAULT_ADMIN_ROLECall_impl :: "(unit, unit) sol_impl" where
  "DEFAULT_ADMIN_ROLECall_impl =
     \<lparr>si_signature = ''DEFAULT_ADMIN_ROLE()'',
      si_selector = [162, 23, 253, 223],
      si_new = (\<lambda>_. ()),
      si_tokenize = (\<lambda>_. ())\<rparr>"

definition DOMAIN_SEPARATORCall_impl :: "(unit, unit) sol_impl" where
  "DOMAIN_SEPARATORCall_impl =
     \<lparr>si_signature = ''DOMAIN_SEPARATOR()'',
      si_selector = [54, 68, 229, 21],
      si_new = (\<lambda>_. ()),
      si_tokenize = (\<lambda>_. ())\<rparr>"

definition MINTER_ROLECall_impl :: "(unit, unit) sol_impl" where
  "MINTER_ROLECall_impl =
     \<lparr>si_signature = ''MINTER_ROLE()'',
      si_selector = [213, 57, 19, 147],
      si_new = (\<lambda>_. ()),
      si_tokenize = (\<lambda>_. ())\<rparr>"

definition PAUSER_ROLECall_impl :: "(unit, unit) sol_impl" where
  "PAUSER_ROLECall_impl =
     \<lparr>si_signature = ''PAUSER_ROLE()'',
      si_selector = [230, 58, 177, 233],
      si_new = (\<lambda>_. ()),
      si_tokenize = (\<lambda>_. ())\<rparr>"

record allowanceCall =
  allowanceCall_owner :: address
  allowanceCall_spender :: address

definition allowanceCall_of_tuple :: "address \<times> address \<Rightarrow> allowanceCall" where
  "allowanceCall_of_tuple = (\<lambda>(t0, t1).
     \<lparr>allowanceCall_owner = t0, allowanceCall_spender = t1\<rparr>)"

definition allowanceCall_impl :: "(allowanceCall, address \<times> address) sol_impl" where
  "allowanceCall_impl =
     \<lparr>si_signature = ''allowance(address,address)'',
      si_selector = [221, 98, 237, 62],
      si_new = allowanceCall_of_tuple,
      si_tokenize = (\<lambda>c. (allowanceCall_owner c, allowanceCall_spender c))\<rparr>"

record approveCall =
  approveCall_spender :: address
  approveCall_value :: u256

definition approveCall_of_tuple :: "address \<times> u256 \<Rightarrow> approveCall" where
  "approveCall_of_tuple = (\<lambda>(t0, t1).
     \<lparr>approveCall_spender = t0, approveCall_value = t1\<rparr>)"

definition approveCall_impl :: "(approveCall, address \<times> u256) sol_impl" where
  "approveCall_impl =
     \<lparr>si_signature = ''approve(address,uint256)'',
      si_selector = [9, 94, 167, 179],
      si_new = approveCall_of_tuple,
      si_tokenize = (\<lambda>c. (approveCall_spender c, approveCall_value c))\<rparr>"

record balanceOfCall =
  balanceOfCall_account :: address

definition balanceOfCall_of_tuple :: "address \<Rightarrow> balanceOfCall" where
  "balanceOfCall_of_tuple = (\<lambda>t0.
     \<lparr>balanceOfCall_account = t0\<rparr>)"

definition balanceOfCall_impl :: "(balanceOfCall, address) sol_impl" where
  "balanceOfCall_impl =
     \<lparr>si_signature = ''balanceOf(address)'',
      si_selector = [112, 160, 130, 49],
      si_new = balanceOfCall_of_tuple,
      si_tokenize = balanceOfCall_account\<rparr>"

record burnCall =
  burnCall_value :: u256

definition burnCall_of_tuple :: "u256 \<Rightarrow> burnCall" where
  "burnCall_of_tuple = (\<lambda>t0.
     \<lparr>burnCall_value = t0\<rparr>)"

definition burnCall_impl :: "(burnCall, u256) sol_impl" where
  "burnCall_impl =
     \<lparr>si_signature = ''burn(uint256)'',
      si_selector = [66, 150, 108, 104],
      si_new = burnCall_of_tuple,
      si_tokenize = burnCall_value\<rparr>"

record burnFromCall =
  burnFromCall_account :: address
  burnFromCall_value :: u256

definition burnFromCall_of_tuple :: "address \<times> u256 \<Rightarrow> burnFromCall" where
  "burnFromCall_of_tuple = (\<lambda>(t0, t1).
     \<lparr>burnFromCall_account = t0, burnFromCall_value = t1\<rparr>)"

definition burnFromCall_impl :: "(burnFromCall, address \<times> u256) sol_impl" where
  "burnFromCall_impl =
     \<lparr>si_signature = ''burnFrom(address,uint256)'',
      si_selector = [121, 204, 103, 144],
      si_new = burnFromCall_of_tuple,
      si_tokenize = (\<lambda>c. (burnFromCall_account c, burnFromCall_value c))\<rparr>"

definition decimalsCall_impl :: "(unit, unit) sol_impl" where
  "decimalsCall_impl =
     \<lparr>si_signature = ''decimals()'',
      si_selector = [49, 60, 229, 103],
      si_new = (\<lambda>_. ()),
      si_tokenize = (\<lambda>_. ())\<rparr>"

definition eip712DomainCall_impl :: "(unit, unit) sol_impl" where
  "eip712DomainCall_impl =
     \<lparr>si_signature = ''eip712Domain()'',
      si_selector = [132, 176, 25, 110],
      si_new = (\<lambda>_. ()),
      si_tokenize = (\<lambda>_. ())\<rparr>"

record getRoleAdminCall =
  getRoleAdminCall_role :: hash

definition getRoleAdminCall_of_tuple :: "hash \<Rightarrow> getRoleAdminCall" where
  "getRoleAdminCall_of_tuple = (\<lambda>t0.
     \<lparr>getRoleAdminCall_role = t0\<rparr>)"

definition getRoleAdminCall_impl :: "(getRoleAdminCall, hash) sol_impl" where
  "getRoleAdminCall_impl =
     \<lparr>si_signature = ''getRoleAdmin(bytes32)'',
      si_selector = [36, 138, 156, 163],
      si_new = getRoleAdminCall_of_tuple,
      si_tokenize = getRoleAdminCall_role\<rparr>"

record grantRoleCall =
  grantRoleCall_role :: hash
  grantRoleCall_account :: address

definition grantRoleCall_of_tuple :: "hash \<times> address \<Rightarrow> grantRoleCall" where
  "grantRoleCall_of_tuple = (\<lambda>(t0, t1).
     \<lparr>grantRoleCall_role = t0, grantRoleCall_account = t1\<rparr>)"

definition grantRoleCall_impl :: "(grantRoleCall, hash \<times> address) sol_impl" where
  "grantRoleCall_impl =
     \<lparr>si_signature = ''grantRole(bytes32,address)'',
      si_selector = [47, 47, 241, 93],
      si_new = grantRoleCall_of_tuple,
      si_tokenize = (\<lambda>c. (grantRoleCall_role c, grantRoleCall_account c))\<rparr>"

record hasRoleCall =
  hasRoleCall_role :: hash
  hasRoleCall_account :: address

definition hasRoleCall_of_tuple :: "hash \<times> address \<Rightarrow> hasRoleCall" where
  "hasRoleCall_of_tuple = (\<lambda>(t0, t1).
     \<lparr>hasRoleCall_role = t0, hasRoleCall_account = t1\<rparr>)"

definition hasRoleCall_impl :: "(hasRoleCall, hash \<times> address) sol_impl" where
  "hasRoleCall_impl =
     \<lparr>si_signature = ''hasRole(bytes32,address)'',
      si_selector = [145, 209, 72, 84],
      si_new = hasRoleCall_of_tuple,
      si_tokenize = (\<lambda>c. (hasRoleCall_role c, hasRoleCall_account c))\<rparr>"

record mintCall =
  mintCall_to :: address
  mintCall_amount :: u256

definition mintCall_of_tuple :: "address \<times> u256 \<Rightarrow> mintCall" where
  "mintCall_of_tuple = (\<lambda>(t0, t1).
     \<lparr>mintCall_to = t0, mintCall_amount = t1\<rparr>)"

definition mintCall_impl :: "(mintCall, address \<times> u256) sol_impl" where
  "mintCall_impl =
     \<lparr>si_signature = ''mint(address,uint256)'',
      si_selector = [64, 193, 15, 25],
      si_new = mintCall_of_tuple,
      si_tokenize = (\<lambda>c. (mintCall_to c, mintCall_amount c))\<rparr>"

definition nameCall_impl :: "(unit, unit) sol_impl" where
  "nameCall_impl =
     \<lparr>si_signature = ''name()'',
      si_selector = [6, 253, 222, 3],
      si_new = (\<lambda>_. ()),
      si_tokenize = (\<lambda>_. ())\<rparr>"

record noncesCall =
  noncesCall_owner :: address

definition noncesCall_of_tuple :: "address \<Rightarrow> noncesCall" where
  "noncesCall_of_tuple = (\<lambda>t0.
     \<lparr>noncesCall_owner = t0\<rparr>)"

definition noncesCall_impl :: "(noncesCall, address) sol_impl" where
  "noncesCall_impl =
     \<lparr>si_signature = ''nonces(address)'',
      si_selector = [126, 206, 190, 0],
      si_new = noncesCall_of_tuple,
      si_tokenize = noncesCall_owner\<rparr>"

definition pauseCall_impl :: "(unit, unit) sol_impl" where
  "pauseCall_impl =
     \<lparr>si_signature = ''pause()'',
      si_selector = [132, 86, 203, 89],
      si_new = (\<lambda>_. ()),
      si_tokenize = (\<lambda>_. ())\<rparr>"

definition pausedCall_impl :: "(unit, unit) sol_impl" where
  "pausedCall_impl =
     \<lparr>si_signature = ''paused()'',
      si_selector = [92, 151, 90, 187],
      si_new = (\<lambda>_. ()),
      si_tokenize = (\<lambda>_. ())\<rparr>"

record permitCall =
  permitCall_owner :: address
  permitCall_spender :: address
  permitCall_value :: u256
  permitCall_deadline :: u256
  permitCall_v :: byte
  permitCall_r :: hash
  permitCall_s :: hash

definition permitCall_of_tuple :: "address \<times> address \<times> u256 \<times> u256 \<times> byte \<times> hash \<times> hash \<Rightarrow> permitCall" where
  "permitCall_of_tuple = (\<lambda>(t0, t1, t2, t3, t4, t5, t6).
     \<lparr>permitCall_owner = t0, permitCall_spender = t1, permitCall_value = t2, permitCall_deadline = t3,
      permitCall_v = t4, permitCall_r = t5, permitCall_s = t6\<rparr>)"

definition permitCall_impl :: "(permitCall, address \<times> address \<times> u256 \<times> u256 \<times> byte \<times> hash \<times> hash) sol_impl" where
  "permitCall_impl =
     \<lparr>si_signature = ''permit(address,address,uint256,uint256,uint8,bytes32,bytes32)'',
      si_selector = [213, 5, 172, 207],
      si_new = permitCall_of_tuple,
      si_tokenize = (\<lambda>c. (permitCall_owner c, permitCall_spender c, permitCall_value c, permitCall_deadline c,
              permitCall_v c, permitCall_r c, permitCall_s c))\<rparr>"

record renounceRoleCall =
  renounceRoleCall_role :: hash
  renounceRoleCall_callerConfirmation :: address

definition renounceRoleCall_of_tuple :: "hash \<times> address \<Rightarrow> renounceRoleCall" where
  "renounceRoleCall_of_tuple = (\<lambda>(t0, t1).
     \<lparr>renounceRoleCall_role = t0, renounceRoleCall_callerConfirmation = t1\<rparr>)"

definition renounceRoleCall_impl :: "(renounceRoleCall, hash \<times> address) sol_impl" where
  "renounceRoleCall_impl =
     \<lparr>si_signature = ''renounceRole(bytes32,address)'',
      si_selector = [54, 86, 138, 190],
      si_new = renounceRoleCall_of_tuple,
      si_tokenize = (\<lambda>c. (renounceRoleCall_role c, renounceRoleCall_callerConfirmation c))\<rparr>"

record revokeRoleCall =
  revokeRoleCall_role :: hash
  revokeRoleCall_account :: address

definition revokeRoleCall_of_tuple :: "hash \<times> address \<Rightarrow> revokeRoleCall" where
  "revokeRoleCall_of_tuple = (\<lambda>(t0, t1).
     \<lparr>revokeRoleCall_role = t0, revokeRoleCall_account = t1\<rparr>)"

definition revokeRoleCall_impl :: "(revokeRoleCall, hash \<times> address) sol_impl" where
  "revokeRoleCall_impl =
     \<lparr>si_signature = ''revokeRole(bytes32,address)'',
      si_selector = [213, 71, 116, 31],
      si_new = revokeRoleCall_of_tuple,
      si_tokenize = (\<lambda>c. (revokeRoleCall_role c, revokeRoleCall_account c))\<rparr>"

record supportsInterfaceCall =
  supportsInterfaceCall_interfaceId :: bytes4

definition supportsInterfaceCall_of_tuple :: "bytes4 \<Rightarrow> supportsInterfaceCall" where
  "supportsInterfaceCall_of_tuple = (\<lambda>t0.
     \<lparr>supportsInterfaceCall_interfaceId = t0\<rparr>)"

definition supportsInterfaceCall_impl :: "(supportsInterfaceCall, bytes4) sol_impl" where
  "supportsInterfaceCall_impl =
     \<lparr>si_signature = ''supportsInterface(bytes4)'',
      si_selector = [1, 255, 201, 167],
      si_new = supportsInterfaceCall_of_tuple,
      si_tokenize = supportsInterfaceCall_interfaceId\<rparr>"

definition symbolCall_impl :: "(unit, unit) sol_impl" where
  "symbolCall_impl =
     \<lparr>si_signature = ''symbol()'',
      si_selector = [149, 216, 155, 65],
      si_new = (\<lambda>_. ()),
      si_tokenize = (\<lambda>_. ())\<rparr>"

definition totalSupplyCall_impl :: "(unit, unit) sol_impl" where
  "totalSupplyCall_impl =
     \<lparr>si_signature = ''totalSupply()'',
      si_selector = [24, 22, 13, 221],
      si_new = (\<lambda>_. ()),
      si_tokenize = (\<lambda>_. ())\<rparr>"

record transferCall =
  transferCall_to :: address
  transferCall_value :: u256

definition transferCall_of_tuple :: "address \<times> u256 \<Rightarrow> transferCall" where
  "transferCall_of_tuple = (\<lambda>(t0, t1).
     \<lparr>transferCall_to = t0, transferCall_value = t1\<rparr>)"

definition transferCall_impl :: "(transferCall, address \<times> u256) sol_impl" where
  "transferCall_impl =
     \<lparr>si_signature = ''transfer(address,uint256)'',
      si_selector = [169, 5, 156, 187],
      si_new = transferCall_of_tuple,
      si_tokenize = (\<lambda>c. (transferCall_to c, transferCall_value c))\<rparr>"

record transferFromCall =
  transferFromCall_from :: address
  transferFromCall_to :: address
  transferFromCall_value :: u256

definition transferFromCall_of_tuple :: "address \<times> address \<times> u256 \<Rightarrow> transferFromCall" where
  "transferFromCall_of_tuple = (\<lambda>(t0, t1, t2).
     \<lparr>transferFromCall_from = t0, transferFromCall_to = t1, transferFromCall_value = t2\<rparr>)"

definition transferFromCall_impl :: "(transferFromCall, address \<times> address \<times> u256) sol_impl" where
  "transferFromCall_impl =
     \<lparr>si_signature = ''transferFrom(address,address,uint256)'',
      si_selector = [35, 184, 114, 221],
      si_new = transferFromCall_of_tuple,
      si_tokenize = (\<lambda>c. (transferFromCall_from c, transferFromCall_to c, transferFromCall_value c))\<rparr>"

definition unpauseCall_impl :: "(unit, unit) sol_impl" where
  "unpauseCall_impl =
     \<lparr>si_signature = ''unpause()'',
      si_selector = [63, 75, 168, 58],
      si_new = (\<lambda>_. ()),
      si_tokenize = (\<lambda>_. ())\<rparr>"

datatype (plugins only: code) WrappedTokenCalls =
    DEFAULT_ADMIN_ROLE_call
  | DOMAIN_SEPARATOR_call
  | MINTER_ROLE_call
  | PAUSER_ROLE_call
  | allowance_call allowanceCall
  | approve_call approveCall
  | balanceOf_call balanceOfCall
  | burn_call burnCall
  | burnFrom_call burnFromCall
  | decimals_call
  | eip712Domain_call
  | getRoleAdmin_call getRoleAdminCall
  | grantRole_call grantRoleCall
  | hasRole_call hasRoleCall
  | mint_call mintCall
  | name_call
  | nonces_call noncesCall
  | pause_call
  | paused_call
  | permit_call permitCall
  | renounceRole_call renounceRoleCall
  | revokeRole_call revokeRoleCall
  | supportsInterface_call supportsInterfaceCall
  | symbol_call
  | totalSupply_call
  | transfer_call transferCall
  | transferFrom_call transferFromCall
  | unpause_call

text \<open>The tables in the order of the selectors.\<close>

definition wrapped_call_selectors :: "bytes list" where
  "wrapped_call_selectors =
     [[1, 255, 201, 167], [6, 253, 222, 3], [9, 94, 167, 179], [24, 22, 13, 221], [35, 184, 114, 221],
      [36, 138, 156, 163], [47, 47, 241, 93], [49, 60, 229, 103], [54, 68, 229, 21], [54, 86, 138, 190],
      [63, 75, 168, 58], [64, 193, 15, 25], [66, 150, 108, 104], [92, 151, 90, 187],
      [112, 160, 130, 49], [121, 204, 103, 144], [126, 206, 190, 0], [132, 86, 203, 89],
      [132, 176, 25, 110], [145, 209, 72, 84], [149, 216, 155, 65], [162, 23, 253, 223],
      [169, 5, 156, 187], [213, 5, 172, 207], [213, 57, 19, 147], [213, 71, 116, 31],
      [221, 98, 237, 62], [230, 58, 177, 233]]"

definition wrapped_call_variant_names :: "string list" where
  "wrapped_call_variant_names =
     [''supportsInterface'', ''name'', ''approve'', ''totalSupply'', ''transferFrom'', ''getRoleAdmin'',
      ''grantRole'', ''decimals'', ''DOMAIN_SEPARATOR'', ''renounceRole'', ''unpause'', ''mint'',
      ''burn'', ''paused'', ''balanceOf'', ''burnFrom'', ''nonces'', ''pause'', ''eip712Domain'',
      ''hasRole'', ''symbol'', ''DEFAULT_ADMIN_ROLE'', ''transfer'', ''permit'', ''MINTER_ROLE'',
      ''revokeRole'', ''allowance'', ''PAUSER_ROLE'']"

definition wrapped_call_signatures :: "string list" where
  "wrapped_call_signatures =
     [si_signature supportsInterfaceCall_impl, si_signature nameCall_impl,
      si_signature approveCall_impl, si_signature totalSupplyCall_impl,
      si_signature transferFromCall_impl, si_signature getRoleAdminCall_impl,
      si_signature grantRoleCall_impl, si_signature decimalsCall_impl,
      si_signature DOMAIN_SEPARATORCall_impl, si_signature renounceRoleCall_impl,
      si_signature unpauseCall_impl, si_signature mintCall_impl, si_signature burnCall_impl,
      si_signature pausedCall_impl, si_signature balanceOfCall_impl, si_signature burnFromCall_impl,
      si_signature noncesCall_impl, si_signature pauseCall_impl, si_signature eip712DomainCall_impl,
      si_signature hasRoleCall_impl, si_signature symbolCall_impl,
      si_signature DEFAULT_ADMIN_ROLECall_impl, si_signature transferCall_impl,
      si_signature permitCall_impl, si_signature MINTER_ROLECall_impl, si_signature revokeRoleCall_impl,
      si_signature allowanceCall_impl, si_signature PAUSER_ROLECall_impl]"

definition wrapped_call_signature_by_selector :: "bytes \<Rightarrow> string option run" where
  "wrapped_call_signature_by_selector sel = table_row wrapped_call_selectors wrapped_call_signatures sel"

definition wrapped_call_name_by_selector :: "bytes \<Rightarrow> string option run" where
  "wrapped_call_name_by_selector sel = map_ok name_of_signature (wrapped_call_signature_by_selector sel)"

text \<open>The crate's codecs; the structs without fields share one.\<close>

record 'x wrapped_call_codecs =
  unit_wrapped_call_abi :: "(unit, 'x) sol_call"
  allowanceCall_abi :: "(allowanceCall, 'x) sol_call"
  approveCall_abi :: "(approveCall, 'x) sol_call"
  balanceOfCall_abi :: "(balanceOfCall, 'x) sol_call"
  burnCall_abi :: "(burnCall, 'x) sol_call"
  burnFromCall_abi :: "(burnFromCall, 'x) sol_call"
  getRoleAdminCall_abi :: "(getRoleAdminCall, 'x) sol_call"
  grantRoleCall_abi :: "(grantRoleCall, 'x) sol_call"
  hasRoleCall_abi :: "(hasRoleCall, 'x) sol_call"
  mintCall_abi :: "(mintCall, 'x) sol_call"
  noncesCall_abi :: "(noncesCall, 'x) sol_call"
  permitCall_abi :: "(permitCall, 'x) sol_call"
  renounceRoleCall_abi :: "(renounceRoleCall, 'x) sol_call"
  revokeRoleCall_abi :: "(revokeRoleCall, 'x) sol_call"
  supportsInterfaceCall_abi :: "(supportsInterfaceCall, 'x) sol_call"
  transferCall_abi :: "(transferCall, 'x) sol_call"
  transferFromCall_abi :: "(transferFromCall, 'x) sol_call"

primrec wrapped_call_selector :: "WrappedTokenCalls \<Rightarrow> bytes" where
  "wrapped_call_selector DEFAULT_ADMIN_ROLE_call = si_selector DEFAULT_ADMIN_ROLECall_impl"
| "wrapped_call_selector DOMAIN_SEPARATOR_call = si_selector DOMAIN_SEPARATORCall_impl"
| "wrapped_call_selector MINTER_ROLE_call = si_selector MINTER_ROLECall_impl"
| "wrapped_call_selector PAUSER_ROLE_call = si_selector PAUSER_ROLECall_impl"
| "wrapped_call_selector (allowance_call c) = si_selector allowanceCall_impl"
| "wrapped_call_selector (approve_call c) = si_selector approveCall_impl"
| "wrapped_call_selector (balanceOf_call c) = si_selector balanceOfCall_impl"
| "wrapped_call_selector (burn_call c) = si_selector burnCall_impl"
| "wrapped_call_selector (burnFrom_call c) = si_selector burnFromCall_impl"
| "wrapped_call_selector decimals_call = si_selector decimalsCall_impl"
| "wrapped_call_selector eip712Domain_call = si_selector eip712DomainCall_impl"
| "wrapped_call_selector (getRoleAdmin_call c) = si_selector getRoleAdminCall_impl"
| "wrapped_call_selector (grantRole_call c) = si_selector grantRoleCall_impl"
| "wrapped_call_selector (hasRole_call c) = si_selector hasRoleCall_impl"
| "wrapped_call_selector (mint_call c) = si_selector mintCall_impl"
| "wrapped_call_selector name_call = si_selector nameCall_impl"
| "wrapped_call_selector (nonces_call c) = si_selector noncesCall_impl"
| "wrapped_call_selector pause_call = si_selector pauseCall_impl"
| "wrapped_call_selector paused_call = si_selector pausedCall_impl"
| "wrapped_call_selector (permit_call c) = si_selector permitCall_impl"
| "wrapped_call_selector (renounceRole_call c) = si_selector renounceRoleCall_impl"
| "wrapped_call_selector (revokeRole_call c) = si_selector revokeRoleCall_impl"
| "wrapped_call_selector (supportsInterface_call c) = si_selector supportsInterfaceCall_impl"
| "wrapped_call_selector symbol_call = si_selector symbolCall_impl"
| "wrapped_call_selector totalSupply_call = si_selector totalSupplyCall_impl"
| "wrapped_call_selector (transfer_call c) = si_selector transferCall_impl"
| "wrapped_call_selector (transferFrom_call c) = si_selector transferFromCall_impl"
| "wrapped_call_selector unpause_call = si_selector unpauseCall_impl"

definition wrapped_call_selector_at :: "nat \<Rightarrow> bytes option" where
  "wrapped_call_selector_at i = (if i < length wrapped_call_selectors then Some (wrapped_call_selectors ! i) else None)"

definition wrapped_call_valid_selector :: "bytes \<Rightarrow> bool" where
  "wrapped_call_valid_selector sel \<longleftrightarrow> binary_search wrapped_call_selectors sel \<noteq> None"

definition wrapped_call_decode_shims :: "'x wrapped_call_codecs \<Rightarrow> (bytes \<Rightarrow> 'x sol_error + WrappedTokenCalls) list" where
  "wrapped_call_decode_shims A =
     [decode_shim supportsInterface_call (supportsInterfaceCall_abi A),
      decode_shim (\<lambda>_. name_call) (unit_wrapped_call_abi A),
      decode_shim approve_call (approveCall_abi A),
      decode_shim (\<lambda>_. totalSupply_call) (unit_wrapped_call_abi A),
      decode_shim transferFrom_call (transferFromCall_abi A),
      decode_shim getRoleAdmin_call (getRoleAdminCall_abi A),
      decode_shim grantRole_call (grantRoleCall_abi A),
      decode_shim (\<lambda>_. decimals_call) (unit_wrapped_call_abi A),
      decode_shim (\<lambda>_. DOMAIN_SEPARATOR_call) (unit_wrapped_call_abi A),
      decode_shim renounceRole_call (renounceRoleCall_abi A),
      decode_shim (\<lambda>_. unpause_call) (unit_wrapped_call_abi A),
      decode_shim mint_call (mintCall_abi A), decode_shim burn_call (burnCall_abi A),
      decode_shim (\<lambda>_. paused_call) (unit_wrapped_call_abi A),
      decode_shim balanceOf_call (balanceOfCall_abi A), decode_shim burnFrom_call (burnFromCall_abi A),
      decode_shim nonces_call (noncesCall_abi A),
      decode_shim (\<lambda>_. pause_call) (unit_wrapped_call_abi A),
      decode_shim (\<lambda>_. eip712Domain_call) (unit_wrapped_call_abi A),
      decode_shim hasRole_call (hasRoleCall_abi A),
      decode_shim (\<lambda>_. symbol_call) (unit_wrapped_call_abi A),
      decode_shim (\<lambda>_. DEFAULT_ADMIN_ROLE_call) (unit_wrapped_call_abi A),
      decode_shim transfer_call (transferCall_abi A), decode_shim permit_call (permitCall_abi A),
      decode_shim (\<lambda>_. MINTER_ROLE_call) (unit_wrapped_call_abi A),
      decode_shim revokeRole_call (revokeRoleCall_abi A),
      decode_shim allowance_call (allowanceCall_abi A),
      decode_shim (\<lambda>_. PAUSER_ROLE_call) (unit_wrapped_call_abi A)]"

definition wrapped_call_decode_raw :: "'x wrapped_call_codecs \<Rightarrow> bytes \<Rightarrow> bytes \<Rightarrow> ('x sol_error + WrappedTokenCalls) run" where
  "wrapped_call_decode_raw A sel data =
     dispatch_call ''WrappedTokenCalls'' wrapped_call_selectors (wrapped_call_decode_shims A) sel data"

definition wrapped_call_decode_validate_shims :: "'x wrapped_call_codecs \<Rightarrow> (bytes \<Rightarrow> 'x sol_error + WrappedTokenCalls) list" where
  "wrapped_call_decode_validate_shims A =
     [decode_validate_shim supportsInterface_call (supportsInterfaceCall_abi A),
      decode_validate_shim (\<lambda>_. name_call) (unit_wrapped_call_abi A),
      decode_validate_shim approve_call (approveCall_abi A),
      decode_validate_shim (\<lambda>_. totalSupply_call) (unit_wrapped_call_abi A),
      decode_validate_shim transferFrom_call (transferFromCall_abi A),
      decode_validate_shim getRoleAdmin_call (getRoleAdminCall_abi A),
      decode_validate_shim grantRole_call (grantRoleCall_abi A),
      decode_validate_shim (\<lambda>_. decimals_call) (unit_wrapped_call_abi A),
      decode_validate_shim (\<lambda>_. DOMAIN_SEPARATOR_call) (unit_wrapped_call_abi A),
      decode_validate_shim renounceRole_call (renounceRoleCall_abi A),
      decode_validate_shim (\<lambda>_. unpause_call) (unit_wrapped_call_abi A),
      decode_validate_shim mint_call (mintCall_abi A), decode_validate_shim burn_call (burnCall_abi A),
      decode_validate_shim (\<lambda>_. paused_call) (unit_wrapped_call_abi A),
      decode_validate_shim balanceOf_call (balanceOfCall_abi A),
      decode_validate_shim burnFrom_call (burnFromCall_abi A),
      decode_validate_shim nonces_call (noncesCall_abi A),
      decode_validate_shim (\<lambda>_. pause_call) (unit_wrapped_call_abi A),
      decode_validate_shim (\<lambda>_. eip712Domain_call) (unit_wrapped_call_abi A),
      decode_validate_shim hasRole_call (hasRoleCall_abi A),
      decode_validate_shim (\<lambda>_. symbol_call) (unit_wrapped_call_abi A),
      decode_validate_shim (\<lambda>_. DEFAULT_ADMIN_ROLE_call) (unit_wrapped_call_abi A),
      decode_validate_shim transfer_call (transferCall_abi A),
      decode_validate_shim permit_call (permitCall_abi A),
      decode_validate_shim (\<lambda>_. MINTER_ROLE_call) (unit_wrapped_call_abi A),
      decode_validate_shim revokeRole_call (revokeRoleCall_abi A),
      decode_validate_shim allowance_call (allowanceCall_abi A),
      decode_validate_shim (\<lambda>_. PAUSER_ROLE_call) (unit_wrapped_call_abi A)]"

definition wrapped_call_decode_raw_validate :: "'x wrapped_call_codecs \<Rightarrow> bytes \<Rightarrow> bytes \<Rightarrow> ('x sol_error + WrappedTokenCalls) run" where
  "wrapped_call_decode_raw_validate A sel data =
     dispatch_call ''WrappedTokenCalls'' wrapped_call_selectors (wrapped_call_decode_validate_shims A) sel data"

primrec wrapped_call_encoded_size :: "'x wrapped_call_codecs \<Rightarrow> WrappedTokenCalls \<Rightarrow> nat" where
  "wrapped_call_encoded_size A DEFAULT_ADMIN_ROLE_call = sc_encoded_size (unit_wrapped_call_abi A) ()"
| "wrapped_call_encoded_size A DOMAIN_SEPARATOR_call = sc_encoded_size (unit_wrapped_call_abi A) ()"
| "wrapped_call_encoded_size A MINTER_ROLE_call = sc_encoded_size (unit_wrapped_call_abi A) ()"
| "wrapped_call_encoded_size A PAUSER_ROLE_call = sc_encoded_size (unit_wrapped_call_abi A) ()"
| "wrapped_call_encoded_size A (allowance_call c) = sc_encoded_size (allowanceCall_abi A) c"
| "wrapped_call_encoded_size A (approve_call c) = sc_encoded_size (approveCall_abi A) c"
| "wrapped_call_encoded_size A (balanceOf_call c) = sc_encoded_size (balanceOfCall_abi A) c"
| "wrapped_call_encoded_size A (burn_call c) = sc_encoded_size (burnCall_abi A) c"
| "wrapped_call_encoded_size A (burnFrom_call c) = sc_encoded_size (burnFromCall_abi A) c"
| "wrapped_call_encoded_size A decimals_call = sc_encoded_size (unit_wrapped_call_abi A) ()"
| "wrapped_call_encoded_size A eip712Domain_call = sc_encoded_size (unit_wrapped_call_abi A) ()"
| "wrapped_call_encoded_size A (getRoleAdmin_call c) = sc_encoded_size (getRoleAdminCall_abi A) c"
| "wrapped_call_encoded_size A (grantRole_call c) = sc_encoded_size (grantRoleCall_abi A) c"
| "wrapped_call_encoded_size A (hasRole_call c) = sc_encoded_size (hasRoleCall_abi A) c"
| "wrapped_call_encoded_size A (mint_call c) = sc_encoded_size (mintCall_abi A) c"
| "wrapped_call_encoded_size A name_call = sc_encoded_size (unit_wrapped_call_abi A) ()"
| "wrapped_call_encoded_size A (nonces_call c) = sc_encoded_size (noncesCall_abi A) c"
| "wrapped_call_encoded_size A pause_call = sc_encoded_size (unit_wrapped_call_abi A) ()"
| "wrapped_call_encoded_size A paused_call = sc_encoded_size (unit_wrapped_call_abi A) ()"
| "wrapped_call_encoded_size A (permit_call c) = sc_encoded_size (permitCall_abi A) c"
| "wrapped_call_encoded_size A (renounceRole_call c) = sc_encoded_size (renounceRoleCall_abi A) c"
| "wrapped_call_encoded_size A (revokeRole_call c) = sc_encoded_size (revokeRoleCall_abi A) c"
| "wrapped_call_encoded_size A (supportsInterface_call c) = sc_encoded_size (supportsInterfaceCall_abi A) c"
| "wrapped_call_encoded_size A symbol_call = sc_encoded_size (unit_wrapped_call_abi A) ()"
| "wrapped_call_encoded_size A totalSupply_call = sc_encoded_size (unit_wrapped_call_abi A) ()"
| "wrapped_call_encoded_size A (transfer_call c) = sc_encoded_size (transferCall_abi A) c"
| "wrapped_call_encoded_size A (transferFrom_call c) = sc_encoded_size (transferFromCall_abi A) c"
| "wrapped_call_encoded_size A unpause_call = sc_encoded_size (unit_wrapped_call_abi A) ()"

fun wrapped_call_encode_raw :: "'x wrapped_call_codecs \<Rightarrow> WrappedTokenCalls \<Rightarrow> bytes \<Rightarrow> bytes" where
  "wrapped_call_encode_raw A DEFAULT_ADMIN_ROLE_call out = sc_encode_raw (unit_wrapped_call_abi A) () out"
| "wrapped_call_encode_raw A DOMAIN_SEPARATOR_call out = sc_encode_raw (unit_wrapped_call_abi A) () out"
| "wrapped_call_encode_raw A MINTER_ROLE_call out = sc_encode_raw (unit_wrapped_call_abi A) () out"
| "wrapped_call_encode_raw A PAUSER_ROLE_call out = sc_encode_raw (unit_wrapped_call_abi A) () out"
| "wrapped_call_encode_raw A (allowance_call c) out = sc_encode_raw (allowanceCall_abi A) c out"
| "wrapped_call_encode_raw A (approve_call c) out = sc_encode_raw (approveCall_abi A) c out"
| "wrapped_call_encode_raw A (balanceOf_call c) out = sc_encode_raw (balanceOfCall_abi A) c out"
| "wrapped_call_encode_raw A (burn_call c) out = sc_encode_raw (burnCall_abi A) c out"
| "wrapped_call_encode_raw A (burnFrom_call c) out = sc_encode_raw (burnFromCall_abi A) c out"
| "wrapped_call_encode_raw A decimals_call out = sc_encode_raw (unit_wrapped_call_abi A) () out"
| "wrapped_call_encode_raw A eip712Domain_call out = sc_encode_raw (unit_wrapped_call_abi A) () out"
| "wrapped_call_encode_raw A (getRoleAdmin_call c) out = sc_encode_raw (getRoleAdminCall_abi A) c out"
| "wrapped_call_encode_raw A (grantRole_call c) out = sc_encode_raw (grantRoleCall_abi A) c out"
| "wrapped_call_encode_raw A (hasRole_call c) out = sc_encode_raw (hasRoleCall_abi A) c out"
| "wrapped_call_encode_raw A (mint_call c) out = sc_encode_raw (mintCall_abi A) c out"
| "wrapped_call_encode_raw A name_call out = sc_encode_raw (unit_wrapped_call_abi A) () out"
| "wrapped_call_encode_raw A (nonces_call c) out = sc_encode_raw (noncesCall_abi A) c out"
| "wrapped_call_encode_raw A pause_call out = sc_encode_raw (unit_wrapped_call_abi A) () out"
| "wrapped_call_encode_raw A paused_call out = sc_encode_raw (unit_wrapped_call_abi A) () out"
| "wrapped_call_encode_raw A (permit_call c) out = sc_encode_raw (permitCall_abi A) c out"
| "wrapped_call_encode_raw A (renounceRole_call c) out = sc_encode_raw (renounceRoleCall_abi A) c out"
| "wrapped_call_encode_raw A (revokeRole_call c) out = sc_encode_raw (revokeRoleCall_abi A) c out"
| "wrapped_call_encode_raw A (supportsInterface_call c) out = sc_encode_raw (supportsInterfaceCall_abi A) c out"
| "wrapped_call_encode_raw A symbol_call out = sc_encode_raw (unit_wrapped_call_abi A) () out"
| "wrapped_call_encode_raw A totalSupply_call out = sc_encode_raw (unit_wrapped_call_abi A) () out"
| "wrapped_call_encode_raw A (transfer_call c) out = sc_encode_raw (transferCall_abi A) c out"
| "wrapped_call_encode_raw A (transferFrom_call c) out = sc_encode_raw (transferFromCall_abi A) c out"
| "wrapped_call_encode_raw A unpause_call out = sc_encode_raw (unit_wrapped_call_abi A) () out"

text \<open>The builders of \<^verbatim>\<open>WrappedTokenInstance\<close>: the call of a method and its arguments.\<close>

definition wrapped_allowance :: "address \<Rightarrow> address \<Rightarrow> WrappedTokenCalls" where
  "wrapped_allowance owner spender =
     allowance_call \<lparr>allowanceCall_owner = owner, allowanceCall_spender = spender\<rparr>"

definition wrapped_approve :: "address \<Rightarrow> u256 \<Rightarrow> WrappedTokenCalls" where
  "wrapped_approve spender value =
     approve_call \<lparr>approveCall_spender = spender, approveCall_value = value\<rparr>"

definition wrapped_balanceOf :: "address \<Rightarrow> WrappedTokenCalls" where
  "wrapped_balanceOf account =
     balanceOf_call \<lparr>balanceOfCall_account = account\<rparr>"

definition wrapped_burn :: "u256 \<Rightarrow> WrappedTokenCalls" where
  "wrapped_burn value =
     burn_call \<lparr>burnCall_value = value\<rparr>"

definition wrapped_burnFrom :: "address \<Rightarrow> u256 \<Rightarrow> WrappedTokenCalls" where
  "wrapped_burnFrom account value =
     burnFrom_call \<lparr>burnFromCall_account = account, burnFromCall_value = value\<rparr>"

definition wrapped_getRoleAdmin :: "hash \<Rightarrow> WrappedTokenCalls" where
  "wrapped_getRoleAdmin role =
     getRoleAdmin_call \<lparr>getRoleAdminCall_role = role\<rparr>"

definition wrapped_grantRole :: "hash \<Rightarrow> address \<Rightarrow> WrappedTokenCalls" where
  "wrapped_grantRole role account =
     grantRole_call \<lparr>grantRoleCall_role = role, grantRoleCall_account = account\<rparr>"

definition wrapped_hasRole :: "hash \<Rightarrow> address \<Rightarrow> WrappedTokenCalls" where
  "wrapped_hasRole role account =
     hasRole_call \<lparr>hasRoleCall_role = role, hasRoleCall_account = account\<rparr>"

definition wrapped_mint :: "address \<Rightarrow> u256 \<Rightarrow> WrappedTokenCalls" where
  "wrapped_mint to amount =
     mint_call \<lparr>mintCall_to = to, mintCall_amount = amount\<rparr>"

definition wrapped_nonces :: "address \<Rightarrow> WrappedTokenCalls" where
  "wrapped_nonces owner =
     nonces_call \<lparr>noncesCall_owner = owner\<rparr>"

definition wrapped_permit :: "address \<Rightarrow> address \<Rightarrow> u256 \<Rightarrow> u256 \<Rightarrow> byte \<Rightarrow> hash \<Rightarrow> hash \<Rightarrow> WrappedTokenCalls" where
  "wrapped_permit owner spender value deadline v r s =
     permit_call \<lparr>permitCall_owner = owner, permitCall_spender = spender, permitCall_value = value,
        permitCall_deadline = deadline, permitCall_v = v, permitCall_r = r, permitCall_s = s\<rparr>"

definition wrapped_renounceRole :: "hash \<Rightarrow> address \<Rightarrow> WrappedTokenCalls" where
  "wrapped_renounceRole role callerConfirmation =
     renounceRole_call \<lparr>renounceRoleCall_role = role, renounceRoleCall_callerConfirmation = callerConfirmation\<rparr>"

definition wrapped_revokeRole :: "hash \<Rightarrow> address \<Rightarrow> WrappedTokenCalls" where
  "wrapped_revokeRole role account =
     revokeRole_call \<lparr>revokeRoleCall_role = role, revokeRoleCall_account = account\<rparr>"

definition wrapped_supportsInterface :: "bytes4 \<Rightarrow> WrappedTokenCalls" where
  "wrapped_supportsInterface interfaceId =
     supportsInterface_call \<lparr>supportsInterfaceCall_interfaceId = interfaceId\<rparr>"

definition wrapped_transfer :: "address \<Rightarrow> u256 \<Rightarrow> WrappedTokenCalls" where
  "wrapped_transfer to value =
     transfer_call \<lparr>transferCall_to = to, transferCall_value = value\<rparr>"

definition wrapped_transferFrom :: "address \<Rightarrow> address \<Rightarrow> u256 \<Rightarrow> WrappedTokenCalls" where
  "wrapped_transferFrom from to value =
     transferFrom_call \<lparr>transferFromCall_from = from, transferFromCall_to = to, transferFromCall_value = value\<rparr>"

section \<open>Dispatch\<close>

lemmas wrapped_call_impls =
  DEFAULT_ADMIN_ROLECall_impl_def DOMAIN_SEPARATORCall_impl_def MINTER_ROLECall_impl_def
  PAUSER_ROLECall_impl_def allowanceCall_impl_def approveCall_impl_def balanceOfCall_impl_def
  burnCall_impl_def burnFromCall_impl_def decimalsCall_impl_def eip712DomainCall_impl_def
  getRoleAdminCall_impl_def grantRoleCall_impl_def hasRoleCall_impl_def mintCall_impl_def
  nameCall_impl_def noncesCall_impl_def pauseCall_impl_def pausedCall_impl_def permitCall_impl_def
  renounceRoleCall_impl_def revokeRoleCall_impl_def supportsInterfaceCall_impl_def symbolCall_impl_def
  totalSupplyCall_impl_def transferCall_impl_def transferFromCall_impl_def unpauseCall_impl_def

lemmas wrapped_call_froms =
  allowanceCall_of_tuple_def approveCall_of_tuple_def balanceOfCall_of_tuple_def burnCall_of_tuple_def
  burnFromCall_of_tuple_def getRoleAdminCall_of_tuple_def grantRoleCall_of_tuple_def
  hasRoleCall_of_tuple_def mintCall_of_tuple_def noncesCall_of_tuple_def permitCall_of_tuple_def
  renounceRoleCall_of_tuple_def revokeRoleCall_of_tuple_def supportsInterfaceCall_of_tuple_def
  transferCall_of_tuple_def transferFromCall_of_tuple_def

lemma wrapped_call_new_tokenize:
  "si_new allowanceCall_impl (si_tokenize allowanceCall_impl c0) = c0"
  "si_new approveCall_impl (si_tokenize approveCall_impl c1) = c1"
  "si_new balanceOfCall_impl (si_tokenize balanceOfCall_impl c2) = c2"
  "si_new burnCall_impl (si_tokenize burnCall_impl c3) = c3"
  "si_new burnFromCall_impl (si_tokenize burnFromCall_impl c4) = c4"
  "si_new getRoleAdminCall_impl (si_tokenize getRoleAdminCall_impl c5) = c5"
  "si_new grantRoleCall_impl (si_tokenize grantRoleCall_impl c6) = c6"
  "si_new hasRoleCall_impl (si_tokenize hasRoleCall_impl c7) = c7"
  "si_new mintCall_impl (si_tokenize mintCall_impl c8) = c8"
  "si_new noncesCall_impl (si_tokenize noncesCall_impl c9) = c9"
  "si_new permitCall_impl (si_tokenize permitCall_impl c10) = c10"
  "si_new renounceRoleCall_impl (si_tokenize renounceRoleCall_impl c11) = c11"
  "si_new revokeRoleCall_impl (si_tokenize revokeRoleCall_impl c12) = c12"
  "si_new supportsInterfaceCall_impl (si_tokenize supportsInterfaceCall_impl c13) = c13"
  "si_new transferCall_impl (si_tokenize transferCall_impl c14) = c14"
  "si_new transferFromCall_impl (si_tokenize transferFromCall_impl c15) = c15"
  by (simp_all add: wrapped_call_impls wrapped_call_froms)

text \<open>The row of the tables that a variant has.\<close>

primrec wrapped_call_row :: "WrappedTokenCalls \<Rightarrow> nat" where
  "wrapped_call_row DEFAULT_ADMIN_ROLE_call = 21"
| "wrapped_call_row DOMAIN_SEPARATOR_call = 8"
| "wrapped_call_row MINTER_ROLE_call = 24"
| "wrapped_call_row PAUSER_ROLE_call = 27"
| "wrapped_call_row (allowance_call c) = 26"
| "wrapped_call_row (approve_call c) = 2"
| "wrapped_call_row (balanceOf_call c) = 14"
| "wrapped_call_row (burn_call c) = 12"
| "wrapped_call_row (burnFrom_call c) = 15"
| "wrapped_call_row decimals_call = 7"
| "wrapped_call_row eip712Domain_call = 18"
| "wrapped_call_row (getRoleAdmin_call c) = 5"
| "wrapped_call_row (grantRole_call c) = 6"
| "wrapped_call_row (hasRole_call c) = 19"
| "wrapped_call_row (mint_call c) = 11"
| "wrapped_call_row name_call = 1"
| "wrapped_call_row (nonces_call c) = 16"
| "wrapped_call_row pause_call = 17"
| "wrapped_call_row paused_call = 13"
| "wrapped_call_row (permit_call c) = 23"
| "wrapped_call_row (renounceRole_call c) = 9"
| "wrapped_call_row (revokeRole_call c) = 25"
| "wrapped_call_row (supportsInterface_call c) = 0"
| "wrapped_call_row symbol_call = 20"
| "wrapped_call_row totalSupply_call = 3"
| "wrapped_call_row (transfer_call c) = 22"
| "wrapped_call_row (transferFrom_call c) = 4"
| "wrapped_call_row unpause_call = 10"

lemma wrapped_call_ascending: "dispatch_table wrapped_call_selectors"
  by (rule ascending_table) (simp add: wrapped_call_selectors_def)

interpretation wrapped_calls: typed_dispatch wrapped_call_selectors wrapped_call_selector "wrapped_call_decode_shims A" for A
  by (intro typed_dispatch.intro typed_dispatch_axioms.intro wrapped_call_ascending)
    (simp add: wrapped_call_selectors_def wrapped_call_decode_shims_def typed_row_shims wrapped_call_impls)

interpretation wrapped_calls_validate: typed_dispatch wrapped_call_selectors wrapped_call_selector "wrapped_call_decode_validate_shims A" for A
  by (intro typed_dispatch.intro typed_dispatch_axioms.intro wrapped_call_ascending)
    (simp add: wrapped_call_selectors_def wrapped_call_decode_validate_shims_def typed_row_shims wrapped_call_impls)

lemma wrapped_call_row_selector:
  "wrapped_call_row c < length wrapped_call_selectors \<and> wrapped_call_selectors ! wrapped_call_row c = wrapped_call_selector c"
  by (cases c) (simp_all add: wrapped_call_selectors_def wrapped_call_impls)

lemma wrapped_call_name:
  "wrapped_call_name_by_selector (wrapped_call_selector c) = Inr (Some (wrapped_call_variant_names ! wrapped_call_row c))"
proof -
  have "wrapped_call_signature_by_selector (wrapped_call_selector c) = Inr (Some (wrapped_call_signatures ! wrapped_call_row c))"
    using wrapped_calls.row_nth [of "wrapped_call_row c" wrapped_call_signatures] wrapped_call_row_selector [of c]
    by (simp add: wrapped_call_signature_by_selector_def) (simp add: wrapped_call_signatures_def wrapped_call_selectors_def)
  moreover have "name_of_signature (Some (wrapped_call_signatures ! wrapped_call_row c)) = Some (wrapped_call_variant_names ! wrapped_call_row c)"
    by (cases c) (simp_all add: wrapped_call_signatures_def wrapped_call_variant_names_def name_of_signature_def split_once_def wrapped_call_impls)
  ultimately show ?thesis by (simp add: wrapped_call_name_by_selector_def map_ok_def)
qed

text \<open>What is relied on for a value of the enum.\<close>

primrec wrapped_call_law :: "'x wrapped_call_codecs \<Rightarrow> WrappedTokenCalls \<Rightarrow> bool" where
  "wrapped_call_law A DEFAULT_ADMIN_ROLE_call \<longleftrightarrow> impl_law DEFAULT_ADMIN_ROLECall_impl (unit_wrapped_call_abi A) ()"
| "wrapped_call_law A DOMAIN_SEPARATOR_call \<longleftrightarrow> impl_law DOMAIN_SEPARATORCall_impl (unit_wrapped_call_abi A) ()"
| "wrapped_call_law A MINTER_ROLE_call \<longleftrightarrow> impl_law MINTER_ROLECall_impl (unit_wrapped_call_abi A) ()"
| "wrapped_call_law A PAUSER_ROLE_call \<longleftrightarrow> impl_law PAUSER_ROLECall_impl (unit_wrapped_call_abi A) ()"
| "wrapped_call_law A (allowance_call c) \<longleftrightarrow> impl_law allowanceCall_impl (allowanceCall_abi A) c"
| "wrapped_call_law A (approve_call c) \<longleftrightarrow> impl_law approveCall_impl (approveCall_abi A) c"
| "wrapped_call_law A (balanceOf_call c) \<longleftrightarrow> impl_law balanceOfCall_impl (balanceOfCall_abi A) c"
| "wrapped_call_law A (burn_call c) \<longleftrightarrow> impl_law burnCall_impl (burnCall_abi A) c"
| "wrapped_call_law A (burnFrom_call c) \<longleftrightarrow> impl_law burnFromCall_impl (burnFromCall_abi A) c"
| "wrapped_call_law A decimals_call \<longleftrightarrow> impl_law decimalsCall_impl (unit_wrapped_call_abi A) ()"
| "wrapped_call_law A eip712Domain_call \<longleftrightarrow> impl_law eip712DomainCall_impl (unit_wrapped_call_abi A) ()"
| "wrapped_call_law A (getRoleAdmin_call c) \<longleftrightarrow> impl_law getRoleAdminCall_impl (getRoleAdminCall_abi A) c"
| "wrapped_call_law A (grantRole_call c) \<longleftrightarrow> impl_law grantRoleCall_impl (grantRoleCall_abi A) c"
| "wrapped_call_law A (hasRole_call c) \<longleftrightarrow> impl_law hasRoleCall_impl (hasRoleCall_abi A) c"
| "wrapped_call_law A (mint_call c) \<longleftrightarrow> impl_law mintCall_impl (mintCall_abi A) c"
| "wrapped_call_law A name_call \<longleftrightarrow> impl_law nameCall_impl (unit_wrapped_call_abi A) ()"
| "wrapped_call_law A (nonces_call c) \<longleftrightarrow> impl_law noncesCall_impl (noncesCall_abi A) c"
| "wrapped_call_law A pause_call \<longleftrightarrow> impl_law pauseCall_impl (unit_wrapped_call_abi A) ()"
| "wrapped_call_law A paused_call \<longleftrightarrow> impl_law pausedCall_impl (unit_wrapped_call_abi A) ()"
| "wrapped_call_law A (permit_call c) \<longleftrightarrow> impl_law permitCall_impl (permitCall_abi A) c"
| "wrapped_call_law A (renounceRole_call c) \<longleftrightarrow> impl_law renounceRoleCall_impl (renounceRoleCall_abi A) c"
| "wrapped_call_law A (revokeRole_call c) \<longleftrightarrow> impl_law revokeRoleCall_impl (revokeRoleCall_abi A) c"
| "wrapped_call_law A (supportsInterface_call c) \<longleftrightarrow> impl_law supportsInterfaceCall_impl (supportsInterfaceCall_abi A) c"
| "wrapped_call_law A symbol_call \<longleftrightarrow> impl_law symbolCall_impl (unit_wrapped_call_abi A) ()"
| "wrapped_call_law A totalSupply_call \<longleftrightarrow> impl_law totalSupplyCall_impl (unit_wrapped_call_abi A) ()"
| "wrapped_call_law A (transfer_call c) \<longleftrightarrow> impl_law transferCall_impl (transferCall_abi A) c"
| "wrapped_call_law A (transferFrom_call c) \<longleftrightarrow> impl_law transferFromCall_impl (transferFromCall_abi A) c"
| "wrapped_call_law A unpause_call \<longleftrightarrow> impl_law unpauseCall_impl (unit_wrapped_call_abi A) ()"

lemma wrapped_call_own_shims:
  assumes "wrapped_call_law A c"
  shows "\<exists>body. (\<forall>out. wrapped_call_encode_raw A c out = out @ body) \<and> length body = wrapped_call_encoded_size A c
    \<and> (wrapped_call_decode_shims A ! wrapped_call_row c) body = Inr c
    \<and> (wrapped_call_decode_validate_shims A ! wrapped_call_row c) body = Inr c"
  using assms
  by (cases c)
    (auto dest!: impl_law_call simp: wrapped_call_new_tokenize call_law_def shim_simps wrapped_call_decode_shims_def wrapped_call_decode_validate_shims_def)

lemma wrapped_call_typed:
  "case wrapped_call_decode_raw A sel data of
     Inl p \<Rightarrow> False
   | Inr (Inl e) \<Rightarrow> if wrapped_call_valid_selector sel then \<exists>x. e = Codec x else e = UnknownSelector ''WrappedTokenCalls'' sel
   | Inr (Inr call) \<Rightarrow> wrapped_call_selector call = sel \<and> wrapped_call_valid_selector sel"
  using wrapped_calls.dispatch_typed [where A = A and name = "''WrappedTokenCalls''" and sel = sel and data = data] wrapped_calls.search_None [of sel]
  by (auto simp: wrapped_call_decode_raw_def wrapped_call_valid_selector_def split: sum.splits if_splits)

lemma wrapped_call_encodes:
  assumes "wrapped_call_law A call"
  shows "\<exists>body. wrapped_call_encode_raw A call out = out @ body \<and> length body = wrapped_call_encoded_size A call
    \<and> wrapped_call_decode_raw A (wrapped_call_selector call) body = Inr (Inr call)
    \<and> wrapped_call_decode_raw_validate A (wrapped_call_selector call) body = Inr (Inr call)"
proof -
  have row: "wrapped_call_row call < length wrapped_call_selectors" "wrapped_call_selectors ! wrapped_call_row call = wrapped_call_selector call"
    using wrapped_call_row_selector by blast+
  from wrapped_call_own_shims [OF assms] show ?thesis
    unfolding wrapped_call_decode_raw_def wrapped_call_decode_raw_validate_def
    by (auto simp: wrapped_calls.dispatch_at [OF row] wrapped_calls_validate.dispatch_at [OF row])
qed

end
