(* ===== verification/Bridge_System.thy ===== *)
theory Bridge_System
  imports Bridge_Client Bridge_Calls Bridge_Events Wrapped_Calls
begin

text \<open>
  The bridge example on the bindings: \<^verbatim>\<open>SourceChainBridgeClient\<close> of
  \<^verbatim>\<open>examples/bridge-flow/src/main.rs\<close> builds its transactions with \<open>Wrapped_Calls\<close> and
  \<open>Bridge_Calls\<close> and reads its receipts with \<open>Bridge_Events\<close>.  The chain runs a transaction's
  call data at an address; it is an argument.
\<close>

section \<open>The client on the bindings\<close>

record ('p, 'r, 'x) source_node =
  sn_send :: "address \<Rightarrow> bytes \<Rightarrow> 'x + 'p"
  sn_get_receipt :: "'p \<Rightarrow> 'x + 'r"
  sn_status :: "'r \<Rightarrow> bool"
  sn_logs :: "'r \<Rightarrow> eth_log list"
  sn_block_number :: "'r \<Rightarrow> u64 option"

text \<open>A transaction carries the selector and then the encoded arguments.\<close>

definition bridge_calldata :: "'y bridge_call_codecs \<Rightarrow> BridgeCalls \<Rightarrow> bytes" where
  "bridge_calldata A call = bridge_call_encode_raw A call (bridge_call_selector call)"

definition wrapped_calldata :: "'y wrapped_call_codecs \<Rightarrow> WrappedTokenCalls \<Rightarrow> bytes" where
  "wrapped_calldata A call = wrapped_call_encode_raw A call (wrapped_call_selector call)"

text \<open>\<^verbatim>\<open>Bridge::Deposit::decode_log\<close> of a log, and the identifier read off it.\<close>

definition deposit_id :: "(Deposit, 'de) sol_event \<Rightarrow> eth_log \<Rightarrow> 'de + u256" where
  "deposit_id E log =
     map_sum id Deposit_id (se_decode_raw_log E (ld_topics (lg_data log)) (ld_data (lg_data log)))"

definition source_client ::
    "'y wrapped_call_codecs \<Rightarrow> 'y bridge_call_codecs \<Rightarrow> (Deposit, 'de) sol_event
      \<Rightarrow> address \<Rightarrow> address \<Rightarrow> ('p, 'r, 'x) source_node \<Rightarrow> ('p, 'r, 'de, 'x) source_chain" where
  "source_client T A E bridge token N =
     \<lparr>sc_bridge_address = bridge, sc_token_address = token,
      sc_approve = (\<lambda>spender value. sn_send N token (wrapped_calldata T (wrapped_approve spender value))),
      sc_deposit = (\<lambda>tok amount to callContract reserveBalance permit.
        sn_send N bridge (bridge_calldata A (bridge_deposit tok amount to callContract reserveBalance permit))),
      sc_get_receipt = sn_get_receipt N, sc_status = sn_status N, sc_logs = sn_logs N,
      sc_block_number = sn_block_number N, sc_decode_deposit = deposit_id E\<rparr>"

section \<open>Lemmas\<close>

lemma bridge_selector_length: "length (bridge_call_selector c) = 4"
  by (cases c) (simp_all add: bridge_call_impls)

lemma wrapped_selector_length: "length (wrapped_call_selector c) = 4"
  by (cases c) (simp_all add: wrapped_call_impls)

text \<open>What a contract does with call data: dispatch on its first four bytes.\<close>

lemma bridge_calldata_dispatch:
  assumes "bridge_call_law A call"
  shows "bridge_call_decode_raw A (take 4 (bridge_calldata A call)) (drop 4 (bridge_calldata A call)) = Inr (Inr call)"
proof -
  obtain body where "bridge_calldata A call = bridge_call_selector call @ body"
      "bridge_call_decode_raw A (bridge_call_selector call) body = Inr (Inr call)"
    using bridge_call_encodes [OF assms, of "bridge_call_selector call"] unfolding bridge_calldata_def by blast
  then show ?thesis using bridge_selector_length [of call] by simp
qed

lemma wrapped_calldata_dispatch:
  assumes "wrapped_call_law T call"
  shows "wrapped_call_decode_raw T (take 4 (wrapped_calldata T call)) (drop 4 (wrapped_calldata T call)) = Inr (Inr call)"
proof -
  obtain body where "wrapped_calldata T call = wrapped_call_selector call @ body"
      "wrapped_call_decode_raw T (wrapped_call_selector call) body = Inr (Inr call)"
    using wrapped_call_encodes [OF assms, of "wrapped_call_selector call"] unfolding wrapped_calldata_def by blast
  then show ?thesis using wrapped_selector_length [of call] by simp
qed

text \<open>The loop over the logs: the first one that decodes.\<close>

lemma find_deposit_first:
  "find_deposit decode n ls = Some (i, m) \<longleftrightarrow>
     n = Some m \<and> (\<exists>pre log post. ls = pre @ log # post \<and> decode log = Inr i \<and> (\<forall>l \<in> set pre. \<exists>e. decode l = Inl e))"
proof (induction ls)
  case (Cons l ls)
  show ?case
  proof (cases "decode l")
    case (Inl e)
    have "(\<exists>pre log post. l # ls = pre @ log # post \<and> decode log = Inr i \<and> (\<forall>l \<in> set pre. \<exists>e. decode l = Inl e))
        \<longleftrightarrow> (\<exists>pre log post. ls = pre @ log # post \<and> decode log = Inr i \<and> (\<forall>l \<in> set pre. \<exists>e. decode l = Inl e))"
      (is "?L \<longleftrightarrow> ?R")
    proof
      show ?R if ?L
      proof -
        from that obtain pre log post where *: "l # ls = pre @ log # post" "decode log = Inr i"
          "\<forall>l \<in> set pre. \<exists>e. decode l = Inl e" by blast
        from * Inl obtain pre' where "pre = l # pre'" by (cases pre) auto
        with * show ?R by (intro exI [of _ pre'] exI [of _ log] exI [of _ post]) simp
      qed
      show ?L if ?R
      proof -
        from that obtain pre log post where "ls = pre @ log # post" "decode log = Inr i"
          "\<forall>l \<in> set pre. \<exists>e. decode l = Inl e" by blast
        with Inl show ?L by (intro exI [of _ "l # pre"] exI [of _ log] exI [of _ post]) auto
      qed
    qed
    then show ?thesis using Cons.IH Inl by simp
  next
    case (Inr j)
    have "(\<exists>pre log post. l # ls = pre @ log # post \<and> decode log = Inr i \<and> (\<forall>l \<in> set pre. \<exists>e. decode l = Inl e))
        \<longleftrightarrow> j = i" (is "?L \<longleftrightarrow> _")
    proof
      show "j = i" if ?L
      proof -
        from that obtain pre log post where *: "l # ls = pre @ log # post" "decode log = Inr i"
          "\<forall>l \<in> set pre. \<exists>e. decode l = Inl e" by blast
        then show ?thesis using Inr by (cases pre) auto
      qed
      show ?L if "j = i"
        using that Inr by (intro exI [of _ "[]"] exI [of _ l] exI [of _ ls]) simp
    qed
    then show ?thesis using Cons.IH Inr by (cases n) auto
  qed
qed simp

lemma deposit_id_ok:
  "deposit_id E log = Inr i \<longleftrightarrow>
     (\<exists>e. se_decode_raw_log E (ld_topics (lg_data log)) (ld_data (lg_data log)) = Inr e \<and> Deposit_id e = i)"
  by (cases "se_decode_raw_log E (ld_topics (lg_data log)) (ld_data (lg_data log))") (auto simp: deposit_id_def)

lemma deposit_id_refused:
  assumes "impl_event_provided (Deposit_event_impl W) fst E" "\<And>rest. ld_topics (lg_data log) \<noteq> Deposit_hash # rest"
  shows "\<exists>x. deposit_id E log = Inl x"
proof -
  have "\<exists>x. se_decode_raw_log E (ld_topics (lg_data log)) (ld_data (lg_data log)) = Inl x"
    by (rule event_other_topic [OF assms(1)])
      (use assms(2) in \<open>auto simp: Deposit_event_impl_def Deposit_check_signature_def split: if_splits\<close>)
  then show ?thesis by (auto simp: deposit_id_def)
qed

lemma deposit_token_result:
  "deposit_token S to amount = Inr (Inr d) \<longleftrightarrow>
     (\<exists>p r p' r'. sc_approve S (sc_bridge_address S) amount = Inr p \<and> sc_get_receipt S p = Inr r \<and> sc_status S r
        \<and> sc_deposit S (sc_token_address S) amount to 0 0 [] = Inr p' \<and> sc_get_receipt S p' = Inr r' \<and> sc_status S r'
        \<and> find_deposit (sc_decode_deposit S) (sc_block_number S r') (sc_logs S r') = Some d)"
  by (simp add: deposit_token_def labelled_ok ok_or_ok cong: conj_cong split: if_split) blast

lemma deposit_log:
  assumes "impl_event_provided (Deposit_event_impl W) fst E"
  shows "deposit_id E log = Inr i \<longleftrightarrow>
    (\<exists>e rest. se_decode_raw_log E (ld_topics (lg_data log)) (ld_data (lg_data log)) = Inr e
       \<and> Deposit_id e = i \<and> ld_topics (lg_data log) = Deposit_hash # rest)"
  using event_decoded_topic [OF assms, of "ld_topics (lg_data log)" "ld_data (lg_data log)"]
  by (fastforce simp: deposit_id_ok Deposit_event_impl_def Deposit_check_signature_def split: if_splits)

section \<open>Properties\<close>

text \<open>
  C38. The deposit of the bridge example, down to its transactions: the token contract is
  called to approve the bridge for the amount and the bridge to deposit exactly that
  amount for the recipient, and the client returns an identifier exactly when both
  succeed and it is that of the first log of the second receipt that decodes as a deposit,
  which has that event's hash as its first topic.  The log's address plays no part.
\<close>

theorem deposit_token_end_to_end:
  assumes "wrapped_call_law T (wrapped_approve bridge amount)"
    and "bridge_call_law A (bridge_deposit token amount to 0 0 [])"
    and "impl_event_provided (Deposit_event_impl W) fst E"
  shows "let approval = wrapped_calldata T (wrapped_approve bridge amount);
         deposit = bridge_calldata A (bridge_deposit token amount to 0 0 [])
    in wrapped_call_decode_raw T (take 4 approval) (drop 4 approval) = Inr (Inr (wrapped_approve bridge amount))
    \<and> bridge_call_decode_raw A (take 4 deposit) (drop 4 deposit) = Inr (Inr (bridge_deposit token amount to 0 0 []))
    \<and> (deposit_token (source_client T A E bridge token N) to amount = Inr (Inr (i, m)) \<longleftrightarrow>
       (\<exists>p r p' r'. sn_send N token approval = Inr p \<and> sn_get_receipt N p = Inr r \<and> sn_status N r
          \<and> sn_send N bridge deposit = Inr p' \<and> sn_get_receipt N p' = Inr r' \<and> sn_status N r'
          \<and> sn_block_number N r' = Some m
          \<and> (\<exists>pre log post e rest. sn_logs N r' = pre @ log # post
               \<and> se_decode_raw_log E (ld_topics (lg_data log)) (ld_data (lg_data log)) = Inr e
               \<and> Deposit_id e = i \<and> ld_topics (lg_data log) = Deposit_hash # rest
               \<and> (\<forall>l \<in> set pre. \<exists>x. deposit_id E l = Inl x))))"
proof -
  let ?approval = "wrapped_calldata T (wrapped_approve bridge amount)"
  let ?deposit = "bridge_calldata A (bridge_deposit token amount to 0 0 [])"
  have "wrapped_call_decode_raw T (take 4 ?approval) (drop 4 ?approval) = Inr (Inr (wrapped_approve bridge amount))"
    by (rule wrapped_calldata_dispatch [OF assms(1)])
  moreover have "bridge_call_decode_raw A (take 4 ?deposit) (drop 4 ?deposit) = Inr (Inr (bridge_deposit token amount to 0 0 []))"
    by (rule bridge_calldata_dispatch [OF assms(2)])
  moreover have "deposit_token (source_client T A E bridge token N) to amount = Inr (Inr (i, m)) \<longleftrightarrow>
       (\<exists>p r p' r'. sn_send N token ?approval = Inr p \<and> sn_get_receipt N p = Inr r \<and> sn_status N r
          \<and> sn_send N bridge ?deposit = Inr p' \<and> sn_get_receipt N p' = Inr r' \<and> sn_status N r'
          \<and> sn_block_number N r' = Some m
          \<and> (\<exists>pre log post e rest. sn_logs N r' = pre @ log # post
               \<and> se_decode_raw_log E (ld_topics (lg_data log)) (ld_data (lg_data log)) = Inr e
               \<and> Deposit_id e = i \<and> ld_topics (lg_data log) = Deposit_hash # rest
               \<and> (\<forall>l \<in> set pre. \<exists>x. deposit_id E l = Inl x)))"
    unfolding deposit_token_result find_deposit_first
    by (simp add: source_client_def deposit_log [OF assms(3)]) blast
  ultimately show ?thesis by (simp only: Let_def)
qed

text \<open>A sample: every transaction succeeds, with the deposit 9 after a log of another event.\<close>

definition sample_node :: "(address, address, unit) source_node" where
  "sample_node =
     \<lparr>sn_send = (\<lambda>contract data. Inr contract), sn_get_receipt = Inr, sn_status = (\<lambda>r. True),
      sn_logs = (\<lambda>r.
        [\<lparr>lg_address = 2, lg_data = \<lparr>ld_topics = [77], ld_data = []\<rparr>\<rparr>,
         \<lparr>lg_address = 4, lg_data = \<lparr>ld_topics = [Deposit_hash, 9, 5, 1], ld_data = [7]\<rparr>\<rparr>]),
      sn_block_number = (\<lambda>r. Some 12)\<rparr>"

theorem deposit_token_end_to_end_witness:
  "\<forall>T A. deposit_token
      (source_client (T\<lparr>approveCall_abi := provided_methods approveCall_impl (sample_tuple (4, 100))\<rparr>)
        (A\<lparr>depositCall_abi := provided_methods depositCall_impl (sample_tuple (2, 100, 1, 0, 0, []))\<rparr>)
        sample_deposit_abi 4 2 sample_node) 1 100 = Inr (Inr (9, 12))"
proof (intro allI)
  fix T :: "'y wrapped_call_codecs" and A :: "'y bridge_call_codecs"
  let ?T = "T\<lparr>approveCall_abi := provided_methods approveCall_impl (sample_tuple (4, 100))\<rparr>"
  let ?A = "A\<lparr>depositCall_abi := provided_methods depositCall_impl (sample_tuple (2, 100, 1, 0, 0, []))\<rparr>"
  have T: "wrapped_call_law ?T (wrapped_approve 4 100)"
    using sample_impl_law [of approveCall_impl "\<lparr>approveCall_spender = 4, approveCall_value = 100\<rparr>"]
    by (simp add: wrapped_approve_def approveCall_impl_def)
  have A: "bridge_call_law ?A (bridge_deposit 2 100 1 0 0 [])"
    using sample_impl_law [of depositCall_impl "\<lparr>depositCall_token = 2, depositCall_amount = 100,
      depositCall_to = 1, depositCall_callContract = 0, depositCall_reserveBalance = 0, depositCall_permit = []\<rparr>"]
    by (simp add: bridge_deposit_def depositCall_impl_def)
  have E: "impl_event_provided (Deposit_event_impl plain_words) fst sample_deposit_abi"
    using sample_deposit_methods by (auto simp: impl_event_provided_def)
  have decoded: "se_decode_raw_log sample_deposit_abi [Deposit_hash, 9, 5, 1] [7] = Inr sample_deposit"
    by (simp add: sample_deposit_abi_def provided_event_def Deposit_event_impl_def sample_tuple_def
        Deposit_check_signature_def Deposit_new_def sample_deposit_def)
  have other: "\<exists>x. deposit_id sample_deposit_abi \<lparr>lg_address = 2, lg_data = \<lparr>ld_topics = [77], ld_data = []\<rparr>\<rparr> = Inl x"
    by (simp add: deposit_id_def sample_deposit_abi_def provided_event_def and_then_def)
  let ?other = "\<lparr>lg_address = 2, lg_data = \<lparr>ld_topics = [77], ld_data = []\<rparr>\<rparr> :: eth_log"
  let ?log = "\<lparr>lg_address = 4, lg_data = \<lparr>ld_topics = [Deposit_hash, 9, 5, 1], ld_data = [7]\<rparr>\<rparr> :: eth_log"
  note result = deposit_token_end_to_end
    [OF T A E, where N = sample_node and i = 9 and m = 12, unfolded Let_def, THEN conjunct2, THEN conjunct2]
  show "deposit_token (source_client ?T ?A sample_deposit_abi 4 2 sample_node) 1 100 = Inr (Inr (9, 12))"
    unfolding result
    by (simp add: sample_node_def, rule exI [of _ "[?other]"], rule exI [of _ ?log])
      (use decoded other in \<open>simp add: sample_deposit_def\<close>)
qed

end
