(* ===== verification/Wrapped_Errors.thy ===== *)
theory Wrapped_Errors
  imports Sol_Traits
begin

text \<open>
  The custom errors of \<^verbatim>\<open>protocol/bindings/src/wrapped_token.rs\<close>, the bridged token.
\<close>

section \<open>The errors\<close>

definition AccessControlBadConfirmation_impl :: "(unit, unit) sol_impl" where
  "AccessControlBadConfirmation_impl =
     \<lparr>si_signature = ''AccessControlBadConfirmation()'',
      si_selector = [102, 151, 178, 50],
      si_new = (\<lambda>_. ()),
      si_tokenize = (\<lambda>_. ())\<rparr>"

record AccessControlUnauthorizedAccount =
  AccessControlUnauthorizedAccount_account :: address
  AccessControlUnauthorizedAccount_neededRole :: hash

definition AccessControlUnauthorizedAccount_of_tuple :: "address \<times> hash \<Rightarrow> AccessControlUnauthorizedAccount" where
  "AccessControlUnauthorizedAccount_of_tuple = (\<lambda>(t0, t1).
     \<lparr>AccessControlUnauthorizedAccount_account = t0, AccessControlUnauthorizedAccount_neededRole = t1\<rparr>)"

definition AccessControlUnauthorizedAccount_impl :: "(AccessControlUnauthorizedAccount, address \<times> hash) sol_impl" where
  "AccessControlUnauthorizedAccount_impl =
     \<lparr>si_signature = ''AccessControlUnauthorizedAccount(address,bytes32)'',
      si_selector = [226, 81, 125, 63],
      si_new = AccessControlUnauthorizedAccount_of_tuple,
      si_tokenize = (\<lambda>c. (AccessControlUnauthorizedAccount_account c, AccessControlUnauthorizedAccount_neededRole c))\<rparr>"

definition ECDSAInvalidSignature_impl :: "(unit, unit) sol_impl" where
  "ECDSAInvalidSignature_impl =
     \<lparr>si_signature = ''ECDSAInvalidSignature()'',
      si_selector = [246, 69, 238, 223],
      si_new = (\<lambda>_. ()),
      si_tokenize = (\<lambda>_. ())\<rparr>"

record ECDSAInvalidSignatureLength =
  ECDSAInvalidSignatureLength_length :: u256

definition ECDSAInvalidSignatureLength_of_tuple :: "u256 \<Rightarrow> ECDSAInvalidSignatureLength" where
  "ECDSAInvalidSignatureLength_of_tuple = (\<lambda>t0.
     \<lparr>ECDSAInvalidSignatureLength_length = t0\<rparr>)"

definition ECDSAInvalidSignatureLength_impl :: "(ECDSAInvalidSignatureLength, u256) sol_impl" where
  "ECDSAInvalidSignatureLength_impl =
     \<lparr>si_signature = ''ECDSAInvalidSignatureLength(uint256)'',
      si_selector = [252, 230, 152, 247],
      si_new = ECDSAInvalidSignatureLength_of_tuple,
      si_tokenize = ECDSAInvalidSignatureLength_length\<rparr>"

record ECDSAInvalidSignatureS =
  ECDSAInvalidSignatureS_s :: hash

definition ECDSAInvalidSignatureS_of_tuple :: "hash \<Rightarrow> ECDSAInvalidSignatureS" where
  "ECDSAInvalidSignatureS_of_tuple = (\<lambda>t0.
     \<lparr>ECDSAInvalidSignatureS_s = t0\<rparr>)"

definition ECDSAInvalidSignatureS_impl :: "(ECDSAInvalidSignatureS, hash) sol_impl" where
  "ECDSAInvalidSignatureS_impl =
     \<lparr>si_signature = ''ECDSAInvalidSignatureS(bytes32)'',
      si_selector = [215, 139, 206, 12],
      si_new = ECDSAInvalidSignatureS_of_tuple,
      si_tokenize = ECDSAInvalidSignatureS_s\<rparr>"

record ERC20InsufficientAllowance =
  ERC20InsufficientAllowance_spender :: address
  ERC20InsufficientAllowance_allowance :: u256
  ERC20InsufficientAllowance_needed :: u256

definition ERC20InsufficientAllowance_of_tuple :: "address \<times> u256 \<times> u256 \<Rightarrow> ERC20InsufficientAllowance" where
  "ERC20InsufficientAllowance_of_tuple = (\<lambda>(t0, t1, t2).
     \<lparr>ERC20InsufficientAllowance_spender = t0, ERC20InsufficientAllowance_allowance = t1,
      ERC20InsufficientAllowance_needed = t2\<rparr>)"

definition ERC20InsufficientAllowance_impl :: "(ERC20InsufficientAllowance, address \<times> u256 \<times> u256) sol_impl" where
  "ERC20InsufficientAllowance_impl =
     \<lparr>si_signature = ''ERC20InsufficientAllowance(address,uint256,uint256)'',
      si_selector = [251, 143, 65, 178],
      si_new = ERC20InsufficientAllowance_of_tuple,
      si_tokenize = (\<lambda>c. (ERC20InsufficientAllowance_spender c, ERC20InsufficientAllowance_allowance c,
              ERC20InsufficientAllowance_needed c))\<rparr>"

record ERC20InsufficientBalance =
  ERC20InsufficientBalance_sender :: address
  ERC20InsufficientBalance_balance :: u256
  ERC20InsufficientBalance_needed :: u256

definition ERC20InsufficientBalance_of_tuple :: "address \<times> u256 \<times> u256 \<Rightarrow> ERC20InsufficientBalance" where
  "ERC20InsufficientBalance_of_tuple = (\<lambda>(t0, t1, t2).
     \<lparr>ERC20InsufficientBalance_sender = t0, ERC20InsufficientBalance_balance = t1,
      ERC20InsufficientBalance_needed = t2\<rparr>)"

definition ERC20InsufficientBalance_impl :: "(ERC20InsufficientBalance, address \<times> u256 \<times> u256) sol_impl" where
  "ERC20InsufficientBalance_impl =
     \<lparr>si_signature = ''ERC20InsufficientBalance(address,uint256,uint256)'',
      si_selector = [228, 80, 211, 140],
      si_new = ERC20InsufficientBalance_of_tuple,
      si_tokenize = (\<lambda>c. (ERC20InsufficientBalance_sender c, ERC20InsufficientBalance_balance c,
              ERC20InsufficientBalance_needed c))\<rparr>"

record ERC20InvalidApprover =
  ERC20InvalidApprover_approver :: address

definition ERC20InvalidApprover_of_tuple :: "address \<Rightarrow> ERC20InvalidApprover" where
  "ERC20InvalidApprover_of_tuple = (\<lambda>t0.
     \<lparr>ERC20InvalidApprover_approver = t0\<rparr>)"

definition ERC20InvalidApprover_impl :: "(ERC20InvalidApprover, address) sol_impl" where
  "ERC20InvalidApprover_impl =
     \<lparr>si_signature = ''ERC20InvalidApprover(address)'',
      si_selector = [230, 2, 223, 5],
      si_new = ERC20InvalidApprover_of_tuple,
      si_tokenize = ERC20InvalidApprover_approver\<rparr>"

record ERC20InvalidReceiver =
  ERC20InvalidReceiver_receiver :: address

definition ERC20InvalidReceiver_of_tuple :: "address \<Rightarrow> ERC20InvalidReceiver" where
  "ERC20InvalidReceiver_of_tuple = (\<lambda>t0.
     \<lparr>ERC20InvalidReceiver_receiver = t0\<rparr>)"

definition ERC20InvalidReceiver_impl :: "(ERC20InvalidReceiver, address) sol_impl" where
  "ERC20InvalidReceiver_impl =
     \<lparr>si_signature = ''ERC20InvalidReceiver(address)'',
      si_selector = [236, 68, 47, 5],
      si_new = ERC20InvalidReceiver_of_tuple,
      si_tokenize = ERC20InvalidReceiver_receiver\<rparr>"

record ERC20InvalidSender =
  ERC20InvalidSender_sender :: address

definition ERC20InvalidSender_of_tuple :: "address \<Rightarrow> ERC20InvalidSender" where
  "ERC20InvalidSender_of_tuple = (\<lambda>t0.
     \<lparr>ERC20InvalidSender_sender = t0\<rparr>)"

definition ERC20InvalidSender_impl :: "(ERC20InvalidSender, address) sol_impl" where
  "ERC20InvalidSender_impl =
     \<lparr>si_signature = ''ERC20InvalidSender(address)'',
      si_selector = [150, 198, 253, 30],
      si_new = ERC20InvalidSender_of_tuple,
      si_tokenize = ERC20InvalidSender_sender\<rparr>"

record ERC20InvalidSpender =
  ERC20InvalidSpender_spender :: address

definition ERC20InvalidSpender_of_tuple :: "address \<Rightarrow> ERC20InvalidSpender" where
  "ERC20InvalidSpender_of_tuple = (\<lambda>t0.
     \<lparr>ERC20InvalidSpender_spender = t0\<rparr>)"

definition ERC20InvalidSpender_impl :: "(ERC20InvalidSpender, address) sol_impl" where
  "ERC20InvalidSpender_impl =
     \<lparr>si_signature = ''ERC20InvalidSpender(address)'',
      si_selector = [148, 40, 13, 98],
      si_new = ERC20InvalidSpender_of_tuple,
      si_tokenize = ERC20InvalidSpender_spender\<rparr>"

record ERC2612ExpiredSignature =
  ERC2612ExpiredSignature_deadline :: u256

definition ERC2612ExpiredSignature_of_tuple :: "u256 \<Rightarrow> ERC2612ExpiredSignature" where
  "ERC2612ExpiredSignature_of_tuple = (\<lambda>t0.
     \<lparr>ERC2612ExpiredSignature_deadline = t0\<rparr>)"

definition ERC2612ExpiredSignature_impl :: "(ERC2612ExpiredSignature, u256) sol_impl" where
  "ERC2612ExpiredSignature_impl =
     \<lparr>si_signature = ''ERC2612ExpiredSignature(uint256)'',
      si_selector = [98, 121, 19, 2],
      si_new = ERC2612ExpiredSignature_of_tuple,
      si_tokenize = ERC2612ExpiredSignature_deadline\<rparr>"

record ERC2612InvalidSigner =
  ERC2612InvalidSigner_signer :: address
  ERC2612InvalidSigner_owner :: address

definition ERC2612InvalidSigner_of_tuple :: "address \<times> address \<Rightarrow> ERC2612InvalidSigner" where
  "ERC2612InvalidSigner_of_tuple = (\<lambda>(t0, t1).
     \<lparr>ERC2612InvalidSigner_signer = t0, ERC2612InvalidSigner_owner = t1\<rparr>)"

definition ERC2612InvalidSigner_impl :: "(ERC2612InvalidSigner, address \<times> address) sol_impl" where
  "ERC2612InvalidSigner_impl =
     \<lparr>si_signature = ''ERC2612InvalidSigner(address,address)'',
      si_selector = [75, 128, 14, 70],
      si_new = ERC2612InvalidSigner_of_tuple,
      si_tokenize = (\<lambda>c. (ERC2612InvalidSigner_signer c, ERC2612InvalidSigner_owner c))\<rparr>"

definition EnforcedPause_impl :: "(unit, unit) sol_impl" where
  "EnforcedPause_impl =
     \<lparr>si_signature = ''EnforcedPause()'',
      si_selector = [217, 60, 6, 101],
      si_new = (\<lambda>_. ()),
      si_tokenize = (\<lambda>_. ())\<rparr>"

definition ExpectedPause_impl :: "(unit, unit) sol_impl" where
  "ExpectedPause_impl =
     \<lparr>si_signature = ''ExpectedPause()'',
      si_selector = [141, 252, 32, 43],
      si_new = (\<lambda>_. ()),
      si_tokenize = (\<lambda>_. ())\<rparr>"

record InvalidAccountNonce =
  InvalidAccountNonce_account :: address
  InvalidAccountNonce_currentNonce :: u256

definition InvalidAccountNonce_of_tuple :: "address \<times> u256 \<Rightarrow> InvalidAccountNonce" where
  "InvalidAccountNonce_of_tuple = (\<lambda>(t0, t1).
     \<lparr>InvalidAccountNonce_account = t0, InvalidAccountNonce_currentNonce = t1\<rparr>)"

definition InvalidAccountNonce_impl :: "(InvalidAccountNonce, address \<times> u256) sol_impl" where
  "InvalidAccountNonce_impl =
     \<lparr>si_signature = ''InvalidAccountNonce(address,uint256)'',
      si_selector = [117, 45, 136, 192],
      si_new = InvalidAccountNonce_of_tuple,
      si_tokenize = (\<lambda>c. (InvalidAccountNonce_account c, InvalidAccountNonce_currentNonce c))\<rparr>"

definition InvalidShortString_impl :: "(unit, unit) sol_impl" where
  "InvalidShortString_impl =
     \<lparr>si_signature = ''InvalidShortString()'',
      si_selector = [179, 81, 43, 12],
      si_new = (\<lambda>_. ()),
      si_tokenize = (\<lambda>_. ())\<rparr>"

record StringTooLong =
  StringTooLong_str :: string

definition StringTooLong_of_tuple :: "string \<Rightarrow> StringTooLong" where
  "StringTooLong_of_tuple = (\<lambda>t0.
     \<lparr>StringTooLong_str = t0\<rparr>)"

definition StringTooLong_impl :: "(StringTooLong, string) sol_impl" where
  "StringTooLong_impl =
     \<lparr>si_signature = ''StringTooLong(string)'',
      si_selector = [48, 90, 39, 169],
      si_new = StringTooLong_of_tuple,
      si_tokenize = StringTooLong_str\<rparr>"

datatype (plugins only: code) WrappedTokenErrors =
    AccessControlBadConfirmation_error
  | AccessControlUnauthorizedAccount_error AccessControlUnauthorizedAccount
  | ECDSAInvalidSignature_error
  | ECDSAInvalidSignatureLength_error ECDSAInvalidSignatureLength
  | ECDSAInvalidSignatureS_error ECDSAInvalidSignatureS
  | ERC20InsufficientAllowance_error ERC20InsufficientAllowance
  | ERC20InsufficientBalance_error ERC20InsufficientBalance
  | ERC20InvalidApprover_error ERC20InvalidApprover
  | ERC20InvalidReceiver_error ERC20InvalidReceiver
  | ERC20InvalidSender_error ERC20InvalidSender
  | ERC20InvalidSpender_error ERC20InvalidSpender
  | ERC2612ExpiredSignature_error ERC2612ExpiredSignature
  | ERC2612InvalidSigner_error ERC2612InvalidSigner
  | EnforcedPause_error
  | ExpectedPause_error
  | InvalidAccountNonce_error InvalidAccountNonce
  | InvalidShortString_error
  | StringTooLong_error StringTooLong

text \<open>The tables in the order of the selectors.\<close>

definition wrapped_error_selectors :: "bytes list" where
  "wrapped_error_selectors =
     [[48, 90, 39, 169], [75, 128, 14, 70], [98, 121, 19, 2], [102, 151, 178, 50], [117, 45, 136, 192],
      [141, 252, 32, 43], [148, 40, 13, 98], [150, 198, 253, 30], [179, 81, 43, 12],
      [215, 139, 206, 12], [217, 60, 6, 101], [226, 81, 125, 63], [228, 80, 211, 140], [230, 2, 223, 5],
      [236, 68, 47, 5], [246, 69, 238, 223], [251, 143, 65, 178], [252, 230, 152, 247]]"

definition wrapped_error_variant_names :: "string list" where
  "wrapped_error_variant_names =
     [''StringTooLong'', ''ERC2612InvalidSigner'', ''ERC2612ExpiredSignature'',
      ''AccessControlBadConfirmation'', ''InvalidAccountNonce'', ''ExpectedPause'',
      ''ERC20InvalidSpender'', ''ERC20InvalidSender'', ''InvalidShortString'',
      ''ECDSAInvalidSignatureS'', ''EnforcedPause'', ''AccessControlUnauthorizedAccount'',
      ''ERC20InsufficientBalance'', ''ERC20InvalidApprover'', ''ERC20InvalidReceiver'',
      ''ECDSAInvalidSignature'', ''ERC20InsufficientAllowance'', ''ECDSAInvalidSignatureLength'']"

definition wrapped_error_signatures :: "string list" where
  "wrapped_error_signatures =
     [si_signature StringTooLong_impl, si_signature ERC2612InvalidSigner_impl,
      si_signature ERC2612ExpiredSignature_impl, si_signature AccessControlBadConfirmation_impl,
      si_signature InvalidAccountNonce_impl, si_signature ExpectedPause_impl,
      si_signature ERC20InvalidSpender_impl, si_signature ERC20InvalidSender_impl,
      si_signature InvalidShortString_impl, si_signature ECDSAInvalidSignatureS_impl,
      si_signature EnforcedPause_impl, si_signature AccessControlUnauthorizedAccount_impl,
      si_signature ERC20InsufficientBalance_impl, si_signature ERC20InvalidApprover_impl,
      si_signature ERC20InvalidReceiver_impl, si_signature ECDSAInvalidSignature_impl,
      si_signature ERC20InsufficientAllowance_impl, si_signature ECDSAInvalidSignatureLength_impl]"

definition wrapped_error_signature_by_selector :: "bytes \<Rightarrow> string option run" where
  "wrapped_error_signature_by_selector sel = table_row wrapped_error_selectors wrapped_error_signatures sel"

definition wrapped_error_name_by_selector :: "bytes \<Rightarrow> string option run" where
  "wrapped_error_name_by_selector sel = map_ok name_of_signature (wrapped_error_signature_by_selector sel)"

text \<open>The crate's codecs; the structs without fields share one.\<close>

record 'x wrapped_error_codecs =
  unit_wrapped_error_abi :: "(unit, 'x) sol_call"
  AccessControlUnauthorizedAccount_abi :: "(AccessControlUnauthorizedAccount, 'x) sol_call"
  ECDSAInvalidSignatureLength_abi :: "(ECDSAInvalidSignatureLength, 'x) sol_call"
  ECDSAInvalidSignatureS_abi :: "(ECDSAInvalidSignatureS, 'x) sol_call"
  ERC20InsufficientAllowance_abi :: "(ERC20InsufficientAllowance, 'x) sol_call"
  ERC20InsufficientBalance_abi :: "(ERC20InsufficientBalance, 'x) sol_call"
  ERC20InvalidApprover_abi :: "(ERC20InvalidApprover, 'x) sol_call"
  ERC20InvalidReceiver_abi :: "(ERC20InvalidReceiver, 'x) sol_call"
  ERC20InvalidSender_abi :: "(ERC20InvalidSender, 'x) sol_call"
  ERC20InvalidSpender_abi :: "(ERC20InvalidSpender, 'x) sol_call"
  ERC2612ExpiredSignature_abi :: "(ERC2612ExpiredSignature, 'x) sol_call"
  ERC2612InvalidSigner_abi :: "(ERC2612InvalidSigner, 'x) sol_call"
  InvalidAccountNonce_abi :: "(InvalidAccountNonce, 'x) sol_call"
  StringTooLong_abi :: "(StringTooLong, 'x) sol_call"
  unit_wrapped_error_tuple :: "(unit, 'x) sol_tuple"
  AccessControlUnauthorizedAccount_tuple :: "(address \<times> hash, 'x) sol_tuple"
  ECDSAInvalidSignatureLength_tuple :: "(u256, 'x) sol_tuple"
  ECDSAInvalidSignatureS_tuple :: "(hash, 'x) sol_tuple"
  ERC20InsufficientAllowance_tuple :: "(address \<times> u256 \<times> u256, 'x) sol_tuple"
  ERC20InsufficientBalance_tuple :: "(address \<times> u256 \<times> u256, 'x) sol_tuple"
  ERC20InvalidApprover_tuple :: "(address, 'x) sol_tuple"
  ERC20InvalidReceiver_tuple :: "(address, 'x) sol_tuple"
  ERC20InvalidSender_tuple :: "(address, 'x) sol_tuple"
  ERC20InvalidSpender_tuple :: "(address, 'x) sol_tuple"
  ERC2612ExpiredSignature_tuple :: "(u256, 'x) sol_tuple"
  ERC2612InvalidSigner_tuple :: "(address \<times> address, 'x) sol_tuple"
  InvalidAccountNonce_tuple :: "(address \<times> u256, 'x) sol_tuple"
  StringTooLong_tuple :: "(string, 'x) sol_tuple"

primrec wrapped_error_selector :: "WrappedTokenErrors \<Rightarrow> bytes" where
  "wrapped_error_selector AccessControlBadConfirmation_error = si_selector AccessControlBadConfirmation_impl"
| "wrapped_error_selector (AccessControlUnauthorizedAccount_error c) = si_selector AccessControlUnauthorizedAccount_impl"
| "wrapped_error_selector ECDSAInvalidSignature_error = si_selector ECDSAInvalidSignature_impl"
| "wrapped_error_selector (ECDSAInvalidSignatureLength_error c) = si_selector ECDSAInvalidSignatureLength_impl"
| "wrapped_error_selector (ECDSAInvalidSignatureS_error c) = si_selector ECDSAInvalidSignatureS_impl"
| "wrapped_error_selector (ERC20InsufficientAllowance_error c) = si_selector ERC20InsufficientAllowance_impl"
| "wrapped_error_selector (ERC20InsufficientBalance_error c) = si_selector ERC20InsufficientBalance_impl"
| "wrapped_error_selector (ERC20InvalidApprover_error c) = si_selector ERC20InvalidApprover_impl"
| "wrapped_error_selector (ERC20InvalidReceiver_error c) = si_selector ERC20InvalidReceiver_impl"
| "wrapped_error_selector (ERC20InvalidSender_error c) = si_selector ERC20InvalidSender_impl"
| "wrapped_error_selector (ERC20InvalidSpender_error c) = si_selector ERC20InvalidSpender_impl"
| "wrapped_error_selector (ERC2612ExpiredSignature_error c) = si_selector ERC2612ExpiredSignature_impl"
| "wrapped_error_selector (ERC2612InvalidSigner_error c) = si_selector ERC2612InvalidSigner_impl"
| "wrapped_error_selector EnforcedPause_error = si_selector EnforcedPause_impl"
| "wrapped_error_selector ExpectedPause_error = si_selector ExpectedPause_impl"
| "wrapped_error_selector (InvalidAccountNonce_error c) = si_selector InvalidAccountNonce_impl"
| "wrapped_error_selector InvalidShortString_error = si_selector InvalidShortString_impl"
| "wrapped_error_selector (StringTooLong_error c) = si_selector StringTooLong_impl"

definition wrapped_error_selector_at :: "nat \<Rightarrow> bytes option" where
  "wrapped_error_selector_at i = (if i < length wrapped_error_selectors then Some (wrapped_error_selectors ! i) else None)"

definition wrapped_error_valid_selector :: "bytes \<Rightarrow> bool" where
  "wrapped_error_valid_selector sel \<longleftrightarrow> binary_search wrapped_error_selectors sel \<noteq> None"

definition wrapped_error_decode_shims :: "'x wrapped_error_codecs \<Rightarrow> (bytes \<Rightarrow> 'x sol_error + WrappedTokenErrors) list" where
  "wrapped_error_decode_shims A =
     [decode_shim StringTooLong_error (StringTooLong_abi A),
      decode_shim ERC2612InvalidSigner_error (ERC2612InvalidSigner_abi A),
      decode_shim ERC2612ExpiredSignature_error (ERC2612ExpiredSignature_abi A),
      decode_shim (\<lambda>_. AccessControlBadConfirmation_error) (unit_wrapped_error_abi A),
      decode_shim InvalidAccountNonce_error (InvalidAccountNonce_abi A),
      decode_shim (\<lambda>_. ExpectedPause_error) (unit_wrapped_error_abi A),
      decode_shim ERC20InvalidSpender_error (ERC20InvalidSpender_abi A),
      decode_shim ERC20InvalidSender_error (ERC20InvalidSender_abi A),
      decode_shim (\<lambda>_. InvalidShortString_error) (unit_wrapped_error_abi A),
      decode_shim ECDSAInvalidSignatureS_error (ECDSAInvalidSignatureS_abi A),
      decode_shim (\<lambda>_. EnforcedPause_error) (unit_wrapped_error_abi A),
      decode_shim AccessControlUnauthorizedAccount_error (AccessControlUnauthorizedAccount_abi A),
      decode_shim ERC20InsufficientBalance_error (ERC20InsufficientBalance_abi A),
      decode_shim ERC20InvalidApprover_error (ERC20InvalidApprover_abi A),
      decode_shim ERC20InvalidReceiver_error (ERC20InvalidReceiver_abi A),
      decode_shim (\<lambda>_. ECDSAInvalidSignature_error) (unit_wrapped_error_abi A),
      decode_shim ERC20InsufficientAllowance_error (ERC20InsufficientAllowance_abi A),
      decode_shim ECDSAInvalidSignatureLength_error (ECDSAInvalidSignatureLength_abi A)]"

definition wrapped_error_decode_raw :: "'x wrapped_error_codecs \<Rightarrow> bytes \<Rightarrow> bytes \<Rightarrow> ('x sol_error + WrappedTokenErrors) run" where
  "wrapped_error_decode_raw A sel data =
     dispatch_call ''WrappedTokenErrors'' wrapped_error_selectors (wrapped_error_decode_shims A) sel data"

definition wrapped_error_decode_validate_shims :: "'x wrapped_error_codecs \<Rightarrow> (bytes \<Rightarrow> 'x sol_error + WrappedTokenErrors) list" where
  "wrapped_error_decode_validate_shims A =
     [error_validate_shim StringTooLong_error StringTooLong_impl (StringTooLong_tuple A),
      error_validate_shim ERC2612InvalidSigner_error ERC2612InvalidSigner_impl (ERC2612InvalidSigner_tuple A),
      error_validate_shim ERC2612ExpiredSignature_error ERC2612ExpiredSignature_impl (ERC2612ExpiredSignature_tuple A),
      error_validate_shim (\<lambda>_. AccessControlBadConfirmation_error) AccessControlBadConfirmation_impl (unit_wrapped_error_tuple A),
      error_validate_shim InvalidAccountNonce_error InvalidAccountNonce_impl (InvalidAccountNonce_tuple A),
      error_validate_shim (\<lambda>_. ExpectedPause_error) ExpectedPause_impl (unit_wrapped_error_tuple A),
      error_validate_shim ERC20InvalidSpender_error ERC20InvalidSpender_impl (ERC20InvalidSpender_tuple A),
      error_validate_shim ERC20InvalidSender_error ERC20InvalidSender_impl (ERC20InvalidSender_tuple A),
      error_validate_shim (\<lambda>_. InvalidShortString_error) InvalidShortString_impl (unit_wrapped_error_tuple A),
      error_validate_shim ECDSAInvalidSignatureS_error ECDSAInvalidSignatureS_impl (ECDSAInvalidSignatureS_tuple A),
      error_validate_shim (\<lambda>_. EnforcedPause_error) EnforcedPause_impl (unit_wrapped_error_tuple A),
      error_validate_shim AccessControlUnauthorizedAccount_error AccessControlUnauthorizedAccount_impl (AccessControlUnauthorizedAccount_tuple A),
      error_validate_shim ERC20InsufficientBalance_error ERC20InsufficientBalance_impl (ERC20InsufficientBalance_tuple A),
      error_validate_shim ERC20InvalidApprover_error ERC20InvalidApprover_impl (ERC20InvalidApprover_tuple A),
      error_validate_shim ERC20InvalidReceiver_error ERC20InvalidReceiver_impl (ERC20InvalidReceiver_tuple A),
      error_validate_shim (\<lambda>_. ECDSAInvalidSignature_error) ECDSAInvalidSignature_impl (unit_wrapped_error_tuple A),
      error_validate_shim ERC20InsufficientAllowance_error ERC20InsufficientAllowance_impl (ERC20InsufficientAllowance_tuple A),
      error_validate_shim ECDSAInvalidSignatureLength_error ECDSAInvalidSignatureLength_impl (ECDSAInvalidSignatureLength_tuple A)]"

definition wrapped_error_decode_raw_validate :: "'x wrapped_error_codecs \<Rightarrow> bytes \<Rightarrow> bytes \<Rightarrow> ('x sol_error + WrappedTokenErrors) run" where
  "wrapped_error_decode_raw_validate A sel data =
     dispatch_call ''WrappedTokenErrors'' wrapped_error_selectors (wrapped_error_decode_validate_shims A) sel data"

primrec wrapped_error_encoded_size :: "'x wrapped_error_codecs \<Rightarrow> WrappedTokenErrors \<Rightarrow> nat" where
  "wrapped_error_encoded_size A AccessControlBadConfirmation_error = sc_encoded_size (unit_wrapped_error_abi A) ()"
| "wrapped_error_encoded_size A (AccessControlUnauthorizedAccount_error c) = sc_encoded_size (AccessControlUnauthorizedAccount_abi A) c"
| "wrapped_error_encoded_size A ECDSAInvalidSignature_error = sc_encoded_size (unit_wrapped_error_abi A) ()"
| "wrapped_error_encoded_size A (ECDSAInvalidSignatureLength_error c) = sc_encoded_size (ECDSAInvalidSignatureLength_abi A) c"
| "wrapped_error_encoded_size A (ECDSAInvalidSignatureS_error c) = sc_encoded_size (ECDSAInvalidSignatureS_abi A) c"
| "wrapped_error_encoded_size A (ERC20InsufficientAllowance_error c) = sc_encoded_size (ERC20InsufficientAllowance_abi A) c"
| "wrapped_error_encoded_size A (ERC20InsufficientBalance_error c) = sc_encoded_size (ERC20InsufficientBalance_abi A) c"
| "wrapped_error_encoded_size A (ERC20InvalidApprover_error c) = sc_encoded_size (ERC20InvalidApprover_abi A) c"
| "wrapped_error_encoded_size A (ERC20InvalidReceiver_error c) = sc_encoded_size (ERC20InvalidReceiver_abi A) c"
| "wrapped_error_encoded_size A (ERC20InvalidSender_error c) = sc_encoded_size (ERC20InvalidSender_abi A) c"
| "wrapped_error_encoded_size A (ERC20InvalidSpender_error c) = sc_encoded_size (ERC20InvalidSpender_abi A) c"
| "wrapped_error_encoded_size A (ERC2612ExpiredSignature_error c) = sc_encoded_size (ERC2612ExpiredSignature_abi A) c"
| "wrapped_error_encoded_size A (ERC2612InvalidSigner_error c) = sc_encoded_size (ERC2612InvalidSigner_abi A) c"
| "wrapped_error_encoded_size A EnforcedPause_error = sc_encoded_size (unit_wrapped_error_abi A) ()"
| "wrapped_error_encoded_size A ExpectedPause_error = sc_encoded_size (unit_wrapped_error_abi A) ()"
| "wrapped_error_encoded_size A (InvalidAccountNonce_error c) = sc_encoded_size (InvalidAccountNonce_abi A) c"
| "wrapped_error_encoded_size A InvalidShortString_error = sc_encoded_size (unit_wrapped_error_abi A) ()"
| "wrapped_error_encoded_size A (StringTooLong_error c) = sc_encoded_size (StringTooLong_abi A) c"

fun wrapped_error_encode_raw :: "'x wrapped_error_codecs \<Rightarrow> WrappedTokenErrors \<Rightarrow> bytes \<Rightarrow> bytes" where
  "wrapped_error_encode_raw A AccessControlBadConfirmation_error out = sc_encode_raw (unit_wrapped_error_abi A) () out"
| "wrapped_error_encode_raw A (AccessControlUnauthorizedAccount_error c) out = sc_encode_raw (AccessControlUnauthorizedAccount_abi A) c out"
| "wrapped_error_encode_raw A ECDSAInvalidSignature_error out = sc_encode_raw (unit_wrapped_error_abi A) () out"
| "wrapped_error_encode_raw A (ECDSAInvalidSignatureLength_error c) out = sc_encode_raw (ECDSAInvalidSignatureLength_abi A) c out"
| "wrapped_error_encode_raw A (ECDSAInvalidSignatureS_error c) out = sc_encode_raw (ECDSAInvalidSignatureS_abi A) c out"
| "wrapped_error_encode_raw A (ERC20InsufficientAllowance_error c) out = sc_encode_raw (ERC20InsufficientAllowance_abi A) c out"
| "wrapped_error_encode_raw A (ERC20InsufficientBalance_error c) out = sc_encode_raw (ERC20InsufficientBalance_abi A) c out"
| "wrapped_error_encode_raw A (ERC20InvalidApprover_error c) out = sc_encode_raw (ERC20InvalidApprover_abi A) c out"
| "wrapped_error_encode_raw A (ERC20InvalidReceiver_error c) out = sc_encode_raw (ERC20InvalidReceiver_abi A) c out"
| "wrapped_error_encode_raw A (ERC20InvalidSender_error c) out = sc_encode_raw (ERC20InvalidSender_abi A) c out"
| "wrapped_error_encode_raw A (ERC20InvalidSpender_error c) out = sc_encode_raw (ERC20InvalidSpender_abi A) c out"
| "wrapped_error_encode_raw A (ERC2612ExpiredSignature_error c) out = sc_encode_raw (ERC2612ExpiredSignature_abi A) c out"
| "wrapped_error_encode_raw A (ERC2612InvalidSigner_error c) out = sc_encode_raw (ERC2612InvalidSigner_abi A) c out"
| "wrapped_error_encode_raw A EnforcedPause_error out = sc_encode_raw (unit_wrapped_error_abi A) () out"
| "wrapped_error_encode_raw A ExpectedPause_error out = sc_encode_raw (unit_wrapped_error_abi A) () out"
| "wrapped_error_encode_raw A (InvalidAccountNonce_error c) out = sc_encode_raw (InvalidAccountNonce_abi A) c out"
| "wrapped_error_encode_raw A InvalidShortString_error out = sc_encode_raw (unit_wrapped_error_abi A) () out"
| "wrapped_error_encode_raw A (StringTooLong_error c) out = sc_encode_raw (StringTooLong_abi A) c out"

section \<open>Dispatch\<close>

lemmas wrapped_error_impls =
  AccessControlBadConfirmation_impl_def AccessControlUnauthorizedAccount_impl_def
  ECDSAInvalidSignature_impl_def ECDSAInvalidSignatureLength_impl_def ECDSAInvalidSignatureS_impl_def
  ERC20InsufficientAllowance_impl_def ERC20InsufficientBalance_impl_def ERC20InvalidApprover_impl_def
  ERC20InvalidReceiver_impl_def ERC20InvalidSender_impl_def ERC20InvalidSpender_impl_def
  ERC2612ExpiredSignature_impl_def ERC2612InvalidSigner_impl_def EnforcedPause_impl_def
  ExpectedPause_impl_def InvalidAccountNonce_impl_def InvalidShortString_impl_def StringTooLong_impl_def

lemmas wrapped_error_froms =
  AccessControlUnauthorizedAccount_of_tuple_def ECDSAInvalidSignatureLength_of_tuple_def
  ECDSAInvalidSignatureS_of_tuple_def ERC20InsufficientAllowance_of_tuple_def
  ERC20InsufficientBalance_of_tuple_def ERC20InvalidApprover_of_tuple_def
  ERC20InvalidReceiver_of_tuple_def ERC20InvalidSender_of_tuple_def ERC20InvalidSpender_of_tuple_def
  ERC2612ExpiredSignature_of_tuple_def ERC2612InvalidSigner_of_tuple_def
  InvalidAccountNonce_of_tuple_def StringTooLong_of_tuple_def

lemma wrapped_error_new_tokenize:
  "si_new AccessControlUnauthorizedAccount_impl (si_tokenize AccessControlUnauthorizedAccount_impl c0) = c0"
  "si_new ECDSAInvalidSignatureLength_impl (si_tokenize ECDSAInvalidSignatureLength_impl c1) = c1"
  "si_new ECDSAInvalidSignatureS_impl (si_tokenize ECDSAInvalidSignatureS_impl c2) = c2"
  "si_new ERC20InsufficientAllowance_impl (si_tokenize ERC20InsufficientAllowance_impl c3) = c3"
  "si_new ERC20InsufficientBalance_impl (si_tokenize ERC20InsufficientBalance_impl c4) = c4"
  "si_new ERC20InvalidApprover_impl (si_tokenize ERC20InvalidApprover_impl c5) = c5"
  "si_new ERC20InvalidReceiver_impl (si_tokenize ERC20InvalidReceiver_impl c6) = c6"
  "si_new ERC20InvalidSender_impl (si_tokenize ERC20InvalidSender_impl c7) = c7"
  "si_new ERC20InvalidSpender_impl (si_tokenize ERC20InvalidSpender_impl c8) = c8"
  "si_new ERC2612ExpiredSignature_impl (si_tokenize ERC2612ExpiredSignature_impl c9) = c9"
  "si_new ERC2612InvalidSigner_impl (si_tokenize ERC2612InvalidSigner_impl c10) = c10"
  "si_new InvalidAccountNonce_impl (si_tokenize InvalidAccountNonce_impl c11) = c11"
  "si_new StringTooLong_impl (si_tokenize StringTooLong_impl c12) = c12"
  by (simp_all add: wrapped_error_impls wrapped_error_froms)

text \<open>The row of the tables that a variant has.\<close>

primrec wrapped_error_row :: "WrappedTokenErrors \<Rightarrow> nat" where
  "wrapped_error_row AccessControlBadConfirmation_error = 3"
| "wrapped_error_row (AccessControlUnauthorizedAccount_error c) = 11"
| "wrapped_error_row ECDSAInvalidSignature_error = 15"
| "wrapped_error_row (ECDSAInvalidSignatureLength_error c) = 17"
| "wrapped_error_row (ECDSAInvalidSignatureS_error c) = 9"
| "wrapped_error_row (ERC20InsufficientAllowance_error c) = 16"
| "wrapped_error_row (ERC20InsufficientBalance_error c) = 12"
| "wrapped_error_row (ERC20InvalidApprover_error c) = 13"
| "wrapped_error_row (ERC20InvalidReceiver_error c) = 14"
| "wrapped_error_row (ERC20InvalidSender_error c) = 7"
| "wrapped_error_row (ERC20InvalidSpender_error c) = 6"
| "wrapped_error_row (ERC2612ExpiredSignature_error c) = 2"
| "wrapped_error_row (ERC2612InvalidSigner_error c) = 1"
| "wrapped_error_row EnforcedPause_error = 10"
| "wrapped_error_row ExpectedPause_error = 5"
| "wrapped_error_row (InvalidAccountNonce_error c) = 4"
| "wrapped_error_row InvalidShortString_error = 8"
| "wrapped_error_row (StringTooLong_error c) = 0"

lemma wrapped_error_ascending: "dispatch_table wrapped_error_selectors"
  by (rule ascending_table) (simp add: wrapped_error_selectors_def)

interpretation wrapped_errors: typed_dispatch wrapped_error_selectors wrapped_error_selector "wrapped_error_decode_shims A" for A
  by (intro typed_dispatch.intro typed_dispatch_axioms.intro wrapped_error_ascending)
    (simp add: wrapped_error_selectors_def wrapped_error_decode_shims_def typed_row_shims wrapped_error_impls)

interpretation wrapped_errors_validate: typed_dispatch wrapped_error_selectors wrapped_error_selector "wrapped_error_decode_validate_shims A" for A
  by (intro typed_dispatch.intro typed_dispatch_axioms.intro wrapped_error_ascending)
    (simp add: wrapped_error_selectors_def wrapped_error_decode_validate_shims_def typed_row_shims wrapped_error_impls)

lemma wrapped_error_row_selector:
  "wrapped_error_row c < length wrapped_error_selectors \<and> wrapped_error_selectors ! wrapped_error_row c = wrapped_error_selector c"
  by (cases c) (simp_all add: wrapped_error_selectors_def wrapped_error_impls)

lemma wrapped_error_name:
  "wrapped_error_name_by_selector (wrapped_error_selector c) = Inr (Some (wrapped_error_variant_names ! wrapped_error_row c))"
proof -
  have "wrapped_error_signature_by_selector (wrapped_error_selector c) = Inr (Some (wrapped_error_signatures ! wrapped_error_row c))"
    using wrapped_errors.row_nth [of "wrapped_error_row c" wrapped_error_signatures] wrapped_error_row_selector [of c]
    by (simp add: wrapped_error_signature_by_selector_def) (simp add: wrapped_error_signatures_def wrapped_error_selectors_def)
  moreover have "name_of_signature (Some (wrapped_error_signatures ! wrapped_error_row c)) = Some (wrapped_error_variant_names ! wrapped_error_row c)"
    by (cases c) (simp_all add: wrapped_error_signatures_def wrapped_error_variant_names_def name_of_signature_def split_once_def wrapped_error_impls)
  ultimately show ?thesis by (simp add: wrapped_error_name_by_selector_def map_ok_def)
qed

text \<open>What is relied on for a value of the enum.\<close>

primrec wrapped_error_law :: "'x wrapped_error_codecs \<Rightarrow> WrappedTokenErrors \<Rightarrow> bool" where
  "wrapped_error_law A AccessControlBadConfirmation_error \<longleftrightarrow> error_law AccessControlBadConfirmation_impl (unit_wrapped_error_abi A) (unit_wrapped_error_tuple A) ()"
| "wrapped_error_law A (AccessControlUnauthorizedAccount_error c) \<longleftrightarrow> error_law AccessControlUnauthorizedAccount_impl (AccessControlUnauthorizedAccount_abi A) (AccessControlUnauthorizedAccount_tuple A) c"
| "wrapped_error_law A ECDSAInvalidSignature_error \<longleftrightarrow> error_law ECDSAInvalidSignature_impl (unit_wrapped_error_abi A) (unit_wrapped_error_tuple A) ()"
| "wrapped_error_law A (ECDSAInvalidSignatureLength_error c) \<longleftrightarrow> error_law ECDSAInvalidSignatureLength_impl (ECDSAInvalidSignatureLength_abi A) (ECDSAInvalidSignatureLength_tuple A) c"
| "wrapped_error_law A (ECDSAInvalidSignatureS_error c) \<longleftrightarrow> error_law ECDSAInvalidSignatureS_impl (ECDSAInvalidSignatureS_abi A) (ECDSAInvalidSignatureS_tuple A) c"
| "wrapped_error_law A (ERC20InsufficientAllowance_error c) \<longleftrightarrow> error_law ERC20InsufficientAllowance_impl (ERC20InsufficientAllowance_abi A) (ERC20InsufficientAllowance_tuple A) c"
| "wrapped_error_law A (ERC20InsufficientBalance_error c) \<longleftrightarrow> error_law ERC20InsufficientBalance_impl (ERC20InsufficientBalance_abi A) (ERC20InsufficientBalance_tuple A) c"
| "wrapped_error_law A (ERC20InvalidApprover_error c) \<longleftrightarrow> error_law ERC20InvalidApprover_impl (ERC20InvalidApprover_abi A) (ERC20InvalidApprover_tuple A) c"
| "wrapped_error_law A (ERC20InvalidReceiver_error c) \<longleftrightarrow> error_law ERC20InvalidReceiver_impl (ERC20InvalidReceiver_abi A) (ERC20InvalidReceiver_tuple A) c"
| "wrapped_error_law A (ERC20InvalidSender_error c) \<longleftrightarrow> error_law ERC20InvalidSender_impl (ERC20InvalidSender_abi A) (ERC20InvalidSender_tuple A) c"
| "wrapped_error_law A (ERC20InvalidSpender_error c) \<longleftrightarrow> error_law ERC20InvalidSpender_impl (ERC20InvalidSpender_abi A) (ERC20InvalidSpender_tuple A) c"
| "wrapped_error_law A (ERC2612ExpiredSignature_error c) \<longleftrightarrow> error_law ERC2612ExpiredSignature_impl (ERC2612ExpiredSignature_abi A) (ERC2612ExpiredSignature_tuple A) c"
| "wrapped_error_law A (ERC2612InvalidSigner_error c) \<longleftrightarrow> error_law ERC2612InvalidSigner_impl (ERC2612InvalidSigner_abi A) (ERC2612InvalidSigner_tuple A) c"
| "wrapped_error_law A EnforcedPause_error \<longleftrightarrow> error_law EnforcedPause_impl (unit_wrapped_error_abi A) (unit_wrapped_error_tuple A) ()"
| "wrapped_error_law A ExpectedPause_error \<longleftrightarrow> error_law ExpectedPause_impl (unit_wrapped_error_abi A) (unit_wrapped_error_tuple A) ()"
| "wrapped_error_law A (InvalidAccountNonce_error c) \<longleftrightarrow> error_law InvalidAccountNonce_impl (InvalidAccountNonce_abi A) (InvalidAccountNonce_tuple A) c"
| "wrapped_error_law A InvalidShortString_error \<longleftrightarrow> error_law InvalidShortString_impl (unit_wrapped_error_abi A) (unit_wrapped_error_tuple A) ()"
| "wrapped_error_law A (StringTooLong_error c) \<longleftrightarrow> error_law StringTooLong_impl (StringTooLong_abi A) (StringTooLong_tuple A) c"

lemma wrapped_error_own_shims:
  assumes "wrapped_error_law A c"
  shows "\<exists>body. (\<forall>out. wrapped_error_encode_raw A c out = out @ body) \<and> length body = wrapped_error_encoded_size A c
    \<and> (wrapped_error_decode_shims A ! wrapped_error_row c) body = Inr c
    \<and> (wrapped_error_decode_validate_shims A ! wrapped_error_row c) body = Inr c"
  using assms
  by (cases c)
    (auto dest!: error_law_call simp: wrapped_error_new_tokenize call_law_def shim_simps wrapped_error_decode_shims_def wrapped_error_decode_validate_shims_def)

lemma wrapped_error_typed:
  "case wrapped_error_decode_raw A sel data of
     Inl p \<Rightarrow> False
   | Inr (Inl e) \<Rightarrow> if wrapped_error_valid_selector sel then \<exists>x. e = Codec x else e = UnknownSelector ''WrappedTokenErrors'' sel
   | Inr (Inr call) \<Rightarrow> wrapped_error_selector call = sel \<and> wrapped_error_valid_selector sel"
  using wrapped_errors.dispatch_typed [where A = A and name = "''WrappedTokenErrors''" and sel = sel and data = data] wrapped_errors.search_None [of sel]
  by (auto simp: wrapped_error_decode_raw_def wrapped_error_valid_selector_def split: sum.splits if_splits)

lemma wrapped_error_encodes:
  assumes "wrapped_error_law A call"
  shows "\<exists>body. wrapped_error_encode_raw A call out = out @ body \<and> length body = wrapped_error_encoded_size A call
    \<and> wrapped_error_decode_raw A (wrapped_error_selector call) body = Inr (Inr call)
    \<and> wrapped_error_decode_raw_validate A (wrapped_error_selector call) body = Inr (Inr call)"
proof -
  have row: "wrapped_error_row call < length wrapped_error_selectors" "wrapped_error_selectors ! wrapped_error_row call = wrapped_error_selector call"
    using wrapped_error_row_selector by blast+
  from wrapped_error_own_shims [OF assms] show ?thesis
    unfolding wrapped_error_decode_raw_def wrapped_error_decode_raw_validate_def
    by (auto simp: wrapped_errors.dispatch_at [OF row] wrapped_errors_validate.dispatch_at [OF row])
qed

end
