(* ===== verification/Wrapped_Events.thy ===== *)
theory Wrapped_Events
  imports Sol_Traits
begin

text \<open>
  The events of \<^verbatim>\<open>protocol/bindings/src/wrapped_token.rs\<close>, the bridged token, as in \<open>Bridge_Events\<close>.
\<close>

section \<open>The events\<close>

record Approval =
  Approval_owner :: address
  Approval_spender :: address
  Approval_value :: u256

definition Approval_signature :: string where
  "Approval_signature = ''Approval(address,address,uint256)''"

definition Approval_hash :: hash where
  "Approval_hash = b256
     [140, 91, 225, 229, 235, 236, 125, 91, 209, 79, 113, 66, 125, 30, 132, 243, 221, 3, 20, 192, 247,
      178, 41, 30, 91, 32, 10, 200, 199, 195, 185, 37]"

definition Approval_new :: "(hash \<times> address \<times> address) \<Rightarrow> u256 \<Rightarrow> Approval" where
  "Approval_new = (\<lambda>(t0, t1, t2) d0.
     \<lparr>Approval_owner = t1, Approval_spender = t2, Approval_value = d0\<rparr>)"

definition Approval_check_signature :: "hash \<times> address \<times> address \<Rightarrow> 'x sol_error + unit" where
  "Approval_check_signature topics =
     (if fst topics \<noteq> Approval_hash then Inl (InvalidSignatureHash Approval_signature (fst topics) Approval_hash)
      else Inr ())"

definition Approval_tokenize_body :: "Approval \<Rightarrow> u256" where
  "Approval_tokenize_body e = (Approval_value e)"

definition Approval_topics :: "Approval \<Rightarrow> hash \<times> address \<times> address" where
  "Approval_topics e = (Approval_hash, Approval_owner e, Approval_spender e)"

definition Approval_topic_list :: "topic_words \<Rightarrow> hash \<times> address \<times> address \<Rightarrow> hash list" where
  "Approval_topic_list W = (\<lambda>(t0, t1, t2). [t0, tw_address W t1, tw_address W t2])"

definition Approval_encode_topics_raw ::
    "topic_words \<Rightarrow> Approval \<Rightarrow> hash list \<Rightarrow> ('x sol_error + hash list) run" where
  "Approval_encode_topics_raw W e out =
     (if length out < 3 then Inr (Inl Overrun)
      else map_ok Inr
        (and_then (set_at 0 Approval_hash out) (\<lambda>out.
         and_then (set_at 1 (tw_address W (Approval_owner e)) out) (\<lambda>out.
         set_at 2 (tw_address W (Approval_spender e)) out))))"

definition Approval_event_impl :: "topic_words \<Rightarrow> (Approval, hash \<times> address \<times> address, u256, 'x) event_impl" where
  "Approval_event_impl W =
     \<lparr>ei_signature = Approval_signature, ei_signature_hash = Approval_hash, ei_count = 3,
      ei_new = Approval_new, ei_check_signature = Approval_check_signature,
      ei_tokenize_body = Approval_tokenize_body, ei_topics = Approval_topics, ei_topic_list = Approval_topic_list W,
      ei_encode_topics_raw = Approval_encode_topics_raw W\<rparr>"

type_synonym EIP712DomainChanged = unit

definition EIP712DomainChanged_signature :: string where
  "EIP712DomainChanged_signature = ''EIP712DomainChanged()''"

definition EIP712DomainChanged_hash :: hash where
  "EIP712DomainChanged_hash = b256
     [10, 99, 135, 201, 234, 54, 40, 184, 138, 99, 59, 180, 243, 177, 81, 119, 15, 112, 8, 81, 23, 161,
      95, 155, 243, 120, 124, 218, 83, 241, 61, 49]"

definition EIP712DomainChanged_new :: "hash \<Rightarrow> unit \<Rightarrow> EIP712DomainChanged" where
  "EIP712DomainChanged_new = (\<lambda>t0 _.
     ())"

definition EIP712DomainChanged_check_signature :: "hash \<Rightarrow> 'x sol_error + unit" where
  "EIP712DomainChanged_check_signature t0 =
     (if t0 \<noteq> EIP712DomainChanged_hash then Inl (InvalidSignatureHash EIP712DomainChanged_signature t0 EIP712DomainChanged_hash)
      else Inr ())"

definition EIP712DomainChanged_tokenize_body :: "EIP712DomainChanged \<Rightarrow> unit" where
  "EIP712DomainChanged_tokenize_body e = ()"

definition EIP712DomainChanged_topics :: "EIP712DomainChanged \<Rightarrow> hash" where
  "EIP712DomainChanged_topics e = (EIP712DomainChanged_hash)"

definition EIP712DomainChanged_topic_list :: "topic_words \<Rightarrow> hash \<Rightarrow> hash list" where
  "EIP712DomainChanged_topic_list W p = [p]"

definition EIP712DomainChanged_encode_topics_raw ::
    "topic_words \<Rightarrow> EIP712DomainChanged \<Rightarrow> hash list \<Rightarrow> ('x sol_error + hash list) run" where
  "EIP712DomainChanged_encode_topics_raw W e out =
     (if length out < 1 then Inr (Inl Overrun)
      else map_ok Inr
        (set_at 0 EIP712DomainChanged_hash out))"

definition EIP712DomainChanged_event_impl :: "topic_words \<Rightarrow> (EIP712DomainChanged, hash, unit, 'x) event_impl" where
  "EIP712DomainChanged_event_impl W =
     \<lparr>ei_signature = EIP712DomainChanged_signature, ei_signature_hash = EIP712DomainChanged_hash, ei_count = 1,
      ei_new = EIP712DomainChanged_new, ei_check_signature = EIP712DomainChanged_check_signature,
      ei_tokenize_body = EIP712DomainChanged_tokenize_body, ei_topics = EIP712DomainChanged_topics, ei_topic_list = EIP712DomainChanged_topic_list W,
      ei_encode_topics_raw = EIP712DomainChanged_encode_topics_raw W\<rparr>"

record Paused =
  Paused_account :: address

definition Paused_signature :: string where
  "Paused_signature = ''Paused(address)''"

definition Paused_hash :: hash where
  "Paused_hash = b256
     [98, 231, 140, 234, 1, 190, 227, 32, 205, 78, 66, 2, 112, 181, 234, 116, 0, 13, 17, 176, 201, 247,
      71, 84, 235, 219, 252, 84, 75, 5, 162, 88]"

definition Paused_new :: "hash \<Rightarrow> address \<Rightarrow> Paused" where
  "Paused_new = (\<lambda>t0 d0.
     \<lparr>Paused_account = d0\<rparr>)"

definition Paused_check_signature :: "hash \<Rightarrow> 'x sol_error + unit" where
  "Paused_check_signature t0 =
     (if t0 \<noteq> Paused_hash then Inl (InvalidSignatureHash Paused_signature t0 Paused_hash)
      else Inr ())"

definition Paused_tokenize_body :: "Paused \<Rightarrow> address" where
  "Paused_tokenize_body e = (Paused_account e)"

definition Paused_topics :: "Paused \<Rightarrow> hash" where
  "Paused_topics e = (Paused_hash)"

definition Paused_topic_list :: "topic_words \<Rightarrow> hash \<Rightarrow> hash list" where
  "Paused_topic_list W p = [p]"

definition Paused_encode_topics_raw ::
    "topic_words \<Rightarrow> Paused \<Rightarrow> hash list \<Rightarrow> ('x sol_error + hash list) run" where
  "Paused_encode_topics_raw W e out =
     (if length out < 1 then Inr (Inl Overrun)
      else map_ok Inr
        (set_at 0 Paused_hash out))"

definition Paused_event_impl :: "topic_words \<Rightarrow> (Paused, hash, address, 'x) event_impl" where
  "Paused_event_impl W =
     \<lparr>ei_signature = Paused_signature, ei_signature_hash = Paused_hash, ei_count = 1,
      ei_new = Paused_new, ei_check_signature = Paused_check_signature,
      ei_tokenize_body = Paused_tokenize_body, ei_topics = Paused_topics, ei_topic_list = Paused_topic_list W,
      ei_encode_topics_raw = Paused_encode_topics_raw W\<rparr>"

record RoleAdminChanged =
  RoleAdminChanged_role :: hash
  RoleAdminChanged_previousAdminRole :: hash
  RoleAdminChanged_newAdminRole :: hash

definition RoleAdminChanged_signature :: string where
  "RoleAdminChanged_signature = ''RoleAdminChanged(bytes32,bytes32,bytes32)''"

definition RoleAdminChanged_hash :: hash where
  "RoleAdminChanged_hash = b256
     [189, 121, 184, 111, 254, 10, 184, 232, 119, 97, 81, 81, 66, 23, 205, 124, 172, 213, 44, 144, 159,
      102, 71, 92, 58, 244, 78, 18, 159, 11, 0, 255]"

definition RoleAdminChanged_new :: "(hash \<times> hash \<times> hash \<times> hash) \<Rightarrow> unit \<Rightarrow> RoleAdminChanged" where
  "RoleAdminChanged_new = (\<lambda>(t0, t1, t2, t3) _.
     \<lparr>RoleAdminChanged_role = t1, RoleAdminChanged_previousAdminRole = t2,
      RoleAdminChanged_newAdminRole = t3\<rparr>)"

definition RoleAdminChanged_check_signature :: "hash \<times> hash \<times> hash \<times> hash \<Rightarrow> 'x sol_error + unit" where
  "RoleAdminChanged_check_signature topics =
     (if fst topics \<noteq> RoleAdminChanged_hash then Inl (InvalidSignatureHash RoleAdminChanged_signature (fst topics) RoleAdminChanged_hash)
      else Inr ())"

definition RoleAdminChanged_tokenize_body :: "RoleAdminChanged \<Rightarrow> unit" where
  "RoleAdminChanged_tokenize_body e = ()"

definition RoleAdminChanged_topics :: "RoleAdminChanged \<Rightarrow> hash \<times> hash \<times> hash \<times> hash" where
  "RoleAdminChanged_topics e = (RoleAdminChanged_hash, RoleAdminChanged_role e, RoleAdminChanged_previousAdminRole e, RoleAdminChanged_newAdminRole e)"

definition RoleAdminChanged_topic_list :: "topic_words \<Rightarrow> hash \<times> hash \<times> hash \<times> hash \<Rightarrow> hash list" where
  "RoleAdminChanged_topic_list W = (\<lambda>(t0, t1, t2, t3). [t0, tw_fixed W t1, tw_fixed W t2, tw_fixed W t3])"

definition RoleAdminChanged_encode_topics_raw ::
    "topic_words \<Rightarrow> RoleAdminChanged \<Rightarrow> hash list \<Rightarrow> ('x sol_error + hash list) run" where
  "RoleAdminChanged_encode_topics_raw W e out =
     (if length out < 4 then Inr (Inl Overrun)
      else map_ok Inr
        (and_then (set_at 0 RoleAdminChanged_hash out) (\<lambda>out.
         and_then (set_at 1 (tw_fixed W (RoleAdminChanged_role e)) out) (\<lambda>out.
         and_then (set_at 2 (tw_fixed W (RoleAdminChanged_previousAdminRole e)) out) (\<lambda>out.
         set_at 3 (tw_fixed W (RoleAdminChanged_newAdminRole e)) out)))))"

definition RoleAdminChanged_event_impl :: "topic_words \<Rightarrow> (RoleAdminChanged, hash \<times> hash \<times> hash \<times> hash, unit, 'x) event_impl" where
  "RoleAdminChanged_event_impl W =
     \<lparr>ei_signature = RoleAdminChanged_signature, ei_signature_hash = RoleAdminChanged_hash, ei_count = 4,
      ei_new = RoleAdminChanged_new, ei_check_signature = RoleAdminChanged_check_signature,
      ei_tokenize_body = RoleAdminChanged_tokenize_body, ei_topics = RoleAdminChanged_topics, ei_topic_list = RoleAdminChanged_topic_list W,
      ei_encode_topics_raw = RoleAdminChanged_encode_topics_raw W\<rparr>"

record RoleGranted =
  RoleGranted_role :: hash
  RoleGranted_account :: address
  RoleGranted_sender :: address

definition RoleGranted_signature :: string where
  "RoleGranted_signature = ''RoleGranted(bytes32,address,address)''"

definition RoleGranted_hash :: hash where
  "RoleGranted_hash = b256
     [47, 135, 136, 17, 126, 126, 255, 29, 130, 233, 38, 236, 121, 73, 1, 209, 124, 120, 2, 74, 80, 39,
      9, 64, 48, 69, 64, 167, 51, 101, 111, 13]"

definition RoleGranted_new :: "(hash \<times> hash \<times> address \<times> address) \<Rightarrow> unit \<Rightarrow> RoleGranted" where
  "RoleGranted_new = (\<lambda>(t0, t1, t2, t3) _.
     \<lparr>RoleGranted_role = t1, RoleGranted_account = t2, RoleGranted_sender = t3\<rparr>)"

definition RoleGranted_check_signature :: "hash \<times> hash \<times> address \<times> address \<Rightarrow> 'x sol_error + unit" where
  "RoleGranted_check_signature topics =
     (if fst topics \<noteq> RoleGranted_hash then Inl (InvalidSignatureHash RoleGranted_signature (fst topics) RoleGranted_hash)
      else Inr ())"

definition RoleGranted_tokenize_body :: "RoleGranted \<Rightarrow> unit" where
  "RoleGranted_tokenize_body e = ()"

definition RoleGranted_topics :: "RoleGranted \<Rightarrow> hash \<times> hash \<times> address \<times> address" where
  "RoleGranted_topics e = (RoleGranted_hash, RoleGranted_role e, RoleGranted_account e, RoleGranted_sender e)"

definition RoleGranted_topic_list :: "topic_words \<Rightarrow> hash \<times> hash \<times> address \<times> address \<Rightarrow> hash list" where
  "RoleGranted_topic_list W = (\<lambda>(t0, t1, t2, t3). [t0, tw_fixed W t1, tw_address W t2, tw_address W t3])"

definition RoleGranted_encode_topics_raw ::
    "topic_words \<Rightarrow> RoleGranted \<Rightarrow> hash list \<Rightarrow> ('x sol_error + hash list) run" where
  "RoleGranted_encode_topics_raw W e out =
     (if length out < 4 then Inr (Inl Overrun)
      else map_ok Inr
        (and_then (set_at 0 RoleGranted_hash out) (\<lambda>out.
         and_then (set_at 1 (tw_fixed W (RoleGranted_role e)) out) (\<lambda>out.
         and_then (set_at 2 (tw_address W (RoleGranted_account e)) out) (\<lambda>out.
         set_at 3 (tw_address W (RoleGranted_sender e)) out)))))"

definition RoleGranted_event_impl :: "topic_words \<Rightarrow> (RoleGranted, hash \<times> hash \<times> address \<times> address, unit, 'x) event_impl" where
  "RoleGranted_event_impl W =
     \<lparr>ei_signature = RoleGranted_signature, ei_signature_hash = RoleGranted_hash, ei_count = 4,
      ei_new = RoleGranted_new, ei_check_signature = RoleGranted_check_signature,
      ei_tokenize_body = RoleGranted_tokenize_body, ei_topics = RoleGranted_topics, ei_topic_list = RoleGranted_topic_list W,
      ei_encode_topics_raw = RoleGranted_encode_topics_raw W\<rparr>"

record RoleRevoked =
  RoleRevoked_role :: hash
  RoleRevoked_account :: address
  RoleRevoked_sender :: address

definition RoleRevoked_signature :: string where
  "RoleRevoked_signature = ''RoleRevoked(bytes32,address,address)''"

definition RoleRevoked_hash :: hash where
  "RoleRevoked_hash = b256
     [246, 57, 31, 92, 50, 217, 198, 157, 42, 71, 234, 103, 11, 68, 41, 116, 181, 57, 53, 209, 237, 199,
      253, 100, 235, 33, 224, 71, 168, 57, 23, 27]"

definition RoleRevoked_new :: "(hash \<times> hash \<times> address \<times> address) \<Rightarrow> unit \<Rightarrow> RoleRevoked" where
  "RoleRevoked_new = (\<lambda>(t0, t1, t2, t3) _.
     \<lparr>RoleRevoked_role = t1, RoleRevoked_account = t2, RoleRevoked_sender = t3\<rparr>)"

definition RoleRevoked_check_signature :: "hash \<times> hash \<times> address \<times> address \<Rightarrow> 'x sol_error + unit" where
  "RoleRevoked_check_signature topics =
     (if fst topics \<noteq> RoleRevoked_hash then Inl (InvalidSignatureHash RoleRevoked_signature (fst topics) RoleRevoked_hash)
      else Inr ())"

definition RoleRevoked_tokenize_body :: "RoleRevoked \<Rightarrow> unit" where
  "RoleRevoked_tokenize_body e = ()"

definition RoleRevoked_topics :: "RoleRevoked \<Rightarrow> hash \<times> hash \<times> address \<times> address" where
  "RoleRevoked_topics e = (RoleRevoked_hash, RoleRevoked_role e, RoleRevoked_account e, RoleRevoked_sender e)"

definition RoleRevoked_topic_list :: "topic_words \<Rightarrow> hash \<times> hash \<times> address \<times> address \<Rightarrow> hash list" where
  "RoleRevoked_topic_list W = (\<lambda>(t0, t1, t2, t3). [t0, tw_fixed W t1, tw_address W t2, tw_address W t3])"

definition RoleRevoked_encode_topics_raw ::
    "topic_words \<Rightarrow> RoleRevoked \<Rightarrow> hash list \<Rightarrow> ('x sol_error + hash list) run" where
  "RoleRevoked_encode_topics_raw W e out =
     (if length out < 4 then Inr (Inl Overrun)
      else map_ok Inr
        (and_then (set_at 0 RoleRevoked_hash out) (\<lambda>out.
         and_then (set_at 1 (tw_fixed W (RoleRevoked_role e)) out) (\<lambda>out.
         and_then (set_at 2 (tw_address W (RoleRevoked_account e)) out) (\<lambda>out.
         set_at 3 (tw_address W (RoleRevoked_sender e)) out)))))"

definition RoleRevoked_event_impl :: "topic_words \<Rightarrow> (RoleRevoked, hash \<times> hash \<times> address \<times> address, unit, 'x) event_impl" where
  "RoleRevoked_event_impl W =
     \<lparr>ei_signature = RoleRevoked_signature, ei_signature_hash = RoleRevoked_hash, ei_count = 4,
      ei_new = RoleRevoked_new, ei_check_signature = RoleRevoked_check_signature,
      ei_tokenize_body = RoleRevoked_tokenize_body, ei_topics = RoleRevoked_topics, ei_topic_list = RoleRevoked_topic_list W,
      ei_encode_topics_raw = RoleRevoked_encode_topics_raw W\<rparr>"

record Transfer =
  Transfer_from :: address
  Transfer_to :: address
  Transfer_value :: u256

definition Transfer_signature :: string where
  "Transfer_signature = ''Transfer(address,address,uint256)''"

definition Transfer_hash :: hash where
  "Transfer_hash = b256
     [221, 242, 82, 173, 27, 226, 200, 155, 105, 194, 176, 104, 252, 55, 141, 170, 149, 43, 167, 241,
      99, 196, 161, 22, 40, 245, 90, 77, 245, 35, 179, 239]"

definition Transfer_new :: "(hash \<times> address \<times> address) \<Rightarrow> u256 \<Rightarrow> Transfer" where
  "Transfer_new = (\<lambda>(t0, t1, t2) d0.
     \<lparr>Transfer_from = t1, Transfer_to = t2, Transfer_value = d0\<rparr>)"

definition Transfer_check_signature :: "hash \<times> address \<times> address \<Rightarrow> 'x sol_error + unit" where
  "Transfer_check_signature topics =
     (if fst topics \<noteq> Transfer_hash then Inl (InvalidSignatureHash Transfer_signature (fst topics) Transfer_hash)
      else Inr ())"

definition Transfer_tokenize_body :: "Transfer \<Rightarrow> u256" where
  "Transfer_tokenize_body e = (Transfer_value e)"

definition Transfer_topics :: "Transfer \<Rightarrow> hash \<times> address \<times> address" where
  "Transfer_topics e = (Transfer_hash, Transfer_from e, Transfer_to e)"

definition Transfer_topic_list :: "topic_words \<Rightarrow> hash \<times> address \<times> address \<Rightarrow> hash list" where
  "Transfer_topic_list W = (\<lambda>(t0, t1, t2). [t0, tw_address W t1, tw_address W t2])"

definition Transfer_encode_topics_raw ::
    "topic_words \<Rightarrow> Transfer \<Rightarrow> hash list \<Rightarrow> ('x sol_error + hash list) run" where
  "Transfer_encode_topics_raw W e out =
     (if length out < 3 then Inr (Inl Overrun)
      else map_ok Inr
        (and_then (set_at 0 Transfer_hash out) (\<lambda>out.
         and_then (set_at 1 (tw_address W (Transfer_from e)) out) (\<lambda>out.
         set_at 2 (tw_address W (Transfer_to e)) out))))"

definition Transfer_event_impl :: "topic_words \<Rightarrow> (Transfer, hash \<times> address \<times> address, u256, 'x) event_impl" where
  "Transfer_event_impl W =
     \<lparr>ei_signature = Transfer_signature, ei_signature_hash = Transfer_hash, ei_count = 3,
      ei_new = Transfer_new, ei_check_signature = Transfer_check_signature,
      ei_tokenize_body = Transfer_tokenize_body, ei_topics = Transfer_topics, ei_topic_list = Transfer_topic_list W,
      ei_encode_topics_raw = Transfer_encode_topics_raw W\<rparr>"

record Unpaused =
  Unpaused_account :: address

definition Unpaused_signature :: string where
  "Unpaused_signature = ''Unpaused(address)''"

definition Unpaused_hash :: hash where
  "Unpaused_hash = b256
     [93, 185, 238, 10, 73, 91, 242, 230, 255, 156, 145, 167, 131, 76, 27, 164, 253, 210, 68, 165, 232,
      170, 78, 83, 123, 211, 138, 234, 228, 176, 115, 170]"

definition Unpaused_new :: "hash \<Rightarrow> address \<Rightarrow> Unpaused" where
  "Unpaused_new = (\<lambda>t0 d0.
     \<lparr>Unpaused_account = d0\<rparr>)"

definition Unpaused_check_signature :: "hash \<Rightarrow> 'x sol_error + unit" where
  "Unpaused_check_signature t0 =
     (if t0 \<noteq> Unpaused_hash then Inl (InvalidSignatureHash Unpaused_signature t0 Unpaused_hash)
      else Inr ())"

definition Unpaused_tokenize_body :: "Unpaused \<Rightarrow> address" where
  "Unpaused_tokenize_body e = (Unpaused_account e)"

definition Unpaused_topics :: "Unpaused \<Rightarrow> hash" where
  "Unpaused_topics e = (Unpaused_hash)"

definition Unpaused_topic_list :: "topic_words \<Rightarrow> hash \<Rightarrow> hash list" where
  "Unpaused_topic_list W p = [p]"

definition Unpaused_encode_topics_raw ::
    "topic_words \<Rightarrow> Unpaused \<Rightarrow> hash list \<Rightarrow> ('x sol_error + hash list) run" where
  "Unpaused_encode_topics_raw W e out =
     (if length out < 1 then Inr (Inl Overrun)
      else map_ok Inr
        (set_at 0 Unpaused_hash out))"

definition Unpaused_event_impl :: "topic_words \<Rightarrow> (Unpaused, hash, address, 'x) event_impl" where
  "Unpaused_event_impl W =
     \<lparr>ei_signature = Unpaused_signature, ei_signature_hash = Unpaused_hash, ei_count = 1,
      ei_new = Unpaused_new, ei_check_signature = Unpaused_check_signature,
      ei_tokenize_body = Unpaused_tokenize_body, ei_topics = Unpaused_topics, ei_topic_list = Unpaused_topic_list W,
      ei_encode_topics_raw = Unpaused_encode_topics_raw W\<rparr>"

datatype (plugins only: code) WrappedTokenEvents =
    Approval_event Approval
  | EIP712DomainChanged_event EIP712DomainChanged
  | Paused_event Paused
  | RoleAdminChanged_event RoleAdminChanged
  | RoleGranted_event RoleGranted
  | RoleRevoked_event RoleRevoked
  | Transfer_event Transfer
  | Unpaused_event Unpaused

text \<open>The tables in the order of the selectors.\<close>

definition wrapped_event_selectors :: "bytes list" where
  "wrapped_event_selectors =
     [[10, 99, 135, 201, 234, 54, 40, 184, 138, 99, 59, 180, 243, 177, 81, 119, 15, 112, 8, 81, 23, 161, 95, 155, 243, 120, 124, 218, 83, 241, 61, 49],
      [47, 135, 136, 17, 126, 126, 255, 29, 130, 233, 38, 236, 121, 73, 1, 209, 124, 120, 2, 74, 80, 39, 9, 64, 48, 69, 64, 167, 51, 101, 111, 13],
      [93, 185, 238, 10, 73, 91, 242, 230, 255, 156, 145, 167, 131, 76, 27, 164, 253, 210, 68, 165, 232, 170, 78, 83, 123, 211, 138, 234, 228, 176, 115, 170],
      [98, 231, 140, 234, 1, 190, 227, 32, 205, 78, 66, 2, 112, 181, 234, 116, 0, 13, 17, 176, 201, 247, 71, 84, 235, 219, 252, 84, 75, 5, 162, 88],
      [140, 91, 225, 229, 235, 236, 125, 91, 209, 79, 113, 66, 125, 30, 132, 243, 221, 3, 20, 192, 247, 178, 41, 30, 91, 32, 10, 200, 199, 195, 185, 37],
      [189, 121, 184, 111, 254, 10, 184, 232, 119, 97, 81, 81, 66, 23, 205, 124, 172, 213, 44, 144, 159, 102, 71, 92, 58, 244, 78, 18, 159, 11, 0, 255],
      [221, 242, 82, 173, 27, 226, 200, 155, 105, 194, 176, 104, 252, 55, 141, 170, 149, 43, 167, 241, 99, 196, 161, 22, 40, 245, 90, 77, 245, 35, 179, 239],
      [246, 57, 31, 92, 50, 217, 198, 157, 42, 71, 234, 103, 11, 68, 41, 116, 181, 57, 53, 209, 237, 199, 253, 100, 235, 33, 224, 71, 168, 57, 23, 27]]"

definition wrapped_event_variant_names :: "string list" where
  "wrapped_event_variant_names =
     [''EIP712DomainChanged'', ''RoleGranted'', ''Unpaused'', ''Paused'', ''Approval'',
      ''RoleAdminChanged'', ''Transfer'', ''RoleRevoked'']"

definition wrapped_event_signatures :: "string list" where
  "wrapped_event_signatures =
     [EIP712DomainChanged_signature, RoleGranted_signature, Unpaused_signature, Paused_signature,
      Approval_signature, RoleAdminChanged_signature, Transfer_signature, RoleRevoked_signature]"

definition wrapped_event_signature_by_selector :: "bytes \<Rightarrow> string option run" where
  "wrapped_event_signature_by_selector sel = table_row wrapped_event_selectors wrapped_event_signatures sel"

definition wrapped_event_name_by_selector :: "bytes \<Rightarrow> string option run" where
  "wrapped_event_name_by_selector sel = map_ok name_of_signature (wrapped_event_signature_by_selector sel)"

record 'x wrapped_event_codecs =
  Approval_abi :: "(Approval, 'x) sol_event"
  EIP712DomainChanged_abi :: "(EIP712DomainChanged, 'x) sol_event"
  Paused_abi :: "(Paused, 'x) sol_event"
  RoleAdminChanged_abi :: "(RoleAdminChanged, 'x) sol_event"
  RoleGranted_abi :: "(RoleGranted, 'x) sol_event"
  RoleRevoked_abi :: "(RoleRevoked, 'x) sol_event"
  Transfer_abi :: "(Transfer, 'x) sol_event"
  Unpaused_abi :: "(Unpaused, 'x) sol_event"

definition wrapped_decode_raw_log :: "'x wrapped_event_codecs \<Rightarrow> hash list \<Rightarrow> bytes \<Rightarrow> 'x sol_error + WrappedTokenEvents" where
  "wrapped_decode_raw_log A topics data =
     (case topics of
        [] \<Rightarrow> Inl (InvalidLog ''WrappedTokenEvents'' topics data)
      | topic0 # _ \<Rightarrow>
          if topic0 = Approval_hash
          then codec Approval_event (se_decode_raw_log (Approval_abi A) topics data)
          else if topic0 = EIP712DomainChanged_hash
          then codec EIP712DomainChanged_event (se_decode_raw_log (EIP712DomainChanged_abi A) topics data)
          else if topic0 = Paused_hash
          then codec Paused_event (se_decode_raw_log (Paused_abi A) topics data)
          else if topic0 = RoleAdminChanged_hash
          then codec RoleAdminChanged_event (se_decode_raw_log (RoleAdminChanged_abi A) topics data)
          else if topic0 = RoleGranted_hash
          then codec RoleGranted_event (se_decode_raw_log (RoleGranted_abi A) topics data)
          else if topic0 = RoleRevoked_hash
          then codec RoleRevoked_event (se_decode_raw_log (RoleRevoked_abi A) topics data)
          else if topic0 = Transfer_hash
          then codec Transfer_event (se_decode_raw_log (Transfer_abi A) topics data)
          else if topic0 = Unpaused_hash
          then codec Unpaused_event (se_decode_raw_log (Unpaused_abi A) topics data)
          else Inl (InvalidLog ''WrappedTokenEvents'' topics data))"

primrec wrapped_to_log_data :: "'x wrapped_event_codecs \<Rightarrow> WrappedTokenEvents \<Rightarrow> log_data" where
  "wrapped_to_log_data A (Approval_event e) = se_encode_log_data (Approval_abi A) e"
| "wrapped_to_log_data A (EIP712DomainChanged_event e) = se_encode_log_data (EIP712DomainChanged_abi A) e"
| "wrapped_to_log_data A (Paused_event e) = se_encode_log_data (Paused_abi A) e"
| "wrapped_to_log_data A (RoleAdminChanged_event e) = se_encode_log_data (RoleAdminChanged_abi A) e"
| "wrapped_to_log_data A (RoleGranted_event e) = se_encode_log_data (RoleGranted_abi A) e"
| "wrapped_to_log_data A (RoleRevoked_event e) = se_encode_log_data (RoleRevoked_abi A) e"
| "wrapped_to_log_data A (Transfer_event e) = se_encode_log_data (Transfer_abi A) e"
| "wrapped_to_log_data A (Unpaused_event e) = se_encode_log_data (Unpaused_abi A) e"

text \<open>The crate's \<^verbatim>\<open>decode_log\<close> of an interface decodes the log's topics and data.\<close>

definition wrapped_decode_log :: "'x wrapped_event_codecs \<Rightarrow> eth_log \<Rightarrow> 'x sol_error + WrappedTokenEvents" where
  "wrapped_decode_log A log = wrapped_decode_raw_log A (ld_topics (lg_data log)) (ld_data (lg_data log))"

section \<open>Laws and dispatch\<close>

interpretation wrapped_events: dispatch_table wrapped_event_selectors
  by (rule ascending_table) (simp add: wrapped_event_selectors_def)

lemma wrapped_event_hashes:
  "Approval_hash = 63486140976153616755203102783360879283472101686154884697241723088393386309925"
  "EIP712DomainChanged_hash = 4698983524617176753619852923602307347085618413745704091084341623735012375857"
  "Paused_hash = 44735773386423822371878160022978782686546674658776136549874639796174445716056"
  "RoleAdminChanged_hash = 85702189817711154404917517865431859990992624004107199619167714979671022698751"
  "RoleGranted_hash = 21498167346302451094516930465084812798900530214793017313261708129848854408973"
  "RoleRevoked_hash = 111369887473982945697897258602409287065386435722986207154590940387224246097691"
  "Transfer_hash = 100389287136786176327247604509743168900146139575972864366142685224231313322991"
  "Unpaused_hash = 42393604518183400894871284368897910331008433330724914529002052670013337269162"
  by (simp_all add: b256_def Approval_hash_def EIP712DomainChanged_hash_def Paused_hash_def RoleAdminChanged_hash_def
    RoleGranted_hash_def RoleRevoked_hash_def Transfer_hash_def Unpaused_hash_def)

lemmas wrapped_event_impls =
  Approval_event_impl_def EIP712DomainChanged_event_impl_def Paused_event_impl_def
  RoleAdminChanged_event_impl_def RoleGranted_event_impl_def RoleRevoked_event_impl_def
  Transfer_event_impl_def Unpaused_event_impl_def

lemmas wrapped_event_parts =
  Approval_new_def Approval_check_signature_def Approval_tokenize_body_def Approval_topics_def
  EIP712DomainChanged_new_def EIP712DomainChanged_check_signature_def
  EIP712DomainChanged_tokenize_body_def EIP712DomainChanged_topics_def Paused_new_def
  Paused_check_signature_def Paused_tokenize_body_def Paused_topics_def RoleAdminChanged_new_def
  RoleAdminChanged_check_signature_def RoleAdminChanged_tokenize_body_def RoleAdminChanged_topics_def
  RoleGranted_new_def RoleGranted_check_signature_def RoleGranted_tokenize_body_def
  RoleGranted_topics_def RoleRevoked_new_def RoleRevoked_check_signature_def
  RoleRevoked_tokenize_body_def RoleRevoked_topics_def Transfer_new_def Transfer_check_signature_def
  Transfer_tokenize_body_def Transfer_topics_def Unpaused_new_def Unpaused_check_signature_def
  Unpaused_tokenize_body_def Unpaused_topics_def

lemmas wrapped_event_encode_topics =
  Approval_encode_topics_raw_def EIP712DomainChanged_encode_topics_raw_def Paused_encode_topics_raw_def
  RoleAdminChanged_encode_topics_raw_def RoleGranted_encode_topics_raw_def
  RoleRevoked_encode_topics_raw_def Transfer_encode_topics_raw_def Unpaused_encode_topics_raw_def

lemmas wrapped_event_topic_lists =
  Approval_topic_list_def EIP712DomainChanged_topic_list_def Paused_topic_list_def
  RoleAdminChanged_topic_list_def RoleGranted_topic_list_def RoleRevoked_topic_list_def
  Transfer_topic_list_def Unpaused_topic_list_def

lemma wrapped_event_consistent:
  "event_consistent (Approval_event_impl W)"
  "event_consistent (EIP712DomainChanged_event_impl W)"
  "event_consistent (Paused_event_impl W)"
  "event_consistent (RoleAdminChanged_event_impl W)"
  "event_consistent (RoleGranted_event_impl W)"
  "event_consistent (RoleRevoked_event_impl W)"
  "event_consistent (Transfer_event_impl W)"
  "event_consistent (Unpaused_event_impl W)"
  by (simp_all add: event_consistent_def wrapped_event_impls wrapped_event_parts wrapped_event_topic_lists
    wrapped_event_encode_topics set_at_def)

primrec wrapped_event_law :: "topic_words \<Rightarrow> 'x wrapped_event_codecs \<Rightarrow> WrappedTokenEvents \<Rightarrow> bool" where
  "wrapped_event_law W A (Approval_event e) \<longleftrightarrow> impl_event_law (Approval_event_impl W) fst (Approval_abi A) e"
| "wrapped_event_law W A (EIP712DomainChanged_event e) \<longleftrightarrow> impl_event_law (EIP712DomainChanged_event_impl W) id (EIP712DomainChanged_abi A) e"
| "wrapped_event_law W A (Paused_event e) \<longleftrightarrow> impl_event_law (Paused_event_impl W) id (Paused_abi A) e"
| "wrapped_event_law W A (RoleAdminChanged_event e) \<longleftrightarrow> impl_event_law (RoleAdminChanged_event_impl W) fst (RoleAdminChanged_abi A) e"
| "wrapped_event_law W A (RoleGranted_event e) \<longleftrightarrow> impl_event_law (RoleGranted_event_impl W) fst (RoleGranted_abi A) e"
| "wrapped_event_law W A (RoleRevoked_event e) \<longleftrightarrow> impl_event_law (RoleRevoked_event_impl W) fst (RoleRevoked_abi A) e"
| "wrapped_event_law W A (Transfer_event e) \<longleftrightarrow> impl_event_law (Transfer_event_impl W) fst (Transfer_abi A) e"
| "wrapped_event_law W A (Unpaused_event e) \<longleftrightarrow> impl_event_law (Unpaused_event_impl W) id (Unpaused_abi A) e"

text \<open>The first topic written is the signature hash.\<close>

primrec wrapped_event_hash_of :: "WrappedTokenEvents \<Rightarrow> hash" where
  "wrapped_event_hash_of (Approval_event e) = Approval_hash"
| "wrapped_event_hash_of (EIP712DomainChanged_event e) = EIP712DomainChanged_hash"
| "wrapped_event_hash_of (Paused_event e) = Paused_hash"
| "wrapped_event_hash_of (RoleAdminChanged_event e) = RoleAdminChanged_hash"
| "wrapped_event_hash_of (RoleGranted_event e) = RoleGranted_hash"
| "wrapped_event_hash_of (RoleRevoked_event e) = RoleRevoked_hash"
| "wrapped_event_hash_of (Transfer_event e) = Transfer_hash"
| "wrapped_event_hash_of (Unpaused_event e) = Unpaused_hash"

lemma wrapped_event_first_topic:
  assumes "wrapped_event_law W A e"
  shows "\<exists>rest. ld_topics (wrapped_to_log_data A e) = wrapped_event_hash_of e # rest"
  using assms
  by (cases e)
    (auto dest!: event_topics_written [THEN sym] simp: wrapped_event_impls wrapped_event_encode_topics set_at_def)

lemmas wrapped_event_reads = wrapped_event_consistent [THEN event_round_trip [rotated]]

lemma wrapped_event_decodes:
  assumes "wrapped_event_law W A e"
  shows "wrapped_decode_raw_log A (ld_topics (wrapped_to_log_data A e)) (ld_data (wrapped_to_log_data A e)) = Inr e"
proof -
  have "ld_topics (wrapped_to_log_data A e) \<noteq> []" "hd (ld_topics (wrapped_to_log_data A e)) = wrapped_event_hash_of e"
    using wrapped_event_first_topic [OF assms] by auto
  then show ?thesis
    using assms
    by (cases e) (simp_all add: wrapped_decode_raw_log_def list.case_eq_if wrapped_event_hashes wrapped_event_reads)
qed

lemma wrapped_event_typed:
  assumes "wrapped_decode_raw_log A topics data = Inr e"
  shows "\<exists>rest. topics = wrapped_event_hash_of e # rest"
  using assms
  by (auto simp: wrapped_decode_raw_log_def codec_def split: list.splits if_splits sum.splits)

end
