(* ===== verification/Waiting_Calls.thy ===== *)
theory Waiting_Calls
  imports Sol_Traits
begin

text \<open>
  The calls of \<^verbatim>\<open>protocol/bindings/src/deposit_waiting_list.rs\<close>, the list of waiting deposits: structs, implementations, tables and the
  builders of an instance, as in \<open>Bridge_Calls\<close>.
\<close>

section \<open>The calls\<close>

record DepositData =
  DepositData_depositId :: u256
  DepositData_amount :: u256
  DepositData_from :: address
  DepositData_to :: address

definition DEFAULT_ADMIN_ROLECall_impl :: "(unit, unit) sol_impl" where
  "DEFAULT_ADMIN_ROLECall_impl =
     \<lparr>si_signature = ''DEFAULT_ADMIN_ROLE()'',
      si_selector = [162, 23, 253, 223],
      si_new = (\<lambda>_. ()),
      si_tokenize = (\<lambda>_. ())\<rparr>"

definition RELAYER_ROLECall_impl :: "(unit, unit) sol_impl" where
  "RELAYER_ROLECall_impl =
     \<lparr>si_signature = ''RELAYER_ROLE()'',
      si_selector = [146, 109, 125, 127],
      si_new = (\<lambda>_. ()),
      si_tokenize = (\<lambda>_. ())\<rparr>"

record applyDepositsCall =
  applyDepositsCall_token :: address
  applyDepositsCall_deposits :: "DepositData list"
  applyDepositsCall_callContract :: address
  applyDepositsCall_reserveBalance :: u256

definition applyDepositsCall_of_tuple :: "address \<times> DepositData list \<times> address \<times> u256 \<Rightarrow> applyDepositsCall" where
  "applyDepositsCall_of_tuple = (\<lambda>(t0, t1, t2, t3).
     \<lparr>applyDepositsCall_token = t0, applyDepositsCall_deposits = t1,
      applyDepositsCall_callContract = t2, applyDepositsCall_reserveBalance = t3\<rparr>)"

definition applyDepositsCall_impl :: "(applyDepositsCall, address \<times> DepositData list \<times> address \<times> u256) sol_impl" where
  "applyDepositsCall_impl =
     \<lparr>si_signature = ''applyDeposits(address,(uint256,uint256,address,address)[],address,uint256)'',
      si_selector = [235, 28, 144, 146],
      si_new = applyDepositsCall_of_tuple,
      si_tokenize = (\<lambda>c. (applyDepositsCall_token c, applyDepositsCall_deposits c, applyDepositsCall_callContract c,
              applyDepositsCall_reserveBalance c))\<rparr>"

record approveTokenCall =
  approveTokenCall_token :: address

definition approveTokenCall_of_tuple :: "address \<Rightarrow> approveTokenCall" where
  "approveTokenCall_of_tuple = (\<lambda>t0.
     \<lparr>approveTokenCall_token = t0\<rparr>)"

definition approveTokenCall_impl :: "(approveTokenCall, address) sol_impl" where
  "approveTokenCall_impl =
     \<lparr>si_signature = ''approveToken(address)'',
      si_selector = [128, 178, 237, 216],
      si_new = approveTokenCall_of_tuple,
      si_tokenize = approveTokenCall_token\<rparr>"

definition bridgeCall_impl :: "(unit, unit) sol_impl" where
  "bridgeCall_impl =
     \<lparr>si_signature = ''bridge()'',
      si_selector = [231, 140, 234, 146],
      si_new = (\<lambda>_. ()),
      si_tokenize = (\<lambda>_. ())\<rparr>"

record depositCall =
  depositCall_token :: address
  depositCall_amount :: u256
  depositCall_from :: address
  depositCall_to :: address
  depositCall_callContract :: address
  depositCall_reserveBalance :: u256
  depositCall_permit :: bytes

definition depositCall_of_tuple :: "address \<times> u256 \<times> address \<times> address \<times> address \<times> u256 \<times> bytes \<Rightarrow> depositCall" where
  "depositCall_of_tuple = (\<lambda>(t0, t1, t2, t3, t4, t5, t6).
     \<lparr>depositCall_token = t0, depositCall_amount = t1, depositCall_from = t2, depositCall_to = t3,
      depositCall_callContract = t4, depositCall_reserveBalance = t5, depositCall_permit = t6\<rparr>)"

definition depositCall_impl :: "(depositCall, address \<times> u256 \<times> address \<times> address \<times> address \<times> u256 \<times> bytes) sol_impl" where
  "depositCall_impl =
     \<lparr>si_signature = ''deposit(address,uint256,address,address,address,uint256,bytes)'',
      si_selector = [146, 149, 128, 170],
      si_new = depositCall_of_tuple,
      si_tokenize = (\<lambda>c. (depositCall_token c, depositCall_amount c, depositCall_from c, depositCall_to c,
              depositCall_callContract c, depositCall_reserveBalance c, depositCall_permit c))\<rparr>"

record depositHashesCall =
  depositHashesCall_arg0 :: u256

definition depositHashesCall_of_tuple :: "u256 \<Rightarrow> depositHashesCall" where
  "depositHashesCall_of_tuple = (\<lambda>t0.
     \<lparr>depositHashesCall_arg0 = t0\<rparr>)"

definition depositHashesCall_impl :: "(depositHashesCall, u256) sol_impl" where
  "depositHashesCall_impl =
     \<lparr>si_signature = ''depositHashes(uint256)'',
      si_selector = [184, 1, 44, 181],
      si_new = depositHashesCall_of_tuple,
      si_tokenize = depositHashesCall_arg0\<rparr>"

record getRoleAdminCall =
  getRoleAdminCall_role :: hash

definition getRoleAdminCall_of_tuple :: "hash \<Rightarrow> getRoleAdminCall" where
  "getRoleAdminCall_of_tuple = (\<lambda>t0.
     \<lparr>getRoleAdminCall_role = t0\<rparr>)"

definition getRoleAdminCall_impl :: "(getRoleAdminCall, hash) sol_impl" where
  "getRoleAdminCall_impl =
     \<lparr>si_signature = ''getRoleAdmin(bytes32)'',
      si_selector = [36, 138, 156, 163],
      si_new = getRoleAdminCall_of_tuple,
      si_tokenize = getRoleAdminCall_role\<rparr>"

record grantRoleCall =
  grantRoleCall_role :: hash
  grantRoleCall_account :: address

definition grantRoleCall_of_tuple :: "hash \<times> address \<Rightarrow> grantRoleCall" where
  "grantRoleCall_of_tuple = (\<lambda>(t0, t1).
     \<lparr>grantRoleCall_role = t0, grantRoleCall_account = t1\<rparr>)"

definition grantRoleCall_impl :: "(grantRoleCall, hash \<times> address) sol_impl" where
  "grantRoleCall_impl =
     \<lparr>si_signature = ''grantRole(bytes32,address)'',
      si_selector = [47, 47, 241, 93],
      si_new = grantRoleCall_of_tuple,
      si_tokenize = (\<lambda>c. (grantRoleCall_role c, grantRoleCall_account c))\<rparr>"

record hasRoleCall =
  hasRoleCall_role :: hash
  hasRoleCall_account :: address

definition hasRoleCall_of_tuple :: "hash \<times> address \<Rightarrow> hasRoleCall" where
  "hasRoleCall_of_tuple = (\<lambda>(t0, t1).
     \<lparr>hasRoleCall_role = t0, hasRoleCall_account = t1\<rparr>)"

definition hasRoleCall_impl :: "(hasRoleCall, hash \<times> address) sol_impl" where
  "hasRoleCall_impl =
     \<lparr>si_signature = ''hasRole(bytes32,address)'',
      si_selector = [145, 209, 72, 84],
      si_new = hasRoleCall_of_tuple,
      si_tokenize = (\<lambda>c. (hasRoleCall_role c, hasRoleCall_account c))\<rparr>"

definition nextDepositIdCall_impl :: "(unit, unit) sol_impl" where
  "nextDepositIdCall_impl =
     \<lparr>si_signature = ''nextDepositId()'',
      si_selector = [128, 112, 164, 189],
      si_new = (\<lambda>_. ()),
      si_tokenize = (\<lambda>_. ())\<rparr>"

record renounceRoleCall =
  renounceRoleCall_role :: hash
  renounceRoleCall_callerConfirmation :: address

definition renounceRoleCall_of_tuple :: "hash \<times> address \<Rightarrow> renounceRoleCall" where
  "renounceRoleCall_of_tuple = (\<lambda>(t0, t1).
     \<lparr>renounceRoleCall_role = t0, renounceRoleCall_callerConfirmation = t1\<rparr>)"

definition renounceRoleCall_impl :: "(renounceRoleCall, hash \<times> address) sol_impl" where
  "renounceRoleCall_impl =
     \<lparr>si_signature = ''renounceRole(bytes32,address)'',
      si_selector = [54, 86, 138, 190],
      si_new = renounceRoleCall_of_tuple,
      si_tokenize = (\<lambda>c. (renounceRoleCall_role c, renounceRoleCall_callerConfirmation c))\<rparr>"

record revokeRoleCall =
  revokeRoleCall_role :: hash
  revokeRoleCall_account :: address

definition revokeRoleCall_of_tuple :: "hash \<times> address \<Rightarrow> revokeRoleCall" where
  "revokeRoleCall_of_tuple = (\<lambda>(t0, t1).
     \<lparr>revokeRoleCall_role = t0, revokeRoleCall_account = t1\<rparr>)"

definition revokeRoleCall_impl :: "(revokeRoleCall, hash \<times> address) sol_impl" where
  "revokeRoleCall_impl =
     \<lparr>si_signature = ''revokeRole(bytes32,address)'',
      si_selector = [213, 71, 116, 31],
      si_new = revokeRoleCall_of_tuple,
      si_tokenize = (\<lambda>c. (revokeRoleCall_role c, revokeRoleCall_account c))\<rparr>"

record supportsInterfaceCall =
  supportsInterfaceCall_interfaceId :: bytes4

definition supportsInterfaceCall_of_tuple :: "bytes4 \<Rightarrow> supportsInterfaceCall" where
  "supportsInterfaceCall_of_tuple = (\<lambda>t0.
     \<lparr>supportsInterfaceCall_interfaceId = t0\<rparr>)"

definition supportsInterfaceCall_impl :: "(supportsInterfaceCall, bytes4) sol_impl" where
  "supportsInterfaceCall_impl =
     \<lparr>si_signature = ''supportsInterface(bytes4)'',
      si_selector = [1, 255, 201, 167],
      si_new = supportsInterfaceCall_of_tuple,
      si_tokenize = supportsInterfaceCall_interfaceId\<rparr>"

record withdrawCall =
  withdrawCall_depositId :: u256
  withdrawCall_token :: address
  withdrawCall_amount :: u256
  withdrawCall_from :: address
  withdrawCall_to :: address
  withdrawCall_callContract :: address
  withdrawCall_reserveBalance :: u256

definition withdrawCall_of_tuple :: "u256 \<times> address \<times> u256 \<times> address \<times> address \<times> address \<times> u256 \<Rightarrow> withdrawCall" where
  "withdrawCall_of_tuple = (\<lambda>(t0, t1, t2, t3, t4, t5, t6).
     \<lparr>withdrawCall_depositId = t0, withdrawCall_token = t1, withdrawCall_amount = t2,
      withdrawCall_from = t3, withdrawCall_to = t4, withdrawCall_callContract = t5,
      withdrawCall_reserveBalance = t6\<rparr>)"

definition withdrawCall_impl :: "(withdrawCall, u256 \<times> address \<times> u256 \<times> address \<times> address \<times> address \<times> u256) sol_impl" where
  "withdrawCall_impl =
     \<lparr>si_signature = ''withdraw(uint256,address,uint256,address,address,address,uint256)'',
      si_selector = [157, 64, 22, 24],
      si_new = withdrawCall_of_tuple,
      si_tokenize = (\<lambda>c. (withdrawCall_depositId c, withdrawCall_token c, withdrawCall_amount c,
              withdrawCall_from c, withdrawCall_to c, withdrawCall_callContract c,
              withdrawCall_reserveBalance c))\<rparr>"

datatype (plugins only: code) DepositWaitingListCalls =
    DEFAULT_ADMIN_ROLE_call
  | RELAYER_ROLE_call
  | applyDeposits_call applyDepositsCall
  | approveToken_call approveTokenCall
  | bridge_call
  | deposit_call depositCall
  | depositHashes_call depositHashesCall
  | getRoleAdmin_call getRoleAdminCall
  | grantRole_call grantRoleCall
  | hasRole_call hasRoleCall
  | nextDepositId_call
  | renounceRole_call renounceRoleCall
  | revokeRole_call revokeRoleCall
  | supportsInterface_call supportsInterfaceCall
  | withdraw_call withdrawCall

text \<open>The tables in the order of the selectors.\<close>

definition waiting_call_selectors :: "bytes list" where
  "waiting_call_selectors =
     [[1, 255, 201, 167], [36, 138, 156, 163], [47, 47, 241, 93], [54, 86, 138, 190],
      [128, 112, 164, 189], [128, 178, 237, 216], [145, 209, 72, 84], [146, 109, 125, 127],
      [146, 149, 128, 170], [157, 64, 22, 24], [162, 23, 253, 223], [184, 1, 44, 181],
      [213, 71, 116, 31], [231, 140, 234, 146], [235, 28, 144, 146]]"

definition waiting_call_variant_names :: "string list" where
  "waiting_call_variant_names =
     [''supportsInterface'', ''getRoleAdmin'', ''grantRole'', ''renounceRole'', ''nextDepositId'',
      ''approveToken'', ''hasRole'', ''RELAYER_ROLE'', ''deposit'', ''withdraw'',
      ''DEFAULT_ADMIN_ROLE'', ''depositHashes'', ''revokeRole'', ''bridge'', ''applyDeposits'']"

definition waiting_call_signatures :: "string list" where
  "waiting_call_signatures =
     [si_signature supportsInterfaceCall_impl, si_signature getRoleAdminCall_impl,
      si_signature grantRoleCall_impl, si_signature renounceRoleCall_impl,
      si_signature nextDepositIdCall_impl, si_signature approveTokenCall_impl,
      si_signature hasRoleCall_impl, si_signature RELAYER_ROLECall_impl, si_signature depositCall_impl,
      si_signature withdrawCall_impl, si_signature DEFAULT_ADMIN_ROLECall_impl,
      si_signature depositHashesCall_impl, si_signature revokeRoleCall_impl,
      si_signature bridgeCall_impl, si_signature applyDepositsCall_impl]"

definition waiting_call_signature_by_selector :: "bytes \<Rightarrow> string option run" where
  "waiting_call_signature_by_selector sel = table_row waiting_call_selectors waiting_call_signatures sel"

definition waiting_call_name_by_selector :: "bytes \<Rightarrow> string option run" where
  "waiting_call_name_by_selector sel = map_ok name_of_signature (waiting_call_signature_by_selector sel)"

text \<open>The crate's codecs; the structs without fields share one.\<close>

record 'x waiting_call_codecs =
  unit_waiting_call_abi :: "(unit, 'x) sol_call"
  applyDepositsCall_abi :: "(applyDepositsCall, 'x) sol_call"
  approveTokenCall_abi :: "(approveTokenCall, 'x) sol_call"
  depositCall_abi :: "(depositCall, 'x) sol_call"
  depositHashesCall_abi :: "(depositHashesCall, 'x) sol_call"
  getRoleAdminCall_abi :: "(getRoleAdminCall, 'x) sol_call"
  grantRoleCall_abi :: "(grantRoleCall, 'x) sol_call"
  hasRoleCall_abi :: "(hasRoleCall, 'x) sol_call"
  renounceRoleCall_abi :: "(renounceRoleCall, 'x) sol_call"
  revokeRoleCall_abi :: "(revokeRoleCall, 'x) sol_call"
  supportsInterfaceCall_abi :: "(supportsInterfaceCall, 'x) sol_call"
  withdrawCall_abi :: "(withdrawCall, 'x) sol_call"

primrec waiting_call_selector :: "DepositWaitingListCalls \<Rightarrow> bytes" where
  "waiting_call_selector DEFAULT_ADMIN_ROLE_call = si_selector DEFAULT_ADMIN_ROLECall_impl"
| "waiting_call_selector RELAYER_ROLE_call = si_selector RELAYER_ROLECall_impl"
| "waiting_call_selector (applyDeposits_call c) = si_selector applyDepositsCall_impl"
| "waiting_call_selector (approveToken_call c) = si_selector approveTokenCall_impl"
| "waiting_call_selector bridge_call = si_selector bridgeCall_impl"
| "waiting_call_selector (deposit_call c) = si_selector depositCall_impl"
| "waiting_call_selector (depositHashes_call c) = si_selector depositHashesCall_impl"
| "waiting_call_selector (getRoleAdmin_call c) = si_selector getRoleAdminCall_impl"
| "waiting_call_selector (grantRole_call c) = si_selector grantRoleCall_impl"
| "waiting_call_selector (hasRole_call c) = si_selector hasRoleCall_impl"
| "waiting_call_selector nextDepositId_call = si_selector nextDepositIdCall_impl"
| "waiting_call_selector (renounceRole_call c) = si_selector renounceRoleCall_impl"
| "waiting_call_selector (revokeRole_call c) = si_selector revokeRoleCall_impl"
| "waiting_call_selector (supportsInterface_call c) = si_selector supportsInterfaceCall_impl"
| "waiting_call_selector (withdraw_call c) = si_selector withdrawCall_impl"

definition waiting_call_selector_at :: "nat \<Rightarrow> bytes option" where
  "waiting_call_selector_at i = (if i < length waiting_call_selectors then Some (waiting_call_selectors ! i) else None)"

definition waiting_call_valid_selector :: "bytes \<Rightarrow> bool" where
  "waiting_call_valid_selector sel \<longleftrightarrow> binary_search waiting_call_selectors sel \<noteq> None"

definition waiting_call_decode_shims :: "'x waiting_call_codecs \<Rightarrow> (bytes \<Rightarrow> 'x sol_error + DepositWaitingListCalls) list" where
  "waiting_call_decode_shims A =
     [decode_shim supportsInterface_call (supportsInterfaceCall_abi A),
      decode_shim getRoleAdmin_call (getRoleAdminCall_abi A),
      decode_shim grantRole_call (grantRoleCall_abi A),
      decode_shim renounceRole_call (renounceRoleCall_abi A),
      decode_shim (\<lambda>_. nextDepositId_call) (unit_waiting_call_abi A),
      decode_shim approveToken_call (approveTokenCall_abi A),
      decode_shim hasRole_call (hasRoleCall_abi A),
      decode_shim (\<lambda>_. RELAYER_ROLE_call) (unit_waiting_call_abi A),
      decode_shim deposit_call (depositCall_abi A), decode_shim withdraw_call (withdrawCall_abi A),
      decode_shim (\<lambda>_. DEFAULT_ADMIN_ROLE_call) (unit_waiting_call_abi A),
      decode_shim depositHashes_call (depositHashesCall_abi A),
      decode_shim revokeRole_call (revokeRoleCall_abi A),
      decode_shim (\<lambda>_. bridge_call) (unit_waiting_call_abi A),
      decode_shim applyDeposits_call (applyDepositsCall_abi A)]"

definition waiting_call_decode_raw :: "'x waiting_call_codecs \<Rightarrow> bytes \<Rightarrow> bytes \<Rightarrow> ('x sol_error + DepositWaitingListCalls) run" where
  "waiting_call_decode_raw A sel data =
     dispatch_call ''DepositWaitingListCalls'' waiting_call_selectors (waiting_call_decode_shims A) sel data"

definition waiting_call_decode_validate_shims :: "'x waiting_call_codecs \<Rightarrow> (bytes \<Rightarrow> 'x sol_error + DepositWaitingListCalls) list" where
  "waiting_call_decode_validate_shims A =
     [decode_validate_shim supportsInterface_call (supportsInterfaceCall_abi A),
      decode_validate_shim getRoleAdmin_call (getRoleAdminCall_abi A),
      decode_validate_shim grantRole_call (grantRoleCall_abi A),
      decode_validate_shim renounceRole_call (renounceRoleCall_abi A),
      decode_validate_shim (\<lambda>_. nextDepositId_call) (unit_waiting_call_abi A),
      decode_validate_shim approveToken_call (approveTokenCall_abi A),
      decode_validate_shim hasRole_call (hasRoleCall_abi A),
      decode_validate_shim (\<lambda>_. RELAYER_ROLE_call) (unit_waiting_call_abi A),
      decode_validate_shim deposit_call (depositCall_abi A),
      decode_validate_shim withdraw_call (withdrawCall_abi A),
      decode_validate_shim (\<lambda>_. DEFAULT_ADMIN_ROLE_call) (unit_waiting_call_abi A),
      decode_validate_shim depositHashes_call (depositHashesCall_abi A),
      decode_validate_shim revokeRole_call (revokeRoleCall_abi A),
      decode_validate_shim (\<lambda>_. bridge_call) (unit_waiting_call_abi A),
      decode_validate_shim applyDeposits_call (applyDepositsCall_abi A)]"

definition waiting_call_decode_raw_validate :: "'x waiting_call_codecs \<Rightarrow> bytes \<Rightarrow> bytes \<Rightarrow> ('x sol_error + DepositWaitingListCalls) run" where
  "waiting_call_decode_raw_validate A sel data =
     dispatch_call ''DepositWaitingListCalls'' waiting_call_selectors (waiting_call_decode_validate_shims A) sel data"

primrec waiting_call_encoded_size :: "'x waiting_call_codecs \<Rightarrow> DepositWaitingListCalls \<Rightarrow> nat" where
  "waiting_call_encoded_size A DEFAULT_ADMIN_ROLE_call = sc_encoded_size (unit_waiting_call_abi A) ()"
| "waiting_call_encoded_size A RELAYER_ROLE_call = sc_encoded_size (unit_waiting_call_abi A) ()"
| "waiting_call_encoded_size A (applyDeposits_call c) = sc_encoded_size (applyDepositsCall_abi A) c"
| "waiting_call_encoded_size A (approveToken_call c) = sc_encoded_size (approveTokenCall_abi A) c"
| "waiting_call_encoded_size A bridge_call = sc_encoded_size (unit_waiting_call_abi A) ()"
| "waiting_call_encoded_size A (deposit_call c) = sc_encoded_size (depositCall_abi A) c"
| "waiting_call_encoded_size A (depositHashes_call c) = sc_encoded_size (depositHashesCall_abi A) c"
| "waiting_call_encoded_size A (getRoleAdmin_call c) = sc_encoded_size (getRoleAdminCall_abi A) c"
| "waiting_call_encoded_size A (grantRole_call c) = sc_encoded_size (grantRoleCall_abi A) c"
| "waiting_call_encoded_size A (hasRole_call c) = sc_encoded_size (hasRoleCall_abi A) c"
| "waiting_call_encoded_size A nextDepositId_call = sc_encoded_size (unit_waiting_call_abi A) ()"
| "waiting_call_encoded_size A (renounceRole_call c) = sc_encoded_size (renounceRoleCall_abi A) c"
| "waiting_call_encoded_size A (revokeRole_call c) = sc_encoded_size (revokeRoleCall_abi A) c"
| "waiting_call_encoded_size A (supportsInterface_call c) = sc_encoded_size (supportsInterfaceCall_abi A) c"
| "waiting_call_encoded_size A (withdraw_call c) = sc_encoded_size (withdrawCall_abi A) c"

fun waiting_call_encode_raw :: "'x waiting_call_codecs \<Rightarrow> DepositWaitingListCalls \<Rightarrow> bytes \<Rightarrow> bytes" where
  "waiting_call_encode_raw A DEFAULT_ADMIN_ROLE_call out = sc_encode_raw (unit_waiting_call_abi A) () out"
| "waiting_call_encode_raw A RELAYER_ROLE_call out = sc_encode_raw (unit_waiting_call_abi A) () out"
| "waiting_call_encode_raw A (applyDeposits_call c) out = sc_encode_raw (applyDepositsCall_abi A) c out"
| "waiting_call_encode_raw A (approveToken_call c) out = sc_encode_raw (approveTokenCall_abi A) c out"
| "waiting_call_encode_raw A bridge_call out = sc_encode_raw (unit_waiting_call_abi A) () out"
| "waiting_call_encode_raw A (deposit_call c) out = sc_encode_raw (depositCall_abi A) c out"
| "waiting_call_encode_raw A (depositHashes_call c) out = sc_encode_raw (depositHashesCall_abi A) c out"
| "waiting_call_encode_raw A (getRoleAdmin_call c) out = sc_encode_raw (getRoleAdminCall_abi A) c out"
| "waiting_call_encode_raw A (grantRole_call c) out = sc_encode_raw (grantRoleCall_abi A) c out"
| "waiting_call_encode_raw A (hasRole_call c) out = sc_encode_raw (hasRoleCall_abi A) c out"
| "waiting_call_encode_raw A nextDepositId_call out = sc_encode_raw (unit_waiting_call_abi A) () out"
| "waiting_call_encode_raw A (renounceRole_call c) out = sc_encode_raw (renounceRoleCall_abi A) c out"
| "waiting_call_encode_raw A (revokeRole_call c) out = sc_encode_raw (revokeRoleCall_abi A) c out"
| "waiting_call_encode_raw A (supportsInterface_call c) out = sc_encode_raw (supportsInterfaceCall_abi A) c out"
| "waiting_call_encode_raw A (withdraw_call c) out = sc_encode_raw (withdrawCall_abi A) c out"

text \<open>The builders of \<^verbatim>\<open>DepositWaitingListInstance\<close>: the call of a method and its arguments.\<close>

definition waiting_applyDeposits :: "address \<Rightarrow> DepositData list \<Rightarrow> address \<Rightarrow> u256 \<Rightarrow> DepositWaitingListCalls" where
  "waiting_applyDeposits token deposits callContract reserveBalance =
     applyDeposits_call \<lparr>applyDepositsCall_token = token, applyDepositsCall_deposits = deposits,
        applyDepositsCall_callContract = callContract, applyDepositsCall_reserveBalance = reserveBalance\<rparr>"

definition waiting_approveToken :: "address \<Rightarrow> DepositWaitingListCalls" where
  "waiting_approveToken token =
     approveToken_call \<lparr>approveTokenCall_token = token\<rparr>"

definition waiting_deposit :: "address \<Rightarrow> u256 \<Rightarrow> address \<Rightarrow> address \<Rightarrow> address \<Rightarrow> u256 \<Rightarrow> bytes \<Rightarrow> DepositWaitingListCalls" where
  "waiting_deposit token amount from to callContract reserveBalance permit =
     deposit_call \<lparr>depositCall_token = token, depositCall_amount = amount, depositCall_from = from,
        depositCall_to = to, depositCall_callContract = callContract,
        depositCall_reserveBalance = reserveBalance, depositCall_permit = permit\<rparr>"

definition waiting_depositHashes :: "u256 \<Rightarrow> DepositWaitingListCalls" where
  "waiting_depositHashes x0 =
     depositHashes_call \<lparr>depositHashesCall_arg0 = x0\<rparr>"

definition waiting_getRoleAdmin :: "hash \<Rightarrow> DepositWaitingListCalls" where
  "waiting_getRoleAdmin role =
     getRoleAdmin_call \<lparr>getRoleAdminCall_role = role\<rparr>"

definition waiting_grantRole :: "hash \<Rightarrow> address \<Rightarrow> DepositWaitingListCalls" where
  "waiting_grantRole role account =
     grantRole_call \<lparr>grantRoleCall_role = role, grantRoleCall_account = account\<rparr>"

definition waiting_hasRole :: "hash \<Rightarrow> address \<Rightarrow> DepositWaitingListCalls" where
  "waiting_hasRole role account =
     hasRole_call \<lparr>hasRoleCall_role = role, hasRoleCall_account = account\<rparr>"

definition waiting_renounceRole :: "hash \<Rightarrow> address \<Rightarrow> DepositWaitingListCalls" where
  "waiting_renounceRole role callerConfirmation =
     renounceRole_call \<lparr>renounceRoleCall_role = role, renounceRoleCall_callerConfirmation = callerConfirmation\<rparr>"

definition waiting_revokeRole :: "hash \<Rightarrow> address \<Rightarrow> DepositWaitingListCalls" where
  "waiting_revokeRole role account =
     revokeRole_call \<lparr>revokeRoleCall_role = role, revokeRoleCall_account = account\<rparr>"

definition waiting_supportsInterface :: "bytes4 \<Rightarrow> DepositWaitingListCalls" where
  "waiting_supportsInterface interfaceId =
     supportsInterface_call \<lparr>supportsInterfaceCall_interfaceId = interfaceId\<rparr>"

definition waiting_withdraw :: "u256 \<Rightarrow> address \<Rightarrow> u256 \<Rightarrow> address \<Rightarrow> address \<Rightarrow> address \<Rightarrow> u256 \<Rightarrow> DepositWaitingListCalls" where
  "waiting_withdraw depositId token amount from to callContract reserveBalance =
     withdraw_call \<lparr>withdrawCall_depositId = depositId, withdrawCall_token = token, withdrawCall_amount = amount,
        withdrawCall_from = from, withdrawCall_to = to, withdrawCall_callContract = callContract,
        withdrawCall_reserveBalance = reserveBalance\<rparr>"

section \<open>Dispatch\<close>

lemmas waiting_call_impls =
  DEFAULT_ADMIN_ROLECall_impl_def RELAYER_ROLECall_impl_def applyDepositsCall_impl_def
  approveTokenCall_impl_def bridgeCall_impl_def depositCall_impl_def depositHashesCall_impl_def
  getRoleAdminCall_impl_def grantRoleCall_impl_def hasRoleCall_impl_def nextDepositIdCall_impl_def
  renounceRoleCall_impl_def revokeRoleCall_impl_def supportsInterfaceCall_impl_def withdrawCall_impl_def

lemmas waiting_call_froms =
  applyDepositsCall_of_tuple_def approveTokenCall_of_tuple_def depositCall_of_tuple_def
  depositHashesCall_of_tuple_def getRoleAdminCall_of_tuple_def grantRoleCall_of_tuple_def
  hasRoleCall_of_tuple_def renounceRoleCall_of_tuple_def revokeRoleCall_of_tuple_def
  supportsInterfaceCall_of_tuple_def withdrawCall_of_tuple_def

lemma waiting_call_new_tokenize:
  "si_new applyDepositsCall_impl (si_tokenize applyDepositsCall_impl c0) = c0"
  "si_new approveTokenCall_impl (si_tokenize approveTokenCall_impl c1) = c1"
  "si_new depositCall_impl (si_tokenize depositCall_impl c2) = c2"
  "si_new depositHashesCall_impl (si_tokenize depositHashesCall_impl c3) = c3"
  "si_new getRoleAdminCall_impl (si_tokenize getRoleAdminCall_impl c4) = c4"
  "si_new grantRoleCall_impl (si_tokenize grantRoleCall_impl c5) = c5"
  "si_new hasRoleCall_impl (si_tokenize hasRoleCall_impl c6) = c6"
  "si_new renounceRoleCall_impl (si_tokenize renounceRoleCall_impl c7) = c7"
  "si_new revokeRoleCall_impl (si_tokenize revokeRoleCall_impl c8) = c8"
  "si_new supportsInterfaceCall_impl (si_tokenize supportsInterfaceCall_impl c9) = c9"
  "si_new withdrawCall_impl (si_tokenize withdrawCall_impl c10) = c10"
  by (simp_all add: waiting_call_impls waiting_call_froms)

text \<open>The row of the tables that a variant has.\<close>

primrec waiting_call_row :: "DepositWaitingListCalls \<Rightarrow> nat" where
  "waiting_call_row DEFAULT_ADMIN_ROLE_call = 10"
| "waiting_call_row RELAYER_ROLE_call = 7"
| "waiting_call_row (applyDeposits_call c) = 14"
| "waiting_call_row (approveToken_call c) = 5"
| "waiting_call_row bridge_call = 13"
| "waiting_call_row (deposit_call c) = 8"
| "waiting_call_row (depositHashes_call c) = 11"
| "waiting_call_row (getRoleAdmin_call c) = 1"
| "waiting_call_row (grantRole_call c) = 2"
| "waiting_call_row (hasRole_call c) = 6"
| "waiting_call_row nextDepositId_call = 4"
| "waiting_call_row (renounceRole_call c) = 3"
| "waiting_call_row (revokeRole_call c) = 12"
| "waiting_call_row (supportsInterface_call c) = 0"
| "waiting_call_row (withdraw_call c) = 9"

lemma waiting_call_ascending: "dispatch_table waiting_call_selectors"
  by (rule ascending_table) (simp add: waiting_call_selectors_def)

interpretation waiting_calls: typed_dispatch waiting_call_selectors waiting_call_selector "waiting_call_decode_shims A" for A
  by (intro typed_dispatch.intro typed_dispatch_axioms.intro waiting_call_ascending)
    (simp add: waiting_call_selectors_def waiting_call_decode_shims_def typed_row_shims waiting_call_impls)

interpretation waiting_calls_validate: typed_dispatch waiting_call_selectors waiting_call_selector "waiting_call_decode_validate_shims A" for A
  by (intro typed_dispatch.intro typed_dispatch_axioms.intro waiting_call_ascending)
    (simp add: waiting_call_selectors_def waiting_call_decode_validate_shims_def typed_row_shims waiting_call_impls)

lemma waiting_call_row_selector:
  "waiting_call_row c < length waiting_call_selectors \<and> waiting_call_selectors ! waiting_call_row c = waiting_call_selector c"
  by (cases c) (simp_all add: waiting_call_selectors_def waiting_call_impls)

lemma waiting_call_name:
  "waiting_call_name_by_selector (waiting_call_selector c) = Inr (Some (waiting_call_variant_names ! waiting_call_row c))"
proof -
  have "waiting_call_signature_by_selector (waiting_call_selector c) = Inr (Some (waiting_call_signatures ! waiting_call_row c))"
    using waiting_calls.row_nth [of "waiting_call_row c" waiting_call_signatures] waiting_call_row_selector [of c]
    by (simp add: waiting_call_signature_by_selector_def) (simp add: waiting_call_signatures_def waiting_call_selectors_def)
  moreover have "name_of_signature (Some (waiting_call_signatures ! waiting_call_row c)) = Some (waiting_call_variant_names ! waiting_call_row c)"
    by (cases c) (simp_all add: waiting_call_signatures_def waiting_call_variant_names_def name_of_signature_def split_once_def waiting_call_impls)
  ultimately show ?thesis by (simp add: waiting_call_name_by_selector_def map_ok_def)
qed

text \<open>What is relied on for a value of the enum.\<close>

primrec waiting_call_law :: "'x waiting_call_codecs \<Rightarrow> DepositWaitingListCalls \<Rightarrow> bool" where
  "waiting_call_law A DEFAULT_ADMIN_ROLE_call \<longleftrightarrow> impl_law DEFAULT_ADMIN_ROLECall_impl (unit_waiting_call_abi A) ()"
| "waiting_call_law A RELAYER_ROLE_call \<longleftrightarrow> impl_law RELAYER_ROLECall_impl (unit_waiting_call_abi A) ()"
| "waiting_call_law A (applyDeposits_call c) \<longleftrightarrow> impl_law applyDepositsCall_impl (applyDepositsCall_abi A) c"
| "waiting_call_law A (approveToken_call c) \<longleftrightarrow> impl_law approveTokenCall_impl (approveTokenCall_abi A) c"
| "waiting_call_law A bridge_call \<longleftrightarrow> impl_law bridgeCall_impl (unit_waiting_call_abi A) ()"
| "waiting_call_law A (deposit_call c) \<longleftrightarrow> impl_law depositCall_impl (depositCall_abi A) c"
| "waiting_call_law A (depositHashes_call c) \<longleftrightarrow> impl_law depositHashesCall_impl (depositHashesCall_abi A) c"
| "waiting_call_law A (getRoleAdmin_call c) \<longleftrightarrow> impl_law getRoleAdminCall_impl (getRoleAdminCall_abi A) c"
| "waiting_call_law A (grantRole_call c) \<longleftrightarrow> impl_law grantRoleCall_impl (grantRoleCall_abi A) c"
| "waiting_call_law A (hasRole_call c) \<longleftrightarrow> impl_law hasRoleCall_impl (hasRoleCall_abi A) c"
| "waiting_call_law A nextDepositId_call \<longleftrightarrow> impl_law nextDepositIdCall_impl (unit_waiting_call_abi A) ()"
| "waiting_call_law A (renounceRole_call c) \<longleftrightarrow> impl_law renounceRoleCall_impl (renounceRoleCall_abi A) c"
| "waiting_call_law A (revokeRole_call c) \<longleftrightarrow> impl_law revokeRoleCall_impl (revokeRoleCall_abi A) c"
| "waiting_call_law A (supportsInterface_call c) \<longleftrightarrow> impl_law supportsInterfaceCall_impl (supportsInterfaceCall_abi A) c"
| "waiting_call_law A (withdraw_call c) \<longleftrightarrow> impl_law withdrawCall_impl (withdrawCall_abi A) c"

lemma waiting_call_own_shims:
  assumes "waiting_call_law A c"
  shows "\<exists>body. (\<forall>out. waiting_call_encode_raw A c out = out @ body) \<and> length body = waiting_call_encoded_size A c
    \<and> (waiting_call_decode_shims A ! waiting_call_row c) body = Inr c
    \<and> (waiting_call_decode_validate_shims A ! waiting_call_row c) body = Inr c"
  using assms
  by (cases c)
    (auto dest!: impl_law_call simp: waiting_call_new_tokenize call_law_def shim_simps waiting_call_decode_shims_def waiting_call_decode_validate_shims_def)

lemma waiting_call_typed:
  "case waiting_call_decode_raw A sel data of
     Inl p \<Rightarrow> False
   | Inr (Inl e) \<Rightarrow> if waiting_call_valid_selector sel then \<exists>x. e = Codec x else e = UnknownSelector ''DepositWaitingListCalls'' sel
   | Inr (Inr call) \<Rightarrow> waiting_call_selector call = sel \<and> waiting_call_valid_selector sel"
  using waiting_calls.dispatch_typed [where A = A and name = "''DepositWaitingListCalls''" and sel = sel and data = data] waiting_calls.search_None [of sel]
  by (auto simp: waiting_call_decode_raw_def waiting_call_valid_selector_def split: sum.splits if_splits)

lemma waiting_call_encodes:
  assumes "waiting_call_law A call"
  shows "\<exists>body. waiting_call_encode_raw A call out = out @ body \<and> length body = waiting_call_encoded_size A call
    \<and> waiting_call_decode_raw A (waiting_call_selector call) body = Inr (Inr call)
    \<and> waiting_call_decode_raw_validate A (waiting_call_selector call) body = Inr (Inr call)"
proof -
  have row: "waiting_call_row call < length waiting_call_selectors" "waiting_call_selectors ! waiting_call_row call = waiting_call_selector call"
    using waiting_call_row_selector by blast+
  from waiting_call_own_shims [OF assms] show ?thesis
    unfolding waiting_call_decode_raw_def waiting_call_decode_raw_validate_def
    by (auto simp: waiting_calls.dispatch_at [OF row] waiting_calls_validate.dispatch_at [OF row])
qed

end
