(* ===== verification/Waiting_Errors.thy ===== *)
theory Waiting_Errors
  imports Sol_Traits
begin

text \<open>
  The custom errors of \<^verbatim>\<open>protocol/bindings/src/deposit_waiting_list.rs\<close>, the list of waiting deposits.
\<close>

section \<open>The errors\<close>

definition AccessControlBadConfirmation_impl :: "(unit, unit) sol_impl" where
  "AccessControlBadConfirmation_impl =
     \<lparr>si_signature = ''AccessControlBadConfirmation()'',
      si_selector = [102, 151, 178, 50],
      si_new = (\<lambda>_. ()),
      si_tokenize = (\<lambda>_. ())\<rparr>"

record AccessControlUnauthorizedAccount =
  AccessControlUnauthorizedAccount_account :: address
  AccessControlUnauthorizedAccount_neededRole :: hash

definition AccessControlUnauthorizedAccount_of_tuple :: "address \<times> hash \<Rightarrow> AccessControlUnauthorizedAccount" where
  "AccessControlUnauthorizedAccount_of_tuple = (\<lambda>(t0, t1).
     \<lparr>AccessControlUnauthorizedAccount_account = t0, AccessControlUnauthorizedAccount_neededRole = t1\<rparr>)"

definition AccessControlUnauthorizedAccount_impl :: "(AccessControlUnauthorizedAccount, address \<times> hash) sol_impl" where
  "AccessControlUnauthorizedAccount_impl =
     \<lparr>si_signature = ''AccessControlUnauthorizedAccount(address,bytes32)'',
      si_selector = [226, 81, 125, 63],
      si_new = AccessControlUnauthorizedAccount_of_tuple,
      si_tokenize = (\<lambda>c. (AccessControlUnauthorizedAccount_account c, AccessControlUnauthorizedAccount_neededRole c))\<rparr>"

definition AmountBelowReserve_impl :: "(unit, unit) sol_impl" where
  "AmountBelowReserve_impl =
     \<lparr>si_signature = ''AmountBelowReserve()'',
      si_selector = [32, 130, 98, 29],
      si_new = (\<lambda>_. ()),
      si_tokenize = (\<lambda>_. ())\<rparr>"

definition CallContractNotWhitelisted_impl :: "(unit, unit) sol_impl" where
  "CallContractNotWhitelisted_impl =
     \<lparr>si_signature = ''CallContractNotWhitelisted()'',
      si_selector = [102, 0, 86, 248],
      si_new = (\<lambda>_. ()),
      si_tokenize = (\<lambda>_. ())\<rparr>"

definition DepositNotPending_impl :: "(unit, unit) sol_impl" where
  "DepositNotPending_impl =
     \<lparr>si_signature = ''DepositNotPending()'',
      si_selector = [7, 13, 129, 124],
      si_new = (\<lambda>_. ()),
      si_tokenize = (\<lambda>_. ())\<rparr>"

definition InvalidDepositAmount_impl :: "(unit, unit) sol_impl" where
  "InvalidDepositAmount_impl =
     \<lparr>si_signature = ''InvalidDepositAmount()'',
      si_selector = [254, 155, 165, 205],
      si_new = (\<lambda>_. ()),
      si_tokenize = (\<lambda>_. ())\<rparr>"

definition InvalidDepositData_impl :: "(unit, unit) sol_impl" where
  "InvalidDepositData_impl =
     \<lparr>si_signature = ''InvalidDepositData()'',
      si_selector = [144, 221, 3, 219],
      si_new = (\<lambda>_. ()),
      si_tokenize = (\<lambda>_. ())\<rparr>"

definition InvalidPermitLength_impl :: "(unit, unit) sol_impl" where
  "InvalidPermitLength_impl =
     \<lparr>si_signature = ''InvalidPermitLength()'',
      si_selector = [118, 16, 21, 174],
      si_new = (\<lambda>_. ()),
      si_tokenize = (\<lambda>_. ())\<rparr>"

definition InvalidReserveBalance_impl :: "(unit, unit) sol_impl" where
  "InvalidReserveBalance_impl =
     \<lparr>si_signature = ''InvalidReserveBalance()'',
      si_selector = [114, 88, 197, 251],
      si_new = (\<lambda>_. ()),
      si_tokenize = (\<lambda>_. ())\<rparr>"

definition InvalidToAddress_impl :: "(unit, unit) sol_impl" where
  "InvalidToAddress_impl =
     \<lparr>si_signature = ''InvalidToAddress()'',
      si_selector = [138, 163, 167, 47],
      si_new = (\<lambda>_. ()),
      si_tokenize = (\<lambda>_. ())\<rparr>"

definition NotAuthorized_impl :: "(unit, unit) sol_impl" where
  "NotAuthorized_impl =
     \<lparr>si_signature = ''NotAuthorized()'',
      si_selector = [234, 142, 78, 181],
      si_new = (\<lambda>_. ()),
      si_tokenize = (\<lambda>_. ())\<rparr>"

record SafeERC20FailedOperation =
  SafeERC20FailedOperation_token :: address

definition SafeERC20FailedOperation_of_tuple :: "address \<Rightarrow> SafeERC20FailedOperation" where
  "SafeERC20FailedOperation_of_tuple = (\<lambda>t0.
     \<lparr>SafeERC20FailedOperation_token = t0\<rparr>)"

definition SafeERC20FailedOperation_impl :: "(SafeERC20FailedOperation, address) sol_impl" where
  "SafeERC20FailedOperation_impl =
     \<lparr>si_signature = ''SafeERC20FailedOperation(address)'',
      si_selector = [82, 116, 175, 231],
      si_new = SafeERC20FailedOperation_of_tuple,
      si_tokenize = SafeERC20FailedOperation_token\<rparr>"

datatype (plugins only: code) DepositWaitingListErrors =
    AccessControlBadConfirmation_error
  | AccessControlUnauthorizedAccount_error AccessControlUnauthorizedAccount
  | AmountBelowReserve_error
  | CallContractNotWhitelisted_error
  | DepositNotPending_error
  | InvalidDepositAmount_error
  | InvalidDepositData_error
  | InvalidPermitLength_error
  | InvalidReserveBalance_error
  | InvalidToAddress_error
  | NotAuthorized_error
  | SafeERC20FailedOperation_error SafeERC20FailedOperation

text \<open>The tables in the order of the selectors.\<close>

definition waiting_error_selectors :: "bytes list" where
  "waiting_error_selectors =
     [[7, 13, 129, 124], [32, 130, 98, 29], [82, 116, 175, 231], [102, 0, 86, 248], [102, 151, 178, 50],
      [114, 88, 197, 251], [118, 16, 21, 174], [138, 163, 167, 47], [144, 221, 3, 219],
      [226, 81, 125, 63], [234, 142, 78, 181], [254, 155, 165, 205]]"

definition waiting_error_variant_names :: "string list" where
  "waiting_error_variant_names =
     [''DepositNotPending'', ''AmountBelowReserve'', ''SafeERC20FailedOperation'',
      ''CallContractNotWhitelisted'', ''AccessControlBadConfirmation'', ''InvalidReserveBalance'',
      ''InvalidPermitLength'', ''InvalidToAddress'', ''InvalidDepositData'',
      ''AccessControlUnauthorizedAccount'', ''NotAuthorized'', ''InvalidDepositAmount'']"

definition waiting_error_signatures :: "string list" where
  "waiting_error_signatures =
     [si_signature DepositNotPending_impl, si_signature AmountBelowReserve_impl,
      si_signature SafeERC20FailedOperation_impl, si_signature CallContractNotWhitelisted_impl,
      si_signature AccessControlBadConfirmation_impl, si_signature InvalidReserveBalance_impl,
      si_signature InvalidPermitLength_impl, si_signature InvalidToAddress_impl,
      si_signature InvalidDepositData_impl, si_signature AccessControlUnauthorizedAccount_impl,
      si_signature NotAuthorized_impl, si_signature InvalidDepositAmount_impl]"

definition waiting_error_signature_by_selector :: "bytes \<Rightarrow> string option run" where
  "waiting_error_signature_by_selector sel = table_row waiting_error_selectors waiting_error_signatures sel"

definition waiting_error_name_by_selector :: "bytes \<Rightarrow> string option run" where
  "waiting_error_name_by_selector sel = map_ok name_of_signature (waiting_error_signature_by_selector sel)"

text \<open>The crate's codecs; the structs without fields share one.\<close>

record 'x waiting_error_codecs =
  unit_waiting_error_abi :: "(unit, 'x) sol_call"
  AccessControlUnauthorizedAccount_abi :: "(AccessControlUnauthorizedAccount, 'x) sol_call"
  SafeERC20FailedOperation_abi :: "(SafeERC20FailedOperation, 'x) sol_call"
  unit_waiting_error_tuple :: "(unit, 'x) sol_tuple"
  AccessControlUnauthorizedAccount_tuple :: "(address \<times> hash, 'x) sol_tuple"
  SafeERC20FailedOperation_tuple :: "(address, 'x) sol_tuple"

primrec waiting_error_selector :: "DepositWaitingListErrors \<Rightarrow> bytes" where
  "waiting_error_selector AccessControlBadConfirmation_error = si_selector AccessControlBadConfirmation_impl"
| "waiting_error_selector (AccessControlUnauthorizedAccount_error c) = si_selector AccessControlUnauthorizedAccount_impl"
| "waiting_error_selector AmountBelowReserve_error = si_selector AmountBelowReserve_impl"
| "waiting_error_selector CallContractNotWhitelisted_error = si_selector CallContractNotWhitelisted_impl"
| "waiting_error_selector DepositNotPending_error = si_selector DepositNotPending_impl"
| "waiting_error_selector InvalidDepositAmount_error = si_selector InvalidDepositAmount_impl"
| "waiting_error_selector InvalidDepositData_error = si_selector InvalidDepositData_impl"
| "waiting_error_selector InvalidPermitLength_error = si_selector InvalidPermitLength_impl"
| "waiting_error_selector InvalidReserveBalance_error = si_selector InvalidReserveBalance_impl"
| "waiting_error_selector InvalidToAddress_error = si_selector InvalidToAddress_impl"
| "waiting_error_selector NotAuthorized_error = si_selector NotAuthorized_impl"
| "waiting_error_selector (SafeERC20FailedOperation_error c) = si_selector SafeERC20FailedOperation_impl"

definition waiting_error_selector_at :: "nat \<Rightarrow> bytes option" where
  "waiting_error_selector_at i = (if i < length waiting_error_selectors then Some (waiting_error_selectors ! i) else None)"

definition waiting_error_valid_selector :: "bytes \<Rightarrow> bool" where
  "waiting_error_valid_selector sel \<longleftrightarrow> binary_search waiting_error_selectors sel \<noteq> None"

definition waiting_error_decode_shims :: "'x waiting_error_codecs \<Rightarrow> (bytes \<Rightarrow> 'x sol_error + DepositWaitingListErrors) list" where
  "waiting_error_decode_shims A =
     [decode_shim (\<lambda>_. DepositNotPending_error) (unit_waiting_error_abi A),
      decode_shim (\<lambda>_. AmountBelowReserve_error) (unit_waiting_error_abi A),
      decode_shim SafeERC20FailedOperation_error (SafeERC20FailedOperation_abi A),
      decode_shim (\<lambda>_. CallContractNotWhitelisted_error) (unit_waiting_error_abi A),
      decode_shim (\<lambda>_. AccessControlBadConfirmation_error) (unit_waiting_error_abi A),
      decode_shim (\<lambda>_. InvalidReserveBalance_error) (unit_waiting_error_abi A),
      decode_shim (\<lambda>_. InvalidPermitLength_error) (unit_waiting_error_abi A),
      decode_shim (\<lambda>_. InvalidToAddress_error) (unit_waiting_error_abi A),
      decode_shim (\<lambda>_. InvalidDepositData_error) (unit_waiting_error_abi A),
      decode_shim AccessControlUnauthorizedAccount_error (AccessControlUnauthorizedAccount_abi A),
      decode_shim (\<lambda>_. NotAuthorized_error) (unit_waiting_error_abi A),
      decode_shim (\<lambda>_. InvalidDepositAmount_error) (unit_waiting_error_abi A)]"

definition waiting_error_decode_raw :: "'x waiting_error_codecs \<Rightarrow> bytes \<Rightarrow> bytes \<Rightarrow> ('x sol_error + DepositWaitingListErrors) run" where
  "waiting_error_decode_raw A sel data =
     dispatch_call ''DepositWaitingListErrors'' waiting_error_selectors (waiting_error_decode_shims A) sel data"

definition waiting_error_decode_validate_shims :: "'x waiting_error_codecs \<Rightarrow> (bytes \<Rightarrow> 'x sol_error + DepositWaitingListErrors) list" where
  "waiting_error_decode_validate_shims A =
     [error_validate_shim (\<lambda>_. DepositNotPending_error) DepositNotPending_impl (unit_waiting_error_tuple A),
      error_validate_shim (\<lambda>_. AmountBelowReserve_error) AmountBelowReserve_impl (unit_waiting_error_tuple A),
      error_validate_shim SafeERC20FailedOperation_error SafeERC20FailedOperation_impl (SafeERC20FailedOperation_tuple A),
      error_validate_shim (\<lambda>_. CallContractNotWhitelisted_error) CallContractNotWhitelisted_impl (unit_waiting_error_tuple A),
      error_validate_shim (\<lambda>_. AccessControlBadConfirmation_error) AccessControlBadConfirmation_impl (unit_waiting_error_tuple A),
      error_validate_shim (\<lambda>_. InvalidReserveBalance_error) InvalidReserveBalance_impl (unit_waiting_error_tuple A),
      error_validate_shim (\<lambda>_. InvalidPermitLength_error) InvalidPermitLength_impl (unit_waiting_error_tuple A),
      error_validate_shim (\<lambda>_. InvalidToAddress_error) InvalidToAddress_impl (unit_waiting_error_tuple A),
      error_validate_shim (\<lambda>_. InvalidDepositData_error) InvalidDepositData_impl (unit_waiting_error_tuple A),
      error_validate_shim AccessControlUnauthorizedAccount_error AccessControlUnauthorizedAccount_impl (AccessControlUnauthorizedAccount_tuple A),
      error_validate_shim (\<lambda>_. NotAuthorized_error) NotAuthorized_impl (unit_waiting_error_tuple A),
      error_validate_shim (\<lambda>_. InvalidDepositAmount_error) InvalidDepositAmount_impl (unit_waiting_error_tuple A)]"

definition waiting_error_decode_raw_validate :: "'x waiting_error_codecs \<Rightarrow> bytes \<Rightarrow> bytes \<Rightarrow> ('x sol_error + DepositWaitingListErrors) run" where
  "waiting_error_decode_raw_validate A sel data =
     dispatch_call ''DepositWaitingListErrors'' waiting_error_selectors (waiting_error_decode_validate_shims A) sel data"

primrec waiting_error_encoded_size :: "'x waiting_error_codecs \<Rightarrow> DepositWaitingListErrors \<Rightarrow> nat" where
  "waiting_error_encoded_size A AccessControlBadConfirmation_error = sc_encoded_size (unit_waiting_error_abi A) ()"
| "waiting_error_encoded_size A (AccessControlUnauthorizedAccount_error c) = sc_encoded_size (AccessControlUnauthorizedAccount_abi A) c"
| "waiting_error_encoded_size A AmountBelowReserve_error = sc_encoded_size (unit_waiting_error_abi A) ()"
| "waiting_error_encoded_size A CallContractNotWhitelisted_error = sc_encoded_size (unit_waiting_error_abi A) ()"
| "waiting_error_encoded_size A DepositNotPending_error = sc_encoded_size (unit_waiting_error_abi A) ()"
| "waiting_error_encoded_size A InvalidDepositAmount_error = sc_encoded_size (unit_waiting_error_abi A) ()"
| "waiting_error_encoded_size A InvalidDepositData_error = sc_encoded_size (unit_waiting_error_abi A) ()"
| "waiting_error_encoded_size A InvalidPermitLength_error = sc_encoded_size (unit_waiting_error_abi A) ()"
| "waiting_error_encoded_size A InvalidReserveBalance_error = sc_encoded_size (unit_waiting_error_abi A) ()"
| "waiting_error_encoded_size A InvalidToAddress_error = sc_encoded_size (unit_waiting_error_abi A) ()"
| "waiting_error_encoded_size A NotAuthorized_error = sc_encoded_size (unit_waiting_error_abi A) ()"
| "waiting_error_encoded_size A (SafeERC20FailedOperation_error c) = sc_encoded_size (SafeERC20FailedOperation_abi A) c"

fun waiting_error_encode_raw :: "'x waiting_error_codecs \<Rightarrow> DepositWaitingListErrors \<Rightarrow> bytes \<Rightarrow> bytes" where
  "waiting_error_encode_raw A AccessControlBadConfirmation_error out = sc_encode_raw (unit_waiting_error_abi A) () out"
| "waiting_error_encode_raw A (AccessControlUnauthorizedAccount_error c) out = sc_encode_raw (AccessControlUnauthorizedAccount_abi A) c out"
| "waiting_error_encode_raw A AmountBelowReserve_error out = sc_encode_raw (unit_waiting_error_abi A) () out"
| "waiting_error_encode_raw A CallContractNotWhitelisted_error out = sc_encode_raw (unit_waiting_error_abi A) () out"
| "waiting_error_encode_raw A DepositNotPending_error out = sc_encode_raw (unit_waiting_error_abi A) () out"
| "waiting_error_encode_raw A InvalidDepositAmount_error out = sc_encode_raw (unit_waiting_error_abi A) () out"
| "waiting_error_encode_raw A InvalidDepositData_error out = sc_encode_raw (unit_waiting_error_abi A) () out"
| "waiting_error_encode_raw A InvalidPermitLength_error out = sc_encode_raw (unit_waiting_error_abi A) () out"
| "waiting_error_encode_raw A InvalidReserveBalance_error out = sc_encode_raw (unit_waiting_error_abi A) () out"
| "waiting_error_encode_raw A InvalidToAddress_error out = sc_encode_raw (unit_waiting_error_abi A) () out"
| "waiting_error_encode_raw A NotAuthorized_error out = sc_encode_raw (unit_waiting_error_abi A) () out"
| "waiting_error_encode_raw A (SafeERC20FailedOperation_error c) out = sc_encode_raw (SafeERC20FailedOperation_abi A) c out"

section \<open>Dispatch\<close>

lemmas waiting_error_impls =
  AccessControlBadConfirmation_impl_def AccessControlUnauthorizedAccount_impl_def
  AmountBelowReserve_impl_def CallContractNotWhitelisted_impl_def DepositNotPending_impl_def
  InvalidDepositAmount_impl_def InvalidDepositData_impl_def InvalidPermitLength_impl_def
  InvalidReserveBalance_impl_def InvalidToAddress_impl_def NotAuthorized_impl_def
  SafeERC20FailedOperation_impl_def

lemmas waiting_error_froms =
  AccessControlUnauthorizedAccount_of_tuple_def SafeERC20FailedOperation_of_tuple_def

lemma waiting_error_new_tokenize:
  "si_new AccessControlUnauthorizedAccount_impl (si_tokenize AccessControlUnauthorizedAccount_impl c0) = c0"
  "si_new SafeERC20FailedOperation_impl (si_tokenize SafeERC20FailedOperation_impl c1) = c1"
  by (simp_all add: waiting_error_impls waiting_error_froms)

text \<open>The row of the tables that a variant has.\<close>

primrec waiting_error_row :: "DepositWaitingListErrors \<Rightarrow> nat" where
  "waiting_error_row AccessControlBadConfirmation_error = 4"
| "waiting_error_row (AccessControlUnauthorizedAccount_error c) = 9"
| "waiting_error_row AmountBelowReserve_error = 1"
| "waiting_error_row CallContractNotWhitelisted_error = 3"
| "waiting_error_row DepositNotPending_error = 0"
| "waiting_error_row InvalidDepositAmount_error = 11"
| "waiting_error_row InvalidDepositData_error = 8"
| "waiting_error_row InvalidPermitLength_error = 6"
| "waiting_error_row InvalidReserveBalance_error = 5"
| "waiting_error_row InvalidToAddress_error = 7"
| "waiting_error_row NotAuthorized_error = 10"
| "waiting_error_row (SafeERC20FailedOperation_error c) = 2"

lemma waiting_error_ascending: "dispatch_table waiting_error_selectors"
  by (rule ascending_table) (simp add: waiting_error_selectors_def)

interpretation waiting_errors: typed_dispatch waiting_error_selectors waiting_error_selector "waiting_error_decode_shims A" for A
  by (intro typed_dispatch.intro typed_dispatch_axioms.intro waiting_error_ascending)
    (simp add: waiting_error_selectors_def waiting_error_decode_shims_def typed_row_shims waiting_error_impls)

interpretation waiting_errors_validate: typed_dispatch waiting_error_selectors waiting_error_selector "waiting_error_decode_validate_shims A" for A
  by (intro typed_dispatch.intro typed_dispatch_axioms.intro waiting_error_ascending)
    (simp add: waiting_error_selectors_def waiting_error_decode_validate_shims_def typed_row_shims waiting_error_impls)

lemma waiting_error_row_selector:
  "waiting_error_row c < length waiting_error_selectors \<and> waiting_error_selectors ! waiting_error_row c = waiting_error_selector c"
  by (cases c) (simp_all add: waiting_error_selectors_def waiting_error_impls)

lemma waiting_error_name:
  "waiting_error_name_by_selector (waiting_error_selector c) = Inr (Some (waiting_error_variant_names ! waiting_error_row c))"
proof -
  have "waiting_error_signature_by_selector (waiting_error_selector c) = Inr (Some (waiting_error_signatures ! waiting_error_row c))"
    using waiting_errors.row_nth [of "waiting_error_row c" waiting_error_signatures] waiting_error_row_selector [of c]
    by (simp add: waiting_error_signature_by_selector_def) (simp add: waiting_error_signatures_def waiting_error_selectors_def)
  moreover have "name_of_signature (Some (waiting_error_signatures ! waiting_error_row c)) = Some (waiting_error_variant_names ! waiting_error_row c)"
    by (cases c) (simp_all add: waiting_error_signatures_def waiting_error_variant_names_def name_of_signature_def split_once_def waiting_error_impls)
  ultimately show ?thesis by (simp add: waiting_error_name_by_selector_def map_ok_def)
qed

text \<open>What is relied on for a value of the enum.\<close>

primrec waiting_error_law :: "'x waiting_error_codecs \<Rightarrow> DepositWaitingListErrors \<Rightarrow> bool" where
  "waiting_error_law A AccessControlBadConfirmation_error \<longleftrightarrow> error_law AccessControlBadConfirmation_impl (unit_waiting_error_abi A) (unit_waiting_error_tuple A) ()"
| "waiting_error_law A (AccessControlUnauthorizedAccount_error c) \<longleftrightarrow> error_law AccessControlUnauthorizedAccount_impl (AccessControlUnauthorizedAccount_abi A) (AccessControlUnauthorizedAccount_tuple A) c"
| "waiting_error_law A AmountBelowReserve_error \<longleftrightarrow> error_law AmountBelowReserve_impl (unit_waiting_error_abi A) (unit_waiting_error_tuple A) ()"
| "waiting_error_law A CallContractNotWhitelisted_error \<longleftrightarrow> error_law CallContractNotWhitelisted_impl (unit_waiting_error_abi A) (unit_waiting_error_tuple A) ()"
| "waiting_error_law A DepositNotPending_error \<longleftrightarrow> error_law DepositNotPending_impl (unit_waiting_error_abi A) (unit_waiting_error_tuple A) ()"
| "waiting_error_law A InvalidDepositAmount_error \<longleftrightarrow> error_law InvalidDepositAmount_impl (unit_waiting_error_abi A) (unit_waiting_error_tuple A) ()"
| "waiting_error_law A InvalidDepositData_error \<longleftrightarrow> error_law InvalidDepositData_impl (unit_waiting_error_abi A) (unit_waiting_error_tuple A) ()"
| "waiting_error_law A InvalidPermitLength_error \<longleftrightarrow> error_law InvalidPermitLength_impl (unit_waiting_error_abi A) (unit_waiting_error_tuple A) ()"
| "waiting_error_law A InvalidReserveBalance_error \<longleftrightarrow> error_law InvalidReserveBalance_impl (unit_waiting_error_abi A) (unit_waiting_error_tuple A) ()"
| "waiting_error_law A InvalidToAddress_error \<longleftrightarrow> error_law InvalidToAddress_impl (unit_waiting_error_abi A) (unit_waiting_error_tuple A) ()"
| "waiting_error_law A NotAuthorized_error \<longleftrightarrow> error_law NotAuthorized_impl (unit_waiting_error_abi A) (unit_waiting_error_tuple A) ()"
| "waiting_error_law A (SafeERC20FailedOperation_error c) \<longleftrightarrow> error_law SafeERC20FailedOperation_impl (SafeERC20FailedOperation_abi A) (SafeERC20FailedOperation_tuple A) c"

lemma waiting_error_own_shims:
  assumes "waiting_error_law A c"
  shows "\<exists>body. (\<forall>out. waiting_error_encode_raw A c out = out @ body) \<and> length body = waiting_error_encoded_size A c
    \<and> (waiting_error_decode_shims A ! waiting_error_row c) body = Inr c
    \<and> (waiting_error_decode_validate_shims A ! waiting_error_row c) body = Inr c"
  using assms
  by (cases c)
    (auto dest!: error_law_call simp: waiting_error_new_tokenize call_law_def shim_simps waiting_error_decode_shims_def waiting_error_decode_validate_shims_def)

lemma waiting_error_typed:
  "case waiting_error_decode_raw A sel data of
     Inl p \<Rightarrow> False
   | Inr (Inl e) \<Rightarrow> if waiting_error_valid_selector sel then \<exists>x. e = Codec x else e = UnknownSelector ''DepositWaitingListErrors'' sel
   | Inr (Inr call) \<Rightarrow> waiting_error_selector call = sel \<and> waiting_error_valid_selector sel"
  using waiting_errors.dispatch_typed [where A = A and name = "''DepositWaitingListErrors''" and sel = sel and data = data] waiting_errors.search_None [of sel]
  by (auto simp: waiting_error_decode_raw_def waiting_error_valid_selector_def split: sum.splits if_splits)

lemma waiting_error_encodes:
  assumes "waiting_error_law A call"
  shows "\<exists>body. waiting_error_encode_raw A call out = out @ body \<and> length body = waiting_error_encoded_size A call
    \<and> waiting_error_decode_raw A (waiting_error_selector call) body = Inr (Inr call)
    \<and> waiting_error_decode_raw_validate A (waiting_error_selector call) body = Inr (Inr call)"
proof -
  have row: "waiting_error_row call < length waiting_error_selectors" "waiting_error_selectors ! waiting_error_row call = waiting_error_selector call"
    using waiting_error_row_selector by blast+
  from waiting_error_own_shims [OF assms] show ?thesis
    unfolding waiting_error_decode_raw_def waiting_error_decode_raw_validate_def
    by (auto simp: waiting_errors.dispatch_at [OF row] waiting_errors_validate.dispatch_at [OF row])
qed

end
