(* ===== verification/Waiting_Events.thy ===== *)
theory Waiting_Events
  imports Sol_Traits
begin

text \<open>
  The events of \<^verbatim>\<open>protocol/bindings/src/deposit_waiting_list.rs\<close>, the list of waiting deposits, as in \<open>Bridge_Events\<close>.
\<close>

section \<open>The events\<close>

record RoleAdminChanged =
  RoleAdminChanged_role :: hash
  RoleAdminChanged_previousAdminRole :: hash
  RoleAdminChanged_newAdminRole :: hash

definition RoleAdminChanged_signature :: string where
  "RoleAdminChanged_signature = ''RoleAdminChanged(bytes32,bytes32,bytes32)''"

definition RoleAdminChanged_hash :: hash where
  "RoleAdminChanged_hash = b256
     [189, 121, 184, 111, 254, 10, 184, 232, 119, 97, 81, 81, 66, 23, 205, 124, 172, 213, 44, 144, 159,
      102, 71, 92, 58, 244, 78, 18, 159, 11, 0, 255]"

definition RoleAdminChanged_new :: "(hash \<times> hash \<times> hash \<times> hash) \<Rightarrow> unit \<Rightarrow> RoleAdminChanged" where
  "RoleAdminChanged_new = (\<lambda>(t0, t1, t2, t3) _.
     \<lparr>RoleAdminChanged_role = t1, RoleAdminChanged_previousAdminRole = t2,
      RoleAdminChanged_newAdminRole = t3\<rparr>)"

definition RoleAdminChanged_check_signature :: "hash \<times> hash \<times> hash \<times> hash \<Rightarrow> 'x sol_error + unit" where
  "RoleAdminChanged_check_signature topics =
     (if fst topics \<noteq> RoleAdminChanged_hash then Inl (InvalidSignatureHash RoleAdminChanged_signature (fst topics) RoleAdminChanged_hash)
      else Inr ())"

definition RoleAdminChanged_tokenize_body :: "RoleAdminChanged \<Rightarrow> unit" where
  "RoleAdminChanged_tokenize_body e = ()"

definition RoleAdminChanged_topics :: "RoleAdminChanged \<Rightarrow> hash \<times> hash \<times> hash \<times> hash" where
  "RoleAdminChanged_topics e = (RoleAdminChanged_hash, RoleAdminChanged_role e, RoleAdminChanged_previousAdminRole e, RoleAdminChanged_newAdminRole e)"

definition RoleAdminChanged_topic_list :: "topic_words \<Rightarrow> hash \<times> hash \<times> hash \<times> hash \<Rightarrow> hash list" where
  "RoleAdminChanged_topic_list W = (\<lambda>(t0, t1, t2, t3). [t0, tw_fixed W t1, tw_fixed W t2, tw_fixed W t3])"

definition RoleAdminChanged_encode_topics_raw ::
    "topic_words \<Rightarrow> RoleAdminChanged \<Rightarrow> hash list \<Rightarrow> ('x sol_error + hash list) run" where
  "RoleAdminChanged_encode_topics_raw W e out =
     (if length out < 4 then Inr (Inl Overrun)
      else map_ok Inr
        (and_then (set_at 0 RoleAdminChanged_hash out) (\<lambda>out.
         and_then (set_at 1 (tw_fixed W (RoleAdminChanged_role e)) out) (\<lambda>out.
         and_then (set_at 2 (tw_fixed W (RoleAdminChanged_previousAdminRole e)) out) (\<lambda>out.
         set_at 3 (tw_fixed W (RoleAdminChanged_newAdminRole e)) out)))))"

definition RoleAdminChanged_event_impl :: "topic_words \<Rightarrow> (RoleAdminChanged, hash \<times> hash \<times> hash \<times> hash, unit, 'x) event_impl" where
  "RoleAdminChanged_event_impl W =
     \<lparr>ei_signature = RoleAdminChanged_signature, ei_signature_hash = RoleAdminChanged_hash, ei_count = 4,
      ei_new = RoleAdminChanged_new, ei_check_signature = RoleAdminChanged_check_signature,
      ei_tokenize_body = RoleAdminChanged_tokenize_body, ei_topics = RoleAdminChanged_topics, ei_topic_list = RoleAdminChanged_topic_list W,
      ei_encode_topics_raw = RoleAdminChanged_encode_topics_raw W\<rparr>"

record RoleGranted =
  RoleGranted_role :: hash
  RoleGranted_account :: address
  RoleGranted_sender :: address

definition RoleGranted_signature :: string where
  "RoleGranted_signature = ''RoleGranted(bytes32,address,address)''"

definition RoleGranted_hash :: hash where
  "RoleGranted_hash = b256
     [47, 135, 136, 17, 126, 126, 255, 29, 130, 233, 38, 236, 121, 73, 1, 209, 124, 120, 2, 74, 80, 39,
      9, 64, 48, 69, 64, 167, 51, 101, 111, 13]"

definition RoleGranted_new :: "(hash \<times> hash \<times> address \<times> address) \<Rightarrow> unit \<Rightarrow> RoleGranted" where
  "RoleGranted_new = (\<lambda>(t0, t1, t2, t3) _.
     \<lparr>RoleGranted_role = t1, RoleGranted_account = t2, RoleGranted_sender = t3\<rparr>)"

definition RoleGranted_check_signature :: "hash \<times> hash \<times> address \<times> address \<Rightarrow> 'x sol_error + unit" where
  "RoleGranted_check_signature topics =
     (if fst topics \<noteq> RoleGranted_hash then Inl (InvalidSignatureHash RoleGranted_signature (fst topics) RoleGranted_hash)
      else Inr ())"

definition RoleGranted_tokenize_body :: "RoleGranted \<Rightarrow> unit" where
  "RoleGranted_tokenize_body e = ()"

definition RoleGranted_topics :: "RoleGranted \<Rightarrow> hash \<times> hash \<times> address \<times> address" where
  "RoleGranted_topics e = (RoleGranted_hash, RoleGranted_role e, RoleGranted_account e, RoleGranted_sender e)"

definition RoleGranted_topic_list :: "topic_words \<Rightarrow> hash \<times> hash \<times> address \<times> address \<Rightarrow> hash list" where
  "RoleGranted_topic_list W = (\<lambda>(t0, t1, t2, t3). [t0, tw_fixed W t1, tw_address W t2, tw_address W t3])"

definition RoleGranted_encode_topics_raw ::
    "topic_words \<Rightarrow> RoleGranted \<Rightarrow> hash list \<Rightarrow> ('x sol_error + hash list) run" where
  "RoleGranted_encode_topics_raw W e out =
     (if length out < 4 then Inr (Inl Overrun)
      else map_ok Inr
        (and_then (set_at 0 RoleGranted_hash out) (\<lambda>out.
         and_then (set_at 1 (tw_fixed W (RoleGranted_role e)) out) (\<lambda>out.
         and_then (set_at 2 (tw_address W (RoleGranted_account e)) out) (\<lambda>out.
         set_at 3 (tw_address W (RoleGranted_sender e)) out)))))"

definition RoleGranted_event_impl :: "topic_words \<Rightarrow> (RoleGranted, hash \<times> hash \<times> address \<times> address, unit, 'x) event_impl" where
  "RoleGranted_event_impl W =
     \<lparr>ei_signature = RoleGranted_signature, ei_signature_hash = RoleGranted_hash, ei_count = 4,
      ei_new = RoleGranted_new, ei_check_signature = RoleGranted_check_signature,
      ei_tokenize_body = RoleGranted_tokenize_body, ei_topics = RoleGranted_topics, ei_topic_list = RoleGranted_topic_list W,
      ei_encode_topics_raw = RoleGranted_encode_topics_raw W\<rparr>"

record RoleRevoked =
  RoleRevoked_role :: hash
  RoleRevoked_account :: address
  RoleRevoked_sender :: address

definition RoleRevoked_signature :: string where
  "RoleRevoked_signature = ''RoleRevoked(bytes32,address,address)''"

definition RoleRevoked_hash :: hash where
  "RoleRevoked_hash = b256
     [246, 57, 31, 92, 50, 217, 198, 157, 42, 71, 234, 103, 11, 68, 41, 116, 181, 57, 53, 209, 237, 199,
      253, 100, 235, 33, 224, 71, 168, 57, 23, 27]"

definition RoleRevoked_new :: "(hash \<times> hash \<times> address \<times> address) \<Rightarrow> unit \<Rightarrow> RoleRevoked" where
  "RoleRevoked_new = (\<lambda>(t0, t1, t2, t3) _.
     \<lparr>RoleRevoked_role = t1, RoleRevoked_account = t2, RoleRevoked_sender = t3\<rparr>)"

definition RoleRevoked_check_signature :: "hash \<times> hash \<times> address \<times> address \<Rightarrow> 'x sol_error + unit" where
  "RoleRevoked_check_signature topics =
     (if fst topics \<noteq> RoleRevoked_hash then Inl (InvalidSignatureHash RoleRevoked_signature (fst topics) RoleRevoked_hash)
      else Inr ())"

definition RoleRevoked_tokenize_body :: "RoleRevoked \<Rightarrow> unit" where
  "RoleRevoked_tokenize_body e = ()"

definition RoleRevoked_topics :: "RoleRevoked \<Rightarrow> hash \<times> hash \<times> address \<times> address" where
  "RoleRevoked_topics e = (RoleRevoked_hash, RoleRevoked_role e, RoleRevoked_account e, RoleRevoked_sender e)"

definition RoleRevoked_topic_list :: "topic_words \<Rightarrow> hash \<times> hash \<times> address \<times> address \<Rightarrow> hash list" where
  "RoleRevoked_topic_list W = (\<lambda>(t0, t1, t2, t3). [t0, tw_fixed W t1, tw_address W t2, tw_address W t3])"

definition RoleRevoked_encode_topics_raw ::
    "topic_words \<Rightarrow> RoleRevoked \<Rightarrow> hash list \<Rightarrow> ('x sol_error + hash list) run" where
  "RoleRevoked_encode_topics_raw W e out =
     (if length out < 4 then Inr (Inl Overrun)
      else map_ok Inr
        (and_then (set_at 0 RoleRevoked_hash out) (\<lambda>out.
         and_then (set_at 1 (tw_fixed W (RoleRevoked_role e)) out) (\<lambda>out.
         and_then (set_at 2 (tw_address W (RoleRevoked_account e)) out) (\<lambda>out.
         set_at 3 (tw_address W (RoleRevoked_sender e)) out)))))"

definition RoleRevoked_event_impl :: "topic_words \<Rightarrow> (RoleRevoked, hash \<times> hash \<times> address \<times> address, unit, 'x) event_impl" where
  "RoleRevoked_event_impl W =
     \<lparr>ei_signature = RoleRevoked_signature, ei_signature_hash = RoleRevoked_hash, ei_count = 4,
      ei_new = RoleRevoked_new, ei_check_signature = RoleRevoked_check_signature,
      ei_tokenize_body = RoleRevoked_tokenize_body, ei_topics = RoleRevoked_topics, ei_topic_list = RoleRevoked_topic_list W,
      ei_encode_topics_raw = RoleRevoked_encode_topics_raw W\<rparr>"

record WaitingDepositApplied =
  WaitingDepositApplied_depositId :: u256

definition WaitingDepositApplied_signature :: string where
  "WaitingDepositApplied_signature = ''WaitingDepositApplied(uint256)''"

definition WaitingDepositApplied_hash :: hash where
  "WaitingDepositApplied_hash = b256
     [203, 243, 202, 42, 227, 212, 86, 112, 156, 45, 199, 250, 170, 113, 96, 245, 116, 111, 46, 205,
      240, 44, 54, 12, 150, 100, 245, 217, 90, 116, 137, 68]"

definition WaitingDepositApplied_new :: "(hash \<times> u256) \<Rightarrow> unit \<Rightarrow> WaitingDepositApplied" where
  "WaitingDepositApplied_new = (\<lambda>(t0, t1) _.
     \<lparr>WaitingDepositApplied_depositId = t1\<rparr>)"

definition WaitingDepositApplied_check_signature :: "hash \<times> u256 \<Rightarrow> 'x sol_error + unit" where
  "WaitingDepositApplied_check_signature topics =
     (if fst topics \<noteq> WaitingDepositApplied_hash then Inl (InvalidSignatureHash WaitingDepositApplied_signature (fst topics) WaitingDepositApplied_hash)
      else Inr ())"

definition WaitingDepositApplied_tokenize_body :: "WaitingDepositApplied \<Rightarrow> unit" where
  "WaitingDepositApplied_tokenize_body e = ()"

definition WaitingDepositApplied_topics :: "WaitingDepositApplied \<Rightarrow> hash \<times> u256" where
  "WaitingDepositApplied_topics e = (WaitingDepositApplied_hash, WaitingDepositApplied_depositId e)"

definition WaitingDepositApplied_topic_list :: "topic_words \<Rightarrow> hash \<times> u256 \<Rightarrow> hash list" where
  "WaitingDepositApplied_topic_list W = (\<lambda>(t0, t1). [t0, tw_u256 W t1])"

definition WaitingDepositApplied_encode_topics_raw ::
    "topic_words \<Rightarrow> WaitingDepositApplied \<Rightarrow> hash list \<Rightarrow> ('x sol_error + hash list) run" where
  "WaitingDepositApplied_encode_topics_raw W e out =
     (if length out < 2 then Inr (Inl Overrun)
      else map_ok Inr
        (and_then (set_at 0 WaitingDepositApplied_hash out) (\<lambda>out.
         set_at 1 (tw_u256 W (WaitingDepositApplied_depositId e)) out)))"

definition WaitingDepositApplied_event_impl :: "topic_words \<Rightarrow> (WaitingDepositApplied, hash \<times> u256, unit, 'x) event_impl" where
  "WaitingDepositApplied_event_impl W =
     \<lparr>ei_signature = WaitingDepositApplied_signature, ei_signature_hash = WaitingDepositApplied_hash, ei_count = 2,
      ei_new = WaitingDepositApplied_new, ei_check_signature = WaitingDepositApplied_check_signature,
      ei_tokenize_body = WaitingDepositApplied_tokenize_body, ei_topics = WaitingDepositApplied_topics, ei_topic_list = WaitingDepositApplied_topic_list W,
      ei_encode_topics_raw = WaitingDepositApplied_encode_topics_raw W\<rparr>"

record WaitingDepositCreated =
  WaitingDepositCreated_depositId :: u256
  WaitingDepositCreated_from :: address
  WaitingDepositCreated_to :: address
  WaitingDepositCreated_token :: address
  WaitingDepositCreated_amount :: u256
  WaitingDepositCreated_callContract :: address
  WaitingDepositCreated_reserveBalance :: u256

definition WaitingDepositCreated_signature :: string where
  "WaitingDepositCreated_signature = ''WaitingDepositCreated(uint256,address,address,address,uint256,address,uint256)''"

definition WaitingDepositCreated_hash :: hash where
  "WaitingDepositCreated_hash = b256
     [224, 36, 24, 93, 47, 129, 132, 253, 42, 16, 104, 54, 138, 128, 162, 65, 126, 158, 230, 69, 184,
      124, 29, 152, 239, 191, 154, 1, 139, 156, 110, 123]"

definition WaitingDepositCreated_new :: "(hash \<times> u256 \<times> address) \<Rightarrow> (address \<times> address \<times> u256 \<times> address \<times> u256) \<Rightarrow> WaitingDepositCreated" where
  "WaitingDepositCreated_new = (\<lambda>(t0, t1, t2) (d0, d1, d2, d3, d4).
     \<lparr>WaitingDepositCreated_depositId = t1, WaitingDepositCreated_from = t2,
      WaitingDepositCreated_to = d0, WaitingDepositCreated_token = d1,
      WaitingDepositCreated_amount = d2, WaitingDepositCreated_callContract = d3,
      WaitingDepositCreated_reserveBalance = d4\<rparr>)"

definition WaitingDepositCreated_check_signature :: "hash \<times> u256 \<times> address \<Rightarrow> 'x sol_error + unit" where
  "WaitingDepositCreated_check_signature topics =
     (if fst topics \<noteq> WaitingDepositCreated_hash then Inl (InvalidSignatureHash WaitingDepositCreated_signature (fst topics) WaitingDepositCreated_hash)
      else Inr ())"

definition WaitingDepositCreated_tokenize_body :: "WaitingDepositCreated \<Rightarrow> address \<times> address \<times> u256 \<times> address \<times> u256" where
  "WaitingDepositCreated_tokenize_body e = (WaitingDepositCreated_to e, WaitingDepositCreated_token e, WaitingDepositCreated_amount e, WaitingDepositCreated_callContract e, WaitingDepositCreated_reserveBalance e)"

definition WaitingDepositCreated_topics :: "WaitingDepositCreated \<Rightarrow> hash \<times> u256 \<times> address" where
  "WaitingDepositCreated_topics e = (WaitingDepositCreated_hash, WaitingDepositCreated_depositId e, WaitingDepositCreated_from e)"

definition WaitingDepositCreated_topic_list :: "topic_words \<Rightarrow> hash \<times> u256 \<times> address \<Rightarrow> hash list" where
  "WaitingDepositCreated_topic_list W = (\<lambda>(t0, t1, t2). [t0, tw_u256 W t1, tw_address W t2])"

definition WaitingDepositCreated_encode_topics_raw ::
    "topic_words \<Rightarrow> WaitingDepositCreated \<Rightarrow> hash list \<Rightarrow> ('x sol_error + hash list) run" where
  "WaitingDepositCreated_encode_topics_raw W e out =
     (if length out < 3 then Inr (Inl Overrun)
      else map_ok Inr
        (and_then (set_at 0 WaitingDepositCreated_hash out) (\<lambda>out.
         and_then (set_at 1 (tw_u256 W (WaitingDepositCreated_depositId e)) out) (\<lambda>out.
         set_at 2 (tw_address W (WaitingDepositCreated_from e)) out))))"

definition WaitingDepositCreated_event_impl :: "topic_words \<Rightarrow> (WaitingDepositCreated, hash \<times> u256 \<times> address, address \<times> address \<times> u256 \<times> address \<times> u256, 'x) event_impl" where
  "WaitingDepositCreated_event_impl W =
     \<lparr>ei_signature = WaitingDepositCreated_signature, ei_signature_hash = WaitingDepositCreated_hash, ei_count = 3,
      ei_new = WaitingDepositCreated_new, ei_check_signature = WaitingDepositCreated_check_signature,
      ei_tokenize_body = WaitingDepositCreated_tokenize_body, ei_topics = WaitingDepositCreated_topics, ei_topic_list = WaitingDepositCreated_topic_list W,
      ei_encode_topics_raw = WaitingDepositCreated_encode_topics_raw W\<rparr>"

record WaitingDepositWithdrawn =
  WaitingDepositWithdrawn_depositId :: u256

definition WaitingDepositWithdrawn_signature :: string where
  "WaitingDepositWithdrawn_signature = ''WaitingDepositWithdrawn(uint256)''"

definition WaitingDepositWithdrawn_hash :: hash where
  "WaitingDepositWithdrawn_hash = b256
     [220, 197, 168, 25, 58, 40, 170, 169, 75, 190, 254, 173, 164, 45, 23, 140, 14, 45, 61, 82, 146, 85,
      229, 126, 56, 42, 136, 36, 213, 91, 6, 230]"

definition WaitingDepositWithdrawn_new :: "(hash \<times> u256) \<Rightarrow> unit \<Rightarrow> WaitingDepositWithdrawn" where
  "WaitingDepositWithdrawn_new = (\<lambda>(t0, t1) _.
     \<lparr>WaitingDepositWithdrawn_depositId = t1\<rparr>)"

definition WaitingDepositWithdrawn_check_signature :: "hash \<times> u256 \<Rightarrow> 'x sol_error + unit" where
  "WaitingDepositWithdrawn_check_signature topics =
     (if fst topics \<noteq> WaitingDepositWithdrawn_hash then Inl (InvalidSignatureHash WaitingDepositWithdrawn_signature (fst topics) WaitingDepositWithdrawn_hash)
      else Inr ())"

definition WaitingDepositWithdrawn_tokenize_body :: "WaitingDepositWithdrawn \<Rightarrow> unit" where
  "WaitingDepositWithdrawn_tokenize_body e = ()"

definition WaitingDepositWithdrawn_topics :: "WaitingDepositWithdrawn \<Rightarrow> hash \<times> u256" where
  "WaitingDepositWithdrawn_topics e = (WaitingDepositWithdrawn_hash, WaitingDepositWithdrawn_depositId e)"

definition WaitingDepositWithdrawn_topic_list :: "topic_words \<Rightarrow> hash \<times> u256 \<Rightarrow> hash list" where
  "WaitingDepositWithdrawn_topic_list W = (\<lambda>(t0, t1). [t0, tw_u256 W t1])"

definition WaitingDepositWithdrawn_encode_topics_raw ::
    "topic_words \<Rightarrow> WaitingDepositWithdrawn \<Rightarrow> hash list \<Rightarrow> ('x sol_error + hash list) run" where
  "WaitingDepositWithdrawn_encode_topics_raw W e out =
     (if length out < 2 then Inr (Inl Overrun)
      else map_ok Inr
        (and_then (set_at 0 WaitingDepositWithdrawn_hash out) (\<lambda>out.
         set_at 1 (tw_u256 W (WaitingDepositWithdrawn_depositId e)) out)))"

definition WaitingDepositWithdrawn_event_impl :: "topic_words \<Rightarrow> (WaitingDepositWithdrawn, hash \<times> u256, unit, 'x) event_impl" where
  "WaitingDepositWithdrawn_event_impl W =
     \<lparr>ei_signature = WaitingDepositWithdrawn_signature, ei_signature_hash = WaitingDepositWithdrawn_hash, ei_count = 2,
      ei_new = WaitingDepositWithdrawn_new, ei_check_signature = WaitingDepositWithdrawn_check_signature,
      ei_tokenize_body = WaitingDepositWithdrawn_tokenize_body, ei_topics = WaitingDepositWithdrawn_topics, ei_topic_list = WaitingDepositWithdrawn_topic_list W,
      ei_encode_topics_raw = WaitingDepositWithdrawn_encode_topics_raw W\<rparr>"

datatype (plugins only: code) DepositWaitingListEvents =
    RoleAdminChanged_event RoleAdminChanged
  | RoleGranted_event RoleGranted
  | RoleRevoked_event RoleRevoked
  | WaitingDepositApplied_event WaitingDepositApplied
  | WaitingDepositCreated_event WaitingDepositCreated
  | WaitingDepositWithdrawn_event WaitingDepositWithdrawn

text \<open>The tables in the order of the selectors.\<close>

definition waiting_event_selectors :: "bytes list" where
  "waiting_event_selectors =
     [[47, 135, 136, 17, 126, 126, 255, 29, 130, 233, 38, 236, 121, 73, 1, 209, 124, 120, 2, 74, 80, 39, 9, 64, 48, 69, 64, 167, 51, 101, 111, 13],
      [189, 121, 184, 111, 254, 10, 184, 232, 119, 97, 81, 81, 66, 23, 205, 124, 172, 213, 44, 144, 159, 102, 71, 92, 58, 244, 78, 18, 159, 11, 0, 255],
      [203, 243, 202, 42, 227, 212, 86, 112, 156, 45, 199, 250, 170, 113, 96, 245, 116, 111, 46, 205, 240, 44, 54, 12, 150, 100, 245, 217, 90, 116, 137, 68],
      [220, 197, 168, 25, 58, 40, 170, 169, 75, 190, 254, 173, 164, 45, 23, 140, 14, 45, 61, 82, 146, 85, 229, 126, 56, 42, 136, 36, 213, 91, 6, 230],
      [224, 36, 24, 93, 47, 129, 132, 253, 42, 16, 104, 54, 138, 128, 162, 65, 126, 158, 230, 69, 184, 124, 29, 152, 239, 191, 154, 1, 139, 156, 110, 123],
      [246, 57, 31, 92, 50, 217, 198, 157, 42, 71, 234, 103, 11, 68, 41, 116, 181, 57, 53, 209, 237, 199, 253, 100, 235, 33, 224, 71, 168, 57, 23, 27]]"

definition waiting_event_variant_names :: "string list" where
  "waiting_event_variant_names =
     [''RoleGranted'', ''RoleAdminChanged'', ''WaitingDepositApplied'', ''WaitingDepositWithdrawn'',
      ''WaitingDepositCreated'', ''RoleRevoked'']"

definition waiting_event_signatures :: "string list" where
  "waiting_event_signatures =
     [RoleGranted_signature, RoleAdminChanged_signature, WaitingDepositApplied_signature,
      WaitingDepositWithdrawn_signature, WaitingDepositCreated_signature, RoleRevoked_signature]"

definition waiting_event_signature_by_selector :: "bytes \<Rightarrow> string option run" where
  "waiting_event_signature_by_selector sel = table_row waiting_event_selectors waiting_event_signatures sel"

definition waiting_event_name_by_selector :: "bytes \<Rightarrow> string option run" where
  "waiting_event_name_by_selector sel = map_ok name_of_signature (waiting_event_signature_by_selector sel)"

record 'x waiting_event_codecs =
  RoleAdminChanged_abi :: "(RoleAdminChanged, 'x) sol_event"
  RoleGranted_abi :: "(RoleGranted, 'x) sol_event"
  RoleRevoked_abi :: "(RoleRevoked, 'x) sol_event"
  WaitingDepositApplied_abi :: "(WaitingDepositApplied, 'x) sol_event"
  WaitingDepositCreated_abi :: "(WaitingDepositCreated, 'x) sol_event"
  WaitingDepositWithdrawn_abi :: "(WaitingDepositWithdrawn, 'x) sol_event"

definition waiting_decode_raw_log :: "'x waiting_event_codecs \<Rightarrow> hash list \<Rightarrow> bytes \<Rightarrow> 'x sol_error + DepositWaitingListEvents" where
  "waiting_decode_raw_log A topics data =
     (case topics of
        [] \<Rightarrow> Inl (InvalidLog ''DepositWaitingListEvents'' topics data)
      | topic0 # _ \<Rightarrow>
          if topic0 = RoleAdminChanged_hash
          then codec RoleAdminChanged_event (se_decode_raw_log (RoleAdminChanged_abi A) topics data)
          else if topic0 = RoleGranted_hash
          then codec RoleGranted_event (se_decode_raw_log (RoleGranted_abi A) topics data)
          else if topic0 = RoleRevoked_hash
          then codec RoleRevoked_event (se_decode_raw_log (RoleRevoked_abi A) topics data)
          else if topic0 = WaitingDepositApplied_hash
          then codec WaitingDepositApplied_event (se_decode_raw_log (WaitingDepositApplied_abi A) topics data)
          else if topic0 = WaitingDepositCreated_hash
          then codec WaitingDepositCreated_event (se_decode_raw_log (WaitingDepositCreated_abi A) topics data)
          else if topic0 = WaitingDepositWithdrawn_hash
          then codec WaitingDepositWithdrawn_event (se_decode_raw_log (WaitingDepositWithdrawn_abi A) topics data)
          else Inl (InvalidLog ''DepositWaitingListEvents'' topics data))"

primrec waiting_to_log_data :: "'x waiting_event_codecs \<Rightarrow> DepositWaitingListEvents \<Rightarrow> log_data" where
  "waiting_to_log_data A (RoleAdminChanged_event e) = se_encode_log_data (RoleAdminChanged_abi A) e"
| "waiting_to_log_data A (RoleGranted_event e) = se_encode_log_data (RoleGranted_abi A) e"
| "waiting_to_log_data A (RoleRevoked_event e) = se_encode_log_data (RoleRevoked_abi A) e"
| "waiting_to_log_data A (WaitingDepositApplied_event e) = se_encode_log_data (WaitingDepositApplied_abi A) e"
| "waiting_to_log_data A (WaitingDepositCreated_event e) = se_encode_log_data (WaitingDepositCreated_abi A) e"
| "waiting_to_log_data A (WaitingDepositWithdrawn_event e) = se_encode_log_data (WaitingDepositWithdrawn_abi A) e"

text \<open>The crate's \<^verbatim>\<open>decode_log\<close> of an interface decodes the log's topics and data.\<close>

definition waiting_decode_log :: "'x waiting_event_codecs \<Rightarrow> eth_log \<Rightarrow> 'x sol_error + DepositWaitingListEvents" where
  "waiting_decode_log A log = waiting_decode_raw_log A (ld_topics (lg_data log)) (ld_data (lg_data log))"

section \<open>Laws and dispatch\<close>

interpretation waiting_events: dispatch_table waiting_event_selectors
  by (rule ascending_table) (simp add: waiting_event_selectors_def)

lemma waiting_event_hashes:
  "RoleAdminChanged_hash = 85702189817711154404917517865431859990992624004107199619167714979671022698751"
  "RoleGranted_hash = 21498167346302451094516930465084812798900530214793017313261708129848854408973"
  "RoleRevoked_hash = 111369887473982945697897258602409287065386435722986207154590940387224246097691"
  "WaitingDepositApplied_hash = 92250247408217276799922678779918702335723174925080992961953488472922173770052"
  "WaitingDepositCreated_hash = 101381852731174014785385796329744145298077739192523645958090018255049733205627"
  "WaitingDepositWithdrawn_hash = 99858055733589716853046043272790830188361830503908176530479211882154513073894"
  by (simp_all add: b256_def RoleAdminChanged_hash_def RoleGranted_hash_def RoleRevoked_hash_def WaitingDepositApplied_hash_def
    WaitingDepositCreated_hash_def WaitingDepositWithdrawn_hash_def)

lemmas waiting_event_impls =
  RoleAdminChanged_event_impl_def RoleGranted_event_impl_def RoleRevoked_event_impl_def
  WaitingDepositApplied_event_impl_def WaitingDepositCreated_event_impl_def
  WaitingDepositWithdrawn_event_impl_def

lemmas waiting_event_parts =
  RoleAdminChanged_new_def RoleAdminChanged_check_signature_def RoleAdminChanged_tokenize_body_def
  RoleAdminChanged_topics_def RoleGranted_new_def RoleGranted_check_signature_def
  RoleGranted_tokenize_body_def RoleGranted_topics_def RoleRevoked_new_def
  RoleRevoked_check_signature_def RoleRevoked_tokenize_body_def RoleRevoked_topics_def
  WaitingDepositApplied_new_def WaitingDepositApplied_check_signature_def
  WaitingDepositApplied_tokenize_body_def WaitingDepositApplied_topics_def WaitingDepositCreated_new_def
  WaitingDepositCreated_check_signature_def WaitingDepositCreated_tokenize_body_def
  WaitingDepositCreated_topics_def WaitingDepositWithdrawn_new_def
  WaitingDepositWithdrawn_check_signature_def WaitingDepositWithdrawn_tokenize_body_def
  WaitingDepositWithdrawn_topics_def

lemmas waiting_event_encode_topics =
  RoleAdminChanged_encode_topics_raw_def RoleGranted_encode_topics_raw_def
  RoleRevoked_encode_topics_raw_def WaitingDepositApplied_encode_topics_raw_def
  WaitingDepositCreated_encode_topics_raw_def WaitingDepositWithdrawn_encode_topics_raw_def

lemmas waiting_event_topic_lists =
  RoleAdminChanged_topic_list_def RoleGranted_topic_list_def RoleRevoked_topic_list_def
  WaitingDepositApplied_topic_list_def WaitingDepositCreated_topic_list_def
  WaitingDepositWithdrawn_topic_list_def

lemma waiting_event_consistent:
  "event_consistent (RoleAdminChanged_event_impl W)"
  "event_consistent (RoleGranted_event_impl W)"
  "event_consistent (RoleRevoked_event_impl W)"
  "event_consistent (WaitingDepositApplied_event_impl W)"
  "event_consistent (WaitingDepositCreated_event_impl W)"
  "event_consistent (WaitingDepositWithdrawn_event_impl W)"
  by (simp_all add: event_consistent_def waiting_event_impls waiting_event_parts waiting_event_topic_lists
    waiting_event_encode_topics set_at_def)

primrec waiting_event_law :: "topic_words \<Rightarrow> 'x waiting_event_codecs \<Rightarrow> DepositWaitingListEvents \<Rightarrow> bool" where
  "waiting_event_law W A (RoleAdminChanged_event e) \<longleftrightarrow> impl_event_law (RoleAdminChanged_event_impl W) fst (RoleAdminChanged_abi A) e"
| "waiting_event_law W A (RoleGranted_event e) \<longleftrightarrow> impl_event_law (RoleGranted_event_impl W) fst (RoleGranted_abi A) e"
| "waiting_event_law W A (RoleRevoked_event e) \<longleftrightarrow> impl_event_law (RoleRevoked_event_impl W) fst (RoleRevoked_abi A) e"
| "waiting_event_law W A (WaitingDepositApplied_event e) \<longleftrightarrow> impl_event_law (WaitingDepositApplied_event_impl W) fst (WaitingDepositApplied_abi A) e"
| "waiting_event_law W A (WaitingDepositCreated_event e) \<longleftrightarrow> impl_event_law (WaitingDepositCreated_event_impl W) fst (WaitingDepositCreated_abi A) e"
| "waiting_event_law W A (WaitingDepositWithdrawn_event e) \<longleftrightarrow> impl_event_law (WaitingDepositWithdrawn_event_impl W) fst (WaitingDepositWithdrawn_abi A) e"

text \<open>The first topic written is the signature hash.\<close>

primrec waiting_event_hash_of :: "DepositWaitingListEvents \<Rightarrow> hash" where
  "waiting_event_hash_of (RoleAdminChanged_event e) = RoleAdminChanged_hash"
| "waiting_event_hash_of (RoleGranted_event e) = RoleGranted_hash"
| "waiting_event_hash_of (RoleRevoked_event e) = RoleRevoked_hash"
| "waiting_event_hash_of (WaitingDepositApplied_event e) = WaitingDepositApplied_hash"
| "waiting_event_hash_of (WaitingDepositCreated_event e) = WaitingDepositCreated_hash"
| "waiting_event_hash_of (WaitingDepositWithdrawn_event e) = WaitingDepositWithdrawn_hash"

lemma waiting_event_first_topic:
  assumes "waiting_event_law W A e"
  shows "\<exists>rest. ld_topics (waiting_to_log_data A e) = waiting_event_hash_of e # rest"
  using assms
  by (cases e)
    (auto dest!: event_topics_written [THEN sym] simp: waiting_event_impls waiting_event_encode_topics set_at_def)

lemmas waiting_event_reads = waiting_event_consistent [THEN event_round_trip [rotated]]

lemma waiting_event_decodes:
  assumes "waiting_event_law W A e"
  shows "waiting_decode_raw_log A (ld_topics (waiting_to_log_data A e)) (ld_data (waiting_to_log_data A e)) = Inr e"
proof -
  have "ld_topics (waiting_to_log_data A e) \<noteq> []" "hd (ld_topics (waiting_to_log_data A e)) = waiting_event_hash_of e"
    using waiting_event_first_topic [OF assms] by auto
  then show ?thesis
    using assms
    by (cases e) (simp_all add: waiting_decode_raw_log_def list.case_eq_if waiting_event_hashes waiting_event_reads)
qed

lemma waiting_event_typed:
  assumes "waiting_decode_raw_log A topics data = Inr e"
  shows "\<exists>rest. topics = waiting_event_hash_of e # rest"
  using assms
  by (auto simp: waiting_decode_raw_log_def codec_def split: list.splits if_splits sum.splits)

end
