(* ===== verification/Feed_Calls.thy ===== *)
theory Feed_Calls
  imports Sol_Traits
begin

text \<open>
  The calls of \<^verbatim>\<open>examples/solidity/bindings/src/ranked_feed.rs\<close>, the ranked feed example: structs, implementations, tables and the
  builders of an instance, as in \<open>Bridge_Calls\<close>.
\<close>

section \<open>The calls\<close>

record createPostCall =
  createPostCall_post_data :: bytes

definition createPostCall_of_tuple :: "bytes \<Rightarrow> createPostCall" where
  "createPostCall_of_tuple = (\<lambda>t0.
     \<lparr>createPostCall_post_data = t0\<rparr>)"

definition createPostCall_impl :: "(createPostCall, bytes) sol_impl" where
  "createPostCall_impl =
     \<lparr>si_signature = ''createPost(bytes)'',
      si_selector = [223, 186, 162, 251],
      si_new = createPostCall_of_tuple,
      si_tokenize = createPostCall_post_data\<rparr>"

record votePostCall =
  votePostCall_post_id :: hash

definition votePostCall_of_tuple :: "hash \<Rightarrow> votePostCall" where
  "votePostCall_of_tuple = (\<lambda>t0.
     \<lparr>votePostCall_post_id = t0\<rparr>)"

definition votePostCall_impl :: "(votePostCall, hash) sol_impl" where
  "votePostCall_impl =
     \<lparr>si_signature = ''votePost(bytes32)'',
      si_selector = [161, 152, 27, 241],
      si_new = votePostCall_of_tuple,
      si_tokenize = votePostCall_post_id\<rparr>"

datatype (plugins only: code) RankedFeedCalls =
    createPost_call createPostCall
  | votePost_call votePostCall

text \<open>The tables in the order of the selectors.\<close>

definition feed_call_selectors :: "bytes list" where
  "feed_call_selectors =
     [[161, 152, 27, 241], [223, 186, 162, 251]]"

definition feed_call_variant_names :: "string list" where
  "feed_call_variant_names =
     [''votePost'', ''createPost'']"

definition feed_call_signatures :: "string list" where
  "feed_call_signatures =
     [si_signature votePostCall_impl, si_signature createPostCall_impl]"

definition feed_call_signature_by_selector :: "bytes \<Rightarrow> string option run" where
  "feed_call_signature_by_selector sel = table_row feed_call_selectors feed_call_signatures sel"

definition feed_call_name_by_selector :: "bytes \<Rightarrow> string option run" where
  "feed_call_name_by_selector sel = map_ok name_of_signature (feed_call_signature_by_selector sel)"

text \<open>The crate's codecs; the structs without fields share one.\<close>

record 'x feed_call_codecs =
  createPostCall_abi :: "(createPostCall, 'x) sol_call"
  votePostCall_abi :: "(votePostCall, 'x) sol_call"

primrec feed_call_selector :: "RankedFeedCalls \<Rightarrow> bytes" where
  "feed_call_selector (createPost_call c) = si_selector createPostCall_impl"
| "feed_call_selector (votePost_call c) = si_selector votePostCall_impl"

definition feed_call_selector_at :: "nat \<Rightarrow> bytes option" where
  "feed_call_selector_at i = (if i < length feed_call_selectors then Some (feed_call_selectors ! i) else None)"

definition feed_call_valid_selector :: "bytes \<Rightarrow> bool" where
  "feed_call_valid_selector sel \<longleftrightarrow> binary_search feed_call_selectors sel \<noteq> None"

definition feed_call_decode_shims :: "'x feed_call_codecs \<Rightarrow> (bytes \<Rightarrow> 'x sol_error + RankedFeedCalls) list" where
  "feed_call_decode_shims A =
     [decode_shim votePost_call (votePostCall_abi A), decode_shim createPost_call (createPostCall_abi A)]"

definition feed_call_decode_raw :: "'x feed_call_codecs \<Rightarrow> bytes \<Rightarrow> bytes \<Rightarrow> ('x sol_error + RankedFeedCalls) run" where
  "feed_call_decode_raw A sel data =
     dispatch_call ''RankedFeedCalls'' feed_call_selectors (feed_call_decode_shims A) sel data"

definition feed_call_decode_validate_shims :: "'x feed_call_codecs \<Rightarrow> (bytes \<Rightarrow> 'x sol_error + RankedFeedCalls) list" where
  "feed_call_decode_validate_shims A =
     [decode_validate_shim votePost_call (votePostCall_abi A),
      decode_validate_shim createPost_call (createPostCall_abi A)]"

definition feed_call_decode_raw_validate :: "'x feed_call_codecs \<Rightarrow> bytes \<Rightarrow> bytes \<Rightarrow> ('x sol_error + RankedFeedCalls) run" where
  "feed_call_decode_raw_validate A sel data =
     dispatch_call ''RankedFeedCalls'' feed_call_selectors (feed_call_decode_validate_shims A) sel data"

primrec feed_call_encoded_size :: "'x feed_call_codecs \<Rightarrow> RankedFeedCalls \<Rightarrow> nat" where
  "feed_call_encoded_size A (createPost_call c) = sc_encoded_size (createPostCall_abi A) c"
| "feed_call_encoded_size A (votePost_call c) = sc_encoded_size (votePostCall_abi A) c"

fun feed_call_encode_raw :: "'x feed_call_codecs \<Rightarrow> RankedFeedCalls \<Rightarrow> bytes \<Rightarrow> bytes" where
  "feed_call_encode_raw A (createPost_call c) out = sc_encode_raw (createPostCall_abi A) c out"
| "feed_call_encode_raw A (votePost_call c) out = sc_encode_raw (votePostCall_abi A) c out"

text \<open>The builders of \<^verbatim>\<open>RankedFeedInstance\<close>: the call of a method and its arguments.\<close>

definition feed_createPost :: "bytes \<Rightarrow> RankedFeedCalls" where
  "feed_createPost post_data =
     createPost_call \<lparr>createPostCall_post_data = post_data\<rparr>"

definition feed_votePost :: "hash \<Rightarrow> RankedFeedCalls" where
  "feed_votePost post_id =
     votePost_call \<lparr>votePostCall_post_id = post_id\<rparr>"

section \<open>Dispatch\<close>

lemmas feed_call_impls =
  createPostCall_impl_def votePostCall_impl_def

lemmas feed_call_froms =
  createPostCall_of_tuple_def votePostCall_of_tuple_def

lemma feed_call_new_tokenize:
  "si_new createPostCall_impl (si_tokenize createPostCall_impl c0) = c0"
  "si_new votePostCall_impl (si_tokenize votePostCall_impl c1) = c1"
  by (simp_all add: feed_call_impls feed_call_froms)

text \<open>The row of the tables that a variant has.\<close>

primrec feed_call_row :: "RankedFeedCalls \<Rightarrow> nat" where
  "feed_call_row (createPost_call c) = 1"
| "feed_call_row (votePost_call c) = 0"

lemma feed_call_ascending: "dispatch_table feed_call_selectors"
  by (rule ascending_table) (simp add: feed_call_selectors_def)

interpretation feed_calls: typed_dispatch feed_call_selectors feed_call_selector "feed_call_decode_shims A" for A
  by (intro typed_dispatch.intro typed_dispatch_axioms.intro feed_call_ascending)
    (simp add: feed_call_selectors_def feed_call_decode_shims_def typed_row_shims feed_call_impls)

interpretation feed_calls_validate: typed_dispatch feed_call_selectors feed_call_selector "feed_call_decode_validate_shims A" for A
  by (intro typed_dispatch.intro typed_dispatch_axioms.intro feed_call_ascending)
    (simp add: feed_call_selectors_def feed_call_decode_validate_shims_def typed_row_shims feed_call_impls)

lemma feed_call_row_selector:
  "feed_call_row c < length feed_call_selectors \<and> feed_call_selectors ! feed_call_row c = feed_call_selector c"
  by (cases c) (simp_all add: feed_call_selectors_def feed_call_impls)

lemma feed_call_name:
  "feed_call_name_by_selector (feed_call_selector c) = Inr (Some (feed_call_variant_names ! feed_call_row c))"
proof -
  have "feed_call_signature_by_selector (feed_call_selector c) = Inr (Some (feed_call_signatures ! feed_call_row c))"
    using feed_calls.row_nth [of "feed_call_row c" feed_call_signatures] feed_call_row_selector [of c]
    by (simp add: feed_call_signature_by_selector_def) (simp add: feed_call_signatures_def feed_call_selectors_def)
  moreover have "name_of_signature (Some (feed_call_signatures ! feed_call_row c)) = Some (feed_call_variant_names ! feed_call_row c)"
    by (cases c) (simp_all add: feed_call_signatures_def feed_call_variant_names_def name_of_signature_def split_once_def feed_call_impls)
  ultimately show ?thesis by (simp add: feed_call_name_by_selector_def map_ok_def)
qed

text \<open>What is relied on for a value of the enum.\<close>

primrec feed_call_law :: "'x feed_call_codecs \<Rightarrow> RankedFeedCalls \<Rightarrow> bool" where
  "feed_call_law A (createPost_call c) \<longleftrightarrow> impl_law createPostCall_impl (createPostCall_abi A) c"
| "feed_call_law A (votePost_call c) \<longleftrightarrow> impl_law votePostCall_impl (votePostCall_abi A) c"

lemma feed_call_own_shims:
  assumes "feed_call_law A c"
  shows "\<exists>body. (\<forall>out. feed_call_encode_raw A c out = out @ body) \<and> length body = feed_call_encoded_size A c
    \<and> (feed_call_decode_shims A ! feed_call_row c) body = Inr c
    \<and> (feed_call_decode_validate_shims A ! feed_call_row c) body = Inr c"
  using assms
  by (cases c)
    (auto dest!: impl_law_call simp: feed_call_new_tokenize call_law_def shim_simps feed_call_decode_shims_def feed_call_decode_validate_shims_def)

lemma feed_call_typed:
  "case feed_call_decode_raw A sel data of
     Inl p \<Rightarrow> False
   | Inr (Inl e) \<Rightarrow> if feed_call_valid_selector sel then \<exists>x. e = Codec x else e = UnknownSelector ''RankedFeedCalls'' sel
   | Inr (Inr call) \<Rightarrow> feed_call_selector call = sel \<and> feed_call_valid_selector sel"
  using feed_calls.dispatch_typed [where A = A and name = "''RankedFeedCalls''" and sel = sel and data = data] feed_calls.search_None [of sel]
  by (auto simp: feed_call_decode_raw_def feed_call_valid_selector_def split: sum.splits if_splits)

lemma feed_call_encodes:
  assumes "feed_call_law A call"
  shows "\<exists>body. feed_call_encode_raw A call out = out @ body \<and> length body = feed_call_encoded_size A call
    \<and> feed_call_decode_raw A (feed_call_selector call) body = Inr (Inr call)
    \<and> feed_call_decode_raw_validate A (feed_call_selector call) body = Inr (Inr call)"
proof -
  have row: "feed_call_row call < length feed_call_selectors" "feed_call_selectors ! feed_call_row call = feed_call_selector call"
    using feed_call_row_selector by blast+
  from feed_call_own_shims [OF assms] show ?thesis
    unfolding feed_call_decode_raw_def feed_call_decode_raw_validate_def
    by (auto simp: feed_calls.dispatch_at [OF row] feed_calls_validate.dispatch_at [OF row])
qed

end
