(* ===== verification/Feed_Errors.thy ===== *)
theory Feed_Errors
  imports Sol_Traits
begin

text \<open>
  The custom errors of \<^verbatim>\<open>examples/solidity/bindings/src/ranked_feed.rs\<close>, the ranked feed example.
\<close>

section \<open>The errors\<close>

definition AlreadyVoted_impl :: "(unit, unit) sol_impl" where
  "AlreadyVoted_impl =
     \<lparr>si_signature = ''AlreadyVoted()'',
      si_selector = [124, 154, 28, 249],
      si_new = (\<lambda>_. ()),
      si_tokenize = (\<lambda>_. ())\<rparr>"

datatype (plugins only: code) RankedFeedErrors =
    AlreadyVoted_error

text \<open>The tables in the order of the selectors.\<close>

definition feed_error_selectors :: "bytes list" where
  "feed_error_selectors =
     [[124, 154, 28, 249]]"

definition feed_error_variant_names :: "string list" where
  "feed_error_variant_names =
     [''AlreadyVoted'']"

definition feed_error_signatures :: "string list" where
  "feed_error_signatures =
     [si_signature AlreadyVoted_impl]"

definition feed_error_signature_by_selector :: "bytes \<Rightarrow> string option run" where
  "feed_error_signature_by_selector sel = table_row feed_error_selectors feed_error_signatures sel"

definition feed_error_name_by_selector :: "bytes \<Rightarrow> string option run" where
  "feed_error_name_by_selector sel = map_ok name_of_signature (feed_error_signature_by_selector sel)"

text \<open>The crate's codecs; the structs without fields share one.\<close>

record 'x feed_error_codecs =
  unit_feed_error_abi :: "(unit, 'x) sol_call"
  unit_feed_error_tuple :: "(unit, 'x) sol_tuple"

primrec feed_error_selector :: "RankedFeedErrors \<Rightarrow> bytes" where
  "feed_error_selector AlreadyVoted_error = si_selector AlreadyVoted_impl"

definition feed_error_selector_at :: "nat \<Rightarrow> bytes option" where
  "feed_error_selector_at i = (if i < length feed_error_selectors then Some (feed_error_selectors ! i) else None)"

definition feed_error_valid_selector :: "bytes \<Rightarrow> bool" where
  "feed_error_valid_selector sel \<longleftrightarrow> binary_search feed_error_selectors sel \<noteq> None"

definition feed_error_decode_shims :: "'x feed_error_codecs \<Rightarrow> (bytes \<Rightarrow> 'x sol_error + RankedFeedErrors) list" where
  "feed_error_decode_shims A =
     [decode_shim (\<lambda>_. AlreadyVoted_error) (unit_feed_error_abi A)]"

definition feed_error_decode_raw :: "'x feed_error_codecs \<Rightarrow> bytes \<Rightarrow> bytes \<Rightarrow> ('x sol_error + RankedFeedErrors) run" where
  "feed_error_decode_raw A sel data =
     dispatch_call ''RankedFeedErrors'' feed_error_selectors (feed_error_decode_shims A) sel data"

definition feed_error_decode_validate_shims :: "'x feed_error_codecs \<Rightarrow> (bytes \<Rightarrow> 'x sol_error + RankedFeedErrors) list" where
  "feed_error_decode_validate_shims A =
     [error_validate_shim (\<lambda>_. AlreadyVoted_error) AlreadyVoted_impl (unit_feed_error_tuple A)]"

definition feed_error_decode_raw_validate :: "'x feed_error_codecs \<Rightarrow> bytes \<Rightarrow> bytes \<Rightarrow> ('x sol_error + RankedFeedErrors) run" where
  "feed_error_decode_raw_validate A sel data =
     dispatch_call ''RankedFeedErrors'' feed_error_selectors (feed_error_decode_validate_shims A) sel data"

primrec feed_error_encoded_size :: "'x feed_error_codecs \<Rightarrow> RankedFeedErrors \<Rightarrow> nat" where
  "feed_error_encoded_size A AlreadyVoted_error = sc_encoded_size (unit_feed_error_abi A) ()"

fun feed_error_encode_raw :: "'x feed_error_codecs \<Rightarrow> RankedFeedErrors \<Rightarrow> bytes \<Rightarrow> bytes" where
  "feed_error_encode_raw A AlreadyVoted_error out = sc_encode_raw (unit_feed_error_abi A) () out"

section \<open>Dispatch\<close>

lemmas feed_error_impls =
  AlreadyVoted_impl_def

lemma feed_error_new_tokenize:
  "si_new AlreadyVoted_impl (si_tokenize AlreadyVoted_impl c0) = c0"
  by (simp_all add: feed_error_impls)

text \<open>The row of the tables that a variant has.\<close>

primrec feed_error_row :: "RankedFeedErrors \<Rightarrow> nat" where
  "feed_error_row AlreadyVoted_error = 0"

lemma feed_error_ascending: "dispatch_table feed_error_selectors"
  by (rule ascending_table) (simp add: feed_error_selectors_def)

interpretation feed_errors: typed_dispatch feed_error_selectors feed_error_selector "feed_error_decode_shims A" for A
  by (intro typed_dispatch.intro typed_dispatch_axioms.intro feed_error_ascending)
    (simp add: feed_error_selectors_def feed_error_decode_shims_def typed_row_shims feed_error_impls)

interpretation feed_errors_validate: typed_dispatch feed_error_selectors feed_error_selector "feed_error_decode_validate_shims A" for A
  by (intro typed_dispatch.intro typed_dispatch_axioms.intro feed_error_ascending)
    (simp add: feed_error_selectors_def feed_error_decode_validate_shims_def typed_row_shims feed_error_impls)

lemma feed_error_row_selector:
  "feed_error_row c < length feed_error_selectors \<and> feed_error_selectors ! feed_error_row c = feed_error_selector c"
  by (cases c) (simp_all add: feed_error_selectors_def feed_error_impls)

lemma feed_error_name:
  "feed_error_name_by_selector (feed_error_selector c) = Inr (Some (feed_error_variant_names ! feed_error_row c))"
proof -
  have "feed_error_signature_by_selector (feed_error_selector c) = Inr (Some (feed_error_signatures ! feed_error_row c))"
    using feed_errors.row_nth [of "feed_error_row c" feed_error_signatures] feed_error_row_selector [of c]
    by (simp add: feed_error_signature_by_selector_def) (simp add: feed_error_signatures_def feed_error_selectors_def)
  moreover have "name_of_signature (Some (feed_error_signatures ! feed_error_row c)) = Some (feed_error_variant_names ! feed_error_row c)"
    by (cases c) (simp_all add: feed_error_signatures_def feed_error_variant_names_def name_of_signature_def split_once_def feed_error_impls)
  ultimately show ?thesis by (simp add: feed_error_name_by_selector_def map_ok_def)
qed

text \<open>What is relied on for a value of the enum.\<close>

primrec feed_error_law :: "'x feed_error_codecs \<Rightarrow> RankedFeedErrors \<Rightarrow> bool" where
  "feed_error_law A AlreadyVoted_error \<longleftrightarrow> error_law AlreadyVoted_impl (unit_feed_error_abi A) (unit_feed_error_tuple A) ()"

lemma feed_error_own_shims:
  assumes "feed_error_law A c"
  shows "\<exists>body. (\<forall>out. feed_error_encode_raw A c out = out @ body) \<and> length body = feed_error_encoded_size A c
    \<and> (feed_error_decode_shims A ! feed_error_row c) body = Inr c
    \<and> (feed_error_decode_validate_shims A ! feed_error_row c) body = Inr c"
  using assms
  by (cases c)
    (auto dest!: error_law_call simp: feed_error_new_tokenize call_law_def shim_simps feed_error_decode_shims_def feed_error_decode_validate_shims_def)

lemma feed_error_typed:
  "case feed_error_decode_raw A sel data of
     Inl p \<Rightarrow> False
   | Inr (Inl e) \<Rightarrow> if feed_error_valid_selector sel then \<exists>x. e = Codec x else e = UnknownSelector ''RankedFeedErrors'' sel
   | Inr (Inr call) \<Rightarrow> feed_error_selector call = sel \<and> feed_error_valid_selector sel"
  using feed_errors.dispatch_typed [where A = A and name = "''RankedFeedErrors''" and sel = sel and data = data] feed_errors.search_None [of sel]
  by (auto simp: feed_error_decode_raw_def feed_error_valid_selector_def split: sum.splits if_splits)

lemma feed_error_encodes:
  assumes "feed_error_law A call"
  shows "\<exists>body. feed_error_encode_raw A call out = out @ body \<and> length body = feed_error_encoded_size A call
    \<and> feed_error_decode_raw A (feed_error_selector call) body = Inr (Inr call)
    \<and> feed_error_decode_raw_validate A (feed_error_selector call) body = Inr (Inr call)"
proof -
  have row: "feed_error_row call < length feed_error_selectors" "feed_error_selectors ! feed_error_row call = feed_error_selector call"
    using feed_error_row_selector by blast+
  from feed_error_own_shims [OF assms] show ?thesis
    unfolding feed_error_decode_raw_def feed_error_decode_raw_validate_def
    by (auto simp: feed_errors.dispatch_at [OF row] feed_errors_validate.dispatch_at [OF row])
qed

end
