(* ===== verification/Feed_Events.thy ===== *)
theory Feed_Events
  imports Sol_Traits
begin

text \<open>
  The events of \<^verbatim>\<open>examples/solidity/bindings/src/ranked_feed.rs\<close>, the ranked feed example, as in \<open>Bridge_Events\<close>.
\<close>

section \<open>The events\<close>

record PostCreated =
  PostCreated_post_id :: hash
  PostCreated_poster :: address
  PostCreated_post_data :: bytes

definition PostCreated_signature :: string where
  "PostCreated_signature = ''PostCreated(bytes32,address,bytes)''"

definition PostCreated_hash :: hash where
  "PostCreated_hash = b256
     [237, 110, 111, 223, 153, 205, 94, 151, 20, 92, 126, 89, 173, 233, 57, 35, 190, 25, 121, 85, 122,
      119, 230, 57, 237, 149, 162, 3, 199, 168, 232, 97]"

definition PostCreated_new :: "(hash \<times> hash \<times> address) \<Rightarrow> bytes \<Rightarrow> PostCreated" where
  "PostCreated_new = (\<lambda>(t0, t1, t2) d0.
     \<lparr>PostCreated_post_id = t1, PostCreated_poster = t2, PostCreated_post_data = d0\<rparr>)"

definition PostCreated_check_signature :: "hash \<times> hash \<times> address \<Rightarrow> 'x sol_error + unit" where
  "PostCreated_check_signature topics =
     (if fst topics \<noteq> PostCreated_hash then Inl (InvalidSignatureHash PostCreated_signature (fst topics) PostCreated_hash)
      else Inr ())"

definition PostCreated_tokenize_body :: "PostCreated \<Rightarrow> bytes" where
  "PostCreated_tokenize_body e = (PostCreated_post_data e)"

definition PostCreated_topics :: "PostCreated \<Rightarrow> hash \<times> hash \<times> address" where
  "PostCreated_topics e = (PostCreated_hash, PostCreated_post_id e, PostCreated_poster e)"

definition PostCreated_topic_list :: "topic_words \<Rightarrow> hash \<times> hash \<times> address \<Rightarrow> hash list" where
  "PostCreated_topic_list W = (\<lambda>(t0, t1, t2). [t0, tw_fixed W t1, tw_address W t2])"

definition PostCreated_encode_topics_raw ::
    "topic_words \<Rightarrow> PostCreated \<Rightarrow> hash list \<Rightarrow> ('x sol_error + hash list) run" where
  "PostCreated_encode_topics_raw W e out =
     (if length out < 3 then Inr (Inl Overrun)
      else map_ok Inr
        (and_then (set_at 0 PostCreated_hash out) (\<lambda>out.
         and_then (set_at 1 (tw_fixed W (PostCreated_post_id e)) out) (\<lambda>out.
         set_at 2 (tw_address W (PostCreated_poster e)) out))))"

definition PostCreated_event_impl :: "topic_words \<Rightarrow> (PostCreated, hash \<times> hash \<times> address, bytes, 'x) event_impl" where
  "PostCreated_event_impl W =
     \<lparr>ei_signature = PostCreated_signature, ei_signature_hash = PostCreated_hash, ei_count = 3,
      ei_new = PostCreated_new, ei_check_signature = PostCreated_check_signature,
      ei_tokenize_body = PostCreated_tokenize_body, ei_topics = PostCreated_topics, ei_topic_list = PostCreated_topic_list W,
      ei_encode_topics_raw = PostCreated_encode_topics_raw W\<rparr>"

record PostVoted =
  PostVoted_post_id :: hash
  PostVoted_voter :: address

definition PostVoted_signature :: string where
  "PostVoted_signature = ''PostVoted(bytes32,address)''"

definition PostVoted_hash :: hash where
  "PostVoted_hash = b256
     [152, 182, 177, 128, 117, 108, 132, 155, 91, 251, 189, 43, 189, 9, 31, 63, 230, 75, 9, 53, 172, 25,
      84, 24, 192, 182, 25, 185, 182, 97, 199, 141]"

definition PostVoted_new :: "(hash \<times> hash \<times> address) \<Rightarrow> unit \<Rightarrow> PostVoted" where
  "PostVoted_new = (\<lambda>(t0, t1, t2) _.
     \<lparr>PostVoted_post_id = t1, PostVoted_voter = t2\<rparr>)"

definition PostVoted_check_signature :: "hash \<times> hash \<times> address \<Rightarrow> 'x sol_error + unit" where
  "PostVoted_check_signature topics =
     (if fst topics \<noteq> PostVoted_hash then Inl (InvalidSignatureHash PostVoted_signature (fst topics) PostVoted_hash)
      else Inr ())"

definition PostVoted_tokenize_body :: "PostVoted \<Rightarrow> unit" where
  "PostVoted_tokenize_body e = ()"

definition PostVoted_topics :: "PostVoted \<Rightarrow> hash \<times> hash \<times> address" where
  "PostVoted_topics e = (PostVoted_hash, PostVoted_post_id e, PostVoted_voter e)"

definition PostVoted_topic_list :: "topic_words \<Rightarrow> hash \<times> hash \<times> address \<Rightarrow> hash list" where
  "PostVoted_topic_list W = (\<lambda>(t0, t1, t2). [t0, tw_fixed W t1, tw_address W t2])"

definition PostVoted_encode_topics_raw ::
    "topic_words \<Rightarrow> PostVoted \<Rightarrow> hash list \<Rightarrow> ('x sol_error + hash list) run" where
  "PostVoted_encode_topics_raw W e out =
     (if length out < 3 then Inr (Inl Overrun)
      else map_ok Inr
        (and_then (set_at 0 PostVoted_hash out) (\<lambda>out.
         and_then (set_at 1 (tw_fixed W (PostVoted_post_id e)) out) (\<lambda>out.
         set_at 2 (tw_address W (PostVoted_voter e)) out))))"

definition PostVoted_event_impl :: "topic_words \<Rightarrow> (PostVoted, hash \<times> hash \<times> address, unit, 'x) event_impl" where
  "PostVoted_event_impl W =
     \<lparr>ei_signature = PostVoted_signature, ei_signature_hash = PostVoted_hash, ei_count = 3,
      ei_new = PostVoted_new, ei_check_signature = PostVoted_check_signature,
      ei_tokenize_body = PostVoted_tokenize_body, ei_topics = PostVoted_topics, ei_topic_list = PostVoted_topic_list W,
      ei_encode_topics_raw = PostVoted_encode_topics_raw W\<rparr>"

datatype (plugins only: code) RankedFeedEvents =
    PostCreated_event PostCreated
  | PostVoted_event PostVoted

text \<open>The tables in the order of the selectors.\<close>

definition feed_event_selectors :: "bytes list" where
  "feed_event_selectors =
     [[152, 182, 177, 128, 117, 108, 132, 155, 91, 251, 189, 43, 189, 9, 31, 63, 230, 75, 9, 53, 172, 25, 84, 24, 192, 182, 25, 185, 182, 97, 199, 141],
      [237, 110, 111, 223, 153, 205, 94, 151, 20, 92, 126, 89, 173, 233, 57, 35, 190, 25, 121, 85, 122, 119, 230, 57, 237, 149, 162, 3, 199, 168, 232, 97]]"

definition feed_event_variant_names :: "string list" where
  "feed_event_variant_names =
     [''PostVoted'', ''PostCreated'']"

definition feed_event_signatures :: "string list" where
  "feed_event_signatures =
     [PostVoted_signature, PostCreated_signature]"

definition feed_event_signature_by_selector :: "bytes \<Rightarrow> string option run" where
  "feed_event_signature_by_selector sel = table_row feed_event_selectors feed_event_signatures sel"

definition feed_event_name_by_selector :: "bytes \<Rightarrow> string option run" where
  "feed_event_name_by_selector sel = map_ok name_of_signature (feed_event_signature_by_selector sel)"

record 'x feed_event_codecs =
  PostCreated_abi :: "(PostCreated, 'x) sol_event"
  PostVoted_abi :: "(PostVoted, 'x) sol_event"

definition feed_decode_raw_log :: "'x feed_event_codecs \<Rightarrow> hash list \<Rightarrow> bytes \<Rightarrow> 'x sol_error + RankedFeedEvents" where
  "feed_decode_raw_log A topics data =
     (case topics of
        [] \<Rightarrow> Inl (InvalidLog ''RankedFeedEvents'' topics data)
      | topic0 # _ \<Rightarrow>
          if topic0 = PostCreated_hash
          then codec PostCreated_event (se_decode_raw_log (PostCreated_abi A) topics data)
          else if topic0 = PostVoted_hash
          then codec PostVoted_event (se_decode_raw_log (PostVoted_abi A) topics data)
          else Inl (InvalidLog ''RankedFeedEvents'' topics data))"

primrec feed_to_log_data :: "'x feed_event_codecs \<Rightarrow> RankedFeedEvents \<Rightarrow> log_data" where
  "feed_to_log_data A (PostCreated_event e) = se_encode_log_data (PostCreated_abi A) e"
| "feed_to_log_data A (PostVoted_event e) = se_encode_log_data (PostVoted_abi A) e"

text \<open>The crate's \<^verbatim>\<open>decode_log\<close> of an interface decodes the log's topics and data.\<close>

definition feed_decode_log :: "'x feed_event_codecs \<Rightarrow> eth_log \<Rightarrow> 'x sol_error + RankedFeedEvents" where
  "feed_decode_log A log = feed_decode_raw_log A (ld_topics (lg_data log)) (ld_data (lg_data log))"

section \<open>Laws and dispatch\<close>

interpretation feed_events: dispatch_table feed_event_selectors
  by (rule ascending_table) (simp add: feed_event_selectors_def)

lemma feed_event_hashes:
  "PostCreated_hash = 107393270413469621582274809617418126292289281101182368959363252863136493529185"
  "PostVoted_hash = 69074344222788892145098602050172755487727631396623828956253906660052462323597"
  by (simp_all add: b256_def PostCreated_hash_def PostVoted_hash_def)

lemmas feed_event_impls =
  PostCreated_event_impl_def PostVoted_event_impl_def

lemmas feed_event_parts =
  PostCreated_new_def PostCreated_check_signature_def PostCreated_tokenize_body_def
  PostCreated_topics_def PostVoted_new_def PostVoted_check_signature_def PostVoted_tokenize_body_def
  PostVoted_topics_def

lemmas feed_event_encode_topics =
  PostCreated_encode_topics_raw_def PostVoted_encode_topics_raw_def

lemmas feed_event_topic_lists =
  PostCreated_topic_list_def PostVoted_topic_list_def

lemma feed_event_consistent:
  "event_consistent (PostCreated_event_impl W)"
  "event_consistent (PostVoted_event_impl W)"
  by (simp_all add: event_consistent_def feed_event_impls feed_event_parts feed_event_topic_lists
    feed_event_encode_topics set_at_def)

primrec feed_event_law :: "topic_words \<Rightarrow> 'x feed_event_codecs \<Rightarrow> RankedFeedEvents \<Rightarrow> bool" where
  "feed_event_law W A (PostCreated_event e) \<longleftrightarrow> impl_event_law (PostCreated_event_impl W) fst (PostCreated_abi A) e"
| "feed_event_law W A (PostVoted_event e) \<longleftrightarrow> impl_event_law (PostVoted_event_impl W) fst (PostVoted_abi A) e"

text \<open>The first topic written is the signature hash.\<close>

primrec feed_event_hash_of :: "RankedFeedEvents \<Rightarrow> hash" where
  "feed_event_hash_of (PostCreated_event e) = PostCreated_hash"
| "feed_event_hash_of (PostVoted_event e) = PostVoted_hash"

lemma feed_event_first_topic:
  assumes "feed_event_law W A e"
  shows "\<exists>rest. ld_topics (feed_to_log_data A e) = feed_event_hash_of e # rest"
  using assms
  by (cases e)
    (auto dest!: event_topics_written [THEN sym] simp: feed_event_impls feed_event_encode_topics set_at_def)

lemmas feed_event_reads = feed_event_consistent [THEN event_round_trip [rotated]]

lemma feed_event_decodes:
  assumes "feed_event_law W A e"
  shows "feed_decode_raw_log A (ld_topics (feed_to_log_data A e)) (ld_data (feed_to_log_data A e)) = Inr e"
proof -
  have "ld_topics (feed_to_log_data A e) \<noteq> []" "hd (ld_topics (feed_to_log_data A e)) = feed_event_hash_of e"
    using feed_event_first_topic [OF assms] by auto
  then show ?thesis
    using assms
    by (cases e) (simp_all add: feed_decode_raw_log_def list.case_eq_if feed_event_hashes feed_event_reads)
qed

lemma feed_event_typed:
  assumes "feed_decode_raw_log A topics data = Inr e"
  shows "\<exists>rest. topics = feed_event_hash_of e # rest"
  using assms
  by (auto simp: feed_decode_raw_log_def codec_def split: list.splits if_splits sum.splits)

end
