(* ===== verification/Poll_Calls.thy ===== *)
theory Poll_Calls
  imports Sol_Traits
begin

text \<open>
  The calls of \<^verbatim>\<open>examples/solidity/bindings/src/voting.rs\<close>, the voting contract of the Solidity examples: structs, implementations, tables and the
  builders of an instance, as in \<open>Bridge_Calls\<close>.
\<close>

section \<open>The calls\<close>

record VotingInfo =
  VotingInfo_threshold :: u256
  VotingInfo_deadline :: u64
  VotingInfo_nonce :: u256
  VotingInfo_owner :: address

record registerCall =
  registerCall_v :: VotingInfo

definition registerCall_of_tuple :: "VotingInfo \<Rightarrow> registerCall" where
  "registerCall_of_tuple = (\<lambda>t0.
     \<lparr>registerCall_v = t0\<rparr>)"

definition registerCall_impl :: "(registerCall, VotingInfo) sol_impl" where
  "registerCall_impl =
     \<lparr>si_signature = ''register((uint256,uint64,uint256,address))'',
      si_selector = [153, 93, 93, 145],
      si_new = registerCall_of_tuple,
      si_tokenize = registerCall_v\<rparr>"

record setWinnerCall =
  setWinnerCall_v :: VotingInfo
  setWinnerCall_choice :: u256

definition setWinnerCall_of_tuple :: "VotingInfo \<times> u256 \<Rightarrow> setWinnerCall" where
  "setWinnerCall_of_tuple = (\<lambda>(t0, t1).
     \<lparr>setWinnerCall_v = t0, setWinnerCall_choice = t1\<rparr>)"

definition setWinnerCall_impl :: "(setWinnerCall, VotingInfo \<times> u256) sol_impl" where
  "setWinnerCall_impl =
     \<lparr>si_signature = ''setWinner((uint256,uint64,uint256,address),uint256)'',
      si_selector = [232, 2, 24, 34],
      si_new = setWinnerCall_of_tuple,
      si_tokenize = (\<lambda>c. (setWinnerCall_v c, setWinnerCall_choice c))\<rparr>"

record voteCall =
  voteCall_v :: VotingInfo
  voteCall_choice :: u256

definition voteCall_of_tuple :: "VotingInfo \<times> u256 \<Rightarrow> voteCall" where
  "voteCall_of_tuple = (\<lambda>(t0, t1).
     \<lparr>voteCall_v = t0, voteCall_choice = t1\<rparr>)"

definition voteCall_impl :: "(voteCall, VotingInfo \<times> u256) sol_impl" where
  "voteCall_impl =
     \<lparr>si_signature = ''vote((uint256,uint64,uint256,address),uint256)'',
      si_selector = [167, 212, 196, 115],
      si_new = voteCall_of_tuple,
      si_tokenize = (\<lambda>c. (voteCall_v c, voteCall_choice c))\<rparr>"

record votingIdCall =
  votingIdCall_v :: VotingInfo

definition votingIdCall_of_tuple :: "VotingInfo \<Rightarrow> votingIdCall" where
  "votingIdCall_of_tuple = (\<lambda>t0.
     \<lparr>votingIdCall_v = t0\<rparr>)"

definition votingIdCall_impl :: "(votingIdCall, VotingInfo) sol_impl" where
  "votingIdCall_impl =
     \<lparr>si_signature = ''votingId((uint256,uint64,uint256,address))'',
      si_selector = [36, 198, 227, 196],
      si_new = votingIdCall_of_tuple,
      si_tokenize = votingIdCall_v\<rparr>"

datatype (plugins only: code) VotingCalls =
    register_call registerCall
  | setWinner_call setWinnerCall
  | vote_call voteCall
  | votingId_call votingIdCall

text \<open>The tables in the order of the selectors.\<close>

definition poll_call_selectors :: "bytes list" where
  "poll_call_selectors =
     [[36, 198, 227, 196], [153, 93, 93, 145], [167, 212, 196, 115], [232, 2, 24, 34]]"

definition poll_call_variant_names :: "string list" where
  "poll_call_variant_names =
     [''votingId'', ''register'', ''vote'', ''setWinner'']"

definition poll_call_signatures :: "string list" where
  "poll_call_signatures =
     [si_signature votingIdCall_impl, si_signature registerCall_impl, si_signature voteCall_impl,
      si_signature setWinnerCall_impl]"

definition poll_call_signature_by_selector :: "bytes \<Rightarrow> string option run" where
  "poll_call_signature_by_selector sel = table_row poll_call_selectors poll_call_signatures sel"

definition poll_call_name_by_selector :: "bytes \<Rightarrow> string option run" where
  "poll_call_name_by_selector sel = map_ok name_of_signature (poll_call_signature_by_selector sel)"

text \<open>The crate's codecs; the structs without fields share one.\<close>

record 'x poll_call_codecs =
  registerCall_abi :: "(registerCall, 'x) sol_call"
  setWinnerCall_abi :: "(setWinnerCall, 'x) sol_call"
  voteCall_abi :: "(voteCall, 'x) sol_call"
  votingIdCall_abi :: "(votingIdCall, 'x) sol_call"

primrec poll_call_selector :: "VotingCalls \<Rightarrow> bytes" where
  "poll_call_selector (register_call c) = si_selector registerCall_impl"
| "poll_call_selector (setWinner_call c) = si_selector setWinnerCall_impl"
| "poll_call_selector (vote_call c) = si_selector voteCall_impl"
| "poll_call_selector (votingId_call c) = si_selector votingIdCall_impl"

definition poll_call_selector_at :: "nat \<Rightarrow> bytes option" where
  "poll_call_selector_at i = (if i < length poll_call_selectors then Some (poll_call_selectors ! i) else None)"

definition poll_call_valid_selector :: "bytes \<Rightarrow> bool" where
  "poll_call_valid_selector sel \<longleftrightarrow> binary_search poll_call_selectors sel \<noteq> None"

definition poll_call_decode_shims :: "'x poll_call_codecs \<Rightarrow> (bytes \<Rightarrow> 'x sol_error + VotingCalls) list" where
  "poll_call_decode_shims A =
     [decode_shim votingId_call (votingIdCall_abi A), decode_shim register_call (registerCall_abi A),
      decode_shim vote_call (voteCall_abi A), decode_shim setWinner_call (setWinnerCall_abi A)]"

definition poll_call_decode_raw :: "'x poll_call_codecs \<Rightarrow> bytes \<Rightarrow> bytes \<Rightarrow> ('x sol_error + VotingCalls) run" where
  "poll_call_decode_raw A sel data =
     dispatch_call ''VotingCalls'' poll_call_selectors (poll_call_decode_shims A) sel data"

definition poll_call_decode_validate_shims :: "'x poll_call_codecs \<Rightarrow> (bytes \<Rightarrow> 'x sol_error + VotingCalls) list" where
  "poll_call_decode_validate_shims A =
     [decode_validate_shim votingId_call (votingIdCall_abi A),
      decode_validate_shim register_call (registerCall_abi A),
      decode_validate_shim vote_call (voteCall_abi A),
      decode_validate_shim setWinner_call (setWinnerCall_abi A)]"

definition poll_call_decode_raw_validate :: "'x poll_call_codecs \<Rightarrow> bytes \<Rightarrow> bytes \<Rightarrow> ('x sol_error + VotingCalls) run" where
  "poll_call_decode_raw_validate A sel data =
     dispatch_call ''VotingCalls'' poll_call_selectors (poll_call_decode_validate_shims A) sel data"

primrec poll_call_encoded_size :: "'x poll_call_codecs \<Rightarrow> VotingCalls \<Rightarrow> nat" where
  "poll_call_encoded_size A (register_call c) = sc_encoded_size (registerCall_abi A) c"
| "poll_call_encoded_size A (setWinner_call c) = sc_encoded_size (setWinnerCall_abi A) c"
| "poll_call_encoded_size A (vote_call c) = sc_encoded_size (voteCall_abi A) c"
| "poll_call_encoded_size A (votingId_call c) = sc_encoded_size (votingIdCall_abi A) c"

fun poll_call_encode_raw :: "'x poll_call_codecs \<Rightarrow> VotingCalls \<Rightarrow> bytes \<Rightarrow> bytes" where
  "poll_call_encode_raw A (register_call c) out = sc_encode_raw (registerCall_abi A) c out"
| "poll_call_encode_raw A (setWinner_call c) out = sc_encode_raw (setWinnerCall_abi A) c out"
| "poll_call_encode_raw A (vote_call c) out = sc_encode_raw (voteCall_abi A) c out"
| "poll_call_encode_raw A (votingId_call c) out = sc_encode_raw (votingIdCall_abi A) c out"

text \<open>The builders of \<^verbatim>\<open>VotingInstance\<close>: the call of a method and its arguments.\<close>

definition poll_register :: "VotingInfo \<Rightarrow> VotingCalls" where
  "poll_register v =
     register_call \<lparr>registerCall_v = v\<rparr>"

definition poll_setWinner :: "VotingInfo \<Rightarrow> u256 \<Rightarrow> VotingCalls" where
  "poll_setWinner v choice =
     setWinner_call \<lparr>setWinnerCall_v = v, setWinnerCall_choice = choice\<rparr>"

definition poll_vote :: "VotingInfo \<Rightarrow> u256 \<Rightarrow> VotingCalls" where
  "poll_vote v choice =
     vote_call \<lparr>voteCall_v = v, voteCall_choice = choice\<rparr>"

definition poll_votingId :: "VotingInfo \<Rightarrow> VotingCalls" where
  "poll_votingId v =
     votingId_call \<lparr>votingIdCall_v = v\<rparr>"

section \<open>Dispatch\<close>

lemmas poll_call_impls =
  registerCall_impl_def setWinnerCall_impl_def voteCall_impl_def votingIdCall_impl_def

lemmas poll_call_froms =
  registerCall_of_tuple_def setWinnerCall_of_tuple_def voteCall_of_tuple_def votingIdCall_of_tuple_def

lemma poll_call_new_tokenize:
  "si_new registerCall_impl (si_tokenize registerCall_impl c0) = c0"
  "si_new setWinnerCall_impl (si_tokenize setWinnerCall_impl c1) = c1"
  "si_new voteCall_impl (si_tokenize voteCall_impl c2) = c2"
  "si_new votingIdCall_impl (si_tokenize votingIdCall_impl c3) = c3"
  by (simp_all add: poll_call_impls poll_call_froms)

text \<open>The row of the tables that a variant has.\<close>

primrec poll_call_row :: "VotingCalls \<Rightarrow> nat" where
  "poll_call_row (register_call c) = 1"
| "poll_call_row (setWinner_call c) = 3"
| "poll_call_row (vote_call c) = 2"
| "poll_call_row (votingId_call c) = 0"

lemma poll_call_ascending: "dispatch_table poll_call_selectors"
  by (rule ascending_table) (simp add: poll_call_selectors_def)

interpretation poll_calls: typed_dispatch poll_call_selectors poll_call_selector "poll_call_decode_shims A" for A
  by (intro typed_dispatch.intro typed_dispatch_axioms.intro poll_call_ascending)
    (simp add: poll_call_selectors_def poll_call_decode_shims_def typed_row_shims poll_call_impls)

interpretation poll_calls_validate: typed_dispatch poll_call_selectors poll_call_selector "poll_call_decode_validate_shims A" for A
  by (intro typed_dispatch.intro typed_dispatch_axioms.intro poll_call_ascending)
    (simp add: poll_call_selectors_def poll_call_decode_validate_shims_def typed_row_shims poll_call_impls)

lemma poll_call_row_selector:
  "poll_call_row c < length poll_call_selectors \<and> poll_call_selectors ! poll_call_row c = poll_call_selector c"
  by (cases c) (simp_all add: poll_call_selectors_def poll_call_impls)

lemma poll_call_name:
  "poll_call_name_by_selector (poll_call_selector c) = Inr (Some (poll_call_variant_names ! poll_call_row c))"
proof -
  have "poll_call_signature_by_selector (poll_call_selector c) = Inr (Some (poll_call_signatures ! poll_call_row c))"
    using poll_calls.row_nth [of "poll_call_row c" poll_call_signatures] poll_call_row_selector [of c]
    by (simp add: poll_call_signature_by_selector_def) (simp add: poll_call_signatures_def poll_call_selectors_def)
  moreover have "name_of_signature (Some (poll_call_signatures ! poll_call_row c)) = Some (poll_call_variant_names ! poll_call_row c)"
    by (cases c) (simp_all add: poll_call_signatures_def poll_call_variant_names_def name_of_signature_def split_once_def poll_call_impls)
  ultimately show ?thesis by (simp add: poll_call_name_by_selector_def map_ok_def)
qed

text \<open>What is relied on for a value of the enum.\<close>

primrec poll_call_law :: "'x poll_call_codecs \<Rightarrow> VotingCalls \<Rightarrow> bool" where
  "poll_call_law A (register_call c) \<longleftrightarrow> impl_law registerCall_impl (registerCall_abi A) c"
| "poll_call_law A (setWinner_call c) \<longleftrightarrow> impl_law setWinnerCall_impl (setWinnerCall_abi A) c"
| "poll_call_law A (vote_call c) \<longleftrightarrow> impl_law voteCall_impl (voteCall_abi A) c"
| "poll_call_law A (votingId_call c) \<longleftrightarrow> impl_law votingIdCall_impl (votingIdCall_abi A) c"

lemma poll_call_own_shims:
  assumes "poll_call_law A c"
  shows "\<exists>body. (\<forall>out. poll_call_encode_raw A c out = out @ body) \<and> length body = poll_call_encoded_size A c
    \<and> (poll_call_decode_shims A ! poll_call_row c) body = Inr c
    \<and> (poll_call_decode_validate_shims A ! poll_call_row c) body = Inr c"
  using assms
  by (cases c)
    (auto dest!: impl_law_call simp: poll_call_new_tokenize call_law_def shim_simps poll_call_decode_shims_def poll_call_decode_validate_shims_def)

lemma poll_call_typed:
  "case poll_call_decode_raw A sel data of
     Inl p \<Rightarrow> False
   | Inr (Inl e) \<Rightarrow> if poll_call_valid_selector sel then \<exists>x. e = Codec x else e = UnknownSelector ''VotingCalls'' sel
   | Inr (Inr call) \<Rightarrow> poll_call_selector call = sel \<and> poll_call_valid_selector sel"
  using poll_calls.dispatch_typed [where A = A and name = "''VotingCalls''" and sel = sel and data = data] poll_calls.search_None [of sel]
  by (auto simp: poll_call_decode_raw_def poll_call_valid_selector_def split: sum.splits if_splits)

lemma poll_call_encodes:
  assumes "poll_call_law A call"
  shows "\<exists>body. poll_call_encode_raw A call out = out @ body \<and> length body = poll_call_encoded_size A call
    \<and> poll_call_decode_raw A (poll_call_selector call) body = Inr (Inr call)
    \<and> poll_call_decode_raw_validate A (poll_call_selector call) body = Inr (Inr call)"
proof -
  have row: "poll_call_row call < length poll_call_selectors" "poll_call_selectors ! poll_call_row call = poll_call_selector call"
    using poll_call_row_selector by blast+
  from poll_call_own_shims [OF assms] show ?thesis
    unfolding poll_call_decode_raw_def poll_call_decode_raw_validate_def
    by (auto simp: poll_calls.dispatch_at [OF row] poll_calls_validate.dispatch_at [OF row])
qed

end
