(* ===== verification/Poll_Events.thy ===== *)
theory Poll_Events
  imports Sol_Traits
begin

text \<open>
  The events of \<^verbatim>\<open>examples/solidity/bindings/src/voting.rs\<close>, the voting contract of the Solidity examples, as in \<open>Bridge_Events\<close>.
\<close>

section \<open>The events\<close>

record Voted =
  Voted_votingId :: hash
  Voted_voter :: address
  Voted_choice :: u256

definition Voted_signature :: string where
  "Voted_signature = ''Voted(bytes32,address,uint256)''"

definition Voted_hash :: hash where
  "Voted_hash = b256
     [228, 171, 197, 56, 15, 166, 147, 157, 29, 194, 59, 94, 144, 179, 168, 160, 227, 40, 240, 241, 168,
      42, 95, 66, 191, 183, 149, 191, 156, 113, 117, 5]"

definition Voted_new :: "(hash \<times> hash \<times> address \<times> u256) \<Rightarrow> unit \<Rightarrow> Voted" where
  "Voted_new = (\<lambda>(t0, t1, t2, t3) _.
     \<lparr>Voted_votingId = t1, Voted_voter = t2, Voted_choice = t3\<rparr>)"

definition Voted_check_signature :: "hash \<times> hash \<times> address \<times> u256 \<Rightarrow> 'x sol_error + unit" where
  "Voted_check_signature topics =
     (if fst topics \<noteq> Voted_hash then Inl (InvalidSignatureHash Voted_signature (fst topics) Voted_hash)
      else Inr ())"

definition Voted_tokenize_body :: "Voted \<Rightarrow> unit" where
  "Voted_tokenize_body e = ()"

definition Voted_topics :: "Voted \<Rightarrow> hash \<times> hash \<times> address \<times> u256" where
  "Voted_topics e = (Voted_hash, Voted_votingId e, Voted_voter e, Voted_choice e)"

definition Voted_topic_list :: "topic_words \<Rightarrow> hash \<times> hash \<times> address \<times> u256 \<Rightarrow> hash list" where
  "Voted_topic_list W = (\<lambda>(t0, t1, t2, t3). [t0, tw_fixed W t1, tw_address W t2, tw_u256 W t3])"

definition Voted_encode_topics_raw ::
    "topic_words \<Rightarrow> Voted \<Rightarrow> hash list \<Rightarrow> ('x sol_error + hash list) run" where
  "Voted_encode_topics_raw W e out =
     (if length out < 4 then Inr (Inl Overrun)
      else map_ok Inr
        (and_then (set_at 0 Voted_hash out) (\<lambda>out.
         and_then (set_at 1 (tw_fixed W (Voted_votingId e)) out) (\<lambda>out.
         and_then (set_at 2 (tw_address W (Voted_voter e)) out) (\<lambda>out.
         set_at 3 (tw_u256 W (Voted_choice e)) out)))))"

definition Voted_event_impl :: "topic_words \<Rightarrow> (Voted, hash \<times> hash \<times> address \<times> u256, unit, 'x) event_impl" where
  "Voted_event_impl W =
     \<lparr>ei_signature = Voted_signature, ei_signature_hash = Voted_hash, ei_count = 4,
      ei_new = Voted_new, ei_check_signature = Voted_check_signature,
      ei_tokenize_body = Voted_tokenize_body, ei_topics = Voted_topics, ei_topic_list = Voted_topic_list W,
      ei_encode_topics_raw = Voted_encode_topics_raw W\<rparr>"

record Winner =
  Winner_votingId :: hash
  Winner_choice :: u256

definition Winner_signature :: string where
  "Winner_signature = ''Winner(bytes32,uint256)''"

definition Winner_hash :: hash where
  "Winner_hash = b256
     [38, 157, 58, 36, 113, 36, 54, 247, 125, 241, 93, 99, 222, 125, 35, 55, 160, 96, 201, 16, 45, 238,
      111, 70, 201, 9, 251, 15, 162, 213, 47, 12]"

definition Winner_new :: "(hash \<times> hash \<times> u256) \<Rightarrow> unit \<Rightarrow> Winner" where
  "Winner_new = (\<lambda>(t0, t1, t2) _.
     \<lparr>Winner_votingId = t1, Winner_choice = t2\<rparr>)"

definition Winner_check_signature :: "hash \<times> hash \<times> u256 \<Rightarrow> 'x sol_error + unit" where
  "Winner_check_signature topics =
     (if fst topics \<noteq> Winner_hash then Inl (InvalidSignatureHash Winner_signature (fst topics) Winner_hash)
      else Inr ())"

definition Winner_tokenize_body :: "Winner \<Rightarrow> unit" where
  "Winner_tokenize_body e = ()"

definition Winner_topics :: "Winner \<Rightarrow> hash \<times> hash \<times> u256" where
  "Winner_topics e = (Winner_hash, Winner_votingId e, Winner_choice e)"

definition Winner_topic_list :: "topic_words \<Rightarrow> hash \<times> hash \<times> u256 \<Rightarrow> hash list" where
  "Winner_topic_list W = (\<lambda>(t0, t1, t2). [t0, tw_fixed W t1, tw_u256 W t2])"

definition Winner_encode_topics_raw ::
    "topic_words \<Rightarrow> Winner \<Rightarrow> hash list \<Rightarrow> ('x sol_error + hash list) run" where
  "Winner_encode_topics_raw W e out =
     (if length out < 3 then Inr (Inl Overrun)
      else map_ok Inr
        (and_then (set_at 0 Winner_hash out) (\<lambda>out.
         and_then (set_at 1 (tw_fixed W (Winner_votingId e)) out) (\<lambda>out.
         set_at 2 (tw_u256 W (Winner_choice e)) out))))"

definition Winner_event_impl :: "topic_words \<Rightarrow> (Winner, hash \<times> hash \<times> u256, unit, 'x) event_impl" where
  "Winner_event_impl W =
     \<lparr>ei_signature = Winner_signature, ei_signature_hash = Winner_hash, ei_count = 3,
      ei_new = Winner_new, ei_check_signature = Winner_check_signature,
      ei_tokenize_body = Winner_tokenize_body, ei_topics = Winner_topics, ei_topic_list = Winner_topic_list W,
      ei_encode_topics_raw = Winner_encode_topics_raw W\<rparr>"

datatype (plugins only: code) VotingEvents =
    Voted_event Voted
  | Winner_event Winner

text \<open>The tables in the order of the selectors.\<close>

definition poll_event_selectors :: "bytes list" where
  "poll_event_selectors =
     [[38, 157, 58, 36, 113, 36, 54, 247, 125, 241, 93, 99, 222, 125, 35, 55, 160, 96, 201, 16, 45, 238, 111, 70, 201, 9, 251, 15, 162, 213, 47, 12],
      [228, 171, 197, 56, 15, 166, 147, 157, 29, 194, 59, 94, 144, 179, 168, 160, 227, 40, 240, 241, 168, 42, 95, 66, 191, 183, 149, 191, 156, 113, 117, 5]]"

definition poll_event_variant_names :: "string list" where
  "poll_event_variant_names =
     [''Winner'', ''Voted'']"

definition poll_event_signatures :: "string list" where
  "poll_event_signatures =
     [Winner_signature, Voted_signature]"

definition poll_event_signature_by_selector :: "bytes \<Rightarrow> string option run" where
  "poll_event_signature_by_selector sel = table_row poll_event_selectors poll_event_signatures sel"

definition poll_event_name_by_selector :: "bytes \<Rightarrow> string option run" where
  "poll_event_name_by_selector sel = map_ok name_of_signature (poll_event_signature_by_selector sel)"

record 'x poll_event_codecs =
  Voted_abi :: "(Voted, 'x) sol_event"
  Winner_abi :: "(Winner, 'x) sol_event"

definition poll_decode_raw_log :: "'x poll_event_codecs \<Rightarrow> hash list \<Rightarrow> bytes \<Rightarrow> 'x sol_error + VotingEvents" where
  "poll_decode_raw_log A topics data =
     (case topics of
        [] \<Rightarrow> Inl (InvalidLog ''VotingEvents'' topics data)
      | topic0 # _ \<Rightarrow>
          if topic0 = Voted_hash
          then codec Voted_event (se_decode_raw_log (Voted_abi A) topics data)
          else if topic0 = Winner_hash
          then codec Winner_event (se_decode_raw_log (Winner_abi A) topics data)
          else Inl (InvalidLog ''VotingEvents'' topics data))"

primrec poll_to_log_data :: "'x poll_event_codecs \<Rightarrow> VotingEvents \<Rightarrow> log_data" where
  "poll_to_log_data A (Voted_event e) = se_encode_log_data (Voted_abi A) e"
| "poll_to_log_data A (Winner_event e) = se_encode_log_data (Winner_abi A) e"

text \<open>The crate's \<^verbatim>\<open>decode_log\<close> of an interface decodes the log's topics and data.\<close>

definition poll_decode_log :: "'x poll_event_codecs \<Rightarrow> eth_log \<Rightarrow> 'x sol_error + VotingEvents" where
  "poll_decode_log A log = poll_decode_raw_log A (ld_topics (lg_data log)) (ld_data (lg_data log))"

section \<open>Laws and dispatch\<close>

interpretation poll_events: dispatch_table poll_event_selectors
  by (rule ascending_table) (simp add: poll_event_selectors_def)

lemma poll_event_hashes:
  "Voted_hash = 103430821480497381391262953574867763353864981844445252505278062198741024208133"
  "Winner_hash = 17465684519095709795803080433131364963101581361820475442286701581744500715276"
  by (simp_all add: b256_def Voted_hash_def Winner_hash_def)

lemmas poll_event_impls =
  Voted_event_impl_def Winner_event_impl_def

lemmas poll_event_parts =
  Voted_new_def Voted_check_signature_def Voted_tokenize_body_def Voted_topics_def Winner_new_def
  Winner_check_signature_def Winner_tokenize_body_def Winner_topics_def

lemmas poll_event_encode_topics =
  Voted_encode_topics_raw_def Winner_encode_topics_raw_def

lemmas poll_event_topic_lists =
  Voted_topic_list_def Winner_topic_list_def

lemma poll_event_consistent:
  "event_consistent (Voted_event_impl W)"
  "event_consistent (Winner_event_impl W)"
  by (simp_all add: event_consistent_def poll_event_impls poll_event_parts poll_event_topic_lists
    poll_event_encode_topics set_at_def)

primrec poll_event_law :: "topic_words \<Rightarrow> 'x poll_event_codecs \<Rightarrow> VotingEvents \<Rightarrow> bool" where
  "poll_event_law W A (Voted_event e) \<longleftrightarrow> impl_event_law (Voted_event_impl W) fst (Voted_abi A) e"
| "poll_event_law W A (Winner_event e) \<longleftrightarrow> impl_event_law (Winner_event_impl W) fst (Winner_abi A) e"

text \<open>The first topic written is the signature hash.\<close>

primrec poll_event_hash_of :: "VotingEvents \<Rightarrow> hash" where
  "poll_event_hash_of (Voted_event e) = Voted_hash"
| "poll_event_hash_of (Winner_event e) = Winner_hash"

lemma poll_event_first_topic:
  assumes "poll_event_law W A e"
  shows "\<exists>rest. ld_topics (poll_to_log_data A e) = poll_event_hash_of e # rest"
  using assms
  by (cases e)
    (auto dest!: event_topics_written [THEN sym] simp: poll_event_impls poll_event_encode_topics set_at_def)

lemmas poll_event_reads = poll_event_consistent [THEN event_round_trip [rotated]]

lemma poll_event_decodes:
  assumes "poll_event_law W A e"
  shows "poll_decode_raw_log A (ld_topics (poll_to_log_data A e)) (ld_data (poll_to_log_data A e)) = Inr e"
proof -
  have "ld_topics (poll_to_log_data A e) \<noteq> []" "hd (ld_topics (poll_to_log_data A e)) = poll_event_hash_of e"
    using poll_event_first_topic [OF assms] by auto
  then show ?thesis
    using assms
    by (cases e) (simp_all add: poll_decode_raw_log_def list.case_eq_if poll_event_hashes poll_event_reads)
qed

lemma poll_event_typed:
  assumes "poll_decode_raw_log A topics data = Inr e"
  shows "\<exists>rest. topics = poll_event_hash_of e # rest"
  using assms
  by (auto simp: poll_decode_raw_log_def codec_def split: list.splits if_splits sum.splits)

end
