(* ===== verification/Pi2_Calls.thy ===== *)
theory Pi2_Calls
  imports Sol_Traits
begin

text \<open>
  The calls of \<^verbatim>\<open>examples/solidity/bindings/src/pi2.rs\<close>, the claims of the Pi2 example: structs, implementations, tables and the
  builders of an instance, as in \<open>Bridge_Calls\<close>.
\<close>

section \<open>The calls\<close>

record Header =
  Header_parentHash :: hash
  Header_uncleHash :: hash
  Header_coinbase :: address
  Header_root :: hash
  Header_txHash :: hash
  Header_receiptHash :: hash
  Header_bloom :: bytes
  Header_difficulty :: u256
  Header_number :: u256
  Header_gasLimit :: u256
  Header_gasUsed :: u256
  Header_time :: u256
  Header_extra :: bytes
  Header_mixDigest :: hash
  Header_nonce :: bytes8

record EVMCall =
  EVMCall_from :: address
  EVMCall_to :: address
  EVMCall_input :: bytes

record EVMMetadata =
  EVMMetadata_chainId :: u256

record Claim =
  Claim_claimType :: string
  Claim_trustBaseSpec :: string
  Claim_assumptions :: Header
  Claim_action :: EVMCall
  Claim_result :: bytes
  Claim_metadata :: EVMMetadata

record StorageProof =
  StorageProof_key :: hash
  StorageProof_value :: hash
  StorageProof_proof :: "bytes list"

record AccountProof =
  AccountProof_addr :: address
  AccountProof_accountProof :: "bytes list"
  AccountProof_balance :: u256
  AccountProof_codeHash :: hash
  AccountProof_nonce :: u256
  AccountProof_storageHash :: hash
  AccountProof_storageProof :: "StorageProof list"

record Account =
  Account_proof :: AccountProof
  Account_code :: bytes

record VerificationData =
  VerificationData_accounts :: "Account list"

record verifyCall =
  verifyCall_claim :: Claim
  verifyCall_verData :: VerificationData

definition verifyCall_of_tuple :: "Claim \<times> VerificationData \<Rightarrow> verifyCall" where
  "verifyCall_of_tuple = (\<lambda>(t0, t1).
     \<lparr>verifyCall_claim = t0, verifyCall_verData = t1\<rparr>)"

definition verifyCall_impl :: "(verifyCall, Claim \<times> VerificationData) sol_impl" where
  "verifyCall_impl =
     \<lparr>si_signature = ''verify((string,string,(bytes32,bytes32,address,bytes32,bytes32,bytes32,bytes,uint256,uint256,uint256,uint256,uint256,bytes,bytes32,bytes8),(address,address,bytes),bytes,(uint256)),(((address,bytes[],uint256,bytes32,uint256,bytes32,(bytes32,bytes32,bytes[])[]),bytes)[]))'',
      si_selector = [11, 14, 150, 89],
      si_new = verifyCall_of_tuple,
      si_tokenize = (\<lambda>c. (verifyCall_claim c, verifyCall_verData c))\<rparr>"

datatype (plugins only: code) Pi2Calls =
    verify_call verifyCall

text \<open>The tables in the order of the selectors.\<close>

definition pi2_call_selectors :: "bytes list" where
  "pi2_call_selectors =
     [[11, 14, 150, 89]]"

definition pi2_call_variant_names :: "string list" where
  "pi2_call_variant_names =
     [''verify'']"

definition pi2_call_signatures :: "string list" where
  "pi2_call_signatures =
     [si_signature verifyCall_impl]"

definition pi2_call_signature_by_selector :: "bytes \<Rightarrow> string option run" where
  "pi2_call_signature_by_selector sel = table_row pi2_call_selectors pi2_call_signatures sel"

definition pi2_call_name_by_selector :: "bytes \<Rightarrow> string option run" where
  "pi2_call_name_by_selector sel = map_ok name_of_signature (pi2_call_signature_by_selector sel)"

text \<open>The crate's codecs; the structs without fields share one.\<close>

record 'x pi2_call_codecs =
  verifyCall_abi :: "(verifyCall, 'x) sol_call"

primrec pi2_call_selector :: "Pi2Calls \<Rightarrow> bytes" where
  "pi2_call_selector (verify_call c) = si_selector verifyCall_impl"

definition pi2_call_selector_at :: "nat \<Rightarrow> bytes option" where
  "pi2_call_selector_at i = (if i < length pi2_call_selectors then Some (pi2_call_selectors ! i) else None)"

definition pi2_call_valid_selector :: "bytes \<Rightarrow> bool" where
  "pi2_call_valid_selector sel \<longleftrightarrow> binary_search pi2_call_selectors sel \<noteq> None"

definition pi2_call_decode_shims :: "'x pi2_call_codecs \<Rightarrow> (bytes \<Rightarrow> 'x sol_error + Pi2Calls) list" where
  "pi2_call_decode_shims A =
     [decode_shim verify_call (verifyCall_abi A)]"

definition pi2_call_decode_raw :: "'x pi2_call_codecs \<Rightarrow> bytes \<Rightarrow> bytes \<Rightarrow> ('x sol_error + Pi2Calls) run" where
  "pi2_call_decode_raw A sel data =
     dispatch_call ''Pi2Calls'' pi2_call_selectors (pi2_call_decode_shims A) sel data"

definition pi2_call_decode_validate_shims :: "'x pi2_call_codecs \<Rightarrow> (bytes \<Rightarrow> 'x sol_error + Pi2Calls) list" where
  "pi2_call_decode_validate_shims A =
     [decode_validate_shim verify_call (verifyCall_abi A)]"

definition pi2_call_decode_raw_validate :: "'x pi2_call_codecs \<Rightarrow> bytes \<Rightarrow> bytes \<Rightarrow> ('x sol_error + Pi2Calls) run" where
  "pi2_call_decode_raw_validate A sel data =
     dispatch_call ''Pi2Calls'' pi2_call_selectors (pi2_call_decode_validate_shims A) sel data"

primrec pi2_call_encoded_size :: "'x pi2_call_codecs \<Rightarrow> Pi2Calls \<Rightarrow> nat" where
  "pi2_call_encoded_size A (verify_call c) = sc_encoded_size (verifyCall_abi A) c"

fun pi2_call_encode_raw :: "'x pi2_call_codecs \<Rightarrow> Pi2Calls \<Rightarrow> bytes \<Rightarrow> bytes" where
  "pi2_call_encode_raw A (verify_call c) out = sc_encode_raw (verifyCall_abi A) c out"

text \<open>The builders of \<^verbatim>\<open>Pi2Instance\<close>: the call of a method and its arguments.\<close>

definition pi2_verify :: "Claim \<Rightarrow> VerificationData \<Rightarrow> Pi2Calls" where
  "pi2_verify claim verData =
     verify_call \<lparr>verifyCall_claim = claim, verifyCall_verData = verData\<rparr>"

section \<open>Dispatch\<close>

lemmas pi2_call_impls =
  verifyCall_impl_def

lemmas pi2_call_froms =
  verifyCall_of_tuple_def

lemma pi2_call_new_tokenize:
  "si_new verifyCall_impl (si_tokenize verifyCall_impl c0) = c0"
  by (simp_all add: pi2_call_impls pi2_call_froms)

text \<open>The row of the tables that a variant has.\<close>

primrec pi2_call_row :: "Pi2Calls \<Rightarrow> nat" where
  "pi2_call_row (verify_call c) = 0"

lemma pi2_call_ascending: "dispatch_table pi2_call_selectors"
  by (rule ascending_table) (simp add: pi2_call_selectors_def)

interpretation pi2_calls: typed_dispatch pi2_call_selectors pi2_call_selector "pi2_call_decode_shims A" for A
  by (intro typed_dispatch.intro typed_dispatch_axioms.intro pi2_call_ascending)
    (simp add: pi2_call_selectors_def pi2_call_decode_shims_def typed_row_shims pi2_call_impls)

interpretation pi2_calls_validate: typed_dispatch pi2_call_selectors pi2_call_selector "pi2_call_decode_validate_shims A" for A
  by (intro typed_dispatch.intro typed_dispatch_axioms.intro pi2_call_ascending)
    (simp add: pi2_call_selectors_def pi2_call_decode_validate_shims_def typed_row_shims pi2_call_impls)

lemma pi2_call_row_selector:
  "pi2_call_row c < length pi2_call_selectors \<and> pi2_call_selectors ! pi2_call_row c = pi2_call_selector c"
  by (cases c) (simp_all add: pi2_call_selectors_def pi2_call_impls)

lemma pi2_call_name:
  "pi2_call_name_by_selector (pi2_call_selector c) = Inr (Some (pi2_call_variant_names ! pi2_call_row c))"
proof -
  have "pi2_call_signature_by_selector (pi2_call_selector c) = Inr (Some (pi2_call_signatures ! pi2_call_row c))"
    using pi2_calls.row_nth [of "pi2_call_row c" pi2_call_signatures] pi2_call_row_selector [of c]
    by (simp add: pi2_call_signature_by_selector_def) (simp add: pi2_call_signatures_def pi2_call_selectors_def)
  moreover have "name_of_signature (Some (pi2_call_signatures ! pi2_call_row c)) = Some (pi2_call_variant_names ! pi2_call_row c)"
    by (cases c) (simp_all add: pi2_call_signatures_def pi2_call_variant_names_def name_of_signature_def split_once_def pi2_call_impls)
  ultimately show ?thesis by (simp add: pi2_call_name_by_selector_def map_ok_def)
qed

text \<open>What is relied on for a value of the enum.\<close>

primrec pi2_call_law :: "'x pi2_call_codecs \<Rightarrow> Pi2Calls \<Rightarrow> bool" where
  "pi2_call_law A (verify_call c) \<longleftrightarrow> impl_law verifyCall_impl (verifyCall_abi A) c"

lemma pi2_call_own_shims:
  assumes "pi2_call_law A c"
  shows "\<exists>body. (\<forall>out. pi2_call_encode_raw A c out = out @ body) \<and> length body = pi2_call_encoded_size A c
    \<and> (pi2_call_decode_shims A ! pi2_call_row c) body = Inr c
    \<and> (pi2_call_decode_validate_shims A ! pi2_call_row c) body = Inr c"
  using assms
  by (cases c)
    (auto dest!: impl_law_call simp: pi2_call_new_tokenize call_law_def shim_simps pi2_call_decode_shims_def pi2_call_decode_validate_shims_def)

lemma pi2_call_typed:
  "case pi2_call_decode_raw A sel data of
     Inl p \<Rightarrow> False
   | Inr (Inl e) \<Rightarrow> if pi2_call_valid_selector sel then \<exists>x. e = Codec x else e = UnknownSelector ''Pi2Calls'' sel
   | Inr (Inr call) \<Rightarrow> pi2_call_selector call = sel \<and> pi2_call_valid_selector sel"
  using pi2_calls.dispatch_typed [where A = A and name = "''Pi2Calls''" and sel = sel and data = data] pi2_calls.search_None [of sel]
  by (auto simp: pi2_call_decode_raw_def pi2_call_valid_selector_def split: sum.splits if_splits)

lemma pi2_call_encodes:
  assumes "pi2_call_law A call"
  shows "\<exists>body. pi2_call_encode_raw A call out = out @ body \<and> length body = pi2_call_encoded_size A call
    \<and> pi2_call_decode_raw A (pi2_call_selector call) body = Inr (Inr call)
    \<and> pi2_call_decode_raw_validate A (pi2_call_selector call) body = Inr (Inr call)"
proof -
  have row: "pi2_call_row call < length pi2_call_selectors" "pi2_call_selectors ! pi2_call_row call = pi2_call_selector call"
    using pi2_call_row_selector by blast+
  from pi2_call_own_shims [OF assms] show ?thesis
    unfolding pi2_call_decode_raw_def pi2_call_decode_raw_validate_def
    by (auto simp: pi2_calls.dispatch_at [OF row] pi2_calls_validate.dispatch_at [OF row])
qed

end
