(* ===== verification/Pi2_Events.thy ===== *)
theory Pi2_Events
  imports Pi2_Calls
begin

text \<open>
  The events of \<^verbatim>\<open>examples/solidity/bindings/src/pi2.rs\<close>, the claims of the Pi2 example, as in \<open>Bridge_Events\<close>.
\<close>

section \<open>The events\<close>

record ClaimAppended =
  ClaimAppended_claim :: Claim
  ClaimAppended_verData :: hash

definition ClaimAppended_signature :: string where
  "ClaimAppended_signature = ''ClaimAppended((string,string,(bytes32,bytes32,address,bytes32,bytes32,bytes32,bytes,uint256,uint256,uint256,uint256,uint256,bytes,bytes32,bytes8),(address,address,bytes),bytes,(uint256)),(((address,bytes[],uint256,bytes32,uint256,bytes32,(bytes32,bytes32,bytes[])[]),bytes)[]))''"

definition ClaimAppended_hash :: hash where
  "ClaimAppended_hash = b256
     [42, 173, 219, 132, 208, 51, 216, 189, 80, 31, 167, 24, 86, 39, 206, 226, 156, 64, 129, 179, 235,
      107, 23, 153, 167, 45, 237, 131, 41, 30, 39, 132]"

definition ClaimAppended_new :: "(hash \<times> hash) \<Rightarrow> Claim \<Rightarrow> ClaimAppended" where
  "ClaimAppended_new = (\<lambda>(t0, t1) d0.
     \<lparr>ClaimAppended_claim = d0, ClaimAppended_verData = t1\<rparr>)"

definition ClaimAppended_check_signature :: "hash \<times> hash \<Rightarrow> 'x sol_error + unit" where
  "ClaimAppended_check_signature topics =
     (if fst topics \<noteq> ClaimAppended_hash then Inl (InvalidSignatureHash ClaimAppended_signature (fst topics) ClaimAppended_hash)
      else Inr ())"

definition ClaimAppended_tokenize_body :: "ClaimAppended \<Rightarrow> Claim" where
  "ClaimAppended_tokenize_body e = (ClaimAppended_claim e)"

definition ClaimAppended_topics :: "ClaimAppended \<Rightarrow> hash \<times> hash" where
  "ClaimAppended_topics e = (ClaimAppended_hash, ClaimAppended_verData e)"

definition ClaimAppended_topic_list :: "topic_words \<Rightarrow> hash \<times> hash \<Rightarrow> hash list" where
  "ClaimAppended_topic_list W = (\<lambda>(t0, t1). [t0, tw_fixed W t1])"

definition ClaimAppended_encode_topics_raw ::
    "topic_words \<Rightarrow> ClaimAppended \<Rightarrow> hash list \<Rightarrow> ('x sol_error + hash list) run" where
  "ClaimAppended_encode_topics_raw W e out =
     (if length out < 2 then Inr (Inl Overrun)
      else map_ok Inr
        (and_then (set_at 0 ClaimAppended_hash out) (\<lambda>out.
         set_at 1 (tw_fixed W (ClaimAppended_verData e)) out)))"

definition ClaimAppended_event_impl :: "topic_words \<Rightarrow> (ClaimAppended, hash \<times> hash, Claim, 'x) event_impl" where
  "ClaimAppended_event_impl W =
     \<lparr>ei_signature = ClaimAppended_signature, ei_signature_hash = ClaimAppended_hash, ei_count = 2,
      ei_new = ClaimAppended_new, ei_check_signature = ClaimAppended_check_signature,
      ei_tokenize_body = ClaimAppended_tokenize_body, ei_topics = ClaimAppended_topics, ei_topic_list = ClaimAppended_topic_list W,
      ei_encode_topics_raw = ClaimAppended_encode_topics_raw W\<rparr>"

datatype (plugins only: code) Pi2Events =
    ClaimAppended_event ClaimAppended

text \<open>The tables in the order of the selectors.\<close>

definition pi2_event_selectors :: "bytes list" where
  "pi2_event_selectors =
     [[42, 173, 219, 132, 208, 51, 216, 189, 80, 31, 167, 24, 86, 39, 206, 226, 156, 64, 129, 179, 235, 107, 23, 153, 167, 45, 237, 131, 41, 30, 39, 132]]"

definition pi2_event_variant_names :: "string list" where
  "pi2_event_variant_names =
     [''ClaimAppended'']"

definition pi2_event_signatures :: "string list" where
  "pi2_event_signatures =
     [ClaimAppended_signature]"

definition pi2_event_signature_by_selector :: "bytes \<Rightarrow> string option run" where
  "pi2_event_signature_by_selector sel = table_row pi2_event_selectors pi2_event_signatures sel"

definition pi2_event_name_by_selector :: "bytes \<Rightarrow> string option run" where
  "pi2_event_name_by_selector sel = map_ok name_of_signature (pi2_event_signature_by_selector sel)"

record 'x pi2_event_codecs =
  ClaimAppended_abi :: "(ClaimAppended, 'x) sol_event"

definition pi2_decode_raw_log :: "'x pi2_event_codecs \<Rightarrow> hash list \<Rightarrow> bytes \<Rightarrow> 'x sol_error + Pi2Events" where
  "pi2_decode_raw_log A topics data =
     (case topics of
        [] \<Rightarrow> Inl (InvalidLog ''Pi2Events'' topics data)
      | topic0 # _ \<Rightarrow>
          if topic0 = ClaimAppended_hash
          then codec ClaimAppended_event (se_decode_raw_log (ClaimAppended_abi A) topics data)
          else Inl (InvalidLog ''Pi2Events'' topics data))"

primrec pi2_to_log_data :: "'x pi2_event_codecs \<Rightarrow> Pi2Events \<Rightarrow> log_data" where
  "pi2_to_log_data A (ClaimAppended_event e) = se_encode_log_data (ClaimAppended_abi A) e"

text \<open>The crate's \<^verbatim>\<open>decode_log\<close> of an interface decodes the log's topics and data.\<close>

definition pi2_decode_log :: "'x pi2_event_codecs \<Rightarrow> eth_log \<Rightarrow> 'x sol_error + Pi2Events" where
  "pi2_decode_log A log = pi2_decode_raw_log A (ld_topics (lg_data log)) (ld_data (lg_data log))"

section \<open>Laws and dispatch\<close>

interpretation pi2_events: dispatch_table pi2_event_selectors
  by (rule ascending_table) (simp add: pi2_event_selectors_def)

lemma pi2_event_hashes:
  "ClaimAppended_hash = 19304319245793041135171580463487486807298786943070220846909053141735752738692"
  by (simp_all add: b256_def ClaimAppended_hash_def)

lemmas pi2_event_impls =
  ClaimAppended_event_impl_def

lemmas pi2_event_parts =
  ClaimAppended_new_def ClaimAppended_check_signature_def ClaimAppended_tokenize_body_def
  ClaimAppended_topics_def

lemmas pi2_event_encode_topics =
  ClaimAppended_encode_topics_raw_def

lemmas pi2_event_topic_lists =
  ClaimAppended_topic_list_def

lemma pi2_event_consistent:
  "event_consistent (ClaimAppended_event_impl W)"
  by (simp_all add: event_consistent_def pi2_event_impls pi2_event_parts pi2_event_topic_lists
    pi2_event_encode_topics set_at_def)

primrec pi2_event_law :: "topic_words \<Rightarrow> 'x pi2_event_codecs \<Rightarrow> Pi2Events \<Rightarrow> bool" where
  "pi2_event_law W A (ClaimAppended_event e) \<longleftrightarrow> impl_event_law (ClaimAppended_event_impl W) fst (ClaimAppended_abi A) e"

text \<open>The first topic written is the signature hash.\<close>

primrec pi2_event_hash_of :: "Pi2Events \<Rightarrow> hash" where
  "pi2_event_hash_of (ClaimAppended_event e) = ClaimAppended_hash"

lemma pi2_event_first_topic:
  assumes "pi2_event_law W A e"
  shows "\<exists>rest. ld_topics (pi2_to_log_data A e) = pi2_event_hash_of e # rest"
  using assms
  by (cases e)
    (auto dest!: event_topics_written [THEN sym] simp: pi2_event_impls pi2_event_encode_topics set_at_def)

lemmas pi2_event_reads = pi2_event_consistent [THEN event_round_trip [rotated]]

lemma pi2_event_decodes:
  assumes "pi2_event_law W A e"
  shows "pi2_decode_raw_log A (ld_topics (pi2_to_log_data A e)) (ld_data (pi2_to_log_data A e)) = Inr e"
proof -
  have "ld_topics (pi2_to_log_data A e) \<noteq> []" "hd (ld_topics (pi2_to_log_data A e)) = pi2_event_hash_of e"
    using pi2_event_first_topic [OF assms] by auto
  then show ?thesis
    using assms
    by (cases e) (simp_all add: pi2_decode_raw_log_def list.case_eq_if pi2_event_hashes pi2_event_reads)
qed

lemma pi2_event_typed:
  assumes "pi2_decode_raw_log A topics data = Inr e"
  shows "\<exists>rest. topics = pi2_event_hash_of e # rest"
  using assms
  by (auto simp: pi2_decode_raw_log_def codec_def split: list.splits if_splits sum.splits)

end
