(* ===== verification/Usage_Examples.thy ===== *)
theory Usage_Examples
  imports Provider Watch_Clients Auction_Bindings
begin

text \<open>
  The example programs of the SDK: \<^verbatim>\<open>usage.rs\<close>, \<^verbatim>\<open>watch_events.rs\<close> and
  \<^verbatim>\<open>watch_account_receipts.rs\<close> of \<^verbatim>\<open>examples/rust/src\<close>.

  The first two are sequences of calls of the provider, a failure of which ends the program,
  and loops that check every log and show its multiproof.  The answers of the node are
  arguments, and a stream of logs is the list of those it yields before it ends.  The third
  is a loop over two streams, a step relation; its streams may stay open.
\<close>

section \<open>What a program shows, and how it ends\<close>

datatype (plugins only: code) ('r, 'sig) usage_line =
    ShownCommittee committee
  | ShownReceipt 'r
  | GotLog "'sig verifiable_log"
  | VerifiedLog "'sig verifiable_log"
  | MultiProof "(hash list \<times> merkle_multi_proof) option"

record ('l, 'e) printed =
  pd_lines :: "'l list"
  pd_end :: "('e + unit) run"

definition ends_with :: "('e + unit) run \<Rightarrow> ('l, 'e) printed" where
  "ends_with r = \<lparr>pd_lines = [], pd_end = r\<rparr>"

definition prints :: "'l \<Rightarrow> ('l, 'e) printed \<Rightarrow> ('l, 'e) printed" where
  "prints l p = p\<lparr>pd_lines := l # pd_lines p\<rparr>"

definition followed_by :: "('l, 'e) printed \<Rightarrow> ('l, 'e) printed \<Rightarrow> ('l, 'e) printed" where
  "followed_by p q =
     (case pd_end p of
        Inr (Inr u) \<Rightarrow> q\<lparr>pd_lines := pd_lines p @ pd_lines q\<rparr>
      | _ \<Rightarrow> p)"

lemma printed_simps [simp]:
  "pd_lines (ends_with r) = []" "pd_end (ends_with r) = r"
  "pd_lines (prints l p) = l # pd_lines p" "pd_end (prints l p) = pd_end p"
  by (simp_all add: ends_with_def prints_def)

lemma followed_by_end:
  "pd_end (followed_by p q) = Inr (Inr ()) \<longleftrightarrow> pd_end p = Inr (Inr ()) \<and> pd_end q = Inr (Inr ())"
  by (auto simp: followed_by_def split: sum.split)

section \<open>The loops over logs\<close>

text \<open>\<^verbatim>\<open>expect\<close> and \<^verbatim>\<open>unwrap\<close> of a failed check panic.\<close>

definition check_log ::
    "crates \<Rightarrow> ('sig \<Rightarrow> hash \<Rightarrow> 'se + address) \<Rightarrow> committee \<Rightarrow> 'sig verifiable_log
      \<Rightarrow> (('r, 'sig) usage_line, 'e) printed" where
  "check_log K recover c log =
     (case vl_verify K recover log c of
        Inl p \<Rightarrow> ends_with (Inl p)
      | Inr (Inl e) \<Rightarrow> ends_with (Inl UnwrapErr)
      | Inr (Inr u) \<Rightarrow>
          prints (VerifiedLog log)
            (case vl_generate_multi_proof K log of
               Inl p \<Rightarrow> ends_with (Inl p)
             | Inr pf \<Rightarrow> prints (MultiProof pf) (ends_with (Inr (Inr ())))))"

fun historical_logs ::
    "crates \<Rightarrow> ('sig \<Rightarrow> hash \<Rightarrow> 'se + address) \<Rightarrow> committee \<Rightarrow> 'sig verifiable_log list
      \<Rightarrow> (('r, 'sig) usage_line, 'e) printed" where
  "historical_logs K recover c [] = ends_with (Inr (Inr ()))"
| "historical_logs K recover c (log # found) =
     followed_by (check_log K recover c log) (historical_logs K recover c found)"

fun new_logs ::
    "crates \<Rightarrow> ('sig \<Rightarrow> hash \<Rightarrow> 'se + address) \<Rightarrow> committee \<Rightarrow> 'sig verifiable_log list
      \<Rightarrow> (('r, 'sig) usage_line, 'e) printed" where
  "new_logs K recover c [] = ends_with (Inr (Inr ()))"
| "new_logs K recover c (log # stream) =
     prints (GotLog log) (followed_by (check_log K recover c log) (new_logs K recover c stream))"

section \<open>\<^verbatim>\<open>usage.rs\<close>\<close>

definition usage_recipient :: address where
  "usage_recipient = 0xC7096D019F96faE581361aFB07311cd6D3a25596"

definition usage_contract :: address where
  "usage_contract = 0x4CF3F1637bfEf1534e56352B6ebAae243aF464c3"

definition usage_filter :: "'fs \<Rightarrow> (address \<Rightarrow> 'fs) \<Rightarrow> 'fs log_filter run" where
  "usage_filter no_address into_filter_set =
     map_ok lfb_build
       (lfb_event_signature BidSubmitted_hash
         (lfb_address (into_filter_set usage_contract)
           (LogFilterBuilder (log_filter_default no_address))))"

text \<open>The answers of the node that a provider reaches, one per call of the program.\<close>

record ('p, 'fs, 'al, 'y, 'pending, 'e1, 'e2, 'r, 'data, 'x, 'sig, 'id, 'sub) usage_node =
  un_committee :: "'p \<Rightarrow> 'fs rpc_call \<Rightarrow> ('data, 'x) rpc_error + committee"
  un_send :: "'p \<Rightarrow> ('al, 'y) pod_request \<Rightarrow> 'e1 + 'pending"
  un_receipt :: "'p \<Rightarrow> 'pending \<Rightarrow> 'e2 + 'r"
  un_wait :: "'p \<Rightarrow> 'fs rpc_call \<Rightarrow> nat \<Rightarrow> ('data, 'x) rpc_error + string"
  un_logs :: "'p \<Rightarrow> 'fs rpc_call \<Rightarrow> ('data, 'x) rpc_error + 'sig verifiable_log list"
  un_subscribe :: "'p \<Rightarrow> 'fs rpc_call \<Rightarrow> ('data, 'x) rpc_error + 'id"
  un_subscription :: "'p \<Rightarrow> 'id \<Rightarrow> ('data, 'x) rpc_error + 'sub"
  un_stream :: "'sub \<Rightarrow> 'sig verifiable_log list"

datatype (plugins only: code) ('pe, 'e) usage_error = NoProvider 'pe | CallFailed 'e

text \<open>From the filter on: \<open>clock\<close> is read by \<^verbatim>\<open>Timestamp::now\<close>.\<close>

definition usage_logs where
  "usage_logs K recover N p no_address into_filter_set c =
     (case usage_filter no_address into_filter_set of
        Inl e \<Rightarrow> ends_with (Inl e)
      | Inr flt \<Rightarrow>
          (case get_verifiable_logs (un_logs N p) flt of
             Inl e \<Rightarrow> ends_with (Inr (Inl (CallFailed e)))
           | Inr found \<Rightarrow>
               followed_by (historical_logs K recover c found)
                 (case subscribe_verifiable_logs (un_subscribe N p) (un_subscription N p) flt of
                    Inl e \<Rightarrow> ends_with (Inr (Inl (CallFailed e)))
                  | Inr sub \<Rightarrow> new_logs K recover c (un_stream N sub))))"

definition usage_main where
  "usage_main K recover R N provider clock no_address into_filter_set =
     (case provider of
        Inl e \<Rightarrow> ends_with (Inr (Inl (NoProvider e)))
      | Inr p \<Rightarrow>
          (case get_committee (un_committee N p) of
             Inl e \<Rightarrow> ends_with (Inr (Inl (CallFailed e)))
           | Inr c \<Rightarrow> prints (ShownCommittee c)
               (case transfer R (un_send N p) (un_receipt N p) usage_recipient 1000000 of
                  Inl e \<Rightarrow> ends_with (Inl UnwrapErr)
                | Inr r \<Rightarrow> prints (ShownReceipt r)
                    (case timestamp_now clock of
                       Inl e \<Rightarrow> ends_with (Inl e)
                     | Inr now \<Rightarrow>
                         (case wo_result (wait_past_perfect_time (un_wait N p) now) of
                            Inl e \<Rightarrow> ends_with (Inr (Inl (CallFailed e)))
                          | Inr u \<Rightarrow> usage_logs K recover N p no_address into_filter_set c)))))"

section \<open>\<^verbatim>\<open>watch_events.rs\<close>\<close>

definition watched_contract :: address where
  "watched_contract = 0x12296f2d128530a834460df6c36a2895b793f26d"

definition watched_signature :: hash where
  "watched_signature = 0x98b6b180756c849b5bfbbd2bbd091f3fe64b0935ac195418c0b619b9b661c78d"

definition watched_filter :: "'fs \<Rightarrow> (address \<Rightarrow> 'fs) \<Rightarrow> 'fs log_filter run" where
  "watched_filter no_address into_filter_set =
     map_ok (\<lambda>b. lfb_build (lfb_address (into_filter_set watched_contract) b))
       (lfb_event_signature watched_signature (lfb_new no_address))"

text \<open>Here every failure is unwrapped.\<close>

definition watch_events_main where
  "watch_events_main K recover N provider no_address into_filter_set =
     (case provider of
        Inl e \<Rightarrow> ends_with (Inl UnwrapErr)
      | Inr p \<Rightarrow>
          (case get_committee (un_committee N p) of
             Inl e \<Rightarrow> ends_with (Inl UnwrapErr)
           | Inr c \<Rightarrow>
               (case watched_filter no_address into_filter_set of
                  Inl e \<Rightarrow> ends_with (Inl e)
                | Inr flt \<Rightarrow>
                    (case subscribe_verifiable_logs (un_subscribe N p) (un_subscription N p) flt of
                       Inl e \<Rightarrow> ends_with (Inl UnwrapErr)
                     | Inr sub \<Rightarrow> new_logs K recover c (un_stream N sub)))))"

section \<open>\<^verbatim>\<open>watch_account_receipts.rs\<close>\<close>

text \<open>
  A subscription: the receipts it still yields, and whether it ends after them.  A stream
  that has ended yields \<open>None\<close> whenever it is polled; one that stays open leaves its branch of
  \<^verbatim>\<open>tokio::select!\<close> pending.
\<close>

record 'r receipt_stream =
  rs_items :: "'r list"
  rs_ends :: bool

datatype (plugins only: code) 'r receipt_line = AccountReceipt "'r option" | AnyReceipt "'r option"

record 'r receipts_sys =
  wr_account :: "'r receipt_stream"
  wr_any :: "'r receipt_stream"
  wr_lines :: "'r receipt_line list"

definition receipts_init :: "'r receipt_stream \<Rightarrow> 'r receipt_stream \<Rightarrow> 'r receipts_sys" where
  "receipts_init account any = \<lparr>wr_account = account, wr_any = any, wr_lines = []\<rparr>"

text \<open>\<^verbatim>\<open>stream.next()\<close>: pending, or what it yields and the stream after it.\<close>

definition next_receipt :: "'r receipt_stream \<Rightarrow> ('r option \<times> 'r receipt_stream) option" where
  "next_receipt st =
     (case rs_items st of
        r # rs \<Rightarrow> Some (Some r, st\<lparr>rs_items := rs\<rparr>)
      | [] \<Rightarrow> if rs_ends st then Some (None, st) else None)"

definition watched_account :: address where
  "watched_account = 0xbabebabebabe0000000000000000000000000000"

text \<open>Both subscriptions are made before the loop; a failure is unwrapped.\<close>

definition watch_receipts_main ::
    "'pe + 'p \<Rightarrow> ('p \<Rightarrow> 'fs rpc_call \<Rightarrow> 'e + 'id) \<Rightarrow> ('p \<Rightarrow> 'id \<Rightarrow> 'e + 'sub) \<Rightarrow> ('sub \<Rightarrow> 'r receipt_stream)
      \<Rightarrow> 'r receipts_sys run" where
  "watch_receipts_main provider request get_subscription into_stream =
     (case provider of
        Inl e \<Rightarrow> Inl UnwrapErr
      | Inr p \<Rightarrow>
          (case subscribe_receipts (request p) (get_subscription p) (Some watched_account) timestamp_zero of
             Inl e \<Rightarrow> Inl UnwrapErr
           | Inr account \<Rightarrow>
               (case subscribe_receipts (request p) (get_subscription p) None timestamp_zero of
                  Inl e \<Rightarrow> Inl UnwrapErr
                | Inr any \<Rightarrow> Inr (receipts_init (into_stream account) (into_stream any)))))"

inductive receipts_step :: "'r receipts_sys \<Rightarrow> 'r receipts_sys \<Rightarrow> bool" where
  account_branch: "next_receipt (wr_account s) = Some (receipt, st)
    \<Longrightarrow> receipts_step s (s\<lparr>wr_account := st, wr_lines := wr_lines s @ [AccountReceipt receipt]\<rparr>)"
| any_branch: "next_receipt (wr_any s) = Some (receipt, st)
    \<Longrightarrow> receipts_step s (s\<lparr>wr_any := st, wr_lines := wr_lines s @ [AnyReceipt receipt]\<rparr>)"

inductive_cases receipts_stepE: "receipts_step s s'"

inductive_simps receipts_step_iff: "receipts_step s s'"

section \<open>The loops over logs\<close>

text \<open>A log passes when its receipt is attested and has a log at its index.\<close>

definition log_passes where
  "log_passes K recover c log \<longleftrightarrow>
     attested K recover c log
     \<and> (\<forall>i. rl_log_index (inner log) = Some i \<longrightarrow> unat i < length (logs (vl_receipt (pod_metadata log))))"

text \<open>What is shown for a log that passes.\<close>

definition proof_of :: "crates \<Rightarrow> 'sig verifiable_log \<Rightarrow> (hash list \<times> merkle_multi_proof) option" where
  "proof_of K log = (case vl_generate_multi_proof K log of Inr pf \<Rightarrow> pf | Inl p \<Rightarrow> None)"

lemma multi_proof_cases:
  assumes "packed_law K" "leaves_collision_free K (leaves_of (append_receipt K) (vl_receipt (pod_metadata log)))"
  obtains (no_index) "rl_log_index (inner log) = None" "vl_generate_multi_proof K log = Inr None"
  | (in_range) i root ls mp where "rl_log_index (inner log) = Some i"
      "unat i < length (logs (vl_receipt (pod_metadata log)))"
      "vl_generate_multi_proof K log = Inr (Some (ls, mp))"
      "hash_receipt K (vl_receipt (pod_metadata log)) = Inr root"
      "standard_verify_multi_proof K root ls mp = Inr True"
  | (out_of_range) i where "rl_log_index (inner log) = Some i"
      "length (logs (vl_receipt (pod_metadata log))) \<le> unat i"
      "vl_generate_multi_proof K log = Inl IndexOutOfBounds"
proof (cases "rl_log_index (inner log)")
  case None
  then show ?thesis by (intro no_index) (simp_all add: vl_generate_multi_proof_def)
next
  case (Some i)
  show ?thesis
  proof (cases "unat i < length (logs (vl_receipt (pod_metadata log)))")
    case True
    from log_multi_proof_verifies [OF assms True] show ?thesis
      using Some True by (auto intro: in_range simp: vl_generate_multi_proof_def)
  next
    case False
    then have "length (logs (vl_receipt (pod_metadata log))) \<le> unat i" by simp
    with Some show ?thesis
      by (intro out_of_range [of i]) (simp_all add: vl_generate_multi_proof_def generate_multi_proof_for_log_def)
  qed
qed

lemma check_log_spec:
  assumes "packed_law K" "leaves_collision_free K (leaves_of (append_receipt K) (vl_receipt (pod_metadata log)))"
  shows "if log_passes K recover c log
    then check_log K recover c log = \<lparr>pd_lines = [VerifiedLog log, MultiProof (proof_of K log)], pd_end = Inr (Inr ())\<rparr>
    else \<exists>p. check_log K recover c log
      = \<lparr>pd_lines = (if attested K recover c log then [VerifiedLog log] else []), pd_end = Inl p\<rparr>"
proof (cases log rule: log_stream.verify_cases [where K = K and recover = recover and c = c])
  case ok
  show ?thesis
    by (rule multi_proof_cases [OF assms])
      (simp_all add: ok check_log_def log_passes_def proof_of_def prints_def ends_with_def)
next
  case (refused e)
  then show ?thesis by (simp add: check_log_def log_passes_def ends_with_def)
qed

lemma check_log_ok:
  assumes "packed_law K" "leaves_collision_free K (leaves_of (append_receipt K) (vl_receipt (pod_metadata log)))"
  shows "pd_end (check_log K recover c log :: (('r, 'sig) usage_line, 'e) printed) = Inr (Inr ()) \<longleftrightarrow> log_passes K recover c log"
proof -
  define r :: "(('r, 'sig) usage_line, 'e) printed" where "r = check_log K recover c log"
  have "if log_passes K recover c log
      then r = \<lparr>pd_lines = [VerifiedLog log, MultiProof (proof_of K log)], pd_end = Inr (Inr ())\<rparr>
      else \<exists>p. r = \<lparr>pd_lines = (if attested K recover c log then [VerifiedLog log] else []), pd_end = Inl p\<rparr>"
    unfolding r_def by (rule check_log_spec [OF assms])
  then show ?thesis by (auto simp: r_def [symmetric] split: if_splits)
qed

lemma historical_logs_ok:
  assumes "packed_law K"
    and "\<And>log. log \<in> set found \<Longrightarrow> leaves_collision_free K (leaves_of (append_receipt K) (vl_receipt (pod_metadata log)))"
  shows "pd_end (historical_logs K recover c found) = Inr (Inr ()) \<longleftrightarrow> (\<forall>log \<in> set found. log_passes K recover c log)"
  using assms(2)
proof (induction found)
  case (Cons log found)
  then show ?case
    by (simp add: followed_by_end check_log_ok [OF assms(1) Cons.prems])
qed simp

lemma new_logs_ok:
  assumes "packed_law K"
    and "\<And>log. log \<in> set found \<Longrightarrow> leaves_collision_free K (leaves_of (append_receipt K) (vl_receipt (pod_metadata log)))"
  shows "pd_end (new_logs K recover c found) = Inr (Inr ()) \<longleftrightarrow> (\<forall>log \<in> set found. log_passes K recover c log)"
  using assms(2)
proof (induction found)
  case (Cons log found)
  then show ?case
    by (simp add: followed_by_end check_log_ok [OF assms(1) Cons.prems])
qed simp

text \<open>Lines that claim no more than what was checked.\<close>

definition lines_sound :: "crates \<Rightarrow> ('sig \<Rightarrow> hash \<Rightarrow> 'se + address) \<Rightarrow> committee \<Rightarrow> ('r, 'sig) usage_line list \<Rightarrow> bool" where
  "lines_sound K recover c ls \<longleftrightarrow>
     (\<forall>v. VerifiedLog v \<in> set ls \<longrightarrow> attested K recover c v)
     \<and> (\<forall>hs mp. MultiProof (Some (hs, mp)) \<in> set ls \<longrightarrow>
          (\<exists>v root. VerifiedLog v \<in> set ls \<and> hash_receipt K (vl_receipt (pod_metadata v)) = Inr root
             \<and> standard_verify_multi_proof K root hs mp = Inr True))"

lemma lines_sound_Nil [simp]: "lines_sound K recover c []"
  by (simp add: lines_sound_def)

lemma lines_sound_GotLog [simp]: "lines_sound K recover c (GotLog v # ls) \<longleftrightarrow> lines_sound K recover c ls"
  by (simp add: lines_sound_def)

lemma lines_sound_append: "\<lbrakk>lines_sound K recover c ls; lines_sound K recover c ls'\<rbrakk> \<Longrightarrow> lines_sound K recover c (ls @ ls')"
  by (simp add: lines_sound_def) blast

lemma lines_sound_followed_by:
  "\<lbrakk>lines_sound K recover c (pd_lines p); lines_sound K recover c (pd_lines q)\<rbrakk>
    \<Longrightarrow> lines_sound K recover c (pd_lines (followed_by p q))"
  by (auto simp: followed_by_def lines_sound_append split: sum.split)

lemma lines_sound_check:
  assumes "packed_law K" "leaves_collision_free K (leaves_of (append_receipt K) (vl_receipt (pod_metadata log)))"
  shows "lines_sound K recover c (pd_lines (check_log K recover c log))"
proof (cases log rule: log_stream.verify_cases [where K = K and recover = recover and c = c])
  case ok
  show ?thesis
    by (rule multi_proof_cases [OF assms]) (simp_all add: ok check_log_def lines_sound_def)
next
  case (refused e)
  then show ?thesis by (simp add: check_log_def)
qed

lemma lines_sound_historical:
  assumes "packed_law K"
    and "\<And>log. log \<in> set found \<Longrightarrow> leaves_collision_free K (leaves_of (append_receipt K) (vl_receipt (pod_metadata log)))"
  shows "lines_sound K recover c (pd_lines (historical_logs K recover c found))"
  using assms(2) by (induction found) (simp_all add: lines_sound_followed_by lines_sound_check [OF assms(1)])

lemma lines_sound_new:
  assumes "packed_law K"
    and "\<And>log. log \<in> set found \<Longrightarrow> leaves_collision_free K (leaves_of (append_receipt K) (vl_receipt (pod_metadata log)))"
  shows "lines_sound K recover c (pd_lines (new_logs K recover c found))"
  using assms(2) by (induction found) (simp_all add: lines_sound_followed_by lines_sound_check [OF assms(1)])

text \<open>What is relied on: the receipts that the node answers with have leaves without collision.\<close>

definition node_collision_free where
  "node_collision_free K N \<longleftrightarrow>
     (\<forall>p call found. un_logs N p call = Inr found \<longrightarrow>
        (\<forall>log \<in> set found. leaves_collision_free K (leaves_of (append_receipt K) (vl_receipt (pod_metadata log)))))
     \<and> (\<forall>sub. \<forall>log \<in> set (un_stream N sub).
          leaves_collision_free K (leaves_of (append_receipt K) (vl_receipt (pod_metadata log))))"

lemma node_collision_freeD:
  assumes "node_collision_free K N"
  shows "\<lbrakk>get_verifiable_logs (un_logs N p) flt = Inr found; log \<in> set found\<rbrakk>
      \<Longrightarrow> leaves_collision_free K (leaves_of (append_receipt K) (vl_receipt (pod_metadata log)))"
    and "log \<in> set (un_stream N sub) \<Longrightarrow> leaves_collision_free K (leaves_of (append_receipt K) (vl_receipt (pod_metadata log)))"
  using assms by (auto simp: node_collision_free_def get_verifiable_logs_def)

lemma usage_logs_sound:
  assumes "packed_law K" "node_collision_free K N"
  shows "lines_sound K recover c (pd_lines (usage_logs K recover N p no_address ifs c))"
  by (auto simp: usage_logs_def split: sum.split
      intro!: lines_sound_followed_by lines_sound_historical [OF assms(1) node_collision_freeD(1) [OF assms(2)]]
        lines_sound_new [OF assms(1) node_collision_freeD(2) [OF assms(2)]])

lemma usage_logs_ok:
  assumes "packed_law K" "node_collision_free K N"
  shows "pd_end (usage_logs K recover N p no_address ifs c) = Inr (Inr ()) \<longleftrightarrow>
    (\<exists>flt found sub. usage_filter no_address ifs = Inr flt
       \<and> get_verifiable_logs (un_logs N p) flt = Inr found
       \<and> subscribe_verifiable_logs (un_subscribe N p) (un_subscription N p) flt = Inr sub
       \<and> (\<forall>log \<in> set found \<union> set (un_stream N sub). log_passes K recover c log))"
proof (cases "usage_filter no_address ifs")
  case flt: (Inr flt)
  show ?thesis
  proof (cases "get_verifiable_logs (un_logs N p) flt")
    case found: (Inr found)
    show ?thesis
      using flt found
      by (cases "subscribe_verifiable_logs (un_subscribe N p) (un_subscription N p) flt")
        (auto simp: usage_logs_def followed_by_end historical_logs_ok [OF assms(1) node_collision_freeD(1) [OF assms(2) found]]
          new_logs_ok [OF assms(1) node_collision_freeD(2) [OF assms(2)]])
  qed (auto simp: usage_logs_def flt)
qed (auto simp: usage_logs_def)

section \<open>The loop over two streams\<close>

definition is_empty_line :: "'r receipt_line \<Rightarrow> bool" where
  "is_empty_line l \<longleftrightarrow> l = AccountReceipt None \<or> l = AnyReceipt None"

definition account_shown :: "'r receipt_line list \<Rightarrow> 'r list" where
  "account_shown ls = concat (map (\<lambda>l. case l of AccountReceipt (Some r) \<Rightarrow> [r] | _ \<Rightarrow> []) ls)"

definition any_shown :: "'r receipt_line list \<Rightarrow> 'r list" where
  "any_shown ls = concat (map (\<lambda>l. case l of AnyReceipt (Some r) \<Rightarrow> [r] | _ \<Rightarrow> []) ls)"

text \<open>Shown and outstanding receipts are those of the streams, and every step shows one line.\<close>

definition receipts_inv :: "'r receipt_stream \<Rightarrow> 'r receipt_stream \<Rightarrow> nat \<Rightarrow> 'r receipts_sys \<Rightarrow> bool" where
  "receipts_inv account any n s \<longleftrightarrow>
     account_shown (wr_lines s) @ rs_items (wr_account s) = rs_items account
     \<and> any_shown (wr_lines s) @ rs_items (wr_any s) = rs_items any
     \<and> rs_ends (wr_account s) = rs_ends account \<and> rs_ends (wr_any s) = rs_ends any
     \<and> length (wr_lines s) = n
     \<and> n = length (account_shown (wr_lines s)) + length (any_shown (wr_lines s))
         + length (filter is_empty_line (wr_lines s))"

lemmas receipt_line_defs = is_empty_line_def account_shown_def any_shown_def

lemma receipts_step_inv:
  assumes "receipts_step s s'" "receipts_inv account any n s"
  shows "receipts_inv account any (Suc n) s'"
  using assms
  by (auto elim!: receipts_stepE simp: receipts_inv_def next_receipt_def receipt_line_defs split: list.splits if_splits)

lemma receipts_steps_inv:
  "(receipts_step ^^ n) (receipts_init account any) s \<Longrightarrow> receipts_inv account any n s"
proof (induction n arbitrary: s)
  case 0
  then show ?case by (auto simp: receipts_inv_def receipts_init_def receipt_line_defs)
next
  case (Suc n)
  then show ?case by (auto intro: receipts_step_inv)
qed

lemma receipts_progress:
  "(\<exists>s'. receipts_step s s') \<longleftrightarrow>
    rs_items (wr_account s) \<noteq> [] \<or> rs_items (wr_any s) \<noteq> [] \<or> rs_ends (wr_account s) \<or> rs_ends (wr_any s)"
  by (auto simp: receipts_step_iff next_receipt_def split: list.splits if_splits)

text \<open>A sample node: it has one attested log, and its subscription yields nothing.\<close>

definition sample_usage_node ::
    "(unit, address, unit, unit, unit, unit, unit, nat, unit, unit, address, nat, nat) usage_node" where
  "sample_usage_node =
     \<lparr>un_committee = (\<lambda>p call. Inr (committee_new [1, 2, 3] 2)), un_send = (\<lambda>p tx. Inr ()),
      un_receipt = (\<lambda>p t. Inr 7), un_wait = (\<lambda>p call n. Inl (OtherRpcError ())),
      un_logs = (\<lambda>p call. Inr [sample_verifiable_log]), un_subscribe = (\<lambda>p call. Inr 5),
      un_subscription = (\<lambda>p i. Inr i), un_stream = (\<lambda>sub. [])\<rparr>"

lemma sample_node_collision_free: "node_collision_free tiny_crates sample_usage_node"
  by (simp add: node_collision_free_def sample_usage_node_def sample_receipt_collision_free)

lemma usage_filter_total: "\<exists>flt. usage_filter no_address ifs = Inr flt"
  by (simp add: usage_filter_def lfb_event_signature_def lfb_topic_def lfb_address_def log_filter_default_def)

section \<open>Properties\<close>

text \<open>
  The usage example succeeds exactly when the provider connects, every call but the wait
  is answered, the clock is past the epoch, and every log, queried or streamed, has an
  attested receipt with a log at its index.  What the node answers while the program waits
  for the past perfect time has no part in it.
\<close>

theorem usage_main_succeeds:
  assumes "packed_law K" "node_collision_free K N"
  shows "pd_end (usage_main K recover R N provider clock no_address ifs) = Inr (Inr ()) \<longleftrightarrow>
    (\<exists>p c r now flt found sub. provider = Inr p
       \<and> get_committee (un_committee N p) = Inr c
       \<and> transfer R (un_send N p) (un_receipt N p) usage_recipient 1000000 = Inr r
       \<and> timestamp_now clock = Inr now
       \<and> usage_filter no_address ifs = Inr flt
       \<and> get_verifiable_logs (un_logs N p) flt = Inr found
       \<and> subscribe_verifiable_logs (un_subscribe N p) (un_subscription N p) flt = Inr sub
       \<and> (\<forall>log \<in> set found \<union> set (un_stream N sub). log_passes K recover c log))"
  by (cases provider; cases "timestamp_now clock")
    (simp_all add: usage_main_def usage_logs_ok [OF assms] split: sum.split)

lemma sample_node_answers:
  "get_committee (un_committee sample_usage_node p) = Inr (committee_new [1, 2, 3] 2)"
  "transfer sample_request_ops (un_send sample_usage_node p) (un_receipt sample_usage_node p) usage_recipient 1000000 = Inr 7"
  "get_verifiable_logs (un_logs sample_usage_node p) flt = Inr [sample_verifiable_log]"
  "subscribe_verifiable_logs (un_subscribe sample_usage_node p) (un_subscription sample_usage_node p) flt = Inr 5"
  "un_stream sample_usage_node 5 = []"
  by (simp_all add: get_committee_def transfer_def get_verifiable_logs_def subscribe_verifiable_logs_def
      websocket_subscribe_def sample_usage_node_def)

lemma sample_log_passes: "log_passes tiny_crates sample_signer (committee_new [1, 2, 3] 2) sample_verifiable_log"
  by (simp add: log_passes_def sample_attested)

lemma sample_clock: "timestamp_now 5000 = Inr (from_micros 5)"
  by (simp add: timestamp_now_def timestamp_from_system_time_def)

lemma sample_multi_proof:
  "\<exists>hs mp. vl_generate_multi_proof tiny_crates sample_verifiable_log = Inr (Some (hs, mp))"
proof -
  have "leaves_collision_free tiny_crates (leaves_of (append_receipt tiny_crates) (vl_receipt (pod_metadata sample_verifiable_log)))"
    using sample_receipt_collision_free by simp
  from tiny_packed_law this show ?thesis
    by (rule multi_proof_cases) simp_all
qed

lemma sample_usage_lines:
  "\<exists>hs mp. pd_lines (usage_main tiny_crates sample_signer sample_request_ops sample_usage_node (Inr () :: unit + unit) 5000 0 id)
    = [ShownCommittee (committee_new [1, 2, 3] 2), ShownReceipt 7, VerifiedLog sample_verifiable_log, MultiProof (Some (hs, mp))]"
proof -
  obtain flt where flt: "usage_filter (0 :: address) id = Inr flt" using usage_filter_total [of "0 :: address" id] by blast
  obtain hs mp where mp: "vl_generate_multi_proof tiny_crates sample_verifiable_log = Inr (Some (hs, mp))"
    using sample_multi_proof by blast
  have ok: "vl_verify tiny_crates sample_signer sample_verifiable_log (committee_new [1, 2, 3] 2) = Inr (Inr ())"
    by (simp only: vl_verify_attested sample_attested)
  have "usage_logs tiny_crates sample_signer sample_usage_node p (0 :: address) id (committee_new [1, 2, 3] 2)
      = (\<lparr>pd_lines = [VerifiedLog sample_verifiable_log, MultiProof (Some (hs, mp))], pd_end = Inr (Inr ())\<rparr>
          :: ((nat, address) usage_line, (unit, (unit, unit) rpc_error) usage_error) printed)" for p
    by (simp only: usage_logs_def flt sample_node_answers sum.case historical_logs.simps new_logs.simps check_log_def ok mp)
      (simp add: followed_by_def prints_def ends_with_def)
  then show ?thesis
    by (simp add: usage_main_def sample_clock sample_node_answers)
qed

theorem usage_main_succeeds_witness:
  "pd_end (usage_main tiny_crates sample_signer sample_request_ops sample_usage_node (Inr () :: unit + unit)
     5000 0 id) = Inr (Inr ())"
proof -
  obtain flt where "usage_filter 0 id = Inr flt" using usage_filter_total [of "0 :: address" id] by blast
  then show ?thesis
    unfolding usage_main_succeeds [OF tiny_packed_law sample_node_collision_free] sample_clock sample_node_answers
    by (simp add: sample_node_answers sample_log_passes)
qed

text \<open>
  C12. Whatever the node answers, a log that the usage example calls verified has a receipt
  attested by the committee it has shown before, and every multiproof it shows is accepted
  against the hash of the receipt of a log it has called verified.
\<close>

theorem usage_shows_sound:
  assumes "packed_law K" "node_collision_free K N"
    and "ls = pd_lines (usage_main K recover R N provider clock no_address ifs)"
  shows "(\<forall>v. VerifiedLog v \<in> set ls \<longrightarrow> (\<exists>c. ShownCommittee c \<in> set ls \<and> attested K recover c v))
    \<and> (\<forall>hs mp. MultiProof (Some (hs, mp)) \<in> set ls \<longrightarrow>
        (\<exists>v root. VerifiedLog v \<in> set ls \<and> hash_receipt K (vl_receipt (pod_metadata v)) = Inr root
           \<and> standard_verify_multi_proof K root hs mp = Inr True))"
proof (cases "\<exists>p c. provider = Inr p \<and> get_committee (un_committee N p) = Inr c")
  case True
  then obtain p c where p: "provider = Inr p" "get_committee (un_committee N p) = Inr c" by blast
  show ?thesis
    using usage_logs_sound [OF assms(1,2), of recover c p no_address ifs]
    by (auto simp: assms(3) usage_main_def p lines_sound_def split: sum.split)
next
  case False
  then show ?thesis by (auto simp: assms(3) usage_main_def split: sum.split)
qed

theorem usage_shows_sound_witness:
  "\<exists>(v :: address verifiable_log) hs mp root. hash_receipt tiny_crates (vl_receipt (pod_metadata v)) = Inr root
     \<and> standard_verify_multi_proof tiny_crates root hs mp = Inr True"
proof -
  obtain hs mp where shown: "MultiProof (Some (hs, mp)) \<in> set (pd_lines (usage_main tiny_crates sample_signer
      sample_request_ops sample_usage_node (Inr () :: unit + unit) 5000 0 id))"
    using sample_usage_lines by (metis list.set_intros)
  from usage_shows_sound [OF tiny_packed_law sample_node_collision_free refl, THEN conjunct2, rule_format, OF shown]
  show ?thesis by blast
qed

text \<open>
  The events example asks for a signature hash that is not the auction's: a node that
  applies its filter never lets a bid through, while the filter of the usage example lets
  every bid through.
\<close>

theorem watched_filter_passes_no_bid:
  assumes "BidSubmitted_encode_topics_raw W e (replicate 4 0) = Inr (Inr topics)"
  shows "\<exists>watched usage. watched_filter no_address ifs = Inr watched \<and> \<not> filter_matches watched topics
    \<and> usage_filter no_address ifs = Inr usage \<and> filter_matches usage topics"
  using assms
  by (auto simp: watched_filter_def usage_filter_def lfb_event_signature_def lfb_topic_def lfb_new_def lfb_address_def
      lfb_build_def log_filter_default_def set_at_def filter_matches_def BidSubmitted_encode_topics_raw_def
      BidSubmitted_hash_def BidSubmitted_bytes_def b256_def watched_signature_def upt_rec)

text \<open>
  C22. The loop over the two receipt streams never ends.  Each receipt is shown once and in
  its stream's order; once a subscription has ended, however, the loop can always take
  another step, so that all but as many lines as there are receipts show no receipt at all.
\<close>

theorem receipts_loop_spins:
  assumes "watch_receipts_main provider request get_subscription into_stream = Inr s0" "(receipts_step ^^ n) s0 s"
  shows "length (wr_lines s) = n
    \<and> account_shown (wr_lines s) = take (length (account_shown (wr_lines s))) (rs_items (wr_account s0))
    \<and> any_shown (wr_lines s) = take (length (any_shown (wr_lines s))) (rs_items (wr_any s0))
    \<and> (rs_ends (wr_account s0) \<or> rs_ends (wr_any s0) \<longrightarrow> (\<exists>s'. receipts_step s s'))
    \<and> n \<le> length (rs_items (wr_account s0)) + length (rs_items (wr_any s0)) + length (filter is_empty_line (wr_lines s))"
proof -
  have "s0 = receipts_init (wr_account s0) (wr_any s0)"
    using assms(1) by (auto simp: watch_receipts_main_def receipts_init_def split: sum.splits)
  then have "receipts_inv (wr_account s0) (wr_any s0) n s" using receipts_steps_inv assms(2) by metis
  moreover from this have "rs_items (wr_account s0) = account_shown (wr_lines s) @ rs_items (wr_account s)"
    "rs_items (wr_any s0) = any_shown (wr_lines s) @ rs_items (wr_any s)"
    by (simp_all add: receipts_inv_def)
  ultimately show ?thesis by (auto simp: receipts_progress receipts_inv_def)
qed

text \<open>The sample's first subscription has ended, and the second stays open with a receipt.\<close>

definition sample_receipts :: "nat receipt_stream \<Rightarrow> nat receipts_sys" where
  "sample_receipts any = receipts_init \<lparr>rs_items = [], rs_ends = True\<rparr> any"

theorem receipts_loop_spins_witness:
  "\<exists>s'. receipts_step ((sample_receipts \<lparr>rs_items = [4], rs_ends = False\<rparr>)\<lparr>wr_lines := [AccountReceipt None]\<rparr>) s'"
proof -
  let ?into = "\<lambda>sub :: nat. if sub = 0 then \<lparr>rs_items = [], rs_ends = True\<rparr> else \<lparr>rs_items = [4 :: nat], rs_ends = False\<rparr>"
  let ?s = "sample_receipts \<lparr>rs_items = [4], rs_ends = False\<rparr>"
  have main: "watch_receipts_main (Inr () :: unit + unit)
      (\<lambda>p call. Inr (if rpc_args call = SubscribeParams ''pod_receipts'' (AddressSinceParams None timestamp_zero) then 1 else 0) :: unit + nat)
      (\<lambda>p i. Inr i) ?into = Inr ?s"
    by (simp add: watch_receipts_main_def subscribe_receipts_def websocket_subscribe_def sample_receipts_def)
  have "receipts_step ?s (?s\<lparr>wr_lines := [AccountReceipt None]\<rparr>)"
    using account_branch [of ?s None "\<lparr>rs_items = [], rs_ends = True\<rparr>"]
    by (simp add: next_receipt_def receipts_init_def sample_receipts_def)
  then have "(receipts_step ^^ 1) ?s (?s\<lparr>wr_lines := [AccountReceipt None]\<rparr>)"
    by (simp only: relpowp_1)
  from receipts_loop_spins [OF main this] show ?thesis by (simp add: sample_receipts_def receipts_init_def)
qed

end
