(* ===== verification/Plc_Contract.thy ===== *)
theory Plc_Contract
  imports Plc
begin

text \<open>
  The contract of the registry, \<^verbatim>\<open>examples/bsky/contract/src/PLCRegistry.sol\<close>, as far as the
  server calls it: \<^verbatim>\<open>add\<close> with everything it checks, and \<^verbatim>\<open>getLastOperation\<close>.  A mapping is a
  total function that starts at the default value; a revert is its reason.  The precompiles, the
  hash and whether the quorum agrees are arguments.
\<close>

section \<open>Storage\<close>

record op_with_metadata =
  om_op :: contract_op
  om_did :: bytes
  om_signature :: bytes

record plc_state =
  ps_operations :: "bytes \<Rightarrow> op_with_metadata"
  ps_latest_ops :: "bytes \<Rightarrow> bytes"
  ps_signer_indices :: "bytes \<Rightarrow> u256"

definition zero_did :: bytes where
  "zero_did = replicate 32 0"

definition no_operation :: op_with_metadata where
  "no_operation =
     \<lparr>om_op = \<lparr>co_type = ContractOperation, co_rotation_keys = [], co_verification_methods = [], co_also_known_as = [],
        co_services = [], co_prev = []\<rparr>,
      om_did = zero_did, om_signature = []\<rparr>"

definition plc_deployed :: plc_state where
  "plc_deployed =
     \<lparr>ps_operations = (\<lambda>cid. no_operation), ps_latest_ops = (\<lambda>did. []), ps_signer_indices = (\<lambda>cid. 0)\<rparr>"

record precompiles =
  pp_test_mode :: bool
  pp_verify_signature :: "bytes \<Rightarrow> bytes \<Rightarrow> bytes \<Rightarrow> bool"
  pp_dag_cbor :: "contract_op \<Rightarrow> bytes option"
  pp_keccak :: "bytes \<Rightarrow> hash"
  pp_quorum :: "bool \<Rightarrow> bool"

section \<open>Checks\<close>

definition verify_signature :: "precompiles \<Rightarrow> bytes \<Rightarrow> bytes \<Rightarrow> bytes \<Rightarrow> bool" where
  "verify_signature P key data sig = (if pp_test_mode P then pp_verify_signature P key data sig else True)"

definition dag_cbor :: "precompiles \<Rightarrow> contract_op \<Rightarrow> string + bytes" where
  "dag_cbor P op =
     (if pp_test_mode P then ok_or ''failed DAG_CBOR precompile call'' (pp_dag_cbor P op)
      else Inr (str_bytes ''dummy_dag_cbor''))"

definition is_equal :: "precompiles \<Rightarrow> bytes \<Rightarrow> bytes \<Rightarrow> bool" where
  "is_equal P a b \<longleftrightarrow> pp_keccak P a = pp_keccak P b"

definition require_quorum :: "precompiles \<Rightarrow> bool \<Rightarrow> string \<Rightarrow> string + unit" where
  "require_quorum P input message = (if pp_quorum P input then Inr () else Inl message)"

text \<open>The loops over rotation keys: the first index from \<open>i\<close> below \<open>n\<close> whose key verifies.\<close>

function first_signer :: "(bytes \<Rightarrow> bool) \<Rightarrow> bytes list \<Rightarrow> nat \<Rightarrow> nat \<Rightarrow> string + nat option" where
  "first_signer verifies keys n i =
     (if n \<le> i then Inr None
      else if length keys \<le> i then Inl ''array out-of-bounds access''
      else if verifies (keys ! i) then Inr (Some i)
      else first_signer verifies keys n (i + 1))"
  by pat_completeness auto

termination first_signer
  by (relation "measure (\<lambda>(verifies, keys, n, i). n - i)") auto

declare first_signer.simps [simp del]

text \<open>The walk back along the previous operations; one that does not end runs out of gas.\<close>

partial_function (option) first_nullified ::
    "precompiles \<Rightarrow> plc_state \<Rightarrow> bytes \<Rightarrow> bytes \<Rightarrow> (string + bytes) option" where
  "first_nullified P st prev cid =
     (let before = co_prev (om_op (ps_operations st cid))
      in if is_equal P before prev then Some (Inr cid)
         else if before = [] then Some (Inl ''No ancestor found!'')
         else first_nullified P st prev before)"

definition validate_op ::
    "precompiles \<Rightarrow> plc_state \<Rightarrow> bytes \<Rightarrow> contract_op \<Rightarrow> bytes \<Rightarrow> string + bool \<times> u256" where
  "validate_op P st did op sig =
     (let last_op = ps_operations st (co_prev op); keys = co_rotation_keys (om_op last_op)
      in if om_did last_op \<noteq> did then Inl ''op.prev operation is for different DID''
         else and_then (dag_cbor P op) (\<lambda>encoded.
           let latest = ps_latest_ops st did
           in if is_equal P latest (co_prev op) then
                and_then (first_signer (\<lambda>key. verify_signature P key encoded sig) keys (length keys) 0) (\<lambda>signer.
                case signer of
                  Some i \<Rightarrow> Inr (True, of_nat i)
                | None \<Rightarrow> Inl ''signature invalid (not a fork)'')
              else
                (case first_nullified P st (co_prev op) latest of
                   None \<Rightarrow> Inl ''out of gas''
                 | Some walked \<Rightarrow>
                     and_then walked (\<lambda>first.
                     and_then (first_signer (\<lambda>key. verify_signature P key encoded sig) keys
                         (unat (ps_signer_indices st first)) 0) (\<lambda>signer.
                     and_then (require_quorum P (signer \<noteq> None)
                         ''signature verification failed: signer not authorized to fork history'') (\<lambda>u.
                     Inr (signer \<noteq> None, case signer of Some i \<Rightarrow> of_nat i | None \<Rightarrow> - 1)))))))"

definition validate_creation_op ::
    "precompiles \<Rightarrow> plc_state \<Rightarrow> bytes \<Rightarrow> contract_op \<Rightarrow> bytes \<Rightarrow> string + bool" where
  "validate_creation_op P st did op sig =
     and_then (require_quorum P (ps_latest_ops st did = []) ''An operation for this DID already exists'') (\<lambda>u.
     and_then (dag_cbor P op) (\<lambda>encoded.
     and_then (first_signer (\<lambda>key. verify_signature P key encoded sig) (co_rotation_keys op)
         (length (co_rotation_keys op)) 0) (\<lambda>signer.
     case signer of
       Some i \<Rightarrow> Inr (ps_latest_ops st did = [])
     | None \<Rightarrow> Inl ''signature invalid'')))"

section \<open>Calls\<close>

text \<open>
  What \<^verbatim>\<open>add\<close> finds out before it writes: whether the operation becomes the latest, and its
  signer.  A type that is none of the enum's is refused when the arguments are read.
\<close>

definition plc_validate :: "precompiles \<Rightarrow> plc_state \<Rightarrow> add_call \<Rightarrow> string + bool \<times> u256" where
  "plc_validate P st c =
     (if co_type (ac_operation c) = ContractInvalid then Inl ''''
      else if ac_did c = zero_did then Inl ''DID must not be empty''
      else if co_prev (ac_operation c) = [] then
        map_ok (\<lambda>update_last. (update_last, 0)) (validate_creation_op P st (ac_did c) (ac_operation c) (ac_signature c))
      else validate_op P st (ac_did c) (ac_operation c) (ac_signature c))"

definition plc_add :: "precompiles \<Rightarrow> plc_state \<Rightarrow> add_call \<Rightarrow> string + plc_state" where
  "plc_add P st c =
     map_ok (\<lambda>(update_last, signer_index).
       \<lparr>ps_operations = (ps_operations st)(ac_cid c :=
          \<lparr>om_op = ac_operation c, om_did = ac_did c, om_signature = ac_signature c\<rparr>),
        ps_latest_ops = (if update_last then (ps_latest_ops st)(ac_did c := ac_cid c) else ps_latest_ops st),
        ps_signer_indices = (ps_signer_indices st)(ac_cid c := signer_index)\<rparr>)
     (plc_validate P st c)"

definition plc_last_operation :: "plc_state \<Rightarrow> bytes \<Rightarrow> last_operation" where
  "plc_last_operation st did =
     (let op = ps_operations st (ps_latest_ops st did)
      in \<lparr>lo_operation = om_op op, lo_signature = om_signature op\<rparr>)"

section \<open>What an addition changes\<close>

text \<open>
  An addition that is accepted becomes what is answered for its DID exactly if it was taken as
  the latest or replaces the latest under its own CID; otherwise the answer is as before.
\<close>

lemma last_operation_after_add:
  assumes "plc_add P st c = Inr st'"
  shows "\<exists>update signer. plc_validate P st c = Inr (update, signer)
    \<and> plc_last_operation st' (ac_did c)
      = (if update \<or> ps_latest_ops st (ac_did c) = ac_cid c
         then \<lparr>lo_operation = ac_operation c, lo_signature = ac_signature c\<rparr>
         else plc_last_operation st (ac_did c))"
proof -
  obtain update signer where v: "plc_validate P st c = Inr (update, signer)"
    using assms by (cases "plc_validate P st c") (auto simp: plc_add_def)
  then have "plc_last_operation st' (ac_did c)
      = (if update \<or> ps_latest_ops st (ac_did c) = ac_cid c
         then \<lparr>lo_operation = ac_operation c, lo_signature = ac_signature c\<rparr>
         else plc_last_operation st (ac_did c))"
    using assms by (simp add: plc_add_def plc_last_operation_def Let_def) (elim subst, simp)
  with v show ?thesis by blast
qed

text \<open>An operation that names the latest one as its previous, or is the first, is taken.\<close>

lemma extension_is_taken:
  assumes "plc_validate P st c = Inr (update, signer)"
    and latest: "ps_latest_ops st (ac_did c) = co_prev (ac_operation c)"
  shows "update"
proof (cases "co_prev (ac_operation c) = []")
  case True
  then obtain update' where "validate_creation_op P st (ac_did c) (ac_operation c) (ac_signature c) = Inr update'" "update' = update"
    using assms(1) by (auto simp: plc_validate_def map_ok_def and_then_Inr_iff split: if_splits)
  then show ?thesis
    using latest True by (auto simp: validate_creation_op_def and_then_Inr_iff split: option.splits)
next
  case False
  then have "validate_op P st (ac_did c) (ac_operation c) (ac_signature c) = Inr (update, signer)"
    using assms(1) by (simp add: plc_validate_def split: if_splits)
  then show ?thesis
    by (simp add: validate_op_def latest is_equal_def Let_def and_then_Inr_iff split: if_splits)
       (auto split: option.splits)
qed

end
