(* ===== verification/Plc_Server.thy ===== *)
theory Plc_Server
  imports Plc_Contract Provider
begin

text \<open>
  The server of \<^verbatim>\<open>examples/bsky/plc/src/main.rs\<close>: its routes, what becomes of a request,
  and its start.  The web framework's matching of a path against a pattern, its reading of a
  JSON body and the socket are arguments; the framework answers by itself when no pattern or
  method fits, or a part of the request cannot be read.  What the server says about a DID after
  an addition is shown for the contract of \<open>Plc_Contract\<close>.
\<close>

section \<open>Routes\<close>

datatype (plugins only: code) http_method = Get | Post | OtherMethod

datatype (plugins only: code) plc_handler = GetLast | GetData | CreatePlc | Resolve

definition plc_router :: "(string \<times> http_method \<times> plc_handler) list" where
  "plc_router =
     [(''/{did}/log/last'', Get, GetLast),
      (''/{did}/data'', Get, GetData),
      (''/{did}'', Post, CreatePlc),
      (''/{did}'', Get, Resolve)]"

datatype (plugins only: code) plc_json = DocumentJson did_document | OperationJson signed_operation | CreatedJson created

datatype (plugins only: code) plc_reply =
    NoSuchPath
  | MethodNotAllowed
  | BadPath string
  | BadBody string
  | Failed http_status string
  | Replied plc_json

text \<open>
  The framework's choice of a handler: the segment matched as the DID comes with it.  A HEAD
  request is taken as a Get whose reply loses its body.
\<close>

definition find_route ::
    "(string \<Rightarrow> string \<Rightarrow> string option) \<Rightarrow> http_method \<Rightarrow> string \<Rightarrow> plc_reply + plc_handler \<times> string" where
  "find_route match_path meth uri =
     (case filter (\<lambda>(pattern, _). match_path pattern uri \<noteq> None) plc_router of
        [] \<Rightarrow> Inl NoSuchPath
      | routes \<Rightarrow>
          (case find (\<lambda>(_, m, _). m = meth) routes of
             None \<Rightarrow> Inl MethodNotAllowed
           | Some (pattern, m, h) \<Rightarrow> Inr (h, the (match_path pattern uri))))"

section \<open>Requests\<close>

record 'b plc_request =
  hr_method :: http_method
  hr_path :: string
  hr_body :: 'b

text \<open>The contract as the server uses it: the answers to a read, and the calls of an addition.\<close>

record ('c, 'p, 'r, 'se, 're, 'xe) plc_contract =
  pk_get_last :: "bytes \<Rightarrow> 'c + last_operation"
  pk_registry :: "('p, 'r, 'se, 're, 'xe) registry"

text \<open>What else the handlers call: the display of errors, base58, the iteration of maps, DIDs and CIDs.\<close>

record ('c, 'be, 'ce, 'se) plc_crates =
  pl_display_get :: "'c get_error \<Rightarrow> string"
  pl_base58 :: "string \<Rightarrow> 'be + bytes"
  pl_method_entries :: "(string, string) fmap \<Rightarrow> (string \<times> string) list"
  pl_service_entries :: "(string, service) fmap \<Rightarrow> (string \<times> service) list"
  pl_op_did :: "signed_operation \<Rightarrow> ('ce + string) run"
  pl_op_cid :: "signed_operation \<Rightarrow> 'ce + string"
  pl_display_cbor :: "'ce \<Rightarrow> string"
  pl_display_send :: "'se \<Rightarrow> string"

definition reply_of :: "('a \<Rightarrow> plc_json) \<Rightarrow> 'a handler \<Rightarrow> plc_reply run" where
  "reply_of json r =
     map_ok (\<lambda>x. case x of Inl (code, message) \<Rightarrow> Failed code message | Inr v \<Rightarrow> Replied (json v)) r"

definition plc_serve where
  "plc_serve C match_path read_body K request =
     (case find_route match_path (hr_method request) (hr_path request) of
        Inl reply \<Rightarrow> Inr reply
      | Inr (h, segment) \<Rightarrow>
          (case did_deserialize segment of
             Inl e \<Rightarrow> Inr (BadPath e)
           | Inr d \<Rightarrow>
               (case h of
                  GetLast \<Rightarrow> reply_of OperationJson (get_last (pl_display_get C) (pk_get_last K) d)
                | GetData \<Rightarrow> reply_of OperationJson (get_data (pl_display_get C) (pk_get_last K) d)
                | Resolve \<Rightarrow>
                    reply_of DocumentJson
                      (resolve (pl_display_get C) (pl_base58 C) (pl_method_entries C) (pl_service_entries C) (pk_get_last K) d)
                | CreatePlc \<Rightarrow>
                    (case read_body (hr_body request) of
                       Inl e \<Rightarrow> Inr (BadBody e)
                     | Inr op \<Rightarrow>
                         reply_of CreatedJson
                           (create_plc (pl_op_did C) (pl_op_cid C) (pl_display_cbor C) (pl_display_send C)
                             (contract_op_from (pl_method_entries C) (pl_service_entries C)) (pk_registry K) d op)))))"

section \<open>Start\<close>

definition listen_address :: string where
  "listen_address = ''[::]:2582''"

text \<open>Every failure on the way is unwrapped; serving does not return as long as it succeeds.\<close>

definition plc_main ::
    "'ce + 'key plc_config \<Rightarrow> ('key \<Rightarrow> 'signer) \<Rightarrow> ('signer \<Rightarrow> 'w) \<Rightarrow> (string \<Rightarrow> 'te + 'conn) \<Rightarrow> (string \<Rightarrow> 'le + 'l)
      \<Rightarrow> ('l \<Rightarrow> address \<times> ('w, 'conn) pod_provider \<Rightarrow> 'xe + unit) \<Rightarrow> unit run" where
  "plc_main config from_signing_key wallet_new connect bind serve =
     (case config of
        Inl e \<Rightarrow> Inl UnwrapErr
      | Inr c \<Rightarrow>
          (case on_url connect (pc_rpc_url c)
                  (with_private_key from_signing_key wallet_new (pc_private_key c) with_recommended_settings) of
             Inl e \<Rightarrow> Inl UnwrapErr
           | Inr provider \<Rightarrow>
               (case bind listen_address of
                  Inl e \<Rightarrow> Inl UnwrapErr
                | Inr listener \<Rightarrow>
                    (case serve listener (pc_contract_address c, provider) of
                       Inl e \<Rightarrow> Inl UnwrapErr
                     | Inr u \<Rightarrow> Inr ()))))"

section \<open>What the server promises\<close>

text \<open>The framework's matching, as far as it is used: a segment between slashes.\<close>

definition match_law :: "(string \<Rightarrow> string \<Rightarrow> string option) \<Rightarrow> bool" where
  "match_law match_path \<longleftrightarrow>
     (\<forall>s. s \<noteq> [] \<and> CHR ''/'' \<notin> set s \<longrightarrow>
        match_path ''/{did}'' (CHR ''/'' # s) = Some s
        \<and> match_path ''/{did}/data'' (CHR ''/'' # s) = None \<and> match_path ''/{did}/log/last'' (CHR ''/'' # s) = None
        \<and> match_path ''/{did}/data'' (CHR ''/'' # s @ ''/data'') = Some s
        \<and> match_path ''/{did}'' (CHR ''/'' # s @ ''/data'') = None
        \<and> match_path ''/{did}/log/last'' (CHR ''/'' # s @ ''/data'') = None)"

lemma find_route_did:
  assumes "match_law match_path" "s \<noteq> []" "CHR ''/'' \<notin> set s"
  shows "find_route match_path Post (CHR ''/'' # s) = Inr (CreatePlc, s)"
    and "find_route match_path Get (CHR ''/'' # s) = Inr (Resolve, s)"
    and "find_route match_path Get (CHR ''/'' # s @ ''/data'') = Inr (GetData, s)"
    and "find_route match_path Post (CHR ''/'' # s @ ''/data'') = Inl MethodNotAllowed"
  using assms by (simp_all add: match_law_def find_route_def plc_router_def)

text \<open>A DID that was read is displayed as it was read.\<close>

lemma did_read_displayed:
  assumes "rust_string s" "did_deserialize s = Inr d"
  shows "did_display d = Inr s" "did_0 d = str_bytes s"
  using assms by (auto simp: did_deserialize_def did_display_def utf8.decode_encode split: if_splits)

text \<open>
  The node runs the registry's contract: a transaction whose receipt is a success has executed
  \<^verbatim>\<open>add\<close> on the state \<open>st\<close>, which has then become \<open>after\<close> of the call.  Reads are answered from
  a state.
\<close>

definition executes ::
    "('p, 'r, 'se, 're, 'xe) registry \<Rightarrow> precompiles \<Rightarrow> plc_state \<Rightarrow> (add_call \<Rightarrow> plc_state) \<Rightarrow> bool" where
  "executes R P st after \<longleftrightarrow>
     (\<forall>c p receipt. rg_send_add R c = Inr p \<and> rg_get_receipt R p = Inr receipt \<and> rg_status R receipt \<longrightarrow>
        plc_add P st c = Inr (after c))"

definition reads_from ::
    "('c, 'p, 'r, 'se, 're, 'xe) plc_contract \<Rightarrow> plc_state \<Rightarrow> ('c, 'p, 'r, 'se, 're, 'xe) plc_contract" where
  "reads_from K st = K\<lparr>pk_get_last := \<lambda>d. Inr (plc_last_operation st d)\<rparr>"

text \<open>What comes back for an operation: an empty previous CID has become none.\<close>

definition as_read_back :: "signed_operation \<Rightarrow> signed_operation" where
  "as_read_back op =
     op\<lparr>so_op := (if pl_prev (so_op op) = Some [] then (so_op op)\<lparr>pl_prev := None\<rparr> else so_op op)\<rparr>"

definition call_of :: "('c, 'be, 'ce, 'se) plc_crates \<Rightarrow> string \<Rightarrow> string \<Rightarrow> signed_operation \<Rightarrow> add_call" where
  "call_of C s cid op =
     \<lparr>ac_did = str_bytes s, ac_cid = str_bytes cid,
      ac_operation = contract_op_from (pl_method_entries C) (pl_service_entries C) (so_op op),
      ac_signature = str_bytes (so_sig op)\<rparr>"

lemma call_of_simps [simp]:
  "ac_did (call_of C s cid op) = str_bytes s" "ac_cid (call_of C s cid op) = str_bytes cid"
  "ac_operation (call_of C s cid op) = contract_op_from (pl_method_entries C) (pl_service_entries C) (so_op op)"
  "ac_signature (call_of C s cid op) = str_bytes (so_sig op)"
  by (simp_all add: call_of_def)

lemma reply_of_Replied: "reply_of json x = Inr (Replied y) \<longleftrightarrow> (\<exists>v. x = Inr (Inr v) \<and> y = json v)"
proof (cases x)
  case (Inr r)
  then show ?thesis by (cases r) (auto simp: reply_of_def)
qed (simp add: reply_of_def)

lemma serve_data:
  assumes "match_law match_path" "s \<noteq> []" "CHR ''/'' \<notin> set s" "did_deserialize s = Inr d"
  shows "plc_serve C match_path read_body (reads_from K st) \<lparr>hr_method = Get, hr_path = CHR ''/'' # s @ ''/data'', hr_body = b\<rparr>
    = reply_of OperationJson (get_data (pl_display_get C) (\<lambda>d. Inr (plc_last_operation st d)) d)"
  by (simp add: plc_serve_def find_route_did [OF assms(1-3)] assms(4) reads_from_def)

lemma get_data_cong:
  "call (did_0 d) = call' (did_0 d) \<Longrightarrow> get_data display call d = get_data display call' d"
  by (simp add: get_data_def last_op_or_reply_def get_last_operation_def)

lemma get_data_posted:
  assumes "call (did_0 d) = Inr \<lparr>lo_operation = contract_op_from ms ss (so_op op), lo_signature = str_bytes (so_sig op)\<rparr>"
    and "did_display d = Inr shown" "rust_string (so_sig op)"
    and op: "operation_strings ms ss (so_op op)" "collect_map (ms (pl_verification_methods (so_op op))) = pl_verification_methods (so_op op)"
      "collect_map (ss (pl_services (so_op op))) = pl_services (so_op op)"
  shows "reply_of OperationJson (get_data display call d)
    = Inr (if so_sig op = [] then Failed NotFound (''No operations found for DID: '' @ shown)
        else Replied (OperationJson (as_read_back op)))"
proof -
  have "str_bytes (so_sig op) = [] \<longleftrightarrow> so_sig op = []" by (simp add: str_bytes_def)
  then show ?thesis
    by (simp add: get_data_def last_op_or_reply_def get_last_operation_def assms(1,2) as_read_back_def
        op_utf8_str_bytes [OF assms(3)] operation_round_trip [OF op] reply_of_def)
qed

section \<open>Properties\<close>

text \<open>
  C26. After a successful post of an operation, a request for the data of its DID is answered
  with that operation and its signature if the contract took it as the DID's latest, as it does
  whenever the operation names the latest as its previous (or is the first), or if it has the
  latest's CID; a repeated creation or a losing fork leaves the answer as it was, although the
  post succeeded.  What is answered is the operation as posted, except that an empty previous CID
  has become none, and that an operation with an empty signature is not found.
\<close>

theorem posted_operation_served:
  assumes post: "plc_serve C match_path read_body K \<lparr>hr_method = Post, hr_path = CHR ''/'' # s, hr_body = b\<rparr>
      = Inr (Replied (CreatedJson r))"
    and "match_law match_path" "s \<noteq> []" "CHR ''/'' \<notin> set s"
    and "executes (pk_registry K) P st after"
    and op: "read_body b = Inr op" "rust_string (so_sig op)"
      "operation_strings (pl_method_entries C) (pl_service_entries C) (so_op op)"
      "collect_map (pl_method_entries C (pl_verification_methods (so_op op))) = pl_verification_methods (so_op op)"
      "collect_map (pl_service_entries C (pl_services (so_op op))) = pl_services (so_op op)"
  shows "\<exists>cid update signer. pl_op_cid C op = Inr cid
    \<and> (let c = call_of C s cid op;
           answer = (\<lambda>st. plc_serve C match_path read_body (reads_from K st)
             \<lparr>hr_method = Get, hr_path = CHR ''/'' # s @ ''/data'', hr_body = b'\<rparr>)
       in plc_validate P st c = Inr (update, signer)
          \<and> answer (after c) =
              (if update \<or> ps_latest_ops st (str_bytes s) = str_bytes cid
               then Inr (if so_sig op = [] then Failed NotFound (''No operations found for DID: '' @ s)
                         else Replied (OperationJson (as_read_back op)))
               else answer st)
          \<and> (ps_latest_ops st (str_bytes s) = co_prev (ac_operation c) \<longrightarrow> update))"
proof -
  note route = assms(2-4)
  obtain d where d: "did_deserialize s = Inr d"
    using post by (cases "did_deserialize s") (simp_all add: plc_serve_def find_route_did [OF route])
  then have s: "did_0 d = str_bytes s" by (auto simp: did_deserialize_def split: if_splits)
  have "create_plc (pl_op_did C) (pl_op_cid C) (pl_display_cbor C) (pl_display_send C)
      (contract_op_from (pl_method_entries C) (pl_service_entries C)) (pk_registry K) d op = Inr (Inr r)"
    using post by (simp add: plc_serve_def find_route_did [OF route] d op(1) reply_of_Replied)
  note created = create_plc_added [OF this, unfolded s]
  then obtain cid p receipt where cid: "pl_op_cid C op = Inr cid"
      "rg_send_add (pk_registry K) (call_of C s cid op) = Inr p" "rg_get_receipt (pk_registry K) p = Inr receipt"
      "rg_status (pk_registry K) receipt" "did_display d = Inr (cr_did r)"
    by (auto simp: call_of_def)
  have shown: "cr_did r = s" using cid(5) s by (auto simp: did_display_def from_utf8_def split: sum.splits if_splits)
  let ?c = "call_of C s cid op"
  have "plc_add P st ?c = Inr (after ?c)" using assms(5) cid(2-4) by (auto simp: executes_def)
  from last_operation_after_add [OF this] obtain update signer where
    v: "plc_validate P st ?c = Inr (update, signer)" and last: "plc_last_operation (after ?c) (str_bytes s)
      = (if update \<or> ps_latest_ops st (str_bytes s) = str_bytes cid
         then \<lparr>lo_operation = ac_operation ?c, lo_signature = ac_signature ?c\<rparr> else plc_last_operation st (str_bytes s))"
    by auto
  let ?data = "\<lambda>st. reply_of OperationJson (get_data (pl_display_get C) (\<lambda>d. Inr (plc_last_operation st d)) d)"
  have answer: "?data (after ?c) = (if update \<or> ps_latest_ops st (str_bytes s) = str_bytes cid
      then Inr (if so_sig op = [] then Failed NotFound (''No operations found for DID: '' @ s)
                else Replied (OperationJson (as_read_back op)))
      else ?data st)"
  proof (cases "update \<or> ps_latest_ops st (str_bytes s) = str_bytes cid")
    case True
    then show ?thesis
      using last by (subst get_data_posted [OF _ cid(5) op(2-5)]) (simp_all add: s shown)
  next
    case False
    then show ?thesis using last by (simp add: s cong: get_data_cong)
  qed
  show ?thesis
    using cid(1) v answer extension_is_taken [OF v] by (auto simp: Let_def serve_data [OF route d])
qed

text \<open>A sample: the first operation of a DID.\<close>

definition sample_did :: string where
  "sample_did = ''did:plc:aaaaaaaaaaaaaaaaaaaaaaaa''"

definition sample_match :: "string \<Rightarrow> string \<Rightarrow> string option" where
  "sample_match pattern uri =
     (let s = takeWhile (\<lambda>c. c \<noteq> CHR ''/'') (tl uri)
      in if uri = CHR ''/'' # s @ drop 6 pattern \<and> s \<noteq> [] then Some s else None)"

definition sample_crates :: "(unit, unit, unit, unit) plc_crates" where
  "sample_crates =
     \<lparr>pl_display_get = (\<lambda>e. ''error''), pl_base58 = (\<lambda>s. Inl ()),
      pl_method_entries = (\<lambda>m. [(''atproto'', ''did:key:z1'')]), pl_service_entries = (\<lambda>m. []),
      pl_op_did = (\<lambda>op. Inr (Inr sample_did)), pl_op_cid = (\<lambda>op. Inr ''cid''),
      pl_display_cbor = (\<lambda>e. ''cbor''), pl_display_send = (\<lambda>e. ''send'')\<rparr>"

definition sample_precompiles :: precompiles where
  "sample_precompiles =
     \<lparr>pp_test_mode = False, pp_verify_signature = (\<lambda>k d s. False), pp_dag_cbor = (\<lambda>op. None),
      pp_keccak = (\<lambda>bs. of_nat (length bs)), pp_quorum = id\<rparr>"

text \<open>A node that executes every transaction at once, on the contract as deployed.\<close>

definition sample_contract :: "(unit, add_call, add_call, unit, unit, unit) plc_contract" where
  "sample_contract =
     \<lparr>pk_get_last = (\<lambda>d. Inl ()),
      pk_registry =
        \<lparr>rg_send_add = Inr, rg_get_receipt = Inr,
         rg_status = (\<lambda>c. case plc_add sample_precompiles plc_deployed c of Inl e \<Rightarrow> False | Inr st \<Rightarrow> True),
         rg_transaction_hash = (\<lambda>r. ''0x01''), rg_call_add = (\<lambda>c. Inr ()), rg_revert_data = (\<lambda>e. None)\<rparr>\<rparr>"

definition sample_after :: "add_call \<Rightarrow> plc_state" where
  "sample_after c = (case plc_add sample_precompiles plc_deployed c of Inl e \<Rightarrow> plc_deployed | Inr st \<Rightarrow> st)"

lemma sample_executes: "executes (pk_registry sample_contract) sample_precompiles plc_deployed sample_after"
  by (auto simp: executes_def sample_contract_def sample_after_def split: sum.splits)

lemma takeWhile_segment:
  assumes "CHR ''/'' \<notin> set s"
  shows "takeWhile (\<lambda>c. c \<noteq> CHR ''/'') s = s" "takeWhile (\<lambda>c. c \<noteq> CHR ''/'') (s @ CHR ''/'' # r) = s"
  using assms by (induction s) auto

lemma sample_match_law: "match_law sample_match"
  by (simp add: match_law_def sample_match_def Let_def takeWhile_segment)

lemma sample_creation_taken:
  assumes "str_bytes cid \<noteq> []"
  shows "plc_validate sample_precompiles plc_deployed (call_of sample_crates sample_did cid
    \<lparr>so_op = sample_operation, so_sig = sig\<rparr>) = Inr (True, 0)"
proof -
  have "str_bytes sample_did \<noteq> zero_did" by code_simp
  then show ?thesis
    by (simp add: plc_validate_def validate_creation_op_def require_quorum_def dag_cbor_def sample_precompiles_def
        plc_deployed_def contract_op_from_def sample_operation_def first_signer.simps verify_signature_def)
qed

theorem posted_operation_served_witness:
  "let op = \<lparr>so_op = sample_operation, so_sig = ''sig''\<rparr>; serve = plc_serve sample_crates sample_match Inr
   in serve sample_contract \<lparr>hr_method = Post, hr_path = CHR ''/'' # sample_did, hr_body = op\<rparr>
        = Inr (Replied (CreatedJson \<lparr>cr_did = sample_did, cr_transaction_hash = ''0x01''\<rparr>))
      \<and> serve (reads_from sample_contract (sample_after (call_of sample_crates sample_did ''cid'' op)))
          \<lparr>hr_method = Get, hr_path = CHR ''/'' # sample_did @ ''/data'', hr_body = op\<rparr>
        = Inr (Replied (OperationJson op))"
proof -
  let ?op = "\<lparr>so_op = sample_operation, so_sig = ''sig''\<rparr>"
  let ?serve = "plc_serve sample_crates sample_match (Inr :: signed_operation \<Rightarrow> string + signed_operation)"
  have slash: "sample_did \<noteq> []" "CHR ''/'' \<notin> set sample_did" by (simp_all add: sample_did_def)
  have "rust_string sample_did" "length (str_bytes sample_did) = 32" by code_simp+
  then have d: "did_deserialize sample_did = Inr (Did (str_bytes sample_did))"
      "did_display (Did (str_bytes sample_did)) = Inr sample_did"
    by (simp_all add: did_deserialize_def did_display_def utf8.decode_encode)
  have cid: "pl_op_cid sample_crates op = Inr ''cid''" for op by (simp add: sample_crates_def)
  have "str_bytes ''cid'' \<noteq> []" by (simp add: str_bytes_def)
  note taken = sample_creation_taken [OF this, of "''sig''"]
  have prev: "pl_prev sample_operation = None" by (simp add: sample_operation_def)
  have post: "?serve sample_contract \<lparr>hr_method = Post, hr_path = CHR ''/'' # sample_did, hr_body = ?op\<rparr>
      = Inr (Replied (CreatedJson \<lparr>cr_did = sample_did, cr_transaction_hash = ''0x01''\<rparr>))"
    using taken
    by (simp add: plc_serve_def find_route_did [OF sample_match_law slash] d create_plc_def check_did_def add_operation_def
        cid prev call_of_def plc_add_def sample_contract_def reply_of_def)
       (simp add: sample_crates_def d add_operation_def)
  have "rust_string ''sig''" "rust_string ''k1''" "rust_string ''at://a''" "rust_string ''atproto''" "rust_string ''did:key:z1''"
    by code_simp+
  moreover from this have "operation_strings (pl_method_entries sample_crates) (pl_service_entries sample_crates) sample_operation"
    "collect_map (pl_method_entries sample_crates (pl_verification_methods sample_operation)) = pl_verification_methods sample_operation"
    "collect_map (pl_service_entries sample_crates (pl_services sample_operation)) = pl_services sample_operation"
    by (simp_all add: operation_strings_def sample_operation_def sample_crates_def collect_map_def)
  ultimately show ?thesis
    using posted_operation_served [OF post sample_match_law slash sample_executes, of ?op ?op] post cid taken
    by (auto simp: Let_def as_read_back_def prev)
qed

end
