(* ===== verification/Sol_Struct.thy ===== *)
theory Sol_Struct
  imports Sol_Traits Hashing "HOL-Library.Char_ord"
begin

text \<open>
  The traits that generated bindings implement for plain structs and for named value types:
  \<^verbatim>\<open>SolTypeValue\<close>, \<^verbatim>\<open>SolType\<close> and \<^verbatim>\<open>EventTopic\<close>, together the record
  \<open>sol_type\<close>, and \<^verbatim>\<open>SolStruct\<close> with its EIP-712 hash.  The crate's own types (words, byte
  strings, arrays and tuples) are arguments; what is relied on of them, and what follows for
  a type made of them, are the predicates below.

  The crate's tokens: the token of a word is the word, that of bytes and strings their bytes,
  of an array the list of its items' tokens, and of a tuple the tuple of its fields' tokens.
\<close>

section \<open>Types\<close>

record ('a, 'tok) sol_type =
  ty_name :: string
  ty_encoded_size :: "nat option"
  ty_packed_size :: "nat option"
  ty_valid_token :: "'tok \<Rightarrow> bool"
  ty_tokenize :: "'a \<Rightarrow> 'tok"
  ty_detokenize :: "'tok \<Rightarrow> 'a"
  ty_abi_encoded_size :: "'a \<Rightarrow> nat"
  ty_data_word :: "'a \<Rightarrow> hash"
  ty_encode_packed :: "'a \<Rightarrow> bytes \<Rightarrow> bytes"
  ty_packed_encoded_size :: "'a \<Rightarrow> nat"
  ty_topic_length :: "'a \<Rightarrow> nat"
  ty_topic_preimage :: "'a \<Rightarrow> bytes \<Rightarrow> bytes"
  ty_topic :: "'a \<Rightarrow> hash"

text \<open>The crate's implementation for a tuple, as far as a struct uses it.\<close>

record ('t, 'tok) tuple_type =
  tt_encoded_size :: "nat option"
  tt_packed_size :: "nat option"
  tt_valid_token :: "'tok \<Rightarrow> bool"
  tt_detokenize :: "'tok \<Rightarrow> 't"
  tt_abi_encoded_size :: "'t \<Rightarrow> nat"
  tt_encode_packed :: "'t \<Rightarrow> bytes \<Rightarrow> bytes"
  tt_packed_encoded_size :: "'t \<Rightarrow> nat"

text \<open>The crate's types of \<^verbatim>\<open>sol_data\<close> that occur, with two of its type checks.\<close>

record 'x sol_data =
  sd_address :: "(address, hash) sol_type"
  sd_bytes :: "(bytes, bytes) sol_type"
  sd_string :: "(string, bytes) sol_type"
  sd_bytes32 :: "(hash, hash) sol_type"
  sd_bytes8 :: "(bytes8, hash) sol_type"
  sd_uint256 :: "(u256, hash) sol_type"
  sd_uint64 :: "(u64, hash) sol_type"
  sd_uint8 :: "(byte, hash) sol_type"
  sd_check64 :: "hash \<Rightarrow> 'x sol_error + unit"
  sd_check8 :: "hash \<Rightarrow> 'x sol_error + unit"

text \<open>
  The provided methods of \<^verbatim>\<open>SolStruct\<close>: the type's encoding from its root and its components,
  and the hash of a struct from its encoded type and its data.
\<close>

record eip712 =
  e7_keccak :: "bytes \<Rightarrow> hash"
  e7_encode_type :: "string \<Rightarrow> string list \<Rightarrow> string"
  e7_hash_struct :: "string \<Rightarrow> bytes \<Rightarrow> hash"

text \<open>\<^verbatim>\<open>[word.0, ...].concat()\<close>, and a size that is a constant or computed.\<close>

definition concat_words :: "hash list \<Rightarrow> bytes" where
  "concat_words ws = concat (map (be_bytes 32) ws)"

definition const_or :: "nat option \<Rightarrow> nat \<Rightarrow> nat" where
  "const_or c n = (case c of Some k \<Rightarrow> k | None \<Rightarrow> n)"

section \<open>Laws\<close>

text \<open>A topic's preimage is appended to the output and has the announced length.\<close>

definition topic_law :: "('a, 'tok) sol_type \<Rightarrow> bool" where
  "topic_law T \<longleftrightarrow>
     (\<forall>v out. ty_topic_preimage T v out = out @ ty_topic_preimage T v [])
     \<and> (\<forall>v. length (ty_topic_preimage T v []) = ty_topic_length T v)"

text \<open>What is written as tokens is valid and read back.\<close>

definition token_law :: "('a, 'tok) sol_type \<Rightarrow> bool" where
  "token_law T \<longleftrightarrow> (\<forall>v. ty_valid_token T (ty_tokenize T v) \<and> ty_detokenize T (ty_tokenize T v) = v)"

text \<open>The packed encoding is appended and has the announced size, the constant one if there is one.\<close>

definition packed_size_law :: "('a, 'tok) sol_type \<Rightarrow> bool" where
  "packed_size_law T \<longleftrightarrow>
     (\<forall>v out. \<exists>bs. ty_encode_packed T v out = out @ bs \<and> length bs = ty_packed_encoded_size T v)
     \<and> (\<forall>v n. ty_packed_size T = Some n \<longrightarrow> ty_packed_encoded_size T v = n)"

text \<open>A tuple's tokens are checked and read field by field: \<open>f\<close> and \<open>P\<close> are those of its fields.\<close>

definition fieldwise :: "('t, 'tok) tuple_type \<Rightarrow> ('tok \<Rightarrow> 't) \<Rightarrow> ('tok \<Rightarrow> bool) \<Rightarrow> bool" where
  "fieldwise T f P \<longleftrightarrow> tt_detokenize T = f \<and> tt_valid_token T = P"

definition tuple_packed_law :: "('t, 'tok) tuple_type \<Rightarrow> bool" where
  "tuple_packed_law T \<longleftrightarrow>
     (\<forall>v out. \<exists>bs. tt_encode_packed T v out = out @ bs \<and> length bs = tt_packed_encoded_size T v)
     \<and> (\<forall>v n. tt_packed_size T = Some n \<longrightarrow> tt_packed_encoded_size T v = n)"

definition data_word_law :: "('a, 'tok) sol_type \<Rightarrow> bool" where
  "data_word_law T \<longleftrightarrow> inj (ty_data_word T)"

text \<open>
  EIP-712: the type is encoded as its root followed by the components, ascending and each once,
  and the hash is that of the type's hash and the data.
\<close>

definition eip712_law :: "eip712 \<Rightarrow> bool" where
  "eip712_law E \<longleftrightarrow>
     (\<forall>root components. e7_encode_type E root components = root @ concat (remdups (sort components)))
     \<and> (\<forall>ty data. e7_hash_struct E ty data = e7_keccak E (be_bytes 32 (e7_keccak E (str_bytes ty)) @ data))"

text \<open>The type checks of the crate's integers accept exactly the valid tokens.\<close>

definition checks_law :: "'x sol_data \<Rightarrow> bool" where
  "checks_law D \<longleftrightarrow>
     (\<forall>t. (case sd_check64 D t of Inr u \<Rightarrow> True | Inl e \<Rightarrow> False) = ty_valid_token (sd_uint64 D) t)
     \<and> (\<forall>t. (case sd_check8 D t of Inr u \<Rightarrow> True | Inl e \<Rightarrow> False) = ty_valid_token (sd_uint8 D) t)"

lemma topic_lawD:
  assumes "topic_law T"
  shows "ty_topic_preimage T v out = out @ ty_topic_preimage T v []"
    and "length (ty_topic_preimage T v []) = ty_topic_length T v"
  using assms unfolding topic_law_def by blast+

lemma token_lawD [simp]:
  assumes "token_law T"
  shows "ty_valid_token T (ty_tokenize T v)" "ty_detokenize T (ty_tokenize T v) = v"
  using assms by (simp_all add: token_law_def)

text \<open>Fields one after the other, as the structs' methods write them.\<close>

lemma topic_simps:
  "\<lbrakk>topic_law T; NO_MATCH [] out\<rbrakk> \<Longrightarrow> ty_topic_preimage T v out = out @ ty_topic_preimage T v []"
  "topic_law T \<Longrightarrow> length (ty_topic_preimage T v []) = ty_topic_length T v"
  by (rule topic_lawD, assumption)+

lemma topic_lawI:
  "\<lbrakk>\<And>v out. ty_topic_preimage T v out = out @ ty_topic_preimage T v [];
    \<And>v. length (ty_topic_preimage T v []) = ty_topic_length T v\<rbrakk> \<Longrightarrow> topic_law T"
  unfolding topic_law_def by blast

lemma token_lawI:
  "\<lbrakk>\<And>v. ty_valid_token T (ty_tokenize T v); \<And>v. ty_detokenize T (ty_tokenize T v) = v\<rbrakk> \<Longrightarrow> token_law T"
  unfolding token_law_def by blast

lemma packed_size_lawI:
  "\<lbrakk>\<And>v out. \<exists>bs. ty_encode_packed T v out = out @ bs \<and> length bs = ty_packed_encoded_size T v;
    \<And>v n. ty_packed_size T = Some n \<Longrightarrow> ty_packed_encoded_size T v = n\<rbrakk> \<Longrightarrow> packed_size_law T"
  unfolding packed_size_law_def by blast

lemma packed_size_lawD:
  assumes "packed_size_law T"
  shows "\<exists>bs. ty_encode_packed T v out = out @ bs \<and> length bs = ty_packed_encoded_size T v"
    and "ty_packed_size T = Some n \<Longrightarrow> ty_packed_encoded_size T v = n"
  using assms unfolding packed_size_law_def by blast+

lemma const_or_simps [simp]:
  "const_or (Some k) n = k"
  "const_or None n = n"
  by (simp_all add: const_or_def)

lemma tuple_packed_lawD:
  "tuple_packed_law T \<Longrightarrow>
    \<exists>bs. tt_encode_packed T v out = out @ bs \<and> length bs = const_or (tt_packed_size T) (tt_packed_encoded_size T v)"
  by (auto simp: tuple_packed_law_def const_or_def split: option.split)

lemma topic_length:
  assumes "topic_law T"
  shows "length (ty_topic_preimage T v out) = length out + ty_topic_length T v"
proof -
  have "ty_topic_preimage T v out = out @ ty_topic_preimage T v []" by (rule topic_lawD(1) [OF assms])
  then show ?thesis using topic_lawD(2) [OF assms, of v] by simp
qed

text \<open>A type with all three.\<close>

definition lawful :: "('a, 'tok) sol_type \<Rightarrow> bool" where
  "lawful T \<longleftrightarrow> topic_law T \<and> token_law T \<and> packed_size_law T"

lemma lawfulI:
  assumes "\<And>v out. ty_topic_preimage T v out = out @ ty_topic_preimage T v []"
    and "\<And>v. length (ty_topic_preimage T v []) = ty_topic_length T v"
    and "\<And>v. ty_valid_token T (ty_tokenize T v)"
    and "\<And>v. ty_detokenize T (ty_tokenize T v) = v"
    and "\<And>v out. \<exists>bs. ty_encode_packed T v out = out @ bs \<and> length bs = ty_packed_encoded_size T v"
    and "\<And>v n. ty_packed_size T = Some n \<Longrightarrow> ty_packed_encoded_size T v = n"
  shows "lawful T"
  unfolding lawful_def
  by (intro conjI topic_lawI token_lawI packed_size_lawI) (rule assms; assumption?)+

lemma lawfulD: "lawful T \<Longrightarrow> topic_law T" "lawful T \<Longrightarrow> token_law T" "lawful T \<Longrightarrow> packed_size_law T"
  by (simp_all add: lawful_def)

lemma concat_words_inj:
  "length ws = length ws' \<Longrightarrow> concat_words ws = concat_words ws' \<Longrightarrow> ws = ws'"
proof (induction ws ws' rule: list_induct2)
  case (Cons w ws w' ws')
  then have "be_bytes 32 w @ concat_words ws = be_bytes 32 w' @ concat_words ws'"
    by (simp add: concat_words_def)
  then have "be_bytes 32 w = be_bytes 32 w' \<and> concat_words ws = concat_words ws'"
    by (simp add: append_eq_append_conv)
  with Cons.IH show ?case using be_bytes_inj [of 32 w w'] by simp
qed simp

lemma concat_words_eq: "length ws = length ws' \<Longrightarrow> concat_words ws = concat_words ws' \<longleftrightarrow> ws = ws'"
  using concat_words_inj by blast

section \<open>A sample of the crate's types\<close>

definition sample_word :: "string \<Rightarrow> ('a::len word, hash) sol_type" where
  "sample_word name =
     \<lparr>ty_name = name, ty_encoded_size = Some 32, ty_packed_size = Some (LENGTH('a) div 8),
      ty_valid_token = (\<lambda>t. unat t < 2 ^ LENGTH('a)), ty_tokenize = ucast, ty_detokenize = ucast,
      ty_abi_encoded_size = (\<lambda>_. 32), ty_data_word = ucast,
      ty_encode_packed = (\<lambda>v out. out @ be_bytes (LENGTH('a) div 8) v),
      ty_packed_encoded_size = (\<lambda>_. LENGTH('a) div 8),
      ty_topic_length = (\<lambda>_. 32), ty_topic_preimage = (\<lambda>v out. out @ be_bytes 32 v), ty_topic = ucast\<rparr>"

definition sample_packed :: "string \<Rightarrow> ('a \<Rightarrow> bytes) \<Rightarrow> (bytes \<Rightarrow> 'a) \<Rightarrow> ('a, bytes) sol_type" where
  "sample_packed name enc dec =
     \<lparr>ty_name = name, ty_encoded_size = None, ty_packed_size = None, ty_valid_token = (\<lambda>_. True),
      ty_tokenize = enc, ty_detokenize = dec, ty_abi_encoded_size = (\<lambda>v. 64 + length (enc v)),
      ty_data_word = (\<lambda>v. of_nat (length (enc v))), ty_encode_packed = (\<lambda>v out. out @ enc v),
      ty_packed_encoded_size = (\<lambda>v. length (enc v)),
      ty_topic_length = (\<lambda>v. length (enc v)), ty_topic_preimage = (\<lambda>v out. out @ enc v),
      ty_topic = (\<lambda>v. of_nat (length (enc v)))\<rparr>"

definition sample_fields :: "('tok \<Rightarrow> 't) \<Rightarrow> ('tok \<Rightarrow> bool) \<Rightarrow> ('t, 'tok) tuple_type" where
  "sample_fields f P =
     \<lparr>tt_encoded_size = None, tt_packed_size = None, tt_valid_token = P, tt_detokenize = f,
      tt_abi_encoded_size = (\<lambda>_. 0), tt_encode_packed = (\<lambda>v out. out), tt_packed_encoded_size = (\<lambda>_. 0)\<rparr>"

definition sample_array :: "('a, 'tok) sol_type \<Rightarrow> ('a list, 'tok list) sol_type" where
  "sample_array T =
     \<lparr>ty_name = ty_name T @ ''[]'', ty_encoded_size = None, ty_packed_size = None,
      ty_valid_token = list_all (ty_valid_token T), ty_tokenize = map (ty_tokenize T),
      ty_detokenize = map (ty_detokenize T), ty_abi_encoded_size = (\<lambda>_. 0), ty_data_word = (\<lambda>_. 0),
      ty_encode_packed = (\<lambda>v out. out), ty_packed_encoded_size = (\<lambda>_. 0),
      ty_topic_length = (\<lambda>v. sum_list (map (ty_topic_length T) v)),
      ty_topic_preimage = (\<lambda>v out. fold (ty_topic_preimage T) v out), ty_topic = (\<lambda>_. 0)\<rparr>"

definition sample_data :: "'x sol_data" where
  "sample_data =
     \<lparr>sd_address = sample_word ''address'', sd_bytes = sample_packed ''bytes'' id id,
      sd_string = sample_packed ''string'' str_bytes bytes_str, sd_bytes32 = sample_word ''bytes32'',
      sd_bytes8 = sample_word ''bytes8'', sd_uint256 = sample_word ''uint256'',
      sd_uint64 = sample_word ''uint64'', sd_uint8 = sample_word ''uint8'',
      sd_check64 = (\<lambda>t. if unat t < 2 ^ 64 then Inr () else Inl Overrun),
      sd_check8 = (\<lambda>t. if unat t < 2 ^ 8 then Inr () else Inl Overrun)\<rparr>"

definition sample_eip712 :: eip712 where
  "sample_eip712 =
     \<lparr>e7_keccak = (\<lambda>bs. of_nat (length bs)),
      e7_encode_type = (\<lambda>root components. root @ concat (remdups (sort components))),
      e7_hash_struct = (\<lambda>ty data. of_nat (length (be_bytes 32 (of_nat (length (str_bytes ty)) :: hash) @ data)))\<rparr>"

lemma sample_eip712_law: "eip712_law sample_eip712"
  by (simp add: eip712_law_def sample_eip712_def)

lemma ucast_into_hash:
  assumes "LENGTH('a::len) \<le> 256"
  shows "ucast (ucast w :: hash) = (w :: 'a word)"
  using assms by (intro bit_word_eqI) (simp add: bit_ucast_iff)

lemma sample_word_laws:
  assumes "LENGTH('a::len) \<le> 256"
  shows "topic_law (sample_word n :: ('a word, hash) sol_type)" "token_law (sample_word n :: ('a word, hash) sol_type)"
    "packed_size_law (sample_word n :: ('a word, hash) sol_type)" "data_word_law (sample_word n :: ('a word, hash) sol_type)"
proof -
  note inv = ucast_into_hash [OF assms]
  show "topic_law (sample_word n :: ('a word, hash) sol_type)"
    by (rule topic_lawI) (simp_all add: sample_word_def)
  show "token_law (sample_word n :: ('a word, hash) sol_type)"
    using assms by (intro token_lawI) (simp_all add: sample_word_def inv unat_ucast_widen)
  show "packed_size_law (sample_word n :: ('a word, hash) sol_type)"
    by (rule packed_size_lawI) (simp_all add: sample_word_def)
  show "data_word_law (sample_word n :: ('a word, hash) sol_type)"
    unfolding data_word_law_def by (rule inj_on_inverseI [of _ ucast]) (simp add: sample_word_def inv)
qed

lemma sample_packed_laws:
  assumes "\<And>v. dec (enc v) = v"
  shows "topic_law (sample_packed n enc dec)" "token_law (sample_packed n enc dec)" "packed_size_law (sample_packed n enc dec)"
  by (rule topic_lawI token_lawI packed_size_lawI; simp add: sample_packed_def assms)+

lemma sample_fields_laws [simp]:
  "fieldwise (sample_fields f P) f P" "tuple_packed_law (sample_fields f P)"
  by (simp_all add: fieldwise_def tuple_packed_law_def sample_fields_def)

lemma sample_array_topic_law:
  assumes T: "topic_law T"
  shows "topic_law (sample_array T)"
proof -
  have fold: "fold (ty_topic_preimage T) v out = out @ fold (ty_topic_preimage T) v []
      \<and> length (fold (ty_topic_preimage T) v []) = sum_list (map (ty_topic_length T) v)" for v out
  proof (induction v arbitrary: out)
    case (Cons x v)
    have "ty_topic_preimage T x out = out @ ty_topic_preimage T x []"
      "length (ty_topic_preimage T x []) = ty_topic_length T x"
      by (rule topic_lawD [OF T])+
    moreover have "fold (ty_topic_preimage T) v (out @ ty_topic_preimage T x [])
        = (out @ ty_topic_preimage T x []) @ fold (ty_topic_preimage T) v []"
      "fold (ty_topic_preimage T) v (ty_topic_preimage T x [])
        = ty_topic_preimage T x [] @ fold (ty_topic_preimage T) v []"
      "length (fold (ty_topic_preimage T) v []) = sum_list (map (ty_topic_length T) v)"
      using Cons.IH by blast+
    ultimately show ?case by (simp only: fold_simps list.map sum_list.Cons length_append append.assoc)
  qed simp
  show ?thesis
    by (rule topic_lawI; simp add: sample_array_def) (use fold in blast)+
qed

lemma sample_array_token_law: "token_law T \<Longrightarrow> token_law (sample_array T)"
  by (intro token_lawI) (simp_all add: sample_array_def list_all_iff map_idI)

lemma sample_data_laws [simp]:
  "topic_law (sd_address sample_data)" "token_law (sd_address sample_data)" "data_word_law (sd_address sample_data)"
  "topic_law (sd_bytes sample_data)" "token_law (sd_bytes sample_data)"
  "topic_law (sd_string sample_data)" "token_law (sd_string sample_data)"
  "topic_law (sd_bytes32 sample_data)" "token_law (sd_bytes32 sample_data)" "data_word_law (sd_bytes32 sample_data)"
  "topic_law (sd_bytes8 sample_data)" "token_law (sd_bytes8 sample_data)"
  "topic_law (sd_uint256 sample_data)" "token_law (sd_uint256 sample_data)" "data_word_law (sd_uint256 sample_data)"
  "topic_law (sd_uint64 sample_data)" "token_law (sd_uint64 sample_data)"
  "topic_law (sd_uint8 sample_data)" "token_law (sd_uint8 sample_data)" "data_word_law (sd_uint8 sample_data)"
  by (simp_all add: sample_data_def sample_word_laws sample_packed_laws)

lemma sample_checks_law [simp]: "checks_law sample_data"
  by (simp add: checks_law_def sample_data_def sample_word_def)

end
