(* ===== verification/Value_Types.thy ===== *)
theory Value_Types
  imports Sol_Struct
begin

text \<open>
  The named value types of the generated bindings: Solidity's \<^verbatim>\<open>type Timestamp is uint64\<close>, once in
  each contract that uses it, and the bridge's enum of states over \<^verbatim>\<open>uint8\<close>.  Each delegates to
  the crate's type of its underlying integer.
\<close>

section \<open>\<^verbatim>\<open>ContractState\<close> of \<^verbatim>\<open>protocol/bindings/src/bridge.rs\<close>\<close>

datatype (plugins only: code) ContractState = ContractState byte

definition ContractState_from_underlying :: "byte \<Rightarrow> ContractState" where
  "ContractState_from_underlying value = ContractState value"

definition ContractState_into_underlying :: "ContractState \<Rightarrow> byte" where
  "ContractState_into_underlying x = (case x of ContractState value \<Rightarrow> value)"

definition ContractState_from :: "byte \<Rightarrow> ContractState" where
  "ContractState_from value = ContractState_from_underlying value"

definition ContractState_into :: "ContractState \<Rightarrow> byte" where
  "ContractState_into value = ContractState_into_underlying value"

definition ContractState_abi_encode :: "(byte \<Rightarrow> bytes) \<Rightarrow> ContractState \<Rightarrow> bytes" where
  "ContractState_abi_encode encode x = encode (ContractState_into_underlying x)"

definition ContractState_abi_encode_packed :: "(byte \<Rightarrow> bytes) \<Rightarrow> ContractState \<Rightarrow> bytes" where
  "ContractState_abi_encode_packed encode_packed x = encode_packed (ContractState_into_underlying x)"

definition ContractState_to_tokens :: "'x sol_data \<Rightarrow> byte \<Rightarrow> hash" where
  "ContractState_to_tokens D value = ty_tokenize (sd_uint8 D) value"

definition ContractState_data_word :: "'x sol_data \<Rightarrow> byte \<Rightarrow> hash" where
  "ContractState_data_word D value = ty_tokenize (sd_uint8 D) value"

definition ContractState_encode_packed_to :: "'x sol_data \<Rightarrow> byte \<Rightarrow> bytes \<Rightarrow> bytes" where
  "ContractState_encode_packed_to D value out = ty_encode_packed (sd_uint8 D) value out"

definition ContractState_packed_encoded_size :: "'x sol_data \<Rightarrow> byte \<Rightarrow> nat" where
  "ContractState_packed_encoded_size D value = ty_abi_encoded_size (sd_uint8 D) value"

definition ContractState_type_check :: "'x sol_data \<Rightarrow> hash \<Rightarrow> 'x sol_error + unit" where
  "ContractState_type_check D token = sd_check8 D token"

definition ContractState_valid_token :: "'x sol_data \<Rightarrow> hash \<Rightarrow> bool" where
  "ContractState_valid_token D token = (case ContractState_type_check D token of Inr u \<Rightarrow> True | Inl e \<Rightarrow> False)"

definition ContractState_type :: "'x sol_data \<Rightarrow> (byte, hash) sol_type" where
  "ContractState_type D =
     \<lparr>ty_name = ''@ name'', ty_encoded_size = ty_encoded_size (sd_uint8 D), ty_packed_size = ty_packed_size (sd_uint8 D),
      ty_valid_token = ContractState_valid_token D, ty_tokenize = ContractState_to_tokens D, ty_detokenize = ty_detokenize (sd_uint8 D),
      ty_abi_encoded_size = (\<lambda>v. the (ty_encoded_size (sd_uint8 D))), ty_data_word = ContractState_data_word D,
      ty_encode_packed = ContractState_encode_packed_to D, ty_packed_encoded_size = ContractState_packed_encoded_size D,
      ty_topic_length = ty_topic_length (sd_uint8 D), ty_topic_preimage = ty_topic_preimage (sd_uint8 D), ty_topic = ty_topic (sd_uint8 D)\<rparr>"

lemma ContractState_laws:
  assumes "checks_law D" "topic_law (sd_uint8 D)" "token_law (sd_uint8 D)"
  shows "topic_law (ContractState_type D)" "token_law (ContractState_type D)"
  using assms
  by (auto intro!: topic_lawI token_lawI simp: ContractState_type_def ContractState_valid_token_def ContractState_type_check_def ContractState_to_tokens_def
      checks_law_def topic_lawD(2) intro: topic_lawD(1))

section \<open>\<^verbatim>\<open>Timestamp\<close> of \<^verbatim>\<open>examples/solidity/bindings/src/voting.rs\<close>\<close>

datatype (plugins only: code) PollTimestamp = PollTimestamp u64

definition PollTimestamp_from_underlying :: "u64 \<Rightarrow> PollTimestamp" where
  "PollTimestamp_from_underlying value = PollTimestamp value"

definition PollTimestamp_into_underlying :: "PollTimestamp \<Rightarrow> u64" where
  "PollTimestamp_into_underlying x = (case x of PollTimestamp value \<Rightarrow> value)"

definition PollTimestamp_from :: "u64 \<Rightarrow> PollTimestamp" where
  "PollTimestamp_from value = PollTimestamp_from_underlying value"

definition PollTimestamp_into :: "PollTimestamp \<Rightarrow> u64" where
  "PollTimestamp_into value = PollTimestamp_into_underlying value"

definition PollTimestamp_abi_encode :: "(u64 \<Rightarrow> bytes) \<Rightarrow> PollTimestamp \<Rightarrow> bytes" where
  "PollTimestamp_abi_encode encode x = encode (PollTimestamp_into_underlying x)"

definition PollTimestamp_abi_encode_packed :: "(u64 \<Rightarrow> bytes) \<Rightarrow> PollTimestamp \<Rightarrow> bytes" where
  "PollTimestamp_abi_encode_packed encode_packed x = encode_packed (PollTimestamp_into_underlying x)"

definition PollTimestamp_to_tokens :: "'x sol_data \<Rightarrow> u64 \<Rightarrow> hash" where
  "PollTimestamp_to_tokens D value = ty_tokenize (sd_uint64 D) value"

definition PollTimestamp_data_word :: "'x sol_data \<Rightarrow> u64 \<Rightarrow> hash" where
  "PollTimestamp_data_word D value = ty_tokenize (sd_uint64 D) value"

definition PollTimestamp_encode_packed_to :: "'x sol_data \<Rightarrow> u64 \<Rightarrow> bytes \<Rightarrow> bytes" where
  "PollTimestamp_encode_packed_to D value out = ty_encode_packed (sd_uint64 D) value out"

definition PollTimestamp_packed_encoded_size :: "'x sol_data \<Rightarrow> u64 \<Rightarrow> nat" where
  "PollTimestamp_packed_encoded_size D value = ty_abi_encoded_size (sd_uint64 D) value"

definition PollTimestamp_type_check :: "'x sol_data \<Rightarrow> hash \<Rightarrow> 'x sol_error + unit" where
  "PollTimestamp_type_check D token = sd_check64 D token"

definition PollTimestamp_valid_token :: "'x sol_data \<Rightarrow> hash \<Rightarrow> bool" where
  "PollTimestamp_valid_token D token = (case PollTimestamp_type_check D token of Inr u \<Rightarrow> True | Inl e \<Rightarrow> False)"

definition PollTimestamp_type :: "'x sol_data \<Rightarrow> (u64, hash) sol_type" where
  "PollTimestamp_type D =
     \<lparr>ty_name = ''@ name'', ty_encoded_size = ty_encoded_size (sd_uint64 D), ty_packed_size = ty_packed_size (sd_uint64 D),
      ty_valid_token = PollTimestamp_valid_token D, ty_tokenize = PollTimestamp_to_tokens D, ty_detokenize = ty_detokenize (sd_uint64 D),
      ty_abi_encoded_size = (\<lambda>v. the (ty_encoded_size (sd_uint64 D))), ty_data_word = PollTimestamp_data_word D,
      ty_encode_packed = PollTimestamp_encode_packed_to D, ty_packed_encoded_size = PollTimestamp_packed_encoded_size D,
      ty_topic_length = ty_topic_length (sd_uint64 D), ty_topic_preimage = ty_topic_preimage (sd_uint64 D), ty_topic = ty_topic (sd_uint64 D)\<rparr>"

lemma PollTimestamp_laws:
  assumes "checks_law D" "topic_law (sd_uint64 D)" "token_law (sd_uint64 D)"
  shows "topic_law (PollTimestamp_type D)" "token_law (PollTimestamp_type D)"
  using assms
  by (auto intro!: topic_lawI token_lawI simp: PollTimestamp_type_def PollTimestamp_valid_token_def PollTimestamp_type_check_def PollTimestamp_to_tokens_def
      checks_law_def topic_lawD(2) intro: topic_lawD(1))

section \<open>\<^verbatim>\<open>Timestamp\<close> of \<^verbatim>\<open>examples/notary/bindings/src/notary.rs\<close>\<close>

datatype (plugins only: code) NotaryTimestamp = NotaryTimestamp u64

definition NotaryTimestamp_from_underlying :: "u64 \<Rightarrow> NotaryTimestamp" where
  "NotaryTimestamp_from_underlying value = NotaryTimestamp value"

definition NotaryTimestamp_into_underlying :: "NotaryTimestamp \<Rightarrow> u64" where
  "NotaryTimestamp_into_underlying x = (case x of NotaryTimestamp value \<Rightarrow> value)"

definition NotaryTimestamp_from :: "u64 \<Rightarrow> NotaryTimestamp" where
  "NotaryTimestamp_from value = NotaryTimestamp_from_underlying value"

definition NotaryTimestamp_into :: "NotaryTimestamp \<Rightarrow> u64" where
  "NotaryTimestamp_into value = NotaryTimestamp_into_underlying value"

definition NotaryTimestamp_abi_encode :: "(u64 \<Rightarrow> bytes) \<Rightarrow> NotaryTimestamp \<Rightarrow> bytes" where
  "NotaryTimestamp_abi_encode encode x = encode (NotaryTimestamp_into_underlying x)"

definition NotaryTimestamp_abi_encode_packed :: "(u64 \<Rightarrow> bytes) \<Rightarrow> NotaryTimestamp \<Rightarrow> bytes" where
  "NotaryTimestamp_abi_encode_packed encode_packed x = encode_packed (NotaryTimestamp_into_underlying x)"

definition NotaryTimestamp_to_tokens :: "'x sol_data \<Rightarrow> u64 \<Rightarrow> hash" where
  "NotaryTimestamp_to_tokens D value = ty_tokenize (sd_uint64 D) value"

definition NotaryTimestamp_data_word :: "'x sol_data \<Rightarrow> u64 \<Rightarrow> hash" where
  "NotaryTimestamp_data_word D value = ty_tokenize (sd_uint64 D) value"

definition NotaryTimestamp_encode_packed_to :: "'x sol_data \<Rightarrow> u64 \<Rightarrow> bytes \<Rightarrow> bytes" where
  "NotaryTimestamp_encode_packed_to D value out = ty_encode_packed (sd_uint64 D) value out"

definition NotaryTimestamp_packed_encoded_size :: "'x sol_data \<Rightarrow> u64 \<Rightarrow> nat" where
  "NotaryTimestamp_packed_encoded_size D value = ty_abi_encoded_size (sd_uint64 D) value"

definition NotaryTimestamp_type_check :: "'x sol_data \<Rightarrow> hash \<Rightarrow> 'x sol_error + unit" where
  "NotaryTimestamp_type_check D token = sd_check64 D token"

definition NotaryTimestamp_valid_token :: "'x sol_data \<Rightarrow> hash \<Rightarrow> bool" where
  "NotaryTimestamp_valid_token D token = (case NotaryTimestamp_type_check D token of Inr u \<Rightarrow> True | Inl e \<Rightarrow> False)"

definition NotaryTimestamp_type :: "'x sol_data \<Rightarrow> (u64, hash) sol_type" where
  "NotaryTimestamp_type D =
     \<lparr>ty_name = ''@ name'', ty_encoded_size = ty_encoded_size (sd_uint64 D), ty_packed_size = ty_packed_size (sd_uint64 D),
      ty_valid_token = NotaryTimestamp_valid_token D, ty_tokenize = NotaryTimestamp_to_tokens D, ty_detokenize = ty_detokenize (sd_uint64 D),
      ty_abi_encoded_size = (\<lambda>v. the (ty_encoded_size (sd_uint64 D))), ty_data_word = NotaryTimestamp_data_word D,
      ty_encode_packed = NotaryTimestamp_encode_packed_to D, ty_packed_encoded_size = NotaryTimestamp_packed_encoded_size D,
      ty_topic_length = ty_topic_length (sd_uint64 D), ty_topic_preimage = ty_topic_preimage (sd_uint64 D), ty_topic = ty_topic (sd_uint64 D)\<rparr>"

lemma NotaryTimestamp_laws:
  assumes "checks_law D" "topic_law (sd_uint64 D)" "token_law (sd_uint64 D)"
  shows "topic_law (NotaryTimestamp_type D)" "token_law (NotaryTimestamp_type D)"
  using assms
  by (auto intro!: topic_lawI token_lawI simp: NotaryTimestamp_type_def NotaryTimestamp_valid_token_def NotaryTimestamp_type_check_def NotaryTimestamp_to_tokens_def
      checks_law_def topic_lawD(2) intro: topic_lawD(1))

section \<open>\<^verbatim>\<open>Timestamp\<close> of \<^verbatim>\<open>examples/voting/bindings/src/voting.rs\<close>\<close>

datatype (plugins only: code) VotingTimestamp = VotingTimestamp u64

definition VotingTimestamp_from_underlying :: "u64 \<Rightarrow> VotingTimestamp" where
  "VotingTimestamp_from_underlying value = VotingTimestamp value"

definition VotingTimestamp_into_underlying :: "VotingTimestamp \<Rightarrow> u64" where
  "VotingTimestamp_into_underlying x = (case x of VotingTimestamp value \<Rightarrow> value)"

definition VotingTimestamp_from :: "u64 \<Rightarrow> VotingTimestamp" where
  "VotingTimestamp_from value = VotingTimestamp_from_underlying value"

definition VotingTimestamp_into :: "VotingTimestamp \<Rightarrow> u64" where
  "VotingTimestamp_into value = VotingTimestamp_into_underlying value"

definition VotingTimestamp_abi_encode :: "(u64 \<Rightarrow> bytes) \<Rightarrow> VotingTimestamp \<Rightarrow> bytes" where
  "VotingTimestamp_abi_encode encode x = encode (VotingTimestamp_into_underlying x)"

definition VotingTimestamp_abi_encode_packed :: "(u64 \<Rightarrow> bytes) \<Rightarrow> VotingTimestamp \<Rightarrow> bytes" where
  "VotingTimestamp_abi_encode_packed encode_packed x = encode_packed (VotingTimestamp_into_underlying x)"

definition VotingTimestamp_to_tokens :: "'x sol_data \<Rightarrow> u64 \<Rightarrow> hash" where
  "VotingTimestamp_to_tokens D value = ty_tokenize (sd_uint64 D) value"

definition VotingTimestamp_data_word :: "'x sol_data \<Rightarrow> u64 \<Rightarrow> hash" where
  "VotingTimestamp_data_word D value = ty_tokenize (sd_uint64 D) value"

definition VotingTimestamp_encode_packed_to :: "'x sol_data \<Rightarrow> u64 \<Rightarrow> bytes \<Rightarrow> bytes" where
  "VotingTimestamp_encode_packed_to D value out = ty_encode_packed (sd_uint64 D) value out"

definition VotingTimestamp_packed_encoded_size :: "'x sol_data \<Rightarrow> u64 \<Rightarrow> nat" where
  "VotingTimestamp_packed_encoded_size D value = ty_abi_encoded_size (sd_uint64 D) value"

definition VotingTimestamp_type_check :: "'x sol_data \<Rightarrow> hash \<Rightarrow> 'x sol_error + unit" where
  "VotingTimestamp_type_check D token = sd_check64 D token"

definition VotingTimestamp_valid_token :: "'x sol_data \<Rightarrow> hash \<Rightarrow> bool" where
  "VotingTimestamp_valid_token D token = (case VotingTimestamp_type_check D token of Inr u \<Rightarrow> True | Inl e \<Rightarrow> False)"

definition VotingTimestamp_type :: "'x sol_data \<Rightarrow> (u64, hash) sol_type" where
  "VotingTimestamp_type D =
     \<lparr>ty_name = ''@ name'', ty_encoded_size = ty_encoded_size (sd_uint64 D), ty_packed_size = ty_packed_size (sd_uint64 D),
      ty_valid_token = VotingTimestamp_valid_token D, ty_tokenize = VotingTimestamp_to_tokens D, ty_detokenize = ty_detokenize (sd_uint64 D),
      ty_abi_encoded_size = (\<lambda>v. the (ty_encoded_size (sd_uint64 D))), ty_data_word = VotingTimestamp_data_word D,
      ty_encode_packed = VotingTimestamp_encode_packed_to D, ty_packed_encoded_size = VotingTimestamp_packed_encoded_size D,
      ty_topic_length = ty_topic_length (sd_uint64 D), ty_topic_preimage = ty_topic_preimage (sd_uint64 D), ty_topic = ty_topic (sd_uint64 D)\<rparr>"

lemma VotingTimestamp_laws:
  assumes "checks_law D" "topic_law (sd_uint64 D)" "token_law (sd_uint64 D)"
  shows "topic_law (VotingTimestamp_type D)" "token_law (VotingTimestamp_type D)"
  using assms
  by (auto intro!: topic_lawI token_lawI simp: VotingTimestamp_type_def VotingTimestamp_valid_token_def VotingTimestamp_type_check_def VotingTimestamp_to_tokens_def
      checks_law_def topic_lawD(2) intro: topic_lawD(1))

section \<open>Packed sizes\<close>

text \<open>The crate's integers: 32 bytes when encoded, as many as the type has when packed.\<close>

definition integer_sizes :: "'x sol_data \<Rightarrow> bool" where
  "integer_sizes D \<longleftrightarrow>
     (\<forall>v. ty_abi_encoded_size (sd_uint64 D) v = 32) \<and> (\<forall>v. ty_abi_encoded_size (sd_uint8 D) v = 32)
     \<and> ty_packed_size (sd_uint64 D) = Some 8 \<and> ty_packed_size (sd_uint8 D) = Some 1
     \<and> packed_size_law (sd_uint64 D) \<and> packed_size_law (sd_uint8 D)"

lemma integer_packed:
  assumes "integer_sizes D"
  shows "\<exists>bs. ty_encode_packed (sd_uint64 D) t out = out @ bs \<and> length bs = 8"
    and "\<exists>bs. ty_encode_packed (sd_uint8 D) b out = out @ bs \<and> length bs = 1"
  using assms packed_size_lawD [of "sd_uint64 D"] packed_size_lawD [of "sd_uint8 D"]
  by (simp_all add: integer_sizes_def)

text \<open>
  C34. The named value types announce the size of the whole word for their packed encoding: a
  timestamp is written in eight bytes and a state in one, both announced as 32, although the
  constant size is right.
\<close>

theorem value_type_packed_size:
  assumes "integer_sizes D"
  shows "(\<exists>bs. ty_encode_packed (PollTimestamp_type D) t out = out @ bs \<and> length bs = 8)
    \<and> ty_packed_size (PollTimestamp_type D) = Some 8 \<and> ty_packed_encoded_size (PollTimestamp_type D) t = 32
    \<and> (\<exists>bs. ty_encode_packed (ContractState_type D) b out = out @ bs \<and> length bs = 1)
    \<and> ty_packed_size (ContractState_type D) = Some 1 \<and> ty_packed_encoded_size (ContractState_type D) b = 32
    \<and> NotaryTimestamp_type D = PollTimestamp_type D \<and> VotingTimestamp_type D = PollTimestamp_type D"
proof -
  have "NotaryTimestamp_type D = PollTimestamp_type D" "VotingTimestamp_type D = PollTimestamp_type D"
    by (simp_all add: PollTimestamp_type_def NotaryTimestamp_type_def VotingTimestamp_type_def fun_eq_iff
        PollTimestamp_valid_token_def NotaryTimestamp_valid_token_def VotingTimestamp_valid_token_def
        PollTimestamp_type_check_def NotaryTimestamp_type_check_def VotingTimestamp_type_check_def
        PollTimestamp_to_tokens_def NotaryTimestamp_to_tokens_def VotingTimestamp_to_tokens_def
        PollTimestamp_data_word_def NotaryTimestamp_data_word_def VotingTimestamp_data_word_def
        PollTimestamp_encode_packed_to_def NotaryTimestamp_encode_packed_to_def VotingTimestamp_encode_packed_to_def
        PollTimestamp_packed_encoded_size_def NotaryTimestamp_packed_encoded_size_def VotingTimestamp_packed_encoded_size_def)
  then show ?thesis
    using assms integer_packed [OF assms]
    by (simp add: integer_sizes_def PollTimestamp_type_def ContractState_type_def PollTimestamp_encode_packed_to_def
        ContractState_encode_packed_to_def PollTimestamp_packed_encoded_size_def ContractState_packed_encoded_size_def)
qed

theorem value_type_packed_size_witness:
  "ty_packed_encoded_size (PollTimestamp_type (sample_data :: nat sol_data)) 1700000000 = 32
   \<and> (\<exists>bs. ty_encode_packed (PollTimestamp_type (sample_data :: nat sol_data)) 1700000000 [] = bs \<and> length bs = 8)"
proof -
  have "integer_sizes (sample_data :: nat sol_data)"
    by (simp add: integer_sizes_def sample_data_def sample_word_laws) (simp add: sample_word_def)
  from value_type_packed_size [OF this, of 1700000000 "[]" 0] show ?thesis by simp
qed

end
