(* ===== verification/Bridge_Structs.thy ===== *)
theory Bridge_Structs
  imports Bridge_Calls Sol_Struct
begin

text \<open>
  The plain structs of \<^verbatim>\<open>protocol/bindings/src/bridge.rs\<close>: their tuples and tokens, their
  encoding as the topic of an event, their EIP-712 type and data, and \<open>sol_type\<close>, the
  implementation made of these; what is encoded is read back, and announced sizes are right.
\<close>

section \<open>The structs\<close>

record TokenUsage =
  TokenUsage_consumed :: u256
  TokenUsage_lastUpdated :: u256

type_synonym ClaimParams_tuple = "u256 \<times> address \<times> bytes \<times> bytes"

type_synonym ClaimParams_token = "hash \<times> hash \<times> bytes \<times> bytes"

type_synonym DepositParams_tuple = "address \<times> address \<times> u256"

type_synonym DepositParams_token = "hash \<times> hash \<times> hash"

type_synonym PermitParams_tuple = "u256 \<times> byte \<times> hash \<times> hash"

type_synonym PermitParams_token = "hash \<times> hash \<times> hash \<times> hash"

type_synonym TokenUsage_tuple = "u256 \<times> u256"

type_synonym TokenUsage_token = "hash \<times> hash"

text \<open>The crate's implementations that the structs use.\<close>

record 'x bridge_types =
  bt_data :: "'x sol_data"
  bt_eip712 :: eip712
  bt_ClaimParams :: "(ClaimParams_tuple, ClaimParams_token) tuple_type"
  bt_DepositParams :: "(DepositParams_tuple, DepositParams_token) tuple_type"
  bt_PermitParams :: "(PermitParams_tuple, PermitParams_token) tuple_type"
  bt_TokenUsage :: "(TokenUsage_tuple, TokenUsage_token) tuple_type"

subsection \<open>\<^verbatim>\<open>ClaimParams\<close>\<close>

definition ClaimParams_to_tuple :: "ClaimParams \<Rightarrow> ClaimParams_tuple" where
  "ClaimParams_to_tuple value =
     (ClaimParams_amount value, ClaimParams_to value, ClaimParams_proof value,
      ClaimParams_auxTxSuffix value)"

definition ClaimParams_of_tuple :: "ClaimParams_tuple \<Rightarrow> ClaimParams" where
  "ClaimParams_of_tuple = (\<lambda>(t0, t1, t2, t3).
     \<lparr>ClaimParams_amount = t0, ClaimParams_to = t1, ClaimParams_proof = t2, ClaimParams_auxTxSuffix = t3\<rparr>)"

definition ClaimParams_to_tokens :: "'x bridge_types \<Rightarrow> ClaimParams \<Rightarrow> ClaimParams_token" where
  "ClaimParams_to_tokens C c =
     (ty_tokenize (sd_uint256 (bt_data C)) (ClaimParams_amount c),
      ty_tokenize (sd_address (bt_data C)) (ClaimParams_to c),
      ty_tokenize (sd_bytes (bt_data C)) (ClaimParams_proof c),
      ty_tokenize (sd_bytes (bt_data C)) (ClaimParams_auxTxSuffix c))"

definition ClaimParams_root_type :: string where
  "ClaimParams_root_type = ''ClaimParams(uint256 amount,address to,bytes proof,bytes auxTxSuffix)''"

definition ClaimParams_components :: "string list" where
  "ClaimParams_components = []"

definition ClaimParams_encode_type :: "'x bridge_types \<Rightarrow> string" where
  "ClaimParams_encode_type C = ClaimParams_root_type"

definition ClaimParams_encode_data :: "'x bridge_types \<Rightarrow> ClaimParams \<Rightarrow> bytes" where
  "ClaimParams_encode_data C c =
     concat_words [ty_data_word (sd_uint256 (bt_data C)) (ClaimParams_amount c),
        ty_data_word (sd_address (bt_data C)) (ClaimParams_to c),
        ty_data_word (sd_bytes (bt_data C)) (ClaimParams_proof c),
        ty_data_word (sd_bytes (bt_data C)) (ClaimParams_auxTxSuffix c)]"

definition ClaimParams_hash_struct :: "'x bridge_types \<Rightarrow> ClaimParams \<Rightarrow> hash" where
  "ClaimParams_hash_struct C c = e7_hash_struct (bt_eip712 C) (ClaimParams_encode_type C) (ClaimParams_encode_data C c)"

definition ClaimParams_topic_preimage_length :: "'x bridge_types \<Rightarrow> ClaimParams \<Rightarrow> nat" where
  "ClaimParams_topic_preimage_length C rust =
     0 + ty_topic_length (sd_uint256 (bt_data C)) (ClaimParams_amount rust) +
       ty_topic_length (sd_address (bt_data C)) (ClaimParams_to rust) +
       ty_topic_length (sd_bytes (bt_data C)) (ClaimParams_proof rust) +
       ty_topic_length (sd_bytes (bt_data C)) (ClaimParams_auxTxSuffix rust)"

definition ClaimParams_encode_topic_preimage :: "'x bridge_types \<Rightarrow> ClaimParams \<Rightarrow> bytes \<Rightarrow> bytes" where
  "ClaimParams_encode_topic_preimage C rust out =
     (let out = ty_topic_preimage (sd_uint256 (bt_data C)) (ClaimParams_amount rust) out;
          out = ty_topic_preimage (sd_address (bt_data C)) (ClaimParams_to rust) out;
          out = ty_topic_preimage (sd_bytes (bt_data C)) (ClaimParams_proof rust) out;
          out = ty_topic_preimage (sd_bytes (bt_data C)) (ClaimParams_auxTxSuffix rust) out
      in out)"

definition ClaimParams_encode_topic :: "'x bridge_types \<Rightarrow> ClaimParams \<Rightarrow> hash" where
  "ClaimParams_encode_topic C rust = e7_keccak (bt_eip712 C) (ClaimParams_encode_topic_preimage C rust [])"

definition ClaimParams_type :: "'x bridge_types \<Rightarrow> (ClaimParams, ClaimParams_token) sol_type" where
  "ClaimParams_type C =
     \<lparr>ty_name = ''ClaimParams'', ty_encoded_size = tt_encoded_size (bt_ClaimParams C), ty_packed_size = tt_packed_size (bt_ClaimParams C),
      ty_valid_token = tt_valid_token (bt_ClaimParams C), ty_tokenize = ClaimParams_to_tokens C,
      ty_detokenize = (\<lambda>token. ClaimParams_of_tuple (tt_detokenize (bt_ClaimParams C) token)),
      ty_abi_encoded_size = (\<lambda>v. const_or (tt_encoded_size (bt_ClaimParams C)) (tt_abi_encoded_size (bt_ClaimParams C) (ClaimParams_to_tuple v))),
      ty_data_word = ClaimParams_hash_struct C,
      ty_encode_packed = (\<lambda>v out. tt_encode_packed (bt_ClaimParams C) (ClaimParams_to_tuple v) out),
      ty_packed_encoded_size = (\<lambda>v. const_or (tt_packed_size (bt_ClaimParams C)) (tt_packed_encoded_size (bt_ClaimParams C) (ClaimParams_to_tuple v))),
      ty_topic_length = ClaimParams_topic_preimage_length C, ty_topic_preimage = ClaimParams_encode_topic_preimage C,
      ty_topic = ClaimParams_encode_topic C\<rparr>"

subsection \<open>\<^verbatim>\<open>DepositParams\<close>\<close>

definition DepositParams_to_tuple :: "DepositParams \<Rightarrow> DepositParams_tuple" where
  "DepositParams_to_tuple value =
     (DepositParams_from value, DepositParams_to value, DepositParams_amount value)"

definition DepositParams_of_tuple :: "DepositParams_tuple \<Rightarrow> DepositParams" where
  "DepositParams_of_tuple = (\<lambda>(t0, t1, t2).
     \<lparr>DepositParams_from = t0, DepositParams_to = t1, DepositParams_amount = t2\<rparr>)"

definition DepositParams_to_tokens :: "'x bridge_types \<Rightarrow> DepositParams \<Rightarrow> DepositParams_token" where
  "DepositParams_to_tokens C c =
     (ty_tokenize (sd_address (bt_data C)) (DepositParams_from c),
      ty_tokenize (sd_address (bt_data C)) (DepositParams_to c),
      ty_tokenize (sd_uint256 (bt_data C)) (DepositParams_amount c))"

definition DepositParams_root_type :: string where
  "DepositParams_root_type = ''DepositParams(address from,address to,uint256 amount)''"

definition DepositParams_components :: "string list" where
  "DepositParams_components = []"

definition DepositParams_encode_type :: "'x bridge_types \<Rightarrow> string" where
  "DepositParams_encode_type C = DepositParams_root_type"

definition DepositParams_encode_data :: "'x bridge_types \<Rightarrow> DepositParams \<Rightarrow> bytes" where
  "DepositParams_encode_data C c =
     concat_words [ty_data_word (sd_address (bt_data C)) (DepositParams_from c),
        ty_data_word (sd_address (bt_data C)) (DepositParams_to c),
        ty_data_word (sd_uint256 (bt_data C)) (DepositParams_amount c)]"

definition DepositParams_hash_struct :: "'x bridge_types \<Rightarrow> DepositParams \<Rightarrow> hash" where
  "DepositParams_hash_struct C c = e7_hash_struct (bt_eip712 C) (DepositParams_encode_type C) (DepositParams_encode_data C c)"

definition DepositParams_topic_preimage_length :: "'x bridge_types \<Rightarrow> DepositParams \<Rightarrow> nat" where
  "DepositParams_topic_preimage_length C rust =
     0 + ty_topic_length (sd_address (bt_data C)) (DepositParams_from rust) +
       ty_topic_length (sd_address (bt_data C)) (DepositParams_to rust) +
       ty_topic_length (sd_uint256 (bt_data C)) (DepositParams_amount rust)"

definition DepositParams_encode_topic_preimage :: "'x bridge_types \<Rightarrow> DepositParams \<Rightarrow> bytes \<Rightarrow> bytes" where
  "DepositParams_encode_topic_preimage C rust out =
     (let out = ty_topic_preimage (sd_address (bt_data C)) (DepositParams_from rust) out;
          out = ty_topic_preimage (sd_address (bt_data C)) (DepositParams_to rust) out;
          out = ty_topic_preimage (sd_uint256 (bt_data C)) (DepositParams_amount rust) out
      in out)"

definition DepositParams_encode_topic :: "'x bridge_types \<Rightarrow> DepositParams \<Rightarrow> hash" where
  "DepositParams_encode_topic C rust = e7_keccak (bt_eip712 C) (DepositParams_encode_topic_preimage C rust [])"

definition DepositParams_type :: "'x bridge_types \<Rightarrow> (DepositParams, DepositParams_token) sol_type" where
  "DepositParams_type C =
     \<lparr>ty_name = ''DepositParams'', ty_encoded_size = tt_encoded_size (bt_DepositParams C), ty_packed_size = tt_packed_size (bt_DepositParams C),
      ty_valid_token = tt_valid_token (bt_DepositParams C), ty_tokenize = DepositParams_to_tokens C,
      ty_detokenize = (\<lambda>token. DepositParams_of_tuple (tt_detokenize (bt_DepositParams C) token)),
      ty_abi_encoded_size = (\<lambda>v. const_or (tt_encoded_size (bt_DepositParams C)) (tt_abi_encoded_size (bt_DepositParams C) (DepositParams_to_tuple v))),
      ty_data_word = DepositParams_hash_struct C,
      ty_encode_packed = (\<lambda>v out. tt_encode_packed (bt_DepositParams C) (DepositParams_to_tuple v) out),
      ty_packed_encoded_size = (\<lambda>v. const_or (tt_packed_size (bt_DepositParams C)) (tt_packed_encoded_size (bt_DepositParams C) (DepositParams_to_tuple v))),
      ty_topic_length = DepositParams_topic_preimage_length C, ty_topic_preimage = DepositParams_encode_topic_preimage C,
      ty_topic = DepositParams_encode_topic C\<rparr>"

subsection \<open>\<^verbatim>\<open>PermitParams\<close>\<close>

definition PermitParams_to_tuple :: "PermitParams \<Rightarrow> PermitParams_tuple" where
  "PermitParams_to_tuple value =
     (PermitParams_deadline value, PermitParams_v value, PermitParams_r value, PermitParams_s value)"

definition PermitParams_of_tuple :: "PermitParams_tuple \<Rightarrow> PermitParams" where
  "PermitParams_of_tuple = (\<lambda>(t0, t1, t2, t3).
     \<lparr>PermitParams_deadline = t0, PermitParams_v = t1, PermitParams_r = t2, PermitParams_s = t3\<rparr>)"

definition PermitParams_to_tokens :: "'x bridge_types \<Rightarrow> PermitParams \<Rightarrow> PermitParams_token" where
  "PermitParams_to_tokens C c =
     (ty_tokenize (sd_uint256 (bt_data C)) (PermitParams_deadline c),
      ty_tokenize (sd_uint8 (bt_data C)) (PermitParams_v c),
      ty_tokenize (sd_bytes32 (bt_data C)) (PermitParams_r c),
      ty_tokenize (sd_bytes32 (bt_data C)) (PermitParams_s c))"

definition PermitParams_root_type :: string where
  "PermitParams_root_type = ''PermitParams(uint256 deadline,uint8 v,bytes32 r,bytes32 s)''"

definition PermitParams_components :: "string list" where
  "PermitParams_components = []"

definition PermitParams_encode_type :: "'x bridge_types \<Rightarrow> string" where
  "PermitParams_encode_type C = PermitParams_root_type"

definition PermitParams_encode_data :: "'x bridge_types \<Rightarrow> PermitParams \<Rightarrow> bytes" where
  "PermitParams_encode_data C c =
     concat_words [ty_data_word (sd_uint256 (bt_data C)) (PermitParams_deadline c),
        ty_data_word (sd_uint8 (bt_data C)) (PermitParams_v c),
        ty_data_word (sd_bytes32 (bt_data C)) (PermitParams_r c),
        ty_data_word (sd_bytes32 (bt_data C)) (PermitParams_s c)]"

definition PermitParams_hash_struct :: "'x bridge_types \<Rightarrow> PermitParams \<Rightarrow> hash" where
  "PermitParams_hash_struct C c = e7_hash_struct (bt_eip712 C) (PermitParams_encode_type C) (PermitParams_encode_data C c)"

definition PermitParams_topic_preimage_length :: "'x bridge_types \<Rightarrow> PermitParams \<Rightarrow> nat" where
  "PermitParams_topic_preimage_length C rust =
     0 + ty_topic_length (sd_uint256 (bt_data C)) (PermitParams_deadline rust) +
       ty_topic_length (sd_uint8 (bt_data C)) (PermitParams_v rust) +
       ty_topic_length (sd_bytes32 (bt_data C)) (PermitParams_r rust) +
       ty_topic_length (sd_bytes32 (bt_data C)) (PermitParams_s rust)"

definition PermitParams_encode_topic_preimage :: "'x bridge_types \<Rightarrow> PermitParams \<Rightarrow> bytes \<Rightarrow> bytes" where
  "PermitParams_encode_topic_preimage C rust out =
     (let out = ty_topic_preimage (sd_uint256 (bt_data C)) (PermitParams_deadline rust) out;
          out = ty_topic_preimage (sd_uint8 (bt_data C)) (PermitParams_v rust) out;
          out = ty_topic_preimage (sd_bytes32 (bt_data C)) (PermitParams_r rust) out;
          out = ty_topic_preimage (sd_bytes32 (bt_data C)) (PermitParams_s rust) out
      in out)"

definition PermitParams_encode_topic :: "'x bridge_types \<Rightarrow> PermitParams \<Rightarrow> hash" where
  "PermitParams_encode_topic C rust = e7_keccak (bt_eip712 C) (PermitParams_encode_topic_preimage C rust [])"

definition PermitParams_type :: "'x bridge_types \<Rightarrow> (PermitParams, PermitParams_token) sol_type" where
  "PermitParams_type C =
     \<lparr>ty_name = ''PermitParams'', ty_encoded_size = tt_encoded_size (bt_PermitParams C), ty_packed_size = tt_packed_size (bt_PermitParams C),
      ty_valid_token = tt_valid_token (bt_PermitParams C), ty_tokenize = PermitParams_to_tokens C,
      ty_detokenize = (\<lambda>token. PermitParams_of_tuple (tt_detokenize (bt_PermitParams C) token)),
      ty_abi_encoded_size = (\<lambda>v. const_or (tt_encoded_size (bt_PermitParams C)) (tt_abi_encoded_size (bt_PermitParams C) (PermitParams_to_tuple v))),
      ty_data_word = PermitParams_hash_struct C,
      ty_encode_packed = (\<lambda>v out. tt_encode_packed (bt_PermitParams C) (PermitParams_to_tuple v) out),
      ty_packed_encoded_size = (\<lambda>v. const_or (tt_packed_size (bt_PermitParams C)) (tt_packed_encoded_size (bt_PermitParams C) (PermitParams_to_tuple v))),
      ty_topic_length = PermitParams_topic_preimage_length C, ty_topic_preimage = PermitParams_encode_topic_preimage C,
      ty_topic = PermitParams_encode_topic C\<rparr>"

subsection \<open>\<^verbatim>\<open>TokenUsage\<close>\<close>

definition TokenUsage_to_tuple :: "TokenUsage \<Rightarrow> TokenUsage_tuple" where
  "TokenUsage_to_tuple value =
     (TokenUsage_consumed value, TokenUsage_lastUpdated value)"

definition TokenUsage_of_tuple :: "TokenUsage_tuple \<Rightarrow> TokenUsage" where
  "TokenUsage_of_tuple = (\<lambda>(t0, t1).
     \<lparr>TokenUsage_consumed = t0, TokenUsage_lastUpdated = t1\<rparr>)"

definition TokenUsage_to_tokens :: "'x bridge_types \<Rightarrow> TokenUsage \<Rightarrow> TokenUsage_token" where
  "TokenUsage_to_tokens C c =
     (ty_tokenize (sd_uint256 (bt_data C)) (TokenUsage_consumed c),
      ty_tokenize (sd_uint256 (bt_data C)) (TokenUsage_lastUpdated c))"

definition TokenUsage_root_type :: string where
  "TokenUsage_root_type = ''TokenUsage(uint256 consumed,uint256 lastUpdated)''"

definition TokenUsage_components :: "string list" where
  "TokenUsage_components = []"

definition TokenUsage_encode_type :: "'x bridge_types \<Rightarrow> string" where
  "TokenUsage_encode_type C = TokenUsage_root_type"

definition TokenUsage_encode_data :: "'x bridge_types \<Rightarrow> TokenUsage \<Rightarrow> bytes" where
  "TokenUsage_encode_data C c =
     concat_words [ty_data_word (sd_uint256 (bt_data C)) (TokenUsage_consumed c),
        ty_data_word (sd_uint256 (bt_data C)) (TokenUsage_lastUpdated c)]"

definition TokenUsage_hash_struct :: "'x bridge_types \<Rightarrow> TokenUsage \<Rightarrow> hash" where
  "TokenUsage_hash_struct C c = e7_hash_struct (bt_eip712 C) (TokenUsage_encode_type C) (TokenUsage_encode_data C c)"

definition TokenUsage_topic_preimage_length :: "'x bridge_types \<Rightarrow> TokenUsage \<Rightarrow> nat" where
  "TokenUsage_topic_preimage_length C rust =
     0 + ty_topic_length (sd_uint256 (bt_data C)) (TokenUsage_consumed rust) +
       ty_topic_length (sd_uint256 (bt_data C)) (TokenUsage_lastUpdated rust)"

definition TokenUsage_encode_topic_preimage :: "'x bridge_types \<Rightarrow> TokenUsage \<Rightarrow> bytes \<Rightarrow> bytes" where
  "TokenUsage_encode_topic_preimage C rust out =
     (let out = ty_topic_preimage (sd_uint256 (bt_data C)) (TokenUsage_consumed rust) out;
          out = ty_topic_preimage (sd_uint256 (bt_data C)) (TokenUsage_lastUpdated rust) out
      in out)"

definition TokenUsage_encode_topic :: "'x bridge_types \<Rightarrow> TokenUsage \<Rightarrow> hash" where
  "TokenUsage_encode_topic C rust = e7_keccak (bt_eip712 C) (TokenUsage_encode_topic_preimage C rust [])"

definition TokenUsage_type :: "'x bridge_types \<Rightarrow> (TokenUsage, TokenUsage_token) sol_type" where
  "TokenUsage_type C =
     \<lparr>ty_name = ''TokenUsage'', ty_encoded_size = tt_encoded_size (bt_TokenUsage C), ty_packed_size = tt_packed_size (bt_TokenUsage C),
      ty_valid_token = tt_valid_token (bt_TokenUsage C), ty_tokenize = TokenUsage_to_tokens C,
      ty_detokenize = (\<lambda>token. TokenUsage_of_tuple (tt_detokenize (bt_TokenUsage C) token)),
      ty_abi_encoded_size = (\<lambda>v. const_or (tt_encoded_size (bt_TokenUsage C)) (tt_abi_encoded_size (bt_TokenUsage C) (TokenUsage_to_tuple v))),
      ty_data_word = TokenUsage_hash_struct C,
      ty_encode_packed = (\<lambda>v out. tt_encode_packed (bt_TokenUsage C) (TokenUsage_to_tuple v) out),
      ty_packed_encoded_size = (\<lambda>v. const_or (tt_packed_size (bt_TokenUsage C)) (tt_packed_encoded_size (bt_TokenUsage C) (TokenUsage_to_tuple v))),
      ty_topic_length = TokenUsage_topic_preimage_length C, ty_topic_preimage = TokenUsage_encode_topic_preimage C,
      ty_topic = TokenUsage_encode_topic C\<rparr>"

section \<open>Laws\<close>

definition bridge_types_law :: "'x bridge_types \<Rightarrow> bool" where
  "bridge_types_law C \<longleftrightarrow>
     topic_law (sd_uint256 (bt_data C)) \<and> token_law (sd_uint256 (bt_data C))
     \<and> topic_law (sd_address (bt_data C)) \<and> token_law (sd_address (bt_data C))
     \<and> topic_law (sd_bytes (bt_data C)) \<and> token_law (sd_bytes (bt_data C))
     \<and> topic_law (sd_uint8 (bt_data C)) \<and> token_law (sd_uint8 (bt_data C))
     \<and> topic_law (sd_bytes32 (bt_data C)) \<and> token_law (sd_bytes32 (bt_data C))
     \<and> fieldwise (bt_ClaimParams C)
         (map_prod (ty_detokenize (sd_uint256 (bt_data C))) (map_prod (ty_detokenize (sd_address (bt_data C))) (map_prod (ty_detokenize (sd_bytes (bt_data C))) (ty_detokenize (sd_bytes (bt_data C))))))
         (pred_prod (ty_valid_token (sd_uint256 (bt_data C))) (pred_prod (ty_valid_token (sd_address (bt_data C))) (pred_prod (ty_valid_token (sd_bytes (bt_data C))) (ty_valid_token (sd_bytes (bt_data C))))))
       \<and> tuple_packed_law (bt_ClaimParams C)
     \<and> fieldwise (bt_DepositParams C)
         (map_prod (ty_detokenize (sd_address (bt_data C))) (map_prod (ty_detokenize (sd_address (bt_data C))) (ty_detokenize (sd_uint256 (bt_data C)))))
         (pred_prod (ty_valid_token (sd_address (bt_data C))) (pred_prod (ty_valid_token (sd_address (bt_data C))) (ty_valid_token (sd_uint256 (bt_data C)))))
       \<and> tuple_packed_law (bt_DepositParams C)
     \<and> fieldwise (bt_PermitParams C)
         (map_prod (ty_detokenize (sd_uint256 (bt_data C))) (map_prod (ty_detokenize (sd_uint8 (bt_data C))) (map_prod (ty_detokenize (sd_bytes32 (bt_data C))) (ty_detokenize (sd_bytes32 (bt_data C))))))
         (pred_prod (ty_valid_token (sd_uint256 (bt_data C))) (pred_prod (ty_valid_token (sd_uint8 (bt_data C))) (pred_prod (ty_valid_token (sd_bytes32 (bt_data C))) (ty_valid_token (sd_bytes32 (bt_data C))))))
       \<and> tuple_packed_law (bt_PermitParams C)
     \<and> fieldwise (bt_TokenUsage C)
         (map_prod (ty_detokenize (sd_uint256 (bt_data C))) (ty_detokenize (sd_uint256 (bt_data C))))
         (pred_prod (ty_valid_token (sd_uint256 (bt_data C))) (ty_valid_token (sd_uint256 (bt_data C))))
       \<and> tuple_packed_law (bt_TokenUsage C)"

lemma ClaimParams_lawful:
  assumes "bridge_types_law C"
  shows "lawful (ClaimParams_type C)"
proof -
  note laws = assms [unfolded bridge_types_law_def fieldwise_def]
  show ?thesis
    by (rule lawfulI; simp add: ClaimParams_type_def ClaimParams_encode_topic_preimage_def ClaimParams_topic_preimage_length_def
        ClaimParams_to_tokens_def ClaimParams_of_tuple_def laws topic_simps tuple_packed_lawD)
qed

lemma DepositParams_lawful:
  assumes "bridge_types_law C"
  shows "lawful (DepositParams_type C)"
proof -
  note laws = assms [unfolded bridge_types_law_def fieldwise_def]
  show ?thesis
    by (rule lawfulI; simp add: DepositParams_type_def DepositParams_encode_topic_preimage_def DepositParams_topic_preimage_length_def
        DepositParams_to_tokens_def DepositParams_of_tuple_def laws topic_simps tuple_packed_lawD)
qed

lemma PermitParams_lawful:
  assumes "bridge_types_law C"
  shows "lawful (PermitParams_type C)"
proof -
  note laws = assms [unfolded bridge_types_law_def fieldwise_def]
  show ?thesis
    by (rule lawfulI; simp add: PermitParams_type_def PermitParams_encode_topic_preimage_def PermitParams_topic_preimage_length_def
        PermitParams_to_tokens_def PermitParams_of_tuple_def laws topic_simps tuple_packed_lawD)
qed

lemma TokenUsage_lawful:
  assumes "bridge_types_law C"
  shows "lawful (TokenUsage_type C)"
proof -
  note laws = assms [unfolded bridge_types_law_def fieldwise_def]
  show ?thesis
    by (rule lawfulI; simp add: TokenUsage_type_def TokenUsage_encode_topic_preimage_def TokenUsage_topic_preimage_length_def
        TokenUsage_to_tokens_def TokenUsage_of_tuple_def laws topic_simps tuple_packed_lawD)
qed

text \<open>A sample of the crate's implementations.\<close>

definition sample_bridge_types :: "nat bridge_types" where
  "sample_bridge_types =
     (let D = sample_data :: nat sol_data in
     \<lparr>bt_data = D,
      bt_eip712 = sample_eip712,
      bt_ClaimParams = sample_fields
         (map_prod (ty_detokenize (sd_uint256 D)) (map_prod (ty_detokenize (sd_address D)) (map_prod (ty_detokenize (sd_bytes D)) (ty_detokenize (sd_bytes D)))))
         (pred_prod (ty_valid_token (sd_uint256 D)) (pred_prod (ty_valid_token (sd_address D)) (pred_prod (ty_valid_token (sd_bytes D)) (ty_valid_token (sd_bytes D))))),
      bt_DepositParams = sample_fields
         (map_prod (ty_detokenize (sd_address D)) (map_prod (ty_detokenize (sd_address D)) (ty_detokenize (sd_uint256 D))))
         (pred_prod (ty_valid_token (sd_address D)) (pred_prod (ty_valid_token (sd_address D)) (ty_valid_token (sd_uint256 D)))),
      bt_PermitParams = sample_fields
         (map_prod (ty_detokenize (sd_uint256 D)) (map_prod (ty_detokenize (sd_uint8 D)) (map_prod (ty_detokenize (sd_bytes32 D)) (ty_detokenize (sd_bytes32 D)))))
         (pred_prod (ty_valid_token (sd_uint256 D)) (pred_prod (ty_valid_token (sd_uint8 D)) (pred_prod (ty_valid_token (sd_bytes32 D)) (ty_valid_token (sd_bytes32 D))))),
      bt_TokenUsage = sample_fields
         (map_prod (ty_detokenize (sd_uint256 D)) (ty_detokenize (sd_uint256 D)))
         (pred_prod (ty_valid_token (sd_uint256 D)) (ty_valid_token (sd_uint256 D)))\<rparr>)"

lemma sample_bridge_types_law: "bridge_types_law sample_bridge_types"
  by (simp add: bridge_types_law_def sample_bridge_types_def Let_def sample_array_topic_law sample_array_token_law)

section \<open>EIP-712 hashes\<close>

text \<open>The structs of the bridge together: the type, the data and the hash of each.\<close>

datatype (plugins only: code) bridge_struct =
    Claim_struct ClaimParams
  | Deposit_struct DepositParams
  | Permit_struct PermitParams
  | Usage_struct TokenUsage

primrec bridge_struct_type :: "'x bridge_types \<Rightarrow> bridge_struct \<Rightarrow> string" where
  "bridge_struct_type C (Claim_struct c) = ClaimParams_encode_type C"
| "bridge_struct_type C (Deposit_struct c) = DepositParams_encode_type C"
| "bridge_struct_type C (Permit_struct c) = PermitParams_encode_type C"
| "bridge_struct_type C (Usage_struct c) = TokenUsage_encode_type C"

primrec bridge_struct_data :: "'x bridge_types \<Rightarrow> bridge_struct \<Rightarrow> bytes" where
  "bridge_struct_data C (Claim_struct c) = ClaimParams_encode_data C c"
| "bridge_struct_data C (Deposit_struct c) = DepositParams_encode_data C c"
| "bridge_struct_data C (Permit_struct c) = PermitParams_encode_data C c"
| "bridge_struct_data C (Usage_struct c) = TokenUsage_encode_data C c"

primrec bridge_struct_hash :: "'x bridge_types \<Rightarrow> bridge_struct \<Rightarrow> hash" where
  "bridge_struct_hash C (Claim_struct c) = ty_data_word (ClaimParams_type C) c"
| "bridge_struct_hash C (Deposit_struct c) = ty_data_word (DepositParams_type C) c"
| "bridge_struct_hash C (Permit_struct c) = ty_data_word (PermitParams_type C) c"
| "bridge_struct_hash C (Usage_struct c) = ty_data_word (TokenUsage_type C) c"

lemmas bridge_types_defs = ClaimParams_type_def DepositParams_type_def PermitParams_type_def TokenUsage_type_def
lemmas bridge_hash_defs =
  ClaimParams_hash_struct_def DepositParams_hash_struct_def PermitParams_hash_struct_def TokenUsage_hash_struct_def
lemmas bridge_type_strings =
  ClaimParams_encode_type_def DepositParams_encode_type_def PermitParams_encode_type_def TokenUsage_encode_type_def
  ClaimParams_root_type_def DepositParams_root_type_def PermitParams_root_type_def TokenUsage_root_type_def
lemmas bridge_data_defs =
  ClaimParams_encode_data_def DepositParams_encode_data_def PermitParams_encode_data_def TokenUsage_encode_data_def

lemma bridge_struct_hash_eq:
  "bridge_struct_hash C x = e7_hash_struct (bt_eip712 C) (bridge_struct_type C x) (bridge_struct_data C x)"
  by (cases x) (simp_all add: bridge_types_defs bridge_hash_defs)

text \<open>What is hashed for a struct: the string of its type, and that hash followed by its data.\<close>

definition struct_inputs :: "eip712 \<Rightarrow> string \<Rightarrow> bytes \<Rightarrow> bytes set" where
  "struct_inputs E ty data = {str_bytes ty, be_bytes 32 (e7_keccak E (str_bytes ty)) @ data}"

lemma struct_hash_binds:
  assumes E: "eip712_law E" and inj: "inj_on (e7_keccak E) (struct_inputs E s a \<union> struct_inputs E t b)"
    and eq: "e7_hash_struct E s a = e7_hash_struct E t b"
  shows "s = t \<and> a = b"
proof -
  have "e7_keccak E (be_bytes 32 (e7_keccak E (str_bytes s)) @ a) = e7_keccak E (be_bytes 32 (e7_keccak E (str_bytes t)) @ b)"
    using E eq by (simp add: eip712_law_def)
  then have "be_bytes 32 (e7_keccak E (str_bytes s)) @ a = be_bytes 32 (e7_keccak E (str_bytes t)) @ b"
    by (rule inj_onD [OF inj]) (simp_all add: struct_inputs_def)
  then have words: "be_bytes 32 (e7_keccak E (str_bytes s)) = be_bytes 32 (e7_keccak E (str_bytes t)) \<and> a = b"
    by (simp add: append_eq_append_conv)
  have "e7_keccak E (str_bytes s) = e7_keccak E (str_bytes t)"
    by (rule be_bytes_inj [of 32]) (use words in simp_all)
  then have "str_bytes s = str_bytes t"
    by (rule inj_onD [OF inj]) (simp_all add: struct_inputs_def)
  with words str_bytes_inj show ?thesis by blast
qed

text \<open>The strings of the types differ in their first character.\<close>

lemma bridge_struct_type_hd:
  "hd (bridge_struct_type C x) =
    (case x of Claim_struct c \<Rightarrow> CHR ''C'' | Deposit_struct c \<Rightarrow> CHR ''D'' | Permit_struct c \<Rightarrow> CHR ''P'' | Usage_struct c \<Rightarrow> CHR ''T'')"
  by (cases x) (simp_all add: bridge_type_strings)

lemma bridge_struct_kinds:
  assumes "bridge_struct_type C x = bridge_struct_type C y"
  obtains c d where "x = Claim_struct c" "y = Claim_struct d"
  | c d where "x = Deposit_struct c" "y = Deposit_struct d"
  | c d where "x = Permit_struct c" "y = Permit_struct d"
  | c d where "x = Usage_struct c" "y = Usage_struct d"
  using arg_cong [OF assms, of hd] unfolding bridge_struct_type_hd by (cases x; cases y) simp_all

text \<open>
  C36. The EIP-712 hash of a struct of the bridge binds the kind of struct and its fields: if two
  have the same hash, and what is hashed for them does not collide, they are of the same kind
  and, for a deposit, a permit or a token's usage, the same; two claims agree in amount and
  recipient, and in the words of their proofs and suffixes.
\<close>

theorem bridge_struct_hash_binds:
  assumes "eip712_law (bt_eip712 C)"
    and "data_word_law (sd_uint256 (bt_data C))" "data_word_law (sd_address (bt_data C))"
      "data_word_law (sd_uint8 (bt_data C))" "data_word_law (sd_bytes32 (bt_data C))"
    and "inj_on (e7_keccak (bt_eip712 C))
      (struct_inputs (bt_eip712 C) (bridge_struct_type C x) (bridge_struct_data C x)
       \<union> struct_inputs (bt_eip712 C) (bridge_struct_type C y) (bridge_struct_data C y))"
    and "bridge_struct_hash C x = bridge_struct_hash C y"
  shows "case (x, y) of
      (Claim_struct c, Claim_struct d) \<Rightarrow>
        ClaimParams_amount c = ClaimParams_amount d \<and> ClaimParams_to c = ClaimParams_to d
        \<and> ty_data_word (sd_bytes (bt_data C)) (ClaimParams_proof c) = ty_data_word (sd_bytes (bt_data C)) (ClaimParams_proof d)
        \<and> ty_data_word (sd_bytes (bt_data C)) (ClaimParams_auxTxSuffix c) = ty_data_word (sd_bytes (bt_data C)) (ClaimParams_auxTxSuffix d)
    | _ \<Rightarrow> x = y"
proof -
  have "bridge_struct_type C x = bridge_struct_type C y \<and> bridge_struct_data C x = bridge_struct_data C y"
    by (rule struct_hash_binds [OF assms(1,6) assms(7) [unfolded bridge_struct_hash_eq]])
  then have kinds: "bridge_struct_type C x = bridge_struct_type C y" and data: "bridge_struct_data C x = bridge_struct_data C y"
    by auto
  note word = assms(2-5) [unfolded data_word_law_def, THEN inj_eq]
  from kinds show ?thesis
  proof (cases rule: bridge_struct_kinds)
    case (1 c d)
    with data show ?thesis by (simp add: ClaimParams_encode_data_def concat_words_eq word)
  next
    case (2 c d)
    with data show ?thesis by (simp add: DepositParams_encode_data_def concat_words_eq word)
  next
    case (3 c d)
    with data show ?thesis by (simp add: PermitParams_encode_data_def concat_words_eq word)
  next
    case (4 c d)
    with data show ?thesis by (simp add: TokenUsage_encode_data_def concat_words_eq word)
  qed
qed

lemma length_concat_words: "length (concat_words ws) = 32 * length ws"
  by (induction ws) (simp_all add: concat_words_def)

theorem bridge_struct_hash_binds_witness:
  "bridge_struct_hash sample_bridge_types (Deposit_struct \<lparr>DepositParams_from = 1, DepositParams_to = 2, DepositParams_amount = 3\<rparr>)
   \<noteq> bridge_struct_hash sample_bridge_types
       (Permit_struct \<lparr>PermitParams_deadline = 1, PermitParams_v = 27, PermitParams_r = 2, PermitParams_s = 3\<rparr>)"
  (is "bridge_struct_hash _ ?x \<noteq> bridge_struct_hash _ ?y")
proof
  assume eq: "bridge_struct_hash sample_bridge_types ?x = bridge_struct_hash sample_bridge_types ?y"
  have "inj_on (e7_keccak (bt_eip712 sample_bridge_types))
      (struct_inputs (bt_eip712 sample_bridge_types) (bridge_struct_type sample_bridge_types ?x) (bridge_struct_data sample_bridge_types ?x)
       \<union> struct_inputs (bt_eip712 sample_bridge_types) (bridge_struct_type sample_bridge_types ?y) (bridge_struct_data sample_bridge_types ?y))"
    by (simp add: inj_on_def struct_inputs_def sample_bridge_types_def Let_def sample_eip712_def bridge_type_strings str_bytes_def
        bridge_data_defs length_concat_words)
  from bridge_struct_hash_binds [OF _ _ _ _ _ this eq] show False
    by (simp add: sample_bridge_types_def sample_eip712_law Let_def)
qed

end
