(* ===== verification/Waiting_Structs.thy ===== *)
theory Waiting_Structs
  imports Waiting_Calls Sol_Struct
begin

text \<open>
  The struct of \<^verbatim>\<open>protocol/bindings/src/deposit_waiting_list.rs\<close>, as in \<open>Bridge_Structs\<close>.
\<close>

section \<open>The structs\<close>

type_synonym DepositData_tuple = "u256 \<times> u256 \<times> address \<times> address"

type_synonym DepositData_token = "hash \<times> hash \<times> hash \<times> hash"

text \<open>The crate's implementations that the structs use.\<close>

record 'x waiting_types =
  wt_data :: "'x sol_data"
  wt_eip712 :: eip712
  wt_DepositData :: "(DepositData_tuple, DepositData_token) tuple_type"

subsection \<open>\<^verbatim>\<open>DepositData\<close>\<close>

definition DepositData_to_tuple :: "DepositData \<Rightarrow> DepositData_tuple" where
  "DepositData_to_tuple value =
     (DepositData_depositId value, DepositData_amount value, DepositData_from value,
      DepositData_to value)"

definition DepositData_of_tuple :: "DepositData_tuple \<Rightarrow> DepositData" where
  "DepositData_of_tuple = (\<lambda>(t0, t1, t2, t3).
     \<lparr>DepositData_depositId = t0, DepositData_amount = t1, DepositData_from = t2, DepositData_to = t3\<rparr>)"

definition DepositData_to_tokens :: "'x waiting_types \<Rightarrow> DepositData \<Rightarrow> DepositData_token" where
  "DepositData_to_tokens C c =
     (ty_tokenize (sd_uint256 (wt_data C)) (DepositData_depositId c),
      ty_tokenize (sd_uint256 (wt_data C)) (DepositData_amount c),
      ty_tokenize (sd_address (wt_data C)) (DepositData_from c),
      ty_tokenize (sd_address (wt_data C)) (DepositData_to c))"

definition DepositData_root_type :: string where
  "DepositData_root_type = ''DepositData(uint256 depositId,uint256 amount,address from,address to)''"

definition DepositData_components :: "string list" where
  "DepositData_components = []"

definition DepositData_encode_type :: "'x waiting_types \<Rightarrow> string" where
  "DepositData_encode_type C = DepositData_root_type"

definition DepositData_encode_data :: "'x waiting_types \<Rightarrow> DepositData \<Rightarrow> bytes" where
  "DepositData_encode_data C c =
     concat_words [ty_data_word (sd_uint256 (wt_data C)) (DepositData_depositId c),
        ty_data_word (sd_uint256 (wt_data C)) (DepositData_amount c),
        ty_data_word (sd_address (wt_data C)) (DepositData_from c),
        ty_data_word (sd_address (wt_data C)) (DepositData_to c)]"

definition DepositData_hash_struct :: "'x waiting_types \<Rightarrow> DepositData \<Rightarrow> hash" where
  "DepositData_hash_struct C c = e7_hash_struct (wt_eip712 C) (DepositData_encode_type C) (DepositData_encode_data C c)"

definition DepositData_topic_preimage_length :: "'x waiting_types \<Rightarrow> DepositData \<Rightarrow> nat" where
  "DepositData_topic_preimage_length C rust =
     0 + ty_topic_length (sd_uint256 (wt_data C)) (DepositData_depositId rust) +
       ty_topic_length (sd_uint256 (wt_data C)) (DepositData_amount rust) +
       ty_topic_length (sd_address (wt_data C)) (DepositData_from rust) +
       ty_topic_length (sd_address (wt_data C)) (DepositData_to rust)"

definition DepositData_encode_topic_preimage :: "'x waiting_types \<Rightarrow> DepositData \<Rightarrow> bytes \<Rightarrow> bytes" where
  "DepositData_encode_topic_preimage C rust out =
     (let out = ty_topic_preimage (sd_uint256 (wt_data C)) (DepositData_depositId rust) out;
          out = ty_topic_preimage (sd_uint256 (wt_data C)) (DepositData_amount rust) out;
          out = ty_topic_preimage (sd_address (wt_data C)) (DepositData_from rust) out;
          out = ty_topic_preimage (sd_address (wt_data C)) (DepositData_to rust) out
      in out)"

definition DepositData_encode_topic :: "'x waiting_types \<Rightarrow> DepositData \<Rightarrow> hash" where
  "DepositData_encode_topic C rust = e7_keccak (wt_eip712 C) (DepositData_encode_topic_preimage C rust [])"

definition DepositData_type :: "'x waiting_types \<Rightarrow> (DepositData, DepositData_token) sol_type" where
  "DepositData_type C =
     \<lparr>ty_name = ''DepositData'', ty_encoded_size = tt_encoded_size (wt_DepositData C), ty_packed_size = tt_packed_size (wt_DepositData C),
      ty_valid_token = tt_valid_token (wt_DepositData C), ty_tokenize = DepositData_to_tokens C,
      ty_detokenize = (\<lambda>token. DepositData_of_tuple (tt_detokenize (wt_DepositData C) token)),
      ty_abi_encoded_size = (\<lambda>v. const_or (tt_encoded_size (wt_DepositData C)) (tt_abi_encoded_size (wt_DepositData C) (DepositData_to_tuple v))),
      ty_data_word = DepositData_hash_struct C,
      ty_encode_packed = (\<lambda>v out. tt_encode_packed (wt_DepositData C) (DepositData_to_tuple v) out),
      ty_packed_encoded_size = (\<lambda>v. const_or (tt_packed_size (wt_DepositData C)) (tt_packed_encoded_size (wt_DepositData C) (DepositData_to_tuple v))),
      ty_topic_length = DepositData_topic_preimage_length C, ty_topic_preimage = DepositData_encode_topic_preimage C,
      ty_topic = DepositData_encode_topic C\<rparr>"

section \<open>Laws\<close>

definition waiting_types_law :: "'x waiting_types \<Rightarrow> bool" where
  "waiting_types_law C \<longleftrightarrow>
     topic_law (sd_uint256 (wt_data C)) \<and> token_law (sd_uint256 (wt_data C))
     \<and> topic_law (sd_address (wt_data C)) \<and> token_law (sd_address (wt_data C))
     \<and> fieldwise (wt_DepositData C)
         (map_prod (ty_detokenize (sd_uint256 (wt_data C))) (map_prod (ty_detokenize (sd_uint256 (wt_data C))) (map_prod (ty_detokenize (sd_address (wt_data C))) (ty_detokenize (sd_address (wt_data C))))))
         (pred_prod (ty_valid_token (sd_uint256 (wt_data C))) (pred_prod (ty_valid_token (sd_uint256 (wt_data C))) (pred_prod (ty_valid_token (sd_address (wt_data C))) (ty_valid_token (sd_address (wt_data C))))))
       \<and> tuple_packed_law (wt_DepositData C)"

lemma DepositData_lawful:
  assumes "waiting_types_law C"
  shows "lawful (DepositData_type C)"
proof -
  note laws = assms [unfolded waiting_types_law_def fieldwise_def]
  show ?thesis
    by (rule lawfulI; simp add: DepositData_type_def DepositData_encode_topic_preimage_def DepositData_topic_preimage_length_def
        DepositData_to_tokens_def DepositData_of_tuple_def laws topic_simps tuple_packed_lawD)
qed

text \<open>A sample of the crate's implementations.\<close>

definition sample_waiting_types :: "nat waiting_types" where
  "sample_waiting_types =
     (let D = sample_data :: nat sol_data in
     \<lparr>wt_data = D,
      wt_eip712 = sample_eip712,
      wt_DepositData = sample_fields
         (map_prod (ty_detokenize (sd_uint256 D)) (map_prod (ty_detokenize (sd_uint256 D)) (map_prod (ty_detokenize (sd_address D)) (ty_detokenize (sd_address D)))))
         (pred_prod (ty_valid_token (sd_uint256 D)) (pred_prod (ty_valid_token (sd_uint256 D)) (pred_prod (ty_valid_token (sd_address D)) (ty_valid_token (sd_address D)))))\<rparr>)"

lemma sample_waiting_types_law: "waiting_types_law sample_waiting_types"
  by (simp add: waiting_types_law_def sample_waiting_types_def Let_def sample_array_topic_law sample_array_token_law)

end
