(* ===== verification/Poll_Structs.thy ===== *)
theory Poll_Structs
  imports Poll_Calls Value_Types
begin

text \<open>
  The struct of \<^verbatim>\<open>examples/solidity/bindings/src/voting.rs\<close>, as in \<open>Bridge_Structs\<close>.
\<close>

section \<open>The structs\<close>

type_synonym VotingInfo_tuple = "u256 \<times> u64 \<times> u256 \<times> address"

type_synonym VotingInfo_token = "hash \<times> hash \<times> hash \<times> hash"

text \<open>The crate's implementations that the structs use.\<close>

record 'x poll_types =
  pt_data :: "'x sol_data"
  pt_eip712 :: eip712
  pt_VotingInfo :: "(VotingInfo_tuple, VotingInfo_token) tuple_type"

subsection \<open>\<^verbatim>\<open>VotingInfo\<close>\<close>

definition VotingInfo_to_tuple :: "VotingInfo \<Rightarrow> VotingInfo_tuple" where
  "VotingInfo_to_tuple value =
     (VotingInfo_threshold value, VotingInfo_deadline value, VotingInfo_nonce value,
      VotingInfo_owner value)"

definition VotingInfo_of_tuple :: "VotingInfo_tuple \<Rightarrow> VotingInfo" where
  "VotingInfo_of_tuple = (\<lambda>(t0, t1, t2, t3).
     \<lparr>VotingInfo_threshold = t0, VotingInfo_deadline = t1, VotingInfo_nonce = t2, VotingInfo_owner = t3\<rparr>)"

definition VotingInfo_to_tokens :: "'x poll_types \<Rightarrow> VotingInfo \<Rightarrow> VotingInfo_token" where
  "VotingInfo_to_tokens C c =
     (ty_tokenize (sd_uint256 (pt_data C)) (VotingInfo_threshold c),
      ty_tokenize (PollTimestamp_type (pt_data C)) (VotingInfo_deadline c),
      ty_tokenize (sd_uint256 (pt_data C)) (VotingInfo_nonce c),
      ty_tokenize (sd_address (pt_data C)) (VotingInfo_owner c))"

definition VotingInfo_root_type :: string where
  "VotingInfo_root_type = ''VotingInfo(uint256 threshold,uint64 deadline,uint256 nonce,address owner)''"

definition VotingInfo_components :: "string list" where
  "VotingInfo_components = []"

definition VotingInfo_encode_type :: "'x poll_types \<Rightarrow> string" where
  "VotingInfo_encode_type C = VotingInfo_root_type"

definition VotingInfo_encode_data :: "'x poll_types \<Rightarrow> VotingInfo \<Rightarrow> bytes" where
  "VotingInfo_encode_data C c =
     concat_words [ty_data_word (sd_uint256 (pt_data C)) (VotingInfo_threshold c),
        ty_data_word (PollTimestamp_type (pt_data C)) (VotingInfo_deadline c),
        ty_data_word (sd_uint256 (pt_data C)) (VotingInfo_nonce c),
        ty_data_word (sd_address (pt_data C)) (VotingInfo_owner c)]"

definition VotingInfo_hash_struct :: "'x poll_types \<Rightarrow> VotingInfo \<Rightarrow> hash" where
  "VotingInfo_hash_struct C c = e7_hash_struct (pt_eip712 C) (VotingInfo_encode_type C) (VotingInfo_encode_data C c)"

definition VotingInfo_topic_preimage_length :: "'x poll_types \<Rightarrow> VotingInfo \<Rightarrow> nat" where
  "VotingInfo_topic_preimage_length C rust =
     0 + ty_topic_length (sd_uint256 (pt_data C)) (VotingInfo_threshold rust) +
       ty_topic_length (PollTimestamp_type (pt_data C)) (VotingInfo_deadline rust) +
       ty_topic_length (sd_uint256 (pt_data C)) (VotingInfo_nonce rust) +
       ty_topic_length (sd_address (pt_data C)) (VotingInfo_owner rust)"

definition VotingInfo_encode_topic_preimage :: "'x poll_types \<Rightarrow> VotingInfo \<Rightarrow> bytes \<Rightarrow> bytes" where
  "VotingInfo_encode_topic_preimage C rust out =
     (let out = ty_topic_preimage (sd_uint256 (pt_data C)) (VotingInfo_threshold rust) out;
          out = ty_topic_preimage (PollTimestamp_type (pt_data C)) (VotingInfo_deadline rust) out;
          out = ty_topic_preimage (sd_uint256 (pt_data C)) (VotingInfo_nonce rust) out;
          out = ty_topic_preimage (sd_address (pt_data C)) (VotingInfo_owner rust) out
      in out)"

definition VotingInfo_encode_topic :: "'x poll_types \<Rightarrow> VotingInfo \<Rightarrow> hash" where
  "VotingInfo_encode_topic C rust = e7_keccak (pt_eip712 C) (VotingInfo_encode_topic_preimage C rust [])"

definition VotingInfo_type :: "'x poll_types \<Rightarrow> (VotingInfo, VotingInfo_token) sol_type" where
  "VotingInfo_type C =
     \<lparr>ty_name = ''VotingInfo'', ty_encoded_size = tt_encoded_size (pt_VotingInfo C), ty_packed_size = tt_packed_size (pt_VotingInfo C),
      ty_valid_token = tt_valid_token (pt_VotingInfo C), ty_tokenize = VotingInfo_to_tokens C,
      ty_detokenize = (\<lambda>token. VotingInfo_of_tuple (tt_detokenize (pt_VotingInfo C) token)),
      ty_abi_encoded_size = (\<lambda>v. const_or (tt_encoded_size (pt_VotingInfo C)) (tt_abi_encoded_size (pt_VotingInfo C) (VotingInfo_to_tuple v))),
      ty_data_word = VotingInfo_hash_struct C,
      ty_encode_packed = (\<lambda>v out. tt_encode_packed (pt_VotingInfo C) (VotingInfo_to_tuple v) out),
      ty_packed_encoded_size = (\<lambda>v. const_or (tt_packed_size (pt_VotingInfo C)) (tt_packed_encoded_size (pt_VotingInfo C) (VotingInfo_to_tuple v))),
      ty_topic_length = VotingInfo_topic_preimage_length C, ty_topic_preimage = VotingInfo_encode_topic_preimage C,
      ty_topic = VotingInfo_encode_topic C\<rparr>"

section \<open>Laws\<close>

definition poll_types_law :: "'x poll_types \<Rightarrow> bool" where
  "poll_types_law C \<longleftrightarrow>
     checks_law (pt_data C)
     \<and> topic_law (sd_uint256 (pt_data C)) \<and> token_law (sd_uint256 (pt_data C))
     \<and> topic_law (sd_uint64 (pt_data C)) \<and> token_law (sd_uint64 (pt_data C))
     \<and> topic_law (sd_address (pt_data C)) \<and> token_law (sd_address (pt_data C))
     \<and> fieldwise (pt_VotingInfo C)
         (map_prod (ty_detokenize (sd_uint256 (pt_data C))) (map_prod (ty_detokenize (PollTimestamp_type (pt_data C))) (map_prod (ty_detokenize (sd_uint256 (pt_data C))) (ty_detokenize (sd_address (pt_data C))))))
         (pred_prod (ty_valid_token (sd_uint256 (pt_data C))) (pred_prod (ty_valid_token (PollTimestamp_type (pt_data C))) (pred_prod (ty_valid_token (sd_uint256 (pt_data C))) (ty_valid_token (sd_address (pt_data C))))))
       \<and> tuple_packed_law (pt_VotingInfo C)"

lemma VotingInfo_lawful:
  assumes "poll_types_law C"
  shows "lawful (VotingInfo_type C)"
proof -
  note laws = assms [unfolded poll_types_law_def fieldwise_def]
  show ?thesis
    by (rule lawfulI; simp add: VotingInfo_type_def VotingInfo_encode_topic_preimage_def VotingInfo_topic_preimage_length_def
        VotingInfo_to_tokens_def VotingInfo_of_tuple_def laws PollTimestamp_laws lawfulD topic_simps tuple_packed_lawD)
qed

text \<open>A sample of the crate's implementations.\<close>

definition sample_poll_types :: "nat poll_types" where
  "sample_poll_types =
     (let D = sample_data :: nat sol_data in
     \<lparr>pt_data = D,
      pt_eip712 = sample_eip712,
      pt_VotingInfo = sample_fields
         (map_prod (ty_detokenize (sd_uint256 D)) (map_prod (ty_detokenize (PollTimestamp_type D)) (map_prod (ty_detokenize (sd_uint256 D)) (ty_detokenize (sd_address D)))))
         (pred_prod (ty_valid_token (sd_uint256 D)) (pred_prod (ty_valid_token (PollTimestamp_type D)) (pred_prod (ty_valid_token (sd_uint256 D)) (ty_valid_token (sd_address D)))))\<rparr>)"

lemma sample_poll_types_law: "poll_types_law sample_poll_types"
  by (simp add: poll_types_law_def sample_poll_types_def Let_def sample_array_topic_law sample_array_token_law)

end
