(* ===== verification/Pi2_Structs.thy ===== *)
theory Pi2_Structs
  imports Pi2_Calls Sol_Struct
begin

text \<open>
  The nested structs of \<^verbatim>\<open>examples/solidity/bindings/src/pi2.rs\<close>, as in \<open>Bridge_Structs\<close>;
  the methods of a struct call those of the structs in its fields.
\<close>

section \<open>The structs\<close>

type_synonym Header_tuple = "hash \<times> hash \<times> address \<times> hash \<times> hash \<times> hash \<times> bytes \<times> u256 \<times> u256 \<times> u256 \<times> u256 \<times> u256 \<times> bytes \<times> hash \<times> bytes8"

type_synonym Header_token = "hash \<times> hash \<times> hash \<times> hash \<times> hash \<times> hash \<times> bytes \<times> hash \<times> hash \<times> hash \<times> hash \<times> hash \<times> bytes \<times> hash \<times> hash"

type_synonym EVMCall_tuple = "address \<times> address \<times> bytes"

type_synonym EVMCall_token = "hash \<times> hash \<times> bytes"

type_synonym EVMMetadata_tuple = "u256"

type_synonym EVMMetadata_token = "hash"

type_synonym Claim_tuple = "string \<times> string \<times> Header \<times> EVMCall \<times> bytes \<times> EVMMetadata"

type_synonym Claim_token = "bytes \<times> bytes \<times> Header_token \<times> EVMCall_token \<times> bytes \<times> EVMMetadata_token"

type_synonym StorageProof_tuple = "hash \<times> hash \<times> bytes list"

type_synonym StorageProof_token = "hash \<times> hash \<times> bytes list"

type_synonym AccountProof_tuple = "address \<times> bytes list \<times> u256 \<times> hash \<times> u256 \<times> hash \<times> StorageProof list"

type_synonym AccountProof_token = "hash \<times> bytes list \<times> hash \<times> hash \<times> hash \<times> hash \<times> StorageProof_token list"

type_synonym Account_tuple = "AccountProof \<times> bytes"

type_synonym Account_token = "AccountProof_token \<times> bytes"

type_synonym VerificationData_tuple = "Account list"

type_synonym VerificationData_token = "Account_token list"

text \<open>The crate's implementations that the structs use.\<close>

record 'x pi2_types =
  ct_data :: "'x sol_data"
  ct_eip712 :: eip712
  ct_array_bytes :: "(bytes, bytes) sol_type \<Rightarrow> (bytes list, bytes list) sol_type"
  ct_array_StorageProof :: "(StorageProof, StorageProof_token) sol_type \<Rightarrow> (StorageProof list, StorageProof_token list) sol_type"
  ct_array_Account :: "(Account, Account_token) sol_type \<Rightarrow> (Account list, Account_token list) sol_type"
  ct_Header :: "(Header_tuple, Header_token) tuple_type"
  ct_EVMCall :: "(EVMCall_tuple, EVMCall_token) tuple_type"
  ct_EVMMetadata :: "(EVMMetadata_tuple, EVMMetadata_token) tuple_type"
  ct_Claim :: "(Claim_tuple, Claim_token) tuple_type"
  ct_StorageProof :: "(StorageProof_tuple, StorageProof_token) tuple_type"
  ct_AccountProof :: "(AccountProof_tuple, AccountProof_token) tuple_type"
  ct_Account :: "(Account_tuple, Account_token) tuple_type"
  ct_VerificationData :: "(VerificationData_tuple, VerificationData_token) tuple_type"

subsection \<open>\<^verbatim>\<open>Header\<close>\<close>

definition Header_to_tuple :: "Header \<Rightarrow> Header_tuple" where
  "Header_to_tuple value =
     (Header_parentHash value, Header_uncleHash value, Header_coinbase value, Header_root value,
      Header_txHash value, Header_receiptHash value, Header_bloom value, Header_difficulty value,
      Header_number value, Header_gasLimit value, Header_gasUsed value, Header_time value,
      Header_extra value, Header_mixDigest value, Header_nonce value)"

definition Header_of_tuple :: "Header_tuple \<Rightarrow> Header" where
  "Header_of_tuple = (\<lambda>(t0, t1, t2, t3, t4, t5, t6, t7, t8, t9, t10, t11, t12, t13, t14).
     \<lparr>Header_parentHash = t0, Header_uncleHash = t1, Header_coinbase = t2, Header_root = t3,
      Header_txHash = t4, Header_receiptHash = t5, Header_bloom = t6, Header_difficulty = t7,
      Header_number = t8, Header_gasLimit = t9, Header_gasUsed = t10, Header_time = t11,
      Header_extra = t12, Header_mixDigest = t13, Header_nonce = t14\<rparr>)"

definition Header_to_tokens :: "'x pi2_types \<Rightarrow> Header \<Rightarrow> Header_token" where
  "Header_to_tokens C c =
     (ty_tokenize (sd_bytes32 (ct_data C)) (Header_parentHash c),
      ty_tokenize (sd_bytes32 (ct_data C)) (Header_uncleHash c),
      ty_tokenize (sd_address (ct_data C)) (Header_coinbase c),
      ty_tokenize (sd_bytes32 (ct_data C)) (Header_root c),
      ty_tokenize (sd_bytes32 (ct_data C)) (Header_txHash c),
      ty_tokenize (sd_bytes32 (ct_data C)) (Header_receiptHash c),
      ty_tokenize (sd_bytes (ct_data C)) (Header_bloom c),
      ty_tokenize (sd_uint256 (ct_data C)) (Header_difficulty c),
      ty_tokenize (sd_uint256 (ct_data C)) (Header_number c),
      ty_tokenize (sd_uint256 (ct_data C)) (Header_gasLimit c),
      ty_tokenize (sd_uint256 (ct_data C)) (Header_gasUsed c),
      ty_tokenize (sd_uint256 (ct_data C)) (Header_time c),
      ty_tokenize (sd_bytes (ct_data C)) (Header_extra c),
      ty_tokenize (sd_bytes32 (ct_data C)) (Header_mixDigest c),
      ty_tokenize (sd_bytes8 (ct_data C)) (Header_nonce c))"

definition Header_root_type :: string where
  "Header_root_type = ''Header(bytes32 parentHash,bytes32 uncleHash,address coinbase,bytes32 root,bytes32 txHash,bytes32 receiptHash,bytes bloom,uint256 difficulty,uint256 number,uint256 gasLimit,uint256 gasUsed,uint256 time,bytes extra,bytes32 mixDigest,bytes8 nonce)''"

definition Header_components :: "string list" where
  "Header_components = []"

definition Header_encode_type :: "'x pi2_types \<Rightarrow> string" where
  "Header_encode_type C = Header_root_type"

definition Header_encode_data :: "'x pi2_types \<Rightarrow> Header \<Rightarrow> bytes" where
  "Header_encode_data C c =
     concat_words [ty_data_word (sd_bytes32 (ct_data C)) (Header_parentHash c),
        ty_data_word (sd_bytes32 (ct_data C)) (Header_uncleHash c),
        ty_data_word (sd_address (ct_data C)) (Header_coinbase c),
        ty_data_word (sd_bytes32 (ct_data C)) (Header_root c),
        ty_data_word (sd_bytes32 (ct_data C)) (Header_txHash c),
        ty_data_word (sd_bytes32 (ct_data C)) (Header_receiptHash c),
        ty_data_word (sd_bytes (ct_data C)) (Header_bloom c),
        ty_data_word (sd_uint256 (ct_data C)) (Header_difficulty c),
        ty_data_word (sd_uint256 (ct_data C)) (Header_number c),
        ty_data_word (sd_uint256 (ct_data C)) (Header_gasLimit c),
        ty_data_word (sd_uint256 (ct_data C)) (Header_gasUsed c),
        ty_data_word (sd_uint256 (ct_data C)) (Header_time c),
        ty_data_word (sd_bytes (ct_data C)) (Header_extra c),
        ty_data_word (sd_bytes32 (ct_data C)) (Header_mixDigest c),
        ty_data_word (sd_bytes8 (ct_data C)) (Header_nonce c)]"

definition Header_hash_struct :: "'x pi2_types \<Rightarrow> Header \<Rightarrow> hash" where
  "Header_hash_struct C c = e7_hash_struct (ct_eip712 C) (Header_encode_type C) (Header_encode_data C c)"

definition Header_topic_preimage_length :: "'x pi2_types \<Rightarrow> Header \<Rightarrow> nat" where
  "Header_topic_preimage_length C rust =
     0 + ty_topic_length (sd_bytes32 (ct_data C)) (Header_parentHash rust) +
       ty_topic_length (sd_bytes32 (ct_data C)) (Header_uncleHash rust) +
       ty_topic_length (sd_address (ct_data C)) (Header_coinbase rust) +
       ty_topic_length (sd_bytes32 (ct_data C)) (Header_root rust) +
       ty_topic_length (sd_bytes32 (ct_data C)) (Header_txHash rust) +
       ty_topic_length (sd_bytes32 (ct_data C)) (Header_receiptHash rust) +
       ty_topic_length (sd_bytes (ct_data C)) (Header_bloom rust) +
       ty_topic_length (sd_uint256 (ct_data C)) (Header_difficulty rust) +
       ty_topic_length (sd_uint256 (ct_data C)) (Header_number rust) +
       ty_topic_length (sd_uint256 (ct_data C)) (Header_gasLimit rust) +
       ty_topic_length (sd_uint256 (ct_data C)) (Header_gasUsed rust) +
       ty_topic_length (sd_uint256 (ct_data C)) (Header_time rust) +
       ty_topic_length (sd_bytes (ct_data C)) (Header_extra rust) +
       ty_topic_length (sd_bytes32 (ct_data C)) (Header_mixDigest rust) +
       ty_topic_length (sd_bytes8 (ct_data C)) (Header_nonce rust)"

definition Header_encode_topic_preimage :: "'x pi2_types \<Rightarrow> Header \<Rightarrow> bytes \<Rightarrow> bytes" where
  "Header_encode_topic_preimage C rust out =
     (let out = ty_topic_preimage (sd_bytes32 (ct_data C)) (Header_parentHash rust) out;
          out = ty_topic_preimage (sd_bytes32 (ct_data C)) (Header_uncleHash rust) out;
          out = ty_topic_preimage (sd_address (ct_data C)) (Header_coinbase rust) out;
          out = ty_topic_preimage (sd_bytes32 (ct_data C)) (Header_root rust) out;
          out = ty_topic_preimage (sd_bytes32 (ct_data C)) (Header_txHash rust) out;
          out = ty_topic_preimage (sd_bytes32 (ct_data C)) (Header_receiptHash rust) out;
          out = ty_topic_preimage (sd_bytes (ct_data C)) (Header_bloom rust) out;
          out = ty_topic_preimage (sd_uint256 (ct_data C)) (Header_difficulty rust) out;
          out = ty_topic_preimage (sd_uint256 (ct_data C)) (Header_number rust) out;
          out = ty_topic_preimage (sd_uint256 (ct_data C)) (Header_gasLimit rust) out;
          out = ty_topic_preimage (sd_uint256 (ct_data C)) (Header_gasUsed rust) out;
          out = ty_topic_preimage (sd_uint256 (ct_data C)) (Header_time rust) out;
          out = ty_topic_preimage (sd_bytes (ct_data C)) (Header_extra rust) out;
          out = ty_topic_preimage (sd_bytes32 (ct_data C)) (Header_mixDigest rust) out;
          out = ty_topic_preimage (sd_bytes8 (ct_data C)) (Header_nonce rust) out
      in out)"

definition Header_encode_topic :: "'x pi2_types \<Rightarrow> Header \<Rightarrow> hash" where
  "Header_encode_topic C rust = e7_keccak (ct_eip712 C) (Header_encode_topic_preimage C rust [])"

definition Header_type :: "'x pi2_types \<Rightarrow> (Header, Header_token) sol_type" where
  "Header_type C =
     \<lparr>ty_name = ''Header'', ty_encoded_size = tt_encoded_size (ct_Header C), ty_packed_size = tt_packed_size (ct_Header C),
      ty_valid_token = tt_valid_token (ct_Header C), ty_tokenize = Header_to_tokens C,
      ty_detokenize = (\<lambda>token. Header_of_tuple (tt_detokenize (ct_Header C) token)),
      ty_abi_encoded_size = (\<lambda>v. const_or (tt_encoded_size (ct_Header C)) (tt_abi_encoded_size (ct_Header C) (Header_to_tuple v))),
      ty_data_word = Header_hash_struct C,
      ty_encode_packed = (\<lambda>v out. tt_encode_packed (ct_Header C) (Header_to_tuple v) out),
      ty_packed_encoded_size = (\<lambda>v. const_or (tt_packed_size (ct_Header C)) (tt_packed_encoded_size (ct_Header C) (Header_to_tuple v))),
      ty_topic_length = Header_topic_preimage_length C, ty_topic_preimage = Header_encode_topic_preimage C,
      ty_topic = Header_encode_topic C\<rparr>"

subsection \<open>\<^verbatim>\<open>EVMCall\<close>\<close>

definition EVMCall_to_tuple :: "EVMCall \<Rightarrow> EVMCall_tuple" where
  "EVMCall_to_tuple value =
     (EVMCall_from value, EVMCall_to value, EVMCall_input value)"

definition EVMCall_of_tuple :: "EVMCall_tuple \<Rightarrow> EVMCall" where
  "EVMCall_of_tuple = (\<lambda>(t0, t1, t2).
     \<lparr>EVMCall_from = t0, EVMCall_to = t1, EVMCall_input = t2\<rparr>)"

definition EVMCall_to_tokens :: "'x pi2_types \<Rightarrow> EVMCall \<Rightarrow> EVMCall_token" where
  "EVMCall_to_tokens C c =
     (ty_tokenize (sd_address (ct_data C)) (EVMCall_from c),
      ty_tokenize (sd_address (ct_data C)) (EVMCall_to c),
      ty_tokenize (sd_bytes (ct_data C)) (EVMCall_input c))"

definition EVMCall_root_type :: string where
  "EVMCall_root_type = ''EVMCall(address from,address to,bytes input)''"

definition EVMCall_components :: "string list" where
  "EVMCall_components = []"

definition EVMCall_encode_type :: "'x pi2_types \<Rightarrow> string" where
  "EVMCall_encode_type C = EVMCall_root_type"

definition EVMCall_encode_data :: "'x pi2_types \<Rightarrow> EVMCall \<Rightarrow> bytes" where
  "EVMCall_encode_data C c =
     concat_words [ty_data_word (sd_address (ct_data C)) (EVMCall_from c),
        ty_data_word (sd_address (ct_data C)) (EVMCall_to c),
        ty_data_word (sd_bytes (ct_data C)) (EVMCall_input c)]"

definition EVMCall_hash_struct :: "'x pi2_types \<Rightarrow> EVMCall \<Rightarrow> hash" where
  "EVMCall_hash_struct C c = e7_hash_struct (ct_eip712 C) (EVMCall_encode_type C) (EVMCall_encode_data C c)"

definition EVMCall_topic_preimage_length :: "'x pi2_types \<Rightarrow> EVMCall \<Rightarrow> nat" where
  "EVMCall_topic_preimage_length C rust =
     0 + ty_topic_length (sd_address (ct_data C)) (EVMCall_from rust) +
       ty_topic_length (sd_address (ct_data C)) (EVMCall_to rust) +
       ty_topic_length (sd_bytes (ct_data C)) (EVMCall_input rust)"

definition EVMCall_encode_topic_preimage :: "'x pi2_types \<Rightarrow> EVMCall \<Rightarrow> bytes \<Rightarrow> bytes" where
  "EVMCall_encode_topic_preimage C rust out =
     (let out = ty_topic_preimage (sd_address (ct_data C)) (EVMCall_from rust) out;
          out = ty_topic_preimage (sd_address (ct_data C)) (EVMCall_to rust) out;
          out = ty_topic_preimage (sd_bytes (ct_data C)) (EVMCall_input rust) out
      in out)"

definition EVMCall_encode_topic :: "'x pi2_types \<Rightarrow> EVMCall \<Rightarrow> hash" where
  "EVMCall_encode_topic C rust = e7_keccak (ct_eip712 C) (EVMCall_encode_topic_preimage C rust [])"

definition EVMCall_type :: "'x pi2_types \<Rightarrow> (EVMCall, EVMCall_token) sol_type" where
  "EVMCall_type C =
     \<lparr>ty_name = ''EVMCall'', ty_encoded_size = tt_encoded_size (ct_EVMCall C), ty_packed_size = tt_packed_size (ct_EVMCall C),
      ty_valid_token = tt_valid_token (ct_EVMCall C), ty_tokenize = EVMCall_to_tokens C,
      ty_detokenize = (\<lambda>token. EVMCall_of_tuple (tt_detokenize (ct_EVMCall C) token)),
      ty_abi_encoded_size = (\<lambda>v. const_or (tt_encoded_size (ct_EVMCall C)) (tt_abi_encoded_size (ct_EVMCall C) (EVMCall_to_tuple v))),
      ty_data_word = EVMCall_hash_struct C,
      ty_encode_packed = (\<lambda>v out. tt_encode_packed (ct_EVMCall C) (EVMCall_to_tuple v) out),
      ty_packed_encoded_size = (\<lambda>v. const_or (tt_packed_size (ct_EVMCall C)) (tt_packed_encoded_size (ct_EVMCall C) (EVMCall_to_tuple v))),
      ty_topic_length = EVMCall_topic_preimage_length C, ty_topic_preimage = EVMCall_encode_topic_preimage C,
      ty_topic = EVMCall_encode_topic C\<rparr>"

subsection \<open>\<^verbatim>\<open>EVMMetadata\<close>\<close>

definition EVMMetadata_to_tuple :: "EVMMetadata \<Rightarrow> EVMMetadata_tuple" where
  "EVMMetadata_to_tuple value =
     (EVMMetadata_chainId value)"

definition EVMMetadata_of_tuple :: "EVMMetadata_tuple \<Rightarrow> EVMMetadata" where
  "EVMMetadata_of_tuple = (\<lambda>t0.
     \<lparr>EVMMetadata_chainId = t0\<rparr>)"

definition EVMMetadata_to_tokens :: "'x pi2_types \<Rightarrow> EVMMetadata \<Rightarrow> EVMMetadata_token" where
  "EVMMetadata_to_tokens C c =
     (ty_tokenize (sd_uint256 (ct_data C)) (EVMMetadata_chainId c))"

definition EVMMetadata_root_type :: string where
  "EVMMetadata_root_type = ''EVMMetadata(uint256 chainId)''"

definition EVMMetadata_components :: "string list" where
  "EVMMetadata_components = []"

definition EVMMetadata_encode_type :: "'x pi2_types \<Rightarrow> string" where
  "EVMMetadata_encode_type C = EVMMetadata_root_type"

definition EVMMetadata_encode_data :: "'x pi2_types \<Rightarrow> EVMMetadata \<Rightarrow> bytes" where
  "EVMMetadata_encode_data C c =
     concat_words [ty_data_word (sd_uint256 (ct_data C)) (EVMMetadata_chainId c)]"

definition EVMMetadata_hash_struct :: "'x pi2_types \<Rightarrow> EVMMetadata \<Rightarrow> hash" where
  "EVMMetadata_hash_struct C c = e7_hash_struct (ct_eip712 C) (EVMMetadata_encode_type C) (EVMMetadata_encode_data C c)"

definition EVMMetadata_topic_preimage_length :: "'x pi2_types \<Rightarrow> EVMMetadata \<Rightarrow> nat" where
  "EVMMetadata_topic_preimage_length C rust =
     0 + ty_topic_length (sd_uint256 (ct_data C)) (EVMMetadata_chainId rust)"

definition EVMMetadata_encode_topic_preimage :: "'x pi2_types \<Rightarrow> EVMMetadata \<Rightarrow> bytes \<Rightarrow> bytes" where
  "EVMMetadata_encode_topic_preimage C rust out =
     (let out = ty_topic_preimage (sd_uint256 (ct_data C)) (EVMMetadata_chainId rust) out
      in out)"

definition EVMMetadata_encode_topic :: "'x pi2_types \<Rightarrow> EVMMetadata \<Rightarrow> hash" where
  "EVMMetadata_encode_topic C rust = e7_keccak (ct_eip712 C) (EVMMetadata_encode_topic_preimage C rust [])"

definition EVMMetadata_type :: "'x pi2_types \<Rightarrow> (EVMMetadata, EVMMetadata_token) sol_type" where
  "EVMMetadata_type C =
     \<lparr>ty_name = ''EVMMetadata'', ty_encoded_size = tt_encoded_size (ct_EVMMetadata C), ty_packed_size = tt_packed_size (ct_EVMMetadata C),
      ty_valid_token = tt_valid_token (ct_EVMMetadata C), ty_tokenize = EVMMetadata_to_tokens C,
      ty_detokenize = (\<lambda>token. EVMMetadata_of_tuple (tt_detokenize (ct_EVMMetadata C) token)),
      ty_abi_encoded_size = (\<lambda>v. const_or (tt_encoded_size (ct_EVMMetadata C)) (tt_abi_encoded_size (ct_EVMMetadata C) (EVMMetadata_to_tuple v))),
      ty_data_word = EVMMetadata_hash_struct C,
      ty_encode_packed = (\<lambda>v out. tt_encode_packed (ct_EVMMetadata C) (EVMMetadata_to_tuple v) out),
      ty_packed_encoded_size = (\<lambda>v. const_or (tt_packed_size (ct_EVMMetadata C)) (tt_packed_encoded_size (ct_EVMMetadata C) (EVMMetadata_to_tuple v))),
      ty_topic_length = EVMMetadata_topic_preimage_length C, ty_topic_preimage = EVMMetadata_encode_topic_preimage C,
      ty_topic = EVMMetadata_encode_topic C\<rparr>"

subsection \<open>\<^verbatim>\<open>Claim\<close>\<close>

definition Claim_to_tuple :: "Claim \<Rightarrow> Claim_tuple" where
  "Claim_to_tuple value =
     (Claim_claimType value, Claim_trustBaseSpec value, Claim_assumptions value, Claim_action value,
      Claim_result value, Claim_metadata value)"

definition Claim_of_tuple :: "Claim_tuple \<Rightarrow> Claim" where
  "Claim_of_tuple = (\<lambda>(t0, t1, t2, t3, t4, t5).
     \<lparr>Claim_claimType = t0, Claim_trustBaseSpec = t1, Claim_assumptions = t2, Claim_action = t3,
      Claim_result = t4, Claim_metadata = t5\<rparr>)"

definition Claim_to_tokens :: "'x pi2_types \<Rightarrow> Claim \<Rightarrow> Claim_token" where
  "Claim_to_tokens C c =
     (ty_tokenize (sd_string (ct_data C)) (Claim_claimType c),
      ty_tokenize (sd_string (ct_data C)) (Claim_trustBaseSpec c),
      ty_tokenize (Header_type C) (Claim_assumptions c), ty_tokenize (EVMCall_type C) (Claim_action c),
      ty_tokenize (sd_bytes (ct_data C)) (Claim_result c),
      ty_tokenize (EVMMetadata_type C) (Claim_metadata c))"

definition Claim_root_type :: string where
  "Claim_root_type = ''Claim(string claimType,string trustBaseSpec,Header assumptions,EVMCall action,bytes result,EVMMetadata metadata)''"

definition Claim_components :: "string list" where
  "Claim_components = 
     (Header_root_type # Header_components) @ (EVMCall_root_type # EVMCall_components) @ EVMMetadata_root_type # EVMMetadata_components"

definition Claim_encode_type :: "'x pi2_types \<Rightarrow> string" where
  "Claim_encode_type C = e7_encode_type (ct_eip712 C) Claim_root_type Claim_components"

definition Claim_encode_data :: "'x pi2_types \<Rightarrow> Claim \<Rightarrow> bytes" where
  "Claim_encode_data C c =
     concat_words [ty_data_word (sd_string (ct_data C)) (Claim_claimType c),
        ty_data_word (sd_string (ct_data C)) (Claim_trustBaseSpec c),
        ty_data_word (Header_type C) (Claim_assumptions c),
        ty_data_word (EVMCall_type C) (Claim_action c),
        ty_data_word (sd_bytes (ct_data C)) (Claim_result c),
        ty_data_word (EVMMetadata_type C) (Claim_metadata c)]"

definition Claim_hash_struct :: "'x pi2_types \<Rightarrow> Claim \<Rightarrow> hash" where
  "Claim_hash_struct C c = e7_hash_struct (ct_eip712 C) (Claim_encode_type C) (Claim_encode_data C c)"

definition Claim_topic_preimage_length :: "'x pi2_types \<Rightarrow> Claim \<Rightarrow> nat" where
  "Claim_topic_preimage_length C rust =
     0 + ty_topic_length (sd_string (ct_data C)) (Claim_claimType rust) +
       ty_topic_length (sd_string (ct_data C)) (Claim_trustBaseSpec rust) +
       ty_topic_length (Header_type C) (Claim_assumptions rust) +
       ty_topic_length (EVMCall_type C) (Claim_action rust) +
       ty_topic_length (sd_bytes (ct_data C)) (Claim_result rust) +
       ty_topic_length (EVMMetadata_type C) (Claim_metadata rust)"

definition Claim_encode_topic_preimage :: "'x pi2_types \<Rightarrow> Claim \<Rightarrow> bytes \<Rightarrow> bytes" where
  "Claim_encode_topic_preimage C rust out =
     (let out = ty_topic_preimage (sd_string (ct_data C)) (Claim_claimType rust) out;
          out = ty_topic_preimage (sd_string (ct_data C)) (Claim_trustBaseSpec rust) out;
          out = ty_topic_preimage (Header_type C) (Claim_assumptions rust) out;
          out = ty_topic_preimage (EVMCall_type C) (Claim_action rust) out;
          out = ty_topic_preimage (sd_bytes (ct_data C)) (Claim_result rust) out;
          out = ty_topic_preimage (EVMMetadata_type C) (Claim_metadata rust) out
      in out)"

definition Claim_encode_topic :: "'x pi2_types \<Rightarrow> Claim \<Rightarrow> hash" where
  "Claim_encode_topic C rust = e7_keccak (ct_eip712 C) (Claim_encode_topic_preimage C rust [])"

definition Claim_type :: "'x pi2_types \<Rightarrow> (Claim, Claim_token) sol_type" where
  "Claim_type C =
     \<lparr>ty_name = ''Claim'', ty_encoded_size = tt_encoded_size (ct_Claim C), ty_packed_size = tt_packed_size (ct_Claim C),
      ty_valid_token = tt_valid_token (ct_Claim C), ty_tokenize = Claim_to_tokens C,
      ty_detokenize = (\<lambda>token. Claim_of_tuple (tt_detokenize (ct_Claim C) token)),
      ty_abi_encoded_size = (\<lambda>v. const_or (tt_encoded_size (ct_Claim C)) (tt_abi_encoded_size (ct_Claim C) (Claim_to_tuple v))),
      ty_data_word = Claim_hash_struct C,
      ty_encode_packed = (\<lambda>v out. tt_encode_packed (ct_Claim C) (Claim_to_tuple v) out),
      ty_packed_encoded_size = (\<lambda>v. const_or (tt_packed_size (ct_Claim C)) (tt_packed_encoded_size (ct_Claim C) (Claim_to_tuple v))),
      ty_topic_length = Claim_topic_preimage_length C, ty_topic_preimage = Claim_encode_topic_preimage C,
      ty_topic = Claim_encode_topic C\<rparr>"

subsection \<open>\<^verbatim>\<open>StorageProof\<close>\<close>

definition StorageProof_to_tuple :: "StorageProof \<Rightarrow> StorageProof_tuple" where
  "StorageProof_to_tuple value =
     (StorageProof_key value, StorageProof_value value, StorageProof_proof value)"

definition StorageProof_of_tuple :: "StorageProof_tuple \<Rightarrow> StorageProof" where
  "StorageProof_of_tuple = (\<lambda>(t0, t1, t2).
     \<lparr>StorageProof_key = t0, StorageProof_value = t1, StorageProof_proof = t2\<rparr>)"

definition StorageProof_to_tokens :: "'x pi2_types \<Rightarrow> StorageProof \<Rightarrow> StorageProof_token" where
  "StorageProof_to_tokens C c =
     (ty_tokenize (sd_bytes32 (ct_data C)) (StorageProof_key c),
      ty_tokenize (sd_bytes32 (ct_data C)) (StorageProof_value c),
      ty_tokenize (ct_array_bytes C (sd_bytes (ct_data C))) (StorageProof_proof c))"

definition StorageProof_root_type :: string where
  "StorageProof_root_type = ''StorageProof(bytes32 key,bytes32 value,bytes[] proof)''"

definition StorageProof_components :: "string list" where
  "StorageProof_components = []"

definition StorageProof_encode_type :: "'x pi2_types \<Rightarrow> string" where
  "StorageProof_encode_type C = StorageProof_root_type"

definition StorageProof_encode_data :: "'x pi2_types \<Rightarrow> StorageProof \<Rightarrow> bytes" where
  "StorageProof_encode_data C c =
     concat_words [ty_data_word (sd_bytes32 (ct_data C)) (StorageProof_key c),
        ty_data_word (sd_bytes32 (ct_data C)) (StorageProof_value c),
        ty_data_word (ct_array_bytes C (sd_bytes (ct_data C))) (StorageProof_proof c)]"

definition StorageProof_hash_struct :: "'x pi2_types \<Rightarrow> StorageProof \<Rightarrow> hash" where
  "StorageProof_hash_struct C c = e7_hash_struct (ct_eip712 C) (StorageProof_encode_type C) (StorageProof_encode_data C c)"

definition StorageProof_topic_preimage_length :: "'x pi2_types \<Rightarrow> StorageProof \<Rightarrow> nat" where
  "StorageProof_topic_preimage_length C rust =
     0 + ty_topic_length (sd_bytes32 (ct_data C)) (StorageProof_key rust) +
       ty_topic_length (sd_bytes32 (ct_data C)) (StorageProof_value rust) +
       ty_topic_length (ct_array_bytes C (sd_bytes (ct_data C))) (StorageProof_proof rust)"

definition StorageProof_encode_topic_preimage :: "'x pi2_types \<Rightarrow> StorageProof \<Rightarrow> bytes \<Rightarrow> bytes" where
  "StorageProof_encode_topic_preimage C rust out =
     (let out = ty_topic_preimage (sd_bytes32 (ct_data C)) (StorageProof_key rust) out;
          out = ty_topic_preimage (sd_bytes32 (ct_data C)) (StorageProof_value rust) out;
          out = ty_topic_preimage (ct_array_bytes C (sd_bytes (ct_data C))) (StorageProof_proof rust) out
      in out)"

definition StorageProof_encode_topic :: "'x pi2_types \<Rightarrow> StorageProof \<Rightarrow> hash" where
  "StorageProof_encode_topic C rust = e7_keccak (ct_eip712 C) (StorageProof_encode_topic_preimage C rust [])"

definition StorageProof_type :: "'x pi2_types \<Rightarrow> (StorageProof, StorageProof_token) sol_type" where
  "StorageProof_type C =
     \<lparr>ty_name = ''StorageProof'', ty_encoded_size = tt_encoded_size (ct_StorageProof C), ty_packed_size = tt_packed_size (ct_StorageProof C),
      ty_valid_token = tt_valid_token (ct_StorageProof C), ty_tokenize = StorageProof_to_tokens C,
      ty_detokenize = (\<lambda>token. StorageProof_of_tuple (tt_detokenize (ct_StorageProof C) token)),
      ty_abi_encoded_size = (\<lambda>v. const_or (tt_encoded_size (ct_StorageProof C)) (tt_abi_encoded_size (ct_StorageProof C) (StorageProof_to_tuple v))),
      ty_data_word = StorageProof_hash_struct C,
      ty_encode_packed = (\<lambda>v out. tt_encode_packed (ct_StorageProof C) (StorageProof_to_tuple v) out),
      ty_packed_encoded_size = (\<lambda>v. const_or (tt_packed_size (ct_StorageProof C)) (tt_packed_encoded_size (ct_StorageProof C) (StorageProof_to_tuple v))),
      ty_topic_length = StorageProof_topic_preimage_length C, ty_topic_preimage = StorageProof_encode_topic_preimage C,
      ty_topic = StorageProof_encode_topic C\<rparr>"

subsection \<open>\<^verbatim>\<open>AccountProof\<close>\<close>

definition AccountProof_to_tuple :: "AccountProof \<Rightarrow> AccountProof_tuple" where
  "AccountProof_to_tuple value =
     (AccountProof_addr value, AccountProof_accountProof value, AccountProof_balance value,
      AccountProof_codeHash value, AccountProof_nonce value, AccountProof_storageHash value,
      AccountProof_storageProof value)"

definition AccountProof_of_tuple :: "AccountProof_tuple \<Rightarrow> AccountProof" where
  "AccountProof_of_tuple = (\<lambda>(t0, t1, t2, t3, t4, t5, t6).
     \<lparr>AccountProof_addr = t0, AccountProof_accountProof = t1, AccountProof_balance = t2,
      AccountProof_codeHash = t3, AccountProof_nonce = t4, AccountProof_storageHash = t5,
      AccountProof_storageProof = t6\<rparr>)"

definition AccountProof_to_tokens :: "'x pi2_types \<Rightarrow> AccountProof \<Rightarrow> AccountProof_token" where
  "AccountProof_to_tokens C c =
     (ty_tokenize (sd_address (ct_data C)) (AccountProof_addr c),
      ty_tokenize (ct_array_bytes C (sd_bytes (ct_data C))) (AccountProof_accountProof c),
      ty_tokenize (sd_uint256 (ct_data C)) (AccountProof_balance c),
      ty_tokenize (sd_bytes32 (ct_data C)) (AccountProof_codeHash c),
      ty_tokenize (sd_uint256 (ct_data C)) (AccountProof_nonce c),
      ty_tokenize (sd_bytes32 (ct_data C)) (AccountProof_storageHash c),
      ty_tokenize (ct_array_StorageProof C (StorageProof_type C)) (AccountProof_storageProof c))"

definition AccountProof_root_type :: string where
  "AccountProof_root_type = ''AccountProof(address addr,bytes[] accountProof,uint256 balance,bytes32 codeHash,uint256 nonce,bytes32 storageHash,StorageProof[] storageProof)''"

definition AccountProof_components :: "string list" where
  "AccountProof_components = 
     StorageProof_root_type # StorageProof_components"

definition AccountProof_encode_type :: "'x pi2_types \<Rightarrow> string" where
  "AccountProof_encode_type C = e7_encode_type (ct_eip712 C) AccountProof_root_type AccountProof_components"

definition AccountProof_encode_data :: "'x pi2_types \<Rightarrow> AccountProof \<Rightarrow> bytes" where
  "AccountProof_encode_data C c =
     concat_words [ty_data_word (sd_address (ct_data C)) (AccountProof_addr c),
        ty_data_word (ct_array_bytes C (sd_bytes (ct_data C))) (AccountProof_accountProof c),
        ty_data_word (sd_uint256 (ct_data C)) (AccountProof_balance c),
        ty_data_word (sd_bytes32 (ct_data C)) (AccountProof_codeHash c),
        ty_data_word (sd_uint256 (ct_data C)) (AccountProof_nonce c),
        ty_data_word (sd_bytes32 (ct_data C)) (AccountProof_storageHash c),
        ty_data_word (ct_array_StorageProof C (StorageProof_type C)) (AccountProof_storageProof c)]"

definition AccountProof_hash_struct :: "'x pi2_types \<Rightarrow> AccountProof \<Rightarrow> hash" where
  "AccountProof_hash_struct C c = e7_hash_struct (ct_eip712 C) (AccountProof_encode_type C) (AccountProof_encode_data C c)"

definition AccountProof_topic_preimage_length :: "'x pi2_types \<Rightarrow> AccountProof \<Rightarrow> nat" where
  "AccountProof_topic_preimage_length C rust =
     0 + ty_topic_length (sd_address (ct_data C)) (AccountProof_addr rust) +
       ty_topic_length (ct_array_bytes C (sd_bytes (ct_data C))) (AccountProof_accountProof rust) +
       ty_topic_length (sd_uint256 (ct_data C)) (AccountProof_balance rust) +
       ty_topic_length (sd_bytes32 (ct_data C)) (AccountProof_codeHash rust) +
       ty_topic_length (sd_uint256 (ct_data C)) (AccountProof_nonce rust) +
       ty_topic_length (sd_bytes32 (ct_data C)) (AccountProof_storageHash rust) +
       ty_topic_length (ct_array_StorageProof C (StorageProof_type C)) (AccountProof_storageProof rust)"

definition AccountProof_encode_topic_preimage :: "'x pi2_types \<Rightarrow> AccountProof \<Rightarrow> bytes \<Rightarrow> bytes" where
  "AccountProof_encode_topic_preimage C rust out =
     (let out = ty_topic_preimage (sd_address (ct_data C)) (AccountProof_addr rust) out;
          out = ty_topic_preimage (ct_array_bytes C (sd_bytes (ct_data C))) (AccountProof_accountProof rust) out;
          out = ty_topic_preimage (sd_uint256 (ct_data C)) (AccountProof_balance rust) out;
          out = ty_topic_preimage (sd_bytes32 (ct_data C)) (AccountProof_codeHash rust) out;
          out = ty_topic_preimage (sd_uint256 (ct_data C)) (AccountProof_nonce rust) out;
          out = ty_topic_preimage (sd_bytes32 (ct_data C)) (AccountProof_storageHash rust) out;
          out = ty_topic_preimage (ct_array_StorageProof C (StorageProof_type C)) (AccountProof_storageProof rust) out
      in out)"

definition AccountProof_encode_topic :: "'x pi2_types \<Rightarrow> AccountProof \<Rightarrow> hash" where
  "AccountProof_encode_topic C rust = e7_keccak (ct_eip712 C) (AccountProof_encode_topic_preimage C rust [])"

definition AccountProof_type :: "'x pi2_types \<Rightarrow> (AccountProof, AccountProof_token) sol_type" where
  "AccountProof_type C =
     \<lparr>ty_name = ''AccountProof'', ty_encoded_size = tt_encoded_size (ct_AccountProof C), ty_packed_size = tt_packed_size (ct_AccountProof C),
      ty_valid_token = tt_valid_token (ct_AccountProof C), ty_tokenize = AccountProof_to_tokens C,
      ty_detokenize = (\<lambda>token. AccountProof_of_tuple (tt_detokenize (ct_AccountProof C) token)),
      ty_abi_encoded_size = (\<lambda>v. const_or (tt_encoded_size (ct_AccountProof C)) (tt_abi_encoded_size (ct_AccountProof C) (AccountProof_to_tuple v))),
      ty_data_word = AccountProof_hash_struct C,
      ty_encode_packed = (\<lambda>v out. tt_encode_packed (ct_AccountProof C) (AccountProof_to_tuple v) out),
      ty_packed_encoded_size = (\<lambda>v. const_or (tt_packed_size (ct_AccountProof C)) (tt_packed_encoded_size (ct_AccountProof C) (AccountProof_to_tuple v))),
      ty_topic_length = AccountProof_topic_preimage_length C, ty_topic_preimage = AccountProof_encode_topic_preimage C,
      ty_topic = AccountProof_encode_topic C\<rparr>"

subsection \<open>\<^verbatim>\<open>Account\<close>\<close>

definition Account_to_tuple :: "Account \<Rightarrow> Account_tuple" where
  "Account_to_tuple value =
     (Account_proof value, Account_code value)"

definition Account_of_tuple :: "Account_tuple \<Rightarrow> Account" where
  "Account_of_tuple = (\<lambda>(t0, t1).
     \<lparr>Account_proof = t0, Account_code = t1\<rparr>)"

definition Account_to_tokens :: "'x pi2_types \<Rightarrow> Account \<Rightarrow> Account_token" where
  "Account_to_tokens C c =
     (ty_tokenize (AccountProof_type C) (Account_proof c),
      ty_tokenize (sd_bytes (ct_data C)) (Account_code c))"

definition Account_root_type :: string where
  "Account_root_type = ''Account(AccountProof proof,bytes code)''"

definition Account_components :: "string list" where
  "Account_components = 
     AccountProof_root_type # AccountProof_components"

definition Account_encode_type :: "'x pi2_types \<Rightarrow> string" where
  "Account_encode_type C = e7_encode_type (ct_eip712 C) Account_root_type Account_components"

definition Account_encode_data :: "'x pi2_types \<Rightarrow> Account \<Rightarrow> bytes" where
  "Account_encode_data C c =
     concat_words [ty_data_word (AccountProof_type C) (Account_proof c),
        ty_data_word (sd_bytes (ct_data C)) (Account_code c)]"

definition Account_hash_struct :: "'x pi2_types \<Rightarrow> Account \<Rightarrow> hash" where
  "Account_hash_struct C c = e7_hash_struct (ct_eip712 C) (Account_encode_type C) (Account_encode_data C c)"

definition Account_topic_preimage_length :: "'x pi2_types \<Rightarrow> Account \<Rightarrow> nat" where
  "Account_topic_preimage_length C rust =
     0 + ty_topic_length (AccountProof_type C) (Account_proof rust) +
       ty_topic_length (sd_bytes (ct_data C)) (Account_code rust)"

definition Account_encode_topic_preimage :: "'x pi2_types \<Rightarrow> Account \<Rightarrow> bytes \<Rightarrow> bytes" where
  "Account_encode_topic_preimage C rust out =
     (let out = ty_topic_preimage (AccountProof_type C) (Account_proof rust) out;
          out = ty_topic_preimage (sd_bytes (ct_data C)) (Account_code rust) out
      in out)"

definition Account_encode_topic :: "'x pi2_types \<Rightarrow> Account \<Rightarrow> hash" where
  "Account_encode_topic C rust = e7_keccak (ct_eip712 C) (Account_encode_topic_preimage C rust [])"

definition Account_type :: "'x pi2_types \<Rightarrow> (Account, Account_token) sol_type" where
  "Account_type C =
     \<lparr>ty_name = ''Account'', ty_encoded_size = tt_encoded_size (ct_Account C), ty_packed_size = tt_packed_size (ct_Account C),
      ty_valid_token = tt_valid_token (ct_Account C), ty_tokenize = Account_to_tokens C,
      ty_detokenize = (\<lambda>token. Account_of_tuple (tt_detokenize (ct_Account C) token)),
      ty_abi_encoded_size = (\<lambda>v. const_or (tt_encoded_size (ct_Account C)) (tt_abi_encoded_size (ct_Account C) (Account_to_tuple v))),
      ty_data_word = Account_hash_struct C,
      ty_encode_packed = (\<lambda>v out. tt_encode_packed (ct_Account C) (Account_to_tuple v) out),
      ty_packed_encoded_size = (\<lambda>v. const_or (tt_packed_size (ct_Account C)) (tt_packed_encoded_size (ct_Account C) (Account_to_tuple v))),
      ty_topic_length = Account_topic_preimage_length C, ty_topic_preimage = Account_encode_topic_preimage C,
      ty_topic = Account_encode_topic C\<rparr>"

subsection \<open>\<^verbatim>\<open>VerificationData\<close>\<close>

definition VerificationData_to_tuple :: "VerificationData \<Rightarrow> VerificationData_tuple" where
  "VerificationData_to_tuple value =
     (VerificationData_accounts value)"

definition VerificationData_of_tuple :: "VerificationData_tuple \<Rightarrow> VerificationData" where
  "VerificationData_of_tuple = (\<lambda>t0.
     \<lparr>VerificationData_accounts = t0\<rparr>)"

definition VerificationData_to_tokens :: "'x pi2_types \<Rightarrow> VerificationData \<Rightarrow> VerificationData_token" where
  "VerificationData_to_tokens C c =
     (ty_tokenize (ct_array_Account C (Account_type C)) (VerificationData_accounts c))"

definition VerificationData_root_type :: string where
  "VerificationData_root_type = ''VerificationData(Account[] accounts)''"

definition VerificationData_components :: "string list" where
  "VerificationData_components = 
     Account_root_type # Account_components"

definition VerificationData_encode_type :: "'x pi2_types \<Rightarrow> string" where
  "VerificationData_encode_type C = e7_encode_type (ct_eip712 C) VerificationData_root_type VerificationData_components"

definition VerificationData_encode_data :: "'x pi2_types \<Rightarrow> VerificationData \<Rightarrow> bytes" where
  "VerificationData_encode_data C c =
     concat_words [ty_data_word (ct_array_Account C (Account_type C)) (VerificationData_accounts c)]"

definition VerificationData_hash_struct :: "'x pi2_types \<Rightarrow> VerificationData \<Rightarrow> hash" where
  "VerificationData_hash_struct C c = e7_hash_struct (ct_eip712 C) (VerificationData_encode_type C) (VerificationData_encode_data C c)"

definition VerificationData_topic_preimage_length :: "'x pi2_types \<Rightarrow> VerificationData \<Rightarrow> nat" where
  "VerificationData_topic_preimage_length C rust =
     0 + ty_topic_length (ct_array_Account C (Account_type C)) (VerificationData_accounts rust)"

definition VerificationData_encode_topic_preimage :: "'x pi2_types \<Rightarrow> VerificationData \<Rightarrow> bytes \<Rightarrow> bytes" where
  "VerificationData_encode_topic_preimage C rust out =
     (let out = ty_topic_preimage (ct_array_Account C (Account_type C)) (VerificationData_accounts rust) out
      in out)"

definition VerificationData_encode_topic :: "'x pi2_types \<Rightarrow> VerificationData \<Rightarrow> hash" where
  "VerificationData_encode_topic C rust = e7_keccak (ct_eip712 C) (VerificationData_encode_topic_preimage C rust [])"

definition VerificationData_type :: "'x pi2_types \<Rightarrow> (VerificationData, VerificationData_token) sol_type" where
  "VerificationData_type C =
     \<lparr>ty_name = ''VerificationData'', ty_encoded_size = tt_encoded_size (ct_VerificationData C), ty_packed_size = tt_packed_size (ct_VerificationData C),
      ty_valid_token = tt_valid_token (ct_VerificationData C), ty_tokenize = VerificationData_to_tokens C,
      ty_detokenize = (\<lambda>token. VerificationData_of_tuple (tt_detokenize (ct_VerificationData C) token)),
      ty_abi_encoded_size = (\<lambda>v. const_or (tt_encoded_size (ct_VerificationData C)) (tt_abi_encoded_size (ct_VerificationData C) (VerificationData_to_tuple v))),
      ty_data_word = VerificationData_hash_struct C,
      ty_encode_packed = (\<lambda>v out. tt_encode_packed (ct_VerificationData C) (VerificationData_to_tuple v) out),
      ty_packed_encoded_size = (\<lambda>v. const_or (tt_packed_size (ct_VerificationData C)) (tt_packed_encoded_size (ct_VerificationData C) (VerificationData_to_tuple v))),
      ty_topic_length = VerificationData_topic_preimage_length C, ty_topic_preimage = VerificationData_encode_topic_preimage C,
      ty_topic = VerificationData_encode_topic C\<rparr>"

section \<open>Laws\<close>

definition pi2_types_law :: "'x pi2_types \<Rightarrow> bool" where
  "pi2_types_law C \<longleftrightarrow>
     topic_law (sd_bytes32 (ct_data C)) \<and> token_law (sd_bytes32 (ct_data C))
     \<and> topic_law (sd_address (ct_data C)) \<and> token_law (sd_address (ct_data C))
     \<and> topic_law (sd_bytes (ct_data C)) \<and> token_law (sd_bytes (ct_data C))
     \<and> topic_law (sd_uint256 (ct_data C)) \<and> token_law (sd_uint256 (ct_data C))
     \<and> topic_law (sd_bytes8 (ct_data C)) \<and> token_law (sd_bytes8 (ct_data C))
     \<and> topic_law (sd_string (ct_data C)) \<and> token_law (sd_string (ct_data C))
     \<and> (\<forall>T. topic_law T \<longrightarrow> topic_law (ct_array_bytes C T)) \<and> (\<forall>T. token_law T \<longrightarrow> token_law (ct_array_bytes C T))
     \<and> (\<forall>T. topic_law T \<longrightarrow> topic_law (ct_array_StorageProof C T)) \<and> (\<forall>T. token_law T \<longrightarrow> token_law (ct_array_StorageProof C T))
     \<and> (\<forall>T. topic_law T \<longrightarrow> topic_law (ct_array_Account C T)) \<and> (\<forall>T. token_law T \<longrightarrow> token_law (ct_array_Account C T))
     \<and> fieldwise (ct_Header C)
         (map_prod (ty_detokenize (sd_bytes32 (ct_data C))) (map_prod (ty_detokenize (sd_bytes32 (ct_data C))) (map_prod (ty_detokenize (sd_address (ct_data C))) (map_prod (ty_detokenize (sd_bytes32 (ct_data C))) (map_prod (ty_detokenize (sd_bytes32 (ct_data C))) (map_prod (ty_detokenize (sd_bytes32 (ct_data C))) (map_prod (ty_detokenize (sd_bytes (ct_data C))) (map_prod (ty_detokenize (sd_uint256 (ct_data C))) (map_prod (ty_detokenize (sd_uint256 (ct_data C))) (map_prod (ty_detokenize (sd_uint256 (ct_data C))) (map_prod (ty_detokenize (sd_uint256 (ct_data C))) (map_prod (ty_detokenize (sd_uint256 (ct_data C))) (map_prod (ty_detokenize (sd_bytes (ct_data C))) (map_prod (ty_detokenize (sd_bytes32 (ct_data C))) (ty_detokenize (sd_bytes8 (ct_data C)))))))))))))))))
         (pred_prod (ty_valid_token (sd_bytes32 (ct_data C))) (pred_prod (ty_valid_token (sd_bytes32 (ct_data C))) (pred_prod (ty_valid_token (sd_address (ct_data C))) (pred_prod (ty_valid_token (sd_bytes32 (ct_data C))) (pred_prod (ty_valid_token (sd_bytes32 (ct_data C))) (pred_prod (ty_valid_token (sd_bytes32 (ct_data C))) (pred_prod (ty_valid_token (sd_bytes (ct_data C))) (pred_prod (ty_valid_token (sd_uint256 (ct_data C))) (pred_prod (ty_valid_token (sd_uint256 (ct_data C))) (pred_prod (ty_valid_token (sd_uint256 (ct_data C))) (pred_prod (ty_valid_token (sd_uint256 (ct_data C))) (pred_prod (ty_valid_token (sd_uint256 (ct_data C))) (pred_prod (ty_valid_token (sd_bytes (ct_data C))) (pred_prod (ty_valid_token (sd_bytes32 (ct_data C))) (ty_valid_token (sd_bytes8 (ct_data C)))))))))))))))))
       \<and> tuple_packed_law (ct_Header C)
     \<and> fieldwise (ct_EVMCall C)
         (map_prod (ty_detokenize (sd_address (ct_data C))) (map_prod (ty_detokenize (sd_address (ct_data C))) (ty_detokenize (sd_bytes (ct_data C)))))
         (pred_prod (ty_valid_token (sd_address (ct_data C))) (pred_prod (ty_valid_token (sd_address (ct_data C))) (ty_valid_token (sd_bytes (ct_data C)))))
       \<and> tuple_packed_law (ct_EVMCall C)
     \<and> fieldwise (ct_EVMMetadata C)
         ((ty_detokenize (sd_uint256 (ct_data C))))
         ((ty_valid_token (sd_uint256 (ct_data C))))
       \<and> tuple_packed_law (ct_EVMMetadata C)
     \<and> fieldwise (ct_Claim C)
         (map_prod (ty_detokenize (sd_string (ct_data C))) (map_prod (ty_detokenize (sd_string (ct_data C))) (map_prod (ty_detokenize (Header_type C)) (map_prod (ty_detokenize (EVMCall_type C)) (map_prod (ty_detokenize (sd_bytes (ct_data C))) (ty_detokenize (EVMMetadata_type C)))))))
         (pred_prod (ty_valid_token (sd_string (ct_data C))) (pred_prod (ty_valid_token (sd_string (ct_data C))) (pred_prod (ty_valid_token (Header_type C)) (pred_prod (ty_valid_token (EVMCall_type C)) (pred_prod (ty_valid_token (sd_bytes (ct_data C))) (ty_valid_token (EVMMetadata_type C)))))))
       \<and> tuple_packed_law (ct_Claim C)
     \<and> fieldwise (ct_StorageProof C)
         (map_prod (ty_detokenize (sd_bytes32 (ct_data C))) (map_prod (ty_detokenize (sd_bytes32 (ct_data C))) (ty_detokenize (ct_array_bytes C (sd_bytes (ct_data C))))))
         (pred_prod (ty_valid_token (sd_bytes32 (ct_data C))) (pred_prod (ty_valid_token (sd_bytes32 (ct_data C))) (ty_valid_token (ct_array_bytes C (sd_bytes (ct_data C))))))
       \<and> tuple_packed_law (ct_StorageProof C)
     \<and> fieldwise (ct_AccountProof C)
         (map_prod (ty_detokenize (sd_address (ct_data C))) (map_prod (ty_detokenize (ct_array_bytes C (sd_bytes (ct_data C)))) (map_prod (ty_detokenize (sd_uint256 (ct_data C))) (map_prod (ty_detokenize (sd_bytes32 (ct_data C))) (map_prod (ty_detokenize (sd_uint256 (ct_data C))) (map_prod (ty_detokenize (sd_bytes32 (ct_data C))) (ty_detokenize (ct_array_StorageProof C (StorageProof_type C)))))))))
         (pred_prod (ty_valid_token (sd_address (ct_data C))) (pred_prod (ty_valid_token (ct_array_bytes C (sd_bytes (ct_data C)))) (pred_prod (ty_valid_token (sd_uint256 (ct_data C))) (pred_prod (ty_valid_token (sd_bytes32 (ct_data C))) (pred_prod (ty_valid_token (sd_uint256 (ct_data C))) (pred_prod (ty_valid_token (sd_bytes32 (ct_data C))) (ty_valid_token (ct_array_StorageProof C (StorageProof_type C)))))))))
       \<and> tuple_packed_law (ct_AccountProof C)
     \<and> fieldwise (ct_Account C)
         (map_prod (ty_detokenize (AccountProof_type C)) (ty_detokenize (sd_bytes (ct_data C))))
         (pred_prod (ty_valid_token (AccountProof_type C)) (ty_valid_token (sd_bytes (ct_data C))))
       \<and> tuple_packed_law (ct_Account C)
     \<and> fieldwise (ct_VerificationData C)
         ((ty_detokenize (ct_array_Account C (Account_type C))))
         ((ty_valid_token (ct_array_Account C (Account_type C))))
       \<and> tuple_packed_law (ct_VerificationData C)"

lemma Header_lawful:
  assumes "pi2_types_law C"
  shows "lawful (Header_type C)"
proof -
  note laws = assms [unfolded pi2_types_law_def fieldwise_def]
  show ?thesis
    by (rule lawfulI; simp add: Header_type_def Header_encode_topic_preimage_def Header_topic_preimage_length_def
        Header_to_tokens_def Header_of_tuple_def laws topic_simps tuple_packed_lawD)
qed

lemma EVMCall_lawful:
  assumes "pi2_types_law C"
  shows "lawful (EVMCall_type C)"
proof -
  note laws = assms [unfolded pi2_types_law_def fieldwise_def]
  show ?thesis
    by (rule lawfulI; simp add: EVMCall_type_def EVMCall_encode_topic_preimage_def EVMCall_topic_preimage_length_def
        EVMCall_to_tokens_def EVMCall_of_tuple_def laws topic_simps tuple_packed_lawD)
qed

lemma EVMMetadata_lawful:
  assumes "pi2_types_law C"
  shows "lawful (EVMMetadata_type C)"
proof -
  note laws = assms [unfolded pi2_types_law_def fieldwise_def]
  show ?thesis
    by (rule lawfulI; simp add: EVMMetadata_type_def EVMMetadata_encode_topic_preimage_def EVMMetadata_topic_preimage_length_def
        EVMMetadata_to_tokens_def EVMMetadata_of_tuple_def laws topic_simps tuple_packed_lawD)
qed

lemma Claim_lawful:
  assumes "pi2_types_law C"
  shows "lawful (Claim_type C)"
proof -
  note laws = assms [unfolded pi2_types_law_def fieldwise_def] EVMCall_lawful [OF assms] EVMMetadata_lawful [OF assms] Header_lawful [OF assms]
  show ?thesis
    by (rule lawfulI; simp add: Claim_type_def Claim_encode_topic_preimage_def Claim_topic_preimage_length_def
        Claim_to_tokens_def Claim_of_tuple_def laws lawfulD topic_simps tuple_packed_lawD)
qed

lemma StorageProof_lawful:
  assumes "pi2_types_law C"
  shows "lawful (StorageProof_type C)"
proof -
  note laws = assms [unfolded pi2_types_law_def fieldwise_def]
  show ?thesis
    by (rule lawfulI; simp add: StorageProof_type_def StorageProof_encode_topic_preimage_def StorageProof_topic_preimage_length_def
        StorageProof_to_tokens_def StorageProof_of_tuple_def laws topic_simps tuple_packed_lawD)
qed

lemma AccountProof_lawful:
  assumes "pi2_types_law C"
  shows "lawful (AccountProof_type C)"
proof -
  note laws = assms [unfolded pi2_types_law_def fieldwise_def] StorageProof_lawful [OF assms]
  show ?thesis
    by (rule lawfulI; simp add: AccountProof_type_def AccountProof_encode_topic_preimage_def AccountProof_topic_preimage_length_def
        AccountProof_to_tokens_def AccountProof_of_tuple_def laws lawfulD topic_simps tuple_packed_lawD)
qed

lemma Account_lawful:
  assumes "pi2_types_law C"
  shows "lawful (Account_type C)"
proof -
  note laws = assms [unfolded pi2_types_law_def fieldwise_def] AccountProof_lawful [OF assms]
  show ?thesis
    by (rule lawfulI; simp add: Account_type_def Account_encode_topic_preimage_def Account_topic_preimage_length_def
        Account_to_tokens_def Account_of_tuple_def laws lawfulD topic_simps tuple_packed_lawD)
qed

lemma VerificationData_lawful:
  assumes "pi2_types_law C"
  shows "lawful (VerificationData_type C)"
proof -
  note laws = assms [unfolded pi2_types_law_def fieldwise_def] Account_lawful [OF assms]
  show ?thesis
    by (rule lawfulI; simp add: VerificationData_type_def VerificationData_encode_topic_preimage_def VerificationData_topic_preimage_length_def
        VerificationData_to_tokens_def VerificationData_of_tuple_def laws lawfulD topic_simps tuple_packed_lawD)
qed

text \<open>A sample of the crate's implementations, innermost first.\<close>

definition sample_Header :: "(Header_tuple, Header_token) tuple_type" where
  "sample_Header = sample_fields
     (map_prod (ty_detokenize (sd_bytes32 (sample_data :: nat sol_data))) (map_prod (ty_detokenize (sd_bytes32 (sample_data :: nat sol_data))) (map_prod (ty_detokenize (sd_address (sample_data :: nat sol_data))) (map_prod (ty_detokenize (sd_bytes32 (sample_data :: nat sol_data))) (map_prod (ty_detokenize (sd_bytes32 (sample_data :: nat sol_data))) (map_prod (ty_detokenize (sd_bytes32 (sample_data :: nat sol_data))) (map_prod (ty_detokenize (sd_bytes (sample_data :: nat sol_data))) (map_prod (ty_detokenize (sd_uint256 (sample_data :: nat sol_data))) (map_prod (ty_detokenize (sd_uint256 (sample_data :: nat sol_data))) (map_prod (ty_detokenize (sd_uint256 (sample_data :: nat sol_data))) (map_prod (ty_detokenize (sd_uint256 (sample_data :: nat sol_data))) (map_prod (ty_detokenize (sd_uint256 (sample_data :: nat sol_data))) (map_prod (ty_detokenize (sd_bytes (sample_data :: nat sol_data))) (map_prod (ty_detokenize (sd_bytes32 (sample_data :: nat sol_data))) (ty_detokenize (sd_bytes8 (sample_data :: nat sol_data)))))))))))))))))
     (pred_prod (ty_valid_token (sd_bytes32 (sample_data :: nat sol_data))) (pred_prod (ty_valid_token (sd_bytes32 (sample_data :: nat sol_data))) (pred_prod (ty_valid_token (sd_address (sample_data :: nat sol_data))) (pred_prod (ty_valid_token (sd_bytes32 (sample_data :: nat sol_data))) (pred_prod (ty_valid_token (sd_bytes32 (sample_data :: nat sol_data))) (pred_prod (ty_valid_token (sd_bytes32 (sample_data :: nat sol_data))) (pred_prod (ty_valid_token (sd_bytes (sample_data :: nat sol_data))) (pred_prod (ty_valid_token (sd_uint256 (sample_data :: nat sol_data))) (pred_prod (ty_valid_token (sd_uint256 (sample_data :: nat sol_data))) (pred_prod (ty_valid_token (sd_uint256 (sample_data :: nat sol_data))) (pred_prod (ty_valid_token (sd_uint256 (sample_data :: nat sol_data))) (pred_prod (ty_valid_token (sd_uint256 (sample_data :: nat sol_data))) (pred_prod (ty_valid_token (sd_bytes (sample_data :: nat sol_data))) (pred_prod (ty_valid_token (sd_bytes32 (sample_data :: nat sol_data))) (ty_valid_token (sd_bytes8 (sample_data :: nat sol_data)))))))))))))))))"

definition sample_EVMCall :: "(EVMCall_tuple, EVMCall_token) tuple_type" where
  "sample_EVMCall = sample_fields
     (map_prod (ty_detokenize (sd_address (sample_data :: nat sol_data))) (map_prod (ty_detokenize (sd_address (sample_data :: nat sol_data))) (ty_detokenize (sd_bytes (sample_data :: nat sol_data)))))
     (pred_prod (ty_valid_token (sd_address (sample_data :: nat sol_data))) (pred_prod (ty_valid_token (sd_address (sample_data :: nat sol_data))) (ty_valid_token (sd_bytes (sample_data :: nat sol_data)))))"

definition sample_EVMMetadata :: "(EVMMetadata_tuple, EVMMetadata_token) tuple_type" where
  "sample_EVMMetadata = sample_fields
     ((ty_detokenize (sd_uint256 (sample_data :: nat sol_data))))
     ((ty_valid_token (sd_uint256 (sample_data :: nat sol_data))))"

definition sample_Claim :: "(Claim_tuple, Claim_token) tuple_type" where
  "sample_Claim = sample_fields
     (map_prod (ty_detokenize (sd_string (sample_data :: nat sol_data))) (map_prod (ty_detokenize (sd_string (sample_data :: nat sol_data))) (map_prod (\<lambda>token. Header_of_tuple (tt_detokenize sample_Header token)) (map_prod (\<lambda>token. EVMCall_of_tuple (tt_detokenize sample_EVMCall token)) (map_prod (ty_detokenize (sd_bytes (sample_data :: nat sol_data))) (\<lambda>token. EVMMetadata_of_tuple (tt_detokenize sample_EVMMetadata token)))))))
     (pred_prod (ty_valid_token (sd_string (sample_data :: nat sol_data))) (pred_prod (ty_valid_token (sd_string (sample_data :: nat sol_data))) (pred_prod (tt_valid_token sample_Header) (pred_prod (tt_valid_token sample_EVMCall) (pred_prod (ty_valid_token (sd_bytes (sample_data :: nat sol_data))) (tt_valid_token sample_EVMMetadata))))))"

definition sample_StorageProof :: "(StorageProof_tuple, StorageProof_token) tuple_type" where
  "sample_StorageProof = sample_fields
     (map_prod (ty_detokenize (sd_bytes32 (sample_data :: nat sol_data))) (map_prod (ty_detokenize (sd_bytes32 (sample_data :: nat sol_data))) (ty_detokenize (sample_array (sd_bytes (sample_data :: nat sol_data))))))
     (pred_prod (ty_valid_token (sd_bytes32 (sample_data :: nat sol_data))) (pred_prod (ty_valid_token (sd_bytes32 (sample_data :: nat sol_data))) (ty_valid_token (sample_array (sd_bytes (sample_data :: nat sol_data))))))"

definition sample_AccountProof :: "(AccountProof_tuple, AccountProof_token) tuple_type" where
  "sample_AccountProof = sample_fields
     (map_prod (ty_detokenize (sd_address (sample_data :: nat sol_data))) (map_prod (ty_detokenize (sample_array (sd_bytes (sample_data :: nat sol_data)))) (map_prod (ty_detokenize (sd_uint256 (sample_data :: nat sol_data))) (map_prod (ty_detokenize (sd_bytes32 (sample_data :: nat sol_data))) (map_prod (ty_detokenize (sd_uint256 (sample_data :: nat sol_data))) (map_prod (ty_detokenize (sd_bytes32 (sample_data :: nat sol_data))) (map (\<lambda>token. StorageProof_of_tuple (tt_detokenize sample_StorageProof token)))))))))
     (pred_prod (ty_valid_token (sd_address (sample_data :: nat sol_data))) (pred_prod (ty_valid_token (sample_array (sd_bytes (sample_data :: nat sol_data)))) (pred_prod (ty_valid_token (sd_uint256 (sample_data :: nat sol_data))) (pred_prod (ty_valid_token (sd_bytes32 (sample_data :: nat sol_data))) (pred_prod (ty_valid_token (sd_uint256 (sample_data :: nat sol_data))) (pred_prod (ty_valid_token (sd_bytes32 (sample_data :: nat sol_data))) (list_all (tt_valid_token sample_StorageProof))))))))"

definition sample_Account :: "(Account_tuple, Account_token) tuple_type" where
  "sample_Account = sample_fields
     (map_prod (\<lambda>token. AccountProof_of_tuple (tt_detokenize sample_AccountProof token)) (ty_detokenize (sd_bytes (sample_data :: nat sol_data))))
     (pred_prod (tt_valid_token sample_AccountProof) (ty_valid_token (sd_bytes (sample_data :: nat sol_data))))"

definition sample_VerificationData :: "(VerificationData_tuple, VerificationData_token) tuple_type" where
  "sample_VerificationData = sample_fields
     ((map (\<lambda>token. Account_of_tuple (tt_detokenize sample_Account token))))
     ((list_all (tt_valid_token sample_Account)))"

definition sample_pi2_types :: "nat pi2_types" where
  "sample_pi2_types =
     (let D = sample_data :: nat sol_data in
     \<lparr>ct_data = D, ct_eip712 = sample_eip712, ct_array_bytes = sample_array,
      ct_array_StorageProof = sample_array, ct_array_Account = sample_array, ct_Header = sample_Header,
      ct_EVMCall = sample_EVMCall, ct_EVMMetadata = sample_EVMMetadata, ct_Claim = sample_Claim,
      ct_StorageProof = sample_StorageProof, ct_AccountProof = sample_AccountProof,
      ct_Account = sample_Account, ct_VerificationData = sample_VerificationData\<rparr>)"

lemma nested_types:
  "ty_detokenize (Header_type C) = (\<lambda>token. Header_of_tuple (tt_detokenize (ct_Header C) token))"
  "ty_valid_token (Header_type C) = tt_valid_token (ct_Header C)"
  "ty_detokenize (EVMCall_type C) = (\<lambda>token. EVMCall_of_tuple (tt_detokenize (ct_EVMCall C) token))"
  "ty_valid_token (EVMCall_type C) = tt_valid_token (ct_EVMCall C)"
  "ty_detokenize (EVMMetadata_type C) = (\<lambda>token. EVMMetadata_of_tuple (tt_detokenize (ct_EVMMetadata C) token))"
  "ty_valid_token (EVMMetadata_type C) = tt_valid_token (ct_EVMMetadata C)"
  "ty_detokenize (StorageProof_type C) = (\<lambda>token. StorageProof_of_tuple (tt_detokenize (ct_StorageProof C) token))"
  "ty_valid_token (StorageProof_type C) = tt_valid_token (ct_StorageProof C)"
  "ty_detokenize (AccountProof_type C) = (\<lambda>token. AccountProof_of_tuple (tt_detokenize (ct_AccountProof C) token))"
  "ty_valid_token (AccountProof_type C) = tt_valid_token (ct_AccountProof C)"
  "ty_detokenize (Account_type C) = (\<lambda>token. Account_of_tuple (tt_detokenize (ct_Account C) token))"
  "ty_valid_token (Account_type C) = tt_valid_token (ct_Account C)"
  by (simp_all add: Header_type_def EVMCall_type_def EVMMetadata_type_def StorageProof_type_def AccountProof_type_def Account_type_def)

lemma array_tokens:
  "ty_detokenize (sample_array T) = map (ty_detokenize T)"
  "ty_valid_token (sample_array T) = list_all (ty_valid_token T)"
  by (simp_all add: sample_array_def)

lemma sample_pi2_types_law: "pi2_types_law sample_pi2_types"
  unfolding pi2_types_law_def
  by (intro conjI) (simp_all add: sample_pi2_types_def Let_def sample_array_topic_law sample_array_token_law nested_types array_tokens
      sample_Header_def sample_EVMCall_def sample_EVMMetadata_def sample_Claim_def
      sample_StorageProof_def sample_AccountProof_def sample_Account_def sample_VerificationData_def)

section \<open>Properties\<close>

text \<open>
  C37. The arguments of a verification, a claim and the accounts it is checked against, keep the
  laws of the crate's types at every level of nesting: their tokens are valid and read back as
  the same value, the preimage of a topic has the announced length, and the packed encoding
  the announced size.
\<close>

theorem verify_arguments_lawful:
  assumes "pi2_types_law C"
  shows "ty_detokenize (Claim_type C) (ty_tokenize (Claim_type C) c) = c
    \<and> ty_valid_token (Claim_type C) (ty_tokenize (Claim_type C) c)
    \<and> ty_detokenize (VerificationData_type C) (ty_tokenize (VerificationData_type C) d) = d
    \<and> ty_valid_token (VerificationData_type C) (ty_tokenize (VerificationData_type C) d)
    \<and> length (Claim_encode_topic_preimage C c out) = length out + Claim_topic_preimage_length C c
    \<and> length (VerificationData_encode_topic_preimage C d out) = length out + VerificationData_topic_preimage_length C d
    \<and> length (ty_encode_packed (Claim_type C) c out) = length out + ty_packed_encoded_size (Claim_type C) c
    \<and> length (ty_encode_packed (VerificationData_type C) d out)
        = length out + ty_packed_encoded_size (VerificationData_type C) d"
proof -
  note claim = Claim_lawful [OF assms] and data = VerificationData_lawful [OF assms]
  obtain bs where "ty_encode_packed (Claim_type C) c out = out @ bs" "length bs = ty_packed_encoded_size (Claim_type C) c"
    using packed_size_lawD(1) [OF lawfulD(3) [OF claim]] by blast
  moreover obtain bs' where "ty_encode_packed (VerificationData_type C) d out = out @ bs'"
      "length bs' = ty_packed_encoded_size (VerificationData_type C) d"
    using packed_size_lawD(1) [OF lawfulD(3) [OF data]] by blast
  moreover have "length (Claim_encode_topic_preimage C c out) = length out + Claim_topic_preimage_length C c"
    using topic_length [OF lawfulD(1) [OF claim], of c out] by (simp add: Claim_type_def)
  moreover have "length (VerificationData_encode_topic_preimage C d out) = length out + VerificationData_topic_preimage_length C d"
    using topic_length [OF lawfulD(1) [OF data], of d out] by (simp add: VerificationData_type_def)
  ultimately show ?thesis
    using token_lawD [OF lawfulD(2) [OF claim], of c] token_lawD [OF lawfulD(2) [OF data], of d] by simp
qed

definition sample_claim :: Claim where
  "sample_claim =
     \<lparr>Claim_claimType = ''evm'', Claim_trustBaseSpec = '''',
      Claim_assumptions =
        \<lparr>Header_parentHash = 1, Header_uncleHash = 2, Header_coinbase = 3, Header_root = 4, Header_txHash = 5,
         Header_receiptHash = 6, Header_bloom = [], Header_difficulty = 0, Header_number = 7, Header_gasLimit = 8,
         Header_gasUsed = 9, Header_time = 10, Header_extra = [1], Header_mixDigest = 11, Header_nonce = 12\<rparr>,
      Claim_action = \<lparr>EVMCall_from = 1, EVMCall_to = 2, EVMCall_input = [3]\<rparr>,
      Claim_result = [4], Claim_metadata = \<lparr>EVMMetadata_chainId = 1\<rparr>\<rparr>"

theorem verify_arguments_lawful_witness:
  "ty_detokenize (Claim_type sample_pi2_types) (ty_tokenize (Claim_type sample_pi2_types) sample_claim) = sample_claim
   \<and> length (Claim_encode_topic_preimage sample_pi2_types sample_claim [9]) =
       1 + Claim_topic_preimage_length sample_pi2_types sample_claim"
  using verify_arguments_lawful [OF sample_pi2_types_law, of sample_claim "\<lparr>VerificationData_accounts = []\<rparr>" "[9]"] by simp

text \<open>The types' strings: those of the nested structs follow, in ascending order and each once.\<close>

lemmas pi2_type_strings =
  VerificationData_encode_type_def VerificationData_components_def Account_components_def AccountProof_components_def
  StorageProof_components_def Claim_encode_type_def Claim_components_def Header_components_def EVMCall_components_def
  EVMMetadata_components_def

lemma pi2_root_order:
  "Account_root_type < AccountProof_root_type" "AccountProof_root_type < StorageProof_root_type"
  "EVMCall_root_type < EVMMetadata_root_type" "EVMMetadata_root_type < Header_root_type"
  by (simp_all add: Account_root_type_def AccountProof_root_type_def StorageProof_root_type_def EVMCall_root_type_def
      EVMMetadata_root_type_def Header_root_type_def less_char_def)

theorem verify_arguments_type_strings:
  assumes "eip712_law (ct_eip712 C)"
  shows "VerificationData_encode_type C
      = VerificationData_root_type @ Account_root_type @ AccountProof_root_type @ StorageProof_root_type
    \<and> Claim_encode_type C = Claim_root_type @ EVMCall_root_type @ EVMMetadata_root_type @ Header_root_type"
proof -
  have less: "Account_root_type < StorageProof_root_type" "EVMCall_root_type < Header_root_type"
    using pi2_root_order by (auto intro: less_trans)
  note order = pi2_root_order less
  have enc: "e7_encode_type (ct_eip712 C) root cs = root @ concat (remdups (sort cs))" for root cs
    using assms by (simp add: eip712_law_def)
  show ?thesis
    using order order [THEN less_imp_le] order [THEN less_imp_neq]
    by (simp add: pi2_type_strings enc not_le)
qed

theorem verify_arguments_type_strings_witness:
  "VerificationData_encode_type sample_pi2_types
     = ''VerificationData(Account[] accounts)Account(AccountProof proof,bytes code)AccountProof(address addr,bytes[] accountProof,uint256 balance,bytes32 codeHash,uint256 nonce,bytes32 storageHash,StorageProof[] storageProof)StorageProof(bytes32 key,bytes32 value,bytes[] proof)''"
  using verify_arguments_type_strings [of sample_pi2_types] sample_eip712_law
  by (simp add: sample_pi2_types_def Let_def VerificationData_root_type_def Account_root_type_def
      AccountProof_root_type_def StorageProof_root_type_def)

end
