(* ===== verification/Sol_Returns.thy ===== *)
theory Sol_Returns
  imports Sol_Traits
begin

text \<open>
  The return values of \<^verbatim>\<open>SolCall\<close>: what a binding writes for a call that returns \<open>'r\<close>, the
  tuple \<open>'t\<close> it is encoded as, and the decoders that the trait's methods are.  A single value
  passes through a container struct of one field.
\<close>

datatype (plugins only: code) 'r container = Container (container_0: 'r)

record ('r, 't) return_impl =
  ri_tokenize :: "'r \<Rightarrow> 't"
  ri_new :: "'t \<Rightarrow> 'r"

definition abi_decode_returns :: "('r, 't) return_impl \<Rightarrow> ('t, 'x) sol_tuple \<Rightarrow> bytes \<Rightarrow> 'x + 'r" where
  "abi_decode_returns I S data = map_sum id (ri_new I) (st_decode S data)"

definition abi_decode_returns_validate :: "('r, 't) return_impl \<Rightarrow> ('t, 'x) sol_tuple \<Rightarrow> bytes \<Rightarrow> 'x + 'r" where
  "abi_decode_returns_validate I S data = map_sum id (ri_new I) (st_decode_validate S data)"

definition abi_encode_returns :: "('r, 't) return_impl \<Rightarrow> ('t, 'x) sol_tuple \<Rightarrow> 'r \<Rightarrow> bytes" where
  "abi_encode_returns I S ret = st_encode S (ri_tokenize I ret)"

lemma returns_round_trip:
  assumes "tuple_law S (ri_tokenize I ret)" "ri_new I (ri_tokenize I ret) = ret"
  shows "abi_decode_returns I S (abi_encode_returns I S ret) = Inr ret"
    and "abi_decode_returns_validate I S (abi_encode_returns I S ret) = Inr ret"
  using assms
  by (simp_all add: abi_decode_returns_def abi_decode_returns_validate_def abi_encode_returns_def tuple_law_def)

end
