(* ===== verification/Bridge_Returns.thy ===== *)
theory Bridge_Returns
  imports Bridge_Structs Sol_Returns
begin

text \<open>
  What the calls of the bridge return, \<^verbatim>\<open>protocol/bindings/src/bridge.rs\<close>: the containers of several
  values, and for each call how a return value is written and read.
\<close>

section \<open>Return values\<close>

definition bridge_BRIDGE_CONTRACT_returns :: "(address, address) return_impl" where
  "bridge_BRIDGE_CONTRACT_returns = \<lparr>ri_tokenize = (\<lambda>ret. ret), ri_new = (\<lambda>r. container_0 (Container r))\<rparr>"

definition bridge_CHAIN_ID_returns :: "(u256, u256) return_impl" where
  "bridge_CHAIN_ID_returns = \<lparr>ri_tokenize = (\<lambda>ret. ret), ri_new = (\<lambda>r. container_0 (Container r))\<rparr>"

definition bridge_DEFAULT_ADMIN_ROLE_returns :: "(hash, hash) return_impl" where
  "bridge_DEFAULT_ADMIN_ROLE_returns = \<lparr>ri_tokenize = (\<lambda>ret. ret), ri_new = (\<lambda>r. container_0 (Container r))\<rparr>"

definition bridge_PAUSER_ROLE_returns :: "(hash, hash) return_impl" where
  "bridge_PAUSER_ROLE_returns = \<lparr>ri_tokenize = (\<lambda>ret. ret), ri_new = (\<lambda>r. container_0 (Container r))\<rparr>"

definition bridge_RELAYER_ROLE_returns :: "(hash, hash) return_impl" where
  "bridge_RELAYER_ROLE_returns = \<lparr>ri_tokenize = (\<lambda>ret. ret), ri_new = (\<lambda>r. container_0 (Container r))\<rparr>"

definition bridge_activeValidators_returns :: "(bool, bool) return_impl" where
  "bridge_activeValidators_returns = \<lparr>ri_tokenize = (\<lambda>ret. ret), ri_new = (\<lambda>r. container_0 (Container r))\<rparr>"

definition bridge_adversarialResilience_returns :: "(u64, u64) return_impl" where
  "bridge_adversarialResilience_returns = \<lparr>ri_tokenize = (\<lambda>ret. ret), ri_new = (\<lambda>r. container_0 (Container r))\<rparr>"

definition bridge_batchClaim_returns :: "(unit, unit) return_impl" where
  "bridge_batchClaim_returns = \<lparr>ri_tokenize = (\<lambda>ret. ()), ri_new = (\<lambda>r. ())\<rparr>"

definition bridge_batchDeposit_returns :: "(unit, unit) return_impl" where
  "bridge_batchDeposit_returns = \<lparr>ri_tokenize = (\<lambda>ret. ()), ri_new = (\<lambda>r. ())\<rparr>"

definition bridge_claim_returns :: "(unit, unit) return_impl" where
  "bridge_claim_returns = \<lparr>ri_tokenize = (\<lambda>ret. ()), ri_new = (\<lambda>r. ())\<rparr>"

definition bridge_configureToken_returns :: "(unit, unit) return_impl" where
  "bridge_configureToken_returns = \<lparr>ri_tokenize = (\<lambda>ret. ()), ri_new = (\<lambda>r. ())\<rparr>"

definition bridge_contractState_returns :: "(byte, byte) return_impl" where
  "bridge_contractState_returns = \<lparr>ri_tokenize = (\<lambda>ret. ret), ri_new = (\<lambda>r. container_0 (Container r))\<rparr>"

definition bridge_deposit_returns :: "(u256, u256) return_impl" where
  "bridge_deposit_returns = \<lparr>ri_tokenize = (\<lambda>ret. ret), ri_new = (\<lambda>r. container_0 (Container r))\<rparr>"

definition bridge_depositIndex_returns :: "(u256, u256) return_impl" where
  "bridge_depositIndex_returns = \<lparr>ri_tokenize = (\<lambda>ret. ret), ri_new = (\<lambda>r. container_0 (Container r))\<rparr>"

definition bridge_domainSeparator_returns :: "(hash, hash) return_impl" where
  "bridge_domainSeparator_returns = \<lparr>ri_tokenize = (\<lambda>ret. ret), ri_new = (\<lambda>r. container_0 (Container r))\<rparr>"

definition bridge_getRoleAdmin_returns :: "(hash, hash) return_impl" where
  "bridge_getRoleAdmin_returns = \<lparr>ri_tokenize = (\<lambda>ret. ret), ri_new = (\<lambda>r. container_0 (Container r))\<rparr>"

definition bridge_grantRole_returns :: "(unit, unit) return_impl" where
  "bridge_grantRole_returns = \<lparr>ri_tokenize = (\<lambda>ret. ()), ri_new = (\<lambda>r. ())\<rparr>"

definition bridge_hasRole_returns :: "(bool, bool) return_impl" where
  "bridge_hasRole_returns = \<lparr>ri_tokenize = (\<lambda>ret. ret), ri_new = (\<lambda>r. container_0 (Container r))\<rparr>"

definition bridge_initialize_returns :: "(unit, unit) return_impl" where
  "bridge_initialize_returns = \<lparr>ri_tokenize = (\<lambda>ret. ()), ri_new = (\<lambda>r. ())\<rparr>"

definition bridge_merkleRoot_returns :: "(hash, hash) return_impl" where
  "bridge_merkleRoot_returns = \<lparr>ri_tokenize = (\<lambda>ret. ret), ri_new = (\<lambda>r. container_0 (Container r))\<rparr>"

definition bridge_migrate_returns :: "(unit, unit) return_impl" where
  "bridge_migrate_returns = \<lparr>ri_tokenize = (\<lambda>ret. ()), ri_new = (\<lambda>r. ())\<rparr>"

definition bridge_migratedContract_returns :: "(address, address) return_impl" where
  "bridge_migratedContract_returns = \<lparr>ri_tokenize = (\<lambda>ret. ret), ri_new = (\<lambda>r. container_0 (Container r))\<rparr>"

definition bridge_processedRequests_returns :: "(bool, bool) return_impl" where
  "bridge_processedRequests_returns = \<lparr>ri_tokenize = (\<lambda>ret. ret), ri_new = (\<lambda>r. container_0 (Container r))\<rparr>"

definition bridge_renounceRole_returns :: "(unit, unit) return_impl" where
  "bridge_renounceRole_returns = \<lparr>ri_tokenize = (\<lambda>ret. ()), ri_new = (\<lambda>r. ())\<rparr>"

definition bridge_revokeRole_returns :: "(unit, unit) return_impl" where
  "bridge_revokeRole_returns = \<lparr>ri_tokenize = (\<lambda>ret. ()), ri_new = (\<lambda>r. ())\<rparr>"

definition bridge_setCallContractWhitelist_returns :: "(unit, unit) return_impl" where
  "bridge_setCallContractWhitelist_returns = \<lparr>ri_tokenize = (\<lambda>ret. ()), ri_new = (\<lambda>r. ())\<rparr>"

definition bridge_setState_returns :: "(unit, unit) return_impl" where
  "bridge_setState_returns = \<lparr>ri_tokenize = (\<lambda>ret. ()), ri_new = (\<lambda>r. ())\<rparr>"

definition bridge_supportsInterface_returns :: "(bool, bool) return_impl" where
  "bridge_supportsInterface_returns = \<lparr>ri_tokenize = (\<lambda>ret. ret), ri_new = (\<lambda>r. container_0 (Container r))\<rparr>"

record tokenDataReturn =
  tokenDataReturn_minAmount :: u256
  tokenDataReturn_depositLimit :: u256
  tokenDataReturn_claimLimit :: u256
  tokenDataReturn_depositUsage :: TokenUsage
  tokenDataReturn_claimUsage :: TokenUsage
  tokenDataReturn_mirrorToken :: address

definition tokenDataReturn_of_tuple :: "u256 \<times> u256 \<times> u256 \<times> TokenUsage \<times> TokenUsage \<times> address \<Rightarrow> tokenDataReturn" where
  "tokenDataReturn_of_tuple = (\<lambda>(t0, t1, t2, t3, t4, t5).
     \<lparr>tokenDataReturn_minAmount = t0, tokenDataReturn_depositLimit = t1,
      tokenDataReturn_claimLimit = t2, tokenDataReturn_depositUsage = t3,
      tokenDataReturn_claimUsage = t4, tokenDataReturn_mirrorToken = t5\<rparr>)"

definition tokenDataReturn_tokenize :: "tokenDataReturn \<Rightarrow> u256 \<times> u256 \<times> u256 \<times> TokenUsage \<times> TokenUsage \<times> address" where
  "tokenDataReturn_tokenize ret =
     (tokenDataReturn_minAmount ret, tokenDataReturn_depositLimit ret, tokenDataReturn_claimLimit ret,
      tokenDataReturn_depositUsage ret, tokenDataReturn_claimUsage ret, tokenDataReturn_mirrorToken ret)"

definition bridge_tokenData_returns :: "(tokenDataReturn, u256 \<times> u256 \<times> u256 \<times> TokenUsage \<times> TokenUsage \<times> address) return_impl" where
  "bridge_tokenData_returns = \<lparr>ri_tokenize = tokenDataReturn_tokenize, ri_new = tokenDataReturn_of_tuple\<rparr>"

definition bridge_transferTokensToMigrated_returns :: "(unit, unit) return_impl" where
  "bridge_transferTokensToMigrated_returns = \<lparr>ri_tokenize = (\<lambda>ret. ()), ri_new = (\<lambda>r. ())\<rparr>"

definition bridge_updateValidatorConfig_returns :: "(unit, unit) return_impl" where
  "bridge_updateValidatorConfig_returns = \<lparr>ri_tokenize = (\<lambda>ret. ()), ri_new = (\<lambda>r. ())\<rparr>"

definition bridge_validatorCount_returns :: "(u64, u64) return_impl" where
  "bridge_validatorCount_returns = \<lparr>ri_tokenize = (\<lambda>ret. ret), ri_new = (\<lambda>r. container_0 (Container r))\<rparr>"

definition bridge_version_returns :: "(u256, u256) return_impl" where
  "bridge_version_returns = \<lparr>ri_tokenize = (\<lambda>ret. ret), ri_new = (\<lambda>r. container_0 (Container r))\<rparr>"

definition bridge_whiteListToken_returns :: "(unit, unit) return_impl" where
  "bridge_whiteListToken_returns = \<lparr>ri_tokenize = (\<lambda>ret. ()), ri_new = (\<lambda>r. ())\<rparr>"

definition bridge_whitelistedCallContracts_returns :: "(bool, bool) return_impl" where
  "bridge_whitelistedCallContracts_returns = \<lparr>ri_tokenize = (\<lambda>ret. ret), ri_new = (\<lambda>r. container_0 (Container r))\<rparr>"

lemma bridge_returns_new_tokenize:
  "ri_new bridge_BRIDGE_CONTRACT_returns (ri_tokenize bridge_BRIDGE_CONTRACT_returns r0) = r0"
  "ri_new bridge_CHAIN_ID_returns (ri_tokenize bridge_CHAIN_ID_returns r1) = r1"
  "ri_new bridge_DEFAULT_ADMIN_ROLE_returns (ri_tokenize bridge_DEFAULT_ADMIN_ROLE_returns r2) = r2"
  "ri_new bridge_PAUSER_ROLE_returns (ri_tokenize bridge_PAUSER_ROLE_returns r3) = r3"
  "ri_new bridge_RELAYER_ROLE_returns (ri_tokenize bridge_RELAYER_ROLE_returns r4) = r4"
  "ri_new bridge_activeValidators_returns (ri_tokenize bridge_activeValidators_returns r5) = r5"
  "ri_new bridge_adversarialResilience_returns (ri_tokenize bridge_adversarialResilience_returns r6) = r6"
  "ri_new bridge_batchClaim_returns (ri_tokenize bridge_batchClaim_returns r7) = r7"
  "ri_new bridge_batchDeposit_returns (ri_tokenize bridge_batchDeposit_returns r8) = r8"
  "ri_new bridge_claim_returns (ri_tokenize bridge_claim_returns r9) = r9"
  "ri_new bridge_configureToken_returns (ri_tokenize bridge_configureToken_returns r10) = r10"
  "ri_new bridge_contractState_returns (ri_tokenize bridge_contractState_returns r11) = r11"
  "ri_new bridge_deposit_returns (ri_tokenize bridge_deposit_returns r12) = r12"
  "ri_new bridge_depositIndex_returns (ri_tokenize bridge_depositIndex_returns r13) = r13"
  "ri_new bridge_domainSeparator_returns (ri_tokenize bridge_domainSeparator_returns r14) = r14"
  "ri_new bridge_getRoleAdmin_returns (ri_tokenize bridge_getRoleAdmin_returns r15) = r15"
  "ri_new bridge_grantRole_returns (ri_tokenize bridge_grantRole_returns r16) = r16"
  "ri_new bridge_hasRole_returns (ri_tokenize bridge_hasRole_returns r17) = r17"
  "ri_new bridge_initialize_returns (ri_tokenize bridge_initialize_returns r18) = r18"
  "ri_new bridge_merkleRoot_returns (ri_tokenize bridge_merkleRoot_returns r19) = r19"
  "ri_new bridge_migrate_returns (ri_tokenize bridge_migrate_returns r20) = r20"
  "ri_new bridge_migratedContract_returns (ri_tokenize bridge_migratedContract_returns r21) = r21"
  "ri_new bridge_processedRequests_returns (ri_tokenize bridge_processedRequests_returns r22) = r22"
  "ri_new bridge_renounceRole_returns (ri_tokenize bridge_renounceRole_returns r23) = r23"
  "ri_new bridge_revokeRole_returns (ri_tokenize bridge_revokeRole_returns r24) = r24"
  "ri_new bridge_setCallContractWhitelist_returns (ri_tokenize bridge_setCallContractWhitelist_returns r25) = r25"
  "ri_new bridge_setState_returns (ri_tokenize bridge_setState_returns r26) = r26"
  "ri_new bridge_supportsInterface_returns (ri_tokenize bridge_supportsInterface_returns r27) = r27"
  "ri_new bridge_tokenData_returns (ri_tokenize bridge_tokenData_returns r28) = r28"
  "ri_new bridge_transferTokensToMigrated_returns (ri_tokenize bridge_transferTokensToMigrated_returns r29) = r29"
  "ri_new bridge_updateValidatorConfig_returns (ri_tokenize bridge_updateValidatorConfig_returns r30) = r30"
  "ri_new bridge_validatorCount_returns (ri_tokenize bridge_validatorCount_returns r31) = r31"
  "ri_new bridge_version_returns (ri_tokenize bridge_version_returns r32) = r32"
  "ri_new bridge_whiteListToken_returns (ri_tokenize bridge_whiteListToken_returns r33) = r33"
  "ri_new bridge_whitelistedCallContracts_returns (ri_tokenize bridge_whitelistedCallContracts_returns r34) = r34"
  by (simp_all add: bridge_BRIDGE_CONTRACT_returns_def bridge_CHAIN_ID_returns_def bridge_DEFAULT_ADMIN_ROLE_returns_def
    bridge_PAUSER_ROLE_returns_def bridge_RELAYER_ROLE_returns_def bridge_activeValidators_returns_def
    bridge_adversarialResilience_returns_def bridge_batchClaim_returns_def
    bridge_batchDeposit_returns_def bridge_claim_returns_def bridge_configureToken_returns_def
    bridge_contractState_returns_def bridge_deposit_returns_def bridge_depositIndex_returns_def
    bridge_domainSeparator_returns_def bridge_getRoleAdmin_returns_def bridge_grantRole_returns_def
    bridge_hasRole_returns_def bridge_initialize_returns_def bridge_merkleRoot_returns_def
    bridge_migrate_returns_def bridge_migratedContract_returns_def bridge_processedRequests_returns_def
    bridge_renounceRole_returns_def bridge_revokeRole_returns_def
    bridge_setCallContractWhitelist_returns_def bridge_setState_returns_def
    bridge_supportsInterface_returns_def bridge_tokenData_returns_def
    bridge_transferTokensToMigrated_returns_def bridge_updateValidatorConfig_returns_def
    bridge_validatorCount_returns_def bridge_version_returns_def bridge_whiteListToken_returns_def
    bridge_whitelistedCallContracts_returns_def
    tokenDataReturn_of_tuple_def tokenDataReturn_tokenize_def)

end
