(* ===== verification/Wrapped_Returns.thy ===== *)
theory Wrapped_Returns
  imports Sol_Returns
begin

text \<open>
  What the calls of the bridged token return, \<^verbatim>\<open>protocol/bindings/src/wrapped_token.rs\<close>: the containers of several
  values, and for each call how a return value is written and read.
\<close>

section \<open>Return values\<close>

definition wrapped_DEFAULT_ADMIN_ROLE_returns :: "(hash, hash) return_impl" where
  "wrapped_DEFAULT_ADMIN_ROLE_returns = \<lparr>ri_tokenize = (\<lambda>ret. ret), ri_new = (\<lambda>r. container_0 (Container r))\<rparr>"

definition wrapped_DOMAIN_SEPARATOR_returns :: "(hash, hash) return_impl" where
  "wrapped_DOMAIN_SEPARATOR_returns = \<lparr>ri_tokenize = (\<lambda>ret. ret), ri_new = (\<lambda>r. container_0 (Container r))\<rparr>"

definition wrapped_MINTER_ROLE_returns :: "(hash, hash) return_impl" where
  "wrapped_MINTER_ROLE_returns = \<lparr>ri_tokenize = (\<lambda>ret. ret), ri_new = (\<lambda>r. container_0 (Container r))\<rparr>"

definition wrapped_PAUSER_ROLE_returns :: "(hash, hash) return_impl" where
  "wrapped_PAUSER_ROLE_returns = \<lparr>ri_tokenize = (\<lambda>ret. ret), ri_new = (\<lambda>r. container_0 (Container r))\<rparr>"

definition wrapped_allowance_returns :: "(u256, u256) return_impl" where
  "wrapped_allowance_returns = \<lparr>ri_tokenize = (\<lambda>ret. ret), ri_new = (\<lambda>r. container_0 (Container r))\<rparr>"

definition wrapped_approve_returns :: "(bool, bool) return_impl" where
  "wrapped_approve_returns = \<lparr>ri_tokenize = (\<lambda>ret. ret), ri_new = (\<lambda>r. container_0 (Container r))\<rparr>"

definition wrapped_balanceOf_returns :: "(u256, u256) return_impl" where
  "wrapped_balanceOf_returns = \<lparr>ri_tokenize = (\<lambda>ret. ret), ri_new = (\<lambda>r. container_0 (Container r))\<rparr>"

definition wrapped_burn_returns :: "(unit, unit) return_impl" where
  "wrapped_burn_returns = \<lparr>ri_tokenize = (\<lambda>ret. ()), ri_new = (\<lambda>r. ())\<rparr>"

definition wrapped_burnFrom_returns :: "(unit, unit) return_impl" where
  "wrapped_burnFrom_returns = \<lparr>ri_tokenize = (\<lambda>ret. ()), ri_new = (\<lambda>r. ())\<rparr>"

definition wrapped_decimals_returns :: "(byte, byte) return_impl" where
  "wrapped_decimals_returns = \<lparr>ri_tokenize = (\<lambda>ret. ret), ri_new = (\<lambda>r. container_0 (Container r))\<rparr>"

record eip712DomainReturn =
  eip712DomainReturn_fields :: byte
  eip712DomainReturn_name :: string
  eip712DomainReturn_version :: string
  eip712DomainReturn_chainId :: u256
  eip712DomainReturn_verifyingContract :: address
  eip712DomainReturn_salt :: hash
  eip712DomainReturn_extensions :: "u256 list"

definition eip712DomainReturn_of_tuple :: "byte \<times> string \<times> string \<times> u256 \<times> address \<times> hash \<times> u256 list \<Rightarrow> eip712DomainReturn" where
  "eip712DomainReturn_of_tuple = (\<lambda>(t0, t1, t2, t3, t4, t5, t6).
     \<lparr>eip712DomainReturn_fields = t0, eip712DomainReturn_name = t1, eip712DomainReturn_version = t2,
      eip712DomainReturn_chainId = t3, eip712DomainReturn_verifyingContract = t4,
      eip712DomainReturn_salt = t5, eip712DomainReturn_extensions = t6\<rparr>)"

definition eip712DomainReturn_tokenize :: "eip712DomainReturn \<Rightarrow> byte \<times> string \<times> string \<times> u256 \<times> address \<times> hash \<times> u256 list" where
  "eip712DomainReturn_tokenize ret =
     (eip712DomainReturn_fields ret, eip712DomainReturn_name ret, eip712DomainReturn_version ret,
      eip712DomainReturn_chainId ret, eip712DomainReturn_verifyingContract ret,
      eip712DomainReturn_salt ret, eip712DomainReturn_extensions ret)"

definition wrapped_eip712Domain_returns :: "(eip712DomainReturn, byte \<times> string \<times> string \<times> u256 \<times> address \<times> hash \<times> u256 list) return_impl" where
  "wrapped_eip712Domain_returns = \<lparr>ri_tokenize = eip712DomainReturn_tokenize, ri_new = eip712DomainReturn_of_tuple\<rparr>"

definition wrapped_getRoleAdmin_returns :: "(hash, hash) return_impl" where
  "wrapped_getRoleAdmin_returns = \<lparr>ri_tokenize = (\<lambda>ret. ret), ri_new = (\<lambda>r. container_0 (Container r))\<rparr>"

definition wrapped_grantRole_returns :: "(unit, unit) return_impl" where
  "wrapped_grantRole_returns = \<lparr>ri_tokenize = (\<lambda>ret. ()), ri_new = (\<lambda>r. ())\<rparr>"

definition wrapped_hasRole_returns :: "(bool, bool) return_impl" where
  "wrapped_hasRole_returns = \<lparr>ri_tokenize = (\<lambda>ret. ret), ri_new = (\<lambda>r. container_0 (Container r))\<rparr>"

definition wrapped_mint_returns :: "(unit, unit) return_impl" where
  "wrapped_mint_returns = \<lparr>ri_tokenize = (\<lambda>ret. ()), ri_new = (\<lambda>r. ())\<rparr>"

definition wrapped_name_returns :: "(string, string) return_impl" where
  "wrapped_name_returns = \<lparr>ri_tokenize = (\<lambda>ret. ret), ri_new = (\<lambda>r. container_0 (Container r))\<rparr>"

definition wrapped_nonces_returns :: "(u256, u256) return_impl" where
  "wrapped_nonces_returns = \<lparr>ri_tokenize = (\<lambda>ret. ret), ri_new = (\<lambda>r. container_0 (Container r))\<rparr>"

definition wrapped_pause_returns :: "(unit, unit) return_impl" where
  "wrapped_pause_returns = \<lparr>ri_tokenize = (\<lambda>ret. ()), ri_new = (\<lambda>r. ())\<rparr>"

definition wrapped_paused_returns :: "(bool, bool) return_impl" where
  "wrapped_paused_returns = \<lparr>ri_tokenize = (\<lambda>ret. ret), ri_new = (\<lambda>r. container_0 (Container r))\<rparr>"

definition wrapped_permit_returns :: "(unit, unit) return_impl" where
  "wrapped_permit_returns = \<lparr>ri_tokenize = (\<lambda>ret. ()), ri_new = (\<lambda>r. ())\<rparr>"

definition wrapped_renounceRole_returns :: "(unit, unit) return_impl" where
  "wrapped_renounceRole_returns = \<lparr>ri_tokenize = (\<lambda>ret. ()), ri_new = (\<lambda>r. ())\<rparr>"

definition wrapped_revokeRole_returns :: "(unit, unit) return_impl" where
  "wrapped_revokeRole_returns = \<lparr>ri_tokenize = (\<lambda>ret. ()), ri_new = (\<lambda>r. ())\<rparr>"

definition wrapped_supportsInterface_returns :: "(bool, bool) return_impl" where
  "wrapped_supportsInterface_returns = \<lparr>ri_tokenize = (\<lambda>ret. ret), ri_new = (\<lambda>r. container_0 (Container r))\<rparr>"

definition wrapped_symbol_returns :: "(string, string) return_impl" where
  "wrapped_symbol_returns = \<lparr>ri_tokenize = (\<lambda>ret. ret), ri_new = (\<lambda>r. container_0 (Container r))\<rparr>"

definition wrapped_totalSupply_returns :: "(u256, u256) return_impl" where
  "wrapped_totalSupply_returns = \<lparr>ri_tokenize = (\<lambda>ret. ret), ri_new = (\<lambda>r. container_0 (Container r))\<rparr>"

definition wrapped_transfer_returns :: "(bool, bool) return_impl" where
  "wrapped_transfer_returns = \<lparr>ri_tokenize = (\<lambda>ret. ret), ri_new = (\<lambda>r. container_0 (Container r))\<rparr>"

definition wrapped_transferFrom_returns :: "(bool, bool) return_impl" where
  "wrapped_transferFrom_returns = \<lparr>ri_tokenize = (\<lambda>ret. ret), ri_new = (\<lambda>r. container_0 (Container r))\<rparr>"

definition wrapped_unpause_returns :: "(unit, unit) return_impl" where
  "wrapped_unpause_returns = \<lparr>ri_tokenize = (\<lambda>ret. ()), ri_new = (\<lambda>r. ())\<rparr>"

lemma wrapped_returns_new_tokenize:
  "ri_new wrapped_DEFAULT_ADMIN_ROLE_returns (ri_tokenize wrapped_DEFAULT_ADMIN_ROLE_returns r0) = r0"
  "ri_new wrapped_DOMAIN_SEPARATOR_returns (ri_tokenize wrapped_DOMAIN_SEPARATOR_returns r1) = r1"
  "ri_new wrapped_MINTER_ROLE_returns (ri_tokenize wrapped_MINTER_ROLE_returns r2) = r2"
  "ri_new wrapped_PAUSER_ROLE_returns (ri_tokenize wrapped_PAUSER_ROLE_returns r3) = r3"
  "ri_new wrapped_allowance_returns (ri_tokenize wrapped_allowance_returns r4) = r4"
  "ri_new wrapped_approve_returns (ri_tokenize wrapped_approve_returns r5) = r5"
  "ri_new wrapped_balanceOf_returns (ri_tokenize wrapped_balanceOf_returns r6) = r6"
  "ri_new wrapped_burn_returns (ri_tokenize wrapped_burn_returns r7) = r7"
  "ri_new wrapped_burnFrom_returns (ri_tokenize wrapped_burnFrom_returns r8) = r8"
  "ri_new wrapped_decimals_returns (ri_tokenize wrapped_decimals_returns r9) = r9"
  "ri_new wrapped_eip712Domain_returns (ri_tokenize wrapped_eip712Domain_returns r10) = r10"
  "ri_new wrapped_getRoleAdmin_returns (ri_tokenize wrapped_getRoleAdmin_returns r11) = r11"
  "ri_new wrapped_grantRole_returns (ri_tokenize wrapped_grantRole_returns r12) = r12"
  "ri_new wrapped_hasRole_returns (ri_tokenize wrapped_hasRole_returns r13) = r13"
  "ri_new wrapped_mint_returns (ri_tokenize wrapped_mint_returns r14) = r14"
  "ri_new wrapped_name_returns (ri_tokenize wrapped_name_returns r15) = r15"
  "ri_new wrapped_nonces_returns (ri_tokenize wrapped_nonces_returns r16) = r16"
  "ri_new wrapped_pause_returns (ri_tokenize wrapped_pause_returns r17) = r17"
  "ri_new wrapped_paused_returns (ri_tokenize wrapped_paused_returns r18) = r18"
  "ri_new wrapped_permit_returns (ri_tokenize wrapped_permit_returns r19) = r19"
  "ri_new wrapped_renounceRole_returns (ri_tokenize wrapped_renounceRole_returns r20) = r20"
  "ri_new wrapped_revokeRole_returns (ri_tokenize wrapped_revokeRole_returns r21) = r21"
  "ri_new wrapped_supportsInterface_returns (ri_tokenize wrapped_supportsInterface_returns r22) = r22"
  "ri_new wrapped_symbol_returns (ri_tokenize wrapped_symbol_returns r23) = r23"
  "ri_new wrapped_totalSupply_returns (ri_tokenize wrapped_totalSupply_returns r24) = r24"
  "ri_new wrapped_transfer_returns (ri_tokenize wrapped_transfer_returns r25) = r25"
  "ri_new wrapped_transferFrom_returns (ri_tokenize wrapped_transferFrom_returns r26) = r26"
  "ri_new wrapped_unpause_returns (ri_tokenize wrapped_unpause_returns r27) = r27"
  by (simp_all add: wrapped_DEFAULT_ADMIN_ROLE_returns_def wrapped_DOMAIN_SEPARATOR_returns_def
    wrapped_MINTER_ROLE_returns_def wrapped_PAUSER_ROLE_returns_def wrapped_allowance_returns_def
    wrapped_approve_returns_def wrapped_balanceOf_returns_def wrapped_burn_returns_def
    wrapped_burnFrom_returns_def wrapped_decimals_returns_def wrapped_eip712Domain_returns_def
    wrapped_getRoleAdmin_returns_def wrapped_grantRole_returns_def wrapped_hasRole_returns_def
    wrapped_mint_returns_def wrapped_name_returns_def wrapped_nonces_returns_def
    wrapped_pause_returns_def wrapped_paused_returns_def wrapped_permit_returns_def
    wrapped_renounceRole_returns_def wrapped_revokeRole_returns_def
    wrapped_supportsInterface_returns_def wrapped_symbol_returns_def wrapped_totalSupply_returns_def
    wrapped_transfer_returns_def wrapped_transferFrom_returns_def wrapped_unpause_returns_def
    eip712DomainReturn_of_tuple_def eip712DomainReturn_tokenize_def)

end
