(* ===== verification/Waiting_Returns.thy ===== *)
theory Waiting_Returns
  imports Sol_Returns
begin

text \<open>
  What the calls of the list of waiting deposits return, \<^verbatim>\<open>protocol/bindings/src/deposit_waiting_list.rs\<close>: the containers of several
  values, and for each call how a return value is written and read.
\<close>

section \<open>Return values\<close>

definition waiting_DEFAULT_ADMIN_ROLE_returns :: "(hash, hash) return_impl" where
  "waiting_DEFAULT_ADMIN_ROLE_returns = \<lparr>ri_tokenize = (\<lambda>ret. ret), ri_new = (\<lambda>r. container_0 (Container r))\<rparr>"

definition waiting_RELAYER_ROLE_returns :: "(hash, hash) return_impl" where
  "waiting_RELAYER_ROLE_returns = \<lparr>ri_tokenize = (\<lambda>ret. ret), ri_new = (\<lambda>r. container_0 (Container r))\<rparr>"

definition waiting_applyDeposits_returns :: "(unit, unit) return_impl" where
  "waiting_applyDeposits_returns = \<lparr>ri_tokenize = (\<lambda>ret. ()), ri_new = (\<lambda>r. ())\<rparr>"

definition waiting_approveToken_returns :: "(unit, unit) return_impl" where
  "waiting_approveToken_returns = \<lparr>ri_tokenize = (\<lambda>ret. ()), ri_new = (\<lambda>r. ())\<rparr>"

definition waiting_bridge_returns :: "(address, address) return_impl" where
  "waiting_bridge_returns = \<lparr>ri_tokenize = (\<lambda>ret. ret), ri_new = (\<lambda>r. container_0 (Container r))\<rparr>"

definition waiting_deposit_returns :: "(u256, u256) return_impl" where
  "waiting_deposit_returns = \<lparr>ri_tokenize = (\<lambda>ret. ret), ri_new = (\<lambda>r. container_0 (Container r))\<rparr>"

definition waiting_depositHashes_returns :: "(hash, hash) return_impl" where
  "waiting_depositHashes_returns = \<lparr>ri_tokenize = (\<lambda>ret. ret), ri_new = (\<lambda>r. container_0 (Container r))\<rparr>"

definition waiting_getRoleAdmin_returns :: "(hash, hash) return_impl" where
  "waiting_getRoleAdmin_returns = \<lparr>ri_tokenize = (\<lambda>ret. ret), ri_new = (\<lambda>r. container_0 (Container r))\<rparr>"

definition waiting_grantRole_returns :: "(unit, unit) return_impl" where
  "waiting_grantRole_returns = \<lparr>ri_tokenize = (\<lambda>ret. ()), ri_new = (\<lambda>r. ())\<rparr>"

definition waiting_hasRole_returns :: "(bool, bool) return_impl" where
  "waiting_hasRole_returns = \<lparr>ri_tokenize = (\<lambda>ret. ret), ri_new = (\<lambda>r. container_0 (Container r))\<rparr>"

definition waiting_nextDepositId_returns :: "(u256, u256) return_impl" where
  "waiting_nextDepositId_returns = \<lparr>ri_tokenize = (\<lambda>ret. ret), ri_new = (\<lambda>r. container_0 (Container r))\<rparr>"

definition waiting_renounceRole_returns :: "(unit, unit) return_impl" where
  "waiting_renounceRole_returns = \<lparr>ri_tokenize = (\<lambda>ret. ()), ri_new = (\<lambda>r. ())\<rparr>"

definition waiting_revokeRole_returns :: "(unit, unit) return_impl" where
  "waiting_revokeRole_returns = \<lparr>ri_tokenize = (\<lambda>ret. ()), ri_new = (\<lambda>r. ())\<rparr>"

definition waiting_supportsInterface_returns :: "(bool, bool) return_impl" where
  "waiting_supportsInterface_returns = \<lparr>ri_tokenize = (\<lambda>ret. ret), ri_new = (\<lambda>r. container_0 (Container r))\<rparr>"

definition waiting_withdraw_returns :: "(unit, unit) return_impl" where
  "waiting_withdraw_returns = \<lparr>ri_tokenize = (\<lambda>ret. ()), ri_new = (\<lambda>r. ())\<rparr>"

lemma waiting_returns_new_tokenize:
  "ri_new waiting_DEFAULT_ADMIN_ROLE_returns (ri_tokenize waiting_DEFAULT_ADMIN_ROLE_returns r0) = r0"
  "ri_new waiting_RELAYER_ROLE_returns (ri_tokenize waiting_RELAYER_ROLE_returns r1) = r1"
  "ri_new waiting_applyDeposits_returns (ri_tokenize waiting_applyDeposits_returns r2) = r2"
  "ri_new waiting_approveToken_returns (ri_tokenize waiting_approveToken_returns r3) = r3"
  "ri_new waiting_bridge_returns (ri_tokenize waiting_bridge_returns r4) = r4"
  "ri_new waiting_deposit_returns (ri_tokenize waiting_deposit_returns r5) = r5"
  "ri_new waiting_depositHashes_returns (ri_tokenize waiting_depositHashes_returns r6) = r6"
  "ri_new waiting_getRoleAdmin_returns (ri_tokenize waiting_getRoleAdmin_returns r7) = r7"
  "ri_new waiting_grantRole_returns (ri_tokenize waiting_grantRole_returns r8) = r8"
  "ri_new waiting_hasRole_returns (ri_tokenize waiting_hasRole_returns r9) = r9"
  "ri_new waiting_nextDepositId_returns (ri_tokenize waiting_nextDepositId_returns r10) = r10"
  "ri_new waiting_renounceRole_returns (ri_tokenize waiting_renounceRole_returns r11) = r11"
  "ri_new waiting_revokeRole_returns (ri_tokenize waiting_revokeRole_returns r12) = r12"
  "ri_new waiting_supportsInterface_returns (ri_tokenize waiting_supportsInterface_returns r13) = r13"
  "ri_new waiting_withdraw_returns (ri_tokenize waiting_withdraw_returns r14) = r14"
  by (simp_all add: waiting_DEFAULT_ADMIN_ROLE_returns_def waiting_RELAYER_ROLE_returns_def
    waiting_applyDeposits_returns_def waiting_approveToken_returns_def waiting_bridge_returns_def
    waiting_deposit_returns_def waiting_depositHashes_returns_def waiting_getRoleAdmin_returns_def
    waiting_grantRole_returns_def waiting_hasRole_returns_def waiting_nextDepositId_returns_def
    waiting_renounceRole_returns_def waiting_revokeRole_returns_def
    waiting_supportsInterface_returns_def waiting_withdraw_returns_def)

end
