(* ===== verification/Example_Returns.thy ===== *)
theory Example_Returns
  imports Sol_Returns
begin

text \<open>What the calls of the example contracts return, as in \<open>Bridge_Returns\<close>.\<close>

section \<open>\<^verbatim>\<open>examples/solidity/bindings/src/ranked_feed.rs\<close>\<close>

definition feed_createPost_returns :: "(unit, unit) return_impl" where
  "feed_createPost_returns = \<lparr>ri_tokenize = (\<lambda>ret. ()), ri_new = (\<lambda>r. ())\<rparr>"

definition feed_votePost_returns :: "(unit, unit) return_impl" where
  "feed_votePost_returns = \<lparr>ri_tokenize = (\<lambda>ret. ()), ri_new = (\<lambda>r. ())\<rparr>"

lemma feed_returns_new_tokenize:
  "ri_new feed_createPost_returns (ri_tokenize feed_createPost_returns r0) = r0"
  "ri_new feed_votePost_returns (ri_tokenize feed_votePost_returns r1) = r1"
  by (simp_all add: feed_createPost_returns_def feed_votePost_returns_def)

section \<open>\<^verbatim>\<open>examples/solidity/bindings/src/voting.rs\<close>\<close>

definition poll_register_returns :: "(unit, unit) return_impl" where
  "poll_register_returns = \<lparr>ri_tokenize = (\<lambda>ret. ()), ri_new = (\<lambda>r. ())\<rparr>"

definition poll_setWinner_returns :: "(unit, unit) return_impl" where
  "poll_setWinner_returns = \<lparr>ri_tokenize = (\<lambda>ret. ()), ri_new = (\<lambda>r. ())\<rparr>"

definition poll_vote_returns :: "(unit, unit) return_impl" where
  "poll_vote_returns = \<lparr>ri_tokenize = (\<lambda>ret. ()), ri_new = (\<lambda>r. ())\<rparr>"

definition poll_votingId_returns :: "(hash, hash) return_impl" where
  "poll_votingId_returns = \<lparr>ri_tokenize = (\<lambda>ret. ret), ri_new = (\<lambda>r. container_0 (Container r))\<rparr>"

lemma poll_returns_new_tokenize:
  "ri_new poll_register_returns (ri_tokenize poll_register_returns r0) = r0"
  "ri_new poll_setWinner_returns (ri_tokenize poll_setWinner_returns r1) = r1"
  "ri_new poll_vote_returns (ri_tokenize poll_vote_returns r2) = r2"
  "ri_new poll_votingId_returns (ri_tokenize poll_votingId_returns r3) = r3"
  by (simp_all add: poll_register_returns_def poll_setWinner_returns_def poll_vote_returns_def poll_votingId_returns_def)

section \<open>\<^verbatim>\<open>examples/solidity/bindings/src/pi2.rs\<close>\<close>

definition pi2_verify_returns :: "(unit, unit) return_impl" where
  "pi2_verify_returns = \<lparr>ri_tokenize = (\<lambda>ret. ()), ri_new = (\<lambda>r. ())\<rparr>"

lemma pi2_returns_new_tokenize:
  "ri_new pi2_verify_returns (ri_tokenize pi2_verify_returns r0) = r0"
  by (simp_all add: pi2_verify_returns_def)

section \<open>\<^verbatim>\<open>examples/solidity/bindings/src/i_auction.rs\<close>\<close>

definition auction_submitBid_returns :: "(unit, unit) return_impl" where
  "auction_submitBid_returns = \<lparr>ri_tokenize = (\<lambda>ret. ()), ri_new = (\<lambda>r. ())\<rparr>"

lemma auction_returns_new_tokenize:
  "ri_new auction_submitBid_returns (ri_tokenize auction_submitBid_returns r0) = r0"
  by (simp_all add: auction_submitBid_returns_def)

section \<open>\<^verbatim>\<open>examples/notary/bindings/src/notary.rs\<close>\<close>

definition notary_timestamp_returns :: "(unit, unit) return_impl" where
  "notary_timestamp_returns = \<lparr>ri_tokenize = (\<lambda>ret. ()), ri_new = (\<lambda>r. ())\<rparr>"

definition notary_timestamps_returns :: "(u64, u64) return_impl" where
  "notary_timestamps_returns = \<lparr>ri_tokenize = (\<lambda>ret. ret), ri_new = (\<lambda>r. container_0 (Container r))\<rparr>"

lemma notary_returns_new_tokenize:
  "ri_new notary_timestamp_returns (ri_tokenize notary_timestamp_returns r0) = r0"
  "ri_new notary_timestamps_returns (ri_tokenize notary_timestamps_returns r1) = r1"
  by (simp_all add: notary_timestamp_returns_def notary_timestamps_returns_def)

section \<open>\<^verbatim>\<open>examples/voting/bindings/src/voting.rs\<close>\<close>

definition voting_castVote_returns :: "(unit, unit) return_impl" where
  "voting_castVote_returns = \<lparr>ri_tokenize = (\<lambda>ret. ()), ri_new = (\<lambda>r. ())\<rparr>"

definition voting_createProposal_returns :: "(hash, hash) return_impl" where
  "voting_createProposal_returns = \<lparr>ri_tokenize = (\<lambda>ret. ret), ri_new = (\<lambda>r. container_0 (Container r))\<rparr>"

definition voting_execute_returns :: "(unit, unit) return_impl" where
  "voting_execute_returns = \<lparr>ri_tokenize = (\<lambda>ret. ()), ri_new = (\<lambda>r. ())\<rparr>"

definition voting_getProposalId_returns :: "(hash, hash) return_impl" where
  "voting_getProposalId_returns = \<lparr>ri_tokenize = (\<lambda>ret. ret), ri_new = (\<lambda>r. container_0 (Container r))\<rparr>"

lemma voting_returns_new_tokenize:
  "ri_new voting_castVote_returns (ri_tokenize voting_castVote_returns r0) = r0"
  "ri_new voting_createProposal_returns (ri_tokenize voting_createProposal_returns r1) = r1"
  "ri_new voting_execute_returns (ri_tokenize voting_execute_returns r2) = r2"
  "ri_new voting_getProposalId_returns (ri_tokenize voting_getProposalId_returns r3) = r3"
  by (simp_all add: voting_castVote_returns_def voting_createProposal_returns_def voting_execute_returns_def
    voting_getProposalId_returns_def)

end
