(* ===== verification/Contract_Instances.thy ===== *)
theory Contract_Instances
  imports Wrapped_Calls
begin

text \<open>
  The instances of the generated bindings: an address with a provider, from which calls are
  built, and the deployment of a contract.  The bytecode, the encoding of the constructor's
  arguments and the sending of a deployment are arguments; cloning a provider gives the same
  provider.
\<close>

record 'p contract_instance =
  ci_address :: address
  ci_provider :: 'p

text \<open>The crate's builders: of a deployment with its data, and of a call.\<close>

record 'p raw_call_builder =
  rb_provider :: 'p
  rb_data :: bytes

record ('p, 'c) sol_call_builder =
  sb_provider :: 'p
  sb_address :: address
  sb_call :: 'c

section \<open>\<^verbatim>\<open>BridgeInstance\<close> of \<^verbatim>\<open>protocol/bindings/src/bridge.rs\<close>\<close>

definition bridge_instance_new :: "address \<Rightarrow> 'p \<Rightarrow> 'p contract_instance" where
  "bridge_instance_new addr provider = \<lparr>ci_address = addr, ci_provider = provider\<rparr>"

definition bridge_new :: "address \<Rightarrow> 'p \<Rightarrow> 'p contract_instance" where
  "bridge_new addr provider = bridge_instance_new addr provider"

record bridge_constructor =
  bridge_constructor_bridgeContract :: address
  bridge_constructor_chainId :: u256

definition bridge_instance_deploy_builder :: "bytes \<Rightarrow> (bridge_constructor \<Rightarrow> bytes) \<Rightarrow> 'p \<Rightarrow> address \<Rightarrow> u256 \<Rightarrow> 'p raw_call_builder" where
  "bridge_instance_deploy_builder bytecode encode provider bridgeContract chainId =
     \<lparr>rb_provider = provider, rb_data = bytecode @ encode \<lparr>bridge_constructor_bridgeContract = bridgeContract, bridge_constructor_chainId = chainId\<rparr>\<rparr>"

definition bridge_instance_deploy :: "('p raw_call_builder \<Rightarrow> 'e + address) \<Rightarrow> bytes \<Rightarrow> (bridge_constructor \<Rightarrow> bytes) \<Rightarrow> 'p \<Rightarrow> address \<Rightarrow> u256 \<Rightarrow> 'e + 'p contract_instance" where
  "bridge_instance_deploy deploy bytecode encode provider bridgeContract chainId =
     (let call_builder = bridge_instance_deploy_builder bytecode encode provider bridgeContract chainId
      in case deploy call_builder of
           Inl e \<Rightarrow> Inl e
         | Inr created \<Rightarrow> Inr (bridge_instance_new created (rb_provider call_builder)))"

definition bridge_deploy_builder :: "bytes \<Rightarrow> (bridge_constructor \<Rightarrow> bytes) \<Rightarrow> 'p \<Rightarrow> address \<Rightarrow> u256 \<Rightarrow> 'p raw_call_builder" where
  "bridge_deploy_builder bytecode encode provider bridgeContract chainId = bridge_instance_deploy_builder bytecode encode provider bridgeContract chainId"

definition bridge_deploy :: "('p raw_call_builder \<Rightarrow> 'e + address) \<Rightarrow> bytes \<Rightarrow> (bridge_constructor \<Rightarrow> bytes) \<Rightarrow> 'p \<Rightarrow> address \<Rightarrow> u256 \<Rightarrow> 'e + 'p contract_instance" where
  "bridge_deploy deploy bytecode encode provider bridgeContract chainId = bridge_instance_deploy deploy bytecode encode provider bridgeContract chainId"

definition bridge_instance_address :: "'p contract_instance \<Rightarrow> address" where
  "bridge_instance_address self = ci_address self"

definition bridge_instance_set_address :: "'p contract_instance \<Rightarrow> address \<Rightarrow> 'p contract_instance" where
  "bridge_instance_set_address self addr = self\<lparr>ci_address := addr\<rparr>"

definition bridge_instance_at :: "'p contract_instance \<Rightarrow> address \<Rightarrow> 'p contract_instance" where
  "bridge_instance_at self addr = bridge_instance_set_address self addr"

definition bridge_instance_provider :: "'p contract_instance \<Rightarrow> 'p" where
  "bridge_instance_provider self = ci_provider self"

definition bridge_with_cloned_provider :: "'p contract_instance \<Rightarrow> 'p contract_instance" where
  "bridge_with_cloned_provider self = \<lparr>ci_address = ci_address self, ci_provider = ci_provider self\<rparr>"

definition bridge_call_builder :: "'p contract_instance \<Rightarrow> 'c \<Rightarrow> ('p, 'c) sol_call_builder" where
  "bridge_call_builder self call =
     \<lparr>sb_provider = ci_provider self, sb_address = ci_address self, sb_call = call\<rparr>"

section \<open>\<^verbatim>\<open>DepositWaitingListInstance\<close> of \<^verbatim>\<open>protocol/bindings/src/deposit_waiting_list.rs\<close>\<close>

definition waiting_instance_new :: "address \<Rightarrow> 'p \<Rightarrow> 'p contract_instance" where
  "waiting_instance_new addr provider = \<lparr>ci_address = addr, ci_provider = provider\<rparr>"

definition waiting_new :: "address \<Rightarrow> 'p \<Rightarrow> 'p contract_instance" where
  "waiting_new addr provider = waiting_instance_new addr provider"

record waiting_constructor =
  waiting_constructor_bridge :: address
  waiting_constructor_admin :: address
  waiting_constructor_initialRelayer :: address

definition waiting_instance_deploy_builder :: "bytes \<Rightarrow> (waiting_constructor \<Rightarrow> bytes) \<Rightarrow> 'p \<Rightarrow> address \<Rightarrow> address \<Rightarrow> address \<Rightarrow> 'p raw_call_builder" where
  "waiting_instance_deploy_builder bytecode encode provider bridge admin initialRelayer =
     \<lparr>rb_provider = provider, rb_data = bytecode @ encode \<lparr>waiting_constructor_bridge = bridge, waiting_constructor_admin = admin, waiting_constructor_initialRelayer = initialRelayer\<rparr>\<rparr>"

definition waiting_instance_deploy :: "('p raw_call_builder \<Rightarrow> 'e + address) \<Rightarrow> bytes \<Rightarrow> (waiting_constructor \<Rightarrow> bytes) \<Rightarrow> 'p \<Rightarrow> address \<Rightarrow> address \<Rightarrow> address \<Rightarrow> 'e + 'p contract_instance" where
  "waiting_instance_deploy deploy bytecode encode provider bridge admin initialRelayer =
     (let call_builder = waiting_instance_deploy_builder bytecode encode provider bridge admin initialRelayer
      in case deploy call_builder of
           Inl e \<Rightarrow> Inl e
         | Inr created \<Rightarrow> Inr (waiting_instance_new created (rb_provider call_builder)))"

definition waiting_deploy_builder :: "bytes \<Rightarrow> (waiting_constructor \<Rightarrow> bytes) \<Rightarrow> 'p \<Rightarrow> address \<Rightarrow> address \<Rightarrow> address \<Rightarrow> 'p raw_call_builder" where
  "waiting_deploy_builder bytecode encode provider bridge admin initialRelayer = waiting_instance_deploy_builder bytecode encode provider bridge admin initialRelayer"

definition waiting_deploy :: "('p raw_call_builder \<Rightarrow> 'e + address) \<Rightarrow> bytes \<Rightarrow> (waiting_constructor \<Rightarrow> bytes) \<Rightarrow> 'p \<Rightarrow> address \<Rightarrow> address \<Rightarrow> address \<Rightarrow> 'e + 'p contract_instance" where
  "waiting_deploy deploy bytecode encode provider bridge admin initialRelayer = waiting_instance_deploy deploy bytecode encode provider bridge admin initialRelayer"

definition waiting_instance_address :: "'p contract_instance \<Rightarrow> address" where
  "waiting_instance_address self = ci_address self"

definition waiting_instance_set_address :: "'p contract_instance \<Rightarrow> address \<Rightarrow> 'p contract_instance" where
  "waiting_instance_set_address self addr = self\<lparr>ci_address := addr\<rparr>"

definition waiting_instance_at :: "'p contract_instance \<Rightarrow> address \<Rightarrow> 'p contract_instance" where
  "waiting_instance_at self addr = waiting_instance_set_address self addr"

definition waiting_instance_provider :: "'p contract_instance \<Rightarrow> 'p" where
  "waiting_instance_provider self = ci_provider self"

definition waiting_with_cloned_provider :: "'p contract_instance \<Rightarrow> 'p contract_instance" where
  "waiting_with_cloned_provider self = \<lparr>ci_address = ci_address self, ci_provider = ci_provider self\<rparr>"

definition waiting_call_builder :: "'p contract_instance \<Rightarrow> 'c \<Rightarrow> ('p, 'c) sol_call_builder" where
  "waiting_call_builder self call =
     \<lparr>sb_provider = ci_provider self, sb_address = ci_address self, sb_call = call\<rparr>"

section \<open>\<^verbatim>\<open>WrappedTokenInstance\<close> of \<^verbatim>\<open>protocol/bindings/src/wrapped_token.rs\<close>\<close>

definition wrapped_instance_new :: "address \<Rightarrow> 'p \<Rightarrow> 'p contract_instance" where
  "wrapped_instance_new addr provider = \<lparr>ci_address = addr, ci_provider = provider\<rparr>"

definition wrapped_new :: "address \<Rightarrow> 'p \<Rightarrow> 'p contract_instance" where
  "wrapped_new addr provider = wrapped_instance_new addr provider"

record wrapped_constructor =
  wrapped_constructor_token_name :: string
  wrapped_constructor_token_symbol :: string
  wrapped_constructor_decimals :: byte

definition wrapped_instance_deploy_builder :: "bytes \<Rightarrow> (wrapped_constructor \<Rightarrow> bytes) \<Rightarrow> 'p \<Rightarrow> string \<Rightarrow> string \<Rightarrow> byte \<Rightarrow> 'p raw_call_builder" where
  "wrapped_instance_deploy_builder bytecode encode provider token_name token_symbol decimals =
     \<lparr>rb_provider = provider, rb_data = bytecode @ encode \<lparr>wrapped_constructor_token_name = token_name, wrapped_constructor_token_symbol = token_symbol, wrapped_constructor_decimals = decimals\<rparr>\<rparr>"

definition wrapped_instance_deploy :: "('p raw_call_builder \<Rightarrow> 'e + address) \<Rightarrow> bytes \<Rightarrow> (wrapped_constructor \<Rightarrow> bytes) \<Rightarrow> 'p \<Rightarrow> string \<Rightarrow> string \<Rightarrow> byte \<Rightarrow> 'e + 'p contract_instance" where
  "wrapped_instance_deploy deploy bytecode encode provider token_name token_symbol decimals =
     (let call_builder = wrapped_instance_deploy_builder bytecode encode provider token_name token_symbol decimals
      in case deploy call_builder of
           Inl e \<Rightarrow> Inl e
         | Inr created \<Rightarrow> Inr (wrapped_instance_new created (rb_provider call_builder)))"

definition wrapped_deploy_builder :: "bytes \<Rightarrow> (wrapped_constructor \<Rightarrow> bytes) \<Rightarrow> 'p \<Rightarrow> string \<Rightarrow> string \<Rightarrow> byte \<Rightarrow> 'p raw_call_builder" where
  "wrapped_deploy_builder bytecode encode provider token_name token_symbol decimals = wrapped_instance_deploy_builder bytecode encode provider token_name token_symbol decimals"

definition wrapped_deploy :: "('p raw_call_builder \<Rightarrow> 'e + address) \<Rightarrow> bytes \<Rightarrow> (wrapped_constructor \<Rightarrow> bytes) \<Rightarrow> 'p \<Rightarrow> string \<Rightarrow> string \<Rightarrow> byte \<Rightarrow> 'e + 'p contract_instance" where
  "wrapped_deploy deploy bytecode encode provider token_name token_symbol decimals = wrapped_instance_deploy deploy bytecode encode provider token_name token_symbol decimals"

definition wrapped_instance_address :: "'p contract_instance \<Rightarrow> address" where
  "wrapped_instance_address self = ci_address self"

definition wrapped_instance_set_address :: "'p contract_instance \<Rightarrow> address \<Rightarrow> 'p contract_instance" where
  "wrapped_instance_set_address self addr = self\<lparr>ci_address := addr\<rparr>"

definition wrapped_instance_at :: "'p contract_instance \<Rightarrow> address \<Rightarrow> 'p contract_instance" where
  "wrapped_instance_at self addr = wrapped_instance_set_address self addr"

definition wrapped_instance_provider :: "'p contract_instance \<Rightarrow> 'p" where
  "wrapped_instance_provider self = ci_provider self"

definition wrapped_with_cloned_provider :: "'p contract_instance \<Rightarrow> 'p contract_instance" where
  "wrapped_with_cloned_provider self = \<lparr>ci_address = ci_address self, ci_provider = ci_provider self\<rparr>"

definition wrapped_call_builder :: "'p contract_instance \<Rightarrow> 'c \<Rightarrow> ('p, 'c) sol_call_builder" where
  "wrapped_call_builder self call =
     \<lparr>sb_provider = ci_provider self, sb_address = ci_address self, sb_call = call\<rparr>"

section \<open>\<^verbatim>\<open>TimeInstance\<close> of \<^verbatim>\<open>examples/notary/bindings/src/notary.rs\<close>\<close>

definition notary_time_lib_instance_new :: "address \<Rightarrow> 'p \<Rightarrow> 'p contract_instance" where
  "notary_time_lib_instance_new addr provider = \<lparr>ci_address = addr, ci_provider = provider\<rparr>"

definition notary_time_lib_new :: "address \<Rightarrow> 'p \<Rightarrow> 'p contract_instance" where
  "notary_time_lib_new addr provider = notary_time_lib_instance_new addr provider"

definition notary_time_lib_instance_address :: "'p contract_instance \<Rightarrow> address" where
  "notary_time_lib_instance_address self = ci_address self"

definition notary_time_lib_instance_set_address :: "'p contract_instance \<Rightarrow> address \<Rightarrow> 'p contract_instance" where
  "notary_time_lib_instance_set_address self addr = self\<lparr>ci_address := addr\<rparr>"

definition notary_time_lib_instance_at :: "'p contract_instance \<Rightarrow> address \<Rightarrow> 'p contract_instance" where
  "notary_time_lib_instance_at self addr = notary_time_lib_instance_set_address self addr"

definition notary_time_lib_instance_provider :: "'p contract_instance \<Rightarrow> 'p" where
  "notary_time_lib_instance_provider self = ci_provider self"

definition notary_time_lib_with_cloned_provider :: "'p contract_instance \<Rightarrow> 'p contract_instance" where
  "notary_time_lib_with_cloned_provider self = \<lparr>ci_address = ci_address self, ci_provider = ci_provider self\<rparr>"

definition notary_time_lib_call_builder :: "'p contract_instance \<Rightarrow> 'c \<Rightarrow> ('p, 'c) sol_call_builder" where
  "notary_time_lib_call_builder self call =
     \<lparr>sb_provider = ci_provider self, sb_address = ci_address self, sb_call = call\<rparr>"

section \<open>\<^verbatim>\<open>NotaryInstance\<close> of \<^verbatim>\<open>examples/notary/bindings/src/notary.rs\<close>\<close>

definition notary_instance_new :: "address \<Rightarrow> 'p \<Rightarrow> 'p contract_instance" where
  "notary_instance_new addr provider = \<lparr>ci_address = addr, ci_provider = provider\<rparr>"

definition notary_new :: "address \<Rightarrow> 'p \<Rightarrow> 'p contract_instance" where
  "notary_new addr provider = notary_instance_new addr provider"

definition notary_instance_deploy_builder :: "bytes \<Rightarrow> 'p \<Rightarrow> 'p raw_call_builder" where
  "notary_instance_deploy_builder bytecode provider =
     \<lparr>rb_provider = provider, rb_data = bytecode\<rparr>"

definition notary_instance_deploy :: "('p raw_call_builder \<Rightarrow> 'e + address) \<Rightarrow> bytes \<Rightarrow> 'p \<Rightarrow> 'e + 'p contract_instance" where
  "notary_instance_deploy deploy bytecode provider =
     (let call_builder = notary_instance_deploy_builder bytecode provider
      in case deploy call_builder of
           Inl e \<Rightarrow> Inl e
         | Inr created \<Rightarrow> Inr (notary_instance_new created (rb_provider call_builder)))"

definition notary_deploy_builder :: "bytes \<Rightarrow> 'p \<Rightarrow> 'p raw_call_builder" where
  "notary_deploy_builder bytecode provider = notary_instance_deploy_builder bytecode provider"

definition notary_deploy :: "('p raw_call_builder \<Rightarrow> 'e + address) \<Rightarrow> bytes \<Rightarrow> 'p \<Rightarrow> 'e + 'p contract_instance" where
  "notary_deploy deploy bytecode provider = notary_instance_deploy deploy bytecode provider"

definition notary_instance_address :: "'p contract_instance \<Rightarrow> address" where
  "notary_instance_address self = ci_address self"

definition notary_instance_set_address :: "'p contract_instance \<Rightarrow> address \<Rightarrow> 'p contract_instance" where
  "notary_instance_set_address self addr = self\<lparr>ci_address := addr\<rparr>"

definition notary_instance_at :: "'p contract_instance \<Rightarrow> address \<Rightarrow> 'p contract_instance" where
  "notary_instance_at self addr = notary_instance_set_address self addr"

definition notary_instance_provider :: "'p contract_instance \<Rightarrow> 'p" where
  "notary_instance_provider self = ci_provider self"

definition notary_with_cloned_provider :: "'p contract_instance \<Rightarrow> 'p contract_instance" where
  "notary_with_cloned_provider self = \<lparr>ci_address = ci_address self, ci_provider = ci_provider self\<rparr>"

definition notary_call_builder :: "'p contract_instance \<Rightarrow> 'c \<Rightarrow> ('p, 'c) sol_call_builder" where
  "notary_call_builder self call =
     \<lparr>sb_provider = ci_provider self, sb_address = ci_address self, sb_call = call\<rparr>"

section \<open>\<^verbatim>\<open>TimeInstance\<close> of \<^verbatim>\<open>examples/notary/bindings/src/time.rs\<close>\<close>

definition notary_time_instance_new :: "address \<Rightarrow> 'p \<Rightarrow> 'p contract_instance" where
  "notary_time_instance_new addr provider = \<lparr>ci_address = addr, ci_provider = provider\<rparr>"

definition notary_time_new :: "address \<Rightarrow> 'p \<Rightarrow> 'p contract_instance" where
  "notary_time_new addr provider = notary_time_instance_new addr provider"

definition notary_time_instance_deploy_builder :: "bytes \<Rightarrow> 'p \<Rightarrow> 'p raw_call_builder" where
  "notary_time_instance_deploy_builder bytecode provider =
     \<lparr>rb_provider = provider, rb_data = bytecode\<rparr>"

definition notary_time_instance_deploy :: "('p raw_call_builder \<Rightarrow> 'e + address) \<Rightarrow> bytes \<Rightarrow> 'p \<Rightarrow> 'e + 'p contract_instance" where
  "notary_time_instance_deploy deploy bytecode provider =
     (let call_builder = notary_time_instance_deploy_builder bytecode provider
      in case deploy call_builder of
           Inl e \<Rightarrow> Inl e
         | Inr created \<Rightarrow> Inr (notary_time_instance_new created (rb_provider call_builder)))"

definition notary_time_deploy_builder :: "bytes \<Rightarrow> 'p \<Rightarrow> 'p raw_call_builder" where
  "notary_time_deploy_builder bytecode provider = notary_time_instance_deploy_builder bytecode provider"

definition notary_time_deploy :: "('p raw_call_builder \<Rightarrow> 'e + address) \<Rightarrow> bytes \<Rightarrow> 'p \<Rightarrow> 'e + 'p contract_instance" where
  "notary_time_deploy deploy bytecode provider = notary_time_instance_deploy deploy bytecode provider"

definition notary_time_instance_address :: "'p contract_instance \<Rightarrow> address" where
  "notary_time_instance_address self = ci_address self"

definition notary_time_instance_set_address :: "'p contract_instance \<Rightarrow> address \<Rightarrow> 'p contract_instance" where
  "notary_time_instance_set_address self addr = self\<lparr>ci_address := addr\<rparr>"

definition notary_time_instance_at :: "'p contract_instance \<Rightarrow> address \<Rightarrow> 'p contract_instance" where
  "notary_time_instance_at self addr = notary_time_instance_set_address self addr"

definition notary_time_instance_provider :: "'p contract_instance \<Rightarrow> 'p" where
  "notary_time_instance_provider self = ci_provider self"

definition notary_time_with_cloned_provider :: "'p contract_instance \<Rightarrow> 'p contract_instance" where
  "notary_time_with_cloned_provider self = \<lparr>ci_address = ci_address self, ci_provider = ci_provider self\<rparr>"

definition notary_time_call_builder :: "'p contract_instance \<Rightarrow> 'c \<Rightarrow> ('p, 'c) sol_call_builder" where
  "notary_time_call_builder self call =
     \<lparr>sb_provider = ci_provider self, sb_address = ci_address self, sb_call = call\<rparr>"

section \<open>\<^verbatim>\<open>FastTypesInstance\<close> of \<^verbatim>\<open>examples/solidity/bindings/src/fast_types.rs\<close>\<close>

definition fast_types_instance_new :: "address \<Rightarrow> 'p \<Rightarrow> 'p contract_instance" where
  "fast_types_instance_new addr provider = \<lparr>ci_address = addr, ci_provider = provider\<rparr>"

definition fast_types_new :: "address \<Rightarrow> 'p \<Rightarrow> 'p contract_instance" where
  "fast_types_new addr provider = fast_types_instance_new addr provider"

definition fast_types_instance_deploy_builder :: "bytes \<Rightarrow> 'p \<Rightarrow> 'p raw_call_builder" where
  "fast_types_instance_deploy_builder bytecode provider =
     \<lparr>rb_provider = provider, rb_data = bytecode\<rparr>"

definition fast_types_instance_deploy :: "('p raw_call_builder \<Rightarrow> 'e + address) \<Rightarrow> bytes \<Rightarrow> 'p \<Rightarrow> 'e + 'p contract_instance" where
  "fast_types_instance_deploy deploy bytecode provider =
     (let call_builder = fast_types_instance_deploy_builder bytecode provider
      in case deploy call_builder of
           Inl e \<Rightarrow> Inl e
         | Inr created \<Rightarrow> Inr (fast_types_instance_new created (rb_provider call_builder)))"

definition fast_types_deploy_builder :: "bytes \<Rightarrow> 'p \<Rightarrow> 'p raw_call_builder" where
  "fast_types_deploy_builder bytecode provider = fast_types_instance_deploy_builder bytecode provider"

definition fast_types_deploy :: "('p raw_call_builder \<Rightarrow> 'e + address) \<Rightarrow> bytes \<Rightarrow> 'p \<Rightarrow> 'e + 'p contract_instance" where
  "fast_types_deploy deploy bytecode provider = fast_types_instance_deploy deploy bytecode provider"

definition fast_types_instance_address :: "'p contract_instance \<Rightarrow> address" where
  "fast_types_instance_address self = ci_address self"

definition fast_types_instance_set_address :: "'p contract_instance \<Rightarrow> address \<Rightarrow> 'p contract_instance" where
  "fast_types_instance_set_address self addr = self\<lparr>ci_address := addr\<rparr>"

definition fast_types_instance_at :: "'p contract_instance \<Rightarrow> address \<Rightarrow> 'p contract_instance" where
  "fast_types_instance_at self addr = fast_types_instance_set_address self addr"

definition fast_types_instance_provider :: "'p contract_instance \<Rightarrow> 'p" where
  "fast_types_instance_provider self = ci_provider self"

definition fast_types_with_cloned_provider :: "'p contract_instance \<Rightarrow> 'p contract_instance" where
  "fast_types_with_cloned_provider self = \<lparr>ci_address = ci_address self, ci_provider = ci_provider self\<rparr>"

definition fast_types_call_builder :: "'p contract_instance \<Rightarrow> 'c \<Rightarrow> ('p, 'c) sol_call_builder" where
  "fast_types_call_builder self call =
     \<lparr>sb_provider = ci_provider self, sb_address = ci_address self, sb_call = call\<rparr>"

section \<open>\<^verbatim>\<open>IAuctionInstance\<close> of \<^verbatim>\<open>examples/solidity/bindings/src/i_auction.rs\<close>\<close>

definition auction_instance_new :: "address \<Rightarrow> 'p \<Rightarrow> 'p contract_instance" where
  "auction_instance_new addr provider = \<lparr>ci_address = addr, ci_provider = provider\<rparr>"

definition auction_new :: "address \<Rightarrow> 'p \<Rightarrow> 'p contract_instance" where
  "auction_new addr provider = auction_instance_new addr provider"

definition auction_instance_deploy_builder :: "bytes \<Rightarrow> 'p \<Rightarrow> 'p raw_call_builder" where
  "auction_instance_deploy_builder bytecode provider =
     \<lparr>rb_provider = provider, rb_data = bytecode\<rparr>"

definition auction_instance_deploy :: "('p raw_call_builder \<Rightarrow> 'e + address) \<Rightarrow> bytes \<Rightarrow> 'p \<Rightarrow> 'e + 'p contract_instance" where
  "auction_instance_deploy deploy bytecode provider =
     (let call_builder = auction_instance_deploy_builder bytecode provider
      in case deploy call_builder of
           Inl e \<Rightarrow> Inl e
         | Inr created \<Rightarrow> Inr (auction_instance_new created (rb_provider call_builder)))"

definition auction_deploy_builder :: "bytes \<Rightarrow> 'p \<Rightarrow> 'p raw_call_builder" where
  "auction_deploy_builder bytecode provider = auction_instance_deploy_builder bytecode provider"

definition auction_deploy :: "('p raw_call_builder \<Rightarrow> 'e + address) \<Rightarrow> bytes \<Rightarrow> 'p \<Rightarrow> 'e + 'p contract_instance" where
  "auction_deploy deploy bytecode provider = auction_instance_deploy deploy bytecode provider"

definition auction_instance_address :: "'p contract_instance \<Rightarrow> address" where
  "auction_instance_address self = ci_address self"

definition auction_instance_set_address :: "'p contract_instance \<Rightarrow> address \<Rightarrow> 'p contract_instance" where
  "auction_instance_set_address self addr = self\<lparr>ci_address := addr\<rparr>"

definition auction_instance_at :: "'p contract_instance \<Rightarrow> address \<Rightarrow> 'p contract_instance" where
  "auction_instance_at self addr = auction_instance_set_address self addr"

definition auction_instance_provider :: "'p contract_instance \<Rightarrow> 'p" where
  "auction_instance_provider self = ci_provider self"

definition auction_with_cloned_provider :: "'p contract_instance \<Rightarrow> 'p contract_instance" where
  "auction_with_cloned_provider self = \<lparr>ci_address = ci_address self, ci_provider = ci_provider self\<rparr>"

definition auction_call_builder :: "'p contract_instance \<Rightarrow> 'c \<Rightarrow> ('p, 'c) sol_call_builder" where
  "auction_call_builder self call =
     \<lparr>sb_provider = ci_provider self, sb_address = ci_address self, sb_call = call\<rparr>"

section \<open>\<^verbatim>\<open>Pi2Instance\<close> of \<^verbatim>\<open>examples/solidity/bindings/src/pi2.rs\<close>\<close>

definition pi2_instance_new :: "address \<Rightarrow> 'p \<Rightarrow> 'p contract_instance" where
  "pi2_instance_new addr provider = \<lparr>ci_address = addr, ci_provider = provider\<rparr>"

definition pi2_new :: "address \<Rightarrow> 'p \<Rightarrow> 'p contract_instance" where
  "pi2_new addr provider = pi2_instance_new addr provider"

definition pi2_instance_deploy_builder :: "bytes \<Rightarrow> 'p \<Rightarrow> 'p raw_call_builder" where
  "pi2_instance_deploy_builder bytecode provider =
     \<lparr>rb_provider = provider, rb_data = bytecode\<rparr>"

definition pi2_instance_deploy :: "('p raw_call_builder \<Rightarrow> 'e + address) \<Rightarrow> bytes \<Rightarrow> 'p \<Rightarrow> 'e + 'p contract_instance" where
  "pi2_instance_deploy deploy bytecode provider =
     (let call_builder = pi2_instance_deploy_builder bytecode provider
      in case deploy call_builder of
           Inl e \<Rightarrow> Inl e
         | Inr created \<Rightarrow> Inr (pi2_instance_new created (rb_provider call_builder)))"

definition pi2_deploy_builder :: "bytes \<Rightarrow> 'p \<Rightarrow> 'p raw_call_builder" where
  "pi2_deploy_builder bytecode provider = pi2_instance_deploy_builder bytecode provider"

definition pi2_deploy :: "('p raw_call_builder \<Rightarrow> 'e + address) \<Rightarrow> bytes \<Rightarrow> 'p \<Rightarrow> 'e + 'p contract_instance" where
  "pi2_deploy deploy bytecode provider = pi2_instance_deploy deploy bytecode provider"

definition pi2_instance_address :: "'p contract_instance \<Rightarrow> address" where
  "pi2_instance_address self = ci_address self"

definition pi2_instance_set_address :: "'p contract_instance \<Rightarrow> address \<Rightarrow> 'p contract_instance" where
  "pi2_instance_set_address self addr = self\<lparr>ci_address := addr\<rparr>"

definition pi2_instance_at :: "'p contract_instance \<Rightarrow> address \<Rightarrow> 'p contract_instance" where
  "pi2_instance_at self addr = pi2_instance_set_address self addr"

definition pi2_instance_provider :: "'p contract_instance \<Rightarrow> 'p" where
  "pi2_instance_provider self = ci_provider self"

definition pi2_with_cloned_provider :: "'p contract_instance \<Rightarrow> 'p contract_instance" where
  "pi2_with_cloned_provider self = \<lparr>ci_address = ci_address self, ci_provider = ci_provider self\<rparr>"

definition pi2_call_builder :: "'p contract_instance \<Rightarrow> 'c \<Rightarrow> ('p, 'c) sol_call_builder" where
  "pi2_call_builder self call =
     \<lparr>sb_provider = ci_provider self, sb_address = ci_address self, sb_call = call\<rparr>"

section \<open>\<^verbatim>\<open>RankedFeedInstance\<close> of \<^verbatim>\<open>examples/solidity/bindings/src/ranked_feed.rs\<close>\<close>

definition feed_instance_new :: "address \<Rightarrow> 'p \<Rightarrow> 'p contract_instance" where
  "feed_instance_new addr provider = \<lparr>ci_address = addr, ci_provider = provider\<rparr>"

definition feed_new :: "address \<Rightarrow> 'p \<Rightarrow> 'p contract_instance" where
  "feed_new addr provider = feed_instance_new addr provider"

definition feed_instance_deploy_builder :: "bytes \<Rightarrow> 'p \<Rightarrow> 'p raw_call_builder" where
  "feed_instance_deploy_builder bytecode provider =
     \<lparr>rb_provider = provider, rb_data = bytecode\<rparr>"

definition feed_instance_deploy :: "('p raw_call_builder \<Rightarrow> 'e + address) \<Rightarrow> bytes \<Rightarrow> 'p \<Rightarrow> 'e + 'p contract_instance" where
  "feed_instance_deploy deploy bytecode provider =
     (let call_builder = feed_instance_deploy_builder bytecode provider
      in case deploy call_builder of
           Inl e \<Rightarrow> Inl e
         | Inr created \<Rightarrow> Inr (feed_instance_new created (rb_provider call_builder)))"

definition feed_deploy_builder :: "bytes \<Rightarrow> 'p \<Rightarrow> 'p raw_call_builder" where
  "feed_deploy_builder bytecode provider = feed_instance_deploy_builder bytecode provider"

definition feed_deploy :: "('p raw_call_builder \<Rightarrow> 'e + address) \<Rightarrow> bytes \<Rightarrow> 'p \<Rightarrow> 'e + 'p contract_instance" where
  "feed_deploy deploy bytecode provider = feed_instance_deploy deploy bytecode provider"

definition feed_instance_address :: "'p contract_instance \<Rightarrow> address" where
  "feed_instance_address self = ci_address self"

definition feed_instance_set_address :: "'p contract_instance \<Rightarrow> address \<Rightarrow> 'p contract_instance" where
  "feed_instance_set_address self addr = self\<lparr>ci_address := addr\<rparr>"

definition feed_instance_at :: "'p contract_instance \<Rightarrow> address \<Rightarrow> 'p contract_instance" where
  "feed_instance_at self addr = feed_instance_set_address self addr"

definition feed_instance_provider :: "'p contract_instance \<Rightarrow> 'p" where
  "feed_instance_provider self = ci_provider self"

definition feed_with_cloned_provider :: "'p contract_instance \<Rightarrow> 'p contract_instance" where
  "feed_with_cloned_provider self = \<lparr>ci_address = ci_address self, ci_provider = ci_provider self\<rparr>"

definition feed_call_builder :: "'p contract_instance \<Rightarrow> 'c \<Rightarrow> ('p, 'c) sol_call_builder" where
  "feed_call_builder self call =
     \<lparr>sb_provider = ci_provider self, sb_address = ci_address self, sb_call = call\<rparr>"

section \<open>\<^verbatim>\<open>TimeInstance\<close> of \<^verbatim>\<open>examples/solidity/bindings/src/time.rs\<close>\<close>

definition solidity_time_instance_new :: "address \<Rightarrow> 'p \<Rightarrow> 'p contract_instance" where
  "solidity_time_instance_new addr provider = \<lparr>ci_address = addr, ci_provider = provider\<rparr>"

definition solidity_time_new :: "address \<Rightarrow> 'p \<Rightarrow> 'p contract_instance" where
  "solidity_time_new addr provider = solidity_time_instance_new addr provider"

definition solidity_time_instance_deploy_builder :: "bytes \<Rightarrow> 'p \<Rightarrow> 'p raw_call_builder" where
  "solidity_time_instance_deploy_builder bytecode provider =
     \<lparr>rb_provider = provider, rb_data = bytecode\<rparr>"

definition solidity_time_instance_deploy :: "('p raw_call_builder \<Rightarrow> 'e + address) \<Rightarrow> bytes \<Rightarrow> 'p \<Rightarrow> 'e + 'p contract_instance" where
  "solidity_time_instance_deploy deploy bytecode provider =
     (let call_builder = solidity_time_instance_deploy_builder bytecode provider
      in case deploy call_builder of
           Inl e \<Rightarrow> Inl e
         | Inr created \<Rightarrow> Inr (solidity_time_instance_new created (rb_provider call_builder)))"

definition solidity_time_deploy_builder :: "bytes \<Rightarrow> 'p \<Rightarrow> 'p raw_call_builder" where
  "solidity_time_deploy_builder bytecode provider = solidity_time_instance_deploy_builder bytecode provider"

definition solidity_time_deploy :: "('p raw_call_builder \<Rightarrow> 'e + address) \<Rightarrow> bytes \<Rightarrow> 'p \<Rightarrow> 'e + 'p contract_instance" where
  "solidity_time_deploy deploy bytecode provider = solidity_time_instance_deploy deploy bytecode provider"

definition solidity_time_instance_address :: "'p contract_instance \<Rightarrow> address" where
  "solidity_time_instance_address self = ci_address self"

definition solidity_time_instance_set_address :: "'p contract_instance \<Rightarrow> address \<Rightarrow> 'p contract_instance" where
  "solidity_time_instance_set_address self addr = self\<lparr>ci_address := addr\<rparr>"

definition solidity_time_instance_at :: "'p contract_instance \<Rightarrow> address \<Rightarrow> 'p contract_instance" where
  "solidity_time_instance_at self addr = solidity_time_instance_set_address self addr"

definition solidity_time_instance_provider :: "'p contract_instance \<Rightarrow> 'p" where
  "solidity_time_instance_provider self = ci_provider self"

definition solidity_time_with_cloned_provider :: "'p contract_instance \<Rightarrow> 'p contract_instance" where
  "solidity_time_with_cloned_provider self = \<lparr>ci_address = ci_address self, ci_provider = ci_provider self\<rparr>"

definition solidity_time_call_builder :: "'p contract_instance \<Rightarrow> 'c \<Rightarrow> ('p, 'c) sol_call_builder" where
  "solidity_time_call_builder self call =
     \<lparr>sb_provider = ci_provider self, sb_address = ci_address self, sb_call = call\<rparr>"

section \<open>\<^verbatim>\<open>TimeInstance\<close> of \<^verbatim>\<open>examples/solidity/bindings/src/voting.rs\<close>\<close>

definition poll_time_instance_new :: "address \<Rightarrow> 'p \<Rightarrow> 'p contract_instance" where
  "poll_time_instance_new addr provider = \<lparr>ci_address = addr, ci_provider = provider\<rparr>"

definition poll_time_new :: "address \<Rightarrow> 'p \<Rightarrow> 'p contract_instance" where
  "poll_time_new addr provider = poll_time_instance_new addr provider"

definition poll_time_instance_address :: "'p contract_instance \<Rightarrow> address" where
  "poll_time_instance_address self = ci_address self"

definition poll_time_instance_set_address :: "'p contract_instance \<Rightarrow> address \<Rightarrow> 'p contract_instance" where
  "poll_time_instance_set_address self addr = self\<lparr>ci_address := addr\<rparr>"

definition poll_time_instance_at :: "'p contract_instance \<Rightarrow> address \<Rightarrow> 'p contract_instance" where
  "poll_time_instance_at self addr = poll_time_instance_set_address self addr"

definition poll_time_instance_provider :: "'p contract_instance \<Rightarrow> 'p" where
  "poll_time_instance_provider self = ci_provider self"

definition poll_time_with_cloned_provider :: "'p contract_instance \<Rightarrow> 'p contract_instance" where
  "poll_time_with_cloned_provider self = \<lparr>ci_address = ci_address self, ci_provider = ci_provider self\<rparr>"

definition poll_time_call_builder :: "'p contract_instance \<Rightarrow> 'c \<Rightarrow> ('p, 'c) sol_call_builder" where
  "poll_time_call_builder self call =
     \<lparr>sb_provider = ci_provider self, sb_address = ci_address self, sb_call = call\<rparr>"

section \<open>\<^verbatim>\<open>VotingInstance\<close> of \<^verbatim>\<open>examples/solidity/bindings/src/voting.rs\<close>\<close>

definition poll_instance_new :: "address \<Rightarrow> 'p \<Rightarrow> 'p contract_instance" where
  "poll_instance_new addr provider = \<lparr>ci_address = addr, ci_provider = provider\<rparr>"

definition poll_new :: "address \<Rightarrow> 'p \<Rightarrow> 'p contract_instance" where
  "poll_new addr provider = poll_instance_new addr provider"

definition poll_instance_deploy_builder :: "bytes \<Rightarrow> 'p \<Rightarrow> 'p raw_call_builder" where
  "poll_instance_deploy_builder bytecode provider =
     \<lparr>rb_provider = provider, rb_data = bytecode\<rparr>"

definition poll_instance_deploy :: "('p raw_call_builder \<Rightarrow> 'e + address) \<Rightarrow> bytes \<Rightarrow> 'p \<Rightarrow> 'e + 'p contract_instance" where
  "poll_instance_deploy deploy bytecode provider =
     (let call_builder = poll_instance_deploy_builder bytecode provider
      in case deploy call_builder of
           Inl e \<Rightarrow> Inl e
         | Inr created \<Rightarrow> Inr (poll_instance_new created (rb_provider call_builder)))"

definition poll_deploy_builder :: "bytes \<Rightarrow> 'p \<Rightarrow> 'p raw_call_builder" where
  "poll_deploy_builder bytecode provider = poll_instance_deploy_builder bytecode provider"

definition poll_deploy :: "('p raw_call_builder \<Rightarrow> 'e + address) \<Rightarrow> bytes \<Rightarrow> 'p \<Rightarrow> 'e + 'p contract_instance" where
  "poll_deploy deploy bytecode provider = poll_instance_deploy deploy bytecode provider"

definition poll_instance_address :: "'p contract_instance \<Rightarrow> address" where
  "poll_instance_address self = ci_address self"

definition poll_instance_set_address :: "'p contract_instance \<Rightarrow> address \<Rightarrow> 'p contract_instance" where
  "poll_instance_set_address self addr = self\<lparr>ci_address := addr\<rparr>"

definition poll_instance_at :: "'p contract_instance \<Rightarrow> address \<Rightarrow> 'p contract_instance" where
  "poll_instance_at self addr = poll_instance_set_address self addr"

definition poll_instance_provider :: "'p contract_instance \<Rightarrow> 'p" where
  "poll_instance_provider self = ci_provider self"

definition poll_with_cloned_provider :: "'p contract_instance \<Rightarrow> 'p contract_instance" where
  "poll_with_cloned_provider self = \<lparr>ci_address = ci_address self, ci_provider = ci_provider self\<rparr>"

definition poll_call_builder :: "'p contract_instance \<Rightarrow> 'c \<Rightarrow> ('p, 'c) sol_call_builder" where
  "poll_call_builder self call =
     \<lparr>sb_provider = ci_provider self, sb_address = ci_address self, sb_call = call\<rparr>"

section \<open>\<^verbatim>\<open>TimeInstance\<close> of \<^verbatim>\<open>examples/voting/bindings/src/voting.rs\<close>\<close>

definition voting_time_instance_new :: "address \<Rightarrow> 'p \<Rightarrow> 'p contract_instance" where
  "voting_time_instance_new addr provider = \<lparr>ci_address = addr, ci_provider = provider\<rparr>"

definition voting_time_new :: "address \<Rightarrow> 'p \<Rightarrow> 'p contract_instance" where
  "voting_time_new addr provider = voting_time_instance_new addr provider"

definition voting_time_instance_address :: "'p contract_instance \<Rightarrow> address" where
  "voting_time_instance_address self = ci_address self"

definition voting_time_instance_set_address :: "'p contract_instance \<Rightarrow> address \<Rightarrow> 'p contract_instance" where
  "voting_time_instance_set_address self addr = self\<lparr>ci_address := addr\<rparr>"

definition voting_time_instance_at :: "'p contract_instance \<Rightarrow> address \<Rightarrow> 'p contract_instance" where
  "voting_time_instance_at self addr = voting_time_instance_set_address self addr"

definition voting_time_instance_provider :: "'p contract_instance \<Rightarrow> 'p" where
  "voting_time_instance_provider self = ci_provider self"

definition voting_time_with_cloned_provider :: "'p contract_instance \<Rightarrow> 'p contract_instance" where
  "voting_time_with_cloned_provider self = \<lparr>ci_address = ci_address self, ci_provider = ci_provider self\<rparr>"

definition voting_time_call_builder :: "'p contract_instance \<Rightarrow> 'c \<Rightarrow> ('p, 'c) sol_call_builder" where
  "voting_time_call_builder self call =
     \<lparr>sb_provider = ci_provider self, sb_address = ci_address self, sb_call = call\<rparr>"

section \<open>\<^verbatim>\<open>VotingInstance\<close> of \<^verbatim>\<open>examples/voting/bindings/src/voting.rs\<close>\<close>

definition voting_instance_new :: "address \<Rightarrow> 'p \<Rightarrow> 'p contract_instance" where
  "voting_instance_new addr provider = \<lparr>ci_address = addr, ci_provider = provider\<rparr>"

definition voting_new :: "address \<Rightarrow> 'p \<Rightarrow> 'p contract_instance" where
  "voting_new addr provider = voting_instance_new addr provider"

definition voting_instance_deploy_builder :: "bytes \<Rightarrow> 'p \<Rightarrow> 'p raw_call_builder" where
  "voting_instance_deploy_builder bytecode provider =
     \<lparr>rb_provider = provider, rb_data = bytecode\<rparr>"

definition voting_instance_deploy :: "('p raw_call_builder \<Rightarrow> 'e + address) \<Rightarrow> bytes \<Rightarrow> 'p \<Rightarrow> 'e + 'p contract_instance" where
  "voting_instance_deploy deploy bytecode provider =
     (let call_builder = voting_instance_deploy_builder bytecode provider
      in case deploy call_builder of
           Inl e \<Rightarrow> Inl e
         | Inr created \<Rightarrow> Inr (voting_instance_new created (rb_provider call_builder)))"

definition voting_deploy_builder :: "bytes \<Rightarrow> 'p \<Rightarrow> 'p raw_call_builder" where
  "voting_deploy_builder bytecode provider = voting_instance_deploy_builder bytecode provider"

definition voting_deploy :: "('p raw_call_builder \<Rightarrow> 'e + address) \<Rightarrow> bytes \<Rightarrow> 'p \<Rightarrow> 'e + 'p contract_instance" where
  "voting_deploy deploy bytecode provider = voting_instance_deploy deploy bytecode provider"

definition voting_instance_address :: "'p contract_instance \<Rightarrow> address" where
  "voting_instance_address self = ci_address self"

definition voting_instance_set_address :: "'p contract_instance \<Rightarrow> address \<Rightarrow> 'p contract_instance" where
  "voting_instance_set_address self addr = self\<lparr>ci_address := addr\<rparr>"

definition voting_instance_at :: "'p contract_instance \<Rightarrow> address \<Rightarrow> 'p contract_instance" where
  "voting_instance_at self addr = voting_instance_set_address self addr"

definition voting_instance_provider :: "'p contract_instance \<Rightarrow> 'p" where
  "voting_instance_provider self = ci_provider self"

definition voting_with_cloned_provider :: "'p contract_instance \<Rightarrow> 'p contract_instance" where
  "voting_with_cloned_provider self = \<lparr>ci_address = ci_address self, ci_provider = ci_provider self\<rparr>"

definition voting_call_builder :: "'p contract_instance \<Rightarrow> 'c \<Rightarrow> ('p, 'c) sol_call_builder" where
  "voting_call_builder self call =
     \<lparr>sb_provider = ci_provider self, sb_address = ci_address self, sb_call = call\<rparr>"

section \<open>Deployed contracts\<close>

lemmas wrapped_instance_defs =
  wrapped_deploy_def wrapped_instance_deploy_def wrapped_deploy_builder_def wrapped_instance_deploy_builder_def
  wrapped_new_def wrapped_instance_new_def wrapped_call_builder_def wrapped_instance_at_def wrapped_instance_set_address_def

text \<open>
  A token is deployed with its bytecode followed by its encoded name, symbol and decimals, in
  this order; the calls that are built on the instance go to the address the deployment made,
  through the provider it was made with, and after \<^verbatim>\<open>at\<close> to the address given.
\<close>

theorem deployed_token_calls:
  assumes "wrapped_deploy deploy bytecode encode provider token_name token_symbol decimals = Inr i"
  shows "\<exists>a. deploy \<lparr>rb_provider = provider, rb_data = bytecode @ encode
        \<lparr>wrapped_constructor_token_name = token_name, wrapped_constructor_token_symbol = token_symbol,
         wrapped_constructor_decimals = decimals\<rparr>\<rparr> = Inr a
    \<and> wrapped_call_builder i (wrapped_transfer to amount)
        = \<lparr>sb_provider = provider, sb_address = a, sb_call = wrapped_transfer to amount\<rparr>
    \<and> wrapped_call_builder (wrapped_instance_at i b) (wrapped_transfer to amount)
        = \<lparr>sb_provider = provider, sb_address = b, sb_call = wrapped_transfer to amount\<rparr>"
  using assms by (auto simp: wrapped_instance_defs Let_def split: sum.splits)

theorem deployed_token_calls_witness:
  "wrapped_call_builder \<lparr>ci_address = 9, ci_provider = ()\<rparr> (wrapped_transfer 3 4)
     = \<lparr>sb_provider = (), sb_address = 9, sb_call = wrapped_transfer 3 4\<rparr>"
proof -
  have "wrapped_deploy (\<lambda>b. Inr (of_nat (length (rb_data b))) :: unit + address) [1, 2, 3]
      (\<lambda>c. [1, 2, 3, 4, 5, wrapped_constructor_decimals c]) () ''wPOD'' ''wPOD'' 18 = Inr \<lparr>ci_address = 9, ci_provider = ()\<rparr>"
    by (simp add: wrapped_instance_defs Let_def)
  from deployed_token_calls [OF this, of 3 4 7] show ?thesis by (auto simp: wrapped_call_builder_def)
qed

end
