(* ===== verification/Spec2Isabelle.thy ===== *)
theory Spec2Isabelle
  imports
    Rust_Base Rust_Text Time_Model Hashing Merkle_Tree Merkle_Correct Merkle_Props Merkle_Sound
    Merkle_Leaves Committee Transaction Signing Calldata Receipt Verifiable_Log Pagination
    Log_Filter Network Provider Auction Auction_System Plc Watch_Clients Notary_Client Voting_Client Bridge_Client
    Sol_Interface Voting_Bindings Notary_Bindings Auction_Bindings Optimism_Bids Contract_Commands
    Sol_Traits Bridge_Calls Bridge_Errors Bridge_Events Bridge_System Wrapped_Calls Wrapped_Errors Wrapped_Events
    Waiting_Calls Waiting_Errors Waiting_Events Feed_Calls Feed_Errors Feed_Events Poll_Calls Poll_Events
    Pi2_Calls Pi2_Events Usage_Examples Plc_Contract Plc_Server
    Sol_Struct Value_Types Bridge_Structs Waiting_Structs Poll_Structs Pi2_Structs
    Sol_Returns Bridge_Returns Wrapped_Returns Waiting_Returns Example_Returns Contract_Instances
begin

text \<open>
  A model of the Rust code of the pod SDK: the types shared by nodes and clients
  (\<^verbatim>\<open>types/\<close>), the client library (\<^verbatim>\<open>rust-sdk/\<close>) and the logic of
  the example clients (\<^verbatim>\<open>examples/\<close>).

  \<^bold>\<open>The program.\<close>  Validators attest receipts of transactions.  A receipt is hashed by
  a Merkle tree over its fields; a client receives logs together with the receipt and the
  validators' signatures, checks the signatures against a committee, and can prove a log
  against the receipt's hash.  The client library builds and sends transactions, subscribes
  to logs, and waits until no transaction can get a timestamp before a deadline (a past
  perfect time).  The examples combine these: auctions, a notary, votes, a registry of DIDs,
  a bridge, and short programs that show single calls.

  \<^bold>\<open>Theories and source files.\<close>
  \<^item> \<open>Rust_Base\<close>, \<open>Rust_Text\<close>: what the source uses of Rust.  A computation that may
    panic has type \<open>'a run\<close>, a sum of the panic and the value; a \<^verbatim>\<open>Result\<close> is
    a sum, an \<^verbatim>\<open>Option\<close> an option.  Machine integers are words; \<^verbatim>\<open>usize\<close>
    counts and indices are naturals with checked subtraction.  Overflow panics, as in a
    build with overflow checks.  A string is the list of its bytes as characters.
  \<^item> \<open>Time_Model\<close>: \<^verbatim>\<open>types/src/time.rs\<close>.
  \<^item> \<open>Hashing\<close>: \<^verbatim>\<open>types/src/cryptography/hash.rs\<close>; the record \<open>crates\<close> holds
    Keccak and the ABI packing functions, which are third-party code.
  \<^item> \<open>Merkle_Tree\<close>, \<open>Merkle_Leaves\<close>: \<^verbatim>\<open>types/src/cryptography/merkle_tree.rs\<close>.
    \<open>Merkle_Correct\<close> has the abstract tree and the contract \<open>commutative_node\<close> under which
    proofs verify; \<open>Merkle_Props\<close> has completeness and panics, \<open>Merkle_Sound\<close> soundness.
    \<open>Merkle_Leaves\<close> states the contract \<open>merkle_paths\<close> of a type's leaves, which every
    \<^verbatim>\<open>Merkleizable\<close> type of the model discharges by an interpretation.
  \<^item> \<open>Committee\<close>: \<^verbatim>\<open>types/src/consensus/{committee,certificate}.rs\<close>, with the
    contract \<open>threshold_acceptance\<close>.
  \<^item> \<open>Transaction\<close>: \<^verbatim>\<open>types/src/ledger/transaction.rs\<close>; \<open>Signing\<close>:
    \<^verbatim>\<open>types/src/cryptography/signer.rs\<close> and
    \<^verbatim>\<open>types/src/consensus/{attestation,attestation_metadata}.rs\<close>; \<open>Calldata\<close>:
    \<^verbatim>\<open>types/src/ledger/calldata.rs\<close>.
  \<^item> \<open>Receipt\<close>, \<open>Verifiable_Log\<close>: \<^verbatim>\<open>types/src/ledger/{receipt,log}.rs\<close>,
    \<^verbatim>\<open>types/src/metadata.rs\<close>, \<^verbatim>\<open>types/src/rpc/receipt.rs\<close>.
  \<^item> \<open>Pagination\<close>, \<open>Log_Filter\<close>: \<^verbatim>\<open>types/src/pagination.rs\<close>,
    \<^verbatim>\<open>types/src/rpc/filter.rs\<close>.
  \<^item> \<open>Network\<close>, \<open>Provider\<close>, \<open>Auction\<close>: \<^verbatim>\<open>rust-sdk/src/network/mod.rs\<close>,
    \<^verbatim>\<open>rust-sdk/src/provider/mod.rs\<close>, \<^verbatim>\<open>rust-sdk/src/auctions/client.rs\<close>;
    \<open>Auction\<close> also has the watcher of \<^verbatim>\<open>examples/auction/main.rs\<close> and the deadlines
    of \<^verbatim>\<open>examples/optimism-tx-auction/src/main.rs\<close>, whose commands are \<open>Optimism_Bids\<close>.
  \<^item> \<open>Contract_Commands\<close>: the commands of \<^verbatim>\<open>examples/{tokens,nfts}/src/main.rs\<close> and
    \<^verbatim>\<open>vote\<close> of \<^verbatim>\<open>examples/auction/main.rs\<close>, which send one contract call.
  \<^item> \<open>Auction_System\<close>: the tasks of the auction watcher, the channel between them and the
    deadline as a step relation, refined to the sequential watcher.
  \<^item> \<open>Plc\<close>, \<open>Plc_Server\<close>: \<^verbatim>\<open>examples/bsky/plc/src\<close>, the handlers, and the routes and
    the start of the server; \<open>Plc_Contract\<close>: the registry's contract,
    \<^verbatim>\<open>examples/bsky/contract/src/PLCRegistry.sol\<close>, the only contract that is modelled; \<open>Usage_Examples\<close>: the three programs of
    \<^verbatim>\<open>examples/rust/src\<close>; \<open>Watch_Clients\<close>: the watchers of the notary,
    token, NFT and voting examples; \<open>Notary_Client\<close>, \<open>Voting_Client\<close>, \<open>Bridge_Client\<close>: the
    remaining commands of \<^verbatim>\<open>examples/{notary,voting/client,bridge-flow}/src/main.rs\<close>.
  \<^item> \<open>Sol_Interface\<close>: the search of selector tables that generated contract bindings share,
    with the contract \<open>dispatch_table\<close>; \<open>Voting_Bindings\<close>:
    \<^verbatim>\<open>examples/voting/bindings/src/voting.rs\<close>; \<open>Notary_Bindings\<close>:
    \<^verbatim>\<open>examples/notary/bindings/src/notary.rs\<close>; \<open>Auction_Bindings\<close>:
    \<^verbatim>\<open>examples/solidity/bindings/src/i_auction.rs\<close>.
  \<^item> \<open>Sol_Traits\<close>: the traits that bindings implement for their structs, as records of
    methods, what the crate's provided methods do with them, and the contract
    \<open>typed_dispatch\<close>.  On it, for \<^verbatim>\<open>protocol/bindings/src\<close>: \<open>Bridge_Calls\<close>,
    \<open>Bridge_Errors\<close> and \<open>Bridge_Events\<close> (\<^verbatim>\<open>bridge.rs\<close>), \<open>Wrapped_Calls\<close>, \<open>Wrapped_Errors\<close>
    and \<open>Wrapped_Events\<close> (\<^verbatim>\<open>wrapped_token.rs\<close>), \<open>Waiting_Calls\<close>, \<open>Waiting_Errors\<close> and
    \<open>Waiting_Events\<close> (\<^verbatim>\<open>deposit_waiting_list.rs\<close>); for \<^verbatim>\<open>examples/solidity/bindings/src\<close>:
    \<open>Feed_Calls\<close>, \<open>Feed_Errors\<close> and \<open>Feed_Events\<close> (\<^verbatim>\<open>ranked_feed.rs\<close>), \<open>Poll_Calls\<close> and
    \<open>Poll_Events\<close> (\<^verbatim>\<open>voting.rs\<close>), \<open>Pi2_Calls\<close> and \<open>Pi2_Events\<close> (\<^verbatim>\<open>pi2.rs\<close>).
  \<^item> \<open>Sol_Struct\<close>: what the bindings use of the crate's types of values, as records of
    methods with the contracts \<open>lawful\<close> and \<open>eip712_law\<close>.  On it the generated
    conversions, topics and EIP-712 hashes of plain structs: \<open>Bridge_Structs\<close>,
    \<open>Waiting_Structs\<close>, \<open>Poll_Structs\<close> and \<open>Pi2_Structs\<close>, and the value types of four
    bindings: \<open>Value_Types\<close>.
  \<^item> \<open>Sol_Returns\<close>: the return values of calls, for the same bindings in
    \<open>Bridge_Returns\<close>, \<open>Wrapped_Returns\<close>, \<open>Waiting_Returns\<close> and \<open>Example_Returns\<close>;
    \<open>Contract_Instances\<close>: construction and deployment of all fifteen contract instances,
    those of \<^verbatim>\<open>time.rs\<close> and \<^verbatim>\<open>fast_types.rs\<close> among them.
  \<^item> \<open>Bridge_System\<close>: the bridge example's client on those bindings.

  \<^bold>\<open>What is shown.\<close>
  \<^item> Trees: construction equals the specified tree; single and multiproofs exist and verify
    for exactly the leaves; accepted proofs are sound up to an exhibited hash collision; the
    inputs on which verification panics are characterised.
  \<^item> Certificates: acceptance is a quorum of distinct members; two accepted certificates
    with overlapping quorums agree.
  \<^item> Signed values: an invariant over everything that constructs one, with the values that escape
    it in a build without debug assertions; serialisation round
    trips.  Receipts and logs: proofs generated from a receipt verify against its hash, what
    the hash leaves out, what the certificate check authenticates.
  \<^item> Requests and filters: invariants of the builders, round trips over the wire, errors.
  \<^item> Provider: termination and bounds of the retry loop, classification of errors.
  \<^item> Examples: what the usage programs show is verified, and a loop over ended streams spins;
    a posted operation of the registry is served again exactly if the
    contract took it or its CID is the latest's; the auction watcher equals a
    specification of the best bid; what success of
    the notary, the registry, the bridge and a block auction's bid means; bids of a batch do
    not disturb each other; panics of the voting client and the registry server.
  \<^item> Bindings: the binary search of a selector table is a look-up, calls and events are
    dispatched to their own decoders, the vote watcher shows the votes on its proposal, the
    notary's the documents of one submitter, and the auction client's queries find the bids it
    submitted.  Calls, errors and events of every contract are decoded as what was encoded,
    under their own selector or hash; a deposit over the bridge sends the two calls it should
    and returns the identifier of the first deposit logged.  Structs read back from their
    tokens at every level of nesting, their topics have the announced lengths, and their
    EIP-712 hashes bind kind and fields; a call's return value is decoded as what was encoded.

  \<^bold>\<open>Loops.\<close>  No loop needs fuel: loops over data are structural, index loops have a
  measure, and loops that wait for the outside consume the finite list of answers or events that
  arrive, and have no result when the list ends first.  The one walk that may not end, the
  registry contract's along previous operations, is a partial function; without an end it is out
  of gas.

  \<^bold>\<open>Hypotheses.\<close>  Code outside the repository is an argument.  Where a property relies
  on it, a named predicate states the documented behaviour (\<open>packed_law\<close>, \<open>ecdsa_law\<close>,
  \<open>format_law\<close>, \<open>request_law\<close>, \<open>voting_law\<close>, \<open>event_law\<close>, \<open>document_law\<close>, \<open>answers\<close>,
  \<open>impl_law\<close>, \<open>impl_event_law\<close>, \<open>eip712_law\<close>, \<open>data_word_law\<close>, \<open>pi2_types_law\<close>,
  \<open>integer_sizes\<close>, \<open>match_law\<close>, \<open>executes\<close>), and a sample instance shows that it can hold.

  \<^bold>\<open>Not modelled.\<close>  The contracts, the PLC registry's aside, and their
  bytecode; of their bindings the type aliases and derived impls (\<^verbatim>\<open>Clone\<close>, \<^verbatim>\<open>Debug\<close>);
  the transport, fillers and wallets behind the provider; the parsing of arguments and the wording
  of what the examples print; the web framework's layers; derived serialisers other than those
  with custom field code; \<^verbatim>\<open>std_hash\<close>; code under the feature \<^verbatim>\<open>arbitrary\<close>; tests; the
  Solidity and TypeScript SDKs.
\<close>

section \<open>From validators to a client\<close>

text \<open>
  What a validator publishes for a receipt: it signs the receipt's hash, and the signed value
  becomes a timestamped attestation without the receipt.
\<close>

definition validator_attestation ::
    "crates \<Rightarrow> ('sig, 'err) alloy_signer \<Rightarrow> timestamp \<Rightarrow> receipt
      \<Rightarrow> ('err + 'sig timestamped_headless_attestation) run" where
  "validator_attestation K S t r =
     map_ok (map_ok (\<lambda>s. timestamped_from_attestation (indexed_new t (attestation_from_signed s))))
       (signer_sign S (hash_receipt K) r)"

text \<open>The verifiable log a client receives for one log of the receipt.\<close>

definition verifiable_log_of ::
    "receipt \<Rightarrow> u64 \<Rightarrow> 'sig timestamped_headless_attestation list \<Rightarrow> 'sig verifiable_log" where
  "verifiable_log_of r i atts =
     \<lparr>inner = (to_rpc_format (logs r ! unat i) (receipt_tx_hash r))\<lparr>rl_log_index := Some i\<rparr>,
      pod_metadata = \<lparr>attestations = atts, vl_receipt = r\<rparr>\<rparr>"

lemma verifiable_log_of_simps [simp]:
  "rl_log_index (inner (verifiable_log_of r i atts)) = Some i"
  "rl_inner (inner (verifiable_log_of r i atts)) = logs r ! unat i"
  "attestations (pod_metadata (verifiable_log_of r i atts)) = atts"
  "vl_receipt (pod_metadata (verifiable_log_of r i atts)) = r"
  by (simp_all add: verifiable_log_of_def to_rpc_format_def)

lemma validator_attestation_signature:
  assumes "hash_receipt K r = Inr root" "sign_hash_sync S root = Inr sig"
    and "validator_attestation K S t r = Inr (Inr att)"
  shows "ta_signature att = sig"
  using assms
  by (auto simp: validator_attestation_def signer_sign_def timestamped_from_attestation_def
      indexed_new_def attestation_from_signed_def)

text \<open>
  C9. End to end: when validators of the committee, enough for the quorum, attest a receipt,
  a client that is handed one of its logs with their attestations accepts it, can generate
  the proof of the log, and anyone with the receipt's hash accepts that proof.
\<close>

theorem attested_log_end_to_end:
  assumes root: "hash_receipt K r = Inr root"
    and signers: "\<And>S. S \<in> set Ss \<Longrightarrow> signer_address S |\<in>| validators c
      \<and> (\<exists>sig. sign_hash_sync S root = Inr sig \<and> recover sig root = Inr (signer_address S))"
    and quorum: "quorum_size c \<le> card (signer_address ` set Ss)"
    and atts: "map (\<lambda>S. validator_attestation K S t r) Ss = map (\<lambda>a. Inr (Inr a)) atts"
    and i: "unat i < length (logs r)"
  shows "vl_verify K recover (verifiable_log_of r i atts) c = Inr (Inr ())
    \<and> (\<exists>pf. vl_generate_proof K (verifiable_log_of r i atts) = Inr (Some pf)
        \<and> vl_verify_proof K (verifiable_log_of r i atts) root pf)"
proof
  have "signer_address S |\<in>| validators c
      \<and> (\<exists>att \<in> set atts. recover (ta_signature att) root = Inr (signer_address S))" if S: "S \<in> set Ss" for S
  proof -
    from S atts have "validator_attestation K S t r \<in> set (map (\<lambda>a. Inr (Inr a)) atts)"
      by (metis (no_types, lifting) image_eqI list.set_map)
    then obtain att where "att \<in> set atts" "validator_attestation K S t r = Inr (Inr att)" by auto
    with signers [OF S] validator_attestation_signature [OF root] show ?thesis by metis
  qed
  then have "signer_address ` set Ss \<subseteq> {a. a |\<in>| validators c
      \<and> (\<exists>att \<in> set atts. recover (ta_signature att) root = Inr a)}" by blast
  moreover have "finite {a. a |\<in>| validators c \<and> (\<exists>att \<in> set atts. recover (ta_signature att) root = Inr a)}"
    by (rule finite_subset [of _ "fset (validators c)"]) auto
  ultimately have "quorum_size c \<le> card {a. a |\<in>| validators c
      \<and> (\<exists>att \<in> set atts. recover (ta_signature att) root = Inr a)}"
    using quorum card_mono le_trans by blast
  then show "vl_verify K recover (verifiable_log_of r i atts) c = Inr (Inr ())"
    using root by (simp add: vl_verify_attested attested_def)
  show "\<exists>pf. vl_generate_proof K (verifiable_log_of r i atts) = Inr (Some pf)
      \<and> vl_verify_proof K (verifiable_log_of r i atts) root pf"
    using log_hash_proof [OF i, of K] root
    by (auto simp: vl_generate_proof_def vl_verify_proof_def get_leaf_def)
qed

text \<open>A sample: two validators, whose signature is their address.\<close>

definition sample_validator :: "address \<Rightarrow> (address, unit) alloy_signer" where
  "sample_validator a = \<lparr>sign_hash_sync = (\<lambda>h. Inr a), signer_address = a\<rparr>"

definition sample_attestation :: "address \<Rightarrow> address timestamped_headless_attestation" where
  "sample_attestation a = \<lparr>ta_timestamp = Timestamp 5, ta_public_key = a, ta_signature = a\<rparr>"

theorem attested_log_end_to_end_witness:
  "vl_verify tiny_crates sample_signer
     (verifiable_log_of sample_receipt 0 [sample_attestation 1, sample_attestation 2])
     (committee_new [1, 2, 3] 2) = Inr (Inr ())"
proof -
  have "validator_attestation tiny_crates (sample_validator a) (Timestamp 5) sample_receipt
      = Inr (Inr (sample_attestation a))" for a
    by (simp add: validator_attestation_def signer_sign_def sample_receipt_hash sample_validator_def
        timestamped_from_attestation_def indexed_new_def attestation_from_signed_def sample_attestation_def)
  moreover have "signer_address S |\<in>| validators (committee_new [1, 2, 3] 2)
      \<and> (\<exists>sig. sign_hash_sync S 216 = Inr sig \<and> sample_signer sig 216 = Inr (signer_address S))"
    if "S \<in> set [sample_validator 1, sample_validator 2]" for S
    using that by (auto simp: sample_validator_def committee_new_def sample_signer_def)
  from attested_log_end_to_end [where recover = sample_signer and c = "committee_new [1, 2, 3] 2"
      and Ss = "[sample_validator 1, sample_validator 2]" and t = "Timestamp 5" and i = 0
      and atts = "[sample_attestation 1, sample_attestation 2]", OF sample_receipt_hash this]
    calculation sample_receipt_log
  show ?thesis by (simp add: sample_validator_def committee_new_def)
qed

end
